(* ===== verification/Prelude.thy ===== *)
theory Prelude
  imports Main "HOL-Library.AList" "HOL-Library.Sublist"
begin

text \<open>
  The library shared by all components: error results (a JavaScript \<open>throw\<close> is \<open>Inl\<close>),
  optional timestamps with JavaScript truthiness, insertion-ordered tables (a \<open>Map\<close> or a
  \<open>Record<string, T>\<close> is an association list, updated in place and appended at the end, as
  \<open>AList.update\<close> does), and the lemma collections the component theories extend.
\<close>

named_theorems guard_simps \<open>what a successful guarded operation says about its guards\<close>
named_theorems frame_simps \<open>fields an operation leaves alone\<close>
named_theorems table_simps \<open>lookups in updated tables\<close>

section \<open>Results\<close>

text \<open>\<open>bindR\<close> is the sequencing of two statements of which the first may throw.\<close>

definition bindR :: "'e + 'a \<Rightarrow> ('a \<Rightarrow> 'e + 'b) \<Rightarrow> 'e + 'b" where
  "bindR m f = (case m of Inl e \<Rightarrow> Inl e | Inr x \<Rightarrow> f x)"

text \<open>\<open>ensure b e\<close> is \<open>if (!b) throw e\<close>.\<close>

definition ensure :: "bool \<Rightarrow> 'e \<Rightarrow> 'e + unit" where
  "ensure b e = (if b then Inr () else Inl e)"

definition is_ok :: "'e + 'a \<Rightarrow> bool" where
  "is_ok m = (case m of Inl _ \<Rightarrow> False | Inr _ \<Rightarrow> True)"

lemma bindR_simps [simp]:
  "bindR (Inl e) f = Inl e"
  "bindR (Inr x) f = f x"
  by (simp_all add: bindR_def)

lemma bindR_Inr_iff [guard_simps]: "bindR m f = Inr y \<longleftrightarrow> (\<exists>x. m = Inr x \<and> f x = Inr y)"
  by (cases m) auto

lemma bindR_Inl_iff: "bindR m f = Inl e \<longleftrightarrow> m = Inl e \<or> (\<exists>x. m = Inr x \<and> f x = Inl e)"
  by (cases m) auto

lemma ensure_Inr_iff [guard_simps]: "ensure b e = Inr u \<longleftrightarrow> b"
  by (simp add: ensure_def)

lemma ensure_Inl_iff: "ensure b e = Inl e' \<longleftrightarrow> \<not> b \<and> e' = e"
  by (auto simp: ensure_def)

lemma ensure_simps [simp]: "ensure True e = Inr ()" "ensure False e = Inl e"
  by (simp_all add: ensure_def)

lemma is_ok_simps [simp]: "is_ok (Inl e) = False" "is_ok (Inr x) = True"
  by (simp_all add: is_ok_def)

lemma is_ok_iff: "is_ok m \<longleftrightarrow> (\<exists>x. m = Inr x)"
  by (cases m) auto

text \<open>\<open>mapR f xs\<close> is \<open>xs.map(f)\<close> with a callback that may throw.\<close>

fun mapR :: "('a \<Rightarrow> 'e + 'b) \<Rightarrow> 'a list \<Rightarrow> 'e + 'b list" where
  "mapR f [] = Inr []"
| "mapR f (x # xs) = bindR (f x) (\<lambda>y. bindR (mapR f xs) (\<lambda>ys. Inr (y # ys)))"

lemma mapR_Inr_iff [guard_simps]:
  "mapR f xs = Inr ys \<longleftrightarrow> list_all2 (\<lambda>x y. f x = Inr y) xs ys"
proof (induction xs arbitrary: ys)
  case Nil
  then show ?case by auto
next
  case (Cons x xs)
  then show ?case by (auto simp: bindR_Inr_iff list_all2_Cons1)
qed

section \<open>Optional timestamps\<close>

text \<open>
  \<open>truthy t\<close> is JavaScript's \<open>if (t)\<close> on an optional number: \<open>undefined\<close> and \<open>0\<close> are false.
\<close>

definition truthy :: "int option \<Rightarrow> bool" where
  "truthy t = (case t of None \<Rightarrow> False | Some n \<Rightarrow> n \<noteq> 0)"

text \<open>\<open>t ?? d\<close>: only \<open>undefined\<close> takes the default, \<open>0\<close> does not.\<close>

definition coalesce :: "'a option \<Rightarrow> 'a \<Rightarrow> 'a" where
  "coalesce t d = (case t of None \<Rightarrow> d | Some n \<Rightarrow> n)"

lemma truthy_simps [simp]: "truthy None = False" "truthy (Some n) = (n \<noteq> 0)"
  by (simp_all add: truthy_def)

lemma coalesce_simps [simp]: "coalesce None d = d" "coalesce (Some n) d = n"
  by (simp_all add: coalesce_def)

text \<open>No stored timestamp is 0: what a clock that reads after 1970 guarantees.\<close>

definition ts_ok :: "int option \<Rightarrow> bool" where
  "ts_ok t = (t \<noteq> Some 0)"

lemma ts_ok_simps [simp]: "ts_ok None" "ts_ok (Some n) = (n \<noteq> 0)"
  by (simp_all add: ts_ok_def)

lemma truthy_ts_ok: "ts_ok t \<Longrightarrow> truthy t = (t \<noteq> None)"
  by (cases t) auto

section \<open>Insertion-ordered tables\<close>

type_synonym ('k, 'v) table = "('k \<times> 'v) list"

definition vals :: "('k, 'v) table \<Rightarrow> 'v list" where
  "vals t = map snd t"

definition keys :: "('k, 'v) table \<Rightarrow> 'k list" where
  "keys t = map fst t"

text \<open>Mutation of every value, of one value, and deletion of the entries a loop rejects.\<close>

definition map_vals :: "('v \<Rightarrow> 'v) \<Rightarrow> ('k, 'v) table \<Rightarrow> ('k, 'v) table" where
  "map_vals f t = map (apsnd f) t"

definition keep :: "('k \<Rightarrow> 'v \<Rightarrow> bool) \<Rightarrow> ('k, 'v) table \<Rightarrow> ('k, 'v) table" where
  "keep P t = filter (\<lambda>(k, v). P k v) t"

definition wf_table :: "('k, 'v) table \<Rightarrow> bool" where
  "wf_table t = distinct (keys t)"

lemma wf_table_Nil [simp]: "wf_table []"
  by (simp add: wf_table_def keys_def)

lemma wf_table_update [simp]: "wf_table t \<Longrightarrow> wf_table (AList.update k v t)"
  by (simp add: wf_table_def keys_def distinct_update)

lemma wf_table_delete [simp]: "wf_table t \<Longrightarrow> wf_table (AList.delete k t)"
  by (simp add: wf_table_def keys_def distinct_delete)

lemma wf_table_map_vals [simp]: "wf_table (map_vals f t) = wf_table t"
  by (simp add: wf_table_def keys_def map_vals_def comp_def)

lemma wf_table_keep [simp]: "wf_table t \<Longrightarrow> wf_table (keep P t)"
  by (simp add: wf_table_def keys_def keep_def distinct_map_filter)

lemma lookup_update [table_simps, simp]:
  "map_of (AList.update k v t) k' = (if k' = k then Some v else map_of t k')"
  by (auto simp: update_conv)

lemma lookup_delete [table_simps, simp]:
  "map_of (AList.delete k t) k' = (if k' = k then None else map_of t k')"
  by (auto simp: delete_conv)

lemma lookup_map_vals [table_simps, simp]:
  "map_of (map_vals f t) k = map_option f (map_of t k)"
  by (induction t) (auto simp: map_vals_def)

lemma lookup_keep_None [table_simps]: "map_of t k = None \<Longrightarrow> map_of (keep P t) k = None"
  by (induction t) (auto simp: keep_def split: if_splits)

lemma lookup_keep [table_simps]:
  assumes "wf_table t"
  shows "map_of (keep P t) k =
    (case map_of t k of None \<Rightarrow> None | Some v \<Rightarrow> if P k v then Some v else None)"
  using assms
proof (induction t)
  case Nil
  then show ?case by (simp add: keep_def)
next
  case (Cons a t)
  obtain k' v' where a: "a = (k', v')" by force
  have wf: "wf_table t" and notin: "k' \<notin> set (keys t)"
    using Cons.prems by (auto simp: wf_table_def keys_def a)
  have "map_of t k' = None"
    using notin by (simp add: keys_def map_of_eq_None_iff)
  then have "map_of (keep P t) k' = None" by (rule lookup_keep_None)
  with Cons.IH [OF wf] show ?case by (auto simp: keep_def a)
qed

lemma set_vals_iff:
  assumes "wf_table t"
  shows "v \<in> set (vals t) \<longleftrightarrow> (\<exists>k. map_of t k = Some v)"
  using assms
  by (force simp: vals_def wf_table_def keys_def dest: map_of_SomeD intro: map_of_is_SomeI)

lemma lookup_in_vals: "map_of t k = Some v \<Longrightarrow> v \<in> set (vals t)"
  by (force simp: vals_def dest: map_of_SomeD)

lemma vals_update_subset: "set (vals (AList.update k v t)) \<subseteq> insert v (set (vals t))"
  by (induction t) (auto simp: vals_def)

lemma vals_delete_subset: "set (vals (AList.delete k t)) \<subseteq> set (vals t)"
  by (auto simp: vals_def AList.delete_eq)

lemma vals_keep_subset: "set (vals (keep P t)) \<subseteq> set (vals t)"
  by (auto simp: vals_def keep_def)

lemma vals_map_vals [simp]: "vals (map_vals f t) = map f (vals t)"
  by (simp add: vals_def map_vals_def)

lemma length_update: "length (AList.update k v t) \<le> Suc (length t)"
  by (induction t) auto

lemma length_keep: "length (keep P t) \<le> length t"
  by (simp add: keep_def)

lemma card_keys: "wf_table t \<Longrightarrow> card (set (keys t)) = length t"
  by (metis distinct_card keys_def length_map wf_table_def)

lemma keys_update [simp]: "set (keys (AList.update k v t)) = insert k (set (keys t))"
  by (simp add: keys_def dom_update)

lemma find_SomeD: "List.find P xs = Some x \<Longrightarrow> P x \<and> x \<in> set xs"
  by (auto simp: find_Some_iff)

lemma find_unique:
  assumes "x \<in> set xs" "P x" "\<And>y. y \<in> set xs \<Longrightarrow> P y \<Longrightarrow> y = x"
  shows "List.find P xs = Some x"
proof (cases "List.find P xs")
  case None
  with assms(1,2) show ?thesis by (auto simp: find_None_iff)
next
  case (Some y)
  with assms(3) show ?thesis by (auto dest: find_SomeD)
qed

text \<open>Assignment to the fields of one stored object, when it is there.\<close>

definition modify :: "'k \<Rightarrow> ('v \<Rightarrow> 'v) \<Rightarrow> ('k, 'v) table \<Rightarrow> ('k, 'v) table" where
  "modify k f t = (case map_of t k of None \<Rightarrow> t | Some v \<Rightarrow> AList.update k (f v) t)"

lemma wf_table_modify [simp]: "wf_table t \<Longrightarrow> wf_table (modify k f t)"
  by (simp add: modify_def split: option.split)

lemma lookup_modify [table_simps, simp]:
  "map_of (modify k f t) k' = (if k' = k then map_option f (map_of t k) else map_of t k')"
  by (auto simp: modify_def split: option.split)

lemma set_update_keys: "map_of t k = Some v \<Longrightarrow> length (AList.update k w t) = length t"
  by (induction t) auto

lemma length_modify [simp]: "length (modify k f t) = length t"
  by (simp add: modify_def set_update_keys split: option.split)

lemma keys_keep_subset: "set (keys (keep P t)) \<subseteq> set (keys t)"
  by (auto simp: keys_def keep_def)

lemma keys_map_vals [simp]: "keys (map_vals f t) = keys t"
  by (simp add: keys_def map_vals_def comp_def)

lemma length_map_vals [simp]: "length (map_vals f t) = length t"
  by (simp add: map_vals_def)

lemma distinct_sorted_wrt: "sorted_wrt R xs \<Longrightarrow> (\<And>x. \<not> R x x) \<Longrightarrow> distinct xs"
  by (induction xs) auto

lemma list_all2_back: "list_all2 R xs ys \<Longrightarrow> y \<in> set ys \<Longrightarrow> \<exists>x \<in> set xs. R x y"
  by (induction rule: list_all2_induct) auto

section \<open>Numbers\<close>

text \<open>\<open>Math.min(Math.max(x, lo), hi)\<close>\<close>

definition clamp :: "int \<Rightarrow> int \<Rightarrow> int \<Rightarrow> int" where
  "clamp lo hi x = min (max x lo) hi"

lemma clamp_bounds: "lo \<le> hi \<Longrightarrow> lo \<le> clamp lo hi x \<and> clamp lo hi x \<le> hi"
  by (auto simp: clamp_def)

lemma clamp_id: "lo \<le> x \<Longrightarrow> x \<le> hi \<Longrightarrow> clamp lo hi x = x"
  by (simp add: clamp_def)

end
