(* ===== verification/Js_Text.thy ===== *)
theory Js_Text
  imports Prelude
begin

text \<open>
  JavaScript strings and dynamic values. A string is a list of UTF-16 code units; here each unit
  is a \<open>char\<close>, so the text is in the Latin-1 range, where \<open>length\<close>, \<open>trim\<close>, \<open>toLowerCase\<close> and
  \<open>Buffer.byteLength(s, "utf8")\<close> are the ones of the language. Regular expressions of the
  source that test a whole string against a character class with a length range are \<open>re_class\<close>.
\<close>

section \<open>Characters\<close>

definition code :: "char \<Rightarrow> nat" where
  "code c = of_char c"

definition between :: "nat \<Rightarrow> nat \<Rightarrow> char \<Rightarrow> bool" where
  "between lo hi c = (lo \<le> code c \<and> code c \<le> hi)"

definition is_digit :: "char \<Rightarrow> bool" where "is_digit c = between 48 57 c"
definition is_upper :: "char \<Rightarrow> bool" where "is_upper c = between 65 90 c"
definition is_lower :: "char \<Rightarrow> bool" where "is_lower c = between 97 122 c"
definition is_alnum :: "char \<Rightarrow> bool" where "is_alnum c = (is_digit c \<or> is_upper c \<or> is_lower c)"

text \<open>The class \<open>\s\<close> and the set \<open>trim\<close> removes, within Latin-1.\<close>

definition is_ws :: "char \<Rightarrow> bool" where
  "is_ws c = (between 9 13 c \<or> code c = 32 \<or> code c = 160)"

text \<open>\<open>[\0\r\n]\<close>\<close>

definition is_nul_cr_lf :: "char \<Rightarrow> bool" where
  "is_nul_cr_lf c = (code c = 0 \<or> code c = 13 \<or> code c = 10)"

text \<open>\<open>toLowerCase\<close> and \<open>toUpperCase\<close> on one unit: the sharp s becomes two letters; the two units
  whose capital lies outside Latin-1 (181 and 255) are left alone.\<close>

definition lower_char :: "char \<Rightarrow> char" where
  "lower_char c = (if is_upper c \<or> between 192 222 c \<and> code c \<noteq> 215 then char_of (code c + 32) else c)"

definition upper_text :: "char \<Rightarrow> string" where
  "upper_text c = (if code c = 223 then ''SS''
     else if is_lower c \<or> between 224 254 c \<and> code c \<noteq> 247 then [char_of (code c - 32)] else [c])"

definition lower :: "string \<Rightarrow> string" where "lower s = map lower_char s"
definition upper :: "string \<Rightarrow> string" where "upper s = concat (map upper_text s)"

section \<open>String operations\<close>

text \<open>\<open>s.split(c)\<close> for a one-character separator: never empty.\<close>

fun split_on :: "char \<Rightarrow> string \<Rightarrow> string list" where
  "split_on c [] = [[]]"
| "split_on c (x # xs) =
    (if x = c then [] # split_on c xs
     else (case split_on c xs of [] \<Rightarrow> [[x]] | y # ys \<Rightarrow> (x # y) # ys))"

text \<open>\<open>xs.join(sep)\<close>\<close>

fun join :: "string \<Rightarrow> string list \<Rightarrow> string" where
  "join sep [] = []"
| "join sep [x] = x"
| "join sep (x # y # ys) = x @ sep @ join sep (y # ys)"

definition trim :: "string \<Rightarrow> string" where
  "trim s = rev (dropWhile is_ws (rev (dropWhile is_ws s)))"

definition starts_with :: "string \<Rightarrow> string \<Rightarrow> bool" where
  "starts_with s p = (take (length p) s = p)"

definition ends_with :: "string \<Rightarrow> string \<Rightarrow> bool" where
  "ends_with s p = starts_with (rev s) (rev p)"

text \<open>\<open>s.replace(/\/+$/, "")\<close>\<close>

definition strip_slashes :: "string \<Rightarrow> string" where
  "strip_slashes s = rev (dropWhile (\<lambda>c. c = CHR ''/'') (rev s))"

text \<open>\<open>/^[class]{lo,hi}$/.test(s)\<close> and \<open>/^[head][class]{lo,hi}$/.test(s)\<close>\<close>

definition re_class :: "(char \<Rightarrow> bool) \<Rightarrow> nat \<Rightarrow> nat \<Rightarrow> string \<Rightarrow> bool" where
  "re_class P lo hi s = (list_all P s \<and> lo \<le> length s \<and> length s \<le> hi)"

definition re_head_class :: "(char \<Rightarrow> bool) \<Rightarrow> (char \<Rightarrow> bool) \<Rightarrow> nat \<Rightarrow> nat \<Rightarrow> string \<Rightarrow> bool" where
  "re_head_class H P lo hi s = (case s of [] \<Rightarrow> False | c # cs \<Rightarrow> H c \<and> re_class P lo hi cs)"

text \<open>\<open>Buffer.byteLength(s, "utf8")\<close>: one byte below 128, two up to 255.\<close>

definition utf8_length :: "string \<Rightarrow> nat" where
  "utf8_length s = sum_list (map (\<lambda>c. if code c < 128 then 1 else 2) s)"

section \<open>Lemmas on splitting, joining and trimming\<close>

lemma split_on_nonempty [simp]: "split_on c s \<noteq> []"
  by (induction s) (auto split: list.splits)

lemma join_Cons: "xs \<noteq> [] \<Longrightarrow> join sep (x # xs) = x @ sep @ join sep xs"
  by (cases xs) auto

lemma join_split_on: "join [c] (split_on c s) = s"
proof (induction s)
  case Nil
  then show ?case by simp
next
  case (Cons x s)
  obtain y ys where sp: "split_on c s = y # ys"
    by (cases "split_on c s") auto
  with Cons show ?case
    by (cases ys) auto
qed

lemma split_on_no_sep: "c \<notin> set s \<Longrightarrow> split_on c s = [s]"
  by (induction s) auto

lemma split_on_append: "c \<notin> set s \<Longrightarrow> split_on c (s @ c # t) = s # split_on c t"
  by (induction s) auto

lemma split_on_join:
  "xs \<noteq> [] \<Longrightarrow> (\<And>x. x \<in> set xs \<Longrightarrow> c \<notin> set x) \<Longrightarrow> split_on c (join [c] xs) = xs"
proof (induction xs)
  case Nil
  then show ?case by simp
next
  case (Cons x xs)
  show ?case
  proof (cases "xs = []")
    case True
    with Cons.prems show ?thesis by (simp add: split_on_no_sep)
  next
    case False
    then have "split_on c (join [c] (x # xs)) = split_on c (x @ c # join [c] xs)"
      by (simp add: join_Cons)
    also have "\<dots> = x # split_on c (join [c] xs)"
      using Cons.prems by (simp add: split_on_append)
    also have "\<dots> = x # xs"
      using Cons False by simp
    finally show ?thesis .
  qed
qed

lemma split_on_append_general: "split_on c (s @ c # t) = split_on c s @ split_on c t"
proof (induction s)
  case Nil
  then show ?case by simp
next
  case (Cons x s)
  then show ?case
    by (cases "split_on c s") auto
qed

lemma join_append:
  "xs \<noteq> [] \<Longrightarrow> ys \<noteq> [] \<Longrightarrow> join sep (xs @ ys) = join sep xs @ sep @ join sep ys"
proof (induction xs)
  case Nil
  then show ?case by simp
next
  case (Cons x xs)
  then show ?case by (cases "xs = []") (auto simp: join_Cons)
qed

lemma split_on_parts: "x \<in> set (split_on c s) \<Longrightarrow> c \<notin> set x"
proof (induction s arbitrary: x)
  case Nil
  then show ?case by simp
next
  case (Cons a s)
  then show ?case
    by (cases "split_on c s") (auto split: if_splits)
qed

lemma set_split_on: "x \<in> set (split_on c s) \<Longrightarrow> set x \<subseteq> set s"
proof (induction s arbitrary: x)
  case Nil
  then show ?case by simp
next
  case (Cons a s)
  show ?case
  proof (cases "split_on c s")
    case Nil
    then show ?thesis by simp
  next
    case (Cons y ys)
    with Cons.prems Cons.IH show ?thesis
      by (fastforce split: if_splits)
  qed
qed

lemma starts_with_append [simp]: "starts_with (p @ s) p"
  by (simp add: starts_with_def)

lemma starts_with_iff: "starts_with s p \<longleftrightarrow> (\<exists>r. s = p @ r)"
  by (auto simp: starts_with_def) (metis append_take_drop_id)

lemma starts_with_Nil [simp]: "starts_with s []"
  by (simp add: starts_with_def)

lemma starts_with_slash: "starts_with s ''/'' \<longleftrightarrow> (\<exists>r. s = CHR ''/'' # r)"
  by (auto simp: starts_with_iff)

lemma dropWhile_id: "(xs = [] \<or> \<not> P (hd xs)) \<Longrightarrow> dropWhile P xs = xs"
  by (cases xs) auto

lemma trim_id:
  assumes "s = [] \<or> \<not> is_ws (hd s) \<and> \<not> is_ws (last s)"
  shows "trim s = s"
  using assms by (auto simp: trim_def dropWhile_id hd_rev)

lemma re_class_chars: "re_class P lo hi s \<Longrightarrow> c \<in> set s \<Longrightarrow> P c"
  by (auto simp: re_class_def list_all_iff)

section \<open>Dynamic values\<close>

text \<open>
  A JSON or \<open>unknown\<close> value. A number is an integer-valued double below \<open>10^21\<close> in magnitude
  (\<open>NInt\<close>, printed in decimal), or any other double, kept by its printed form (\<open>NOther\<close>:
  fractions, \<open>NaN\<close>, infinities, huge integers; every range check of the source rejects them
  together with the non-integers).
\<close>

datatype jnum = NInt int | NOther string

datatype jval =
    JUndef
  | JNull
  | JBool bool
  | JNum jnum
  | JStr string
  | JArr "jval list"
  | JObj "(string \<times> jval) list"

definition NaN :: jnum where "NaN = NOther ''NaN''"

text \<open>\<open>obj.key\<close>: \<open>undefined\<close> when absent.\<close>

definition field :: "(string \<times> jval) list \<Rightarrow> string \<Rightarrow> jval" where
  "field fs k = (case map_of fs k of None \<Rightarrow> JUndef | Some v \<Rightarrow> v)"

text \<open>\<open>v ?? d\<close>\<close>

definition nullish :: "jval \<Rightarrow> bool" where
  "nullish v = (v = JUndef \<or> v = JNull)"

definition or_default :: "jval \<Rightarrow> jval \<Rightarrow> jval" where
  "or_default v d = (if nullish v then d else v)"

fun digit_char :: "nat \<Rightarrow> char" where
  "digit_char n = char_of (48 + n)"

fun nat_text :: "nat \<Rightarrow> string" where
  "nat_text n = (if n < 10 then [digit_char n] else nat_text (n div 10) @ [digit_char (n mod 10)])"

declare nat_text.simps [simp del]

definition int_text :: "int \<Rightarrow> string" where
  "int_text i = (if i < 0 then CHR ''-'' # nat_text (nat (- i)) else nat_text (nat i))"

fun num_text :: "jnum \<Rightarrow> string" where
  "num_text (NInt i) = int_text i"
| "num_text (NOther s) = s"

text \<open>\<open>String(v)\<close>; inside an array \<open>null\<close> and \<open>undefined\<close> print as nothing.\<close>

fun str_of :: "jval \<Rightarrow> string" and elem_text :: "jval \<Rightarrow> string" where
  "str_of JUndef = ''undefined''"
| "str_of JNull = ''null''"
| "str_of (JBool b) = (if b then ''true'' else ''false'')"
| "str_of (JNum n) = num_text n"
| "str_of (JStr s) = s"
| "str_of (JArr vs) = join '','' (map elem_text vs)"
| "str_of (JObj fs) = ''[object Object]''"
| "elem_text JUndef = []"
| "elem_text JNull = []"
| "elem_text (JBool b) = (if b then ''true'' else ''false'')"
| "elem_text (JNum n) = num_text n"
| "elem_text (JStr s) = s"
| "elem_text (JArr vs) = join '','' (map elem_text vs)"
| "elem_text (JObj fs) = ''[object Object]''"

text \<open>\<open>String(v ?? "")\<close>\<close>

definition str_or_empty :: "jval \<Rightarrow> string" where
  "str_or_empty v = str_of (or_default v (JStr []))"

text \<open>Digits as a number, and the value of a signed decimal integer literal.\<close>

definition digits_val :: "string \<Rightarrow> nat" where
  "digits_val s = foldl (\<lambda>n c. 10 * n + (code c - 48)) 0 s"

fun signed_int :: "string \<Rightarrow> int option" where
  "signed_int s =
    (let (neg, ds) = (case s of
         [] \<Rightarrow> (False, [])
       | c # cs \<Rightarrow> if c = CHR ''-'' then (True, cs) else if c = CHR ''+'' then (False, cs) else (False, s))
     in if ds \<noteq> [] \<and> list_all is_digit ds
        then Some (if neg then - int (digits_val ds) else int (digits_val ds)) else None)"

declare signed_int.simps [simp del]

text \<open>
  \<open>Number(text)\<close>: blank text is 0, a signed decimal integer is itself. The other numeric literals
  (fractions, exponents, hexadecimal) go through \<open>lit\<close>, the double the runtime's number grammar
  gives them, \<open>NaN\<close> when the text is none of them.
\<close>

definition num_of_text :: "(string \<Rightarrow> jnum) \<Rightarrow> string \<Rightarrow> jnum" where
  "num_of_text lit s = (let t = trim s in
     if t = [] then NInt 0 else (case signed_int t of Some i \<Rightarrow> NInt i | None \<Rightarrow> lit t))"

fun num_of :: "(string \<Rightarrow> jnum) \<Rightarrow> jval \<Rightarrow> jnum" where
  "num_of lit JUndef = NaN"
| "num_of lit JNull = NInt 0"
| "num_of lit (JBool b) = NInt (if b then 1 else 0)"
| "num_of lit (JNum n) = n"
| "num_of lit (JStr s) = num_of_text lit s"
| "num_of lit (JArr vs) = num_of_text lit (str_of (JArr vs))"
| "num_of lit (JObj fs) = NaN"

lemma str_or_empty_JStr [simp]: "str_or_empty (JStr s) = s"
  by (simp add: str_or_empty_def or_default_def nullish_def)

end
