(* ===== verification/Limiter.thy ===== *)
theory Limiter
  imports Js_Text
begin

text \<open>
  The sliding-window request limiter that four places of the code build: \<^verbatim>\<open>rateLimit\<close>
  (\<^verbatim>\<open>src/index.ts\<close>), \<^verbatim>\<open>authLimiter\<close> (\<^verbatim>\<open>src/auth/oauth.ts\<close>), \<^verbatim>\<open>pairStartLimiter\<close>
  (\<^verbatim>\<open>src/agent/router.ts\<close>) and \<^verbatim>\<open>loginLimiter\<close> (\<^verbatim>\<open>src/admin/router.ts\<close>). The table maps the caller's
  address to the times of its accepted requests; the first three empty the table when it holds
  more than \<open>cap\<close> addresses.
\<close>

type_synonym hits = "(string, int list) table"

definition recent :: "int \<Rightarrow> int \<Rightarrow> int list \<Rightarrow> int list" where
  "recent windowMs now ts = filter (\<lambda>t. now - t < windowMs) ts"

definition hits_of :: "hits \<Rightarrow> string \<Rightarrow> int list" where
  "hits_of hits key = coalesce (map_of hits key) []"

definition limiter :: "nat \<Rightarrow> int \<Rightarrow> nat option \<Rightarrow> hits \<Rightarrow> string \<Rightarrow> int \<Rightarrow> hits \<times> bool" where
  "limiter mx windowMs cap hits key now =
    (let arr = recent windowMs now (hits_of hits key) in
     if mx \<le> length arr then (hits, False)
     else (let hits' = AList.update key (arr @ [now]) hits in
       (case cap of
          None \<Rightarrow> (hits', True)
        | Some c \<Rightarrow> (if c < length hits' then [] else hits', True))))"

definition rateLimit :: "nat \<Rightarrow> hits \<Rightarrow> string \<Rightarrow> int \<Rightarrow> hits \<times> bool" where
  "rateLimit maxPerMin = limiter maxPerMin 60000 (Some 10000)"

definition authLimiter :: "nat \<Rightarrow> int \<Rightarrow> hits \<Rightarrow> string \<Rightarrow> int \<Rightarrow> hits \<times> bool" where
  "authLimiter mx windowMs = limiter mx windowMs (Some 5000)"

definition pairStartLimiter :: "hits \<Rightarrow> string \<Rightarrow> int \<Rightarrow> hits \<times> bool" where
  "pairStartLimiter = limiter 5 (10 * 60000) (Some 10000)"

definition loginLimiter :: "hits \<Rightarrow> string \<Rightarrow> int \<Rightarrow> hits \<times> bool" where
  "loginLimiter = limiter 10 (5 * 60000) None"

text \<open>The requests let through, in order, of a sequence of (address, time) requests.\<close>

fun accepted :: "(hits \<Rightarrow> string \<Rightarrow> int \<Rightarrow> hits \<times> bool) \<Rightarrow> hits \<Rightarrow> (string \<times> int) list \<Rightarrow> (string \<times> int) list" where
  "accepted lim hits [] = []"
| "accepted lim hits ((key, now) # rs) =
    (let (hits', ok) = lim hits key now in
     (if ok then [(key, now)] else []) @ accepted lim hits' rs)"

text \<open>Accepted requests of one address in the window of length \<open>w\<close> that ends at \<open>t\<close>.\<close>

definition in_window :: "int \<Rightarrow> string \<Rightarrow> int \<Rightarrow> (string \<times> int) list \<Rightarrow> (string \<times> int) list" where
  "in_window w key t log = filter (\<lambda>(k, s). k = key \<and> t - w < s \<and> s \<le> t) log"

section \<open>The window bound\<close>

definition times_of :: "string \<Rightarrow> (string \<times> int) list \<Rightarrow> int list" where
  "times_of key log = map snd (filter (\<lambda>(k, s). k = key) log)"

definition limiter_inv :: "nat \<Rightarrow> int \<Rightarrow> hits \<Rightarrow> (string \<times> int) list \<Rightarrow> int \<Rightarrow> bool" where
  "limiter_inv mx w hits log now =
    (wf_table hits \<and> (\<forall>(k, s) \<in> set log. s \<le> now) \<and>
     (\<forall>k t. now \<le> t \<longrightarrow> recent w t (hits_of hits k) = recent w t (times_of k log)) \<and>
     (\<forall>k t. length (in_window w k t log) \<le> mx))"

lemma recent_recent: "now \<le> t \<Longrightarrow> recent w t (recent w now ts) = recent w t ts"
  by (induction ts) (auto simp: recent_def)

lemma recent_Nil [simp]: "recent w t [] = []"
  by (simp add: recent_def)

lemma recent_append [simp]: "recent w t (xs @ ys) = recent w t xs @ recent w t ys"
  by (simp add: recent_def)

lemma times_of_append [simp]: "times_of k (xs @ ys) = times_of k xs @ times_of k ys"
  by (simp add: times_of_def)

lemma hits_of_update: "hits_of (AList.update key v h) k = (if k = key then v else hits_of h k)"
  by (simp add: hits_of_def)

lemma in_window_length_recent:
  assumes "\<forall>(k, s) \<in> set log. s \<le> now"
  shows "length (in_window w key now log) = length (recent w now (times_of key log))"
  using assms
  by (induction log) (auto simp: in_window_def recent_def times_of_def)

lemma in_window_mono:
  assumes "\<forall>(k, s) \<in> set log. s \<le> now" "now \<le> t"
  shows "length (in_window w key t log) \<le> length (in_window w key now log)"
  using assms
  by (induction log) (auto simp: in_window_def)

lemma limiter_inv_mono: "limiter_inv mx w h log now \<Longrightarrow> now \<le> now' \<Longrightarrow> limiter_inv mx w h log now'"
  by (fastforce simp: limiter_inv_def)

lemma limiter_inv_accept:
  assumes inv: "limiter_inv mx w h log now"
    and room: "length (recent w now (hits_of h key)) < mx"
  shows "limiter_inv mx w (AList.update key (recent w now (hits_of h key) @ [now]) h)
           (log @ [(key, now)]) now"
proof -
  let ?log' = "log @ [(key, now)]"
  have past: "\<forall>(k, s) \<in> set log. s \<le> now" and past': "\<forall>(k, s) \<in> set ?log'. s \<le> now"
    and agree: "\<And>k t. now \<le> t \<Longrightarrow> recent w t (hits_of h k) = recent w t (times_of k log)"
    and bound: "\<And>k t. length (in_window w k t log) \<le> mx"
    using inv by (auto simp: limiter_inv_def)
  have at_now: "length (in_window w k now ?log') \<le> mx" for k
  proof (cases "k = key")
    case True
    have "length (in_window w key now log) < mx"
      using room agree [of now key] in_window_length_recent [OF past] by simp
    with True show ?thesis by (simp add: in_window_def)
  next
    case False
    with bound [of k now] show ?thesis by (simp add: in_window_def)
  qed
  have "length (in_window w k t ?log') \<le> mx" for k t
  proof (cases "now \<le> t")
    case True
    with in_window_mono [OF past' True] at_now [of k] show ?thesis
      by (meson order_trans)
  next
    case False
    with bound [of k t] show ?thesis by (simp add: in_window_def)
  qed
  moreover have "recent w t (hits_of (AList.update key (recent w now (hits_of h key) @ [now]) h) k)
      = recent w t (times_of k ?log')" if "now \<le> t" for k t
    using that agree [of t k] recent_recent [OF that, of w "hits_of h key"]
    by (auto simp: hits_of_update times_of_def)
  ultimately show ?thesis
    using inv past' by (auto simp: limiter_inv_def)
qed

lemma limiter_inv_step:
  assumes inv: "limiter_inv mx w h log now"
    and fits: "cap = None \<or> (\<exists>c. cap = Some c \<and> card (insert key (set (keys h))) \<le> c)"
    and step: "limiter mx w cap h key now = (h', ok)"
  shows "limiter_inv mx w h' (log @ (if ok then [(key, now)] else [])) now \<and>
         set (keys h') \<subseteq> insert key (set (keys h))"
proof (cases "mx \<le> length (recent w now (hits_of h key))")
  case True
  with step inv show ?thesis by (auto simp: limiter_def)
next
  case False
  let ?h = "AList.update key (recent w now (hits_of h key) @ [now]) h"
  have inv': "limiter_inv mx w ?h (log @ [(key, now)]) now"
    using limiter_inv_accept [OF inv] False by simp
  have ks: "set (keys ?h) = insert key (set (keys h))"
    by simp
  have "length ?h = card (set (keys ?h))"
    using inv' by (metis card_keys limiter_inv_def)
  with fits ks have "cap = None \<or> (\<exists>c. cap = Some c \<and> length ?h \<le> c)" by simp
  with False step have "h' = ?h \<and> ok"
    by (auto simp: limiter_def Let_def split: option.splits if_splits)
  with inv' ks show ?thesis by simp
qed

lemma accepted_window_gen:
  assumes "limiter_inv mx w h log t0"
    and "sorted (t0 # map snd rs)"
    and "cap = None \<or> (\<exists>c. cap = Some c \<and> card (set (keys h) \<union> fst ` set rs) \<le> c)"
  shows "length (in_window w key t (log @ accepted (limiter mx w cap) h rs)) \<le> mx"
  using assms
proof (induction rs arbitrary: h log t0)
  case Nil
  then show ?case by (simp add: limiter_inv_def)
next
  case (Cons r rs)
  obtain k now where r: "r = (k, now)" by force
  obtain h' ok where step: "limiter mx w cap h k now = (h', ok)" by force
  have le: "t0 \<le> now" and sorted: "sorted (now # map snd rs)"
    using Cons.prems(2) by (auto simp: r)
  have inv: "limiter_inv mx w h log now"
    using Cons.prems(1) le by (rule limiter_inv_mono)
  have sub: "insert k (set (keys h)) \<subseteq> set (keys h) \<union> fst ` set (r # rs)"
    by (auto simp: r)
  have fin: "finite (set (keys h) \<union> fst ` set (r # rs))" by simp
  have "cap = None \<or> (\<exists>c. cap = Some c \<and> card (insert k (set (keys h))) \<le> c)"
    using Cons.prems(3) card_mono [OF fin sub] by (auto intro: order_trans)
  from limiter_inv_step [OF inv this step]
  have inv': "limiter_inv mx w h' (log @ (if ok then [(k, now)] else [])) now"
    and ks: "set (keys h') \<subseteq> insert k (set (keys h))" by auto
  have sub': "set (keys h') \<union> fst ` set rs \<subseteq> set (keys h) \<union> fst ` set (r # rs)"
    using ks by (auto simp: r)
  have "cap = None \<or> (\<exists>c. cap = Some c \<and> card (set (keys h') \<union> fst ` set rs) \<le> c)"
    using Cons.prems(3) card_mono [OF fin sub'] by (auto intro: order_trans)
  from Cons.IH [OF inv' sorted this] show ?case
    by (simp add: r step)
qed

lemma limiter_inv_empty: "limiter_inv mx w [] [] t0"
  by (simp add: limiter_inv_def hits_of_def times_of_def in_window_def)

lemma accepted_window:
  assumes "sorted (map snd rs)"
    and "cap = None \<or> (\<exists>c. cap = Some c \<and> card (fst ` set rs) \<le> c)"
  shows "length (in_window w key t (accepted (limiter mx w cap) [] rs)) \<le> mx"
proof (cases rs)
  case Nil
  then show ?thesis by (simp add: in_window_def)
next
  case (Cons r rs')
  have "sorted (snd r # map snd rs)" using assms(1) Cons by simp
  from accepted_window_gen [OF limiter_inv_empty this, where cap = cap and key = key and t = t] assms(2)
  show ?thesis by (simp add: keys_def)
qed

end
