(* ===== verification/Errors.thy ===== *)
theory Errors
  imports Js_Text
begin

text \<open>
  \<^verbatim>\<open>src/lib/errors.ts\<close>. A thrown value is \<open>OpsError\<close> with its code, or any other \<open>Error\<close> with its
  message. The message and hint of an \<open>OpsError\<close> are prose for the reader and are left out.
\<close>

datatype error_code =
    TARGET_NOT_FOUND
  | TARGET_DISABLED
  | CAPABILITY_DENIED
  | PATH_DENIED
  | SECRET_PATH_DENIED
  | CONTAINER_NOT_ALLOWED
  | SERVICE_NOT_ALLOWED
  | REPO_NOT_ALLOWED
  | DOCKER_ACCESS_DENIED
  | JOURNAL_ACCESS_DENIED
  | SSH_UNAVAILABLE
  | HOST_KEY_MISMATCH
  | COMMAND_TIMEOUT
  | REMOTE_COMMAND_FAILED
  | OUTPUT_LIMIT_EXCEEDED
  | INVALID_ARGUMENT
  | INTERNAL

datatype exn = OpsError error_code | Error string

fun code_text :: "error_code \<Rightarrow> string" where
  "code_text TARGET_NOT_FOUND = ''TARGET_NOT_FOUND''"
| "code_text TARGET_DISABLED = ''TARGET_DISABLED''"
| "code_text CAPABILITY_DENIED = ''CAPABILITY_DENIED''"
| "code_text PATH_DENIED = ''PATH_DENIED''"
| "code_text SECRET_PATH_DENIED = ''SECRET_PATH_DENIED''"
| "code_text CONTAINER_NOT_ALLOWED = ''CONTAINER_NOT_ALLOWED''"
| "code_text SERVICE_NOT_ALLOWED = ''SERVICE_NOT_ALLOWED''"
| "code_text REPO_NOT_ALLOWED = ''REPO_NOT_ALLOWED''"
| "code_text DOCKER_ACCESS_DENIED = ''DOCKER_ACCESS_DENIED''"
| "code_text JOURNAL_ACCESS_DENIED = ''JOURNAL_ACCESS_DENIED''"
| "code_text SSH_UNAVAILABLE = ''SSH_UNAVAILABLE''"
| "code_text HOST_KEY_MISMATCH = ''HOST_KEY_MISMATCH''"
| "code_text COMMAND_TIMEOUT = ''COMMAND_TIMEOUT''"
| "code_text REMOTE_COMMAND_FAILED = ''REMOTE_COMMAND_FAILED''"
| "code_text OUTPUT_LIMIT_EXCEEDED = ''OUTPUT_LIMIT_EXCEEDED''"
| "code_text INVALID_ARGUMENT = ''INVALID_ARGUMENT''"
| "code_text INTERNAL = ''INTERNAL''"

text \<open>\<open>toolErrorPayload\<close>: the code sent to the client and whether the audit calls it a denial.\<close>

fun toolErrorPayload :: "exn \<Rightarrow> error_code \<times> bool" where
  "toolErrorPayload (OpsError c) =
     (c, ends_with (code_text c) ''_DENIED'' \<or> c = TARGET_NOT_FOUND \<or> c = TARGET_DISABLED)"
| "toolErrorPayload (Error msg) = (INTERNAL, False)"

lemma denied_codes:
  "snd (toolErrorPayload e) \<longleftrightarrow>
     e \<in> OpsError ` {TARGET_NOT_FOUND, TARGET_DISABLED, CAPABILITY_DENIED, PATH_DENIED,
        SECRET_PATH_DENIED, DOCKER_ACCESS_DENIED, JOURNAL_ACCESS_DENIED}"
proof (cases e)
  case (OpsError c)
  then show ?thesis
    by (cases c) (simp_all add: ends_with_def starts_with_def)
qed auto

text \<open>The allowlist refusals are no denials for the audit: their codes end in \<open>_NOT_ALLOWED\<close>.\<close>

lemma allowlist_refusals_not_denied:
  "c \<in> {CONTAINER_NOT_ALLOWED, SERVICE_NOT_ALLOWED, REPO_NOT_ALLOWED} \<Longrightarrow>
     \<not> snd (toolErrorPayload (OpsError c))"
  by (auto simp: denied_codes simp del: toolErrorPayload.simps)

end
