(* ===== verification/Target_Config.thy ===== *)
theory Target_Config
  imports Errors
begin

text \<open>
  The target configuration of \<^verbatim>\<open>src/config/targets.ts\<close> (\<open>TargetSchema\<close>, \<open>TargetConfig\<close>) and the
  result of a remote command (\<open>ExecResult\<close> of \<^verbatim>\<open>src/ssh/pool.ts\<close>). The schema's field \<open>id\<close> is
  \<open>tid\<close> here.
\<close>

datatype environment = Production | Staging | Development
datatype capability_profile = Read_Only | Prod_Read_Mostly | Operator | Semantic_Operator
datatype transport = SSH | Mock | Agent
datatype docker_action = D_Start | D_Stop | D_Restart | D_Load_Image | D_Candidate_Run | D_Candidate_Remove
datatype service_action = S_Start | S_Stop | S_Restart | S_Reload

record target_config =
  tid :: string
  host :: string
  port :: int
  username :: string
  credentialRef :: "string option"
  keyFile :: "string option"
  deviceId :: "string option"
  hostKeyFingerprint :: "string option"
  hostKey :: "string option"
  environment :: environment
  capabilityProfile :: capability_profile
  allowedPaths :: "string list"
  allowedDockerContainers :: "string list"
  allowedDockerExecContainers :: "string list"
  allowedDockerExecPrograms :: "string list"
  allowedDockerActions :: "docker_action list"
  allowedDockerImageLoadRoots :: "string list"
  allowedDockerCandidateImagePrefixes :: "string list"
  allowedDockerCandidateNetworks :: "string list"
  allowedDockerCandidateNamePrefixes :: "string list"
  allowedDockerCandidateHostPorts :: "int list"
  allowedDockerCandidateContainerPorts :: "int list"
  allowedServices :: "string list"
  allowedServiceActions :: "service_action list"
  allowedGitRepos :: "string list"
  allowedSemanticCapabilities :: "string list"
  allowedAdminPrograms :: "string list"
  allowedAdminCwds :: "string list"
  allowedWritePaths :: "string list"
  allowedProcessCwds :: "string list"
  allowedProcessPrograms :: "string list"
  enabled :: bool
  transport :: transport
  commandTimeoutMs :: "int option"
  connectTimeoutMs :: "int option"

text \<open>The regular expressions of the schema.\<close>

definition kebab_head :: "char \<Rightarrow> bool" where
  "kebab_head c = (is_lower c \<or> is_digit c)"

definition kebab_char :: "char \<Rightarrow> bool" where
  "kebab_char c = (is_lower c \<or> is_digit c \<or> c = CHR ''-'')"

definition re_target_id :: "string \<Rightarrow> bool" where
  "re_target_id s = re_head_class kebab_head kebab_char 1 39 s"

definition b64url_char :: "char \<Rightarrow> bool" where
  "b64url_char c = (is_alnum c \<or> c = CHR ''_'' \<or> c = CHR ''-'')"

definition re_device_id :: "string \<Rightarrow> bool" where
  "re_device_id s = (starts_with s ''dev_'' \<and> re_class b64url_char 8 80 (drop 4 s))"

definition re_fingerprint :: "string \<Rightarrow> bool" where
  "re_fingerprint s = (starts_with s ''SHA256:'' \<and>
     drop 7 s \<noteq> [] \<and> list_all (\<lambda>c. is_alnum c \<or> c \<in> set ''+/=-'') (drop 7 s))"

definition re_semantic :: "string \<Rightarrow> bool" where
  "re_semantic s = re_head_class kebab_head (\<lambda>c. is_lower c \<or> is_digit c \<or> c \<in> set ''_.-'') 1 99 s"

definition program_char :: "char \<Rightarrow> bool" where
  "program_char c = (is_alnum c \<or> c \<in> set ''_.+-'')"

definition re_program :: "string \<Rightarrow> bool" where
  "re_program s = re_class program_char 1 80 s"

definition opt_all :: "('a \<Rightarrow> bool) \<Rightarrow> 'a option \<Rightarrow> bool" where
  "opt_all P x = (case x of None \<Rightarrow> True | Some y \<Rightarrow> P y)"

text \<open>\<open>TargetSchema.parse\<close> accepts the typed value \<open>t\<close>.\<close>

definition TargetSchema :: "target_config \<Rightarrow> bool" where
  "TargetSchema t =
    (re_target_id (tid t) \<and>
     host t \<noteq> [] \<and>
     1 \<le> port t \<and> port t \<le> 65535 \<and>
     username t \<noteq> [] \<and>
     opt_all re_device_id (deviceId t) \<and>
     opt_all re_fingerprint (hostKeyFingerprint t) \<and>
     list_all (\<lambda>p. 1024 \<le> p \<and> p \<le> 65535) (allowedDockerCandidateHostPorts t) \<and>
     list_all (\<lambda>p. 1 \<le> p \<and> p \<le> 65535) (allowedDockerCandidateContainerPorts t) \<and>
     list_all re_semantic (allowedSemanticCapabilities t) \<and>
     list_all re_program (allowedAdminPrograms t) \<and>
     opt_all (\<lambda>n. 1000 \<le> n \<and> n \<le> 120000) (commandTimeoutMs t) \<and>
     opt_all (\<lambda>n. 1000 \<le> n \<and> n \<le> 60000) (connectTimeoutMs t))"

record exec_result =
  exit_code :: "int option"
  stdout :: string
  stderr :: string
  durationMs :: int
  truncated :: bool
  timedOut :: bool

end
