(* ===== verification/Paths.thy ===== *)
theory Paths
  imports Target_Config
begin

text \<open>
  \<^verbatim>\<open>src/security/paths.ts\<close> and \<^verbatim>\<open>src/security/docker-list-scope.ts\<close>: the secret-path rules, the path
  checks against allowlisted roots, and the scoping of container listings. The remote
  \<open>realpath\<close> is the parameter \<open>run\<close>; what the checks guarantee holds whatever it answers. The locale
  \<open>path_guard\<close> is the contract every path check of the program meets.
\<close>

abbreviation slash :: char where "slash \<equiv> CHR ''/''"

definition segs :: "string \<Rightarrow> string list" where
  "segs p = split_on slash p"

definition last_seg :: "string \<Rightarrow> string" where
  "last_seg p = last (segs p)"

section \<open>Secret paths\<close>

definition all_digits :: "string \<Rightarrow> bool" where
  "all_digits s = (s \<noteq> [] \<and> list_all is_digit s)"

text \<open>The last segment is \<open>name\<close>, or \<open>name\<close>, a dot and at least \<open>n\<close> more characters.\<close>

definition named_file :: "nat \<Rightarrow> string \<Rightarrow> string \<Rightarrow> bool" where
  "named_file n name l = (l = name \<or> starts_with l (name @ ''.'') \<and> length name + 1 + n \<le> length l)"

definition secret_dirs :: "string list" where
  "secret_dirs = [''.ssh'', ''.aws'', ''.gnupg'', ''.kube'', ''.docker'']"

definition secret_files :: "string list" where
  "secret_files = [''authorized_keys'', ''known_hosts'', ''.netrc'', ''.git-credentials'', ''.npmrc'',
     ''.pypirc'', ''.htpasswd'']"

definition key_files :: "string list" where
  "key_files = [''.env'', ''id_rsa'', ''id_ed25519'', ''id_ecdsa'', ''id_dsa'']"

definition secret_extensions :: "string list" where
  "secret_extensions = [''.pem'', ''.key'', ''.p12'', ''.pfx'', ''.jks'', ''.keystore'', ''.kdbx'']"

definition credential_files :: "string list" where
  "credential_files = [''credential'', ''credentials'', ''secret'', ''secrets'', ''token'', ''tokens'']"

definition is_shadow :: "string \<Rightarrow> bool" where
  "is_shadow l = list_ex (\<lambda>n. l = n \<or> starts_with l (n @ ''-'') \<and> all_digits (drop (length n + 1) l))
     [''shadow'', ''gshadow'']"

definition denySecretPath :: "string \<Rightarrow> bool" where
  "denySecretPath p =
    (list_ex (\<lambda>d. d \<in> set (segs p)) secret_dirs \<or>
     last_seg p \<in> set secret_files \<or>
     list_ex (\<lambda>n. named_file 1 n (last_seg p)) key_files \<or>
     list_ex (\<lambda>e. ends_with (lower p) e) secret_extensions \<or>
     list_ex (\<lambda>n. named_file 0 n (lower (last_seg p))) credential_files \<or>
     is_shadow (last_seg p) \<or>
     suffix [''.git'', ''config''] (segs p))"

section \<open>Roots\<close>

definition inside_root :: "string \<Rightarrow> string \<Rightarrow> bool" where
  "inside_root root p = (let r = strip_slashes root in p = r \<or> starts_with p (r @ ''/''))"

text \<open>The string test is containment of segment lists: a sibling whose name merely begins with the
  root's name is outside.\<close>

lemma inside_root_segments: "inside_root root p \<longleftrightarrow> prefix (segs (strip_slashes root)) (segs p)"
proof -
  let ?r = "strip_slashes root"
  have "prefix (segs ?r) (segs p)" if "starts_with p (?r @ ''/'')"
  proof -
    from that obtain t where "p = ?r @ slash # t"
      by (auto simp: starts_with_iff)
    then show ?thesis by (simp add: segs_def split_on_append_general)
  qed
  moreover have "p = ?r \<or> starts_with p (?r @ ''/'')" if "prefix (segs ?r) (segs p)"
  proof -
    from that obtain zs where zs: "segs p = segs ?r @ zs" by (auto simp: prefix_def)
    have p: "p = join ''/'' (segs ?r @ zs)"
      using join_split_on [of slash p] zs by (simp add: segs_def)
    show ?thesis
    proof (cases "zs = []")
      case True
      then show ?thesis using p join_split_on [of slash ?r] by (simp add: segs_def)
    next
      case False
      then have "p = ?r @ ''/'' @ join ''/'' zs"
        using p join_append [of "segs ?r" zs "''/''"] join_split_on [of slash ?r]
        by (simp add: segs_def)
      then show ?thesis by (simp add: starts_with_iff)
    qed
  qed
  ultimately show ?thesis by (auto simp: inside_root_def Let_def)
qed

section \<open>The checks\<close>

definition sanitizeSegments :: "string \<Rightarrow> string" where
  "sanitizeSegments s = filter (\<lambda>c. \<not> is_nul_cr_lf c) s"

definition clean_segs :: "string \<Rightarrow> string list" where
  "clean_segs p = filter (\<lambda>s. s \<noteq> [] \<and> s \<noteq> ''.'') (segs p)"

definition normal_path :: "string list \<Rightarrow> string" where
  "normal_path ss = slash # join ''/'' ss"

type_synonym remote_run = "string list \<Rightarrow> exn + exec_result"

definition newline :: char where "newline = char_of (10::nat)"

text \<open>\<open>canonicalRealPath\<close> up to its one remote call, and from the answer of that call on.\<close>

definition lexical_path :: "string \<Rightarrow> exn + string" where
  "lexical_path inputPath =
    (let cleaned = sanitizeSegments inputPath; ss = clean_segs cleaned; normalized = normal_path ss in
     if \<not> starts_with cleaned ''/'' then Inl (OpsError PATH_DENIED)
     else if ss = [] then Inl (OpsError PATH_DENIED)
     else if ''..'' \<in> set ss then Inl (OpsError PATH_DENIED)
     else if denySecretPath normalized then Inl (OpsError SECRET_PATH_DENIED)
     else Inr normalized)"

definition resolved_path :: "exn + exec_result \<Rightarrow> exn + string" where
  "resolved_path answer = (case answer of
     Inl (OpsError c) \<Rightarrow> Inl (OpsError c)
   | Inl (Error m) \<Rightarrow> Inl (OpsError PATH_DENIED)
   | Inr res \<Rightarrow>
       if exit_code res \<noteq> Some 0 then Inl (OpsError PATH_DENIED)
       else (let real = hd (split_on newline (trim (stdout res))) in
         if \<not> starts_with real ''/'' \<or> ''..'' \<in> set (segs real) then Inl (OpsError PATH_DENIED)
         else if denySecretPath real then Inl (OpsError SECRET_PATH_DENIED)
         else Inr real))"

abbreviation realpath_argv :: "string \<Rightarrow> string list" where
  "realpath_argv p \<equiv> [''realpath'', ''-e'', ''--'', p]"

definition canonicalRealPath :: "string \<Rightarrow> remote_run \<Rightarrow> exn + string" where
  "canonicalRealPath inputPath run =
    bindR (lexical_path inputPath) (\<lambda>normalized. resolved_path (run (realpath_argv normalized)))"

definition within_roots :: "string list \<Rightarrow> string \<Rightarrow> exn + string" where
  "within_roots roots real =
    bindR (ensure (roots \<noteq> []) (OpsError PATH_DENIED)) (\<lambda>_.
    bindR (ensure (list_ex (\<lambda>root. inside_root root real) roots) (OpsError PATH_DENIED)) (\<lambda>_.
    Inr real))"

definition resolveCheckedPath :: "string \<Rightarrow> target_config \<Rightarrow> remote_run \<Rightarrow> exn + string" where
  "resolveCheckedPath inputPath target run =
    bindR (canonicalRealPath inputPath run) (within_roots (allowedPaths target))"

text \<open>A configured repository that cannot be resolved is skipped.\<close>

definition resolveCheckedGitRepo :: "string \<Rightarrow> target_config \<Rightarrow> remote_run \<Rightarrow> exn + string" where
  "resolveCheckedGitRepo inputPath target run =
    bindR (canonicalRealPath inputPath run) (\<lambda>real.
    bindR (ensure (allowedGitRepos target \<noteq> []) (OpsError REPO_NOT_ALLOWED)) (\<lambda>_.
    if list_ex (\<lambda>configured. canonicalRealPath configured run = Inr real) (allowedGitRepos target)
    then Inr real else Inl (OpsError REPO_NOT_ALLOWED)))"

definition assertConfiguredPath :: "string \<Rightarrow> string list \<Rightarrow> exn + string" where
  "assertConfiguredPath inputPath roots =
    (let cleaned = sanitizeSegments inputPath; ss = clean_segs cleaned; normalized = normal_path ss in
     if \<not> starts_with cleaned ''/'' then Inl (OpsError PATH_DENIED)
     else if ss = [] \<or> ''..'' \<in> set ss then Inl (OpsError PATH_DENIED)
     else if denySecretPath normalized then Inl (OpsError SECRET_PATH_DENIED)
     else if roots = [] then Inl (OpsError PATH_DENIED)
     else if \<not> list_ex (\<lambda>root. inside_root root normalized) roots then Inl (OpsError PATH_DENIED)
     else Inr normalized)"

definition resolveCheckedProcessCwd :: "string \<Rightarrow> target_config \<Rightarrow> remote_run \<Rightarrow> exn + string" where
  "resolveCheckedProcessCwd inputPath target run =
    bindR (canonicalRealPath inputPath run) (within_roots (allowedProcessCwds target))"

section \<open>The contract of a path check\<close>

locale path_guard =
  fixes check :: "string list \<Rightarrow> string \<Rightarrow> exn + string"
  assumes check_root: "check roots p = Inr q \<Longrightarrow> \<exists>root \<in> set roots. inside_root root q"
    and check_absolute: "check roots p = Inr q \<Longrightarrow> starts_with q ''/''"
    and check_no_dotdot: "check roots p = Inr q \<Longrightarrow> ''..'' \<notin> set (segs q)"
begin

lemma confined:
  assumes "check roots p = Inr q"
  shows "\<exists>root \<in> set roots. prefix (segs (strip_slashes root)) (segs q) \<and> ''..'' \<notin> set (segs q)"
  using check_root [OF assms] check_no_dotdot [OF assms] by (auto simp: inside_root_segments)

lemma no_roots: "\<not> is_ok (check [] p)"
  by (auto simp: is_ok_iff dest: check_root)

end

text \<open>A check that also refuses every secret path.\<close>

locale secret_guard = path_guard +
  assumes check_not_secret: "check roots p = Inr q \<Longrightarrow> \<not> denySecretPath q"
begin

lemma secret_never_allowed: "denySecretPath q \<Longrightarrow> check roots p \<noteq> Inr q"
  using check_not_secret by blast

end

lemma clean_segs_props:
  assumes "s \<in> set (clean_segs p)"
  shows "s \<noteq> []" "s \<noteq> ''.''" "slash \<notin> set s"
  using assms by (auto simp: clean_segs_def segs_def dest: split_on_parts)

lemma segs_normal_path:
  "ss \<noteq> [] \<Longrightarrow> (\<And>s. s \<in> set ss \<Longrightarrow> slash \<notin> set s) \<Longrightarrow> segs (normal_path ss) = [] # ss"
  by (simp add: segs_def normal_path_def split_on_join)

lemma segs_normal_clean: "clean_segs p \<noteq> [] \<Longrightarrow> segs (normal_path (clean_segs p)) = [] # clean_segs p"
  by (rule segs_normal_path) (auto dest: clean_segs_props)

lemma resolved_path_Inr:
  assumes "resolved_path answer = Inr real"
  shows "starts_with real ''/'' \<and> ''..'' \<notin> set (segs real) \<and> \<not> denySecretPath real"
  using assms by (auto simp: resolved_path_def Let_def split: if_splits sum.splits exn.splits)

lemma lexical_path_Inr:
  assumes "lexical_path p = Inr q"
  shows "q = normal_path (clean_segs (sanitizeSegments p)) \<and> clean_segs (sanitizeSegments p) \<noteq> [] \<and>
    ''..'' \<notin> set (clean_segs (sanitizeSegments p)) \<and> \<not> denySecretPath q"
  using assms by (auto simp: lexical_path_def Let_def split: if_splits)

lemma canonicalRealPath_Inr:
  assumes "canonicalRealPath p run = Inr real"
  shows "starts_with real ''/'' \<and> ''..'' \<notin> set (segs real) \<and> \<not> denySecretPath real"
  using assms resolved_path_Inr by (auto simp: canonicalRealPath_def guard_simps)

lemma within_roots_Inr [guard_simps]:
  "within_roots roots p = Inr q \<longleftrightarrow> q = p \<and> (\<exists>root \<in> set roots. inside_root root p)"
  by (auto simp: within_roots_def guard_simps list_ex_iff)

lemma assertConfiguredPath_Inr:
  assumes "assertConfiguredPath p roots = Inr q"
  shows "q = normal_path (clean_segs (sanitizeSegments p)) \<and> clean_segs (sanitizeSegments p) \<noteq> [] \<and>
    ''..'' \<notin> set (clean_segs (sanitizeSegments p)) \<and> \<not> denySecretPath q \<and>
    (\<exists>root \<in> set roots. inside_root root q)"
  using assms
  by (auto simp: assertConfiguredPath_def Let_def list_ex_iff split: if_splits)

interpretation configured: secret_guard "\<lambda>roots p. assertConfiguredPath p roots"
proof unfold_locales
  fix roots p q
  assume "assertConfiguredPath p roots = Inr q"
  note q = assertConfiguredPath_Inr [OF this]
  show "\<exists>root\<in>set roots. inside_root root q" using q by blast
  show "starts_with q ''/''" using q by (simp add: normal_path_def starts_with_slash)
  show "''..'' \<notin> set (segs q)" using q by (auto simp: segs_normal_clean)
  show "\<not> denySecretPath q" using q by blast
qed

interpretation checked_path: secret_guard
  "\<lambda>roots p. resolveCheckedPath p (t\<lparr>allowedPaths := roots\<rparr>) run" for t run
  by unfold_locales
    (auto simp: resolveCheckedPath_def guard_simps list_ex_iff dest: canonicalRealPath_Inr)

interpretation checked_cwd: secret_guard
  "\<lambda>roots p. resolveCheckedProcessCwd p (t\<lparr>allowedProcessCwds := roots\<rparr>) run" for t run
  by unfold_locales
    (auto simp: resolveCheckedProcessCwd_def guard_simps list_ex_iff dest: canonicalRealPath_Inr)

section \<open>Normalisation is idempotent\<close>

lemma set_join: "set (join sep xs) \<subseteq> set sep \<union> (\<Union>x \<in> set xs. set x)"
  by (induction sep xs rule: join.induct) auto

lemma sanitize_id: "(\<And>c. c \<in> set s \<Longrightarrow> \<not> is_nul_cr_lf c) \<Longrightarrow> sanitizeSegments s = s"
  by (simp add: sanitizeSegments_def)

lemma normal_path_clean:
  assumes "c \<in> set (normal_path (clean_segs (sanitizeSegments p)))"
  shows "\<not> is_nul_cr_lf c"
proof (cases "c = slash")
  case True
  then show ?thesis by (simp add: is_nul_cr_lf_def code_def)
next
  case False
  with assms obtain s where s: "s \<in> set (clean_segs (sanitizeSegments p))" "c \<in> set s"
    using set_join [of "''/''"] by (fastforce simp: normal_path_def)
  then have "c \<in> set (sanitizeSegments p)"
    by (auto simp: clean_segs_def segs_def dest: set_split_on)
  then show ?thesis by (simp add: sanitizeSegments_def)
qed

lemma clean_segs_normal: "clean_segs p \<noteq> [] \<Longrightarrow> clean_segs (normal_path (clean_segs p)) = clean_segs p"
proof -
  assume ne: "clean_segs p \<noteq> []"
  have "clean_segs (normal_path (clean_segs p))
      = filter (\<lambda>s. s \<noteq> [] \<and> s \<noteq> ''.'') ([] # clean_segs p)"
    unfolding clean_segs_def [of "normal_path (clean_segs p)"] segs_normal_clean [OF ne] ..
  also have "\<dots> = clean_segs p"
    by (auto simp: clean_segs_def filter_id_conv)
  finally show ?thesis .
qed

lemma assertConfiguredPath_idem:
  assumes "assertConfiguredPath p roots = Inr q"
  shows "assertConfiguredPath q roots = Inr q"
proof -
  let ?ss = "clean_segs (sanitizeSegments p)"
  note q = assertConfiguredPath_Inr [OF assms]
  have san: "sanitizeSegments q = q"
    using q normal_path_clean by (auto intro: sanitize_id)
  have ss: "clean_segs q = ?ss" and nq: "normal_path (clean_segs q) = q"
    using q clean_segs_normal by auto
  have "starts_with q ''/''"
    using q by (simp add: normal_path_def starts_with_slash)
  with q san ss nq show ?thesis
    by (auto simp: assertConfiguredPath_def Let_def list_ex_iff)
qed

section \<open>Container listings\<close>

text \<open>\<open>filterDockerListByAllowlist\<close>: a row is kept when it is an object whose \<open>name\<close> is an allowed
  string. \<open>None\<close> is an allowlist that is not an array.\<close>

definition row_name :: "jval \<Rightarrow> string option" where
  "row_name row = (case row of
     JObj fs \<Rightarrow> (case field fs ''name'' of JStr s \<Rightarrow> Some s | _ \<Rightarrow> None)
   | _ \<Rightarrow> None)"

definition filterDockerListByAllowlist :: "jval list \<Rightarrow> string list option \<Rightarrow> jval list" where
  "filterDockerListByAllowlist rows allowlist = (case allowlist of
     None \<Rightarrow> []
   | Some names \<Rightarrow>
       (let wildcard = (''*'' \<in> set names) in
        if \<not> wildcard \<and> names = [] then []
        else filter (\<lambda>row. (case row_name row of None \<Rightarrow> False | Some n \<Rightarrow> wildcard \<or> n \<in> set names)) rows))"

lemma filterDockerList_names:
  assumes "row \<in> set (filterDockerListByAllowlist rows (Some names))" "''*'' \<notin> set names"
  shows "\<exists>n \<in> set names. row_name row = Some n"
  using assms
  by (auto simp: filterDockerListByAllowlist_def Let_def split: if_splits option.splits)

end
