(* ===== verification/Ticket.thy ===== *)
theory Ticket
  imports Paths
begin

text \<open>
  \<^verbatim>\<open>src/privileged/managed-admin-policy.ts\<close> and \<^verbatim>\<open>src/privileged/managed-admin-ticket.ts\<close>: the policy
  constants, the lexical check of a working directory, the validation of a root ticket, its
  signed byte form, signing and verification. Hashing and Ed25519 come from the runtime and are the
  parameters \<open>sha256\<close>, \<open>ed_sign\<close>, \<open>ed_public\<close> and \<open>ed_verify\<close>; signatures are in base64url text.
\<close>

section \<open>Policy\<close>

definition MANAGED_ADMIN_CAPABILITY :: string where
  "MANAGED_ADMIN_CAPABILITY = ''host.managed_admin''"

definition MANAGED_ADMIN_DEFAULT_PROGRAMS :: "string list" where
  "MANAGED_ADMIN_DEFAULT_PROGRAMS =
    [''apt-get'', ''apt'', ''dpkg'', ''systemctl'', ''journalctl'', ''docker'', ''git'', ''curl'', ''wget'',
     ''install'', ''cp'', ''mv'', ''rm'', ''rmdir'', ''mkdir'', ''chmod'', ''chown'', ''chgrp'', ''ln'', ''tar'', ''unzip'',
     ''ufw'', ''firewall-cmd'', ''ip'', ''ss'', ''hostnamectl'', ''timedatectl'', ''sysctl'', ''mount'', ''umount'',
     ''lsblk'', ''df'', ''du'']"

definition MANAGED_ADMIN_HARD_DENY :: "string list" where
  "MANAGED_ADMIN_HARD_DENY =
    [''bash'', ''sh'', ''dash'', ''zsh'', ''fish'', ''sudo'', ''su'', ''pkexec'', ''python'', ''python3'', ''node'',
     ''perl'', ''ruby'', ''php'']"

definition MANAGED_ADMIN_DEFAULT_CWDS :: "string list" where
  "MANAGED_ADMIN_DEFAULT_CWDS = [''/opt/wandora/ops-workspace'', ''/opt/wandora'']"

definition has_nul_cr_lf :: "string \<Rightarrow> bool" where
  "has_nul_cr_lf s = list_ex is_nul_cr_lf s"

text \<open>The lexical shape both the policy and the ticket demand of a working directory.\<close>

definition cwd_shape :: "string \<Rightarrow> bool" where
  "cwd_shape cwd = (starts_with cwd ''/'' \<and> length cwd \<le> 1024 \<and> \<not> has_nul_cr_lf cwd \<and> ''..'' \<notin> set (segs cwd))"

definition clean_dir :: "string \<Rightarrow> string" where
  "clean_dir value = (let v = strip_slashes value in if v = [] then ''/'' else v)"

definition cwdLexicallyAllowed :: "string \<Rightarrow> string list \<Rightarrow> bool" where
  "cwdLexicallyAllowed cwd roots =
    (cwd_shape cwd \<and>
     (let candidate = clean_dir cwd in
      list_ex (\<lambda>raw. let root = clean_dir raw in
        candidate = root \<or> starts_with candidate (root @ ''/'')) roots))"

section \<open>Tickets\<close>

record ticket =
  tk_target_id :: string
  tk_device_id :: string
  tk_program :: string
  tk_argv :: "string list"
  tk_cwd :: string
  tk_timeout_ms :: int
  tk_nonce :: string
  tk_issued_at :: int
  tk_expires_at :: int

definition ID_RE :: "string \<Rightarrow> bool" where
  "ID_RE s = re_head_class kebab_head kebab_char 1 63 s"

definition hex_char :: "char \<Rightarrow> bool" where
  "hex_char c = (is_digit c \<or> between 97 102 c)"

definition NONCE_RE :: "string \<Rightarrow> bool" where
  "NONCE_RE s = re_class hex_char 32 128 s"

definition admin_arg_ok :: "string \<Rightarrow> bool" where
  "admin_arg_ok arg = (utf8_length arg \<le> 16384 \<and> \<not> has_nul_cr_lf arg)"

definition timeout_ok :: "int \<Rightarrow> bool" where
  "timeout_ok n = (1000 \<le> n \<and> n \<le> 120000)"

text \<open>\<open>Number.isInteger(n) && P n\<close>\<close>

definition int_such :: "(int \<Rightarrow> bool) \<Rightarrow> jnum \<Rightarrow> int option" where
  "int_such P n = (case n of NInt i \<Rightarrow> if P i then Some i else None | NOther s \<Rightarrow> None)"

definition normalizeManagedAdminTicket :: "(string \<Rightarrow> jnum) \<Rightarrow> jval \<Rightarrow> exn + ticket" where
  "normalizeManagedAdminTicket lit raw = (case raw of
    JObj x \<Rightarrow>
      (let v = num_of lit (field x ''v'');
           target_id = str_or_empty (field x ''target_id'');
           device_id = str_or_empty (field x ''device_id'');
           program = str_or_empty (field x ''program'');
           argv = (case field x ''argv'' of JArr vs \<Rightarrow> Some (map str_or_empty vs) | _ \<Rightarrow> None);
           cwd = str_or_empty (field x ''cwd'');
           timeout_ms = num_of lit (field x ''timeout_ms'');
           nonce = str_or_empty (field x ''nonce'');
           issued_at = num_of lit (field x ''issued_at'');
           expires_at = num_of lit (field x ''expires_at'') in
       bindR (ensure (v = NInt 1) (Error ''managed_admin_ticket_version_invalid'')) (\<lambda>_.
       bindR (ensure (ID_RE target_id) (Error ''managed_admin_target_invalid'')) (\<lambda>_.
       bindR (ensure (re_device_id device_id) (Error ''managed_admin_device_invalid'')) (\<lambda>_.
       bindR (ensure (re_program program) (Error ''managed_admin_program_invalid'')) (\<lambda>_.
       (case argv of None \<Rightarrow> Inl (Error ''managed_admin_argv_invalid'') | Some args \<Rightarrow>
       bindR (ensure (length args \<le> 80) (Error ''managed_admin_argv_invalid'')) (\<lambda>_.
       bindR (ensure (list_all admin_arg_ok args) (Error ''managed_admin_argument_invalid'')) (\<lambda>_.
       bindR (ensure (cwd_shape cwd) (Error ''managed_admin_cwd_invalid'')) (\<lambda>_.
       (case int_such timeout_ok timeout_ms of
          None \<Rightarrow> Inl (Error ''managed_admin_timeout_invalid'')
        | Some timeout \<Rightarrow>
       bindR (ensure (NONCE_RE nonce) (Error ''managed_admin_nonce_invalid'')) (\<lambda>_.
       (case (int_such (\<lambda>_. True) issued_at, int_such (\<lambda>_. True) expires_at) of
          (Some i, Some e) \<Rightarrow>
            if e \<le> i \<or> 120000 < e - i then Inl (Error ''managed_admin_expiry_invalid'')
            else Inr \<lparr>tk_target_id = target_id, tk_device_id = device_id, tk_program = program,
              tk_argv = args, tk_cwd = cwd, tk_timeout_ms = timeout, tk_nonce = nonce,
              tk_issued_at = i, tk_expires_at = e\<rparr>
        | _ \<Rightarrow> Inl (Error ''managed_admin_expiry_invalid'')))))))))))))
  | _ \<Rightarrow> Inl (Error ''managed_admin_ticket_invalid''))"

text \<open>A ticket object as the dynamic value it is.\<close>

definition ticket_value :: "ticket \<Rightarrow> jval" where
  "ticket_value t = JObj
    [(''v'', JNum (NInt 1)), (''target_id'', JStr (tk_target_id t)), (''device_id'', JStr (tk_device_id t)),
     (''program'', JStr (tk_program t)), (''argv'', JArr (map JStr (tk_argv t))), (''cwd'', JStr (tk_cwd t)),
     (''timeout_ms'', JNum (NInt (tk_timeout_ms t))), (''nonce'', JStr (tk_nonce t)),
     (''issued_at'', JNum (NInt (tk_issued_at t))), (''expires_at'', JNum (NInt (tk_expires_at t)))]"

definition ticket_ok :: "ticket \<Rightarrow> bool" where
  "ticket_ok t =
    (ID_RE (tk_target_id t) \<and> re_device_id (tk_device_id t) \<and> re_program (tk_program t) \<and>
     length (tk_argv t) \<le> 80 \<and> list_all admin_arg_ok (tk_argv t) \<and> cwd_shape (tk_cwd t) \<and>
     timeout_ok (tk_timeout_ms t) \<and> NONCE_RE (tk_nonce t) \<and>
     tk_issued_at t < tk_expires_at t \<and> tk_expires_at t - tk_issued_at t \<le> 120000)"

lemma int_such_Some: "int_such P n = Some i \<longleftrightarrow> n = NInt i \<and> P i"
  by (cases n) (auto simp: int_such_def)

lemma int_such_NInt [simp]: "int_such P (NInt i) = (if P i then Some i else None)"
  by (simp add: int_such_def)

lemma normalize_ticket_ok: "normalizeManagedAdminTicket lit raw = Inr t \<Longrightarrow> ticket_ok t"
  by (auto simp: normalizeManagedAdminTicket_def Let_def guard_simps ticket_ok_def int_such_Some
      split: jval.splits option.splits if_splits)

lemma normalize_ticket_value:
  assumes "ticket_ok t"
  shows "normalizeManagedAdminTicket lit (ticket_value t) = Inr t"
proof -
  have "map str_or_empty (map JStr (tk_argv t)) = tk_argv t"
    by (simp add: comp_def)
  with assms show ?thesis
    by (simp add: normalizeManagedAdminTicket_def ticket_value_def field_def ticket_ok_def)
qed

lemma normalize_ticket_iff:
  "normalizeManagedAdminTicket lit (ticket_value t) = Inr t \<longleftrightarrow> ticket_ok t"
  using normalize_ticket_ok normalize_ticket_value by blast

section \<open>Byte form\<close>

text \<open>\<open>JSON.stringify\<close> of a string, of a list of strings, and of the ticket.\<close>

definition hex_digit :: "nat \<Rightarrow> char" where
  "hex_digit n = (if n < 10 then char_of (48 + n) else char_of (87 + n))"

definition json_escape :: "char \<Rightarrow> string" where
  "json_escape c =
    (if code c = 34 then [char_of (92::nat), char_of (34::nat)]
     else if code c = 92 then [char_of (92::nat), char_of (92::nat)]
     else if code c = 8 then [char_of (92::nat), CHR ''b'']
     else if code c = 12 then [char_of (92::nat), CHR ''f'']
     else if code c = 10 then [char_of (92::nat), CHR ''n'']
     else if code c = 13 then [char_of (92::nat), CHR ''r'']
     else if code c = 9 then [char_of (92::nat), CHR ''t'']
     else if code c < 32 then char_of (92::nat) # ''u00'' @ [hex_digit (code c div 16), hex_digit (code c mod 16)]
     else [c])"

definition dquote :: char where "dquote = char_of (34::nat)"

definition json_string :: "string \<Rightarrow> string" where
  "json_string s = dquote # concat (map json_escape s) @ [dquote]"

definition json_strings :: "string list \<Rightarrow> string" where
  "json_strings xs = ''['' @ join '','' (map json_string xs) @ '']''"

definition json_field :: "string \<Rightarrow> string \<Rightarrow> string" where
  "json_field k v = json_string k @ '':'' @ v"

definition json_ticket :: "ticket \<Rightarrow> string" where
  "json_ticket t = ''{'' @ join '',''
    [json_field ''v'' ''1'',
     json_field ''target_id'' (json_string (tk_target_id t)),
     json_field ''device_id'' (json_string (tk_device_id t)),
     json_field ''program'' (json_string (tk_program t)),
     json_field ''argv'' (json_strings (tk_argv t)),
     json_field ''cwd'' (json_string (tk_cwd t)),
     json_field ''timeout_ms'' (int_text (tk_timeout_ms t)),
     json_field ''nonce'' (json_string (tk_nonce t)),
     json_field ''issued_at'' (int_text (tk_issued_at t)),
     json_field ''expires_at'' (int_text (tk_expires_at t))] @ ''}''"

text \<open>\<open>Buffer.from(s, "utf8")\<close>, a byte as a \<open>char\<close>.\<close>

definition utf8_char :: "char \<Rightarrow> string" where
  "utf8_char c = (if code c < 128 then [c]
     else [char_of (192 + code c div 64), char_of (128 + code c mod 64)])"

definition utf8 :: "string \<Rightarrow> string" where
  "utf8 s = concat (map utf8_char s)"

definition managedAdminTicketBytes :: "(string \<Rightarrow> jnum) \<Rightarrow> ticket \<Rightarrow> exn + string" where
  "managedAdminTicketBytes lit ticket =
    bindR (normalizeManagedAdminTicket lit (ticket_value ticket)) (\<lambda>t. Inr (utf8 (json_ticket t)))"

section \<open>Signatures\<close>

definition PKCS8_ED25519_PREFIX :: string where
  "PKCS8_ED25519_PREFIX = map char_of
    [0x30, 0x2e, 0x02, 0x01, 0x00, 0x30, 0x05, 0x06, 0x03, 0x2b, 0x65, 0x70, 0x04, 0x22, 0x04, 0x20::nat]"

definition DOMAIN :: string where
  "DOMAIN = ''remote-ops-managed-admin-ticket-v1'' @ [char_of (0::nat)]"

definition seedFromSecret :: "(string \<Rightarrow> string) \<Rightarrow> string \<Rightarrow> exn + string" where
  "seedFromSecret sha256 secret =
    bindR (ensure (32 \<le> length secret) (Error ''managed_admin_signing_secret_too_short'')) (\<lambda>_.
    Inr (sha256 (DOMAIN @ utf8 secret)))"

definition deriveManagedAdminPrivateKey :: "(string \<Rightarrow> string) \<Rightarrow> string \<Rightarrow> exn + string" where
  "deriveManagedAdminPrivateKey sha256 secret =
    bindR (seedFromSecret sha256 secret) (\<lambda>seed. Inr (PKCS8_ED25519_PREFIX @ seed))"

definition deriveManagedAdminPublicKeyPem ::
    "(string \<Rightarrow> string) \<Rightarrow> (string \<Rightarrow> string) \<Rightarrow> string \<Rightarrow> exn + string" where
  "deriveManagedAdminPublicKeyPem sha256 ed_public secret =
    bindR (deriveManagedAdminPrivateKey sha256 secret) (\<lambda>key. Inr (ed_public key))"

definition signManagedAdminTicket ::
    "(string \<Rightarrow> jnum) \<Rightarrow> (string \<Rightarrow> string) \<Rightarrow> (string \<Rightarrow> string \<Rightarrow> string) \<Rightarrow> ticket \<Rightarrow> string \<Rightarrow> exn + string" where
  "signManagedAdminTicket lit sha256 ed_sign ticket secret =
    bindR (managedAdminTicketBytes lit ticket) (\<lambda>bytes.
    bindR (deriveManagedAdminPrivateKey sha256 secret) (\<lambda>key.
    Inr (ed_sign key bytes)))"

definition SIGNATURE_RE :: "string \<Rightarrow> bool" where
  "SIGNATURE_RE s = re_class b64url_char 40 200 s"

definition verifyManagedAdminTicket ::
    "(string \<Rightarrow> jnum) \<Rightarrow> (string \<Rightarrow> string \<Rightarrow> string \<Rightarrow> bool) \<Rightarrow> ticket \<Rightarrow> string \<Rightarrow> string \<Rightarrow> bool" where
  "verifyManagedAdminTicket lit ed_verify ticket signature publicKeyPem =
    (SIGNATURE_RE signature \<and>
     (case managedAdminTicketBytes lit ticket of
        Inl e \<Rightarrow> False
      | Inr bytes \<Rightarrow> ed_verify publicKeyPem bytes signature))"

text \<open>What the runtime documents of Ed25519: a signature made with a key is accepted under the public
  half of that key, and its base64url form is 86 characters.\<close>

definition ed25519_correct ::
    "(string \<Rightarrow> string \<Rightarrow> string) \<Rightarrow> (string \<Rightarrow> string) \<Rightarrow> (string \<Rightarrow> string \<Rightarrow> string \<Rightarrow> bool) \<Rightarrow> bool" where
  "ed25519_correct ed_sign ed_public ed_verify =
    (\<forall>key m. ed_verify (ed_public key) m (ed_sign key m) \<and> re_class b64url_char 86 86 (ed_sign key m))"

lemma ticketBytes_ok:
  "managedAdminTicketBytes lit t = Inr b \<longleftrightarrow> ticket_ok t \<and> b = utf8 (json_ticket t)"
proof (cases "ticket_ok t")
  case True
  then show ?thesis by (auto simp: managedAdminTicketBytes_def normalize_ticket_value)
next
  case False
  have "\<not> normalizeManagedAdminTicket lit (ticket_value t) = Inr t'" for t'
  proof
    assume n: "normalizeManagedAdminTicket lit (ticket_value t) = Inr t'"
    then have "t' = t"
      by (auto simp: normalizeManagedAdminTicket_def ticket_value_def field_def guard_simps Let_def
          int_such_Some comp_def split: if_splits option.splits)
    with n normalize_ticket_ok False show False by blast
  qed
  with False show ?thesis by (auto simp: managedAdminTicketBytes_def bindR_Inr_iff)
qed

end
