(* ===== verification/Admin_Broker.thy ===== *)
theory Admin_Broker
  imports Ticket
begin

text \<open>
  \<^verbatim>\<open>src/privileged/managed-admin-broker.ts\<close>: the root broker of a managed host. It validates a signed
  ticket, checks it against the host's own allowlists, records its nonce in the replay file and runs
  the program. The file system's \<open>realpath\<close> and the JSON reader are parameters; the replay file is
  state. \<open>None\<close> as a replay file is one that is missing or not readable as JSON with a nonce object.
\<close>

record broker_cfg =
  ROOTS :: "string list"
  PROGRAMS :: "string list"
  HARD_DENY :: "string list"
  MAX_OUTPUT_BYTES :: nat
  publicKeyPem :: string
  expectedDevice :: string

definition MAX_REQUEST_BYTES :: nat where "MAX_REQUEST_BYTES = 256 * 1024"
definition CLOCK_SKEW_MS :: int where "CLOCK_SKEW_MS = 30000"

text \<open>\<open>MAX_OUTPUT_BYTES\<close> from the environment's number.\<close>

definition max_output_setting :: "int \<Rightarrow> int" where
  "max_output_setting n = clamp (64 * 1024) (4 * 1024 * 1024) n"

definition readDeviceId :: "(string \<times> jval) list \<Rightarrow> exn + string" where
  "readDeviceId x = (let ident = str_or_empty (field x ''device_id'') in
     bindR (ensure (re_device_id ident) (Error ''managed_admin_device_state_invalid'')) (\<lambda>_. Inr ident))"

section \<open>Working directory\<close>

type_synonym realpath_fn = "string \<Rightarrow> string option"

definition real_dir :: "realpath_fn \<Rightarrow> string \<Rightarrow> exn + string" where
  "real_dir realpath p = (case realpath p of None \<Rightarrow> Inl (Error ''ENOENT'') | Some r \<Rightarrow> Inr (strip_slashes r))"

definition realRoots :: "realpath_fn \<Rightarrow> string list \<Rightarrow> exn + string list" where
  "realRoots realpath roots = mapR (real_dir realpath) roots"

definition below :: "string \<Rightarrow> string \<Rightarrow> bool" where
  "below root p = (p = root \<or> starts_with p (root @ ''/''))"

definition cwdAllowed :: "broker_cfg \<Rightarrow> realpath_fn \<Rightarrow> string \<Rightarrow> exn + string" where
  "cwdAllowed cfg realpath cwd =
    bindR (real_dir realpath cwd) (\<lambda>real.
    bindR (realRoots realpath (ROOTS cfg)) (\<lambda>roots.
    bindR (ensure (list_ex (\<lambda>root. below root real) roots) (Error ''managed_admin_cwd_not_allowed'')) (\<lambda>_.
    Inr real)))"

section \<open>Replay file\<close>

text \<open>An entry that is not a finite number is \<open>None\<close>.\<close>

type_synonym nonces = "(string, int option) table"

definition loadReplay :: "int \<Rightarrow> nonces option \<Rightarrow> nonces" where
  "loadReplay now file =
    keep (\<lambda>nonce expires. case expires of None \<Rightarrow> False | Some e \<Rightarrow> \<not> e < now - 60000) (coalesce file [])"

text \<open>\<open>consumeNonce\<close> with \<open>persistReplay\<close>; \<open>disk_ok\<close> tells whether the write succeeds.\<close>

definition consumeNonce :: "bool \<Rightarrow> int \<Rightarrow> string \<Rightarrow> int \<Rightarrow> nonces option \<Rightarrow> exn + nonces option" where
  "consumeNonce disk_ok now nonce expires_at file =
    (let state = loadReplay now file in
     bindR (ensure (\<not> truthy (coalesce (map_of state nonce) None)) (Error ''managed_admin_ticket_replayed'')) (\<lambda>_.
     bindR (ensure disk_ok (Error ''EIO'')) (\<lambda>_.
     Inr (Some (AList.update nonce (Some expires_at) state)))))"

text \<open>
  The contract of a replay guard: a nonce is refused while it is remembered, remembered once it is
  consumed, and not forgotten before a minute after its expiry.
\<close>

locale nonce_guard =
  fixes consume :: "int \<Rightarrow> string \<Rightarrow> int \<Rightarrow> 's \<Rightarrow> exn + 's"
    and remembers :: "'s \<Rightarrow> string \<Rightarrow> int \<Rightarrow> bool"
  assumes refused: "consume now n e s = Inr s' \<Longrightarrow> remembers s n x \<Longrightarrow> x < now - 60000"
    and recorded: "consume now n e s = Inr s' \<Longrightarrow> 0 < e \<Longrightarrow> remembers s' n e"
    and retained: "consume now n e s = Inr s' \<Longrightarrow> remembers s m x \<Longrightarrow> m \<noteq> n \<Longrightarrow> now - 60000 \<le> x \<Longrightarrow>
      remembers s' m x"
begin

text \<open>Using an unexpired nonce: every earlier use of it expired earlier, and the history stays known.\<close>

lemma use_step:
  assumes known: "\<forall>(m, x) \<in> set past. remembers s m x \<or> x < t0 - 60000"
    and use: "consume t2 n e s = Inr s'"
    and times: "t0 \<le> t2" "t2 \<le> t1 + 60000" "t1 \<le> e" "0 < e"
  shows "(\<forall>(m, x) \<in> set ((n, e) # past). remembers s' m x \<or> x < t2 - 60000) \<and>
         (\<forall>x. (n, x) \<in> set past \<longrightarrow> x < e)"
proof -
  have old: "remembers s' m x \<or> x < t2 - 60000" if "(m, x) \<in> set past" for m x
    using known that times(1) refused [OF use, of x] retained [OF use, of m x] by fastforce
  have "x < e" if "(n, x) \<in> set past" for x
    using known that times refused [OF use, of x] by fastforce
  with old recorded [OF use times(4)] show ?thesis by auto
qed

end

definition file_remembers :: "nonces option \<Rightarrow> string \<Rightarrow> int \<Rightarrow> bool" where
  "file_remembers file n x = (wf_table (coalesce file []) \<and>
     (\<exists>e. map_of (coalesce file []) n = Some (Some e) \<and> x \<le> e \<and> 0 < e))"

lemma wf_loadReplay: "wf_table (coalesce file []) \<Longrightarrow> wf_table (loadReplay now file)"
  by (simp add: loadReplay_def)

lemma lookup_loadReplay:
  "wf_table (coalesce file []) \<Longrightarrow> map_of (loadReplay now file) n =
    (case map_of (coalesce file []) n of
       Some (Some e) \<Rightarrow> if e < now - 60000 then None else Some (Some e)
     | _ \<Rightarrow> None)"
  by (simp add: loadReplay_def lookup_keep split: option.splits)

lemma consumeNonce_Inr:
  "consumeNonce disk_ok now n e file = Inr file' \<longleftrightarrow>
     disk_ok \<and> \<not> truthy (coalesce (map_of (loadReplay now file) n) None) \<and>
     file' = Some (AList.update n (Some e) (loadReplay now file))"
  by (auto simp: consumeNonce_def Let_def guard_simps)

lemma consumeNonce_wf:
  "consumeNonce disk_ok now n e file = Inr file' \<Longrightarrow> wf_table (coalesce file []) \<Longrightarrow>
     wf_table (coalesce file' [])"
  by (auto simp: consumeNonce_Inr wf_loadReplay)

text \<open>Only well-formed files are remembered in, so the contract is stated on them.\<close>

definition consume_wf :: "bool \<Rightarrow> int \<Rightarrow> string \<Rightarrow> int \<Rightarrow> nonces option \<Rightarrow> exn + nonces option" where
  "consume_wf disk_ok now n e file =
    (if wf_table (coalesce file []) then consumeNonce disk_ok now n e file else Inl (Error ''not an object''))"

interpretation replay: nonce_guard "consume_wf disk_ok" file_remembers for disk_ok
proof unfold_locales
  fix now n e s s' x
  assume "consume_wf disk_ok now n e s = Inr s'" "file_remembers s n x"
  then show "x < now - 60000"
    by (fastforce simp: consume_wf_def file_remembers_def consumeNonce_Inr lookup_loadReplay split: if_splits)
next
  fix now n e s s'
  assume "consume_wf disk_ok now n e s = Inr s'" "0 < e"
  then show "file_remembers s' n e"
    by (auto simp: consume_wf_def file_remembers_def consumeNonce_Inr wf_loadReplay split: if_splits)
next
  fix now n e s s' m x
  assume "consume_wf disk_ok now n e s = Inr s'" "file_remembers s m x" "m \<noteq> n" "now - 60000 \<le> x"
  then show "file_remembers s' m x"
    by (fastforce simp: consume_wf_def file_remembers_def consumeNonce_Inr wf_loadReplay lookup_loadReplay
        split: if_splits)
qed

section \<open>Local authority\<close>

definition validateLocalAuthority :: "broker_cfg \<Rightarrow> realpath_fn \<Rightarrow> int \<Rightarrow> ticket \<Rightarrow> exn + string" where
  "validateLocalAuthority cfg realpath now ticket =
    bindR (ensure (tk_device_id ticket = expectedDevice cfg) (Error ''managed_admin_wrong_device'')) (\<lambda>_.
    bindR (ensure (\<not> now + CLOCK_SKEW_MS < tk_issued_at ticket) (Error ''managed_admin_ticket_from_future'')) (\<lambda>_.
    bindR (ensure (\<not> tk_expires_at ticket < now) (Error ''managed_admin_ticket_expired'')) (\<lambda>_.
    bindR (ensure (tk_program ticket \<notin> set (HARD_DENY cfg)) (Error ''managed_admin_program_hard_denied'')) (\<lambda>_.
    bindR (ensure (tk_program ticket \<in> set (PROGRAMS cfg)) (Error ''managed_admin_program_not_allowed'')) (\<lambda>_.
    cwdAllowed cfg realpath (tk_cwd ticket))))))"

section \<open>The child process\<close>

datatype child_event = Stdout string | Stderr string | Timer | Spawn_Error string | Close "int option"

record child_state =
  ch_stdout :: string
  ch_stderr :: string
  ch_truncated :: bool
  ch_timed_out :: bool

definition child_start :: child_state where
  "child_start = \<lparr>ch_stdout = [], ch_stderr = [], ch_truncated = False, ch_timed_out = False\<rparr>"

text \<open>\<open>append\<close> of \<open>execute\<close>: the capped buffer and whether something was cut.\<close>

definition append_capped :: "nat \<Rightarrow> string \<Rightarrow> string \<Rightarrow> string \<times> bool" where
  "append_capped cap current chunk =
    (if cap \<le> length current then (current, True)
     else if cap < length current + length chunk then (current @ take (cap - length current) chunk, True)
     else (current @ chunk, False))"

record child_result =
  cr_code :: "int option"
  cr_stdout :: string
  cr_stderr :: string
  cr_truncated :: bool
  cr_timed_out :: bool

text \<open>The promise \<open>execute\<close> returns resolves at the first error or close event.\<close>

fun execute :: "nat \<Rightarrow> child_state \<Rightarrow> child_event list \<Rightarrow> child_result option" where
  "execute cap s [] = None"
| "execute cap s (Stdout c # evs) =
    (let (b, cut) = append_capped cap (ch_stdout s) c in
     execute cap (s\<lparr>ch_stdout := b, ch_truncated := ch_truncated s \<or> cut\<rparr>) evs)"
| "execute cap s (Stderr c # evs) =
    (let (b, cut) = append_capped cap (ch_stderr s) c in
     execute cap (s\<lparr>ch_stderr := b, ch_truncated := ch_truncated s \<or> cut\<rparr>) evs)"
| "execute cap s (Timer # evs) = execute cap (s\<lparr>ch_timed_out := True\<rparr>) evs"
| "execute cap s (Spawn_Error m # evs) = Some
    \<lparr>cr_code = None, cr_stdout = [], cr_stderr = m, cr_truncated = ch_truncated s, cr_timed_out = False\<rparr>"
| "execute cap s (Close c # evs) = Some
    \<lparr>cr_code = c, cr_stdout = ch_stdout s, cr_stderr = ch_stderr s, cr_truncated = ch_truncated s,
     cr_timed_out = ch_timed_out s\<rparr>"

lemma append_capped_bound:
  "length current \<le> cap \<Longrightarrow> length (fst (append_capped cap current chunk)) \<le> cap"
  by (auto simp: append_capped_def)

lemma append_capped_prefix:
  "fst (append_capped cap current chunk) = current @ take (cap - length current) chunk"
  by (auto simp: append_capped_def)

definition out_chunks :: "child_event list \<Rightarrow> string" where
  "out_chunks evs = concat (map (\<lambda>ev. case ev of Stdout c \<Rightarrow> c | _ \<Rightarrow> []) evs)"

text \<open>A clean exit reports the program's output up to the cap, exactly.\<close>

lemma execute_output:
  assumes "execute cap s evs = Some r" "list_all (\<lambda>ev. \<forall>m. ev \<noteq> Spawn_Error m) evs" "length (ch_stdout s) \<le> cap"
  shows "\<exists>seen rest c. evs = seen @ Close c # rest \<and> cr_code r = c \<and>
    cr_stdout r = take cap (ch_stdout s @ out_chunks seen)"
  using assms
proof (induction cap s evs rule: execute.induct)
  case (1 cap s)
  then show ?case by simp
next
  case (2 cap s c evs)
  let ?b = "fst (append_capped cap (ch_stdout s) c)"
  obtain cut where ac: "append_capped cap (ch_stdout s) c = (?b, cut)" by (cases "append_capped cap (ch_stdout s) c") auto
  from 2(2-4) ac have run: "execute cap (s\<lparr>ch_stdout := ?b, ch_truncated := ch_truncated s \<or> cut\<rparr>) evs = Some r"
    by (simp split: prod.splits)
  have len: "length ?b \<le> cap" using 2(4) by (rule append_capped_bound)
  from 2(1) [OF ac [symmetric] refl run] 2(3) len obtain seen rest c'
    where sp: "evs = seen @ Close c' # rest" "cr_code r = c'" "cr_stdout r = take cap (?b @ out_chunks seen)"
    by auto
  have "take cap (?b @ out_chunks seen) = take cap (ch_stdout s @ out_chunks (Stdout c # seen))"
    using 2(4) by (cases "length c \<le> cap - length (ch_stdout s)") (auto simp: append_capped_prefix out_chunks_def)
  with sp show ?case by (intro exI [of _ "Stdout c # seen"] exI [of _ rest] exI [of _ c']) simp
next
  case (3 cap s c evs)
  obtain b cut where ac: "append_capped cap (ch_stderr s) c = (b, cut)" by force
  with 3(2) have run: "execute cap (s\<lparr>ch_stderr := b, ch_truncated := ch_truncated s \<or> cut\<rparr>) evs = Some r"
    by simp
  from 3(1) [OF ac [symmetric] refl run] 3(3,4) obtain seen rest c'
    where "evs = seen @ Close c' # rest" "cr_code r = c'" "cr_stdout r = take cap (ch_stdout s @ out_chunks seen)"
    by auto
  then show ?case by (intro exI [of _ "Stderr c # seen"] exI [of _ rest] exI [of _ c']) (simp add: out_chunks_def)
next
  case (4 cap s evs)
  then obtain seen rest c'
    where "evs = seen @ Close c' # rest" "cr_code r = c'" "cr_stdout r = take cap (ch_stdout s @ out_chunks seen)"
    by auto
  then show ?case by (intro exI [of _ "Timer # seen"] exI [of _ rest] exI [of _ c']) (simp add: out_chunks_def)
next
  case (5 cap s m evs)
  then show ?case by simp
next
  case (6 cap s c evs)
  then show ?case by (intro exI [of _ "[]"] exI [of _ evs] exI [of _ c]) (auto simp: out_chunks_def)
qed

section \<open>Requests\<close>

text \<open>
  One connection delivers chunks of text; the first complete line is the request and everything
  after it is ignored.
\<close>

record conn =
  cn_data :: string
  cn_handled :: bool

datatype conn_event = Waiting | Too_Large | Line string

definition on_data :: "conn \<Rightarrow> string \<Rightarrow> conn \<times> conn_event" where
  "on_data c chunk =
    (if cn_handled c then (c, Waiting)
     else (let d = cn_data c @ chunk in
       if MAX_REQUEST_BYTES < utf8_length d then (\<lparr>cn_data = d, cn_handled = True\<rparr>, Too_Large)
       else if newline \<notin> set d then (\<lparr>cn_data = d, cn_handled = False\<rparr>, Waiting)
       else (\<lparr>cn_data = d, cn_handled = True\<rparr>, Line (takeWhile (\<lambda>x. x \<noteq> newline) d))))"

fun conn_run :: "conn \<Rightarrow> string list \<Rightarrow> conn_event list" where
  "conn_run c [] = []"
| "conn_run c (chunk # chunks) = (let (c', ev) = on_data c chunk in ev # conn_run c' chunks)"

lemma conn_run_handled: "cn_handled c \<Longrightarrow> list_all (\<lambda>ev. ev = Waiting) (conn_run c chunks)"
  by (induction chunks arbitrary: c) (auto simp: on_data_def)

lemma conn_run_single: "length (filter (\<lambda>ev. ev \<noteq> Waiting) (conn_run c chunks)) \<le> 1"
proof (induction chunks arbitrary: c)
  case Nil
  then show ?case by simp
next
  case (Cons chunk chunks)
  obtain c' ev where step: "on_data c chunk = (c', ev)" by force
  show ?case
  proof (cases "ev = Waiting")
    case True
    with Cons.IH [of c'] step show ?thesis by simp
  next
    case False
    with step have "cn_handled c'" by (auto simp: on_data_def Let_def split: if_splits)
    then have "list_all (\<lambda>ev. ev = Waiting) (conn_run c' chunks)" by (rule conn_run_handled)
    then have "filter (\<lambda>ev. ev \<noteq> Waiting) (conn_run c' chunks) = []"
      by (simp add: list_all_iff filter_empty_conv)
    with step show ?thesis by simp
  qed
qed

datatype broker_reply = Failed string | Ran ticket string

text \<open>\<open>raw.key\<close> of a parsed request: only an object has the property.\<close>

definition prop_of :: "jval \<Rightarrow> string \<Rightarrow> jval" where
  "prop_of raw k = (case raw of JObj fs \<Rightarrow> field fs k | _ \<Rightarrow> JUndef)"

text \<open>The request handler up to the start of the program; \<open>parsed\<close> is the line read as JSON, \<open>n1\<close> and
  \<open>n2\<close> the clock at the authority check and at the replay check.\<close>

definition handle_request ::
    "broker_cfg \<Rightarrow> (string \<Rightarrow> jnum) \<Rightarrow> (string \<Rightarrow> string \<Rightarrow> string \<Rightarrow> bool) \<Rightarrow> realpath_fn \<Rightarrow> bool \<Rightarrow>
     int \<Rightarrow> int \<Rightarrow> jval option \<Rightarrow> nonces option \<Rightarrow> nonces option \<times> broker_reply" where
  "handle_request cfg lit ed_verify realpath disk_ok n1 n2 parsed file = (case parsed of
     None \<Rightarrow> (file, Failed ''INVALID_JSON'')
   | Some raw \<Rightarrow> (case normalizeManagedAdminTicket lit (prop_of raw ''ticket'') of
       Inl e \<Rightarrow> (file, Failed ''INVALID_TICKET'')
     | Inr ticket \<Rightarrow>
         if \<not> verifyManagedAdminTicket lit ed_verify ticket (str_or_empty (prop_of raw ''signature'')) (publicKeyPem cfg)
         then (file, Failed ''INVALID_SIGNATURE'')
         else (case validateLocalAuthority cfg realpath n1 ticket of
             Inl e \<Rightarrow> (file, Failed ''CAPABILITY_DENIED'')
           | Inr cwd \<Rightarrow> (case consumeNonce disk_ok n2 (tk_nonce ticket) (tk_expires_at ticket) file of
               Inl e \<Rightarrow> (file, Failed ''REPLAY_DENIED'')
             | Inr file' \<Rightarrow> (file', Ran ticket cwd)))))"

lemma handle_request_shape:
  "(file', rep) = handle_request cfg lit ed_verify realpath disk_ok n1 n2 parsed file \<Longrightarrow>
    (file' = file \<and> (\<exists>c. rep = Failed c)) \<or>
    (\<exists>raw t cwd. rep = Ran t cwd \<and> parsed = Some raw \<and>
      normalizeManagedAdminTicket lit (prop_of raw ''ticket'') = Inr t \<and>
      verifyManagedAdminTicket lit ed_verify t (str_or_empty (prop_of raw ''signature'')) (publicKeyPem cfg) \<and>
      validateLocalAuthority cfg realpath n1 t = Inr cwd \<and>
      consumeNonce disk_ok n2 (tk_nonce t) (tk_expires_at t) file = Inr file')"
proof (cases parsed)
  case None
  moreover assume "(file', rep) = handle_request cfg lit ed_verify realpath disk_ok n1 n2 parsed file"
  ultimately show ?thesis by (simp add: handle_request_def)
next
  case (Some raw)
  assume h: "(file', rep) = handle_request cfg lit ed_verify realpath disk_ok n1 n2 parsed file"
  show ?thesis
  proof (cases "normalizeManagedAdminTicket lit (prop_of raw ''ticket'')")
    case (Inl e)
    with h Some show ?thesis by (simp add: handle_request_def)
  next
    case (Inr t)
    note n = this
    show ?thesis
    proof (cases "verifyManagedAdminTicket lit ed_verify t (str_or_empty (prop_of raw ''signature'')) (publicKeyPem cfg)")
      case False
      with h Some n show ?thesis by (simp add: handle_request_def)
    next
      case True
      with h Some n show ?thesis
        by (cases "validateLocalAuthority cfg realpath n1 t";
            cases "consumeNonce disk_ok n2 (tk_nonce t) (tk_expires_at t) file")
          (simp_all add: handle_request_def)
    qed
  qed
qed

lemma handle_request_Ran:
  assumes "handle_request cfg lit ed_verify realpath disk_ok n1 n2 parsed file = (file', Ran t cwd)"
  shows "\<exists>raw. parsed = Some raw \<and>
    normalizeManagedAdminTicket lit (prop_of raw ''ticket'') = Inr t \<and>
    verifyManagedAdminTicket lit ed_verify t (str_or_empty (prop_of raw ''signature'')) (publicKeyPem cfg) \<and>
    validateLocalAuthority cfg realpath n1 t = Inr cwd \<and>
    consumeNonce disk_ok n2 (tk_nonce t) (tk_expires_at t) file = Inr file'"
  using handle_request_shape [OF assms [symmetric]] by simp

lemma handle_request_Failed:
  "handle_request cfg lit ed_verify realpath disk_ok n1 n2 parsed file = (file', Failed c) \<Longrightarrow> file' = file"
  by (drule handle_request_shape [OF sym]) simp

lemma validateLocalAuthority_Inr:
  "validateLocalAuthority cfg realpath now t = Inr cwd \<longleftrightarrow>
     tk_device_id t = expectedDevice cfg \<and> tk_issued_at t \<le> now + CLOCK_SKEW_MS \<and> now \<le> tk_expires_at t \<and>
     tk_program t \<in> set (PROGRAMS cfg) - set (HARD_DENY cfg) \<and> cwdAllowed cfg realpath (tk_cwd t) = Inr cwd"
  by (auto simp: validateLocalAuthority_def guard_simps)

lemma cwdAllowed_Inr:
  assumes "cwdAllowed cfg realpath cwd = Inr real"
  shows "\<exists>r root rr. realpath cwd = Some r \<and> real = strip_slashes r \<and>
    root \<in> set (ROOTS cfg) \<and> realpath root = Some rr \<and> below (strip_slashes rr) real"
proof -
  from assms obtain roots where real: "real_dir realpath cwd = Inr real"
    and roots: "list_all2 (\<lambda>x y. real_dir realpath x = Inr y) (ROOTS cfg) roots"
    and ex: "\<exists>root \<in> set roots. below root real"
    unfolding cwdAllowed_def realRoots_def bindR_Inr_iff ensure_Inr_iff mapR_Inr_iff list_ex_iff by blast
  from real obtain r where r: "realpath cwd = Some r" "real = strip_slashes r"
    by (auto simp: real_dir_def split: option.splits)
  from ex roots obtain root y where root: "root \<in> set (ROOTS cfg)" "real_dir realpath root = Inr y" "below y real"
    using list_all2_back [OF roots] by blast
  from root(2) obtain rr where "realpath root = Some rr" "y = strip_slashes rr"
    by (auto simp: real_dir_def split: option.splits)
  with r root show ?thesis by blast
qed

section \<open>Sequences of requests\<close>

record request =
  rq_realpath :: realpath_fn
  rq_disk_ok :: bool
  rq_n1 :: int
  rq_n2 :: int
  rq_parsed :: "jval option"

fun broker_run ::
    "broker_cfg \<Rightarrow> (string \<Rightarrow> jnum) \<Rightarrow> (string \<Rightarrow> string \<Rightarrow> string \<Rightarrow> bool) \<Rightarrow> nonces option \<Rightarrow> request list \<Rightarrow>
     ticket list" where
  "broker_run cfg lit ed_verify file [] = []"
| "broker_run cfg lit ed_verify file (r # rs) =
    (case handle_request cfg lit ed_verify (rq_realpath r) (rq_disk_ok r) (rq_n1 r) (rq_n2 r) (rq_parsed r) file of
       (file', Failed c) \<Rightarrow> broker_run cfg lit ed_verify file' rs
     | (file', Ran t cwd) \<Rightarrow> t # broker_run cfg lit ed_verify file' rs)"

text \<open>The clock does not run backwards and no request stalls for a minute between its two readings.\<close>

fun clocked :: "int \<Rightarrow> request list \<Rightarrow> bool" where
  "clocked t0 [] = True"
| "clocked t0 (r # rs) = (t0 \<le> rq_n1 r \<and> rq_n1 r \<le> rq_n2 r \<and> rq_n2 r \<le> rq_n1 r + 60000 \<and> clocked (rq_n2 r) rs)"

abbreviation later_use :: "ticket \<Rightarrow> ticket \<Rightarrow> bool" where
  "later_use t t' \<equiv> tk_nonce t = tk_nonce t' \<longrightarrow> tk_expires_at t < tk_expires_at t'"

lemma clocked_mono: "clocked t1 rs \<Longrightarrow> t0 \<le> t1 \<Longrightarrow> clocked t0 rs"
  by (cases rs) auto

lemma broker_run_gen:
  assumes "0 < t0" "clocked t0 rs" "wf_table (coalesce fl [])"
    and "\<forall>(m, x) \<in> set past. file_remembers fl m x \<or> x < t0 - 60000"
  shows "sorted_wrt later_use (broker_run cfg lit ed_verify fl rs) \<and>
    (\<forall>t \<in> set (broker_run cfg lit ed_verify fl rs). \<forall>x. (tk_nonce t, x) \<in> set past \<longrightarrow> x < tk_expires_at t)"
  using assms
proof (induction rs arbitrary: t0 fl past)
  case Nil
  then show ?case by simp
next
  case (Cons r rs)
  let ?h = "handle_request cfg lit ed_verify (rq_realpath r) (rq_disk_ok r) (rq_n1 r) (rq_n2 r) (rq_parsed r) fl"
  have t: "t0 \<le> rq_n1 r" "rq_n1 r \<le> rq_n2 r" "rq_n2 r \<le> rq_n1 r + 60000" "clocked (rq_n2 r) rs"
    using Cons.prems(2) by auto
  obtain fl' rep where h: "?h = (fl', rep)" by force
  show ?case
  proof (cases rep)
    case (Failed c)
    then have "fl' = fl" using h handle_request_Failed by blast
    moreover have "clocked t0 rs" using t by (auto intro: clocked_mono)
    ultimately show ?thesis using Cons.IH [of t0 fl past] Cons.prems h Failed by simp
  next
    case (Ran tk cwd)
    with h have ran: "validateLocalAuthority cfg (rq_realpath r) (rq_n1 r) tk = Inr cwd"
      and use: "consumeNonce (rq_disk_ok r) (rq_n2 r) (tk_nonce tk) (tk_expires_at tk) fl = Inr fl'"
      using handle_request_Ran by blast+
    have live: "rq_n1 r \<le> tk_expires_at tk" using ran by (simp add: validateLocalAuthority_Inr)
    have use': "consume_wf (rq_disk_ok r) (rq_n2 r) (tk_nonce tk) (tk_expires_at tk) fl = Inr fl'"
      using use Cons.prems(3) by (simp add: consume_wf_def)
    have "t0 \<le> rq_n2 r" "0 < tk_expires_at tk" using t live Cons.prems(1) by auto
    from replay.use_step [OF Cons.prems(4) use' this(1) t(3) live this(2)]
    have known: "\<forall>(m, x) \<in> set ((tk_nonce tk, tk_expires_at tk) # past). file_remembers fl' m x \<or> x < rq_n2 r - 60000"
      and earlier: "\<forall>x. (tk_nonce tk, x) \<in> set past \<longrightarrow> x < tk_expires_at tk" by auto
    have "wf_table (coalesce fl' [])" using use Cons.prems(3) by (rule consumeNonce_wf)
    from Cons.IH [OF _ t(4) this known] Cons.prems(1) t
    have rest: "sorted_wrt later_use (broker_run cfg lit ed_verify fl' rs)"
      and after: "\<forall>t \<in> set (broker_run cfg lit ed_verify fl' rs).
        \<forall>x. (tk_nonce t, x) \<in> set ((tk_nonce tk, tk_expires_at tk) # past) \<longrightarrow> x < tk_expires_at t" by auto
    from rest after earlier show ?thesis using h Ran by auto
  qed
qed

lemma broker_run_distinct:
  assumes "0 < t0" "clocked t0 rs" "wf_table (coalesce file [])"
  shows "distinct (broker_run cfg lit ed_verify file rs)"
proof -
  have "sorted_wrt later_use (broker_run cfg lit ed_verify file rs)"
    using broker_run_gen [OF assms, of "[]"] by simp
  then show ?thesis by (rule distinct_sorted_wrt) auto
qed

end
