(* ===== verification/Targets.thy ===== *)
theory Targets
  imports Target_Config Ticket
begin

text \<open>
  \<^verbatim>\<open>src/config/targets.ts\<close>: the target registry, the static file of the deployment and the dynamic
  file the approvals write. A file holds the typed targets its JSON parses to (the schema's defaults
  filled in). \<open>le\<close> is the order of \<open>localeCompare\<close>.
\<close>

datatype registry_file = No_File | Malformed | Targets "target_config list"

record registry_state =
  rs_static :: registry_file
  rs_dynamic :: registry_file
  rs_registry :: "(string, target_config) table option"

definition parseRegistryFile :: "registry_file \<Rightarrow> bool \<Rightarrow> exn + target_config list" where
  "parseRegistryFile rf requireOne = (case rf of
     No_File \<Rightarrow> if requireOne then Inl (Error ''Target Registry nao encontrado'') else Inr []
   | Malformed \<Rightarrow> Inl (Error ''Target Registry invalido (JSON malformado)'')
   | Targets ts \<Rightarrow>
       if list_all TargetSchema ts \<and> (requireOne \<longrightarrow> ts \<noteq> []) then Inr ts
       else Inl (Error ''Target Registry invalido''))"

definition validateAgentTarget :: "target_config \<Rightarrow> exn + unit" where
  "validateAgentTarget t =
    ensure (\<not> (transport t = Agent \<and> coalesce (deviceId t) [] = [])) (Error ''transport agent sem deviceId'')"

text \<open>One loop of \<open>loadRegistry\<close>: the targets are added to the map, a known id is refused.\<close>

fun add_targets :: "exn \<Rightarrow> target_config list \<Rightarrow> (string, target_config) table \<Rightarrow> exn + (string, target_config) table" where
  "add_targets dup [] m = Inr m"
| "add_targets dup (t # ts) m =
    bindR (validateAgentTarget t) (\<lambda>_.
    bindR (ensure (map_of m (tid t) = None) dup) (\<lambda>_.
    add_targets dup ts (AList.update (tid t) t m)))"

definition loadRegistry :: "registry_state \<Rightarrow> exn + registry_state" where
  "loadRegistry rs =
    bindR (parseRegistryFile (rs_static rs) True) (\<lambda>staticTargets.
    bindR (parseRegistryFile (rs_dynamic rs) False) (\<lambda>dynamicTargets.
    bindR (add_targets (Error ''Target Registry duplicado'') staticTargets []) (\<lambda>m.
    bindR (add_targets (Error ''dinamico nao pode sobrescrever'') dynamicTargets m) (\<lambda>m'.
    Inr (rs\<lparr>rs_registry := Some m'\<rparr>)))))"

text \<open>\<open>Array.sort\<close> by a comparison: stable, here by insertion.\<close>

fun insert_by :: "('a \<Rightarrow> 'a \<Rightarrow> bool) \<Rightarrow> 'a \<Rightarrow> 'a list \<Rightarrow> 'a list" where
  "insert_by le x [] = [x]"
| "insert_by le x (y # ys) = (if le x y then x # y # ys else y # insert_by le x ys)"

definition sort_by :: "('a \<Rightarrow> 'a \<Rightarrow> bool) \<Rightarrow> 'a list \<Rightarrow> 'a list" where
  "sort_by le xs = foldr (insert_by le) xs []"

definition getTarget :: "string \<Rightarrow> registry_state \<Rightarrow> exn + target_config option" where
  "getTarget i rs = (case rs_registry rs of None \<Rightarrow> Inl (OpsError INTERNAL) | Some m \<Rightarrow> Inr (map_of m i))"

definition listTargets :: "registry_state \<Rightarrow> exn + target_config list" where
  "listTargets rs = (case rs_registry rs of None \<Rightarrow> Inl (OpsError INTERNAL) | Some m \<Rightarrow> Inr (vals m))"

definition targetIds :: "registry_state \<Rightarrow> exn + string list" where
  "targetIds rs = (case rs_registry rs of None \<Rightarrow> Inl (OpsError INTERNAL) | Some m \<Rightarrow> Inr (keys m))"

definition targetCount :: "registry_state \<Rightarrow> exn + nat" where
  "targetCount rs = (case rs_registry rs of None \<Rightarrow> Inl (OpsError INTERNAL) | Some m \<Rightarrow> Inr (length m))"

text \<open>The dynamic file is written before the registry is loaded again, so it stays written when the
  load throws.\<close>

definition upsertDynamicAgentTarget ::
    "(string \<Rightarrow> string \<Rightarrow> bool) \<Rightarrow> target_config \<Rightarrow> registry_state \<Rightarrow> registry_state \<times> (exn + target_config)" where
  "upsertDynamicAgentTarget le t rs =
    (if \<not> TargetSchema t then (rs, Inl (Error ''ZodError''))
     else if transport t \<noteq> Agent \<or> coalesce (deviceId t) [] = [] then (rs, Inl (OpsError INVALID_ARGUMENT))
     else (case parseRegistryFile (rs_static rs) True of
         Inl e \<Rightarrow> (rs, Inl e)
       | Inr staticTargets \<Rightarrow>
           if list_ex (\<lambda>s. tid s = tid t) staticTargets then (rs, Inl (OpsError CAPABILITY_DENIED))
           else (case parseRegistryFile (rs_dynamic rs) False of
               Inl e \<Rightarrow> (rs, Inl e)
             | Inr current \<Rightarrow>
                 (let nxt = sort_by (\<lambda>a b. le (tid a) (tid b)) (filter (\<lambda>s. tid s \<noteq> tid t) current @ [t]);
                      rs' = rs\<lparr>rs_dynamic := Targets nxt\<rparr>
                  in (case loadRegistry rs' of
                      Inl e \<Rightarrow> (rs', Inl e)
                    | Inr rs'' \<Rightarrow> (rs'', bindR (getTarget (tid t) rs'') (\<lambda>r. Inr (the r))))))))"

text \<open>\<open>publicTarget\<close>: what the tools show of a target, in the code's order.\<close>

fun environment_text :: "environment \<Rightarrow> string" where
  "environment_text Production = ''production''"
| "environment_text Staging = ''staging''"
| "environment_text Development = ''development''"

fun profile_text :: "capability_profile \<Rightarrow> string" where
  "profile_text Read_Only = ''read-only''"
| "profile_text Prod_Read_Mostly = ''prod-read-mostly''"
| "profile_text Operator = ''operator''"
| "profile_text Semantic_Operator = ''semantic-operator''"

fun transport_text :: "transport \<Rightarrow> string" where
  "transport_text SSH = ''ssh''"
| "transport_text Mock = ''mock''"
| "transport_text Agent = ''agent''"

fun docker_action_text :: "docker_action \<Rightarrow> string" where
  "docker_action_text D_Start = ''start''"
| "docker_action_text D_Stop = ''stop''"
| "docker_action_text D_Restart = ''restart''"
| "docker_action_text D_Load_Image = ''load_image''"
| "docker_action_text D_Candidate_Run = ''candidate_run''"
| "docker_action_text D_Candidate_Remove = ''candidate_remove''"

fun service_action_text :: "service_action \<Rightarrow> string" where
  "service_action_text S_Start = ''start''"
| "service_action_text S_Stop = ''stop''"
| "service_action_text S_Restart = ''restart''"
| "service_action_text S_Reload = ''reload''"

definition jstrs :: "string list \<Rightarrow> jval" where
  "jstrs xs = JArr (map JStr xs)"

definition jints :: "int list \<Rightarrow> jval" where
  "jints xs = JArr (map (\<lambda>i. JNum (NInt i)) xs)"

definition publicTarget :: "target_config \<Rightarrow> jval" where
  "publicTarget t = JObj
    [(''id'', JStr (tid t)),
     (''environment'', JStr (environment_text (environment t))),
     (''capabilityProfile'', JStr (profile_text (capabilityProfile t))),
     (''transport'', JStr (transport_text (transport t))),
     (''enabled'', JBool (enabled t)),
     (''allowedPaths'', jstrs (allowedPaths t)),
     (''allowedDockerContainers'', jstrs (allowedDockerContainers t)),
     (''allowedDockerExecContainers'', jstrs (allowedDockerExecContainers t)),
     (''allowedDockerExecPrograms'', jstrs (allowedDockerExecPrograms t)),
     (''allowedDockerActions'', jstrs (map docker_action_text (allowedDockerActions t))),
     (''allowedDockerImageLoadRoots'', jstrs (allowedDockerImageLoadRoots t)),
     (''allowedDockerCandidateImagePrefixes'', jstrs (allowedDockerCandidateImagePrefixes t)),
     (''allowedDockerCandidateNetworks'', jstrs (allowedDockerCandidateNetworks t)),
     (''allowedDockerCandidateNamePrefixes'', jstrs (allowedDockerCandidateNamePrefixes t)),
     (''allowedDockerCandidateHostPorts'', jints (allowedDockerCandidateHostPorts t)),
     (''allowedDockerCandidateContainerPorts'', jints (allowedDockerCandidateContainerPorts t)),
     (''allowedServices'', jstrs (allowedServices t)),
     (''allowedServiceActions'', jstrs (map service_action_text (allowedServiceActions t))),
     (''allowedGitRepos'', jstrs (allowedGitRepos t)),
     (''allowedSemanticCapabilities'', jstrs (allowedSemanticCapabilities t)),
     (''allowedAdminPrograms'', jstrs (allowedAdminPrograms t)),
     (''allowedAdminCwds'', jstrs (allowedAdminCwds t)),
     (''allowedWritePaths'', jstrs (allowedWritePaths t)),
     (''allowedProcessCwds'', jstrs (allowedProcessCwds t)),
     (''allowedProcessPrograms'', jstrs (allowedProcessPrograms t))]"

text \<open>No credential, host or key of a target shows in its public form.\<close>

lemma publicTarget_hides:
  "publicTarget (t\<lparr>host := h, port := p, username := u, credentialRef := c, keyFile := k, deviceId := d,
     hostKeyFingerprint := f, hostKey := hk\<rparr>) = publicTarget t"
  by (simp add: publicTarget_def)

section \<open>Loading\<close>

lemma set_insert_by [simp]: "set (insert_by le x ys) = insert x (set ys)"
  by (induction ys) auto

lemma set_sort_by [simp]: "set (sort_by le xs) = set xs"
  by (induction xs) (auto simp: sort_by_def)

lemma distinct_insert_by: "distinct (map f (insert_by le x ys)) \<longleftrightarrow> distinct (map f (x # ys))"
  by (induction ys) auto

lemma distinct_sort_by [simp]: "distinct (map f (sort_by le xs)) \<longleftrightarrow> distinct (map f xs)"
  by (induction xs) (simp_all add: sort_by_def distinct_insert_by, metis set_sort_by sort_by_def image_set)

definition registry_ok :: "(string, target_config) table \<Rightarrow> bool" where
  "registry_ok m = (wf_table m \<and>
     list_all (\<lambda>(k, t). tid t = k \<and> TargetSchema t \<and> (transport t = Agent \<longrightarrow> coalesce (deviceId t) [] \<noteq> [])) m)"

lemma update_new: "map_of m k = None \<Longrightarrow> AList.update k v m = m @ [(k, v)]"
  by (induction m) (auto split: if_splits)

text \<open>A loop succeeds exactly when all targets are sound and all ids are new.\<close>

lemma add_targets_Inr:
  "add_targets dup ts m = Inr m' \<longleftrightarrow>
     list_all (\<lambda>t. validateAgentTarget t = Inr ()) ts \<and> distinct (map tid ts) \<and>
     (\<forall>t \<in> set ts. map_of m (tid t) = None) \<and> m' = m @ map (\<lambda>t. (tid t, t)) ts"
proof (induction ts arbitrary: m)
  case Nil
  then show ?case by auto
next
  case (Cons t ts)
  show ?case
  proof (cases "map_of m (tid t) = None")
    case True
    then show ?thesis by (auto simp: bindR_Inr_iff ensure_Inr_iff Cons.IH update_new map_add_def image_iff split: option.splits if_splits)
  next
    case False
    then show ?thesis by (auto simp: bindR_Inr_iff ensure_Inr_iff)
  qed
qed

lemma parse_schema: "parseRegistryFile rf one = Inr ts \<Longrightarrow> list_all TargetSchema ts"
  by (auto simp: parseRegistryFile_def split: registry_file.splits if_splits)

lemma loadRegistry_Inr:
  "loadRegistry rs = Inr rs' \<longleftrightarrow> (\<exists>ss ds.
     parseRegistryFile (rs_static rs) True = Inr ss \<and> parseRegistryFile (rs_dynamic rs) False = Inr ds \<and>
     list_all (\<lambda>t. validateAgentTarget t = Inr ()) (ss @ ds) \<and> distinct (map tid (ss @ ds)) \<and>
     rs' = rs\<lparr>rs_registry := Some (map (\<lambda>t. (tid t, t)) (ss @ ds))\<rparr>)"
proof -
  have keys: "map_of (map (\<lambda>t. (tid t, t)) ss) i = None \<longleftrightarrow> i \<notin> tid ` set ss" for ss i
    by (simp add: map_of_eq_None_iff image_image)
  have disj: "(\<forall>t \<in> set ds. tid t \<notin> tid ` set ss) \<longleftrightarrow> tid ` set ss \<inter> tid ` set ds = {}" for ss ds
    by (auto simp: disjoint_iff) (metis imageI)
  show ?thesis
    by (simp add: loadRegistry_def bindR_Inr_iff add_targets_Inr keys disj) (auto simp: eq_commute)
qed

section \<open>Properties\<close>

lemma reg_lookup:
  "distinct (map tid ts) \<Longrightarrow> map_of (map (\<lambda>t. (tid t, t)) ts) i = Some t \<longleftrightarrow> t \<in> set ts \<and> tid t = i"
  by (subst map_of_eq_Some_iff) (auto simp: comp_def)

lemma reg_lookup_cong:
  assumes "distinct (map tid ts)" "distinct (map tid us)" "\<And>t. tid t = i \<Longrightarrow> t \<in> set ts \<longleftrightarrow> t \<in> set us"
  shows "map_of (map (\<lambda>t. (tid t, t)) ts) i = map_of (map (\<lambda>t. (tid t, t)) us) i"
proof (cases "map_of (map (\<lambda>t. (tid t, t)) ts) i")
  case None
  then have "t \<notin> set us \<or> tid t \<noteq> i" for t using reg_lookup [OF assms(1), of i t] assms(3) [of t] by auto
  then have "map_of (map (\<lambda>t. (tid t, t)) us) i \<noteq> Some t" for t using reg_lookup [OF assms(2), of i t] by blast
  with None show ?thesis by (cases "map_of (map (\<lambda>t. (tid t, t)) us) i") auto
next
  case (Some t)
  then have "t \<in> set us \<and> tid t = i" using reg_lookup [OF assms(1), of i t] assms(3) [of t] by auto
  then have "map_of (map (\<lambda>t. (tid t, t)) us) i = Some t" using reg_lookup [OF assms(2), of i t] by blast
  with Some show ?thesis by simp
qed

lemma loadRegistry_again: "loadRegistry rs = Inr rs' \<Longrightarrow> loadRegistry rs' = Inr rs'"
  unfolding loadRegistry_Inr by fastforce

lemma registry_load_schema:
  assumes "loadRegistry rs = Inr rs'"
  shows "\<exists>m. rs_registry rs' = Some m \<and> (\<forall>i t. map_of m i = Some t \<longrightarrow> tid t = i \<and> TargetSchema t)"
proof -
  from assms obtain ss ds where p: "parseRegistryFile (rs_static rs) True = Inr ss"
      "parseRegistryFile (rs_dynamic rs) False = Inr ds" and d: "distinct (map tid (ss @ ds))"
    and rs': "rs' = rs\<lparr>rs_registry := Some (map (\<lambda>t. (tid t, t)) (ss @ ds))\<rparr>"
    unfolding loadRegistry_Inr by blast
  have sch: "list_all TargetSchema (ss @ ds)" using parse_schema p by (metis list_all_append)
  have "tid t = i \<and> TargetSchema t" if look: "map_of (map (\<lambda>t. (tid t, t)) (ss @ ds)) i = Some t" for i t
  proof -
    from look have "t \<in> set (ss @ ds)" "tid t = i" using reg_lookup [OF d] by blast+
    with sch show ?thesis unfolding list_all_iff by blast
  qed
  moreover have "rs_registry rs' = Some (map (\<lambda>t. (tid t, t)) (ss @ ds))" by (simp add: rs')
  ultimately show ?thesis by blast
qed

text \<open>A registry that loads has one target per id, each of them valid and, on the agent transport,
  bound to a device; every target of the static file is in it as written, so that no dynamic target can
  replace or change a static one.\<close>

lemma registry_load_sound:
  assumes "loadRegistry rs = Inr rs'"
  shows "\<exists>m ss. rs_registry rs' = Some m \<and> wf_table m \<and> parseRegistryFile (rs_static rs) True = Inr ss \<and>
    (\<forall>i t. map_of m i = Some t \<longrightarrow>
       tid t = i \<and> TargetSchema t \<and> (transport t = Agent \<longrightarrow> coalesce (deviceId t) [] \<noteq> [])) \<and>
    (\<forall>t \<in> set ss. map_of m (tid t) = Some t)"
proof -
  from assms obtain ss ds where p: "parseRegistryFile (rs_static rs) True = Inr ss"
      "parseRegistryFile (rs_dynamic rs) False = Inr ds"
    and ok: "list_all (\<lambda>t. validateAgentTarget t = Inr ()) (ss @ ds)" and d: "distinct (map tid (ss @ ds))"
    and rs': "rs' = rs\<lparr>rs_registry := Some (map (\<lambda>t. (tid t, t)) (ss @ ds))\<rparr>"
    unfolding loadRegistry_Inr by blast
  have sch: "list_all TargetSchema (ss @ ds)" using parse_schema p by (metis list_all_append)
  show ?thesis
  proof (intro exI conjI)
    show "rs_registry rs' = Some (map (\<lambda>t. (tid t, t)) (ss @ ds))" by (simp add: rs')
    show "wf_table (map (\<lambda>t. (tid t, t)) (ss @ ds))" using d by (simp add: wf_table_def keys_def comp_def)
    show "parseRegistryFile (rs_static rs) True = Inr ss" by (rule p)
    show "\<forall>i t. map_of (map (\<lambda>t. (tid t, t)) (ss @ ds)) i = Some t \<longrightarrow>
       tid t = i \<and> TargetSchema t \<and> (transport t = Agent \<longrightarrow> coalesce (deviceId t) [] \<noteq> [])"
    proof (intro allI impI)
      fix i t
      assume "map_of (map (\<lambda>t. (tid t, t)) (ss @ ds)) i = Some t"
      then have "t \<in> set (ss @ ds)" "tid t = i" using reg_lookup [OF d] by blast+
      with sch ok show "tid t = i \<and> TargetSchema t \<and> (transport t = Agent \<longrightarrow> coalesce (deviceId t) [] \<noteq> [])"
        unfolding list_all_iff validateAgentTarget_def ensure_Inr_iff by blast
    qed
    show "\<forall>t \<in> set ss. map_of (map (\<lambda>t. (tid t, t)) (ss @ ds)) (tid t) = Some t"
      using reg_lookup [OF d] by auto
  qed
qed

definition demo_target :: "string \<Rightarrow> transport \<Rightarrow> string option \<Rightarrow> target_config" where
  "demo_target i tr dev = \<lparr>tid = i, host = ''127.0.0.1'', port = 22, username = ''ops-mcp'', credentialRef = None,
     keyFile = None, deviceId = dev, hostKeyFingerprint = None, hostKey = None, environment = Production,
     capabilityProfile = Prod_Read_Mostly, allowedPaths = [], allowedDockerContainers = [],
     allowedDockerExecContainers = [], allowedDockerExecPrograms = [], allowedDockerActions = [],
     allowedDockerImageLoadRoots = [], allowedDockerCandidateImagePrefixes = [], allowedDockerCandidateNetworks = [],
     allowedDockerCandidateNamePrefixes = [], allowedDockerCandidateHostPorts = [],
     allowedDockerCandidateContainerPorts = [], allowedServices = [], allowedServiceActions = [], allowedGitRepos = [],
     allowedSemanticCapabilities = [], allowedAdminPrograms = [], allowedAdminCwds = [], allowedWritePaths = [],
     allowedProcessCwds = [], allowedProcessPrograms = [], enabled = True, transport = tr, commandTimeoutMs = None,
     connectTimeoutMs = None\<rparr>"

definition demo_registry :: registry_state where
  "demo_registry = \<lparr>rs_static = Targets [demo_target ''prod'' SSH None],
     rs_dynamic = Targets [demo_target ''lab'' Agent (Some ''dev_12345678'')], rs_registry = None\<rparr>"

lemma registry_load_sound_witness:
  "\<exists>rs' m. loadRegistry demo_registry = Inr rs' \<and> rs_registry rs' = Some m \<and> wf_table m"
proof -
  have "is_ok (loadRegistry demo_registry)" by code_simp
  then obtain rs' where "loadRegistry demo_registry = Inr rs'" by (auto simp: is_ok_iff)
  with registry_load_sound [OF this] show ?thesis by blast
qed

lemma upsert_effect:
  assumes "loadRegistry rs = Inr rs" "upsertDynamicAgentTarget le t rs = (rs', res)"
  shows "(case res of
     Inl e \<Rightarrow> rs' = rs
   | Inr r \<Rightarrow> r = t \<and> loadRegistry rs' = Inr rs' \<and> rs_static rs' = rs_static rs \<and>
       getTarget (tid t) rs' = Inr (Some t) \<and> transport t = Agent \<and>
       (\<forall>i. i \<noteq> tid t \<longrightarrow> getTarget i rs' = getTarget i rs))"
proof -
  from assms(1) obtain ss ds where p: "parseRegistryFile (rs_static rs) True = Inr ss"
      "parseRegistryFile (rs_dynamic rs) False = Inr ds"
    and ok: "list_all (\<lambda>t. validateAgentTarget t = Inr ()) (ss @ ds)" and d: "distinct (map tid (ss @ ds))"
    and reg: "rs = rs\<lparr>rs_registry := Some (map (\<lambda>t. (tid t, t)) (ss @ ds))\<rparr>"
    unfolding loadRegistry_Inr by blast
  let ?new = "sort_by (\<lambda>a b. le (tid a) (tid b)) (filter (\<lambda>s. tid s \<noteq> tid t) ds @ [t])"
  let ?rs = "rs\<lparr>rs_dynamic := Targets ?new\<rparr>"
  consider "\<exists>e. res = Inl e \<and> rs' = rs"
    | "TargetSchema t" "transport t = Agent" "coalesce (deviceId t) [] \<noteq> []" "\<not> list_ex (\<lambda>s. tid s = tid t) ss"
    using assms(2) p by (auto simp: upsertDynamicAgentTarget_def split: if_splits)
  then show ?thesis
  proof cases
    case 1
    then show ?thesis by auto
  next
    case 2
    have sch: "list_all TargetSchema ?new"
      using parse_schema [OF p(2)] 2(1) by (auto simp: list_all_iff)
    have d': "distinct (map tid (ss @ ?new))"
      using d 2(4) by (auto simp: list_ex_iff distinct_map_filter)
    have load: "loadRegistry ?rs = Inr (?rs\<lparr>rs_registry := Some (map (\<lambda>t. (tid t, t)) (ss @ ?new))\<rparr>)"
      unfolding loadRegistry_Inr using p ok sch d' 2(2,3)
      by (intro exI [of _ ss] exI [of _ ?new])
        (auto simp: parseRegistryFile_def list_all_iff validateAgentTarget_def ensure_Inr_iff)
    let ?rs' = "?rs\<lparr>rs_registry := Some (map (\<lambda>t. (tid t, t)) (ss @ ?new))\<rparr>"
    have look: "getTarget (tid t) ?rs' = Inr (Some t)"
      using d' by (simp add: getTarget_def reg_lookup [OF d'] del: map_append map_of_append)
    have other: "getTarget i ?rs' = getTarget i rs" if "i \<noteq> tid t" for i
      by (subst reg) (use that reg_lookup_cong [OF d' d, of i] in \<open>auto simp: getTarget_def simp del: map_append\<close>)
    have "upsertDynamicAgentTarget le t rs = (?rs', Inr t)"
      using 2 p load look by (simp add: upsertDynamicAgentTarget_def Let_def)
    then have "res = Inr t \<and> rs' = ?rs'" using assms(2) by simp
    moreover have "loadRegistry ?rs' = Inr ?rs'" using load by (simp add: loadRegistry_def)
    ultimately show ?thesis using look other 2(2) by simp
  qed
qed

text \<open>On a registry that loads, \<open>upsertDynamicAgentTarget\<close> is all or nothing: when it succeeds, the
  new target is the one under its id and every other id keeps its target; when it fails, no file and no
  target has changed.\<close>

lemma upsert_all_or_nothing:
  assumes "loadRegistry rs = Inr rs" "upsertDynamicAgentTarget le t rs = (rs', res)"
  shows "(case res of
     Inl e \<Rightarrow> rs' = rs
   | Inr r \<Rightarrow> r = t \<and> loadRegistry rs' = Inr rs' \<and> rs_static rs' = rs_static rs \<and>
       getTarget (tid t) rs' = Inr (Some t) \<and> transport t = Agent \<and>
       (\<forall>i. i \<noteq> tid t \<longrightarrow> getTarget i rs' = getTarget i rs))"
  using assms by (rule upsert_effect)

lemma upsert_all_or_nothing_witness:
  "let rs = (case loadRegistry demo_registry of Inr rs \<Rightarrow> rs | Inl e \<Rightarrow> demo_registry);
       t = demo_target ''new'' Agent (Some ''dev_12345678'')
   in getTarget ''new'' (fst (upsertDynamicAgentTarget (\<lambda>a b. True) t rs)) = Inr (Some t) \<and>
      getTarget ''lab'' (fst (upsertDynamicAgentTarget (\<lambda>a b. True) t rs)) = getTarget ''lab'' rs"
proof -
  let ?rs = "case loadRegistry demo_registry of Inr rs \<Rightarrow> rs | Inl e \<Rightarrow> demo_registry"
  let ?t = "demo_target ''new'' Agent (Some ''dev_12345678'')"
  let ?u = "upsertDynamicAgentTarget (\<lambda>a b. True) ?t ?rs"
  have l: "is_ok (loadRegistry demo_registry)" and u: "is_ok (snd ?u)" by code_simp+
  from l loadRegistry_again have "loadRegistry ?rs = Inr ?rs" by (auto simp: is_ok_iff)
  moreover from u have "\<exists>r. snd ?u = Inr r" by (simp only: is_ok_iff)
  ultimately show ?thesis
    using upsert_all_or_nothing [of ?rs "\<lambda>a b. True" ?t "fst ?u" "snd ?u"] by (auto simp: Let_def demo_target_def)
qed

end
