(* ===== verification/Boundary_Properties.thy ===== *)
theory Boundary_Properties
  imports Limiter Admin_Broker Targets
begin

text \<open>
  What the outer checks guarantee: the request limiter, the path checks of the control plane, the
  signature on an administrative ticket and the root broker that runs it.
\<close>

section \<open>Requests and paths\<close>

text \<open>The request limiter works: as long as at most 10,000 addresses call, no address gets more than the
  allowed number of requests through in any minute, wherever the minute starts.\<close>

lemma rate_limit_window:
  assumes "sorted (map snd rs)" "card (fst ` set rs) \<le> 10000"
  shows "length (in_window 60000 key t (accepted (rateLimit maxPerMin) [] rs)) \<le> maxPerMin"
  unfolding rateLimit_def using assms by (intro accepted_window) auto

definition demo_calls :: "(string \<times> int) list" where
  "demo_calls = [(''a'', 0), (''a'', 10), (''b'', 20), (''a'', 59999), (''a'', 60000)]"

lemma rate_limit_window_witness:
  "accepted (rateLimit 2) [] demo_calls = [(''a'', 0), (''a'', 10), (''b'', 20), (''a'', 60000)] \<and>
   length (in_window 60000 ''a'' 60000 (accepted (rateLimit 2) [] demo_calls)) \<le> 2"
proof
  show "accepted (rateLimit 2) [] demo_calls = [(''a'', 0), (''a'', 10), (''b'', 20), (''a'', 60000)]"
    by (simp add: demo_calls_def rateLimit_def limiter_def hits_of_def recent_def coalesce_def)
  have "card (fst ` set demo_calls) \<le> length demo_calls"
    using card_image_le card_length order_trans by blast
  then have "sorted (map snd demo_calls)" "card (fst ` set demo_calls) \<le> 10000"
    by (simp_all add: demo_calls_def)
  then show "length (in_window 60000 ''a'' 60000 (accepted (rateLimit 2) [] demo_calls)) \<le> 2"
    by (rule rate_limit_window)
qed

text \<open>A path accepted against configured roots lies under one of them component by component, has no
  parent component and is no secret path, and the normalised path is accepted again unchanged.\<close>

lemma configured_path_confined:
  assumes "assertConfiguredPath p roots = Inr q"
  shows "(\<exists>root \<in> set roots. prefix (segs (strip_slashes root)) (segs q)) \<and> ''..'' \<notin> set (segs q) \<and>
    \<not> denySecretPath q \<and> assertConfiguredPath q roots = Inr q"
  using configured.confined [OF assms] configured.check_not_secret [OF assms] assertConfiguredPath_idem [OF assms]
  by blast

lemma configured_path_confined_witness:
  "assertConfiguredPath ''/srv//app/./log'' [''/srv/app/''] = Inr ''/srv/app/log'' \<and>
   prefix (segs (strip_slashes ''/srv/app/'')) (segs ''/srv/app/log'')"
proof -
  have "assertConfiguredPath ''/srv//app/./log'' [''/srv/app/''] = Inr ''/srv/app/log''" by code_simp
  with configured_path_confined [OF this] show ?thesis by simp
qed

text \<open>A remote path is read only where the host's own resolution of it lies: whatever the host answers, an
  accepted path is absolute, under an allowed root of the target component by component, without parent
  components and no secret path.\<close>

lemma resolved_path_confined:
  assumes "resolveCheckedPath p t run = Inr real"
  shows "(\<exists>root \<in> set (allowedPaths t). prefix (segs (strip_slashes root)) (segs real)) \<and>
    starts_with real ''/'' \<and> ''..'' \<notin> set (segs real) \<and> \<not> denySecretPath real"
proof -
  from assms have "resolveCheckedPath p (t\<lparr>allowedPaths := allowedPaths t\<rparr>) run = Inr real" by simp
  from checked_path.confined [OF this] checked_path.check_absolute [OF this] checked_path.check_not_secret [OF this]
  show ?thesis by blast
qed

text \<open>A host whose \<open>realpath\<close> follows a link.\<close>

definition demo_remote :: remote_run where
  "demo_remote argv = Inr \<lparr>exit_code = Some 0, stdout = ''/srv/app/real'' @ [newline], stderr = [], durationMs = 1,
     truncated = False, timedOut = False\<rparr>"

lemma resolved_path_confined_witness:
  "resolveCheckedPath ''/srv/app/link'' ((demo_target ''prod'' SSH None)\<lparr>allowedPaths := [''/srv/app'']\<rparr>) demo_remote
     = Inr ''/srv/app/real'' \<and> starts_with ''/srv/app/real'' ''/''"
proof -
  have "resolveCheckedPath ''/srv/app/link'' ((demo_target ''prod'' SSH None)\<lparr>allowedPaths := [''/srv/app'']\<rparr>) demo_remote
     = Inr ''/srv/app/real''" by code_simp
  with resolved_path_confined [OF this] show ?thesis by simp
qed

section \<open>Tickets\<close>

lemma signed_verifies:
  assumes "ed25519_correct ed_sign ed_public ed_verify"
    and "signManagedAdminTicket lit sha256 ed_sign t secret = Inr sig"
    and "deriveManagedAdminPublicKeyPem sha256 ed_public secret = Inr pem"
  shows "verifyManagedAdminTicket lit ed_verify t sig pem"
proof -
  from assms(2) obtain bytes key where k: "managedAdminTicketBytes lit t = Inr bytes"
      "deriveManagedAdminPrivateKey sha256 secret = Inr key" "sig = ed_sign key bytes"
    by (auto simp: signManagedAdminTicket_def guard_simps)
  with assms(3) have pem: "pem = ed_public key" by (simp add: deriveManagedAdminPublicKeyPem_def)
  from assms(1) have "ed_verify pem bytes sig" "re_class b64url_char 86 86 sig"
    unfolding ed25519_correct_def k pem by blast+
  then show ?thesis by (simp add: verifyManagedAdminTicket_def k SIGNATURE_RE_def re_class_def)
qed

text \<open>Signing and verifying agree: a well-formed ticket signed under a secret verifies under the public key
  derived from that secret.\<close>

lemma signed_ticket_verifies:
  assumes "ed25519_correct ed_sign ed_public ed_verify"
    and "signManagedAdminTicket lit sha256 ed_sign t secret = Inr sig"
    and "deriveManagedAdminPublicKeyPem sha256 ed_public secret = Inr pem"
  shows "verifyManagedAdminTicket lit ed_verify t sig pem"
  using assms by (rule signed_verifies)

definition demo_ticket :: ticket where
  "demo_ticket = \<lparr>tk_target_id = ''ops-1'', tk_device_id = ''dev_12345678'', tk_program = ''df'', tk_argv = [''-h''],
     tk_cwd = ''/opt'', tk_timeout_ms = 5000, tk_nonce = replicate 48 CHR ''0'', tk_issued_at = 720000,
     tk_expires_at = 810000\<rparr>"

definition demo_sign :: "string \<Rightarrow> string \<Rightarrow> string" where
  "demo_sign key m = replicate 86 CHR ''A''"

definition demo_accepts :: "string \<Rightarrow> string \<Rightarrow> string \<Rightarrow> bool" where
  "demo_accepts pem m sig = (sig = replicate 86 CHR ''A'')"

lemma demo_ed25519: "ed25519_correct demo_sign ed_public demo_accepts"
proof -
  have "re_class b64url_char 86 86 (replicate 86 CHR ''A'')"
    by (simp add: re_class_def list_all_iff b64url_char_def is_alnum_def is_upper_def between_def code_def)
  then show ?thesis by (simp add: ed25519_correct_def demo_sign_def demo_accepts_def)
qed

lemma demo_ticket_ok: "ticket_ok demo_ticket"
proof -
  have "ID_RE ''ops-1''" "re_device_id ''dev_12345678''" "re_program ''df''" "cwd_shape ''/opt''" "utf8_length ''-h'' = 2"
    "\<not> has_nul_cr_lf ''-h''"
    by code_simp+
  moreover have "NONCE_RE (replicate 48 CHR ''0'')"
    by (simp add: NONCE_RE_def re_class_def list_all_iff hex_char_def is_digit_def between_def code_def)
  ultimately show ?thesis by (simp add: ticket_ok_def demo_ticket_def admin_arg_ok_def timeout_ok_def)
qed

lemma signed_ticket_verifies_witness:
  "verifyManagedAdminTicket (\<lambda>s. NaN) demo_accepts demo_ticket (replicate 86 CHR ''A'')
     (PKCS8_ED25519_PREFIX @ DOMAIN @ utf8 (replicate 32 CHR ''s''))"
proof -
  have "managedAdminTicketBytes (\<lambda>s. NaN) demo_ticket = Inr (utf8 (json_ticket demo_ticket))"
    by (simp add: ticketBytes_ok demo_ticket_ok)
  then have "signManagedAdminTicket (\<lambda>s. NaN) (\<lambda>b. b) demo_sign demo_ticket (replicate 32 CHR ''s'')
      = Inr (replicate 86 CHR ''A'')"
    by (simp add: signManagedAdminTicket_def deriveManagedAdminPrivateKey_def seedFromSecret_def ensure_def demo_sign_def)
  moreover have "deriveManagedAdminPublicKeyPem (\<lambda>b. b) (\<lambda>k. k) (replicate 32 CHR ''s'') =
      Inr (PKCS8_ED25519_PREFIX @ DOMAIN @ utf8 (replicate 32 CHR ''s''))"
    by (simp add: deriveManagedAdminPublicKeyPem_def deriveManagedAdminPrivateKey_def seedFromSecret_def ensure_def)
  ultimately show ?thesis using demo_ed25519 signed_ticket_verifies by blast
qed

section \<open>The root broker\<close>


definition demo_broker :: broker_cfg where
  "demo_broker = \<lparr>ROOTS = [''/opt''], PROGRAMS = [''df''], HARD_DENY = MANAGED_ADMIN_HARD_DENY, MAX_OUTPUT_BYTES = 65536,
     publicKeyPem = ''pem'', expectedDevice = ''dev_12345678''\<rparr>"

definition demo_dirs :: realpath_fn where
  "demo_dirs p = (if p = ''/opt'' then Some ''/opt'' else None)"

definition demo_line :: jval where
  "demo_line = JObj [(''ticket'', ticket_value demo_ticket), (''signature'', JStr (replicate 86 CHR ''A''))]"

lemma demo_handled:
  "handle_request demo_broker (\<lambda>s. NaN) demo_accepts demo_dirs True 720000 720001 (Some demo_line) None
     = (Some [(replicate 48 CHR ''0'', Some 810000)], Ran demo_ticket ''/opt'')"
proof -
  have n: "normalizeManagedAdminTicket (\<lambda>s. NaN) (prop_of demo_line ''ticket'') = Inr demo_ticket"
    using normalize_ticket_value [OF demo_ticket_ok] by (simp add: demo_line_def prop_of_def field_def)
  have "managedAdminTicketBytes (\<lambda>s. NaN) demo_ticket = Inr (utf8 (json_ticket demo_ticket))"
    by (simp add: ticketBytes_ok demo_ticket_ok)
  then have v: "verifyManagedAdminTicket (\<lambda>s. NaN) demo_accepts demo_ticket (str_or_empty (prop_of demo_line ''signature'')) pem"
    for pem
    by (simp add: verifyManagedAdminTicket_def demo_accepts_def demo_line_def prop_of_def field_def SIGNATURE_RE_def
        re_class_def list_all_iff b64url_char_def is_alnum_def is_upper_def between_def code_def)
  have "strip_slashes ''/opt'' = ''/opt''" by code_simp
  then have "cwdAllowed demo_broker demo_dirs ''/opt'' = Inr ''/opt''"
    by (simp add: cwdAllowed_def real_dir_def demo_dirs_def realRoots_def demo_broker_def below_def ensure_def)
  moreover have "''df'' \<notin> set MANAGED_ADMIN_HARD_DENY" by code_simp
  ultimately have a: "validateLocalAuthority demo_broker demo_dirs 720000 demo_ticket = Inr ''/opt''"
    by (simp add: validateLocalAuthority_Inr demo_broker_def demo_ticket_def CLOCK_SKEW_MS_def)
  have c: "consumeNonce True 720001 (tk_nonce demo_ticket) (tk_expires_at demo_ticket) None
      = Inr (Some [(replicate 48 CHR ''0'', Some 810000)])"
    by (simp add: consumeNonce_def loadReplay_def demo_ticket_def keep_def coalesce_def truthy_def ensure_def)
  show ?thesis by (simp add: handle_request_def n v a c)
qed



definition demo_sent :: "int \<Rightarrow> request" where
  "demo_sent n = \<lparr>rq_realpath = demo_dirs, rq_disk_ok = True, rq_n1 = n, rq_n2 = n + 1, rq_parsed = Some demo_line\<rparr>"


text \<open>A program that ends reports what it wrote: its standard output before the end, cut at the cap and
  nowhere else.\<close>

lemma broker_output_exact:
  assumes "execute cap child_start evs = Some r" "list_all (\<lambda>ev. \<forall>m. ev \<noteq> Spawn_Error m) evs"
  shows "\<exists>seen rest c. evs = seen @ Close c # rest \<and> cr_code r = c \<and> cr_stdout r = take cap (out_chunks seen)"
  using execute_output [OF assms] by (simp add: child_start_def)

lemma broker_output_exact_witness:
  "\<exists>r. execute 4 child_start [Stdout ''abc'', Stderr ''x'', Stdout ''de'', Close (Some 0), Stdout ''z''] = Some r \<and>
     cr_stdout r = ''abcd'' \<and> cr_code r = Some 0"
proof -
  let ?evs = "[Stdout ''abc'', Stderr ''x'', Stdout ''de'', Close (Some 0), Stdout ''z'']"
  obtain r where r: "execute 4 child_start ?evs = Some r" "cr_stdout r = ''abcd''" "cr_code r = Some 0"
    by (simp add: child_start_def append_capped_def)
  from broker_output_exact [OF r(1)] r show ?thesis by auto
qed

end
