(* ===== verification/Store.thy ===== *)
theory Store
  imports Errors
begin

text \<open>
  \<^verbatim>\<open>src/state/store.ts\<close>, first half: the persistent state, OAuth clients, authorization codes,
  sessions, target overlays, activity and usage. Each \<open>Record<string, T>\<close> is an insertion-ordered
  table of its own keys. A store holds the state in memory, the copy of it on disk and the module's
  \<open>lastSessionTouch\<close>; \<open>persist\<close> writes the memory to the disk (a write that fails throws and ends the
  request; it is not modelled). Random values, the clock and SHA-256 are arguments.
\<close>

section \<open>Data\<close>

record stored_client =
  cl_id :: string
  cl_name :: "string option"
  cl_redirect_uris :: "string list"
  cl_created_at :: int
  cl_last_seen_at :: "int option"
  cl_revoked_at :: "int option"

record stored_auth_code =
  ac_code_hash :: string
  ac_client_id :: string
  ac_redirect_uri :: string
  ac_challenge :: string
  ac_resource :: "string option"
  ac_expires_at :: int

record stored_session =
  ss_id :: string
  ss_client_id :: string
  ss_created_at :: int
  ss_last_seen_at :: int
  ss_access_expires_at :: int
  ss_refresh_hash :: string
  ss_refresh_expires_at :: int
  ss_resource :: "string option"
  ss_revoked_at :: "int option"

record target_control =
  tc_enabled :: bool
  tc_updated_at :: int
  tc_reason :: "string option"

datatype tool_outcome = OK | Denied | Errored

record target_activity =
  ta_last_seen_at :: int
  ta_last_ok_at :: "int option"
  ta_last_error_at :: "int option"
  ta_last_tool :: string
  ta_last_result :: tool_outcome
  ta_last_error_code :: "string option"

record stored_pairing =
  pr_id :: string
  pr_code_hash :: string
  pr_poll_hash :: string
  pr_created_at :: int
  pr_expires_at :: int
  pr_hostname :: string
  pr_os :: "string option"
  pr_agent_version :: "string option"
  pr_fingerprint :: "string option"
  pr_approved_at :: "int option"
  pr_claimed_at :: "int option"
  pr_device_id :: "string option"

record stored_device =
  dv_id :: string
  dv_display_name :: string
  dv_hostname :: string
  dv_os :: "string option"
  dv_agent_version :: "string option"
  dv_fingerprint :: "string option"
  dv_credential_hash :: string
  dv_created_at :: int
  dv_last_seen_at :: "int option"
  dv_capabilities :: "string list option"
  dv_revoked_at :: "int option"

record usage_bucket =
  ub_tool_calls :: nat
  ub_ok :: nat
  ub_denied :: nat
  ub_error :: nat

record pstate =
  clients :: "(string, stored_client) table"
  auth_codes :: "(string, stored_auth_code) table"
  sessions :: "(string, stored_session) table"
  target_controls :: "(string, target_control) table"
  target_activities :: "(string, target_activity) table"
  usage_monthly :: "(string, usage_bucket) table"
  pairings :: "(string, stored_pairing) table"
  devices :: "(string, stored_device) table"

definition emptyState :: pstate where
  "emptyState = \<lparr>clients = [], auth_codes = [], sessions = [], target_controls = [],
    target_activities = [], usage_monthly = [], pairings = [], devices = []\<rparr>"

record store =
  mem :: pstate
  disk :: pstate
  lastSessionTouch :: "(string, int) table"

record store_env =
  OAUTH_MAX_CLIENTS :: nat
  OAUTH_PENDING_CLIENT_TTL_HOURS :: int
  AGENT_PAIRING_TTL_MINUTES :: int
  AGENT_MAX_DEVICES :: nat
  AGENT_MAX_PENDING_PAIRINGS :: nat

definition persist :: "store \<Rightarrow> store" where
  "persist st = st\<lparr>disk := mem st\<rparr>"

text \<open>The change of a table in memory, followed by \<open>persist\<close>.\<close>

definition commit :: "(pstate \<Rightarrow> pstate) \<Rightarrow> store \<Rightarrow> store" where
  "commit f st = persist (st\<lparr>mem := f (mem st)\<rparr>)"

lemma commit_simps [simp]:
  "mem (commit f st) = f (mem st)" "disk (commit f st) = f (mem st)"
  "lastSessionTouch (commit f st) = lastSessionTouch st"
  by (simp_all add: commit_def persist_def)

lemma persist_simps [simp]:
  "mem (persist st) = mem st" "disk (persist st) = mem st"
  "lastSessionTouch (persist st) = lastSessionTouch st"
  by (simp_all add: persist_def)

section \<open>Clients\<close>

definition prunePendingClients :: "store_env \<Rightarrow> int \<Rightarrow> pstate \<Rightarrow> pstate \<times> bool" where
  "prunePendingClients env now p =
    (let ttl = OAUTH_PENDING_CLIENT_TTL_HOURS env * 3600000;
         sessionClients = map ss_client_id (vals (sessions p));
         kept = keep (\<lambda>clientId c. \<not> (\<not> truthy (cl_last_seen_at c) \<and> clientId \<notin> set sessionClients \<and>
                                    cl_created_at c + ttl < now)) (clients p)
     in (p\<lparr>clients := kept\<rparr>, length kept < length (clients p)))"

definition registerClient :: "store_env \<Rightarrow> stored_client \<Rightarrow> int \<Rightarrow> store \<Rightarrow> store \<times> bool" where
  "registerClient env client now st =
    (let (p, pruned) = prunePendingClients env now (mem st);
         st' = st\<lparr>mem := p\<rparr>
     in if OAUTH_MAX_CLIENTS env \<le> length (clients p) then (if pruned then persist st' else st', False)
        else (commit (\<lambda>q. q\<lparr>clients := AList.update (cl_id client) client (clients q)\<rparr>) st', True))"

definition getClient :: "string \<Rightarrow> store \<Rightarrow> stored_client option" where
  "getClient clientId st = map_of (clients (mem st)) clientId"

definition listClients :: "store \<Rightarrow> stored_client list" where
  "listClients st = sort_key (\<lambda>c. - cl_created_at c) (vals (clients (mem st)))"

definition touchClient :: "string \<Rightarrow> int \<Rightarrow> store \<Rightarrow> store" where
  "touchClient clientId now st = (case getClient clientId st of
     None \<Rightarrow> st
   | Some c \<Rightarrow>
       if truthy (cl_revoked_at c) \<or> (truthy (cl_last_seen_at c) \<and> now - coalesce (cl_last_seen_at c) 0 < 60000) then st
       else commit (\<lambda>p. p\<lparr>clients := modify clientId (\<lambda>c. c\<lparr>cl_last_seen_at := Some now\<rparr>) (clients p)\<rparr>) st)"

text \<open>\<open>if (!session.revoked_at) session.revoked_at = now\<close>\<close>

definition revoke_ss :: "int \<Rightarrow> stored_session \<Rightarrow> stored_session" where
  "revoke_ss now s = (if truthy (ss_revoked_at s) then s else s\<lparr>ss_revoked_at := Some now\<rparr>)"

definition revoke_cl :: "int \<Rightarrow> stored_client \<Rightarrow> stored_client" where
  "revoke_cl now c = (if truthy (cl_revoked_at c) then c else c\<lparr>cl_revoked_at := Some now\<rparr>)"

definition revokeClient :: "string \<Rightarrow> int \<Rightarrow> store \<Rightarrow> store \<times> bool" where
  "revokeClient clientId now st = (case getClient clientId st of
     None \<Rightarrow> (st, False)
   | Some c \<Rightarrow> (commit (\<lambda>p. p\<lparr>
       clients := modify clientId (\<lambda>c. c\<lparr>cl_revoked_at := Some now\<rparr>) (clients p),
       sessions := map_vals (\<lambda>s. if ss_client_id s = clientId then revoke_ss now s else s) (sessions p)\<rparr>) st, True))"

definition revokeAllClients :: "int \<Rightarrow> store \<Rightarrow> store \<times> nat" where
  "revokeAllClients now st =
    (commit (\<lambda>p. p\<lparr>clients := map_vals (revoke_cl now) (clients p),
                    sessions := map_vals (revoke_ss now) (sessions p)\<rparr>) st,
     length (filter (\<lambda>c. \<not> truthy (cl_revoked_at c)) (vals (clients (mem st)))))"

section \<open>Authorization codes\<close>

definition putAuthCode :: "(string \<Rightarrow> string) \<Rightarrow> string \<Rightarrow> stored_auth_code \<Rightarrow> store \<Rightarrow> store" where
  "putAuthCode sha rawCode c st =
    commit (\<lambda>p. p\<lparr>auth_codes := AList.update (sha rawCode) (c\<lparr>ac_code_hash := sha rawCode\<rparr>) (auth_codes p)\<rparr>) st"

definition consumeAuthCode :: "(string \<Rightarrow> string) \<Rightarrow> string \<Rightarrow> int \<Rightarrow> store \<Rightarrow> store \<times> stored_auth_code option" where
  "consumeAuthCode sha rawCode now st = (case map_of (auth_codes (mem st)) (sha rawCode) of
     None \<Rightarrow> (st, None)
   | Some c \<Rightarrow>
       (commit (\<lambda>p. p\<lparr>auth_codes := AList.delete (sha rawCode) (auth_codes p)\<rparr>) st,
        if ac_expires_at c < now then None else Some c))"

section \<open>Sessions\<close>

definition createSession :: "stored_session \<Rightarrow> store \<Rightarrow> store" where
  "createSession session st =
    commit (\<lambda>p. p\<lparr>sessions := AList.update (ss_id session) session (sessions p)\<rparr>) st"

definition getSession :: "string \<Rightarrow> store \<Rightarrow> stored_session option" where
  "getSession sessionId st = map_of (sessions (mem st)) sessionId"

definition listSessions :: "store \<Rightarrow> stored_session list" where
  "listSessions st = sort_key (\<lambda>s. - ss_last_seen_at s) (vals (sessions (mem st)))"

definition findSessionByRefreshToken :: "(string \<Rightarrow> string) \<Rightarrow> string \<Rightarrow> store \<Rightarrow> stored_session option" where
  "findSessionByRefreshToken sha rawRefresh st =
    List.find (\<lambda>s. ss_refresh_hash s = sha rawRefresh) (vals (sessions (mem st)))"

definition rotateRefreshToken ::
    "(string \<Rightarrow> string) \<Rightarrow> string \<Rightarrow> string \<Rightarrow> int \<Rightarrow> int \<Rightarrow> int \<Rightarrow> store \<Rightarrow> store \<times> bool" where
  "rotateRefreshToken sha sessionId rawRefresh refreshExpiresAt accessExpiresAt now st =
    (case getSession sessionId st of
       None \<Rightarrow> (st, False)
     | Some s \<Rightarrow>
         if truthy (ss_revoked_at s) then (st, False)
         else (commit (\<lambda>p. p\<lparr>sessions := modify sessionId (\<lambda>s. s\<lparr>ss_refresh_hash := sha rawRefresh,
             ss_refresh_expires_at := refreshExpiresAt, ss_access_expires_at := accessExpiresAt,
             ss_last_seen_at := now\<rparr>) (sessions p)\<rparr>) st, True))"

definition active_in :: "pstate \<Rightarrow> string \<Rightarrow> string \<Rightarrow> int \<Rightarrow> bool" where
  "active_in p sessionId clientId now = (case map_of (sessions p) sessionId of
     None \<Rightarrow> False
   | Some s \<Rightarrow>
       if ss_client_id s \<noteq> clientId \<or> truthy (ss_revoked_at s) \<or> ss_refresh_expires_at s < now then False
       else (case map_of (clients p) clientId of None \<Rightarrow> False | Some c \<Rightarrow> \<not> truthy (cl_revoked_at c)))"

definition sessionIsActive :: "string \<Rightarrow> string \<Rightarrow> int \<Rightarrow> store \<Rightarrow> bool" where
  "sessionIsActive sessionId clientId now st = active_in (mem st) sessionId clientId now"

definition touchSession :: "string \<Rightarrow> int \<Rightarrow> store \<Rightarrow> store" where
  "touchSession sessionId now st = (case getSession sessionId st of
     None \<Rightarrow> st
   | Some s \<Rightarrow>
       if truthy (ss_revoked_at s) then st
       else if now - coalesce (map_of (lastSessionTouch st) sessionId) 0 < 60000 then st
       else (let st' = st\<lparr>lastSessionTouch := AList.update sessionId now (lastSessionTouch st)\<rparr> in
         commit (\<lambda>p. p\<lparr>
           sessions := modify sessionId (\<lambda>s. s\<lparr>ss_last_seen_at := now\<rparr>) (sessions p),
           clients := modify (ss_client_id s)
             (\<lambda>c. if truthy (cl_revoked_at c) then c else c\<lparr>cl_last_seen_at := Some now\<rparr>) (clients p)\<rparr>) st'))"

definition revokeSession :: "string \<Rightarrow> int \<Rightarrow> store \<Rightarrow> store \<times> bool" where
  "revokeSession sessionId now st = (case getSession sessionId st of
     None \<Rightarrow> (st, False)
   | Some s \<Rightarrow> (commit (\<lambda>p. p\<lparr>sessions := modify sessionId (revoke_ss now) (sessions p)\<rparr>) st, True))"

definition revokeAllSessions :: "int \<Rightarrow> store \<Rightarrow> store \<times> nat" where
  "revokeAllSessions now st =
    (commit (\<lambda>p. p\<lparr>sessions := map_vals (revoke_ss now) (sessions p)\<rparr>) st,
     length (filter (\<lambda>s. \<not> truthy (ss_revoked_at s)) (vals (sessions (mem st)))))"

definition activeSessionCount :: "string option \<Rightarrow> int \<Rightarrow> store \<Rightarrow> nat" where
  "activeSessionCount clientId now st = length (filter (\<lambda>s.
     \<not> (coalesce clientId [] \<noteq> [] \<and> ss_client_id s \<noteq> coalesce clientId []) \<and>
     \<not> truthy (ss_revoked_at s) \<and> now \<le> ss_refresh_expires_at s \<and>
     (case getClient (ss_client_id s) st of None \<Rightarrow> False | Some c \<Rightarrow> \<not> truthy (cl_revoked_at c)))
   (vals (sessions (mem st))))"

section \<open>Targets: overlay, activity, usage\<close>

text \<open>
  \<open>target_controls[targetId]\<close> also finds what every JavaScript object inherits. The only inherited
  name a target id can be is \<open>constructor\<close>: a function, so truthy, whose \<open>enabled\<close> is \<open>undefined\<close>.
\<close>

definition effectiveTargetEnabled :: "string \<Rightarrow> bool \<Rightarrow> store \<Rightarrow> bool" where
  "effectiveTargetEnabled targetId registryEnabled st =
    (if \<not> registryEnabled then False
     else (case map_of (target_controls (mem st)) targetId of
         Some control \<Rightarrow> tc_enabled control
       | None \<Rightarrow> targetId \<noteq> ''constructor''))"

definition setTargetEnabled :: "string \<Rightarrow> bool \<Rightarrow> string option \<Rightarrow> int \<Rightarrow> store \<Rightarrow> store" where
  "setTargetEnabled targetId en reason now st =
    commit (\<lambda>p. p\<lparr>target_controls := AList.update targetId
      \<lparr>tc_enabled = en, tc_updated_at = now, tc_reason = map_option (take 200) reason\<rparr> (target_controls p)\<rparr>) st"

text \<open>
  \<open>new Date(now).toISOString().slice(0, 7)\<close>: the proleptic Gregorian year and month of a time in
  milliseconds, the year in four digits, or with its sign and six digits outside 0 to 9999.
\<close>

definition civil_month :: "int \<Rightarrow> int \<times> int" where
  "civil_month now =
    (let z = now div 86400000 + 719468;
         era = z div 146097;
         doe = z mod 146097;
         yoe = (doe - doe div 1460 + doe div 36524 - doe div 146096) div 365;
         doy = doe - (365 * yoe + yoe div 4 - yoe div 100);
         mp = (5 * doy + 2) div 153;
         m = (if mp < 10 then mp + 3 else mp - 9)
     in (yoe + era * 400 + (if m \<le> 2 then 1 else 0), m))"

definition pad :: "nat \<Rightarrow> int \<Rightarrow> string" where
  "pad n x = (let t = nat_text (nat x) in replicate (n - length t) CHR ''0'' @ t)"

definition month_of :: "int \<Rightarrow> string" where
  "month_of now = (let (y, m) = civil_month now in
     take 7 ((if 0 \<le> y \<and> y \<le> 9999 then pad 4 y else (if y < 0 then ''-'' else ''+'') @ pad 6 \<bar>y\<bar>) @ ''-'' @ pad 2 m))"

definition empty_bucket :: usage_bucket where
  "empty_bucket = \<lparr>ub_tool_calls = 0, ub_ok = 0, ub_denied = 0, ub_error = 0\<rparr>"

fun count_result :: "tool_outcome \<Rightarrow> usage_bucket \<Rightarrow> usage_bucket" where
  "count_result OK b = b\<lparr>ub_tool_calls := ub_tool_calls b + 1, ub_ok := ub_ok b + 1\<rparr>"
| "count_result Denied b = b\<lparr>ub_tool_calls := ub_tool_calls b + 1, ub_denied := ub_denied b + 1\<rparr>"
| "count_result Errored b = b\<lparr>ub_tool_calls := ub_tool_calls b + 1, ub_error := ub_error b + 1\<rparr>"

definition prev_ok :: "target_activity option \<Rightarrow> int option" where
  "prev_ok prev = Option.bind prev ta_last_ok_at"

definition prev_error :: "target_activity option \<Rightarrow> int option" where
  "prev_error prev = Option.bind prev ta_last_error_at"

definition recordToolResult ::
    "string option \<Rightarrow> string \<Rightarrow> tool_outcome \<Rightarrow> string option \<Rightarrow> int \<Rightarrow> store \<Rightarrow> store" where
  "recordToolResult target tool res error_code now st =
    commit (\<lambda>p.
      let month = month_of now;
          p' = p\<lparr>usage_monthly :=
            AList.update month (count_result res (coalesce (map_of (usage_monthly p) month) empty_bucket)) (usage_monthly p)\<rparr>
      in if coalesce target [] = [] then p'
         else (let prev = map_of (target_activities p) (the target) in
           p'\<lparr>target_activities := AList.update (the target)
             \<lparr>ta_last_seen_at = now,
              ta_last_ok_at = (if res = OK then Some now else prev_ok prev),
              ta_last_error_at = (if res = Errored then Some now else prev_error prev),
              ta_last_tool = tool, ta_last_result = res, ta_last_error_code = error_code\<rparr> (target_activities p)\<rparr>)) st"

definition recordTargetProbe :: "string \<Rightarrow> bool \<Rightarrow> string option \<Rightarrow> int \<Rightarrow> store \<Rightarrow> store" where
  "recordTargetProbe target good errorCode now st =
    commit (\<lambda>p.
      let prev = map_of (target_activities p) target in
      p\<lparr>target_activities := AList.update target
        \<lparr>ta_last_seen_at = now,
         ta_last_ok_at = (if good then Some now else prev_ok prev),
         ta_last_error_at = (if good then prev_error prev else Some now),
         ta_last_tool = ''admin_probe'', ta_last_result = (if good then OK else Errored),
         ta_last_error_code = errorCode\<rparr> (target_activities p)\<rparr>) st"

definition usageForMonth :: "string \<Rightarrow> store \<Rightarrow> usage_bucket" where
  "usageForMonth month st = coalesce (map_of (usage_monthly (mem st)) month) empty_bucket"

lemma month_of_examples:
  "month_of 1709251199999 = ''2024-02''" "month_of 1709251200000 = ''2024-03''"
  by code_simp+

section \<open>Purge and start\<close>

definition retention :: int where "retention = 90 * 24 * 3600000"

text \<open>The loops of \<open>purgeState\<close> over the state; the second component is \<open>changed\<close>.\<close>

definition purge_entries :: "store_env \<Rightarrow> int \<Rightarrow> pstate \<Rightarrow> pstate \<times> bool" where
  "purge_entries env now p =
    (let (p1, c1) = prunePendingClients env now p;
         codes = keep (\<lambda>hash c. \<not> ac_expires_at c < now) (auth_codes p1);
         pairs = keep (\<lambda>pid x. \<not> coalesce (pr_claimed_at x) (pr_expires_at x) + 24 * 3600000 < now) (pairings p1);
         sess = keep (\<lambda>sid s. \<not> coalesce (ss_revoked_at s) (ss_refresh_expires_at s) + retention < now) (sessions p1)
     in (p1\<lparr>auth_codes := codes, pairings := pairs, sessions := sess\<rparr>,
         c1 \<or> length codes < length (auth_codes p1) \<or> length pairs < length (pairings p1) \<or>
         length sess < length (sessions p1)))"

definition purgeState :: "store_env \<Rightarrow> bool \<Rightarrow> int \<Rightarrow> store \<Rightarrow> store" where
  "purgeState env doPersist now st =
    (let (p, changed) = purge_entries env now (mem st);
         st' = st\<lparr>mem := p\<rparr>
     in if changed \<and> doPersist then persist st' else st')"

text \<open>
  What reading the state file can give: no file, something that is no JSON object, or an object with
  its version and its tables, \<open>None\<close> where a table is missing or no object.
\<close>

record raw_state =
  rw_version :: int
  rw_clients :: "(string, stored_client) table option"
  rw_auth_codes :: "(string, stored_auth_code) table option"
  rw_sessions :: "(string, stored_session) table option"
  rw_target_controls :: "(string, target_control) table option"
  rw_target_activity :: "(string, target_activity) table option"
  rw_usage_monthly :: "(string, usage_bucket) table option"
  rw_pairings :: "(string, stored_pairing) table option"
  rw_devices :: "(string, stored_device) table option"

datatype state_file = Missing_File | No_Object | Object raw_state

definition normalize :: "raw_state \<Rightarrow> exn + pstate" where
  "normalize raw =
    (if rw_version raw \<noteq> 1 then Inl (Error ''versao nao suportada'')
     else Inr \<lparr>clients = coalesce (rw_clients raw) [], auth_codes = coalesce (rw_auth_codes raw) [],
       sessions = coalesce (rw_sessions raw) [], target_controls = coalesce (rw_target_controls raw) [],
       target_activities = coalesce (rw_target_activity raw) [], usage_monthly = coalesce (rw_usage_monthly raw) [],
       pairings = coalesce (rw_pairings raw) [], devices = coalesce (rw_devices raw) []\<rparr>)"

text \<open>The file \<open>persist\<close> writes.\<close>

definition file_of :: "pstate \<Rightarrow> raw_state" where
  "file_of p = \<lparr>rw_version = 1, rw_clients = Some (clients p), rw_auth_codes = Some (auth_codes p),
     rw_sessions = Some (sessions p), rw_target_controls = Some (target_controls p),
     rw_target_activity = Some (target_activities p), rw_usage_monthly = Some (usage_monthly p),
     rw_pairings = Some (pairings p), rw_devices = Some (devices p)\<rparr>"

definition initStateStore :: "store_env \<Rightarrow> state_file \<Rightarrow> int \<Rightarrow> exn + store" where
  "initStateStore env sf now = (case sf of
     Missing_File \<Rightarrow> Inr (purgeState env False now \<lparr>mem = emptyState, disk = emptyState, lastSessionTouch = []\<rparr>)
   | No_Object \<Rightarrow> Inl (Error ''state store invalido'')
   | Object raw \<Rightarrow> (case normalize raw of
       Inl e \<Rightarrow> Inl e
     | Inr p \<Rightarrow> Inr (purgeState env False now \<lparr>mem = p, disk = p, lastSessionTouch = []\<rparr>)))"

lemma normalize_file_of [simp]: "normalize (file_of p) = Inr p"
  by (simp add: normalize_def file_of_def)

text \<open>A restart of the process reads back what was last persisted.\<close>

definition restart :: "store_env \<Rightarrow> int \<Rightarrow> store \<Rightarrow> store" where
  "restart env now st = (case initStateStore env (Object (file_of (disk st))) now of Inl e \<Rightarrow> st | Inr st' \<Rightarrow> st')"

lemma restart_simps [simp]:
  "mem (restart env now st) = fst (purge_entries env now (disk st))"
  "disk (restart env now st) = disk st"
  by (simp_all add: restart_def initStateStore_def purgeState_def Let_def split: prod.split)

end
