(* ===== verification/Store_Devices.thy ===== *)
theory Store_Devices
  imports Store
begin

text \<open>
  \<^verbatim>\<open>src/state/store.ts\<close>, second half: device pairings and devices. The random values (pairing code
  draws, poll token, pairing id, device id) and HMAC-SHA-256 are arguments; HMAC and SHA-256 stand
  for the crypto library.
\<close>

section \<open>Pairing codes\<close>

definition PAIR_ALPHABET :: string where
  "PAIR_ALPHABET = ''ABCDEFGHJKLMNPQRSTUVWXYZ23456789''"

text \<open>\<open>pairingCode\<close> of the eight random bytes drawn.\<close>

definition pairingCode :: "nat list \<Rightarrow> string" where
  "pairingCode bytes =
    (let raw = map (\<lambda>b. PAIR_ALPHABET ! (b mod length PAIR_ALPHABET)) bytes
     in ''WD-'' @ take 4 raw @ ''-'' @ drop 4 raw)"

definition normalizePairCode :: "string \<Rightarrow> string" where
  "normalizePairCode s = filter (\<lambda>c. \<not> is_ws c) (upper (trim s))"

definition code_taken :: "(string \<Rightarrow> string) \<Rightarrow> int \<Rightarrow> pstate \<Rightarrow> string \<Rightarrow> bool" where
  "code_taken sha now p c =
    list_ex (\<lambda>x. pr_code_hash x = sha (normalizePairCode c) \<and> now < pr_expires_at x \<and> \<not> truthy (pr_claimed_at x))
      (vals (pairings p))"

text \<open>The loop that draws codes until one is free; \<open>draws\<close> are the codes drawn, \<open>None\<close> asks for more.\<close>

fun fresh_code :: "(string \<Rightarrow> string) \<Rightarrow> int \<Rightarrow> pstate \<Rightarrow> string list \<Rightarrow> string option" where
  "fresh_code sha now p [] = None"
| "fresh_code sha now p (c # draws) = (if code_taken sha now p c then fresh_code sha now p draws else Some c)"

section \<open>Pairing\<close>

record pair_meta =
  pm_hostname :: string
  pm_os :: "string option"
  pm_agent_version :: "string option"
  pm_fingerprint :: "string option"

record pair_ticket =
  pt_pairing_id :: string
  pt_code :: string
  pt_poll_token :: string
  pt_expires_at :: int

definition open_pairing :: "int \<Rightarrow> stored_pairing \<Rightarrow> bool" where
  "open_pairing now x = (\<not> truthy (pr_claimed_at x) \<and> now \<le> pr_expires_at x)"

text \<open>\<open>None\<close>: the draws given were all taken and the loop is still drawing.\<close>

definition createPairing ::
    "store_env \<Rightarrow> (string \<Rightarrow> string) \<Rightarrow> pair_meta \<Rightarrow> string list \<Rightarrow> string \<Rightarrow> string \<Rightarrow> int \<Rightarrow> store \<Rightarrow>
     (store \<times> (exn + pair_ticket)) option" where
  "createPairing env sha meta draws pollToken pairingId now st =
    (let p = (mem st)\<lparr>pairings := keep (\<lambda>i x. \<not> (\<not> truthy (pr_claimed_at x) \<and> pr_expires_at x + 3600000 < now))
               (pairings (mem st))\<rparr>;
         st' = st\<lparr>mem := p\<rparr>
     in if AGENT_MAX_DEVICES env \<le> length (filter (\<lambda>d. \<not> truthy (dv_revoked_at d)) (vals (devices p)))
        then Some (st', Inl (Error ''AGENT_MAX_DEVICES_REACHED''))
        else if AGENT_MAX_PENDING_PAIRINGS env \<le> length (filter (open_pairing now) (vals (pairings p)))
        then Some (st', Inl (Error ''AGENT_PAIRING_CAPACITY''))
        else (case fresh_code sha now p draws of
            None \<Rightarrow> None
          | Some c \<Rightarrow>
              (let x = \<lparr>pr_id = pairingId, pr_code_hash = sha (normalizePairCode c), pr_poll_hash = sha pollToken,
                  pr_created_at = now, pr_expires_at = now + AGENT_PAIRING_TTL_MINUTES env * 60000,
                  pr_hostname = pm_hostname meta, pr_os = pm_os meta, pr_agent_version = pm_agent_version meta,
                  pr_fingerprint = pm_fingerprint meta, pr_approved_at = None, pr_claimed_at = None,
                  pr_device_id = None\<rparr>
               in Some (commit (\<lambda>q. q\<lparr>pairings := AList.update pairingId x (pairings q)\<rparr>) st',
                   Inr \<lparr>pt_pairing_id = pairingId, pt_code = c, pt_poll_token = pollToken,
                     pt_expires_at = pr_expires_at x\<rparr>))))"

definition listPendingPairings :: "int \<Rightarrow> store \<Rightarrow> stored_pairing list" where
  "listPendingPairings now st =
    sort_key (\<lambda>x. - pr_created_at x) (filter (open_pairing now) (vals (pairings (mem st))))"

definition approvePairingByCode ::
    "(string \<Rightarrow> string) \<Rightarrow> string \<Rightarrow> int \<Rightarrow> store \<Rightarrow> store \<times> stored_pairing option" where
  "approvePairingByCode sha c now st =
    (case List.find (\<lambda>(i, x). pr_code_hash x = sha (normalizePairCode c) \<and> open_pairing now x) (pairings (mem st)) of
       None \<Rightarrow> (st, None)
     | Some (i, x) \<Rightarrow>
         (commit (\<lambda>p. p\<lparr>pairings := modify i (\<lambda>x. x\<lparr>pr_approved_at := Some now\<rparr>) (pairings p)\<rparr>) st,
          Some (x\<lparr>pr_approved_at := Some now\<rparr>)))"

text \<open>The token of a device: its id and the HMAC of the id under the poll token.\<close>

definition device_token :: "(string \<Rightarrow> string \<Rightarrow> string) \<Rightarrow> string \<Rightarrow> string \<Rightarrow> string" where
  "device_token hmac pollToken deviceId = ''wdv_'' @ deviceId @ ''.'' @ hmac pollToken deviceId"

datatype claim_result = Pending | Expired | Invalid | Paired stored_device string

text \<open>\<open>rnd\<close> is the base64url text of the twelve random bytes of a new device id.\<close>

definition claimPairing ::
    "(string \<Rightarrow> string) \<Rightarrow> (string \<Rightarrow> string \<Rightarrow> string) \<Rightarrow> string \<Rightarrow> string \<Rightarrow> string \<Rightarrow> int \<Rightarrow> store \<Rightarrow>
     store \<times> claim_result" where
  "claimPairing sha hmac rnd pairingId pollToken now st =
    (case map_of (pairings (mem st)) pairingId of
       None \<Rightarrow> (st, Invalid)
     | Some x \<Rightarrow>
         if pr_poll_hash x \<noteq> sha pollToken then (st, Invalid)
         else if pr_expires_at x < now then (st, Expired)
         else if \<not> truthy (pr_approved_at x) then (st, Pending)
         else (case (if coalesce (pr_device_id x) [] = [] then None
                     else map_of (devices (mem st)) (the (pr_device_id x))) of
             Some d \<Rightarrow> (st, Paired d (device_token hmac pollToken (dv_id d)))
           | None \<Rightarrow>
               (let deviceId = ''dev_'' @ rnd;
                    token = device_token hmac pollToken deviceId;
                    d = \<lparr>dv_id = deviceId, dv_display_name = pr_hostname x, dv_hostname = pr_hostname x,
                      dv_os = pr_os x, dv_agent_version = pr_agent_version x, dv_fingerprint = pr_fingerprint x,
                      dv_credential_hash = sha token, dv_created_at = now, dv_last_seen_at = None,
                      dv_capabilities = None, dv_revoked_at = None\<rparr>
                in (commit (\<lambda>p. p\<lparr>devices := AList.update deviceId d (devices p),
                       pairings := modify pairingId
                         (\<lambda>x. x\<lparr>pr_device_id := Some deviceId, pr_claimed_at := Some now\<rparr>) (pairings p)\<rparr>) st,
                    Paired d token))))"

section \<open>Devices\<close>

definition authenticateDeviceToken :: "(string \<Rightarrow> string) \<Rightarrow> string \<Rightarrow> store \<Rightarrow> stored_device option" where
  "authenticateDeviceToken sha raw st =
    List.find (\<lambda>d. dv_credential_hash d = sha raw \<and> \<not> truthy (dv_revoked_at d)) (vals (devices (mem st)))"

text \<open>\<open>[...new Set(xs)]\<close>: each element at its first position.\<close>

fun dedup :: "'a list \<Rightarrow> 'a list" where
  "dedup [] = []"
| "dedup (x # xs) = x # filter (\<lambda>y. y \<noteq> x) (dedup xs)"

definition touchDeviceHeartbeat ::
    "string \<Rightarrow> string option \<Rightarrow> string list option \<Rightarrow> int \<Rightarrow> store \<Rightarrow> store \<times> bool" where
  "touchDeviceHeartbeat deviceId agent_version caps now st =
    (case map_of (devices (mem st)) deviceId of
       None \<Rightarrow> (st, False)
     | Some d \<Rightarrow>
         if truthy (dv_revoked_at d) then (st, False)
         else (commit (\<lambda>p. p\<lparr>devices := modify deviceId (\<lambda>d. d\<lparr>
             dv_last_seen_at := Some now,
             dv_agent_version := (if coalesce agent_version [] = [] then dv_agent_version d else agent_version),
             dv_capabilities := (case caps of None \<Rightarrow> dv_capabilities d | Some cs \<Rightarrow> Some (take 64 (dedup cs)))\<rparr>)
               (devices p)\<rparr>) st, True))"

definition listDevices :: "store \<Rightarrow> stored_device list" where
  "listDevices st = sort_key (\<lambda>d. - dv_created_at d) (vals (devices (mem st)))"

definition revokeDevice :: "string \<Rightarrow> int \<Rightarrow> store \<Rightarrow> store \<times> bool" where
  "revokeDevice deviceId now st =
    (case map_of (devices (mem st)) deviceId of
       None \<Rightarrow> (st, False)
     | Some d \<Rightarrow>
         (commit (\<lambda>p. p\<lparr>devices := modify deviceId
            (\<lambda>d. if truthy (dv_revoked_at d) then d else d\<lparr>dv_revoked_at := Some now\<rparr>) (devices p)\<rparr>) st, True))"

end
