(* ===== verification/Store_Run.thy ===== *)
theory Store_Run
  imports Store_Devices
begin

text \<open>
  The store as a whole: one step per exported operation, runs, what stays true along every run
  (revocation, single use, well-formed tables, capacity, restart durability), and the properties of
  \<^verbatim>\<open>src/state/store.ts\<close>.
\<close>

section \<open>Steps\<close>

datatype store_op =
    RegisterClient stored_client
  | TouchClient string
  | RevokeClient string
  | RevokeAllClients
  | PutAuthCode string stored_auth_code
  | ConsumeAuthCode string
  | CreateSession stored_session
  | RotateRefreshToken string string int int
  | TouchSession string
  | RevokeSession string
  | RevokeAllSessions
  | SetTargetEnabled string bool "string option"
  | RecordToolResult "string option" string tool_outcome "string option"
  | RecordTargetProbe string bool "string option"
  | CreatePairing pair_meta "string list" string string
  | ApprovePairing string
  | ClaimPairing string string string
  | TouchHeartbeat string "string option" "string list option"
  | RevokeDevice string
  | Purge
  | Restart

record world =
  w_env :: store_env
  w_sha :: "string \<Rightarrow> string"
  w_hmac :: "string \<Rightarrow> string \<Rightarrow> string"

fun store_step :: "world \<Rightarrow> store_op \<Rightarrow> int \<Rightarrow> store \<Rightarrow> store" where
  "store_step w (RegisterClient c) now st = fst (registerClient (w_env w) c now st)"
| "store_step w (TouchClient i) now st = touchClient i now st"
| "store_step w (RevokeClient i) now st = fst (revokeClient i now st)"
| "store_step w RevokeAllClients now st = fst (revokeAllClients now st)"
| "store_step w (PutAuthCode raw c) now st = putAuthCode (w_sha w) raw c st"
| "store_step w (ConsumeAuthCode raw) now st = fst (consumeAuthCode (w_sha w) raw now st)"
| "store_step w (CreateSession s) now st = createSession s st"
| "store_step w (RotateRefreshToken i raw r a) now st = fst (rotateRefreshToken (w_sha w) i raw r a now st)"
| "store_step w (TouchSession i) now st = touchSession i now st"
| "store_step w (RevokeSession i) now st = fst (revokeSession i now st)"
| "store_step w RevokeAllSessions now st = fst (revokeAllSessions now st)"
| "store_step w (SetTargetEnabled i b r) now st = setTargetEnabled i b r now st"
| "store_step w (RecordToolResult i tool r e) now st = recordToolResult i tool r e now st"
| "store_step w (RecordTargetProbe i b e) now st = recordTargetProbe i b e now st"
| "store_step w (CreatePairing m draws poll i) now st =
     (case createPairing (w_env w) (w_sha w) m draws poll i now st of None \<Rightarrow> st | Some (st', r) \<Rightarrow> st')"
| "store_step w (ApprovePairing c) now st = fst (approvePairingByCode (w_sha w) c now st)"
| "store_step w (ClaimPairing rnd i poll) now st = fst (claimPairing (w_sha w) (w_hmac w) rnd i poll now st)"
| "store_step w (TouchHeartbeat i v cs) now st = fst (touchDeviceHeartbeat i v cs now st)"
| "store_step w (RevokeDevice i) now st = fst (revokeDevice i now st)"
| "store_step w Purge now st = purgeState (w_env w) True now st"
| "store_step w Restart now st = restart (w_env w) now st"

fun store_run :: "world \<Rightarrow> (store_op \<times> int) list \<Rightarrow> store \<Rightarrow> store" where
  "store_run w [] st = st"
| "store_run w ((op, now) # ops) st = store_run w ops (store_step w op now st)"

text \<open>A run on a clock that has started and does not go back.\<close>

fun timely :: "int \<Rightarrow> (store_op \<times> int) list \<Rightarrow> bool" where
  "timely t0 [] = True"
| "timely t0 ((op, now) # ops) = (t0 \<le> now \<and> timely now ops)"

section \<open>Effects of the operations\<close>

lemmas op_defs =
  registerClient_def touchClient_def revokeClient_def revokeAllClients_def putAuthCode_def consumeAuthCode_def
  createSession_def rotateRefreshToken_def touchSession_def revokeSession_def revokeAllSessions_def
  setTargetEnabled_def recordToolResult_def recordTargetProbe_def createPairing_def approvePairingByCode_def
  claimPairing_def touchDeviceHeartbeat_def revokeDevice_def purgeState_def

lemmas op_unfold = op_defs Let_def case_prod_beta

lemmas step_splits = option.splits if_splits

lemma prune_simps [simp]:
  "sessions (fst (prunePendingClients env now p)) = sessions p"
  "auth_codes (fst (prunePendingClients env now p)) = auth_codes p"
  "devices (fst (prunePendingClients env now p)) = devices p"
  "pairings (fst (prunePendingClients env now p)) = pairings p"
  "usage_monthly (fst (prunePendingClients env now p)) = usage_monthly p"
  "target_controls (fst (prunePendingClients env now p)) = target_controls p"
  by (simp_all add: prunePendingClients_def Let_def)

lemma purge_simps [simp]:
  "clients (fst (purge_entries env now p)) = clients (fst (prunePendingClients env now p))"
  "auth_codes (fst (purge_entries env now p)) = keep (\<lambda>hash c. \<not> ac_expires_at c < now) (auth_codes p)"
  "sessions (fst (purge_entries env now p)) =
     keep (\<lambda>sid s. \<not> coalesce (ss_revoked_at s) (ss_refresh_expires_at s) + retention < now) (sessions p)"
  "devices (fst (purge_entries env now p)) = devices p"
  "usage_monthly (fst (purge_entries env now p)) = usage_monthly p"
  "target_controls (fst (purge_entries env now p)) = target_controls p"
  by (simp_all add: purge_entries_def Let_def case_prod_beta)

text \<open>Every step writes the whole memory to the disk or leaves the disk alone.\<close>

lemma step_disk:
  "disk (store_step w op now st) = mem (store_step w op now st) \<or> disk (store_step w op now st) = disk st"
  by (cases op) (simp_all add: op_defs Let_def split: option.split prod.split)

section \<open>Well-formed tables\<close>

definition wf_pstate :: "pstate \<Rightarrow> bool" where
  "wf_pstate p = (wf_table (clients p) \<and> wf_table (auth_codes p) \<and> wf_table (sessions p) \<and>
     wf_table (target_controls p) \<and> wf_table (target_activities p) \<and> wf_table (usage_monthly p) \<and>
     wf_table (pairings p) \<and> wf_table (devices p))"

definition wf_store :: "store \<Rightarrow> bool" where
  "wf_store st = (wf_pstate (mem st) \<and> wf_pstate (disk st))"

lemma wf_prune: "wf_pstate p \<Longrightarrow> wf_pstate (fst (prunePendingClients env now p))"
  by (simp add: wf_pstate_def prunePendingClients_def Let_def)

lemma wf_purge: "wf_pstate p \<Longrightarrow> wf_pstate (fst (purge_entries env now p))"
  using wf_prune [of p env now]
  by (simp add: wf_pstate_def purge_entries_def Let_def case_prod_beta)

lemma wf_mem_step: "wf_store st \<Longrightarrow> wf_pstate (mem (store_step w op now st))"
  using wf_prune [of "mem st" "w_env w" now] wf_purge [of "mem st" "w_env w" now] wf_purge [of "disk st" "w_env w" now]
  by (cases op) (auto simp: op_unfold wf_store_def wf_pstate_def split: step_splits)

lemma wf_step: "wf_store st \<Longrightarrow> wf_store (store_step w op now st)"
  using wf_mem_step [of st w op now] step_disk [of w op now st] by (auto simp: wf_store_def)

section \<open>What is gone stays gone\<close>

text \<open>
  The contract of a state that only a new registration under the same name can undo: no other
  operation, purge or restart does.
\<close>

locale lasting =
  fixes dead :: "pstate \<Rightarrow> bool" and safe :: "world \<Rightarrow> store_op \<Rightarrow> bool"
  assumes step_dead: "wf_store st \<Longrightarrow> 0 < now \<Longrightarrow> safe w op \<Longrightarrow> op \<noteq> Restart \<Longrightarrow> dead (mem st) \<Longrightarrow>
      dead (mem (store_step w op now st))"
    and purge_dead: "wf_pstate p \<Longrightarrow> dead p \<Longrightarrow> dead (fst (purge_entries env now p))"
begin

lemma step_both:
  assumes "wf_store st" "0 < now" "safe w op" "dead (mem st)" "dead (disk st)"
  shows "dead (mem (store_step w op now st)) \<and> dead (disk (store_step w op now st))"
proof (cases "op = Restart")
  case True
  with assms purge_dead [of "disk st" "w_env w" now] show ?thesis by (simp add: wf_store_def)
next
  case False
  with assms step_dead [of st now w op] step_disk [of w op now st] show ?thesis by auto
qed

lemma run_both:
  assumes "wf_store st" "0 < t0" "timely t0 ops" "\<forall>(op, now) \<in> set ops. safe w op" "dead (mem st)" "dead (disk st)"
  shows "dead (mem (store_run w ops st)) \<and> dead (disk (store_run w ops st))"
  using assms
proof (induction ops arbitrary: t0 st)
  case Nil
  then show ?case by simp
next
  case (Cons a ops)
  obtain op now where a: "a = (op, now)" by force
  have now: "0 < now" "timely now ops" "safe w op" using Cons.prems by (auto simp: a)
  from Cons.IH [OF wf_step [OF Cons.prems(1)] now(1,2)] Cons.prems(4)
    step_both [OF Cons.prems(1) now(1) now(3) Cons.prems(5,6)]
  show ?case by (simp add: a)
qed

end

definition session_dead :: "string \<Rightarrow> pstate \<Rightarrow> bool" where
  "session_dead sid p = (case map_of (sessions p) sid of None \<Rightarrow> True | Some s \<Rightarrow> truthy (ss_revoked_at s))"

definition client_dead :: "string \<Rightarrow> pstate \<Rightarrow> bool" where
  "client_dead cid p = (case map_of (clients p) cid of None \<Rightarrow> True | Some c \<Rightarrow> truthy (cl_revoked_at c))"

definition device_dead :: "string \<Rightarrow> pstate \<Rightarrow> bool" where
  "device_dead did p = (case map_of (devices p) did of None \<Rightarrow> True | Some d \<Rightarrow> truthy (dv_revoked_at d))"

definition code_dead :: "string \<Rightarrow> pstate \<Rightarrow> bool" where
  "code_dead h p = (map_of (auth_codes p) h = None)"

fun no_session :: "string \<Rightarrow> world \<Rightarrow> store_op \<Rightarrow> bool" where
  "no_session sid w (CreateSession s) = (ss_id s \<noteq> sid)"
| "no_session sid w op = True"

fun no_client :: "string \<Rightarrow> world \<Rightarrow> store_op \<Rightarrow> bool" where
  "no_client cid w (RegisterClient c) = (cl_id c \<noteq> cid)"
| "no_client cid w op = True"

fun no_device :: "string \<Rightarrow> world \<Rightarrow> store_op \<Rightarrow> bool" where
  "no_device did w (ClaimPairing rnd i poll) = (''dev_'' @ rnd \<noteq> did)"
| "no_device did w op = True"

fun no_code :: "string \<Rightarrow> world \<Rightarrow> store_op \<Rightarrow> bool" where
  "no_code h w (PutAuthCode raw c) = (w_sha w raw \<noteq> h)"
| "no_code h w op = True"

lemma dead_iff:
  "session_dead sid p \<longleftrightarrow> (\<forall>s. map_of (sessions p) sid = Some s \<longrightarrow> truthy (ss_revoked_at s))"
  "client_dead cid p \<longleftrightarrow> (\<forall>c. map_of (clients p) cid = Some c \<longrightarrow> truthy (cl_revoked_at c))"
  "device_dead did p \<longleftrightarrow> (\<forall>d. map_of (devices p) did = Some d \<longrightarrow> truthy (dv_revoked_at d))"
  by (simp_all add: session_dead_def client_dead_def device_dead_def split: option.split)

lemma wf_storeD:
  "wf_store st \<Longrightarrow> wf_table (clients (mem st))" "wf_store st \<Longrightarrow> wf_table (sessions (mem st))"
  "wf_store st \<Longrightarrow> wf_table (auth_codes (mem st))" "wf_store st \<Longrightarrow> wf_pstate (mem st)"
  by (simp_all add: wf_store_def wf_pstate_def)

lemma clients_prune:
  "wf_table (clients p) \<Longrightarrow> map_of (clients (fst (prunePendingClients env now p))) i = None \<or>
     map_of (clients (fst (prunePendingClients env now p))) i = map_of (clients p) i"
  by (simp add: prunePendingClients_def Let_def lookup_keep split: option.split)

lemma client_dead_prune:
  "wf_pstate p \<Longrightarrow> client_dead cid p \<Longrightarrow> client_dead cid (fst (prunePendingClients env now p))"
  using clients_prune [of p env now cid] by (auto simp: client_dead_def wf_pstate_def)

lemma clients_pairs [simp]: "clients (p\<lparr>pairings := x\<rparr>) = clients p"
  by simp

interpretation gone_session: lasting "session_dead sid" "no_session sid" for sid
proof unfold_locales
  fix st :: store and now :: int and w :: world and op :: store_op
  assume "wf_store st" "0 < now" "no_session sid w op" "op \<noteq> Restart" "session_dead sid (mem st)"
  then show "session_dead sid (mem (store_step w op now st))"
    by (cases op) (auto simp: op_unfold dead_iff wf_storeD revoke_ss_def lookup_keep split: step_splits)
next
  fix p :: pstate and env :: store_env and now :: int
  assume "wf_pstate p" "session_dead sid p"
  then show "session_dead sid (fst (purge_entries env now p))"
    by (auto simp: dead_iff wf_pstate_def lookup_keep split: step_splits)
qed

interpretation gone_client: lasting "client_dead cid" "no_client cid" for cid
proof unfold_locales
  fix st :: store and now :: int and w :: world and op :: store_op
  assume "wf_store st" "0 < now" "no_client cid w op" "op \<noteq> Restart" "client_dead cid (mem st)"
  then show "client_dead cid (mem (store_step w op now st))"
    using client_dead_prune [of "mem st" cid "w_env w" now]
    by (cases op) (auto simp: op_unfold dead_iff wf_storeD revoke_cl_def split: step_splits)
next
  fix p :: pstate and env :: store_env and now :: int
  assume "wf_pstate p" "client_dead cid p"
  then show "client_dead cid (fst (purge_entries env now p))"
    using client_dead_prune [of p cid env now] by (simp add: client_dead_def)
qed

interpretation gone_code: lasting "code_dead h" "no_code h" for h
proof unfold_locales
  fix st :: store and now :: int and w :: world and op :: store_op
  assume "wf_store st" "0 < now" "no_code h w op" "op \<noteq> Restart" "code_dead h (mem st)"
  then show "code_dead h (mem (store_step w op now st))"
    by (cases op) (auto simp: op_unfold code_dead_def wf_storeD lookup_keep split: step_splits)
next
  fix p :: pstate and env :: store_env and now :: int
  assume "wf_pstate p" "code_dead h p"
  then show "code_dead h (fst (purge_entries env now p))"
    by (simp add: code_dead_def wf_pstate_def lookup_keep)
qed

interpretation gone_device: lasting "device_dead did" "no_device did" for did
proof unfold_locales
  fix st :: store and now :: int and w :: world and op :: store_op
  assume "wf_store st" "0 < now" "no_device did w op" "op \<noteq> Restart" "device_dead did (mem st)"
  then show "device_dead did (mem (store_step w op now st))"
    by (cases op) (auto simp: op_unfold dead_iff wf_storeD split: step_splits)
next
  fix p :: pstate and env :: store_env and now :: int
  assume "wf_pstate p" "device_dead did p"
  then show "device_dead did (fst (purge_entries env now p))"
    by (simp add: device_dead_def)
qed

section \<open>Sessions across purges and restarts\<close>

definition stamped :: "pstate \<Rightarrow> bool" where
  "stamped p = list_all (\<lambda>s. ts_ok (ss_revoked_at s)) (vals (sessions p))"

lemma keep_all: "length (keep P t) = length t \<Longrightarrow> keep P t = t"
  unfolding keep_def by (metis filter_True length_filter_less less_irrefl)

lemma prune_unchanged: "\<not> snd (prunePendingClients env now p) \<Longrightarrow> fst (prunePendingClients env now p) = p"
  using length_keep [where t = "clients p"]
  by (fastforce simp: prunePendingClients_def Let_def not_less dest!: keep_all dest: le_antisym)

text \<open>A client that a session names is never pruned.\<close>

lemma prune_keeps_users:
  assumes "wf_pstate p" "s \<in> set (vals (sessions p))"
  shows "map_of (clients (fst (prunePendingClients env now p))) (ss_client_id s) = map_of (clients p) (ss_client_id s)"
  using assms by (auto simp: prunePendingClients_def Let_def lookup_keep wf_pstate_def split: option.split)

lemma active_purge:
  assumes wf: "wf_pstate p" and st: "stamped p" and t: "now \<le> n"
  shows "active_in (fst (purge_entries env now p)) sid cid n = active_in p sid cid n"
proof (cases "map_of (sessions p) sid")
  case None
  with wf show ?thesis by (simp add: active_in_def lookup_keep wf_pstate_def)
next
  case (Some s)
  then have s: "s \<in> set (vals (sessions p))" by (rule lookup_in_vals)
  then have "ts_ok (ss_revoked_at s)" using st by (simp add: stamped_def list_all_iff)
  then have stale: "coalesce (ss_revoked_at s) (ss_refresh_expires_at s) + retention < now \<Longrightarrow>
      truthy (ss_revoked_at s) \<or> ss_refresh_expires_at s < n"
    using t by (cases "ss_revoked_at s") (auto simp: retention_def)
  show ?thesis
  proof (cases "ss_client_id s = cid")
    case True
    with wf Some stale prune_keeps_users [OF wf s, of env now] show ?thesis
      by (auto simp: active_in_def lookup_keep wf_pstate_def)
  next
    case False
    with wf Some show ?thesis by (simp add: active_in_def lookup_keep wf_pstate_def)
  qed
qed

fun stamped_op :: "store_op \<Rightarrow> bool" where
  "stamped_op (CreateSession s) = ts_ok (ss_revoked_at s)"
| "stamped_op op = True"

lemma stamped_iff:
  "wf_pstate p \<Longrightarrow> stamped p \<longleftrightarrow> (\<forall>sid s. map_of (sessions p) sid = Some s \<longrightarrow> ts_ok (ss_revoked_at s))"
  by (auto simp: stamped_def list_all_iff wf_pstate_def set_vals_iff)

lemma stamped_purge: "wf_pstate p \<Longrightarrow> stamped p \<Longrightarrow> stamped (fst (purge_entries env now p))"
  using vals_keep_subset [of "\<lambda>sid s. \<not> coalesce (ss_revoked_at s) (ss_refresh_expires_at s) + retention < now" "sessions p"]
  by (auto simp: stamped_def list_all_iff)

lemma stamped_mem_step:
  assumes "wf_store st" "0 < now" "stamped_op op" "stamped (mem st)" "op \<noteq> Restart"
  shows "stamped (mem (store_step w op now st))"
proof -
  have "wf_pstate (mem (store_step w op now st))" using assms(1) by (rule wf_mem_step)
  moreover have "\<forall>sid s. map_of (sessions (mem st)) sid = Some s \<longrightarrow> ts_ok (ss_revoked_at s)"
    using assms(1,4) stamped_iff by (simp add: wf_storeD)
  ultimately show ?thesis
    using assms by (cases op) (auto simp: stamped_iff op_unfold wf_storeD revoke_ss_def lookup_keep split: step_splits)
qed

definition sane :: "store \<Rightarrow> bool" where
  "sane st = (wf_store st \<and> stamped (mem st) \<and> stamped (disk st))"

lemma sane_step: "sane st \<Longrightarrow> 0 < now \<Longrightarrow> stamped_op op \<Longrightarrow> sane (store_step w op now st)"
  using wf_step [of st w op now] stamped_mem_step [of st now op w] step_disk [of w op now st]
    stamped_purge [of "disk st" "w_env w" now]
  by (cases "op = Restart") (auto simp: sane_def wf_store_def)

text \<open>What the disk would answer about sessions, from a time on, is what the memory answers.\<close>

definition durable :: "int \<Rightarrow> store \<Rightarrow> bool" where
  "durable t st = (\<forall>sid cid n. t \<le> n \<longrightarrow> active_in (disk st) sid cid n = active_in (mem st) sid cid n)"

lemma step_shape:
  "op \<noteq> Restart \<Longrightarrow>
     disk (store_step w op now st) = mem (store_step w op now st) \<or>
     disk (store_step w op now st) = disk st \<and>
       (sessions (mem (store_step w op now st)) = sessions (mem st) \<and> clients (mem (store_step w op now st)) = clients (mem st) \<or>
        mem (store_step w op now st) = fst (purge_entries (w_env w) now (mem st)))"
  using prune_unchanged [of "w_env w" now "mem st"]
  by (cases op) (auto simp: op_unfold split: step_splits)

lemma active_cong:
  "sessions p = sessions q \<Longrightarrow> clients p = clients q \<Longrightarrow> active_in p sid cid n = active_in q sid cid n"
  by (cases "map_of (sessions q) sid") (simp_all add: active_in_def)

lemma durable_step:
  assumes "durable t0 st" "t0 \<le> now" "sane st"
  shows "durable now (store_step w op now st)"
proof (cases "op = Restart")
  case True
  with assms show ?thesis by (auto simp: durable_def sane_def wf_store_def active_purge)
next
  case False
  let ?st = "store_step w op now st"
  from step_shape [OF False, of w now st]
  consider "disk ?st = mem ?st"
    | "disk ?st = disk st" "sessions (mem ?st) = sessions (mem st)" "clients (mem ?st) = clients (mem st)"
    | "disk ?st = disk st" "mem ?st = fst (purge_entries (w_env w) now (mem st))" by blast
  then show ?thesis
  proof cases
    case 1
    then show ?thesis by (simp add: durable_def)
  next
    case 2
    from active_cong [OF 2(2,3)] 2(1) assms(1,2) show ?thesis by (simp add: durable_def)
  next
    case 3
    with assms show ?thesis by (simp add: durable_def sane_def wf_store_def active_purge)
  qed
qed

lemma durable_run:
  assumes "sane st" "durable t0 st" "0 < t0" "timely t0 ops" "\<forall>(op, now) \<in> set ops. stamped_op op"
  shows "sane (store_run w ops st) \<and> (\<forall>now n. timely t0 (ops @ [(Restart, now)]) \<longrightarrow> now \<le> n \<longrightarrow>
      active_in (mem (store_step w Restart now (store_run w ops st))) sid cid n = active_in (mem (store_run w ops st)) sid cid n)"
  using assms
proof (induction ops arbitrary: t0 st)
  case Nil
  then show ?case by (auto simp: sane_def wf_store_def active_purge durable_def)
next
  case (Cons a ops)
  obtain op now where a: "a = (op, now)" by force
  have t: "0 < now" "t0 \<le> now" "timely now ops" "stamped_op op" "\<forall>(op, now) \<in> set ops. stamped_op op"
    using Cons.prems by (auto simp: a)
  from Cons.IH [OF sane_step [OF Cons.prems(1) t(1,4)] durable_step [OF Cons.prems(2) t(2) Cons.prems(1)] t(1,3,5)]
  show ?case by (simp add: a)
qed

section \<open>Usage\<close>

fun recorded :: "string \<Rightarrow> store_op \<times> int \<Rightarrow> bool" where
  "recorded month (RecordToolResult i tool r e, now) = (month_of now = month)"
| "recorded month x = False"

fun outcome_of :: "store_op \<times> int \<Rightarrow> tool_outcome" where
  "outcome_of (RecordToolResult i tool r e, now) = r"
| "outcome_of x = OK"

definition bucket_of :: "pstate \<Rightarrow> string \<Rightarrow> usage_bucket" where
  "bucket_of p month = coalesce (map_of (usage_monthly p) month) empty_bucket"

lemma step_usage:
  assumes "op \<noteq> Restart"
  shows "bucket_of (mem (store_step w op now st)) month =
    (if recorded month (op, now) then count_result (outcome_of (op, now)) (bucket_of (mem st) month)
     else bucket_of (mem st) month)"
  using assms by (cases op) (auto simp: op_unfold bucket_of_def split: step_splits)

lemma step_usage_disk:
  "usage_monthly (disk st) = usage_monthly (mem st) \<Longrightarrow>
     usage_monthly (disk (store_step w op now st)) = usage_monthly (mem (store_step w op now st))"
  by (cases op) (auto simp: op_unfold split: step_splits)

definition add_outcomes :: "tool_outcome list \<Rightarrow> usage_bucket \<Rightarrow> usage_bucket" where
  "add_outcomes rs b = fold count_result rs b"

lemma run_usage:
  assumes "usage_monthly (disk st) = usage_monthly (mem st)"
  shows "bucket_of (mem (store_run w ops st)) month =
    add_outcomes (map outcome_of (filter (recorded month) ops)) (bucket_of (mem st) month)"
  using assms
proof (induction ops arbitrary: st)
  case Nil
  then show ?case by (simp add: add_outcomes_def)
next
  case (Cons a ops)
  obtain op now where a: "a = (op, now)" by force
  have "bucket_of (mem (store_step w op now st)) month =
    (if recorded month (op, now) then count_result (outcome_of (op, now)) (bucket_of (mem st) month)
     else bucket_of (mem st) month)"
    using step_usage [of op w now st month] Cons.prems by (cases "op = Restart") (auto simp: bucket_of_def)
  with Cons.IH [OF step_usage_disk [OF Cons.prems]] show ?case by (simp add: a add_outcomes_def)
qed

lemma add_outcomes_counts:
  "ub_tool_calls (add_outcomes rs b) = ub_tool_calls b + length rs"
  "ub_ok (add_outcomes rs b) = ub_ok b + count_list rs OK"
  "ub_denied (add_outcomes rs b) = ub_denied b + count_list rs Denied"
  "ub_error (add_outcomes rs b) = ub_error b + count_list rs Errored"
proof (induction rs arbitrary: b)
  case (Cons r rs)
  { case 1 with Cons show ?case by (cases r) (simp_all add: add_outcomes_def) }
  { case 2 with Cons show ?case by (cases r) (simp_all add: add_outcomes_def) }
  { case 3 with Cons show ?case by (cases r) (simp_all add: add_outcomes_def) }
  { case 4 with Cons show ?case by (cases r) (simp_all add: add_outcomes_def) }
qed (simp_all add: add_outcomes_def)

section \<open>Capacity\<close>

lemma length_prune: "length (clients (fst (prunePendingClients env now p))) \<le> length (clients p)"
  by (simp add: prunePendingClients_def Let_def length_keep)

lemma step_clients:
  assumes "op \<noteq> Restart"
  shows "length (clients (mem (store_step w op now st))) \<le> max (length (clients (mem st))) (OAUTH_MAX_CLIENTS (w_env w))"
proof -
  have "length (AList.update i c t) \<le> max l m" if "\<not> m \<le> length t" for i c and t :: "(string, stored_client) table" and l m
    using that length_update [of i c t] by linarith
  then show ?thesis
    using assms length_prune [of "w_env w" now "mem st"]
    by (cases op) (auto simp: op_unfold le_max_iff_disj split: step_splits)
qed

lemma run_clients:
  assumes "length (clients (mem st)) \<le> m" "length (clients (disk st)) \<le> m" "OAUTH_MAX_CLIENTS (w_env w) \<le> m"
  shows "length (clients (mem (store_run w ops st))) \<le> m"
  using assms
proof (induction ops arbitrary: st)
  case (Cons a ops)
  obtain op now where a: "a = (op, now)" by force
  have "length (clients (mem (store_step w op now st))) \<le> m"
    using Cons.prems step_clients [of op w now st] length_prune [of "w_env w" now "disk st"]
    by (cases "op = Restart") auto
  with Cons step_disk [of w op now st] show ?case by (auto simp: a)
qed simp

end
