(* ===== verification/Store_Properties.thy ===== *)
theory Store_Properties
  imports Store_Run
begin

text \<open>
  What \<^verbatim>\<open>src/state/store.ts\<close> promises its callers, over every run of its operations from a fresh
  state file, restarts and purges included.
\<close>

definition fresh_store :: store where
  "fresh_store = \<lparr>mem = emptyState, disk = emptyState, lastSessionTouch = []\<rparr>"

lemma fresh_store_simps [simp]:
  "mem fresh_store = emptyState" "disk fresh_store = emptyState"
  by (simp_all add: fresh_store_def)

lemma wf_fresh: "wf_store fresh_store"
  by (simp add: wf_store_def wf_pstate_def emptyState_def)

lemma wf_run: "wf_store st \<Longrightarrow> wf_store (store_run w ops st)"
  by (induction ops arbitrary: st) (auto simp: wf_step)

lemma wf_reached [simp]: "wf_store (store_run w ops fresh_store)"
  by (simp add: wf_run wf_fresh)

lemma sane_fresh: "sane fresh_store"
  by (simp add: sane_def wf_fresh stamped_def emptyState_def vals_def)

section \<open>A small world for the examples\<close>

definition demo_world :: world where
  "demo_world = \<lparr>w_env = \<lparr>OAUTH_MAX_CLIENTS = 2, OAUTH_PENDING_CLIENT_TTL_HOURS = 24, AGENT_PAIRING_TTL_MINUTES = 10,
     AGENT_MAX_DEVICES = 2, AGENT_MAX_PENDING_PAIRINGS = 1\<rparr>, w_sha = (\<lambda>s. s), w_hmac = (\<lambda>k m. k @ m)\<rparr>"

definition demo_client :: "string \<Rightarrow> int \<Rightarrow> stored_client" where
  "demo_client i now = \<lparr>cl_id = i, cl_name = None, cl_redirect_uris = [''https://a''], cl_created_at = now,
     cl_last_seen_at = None, cl_revoked_at = None\<rparr>"

definition demo_session :: "string \<Rightarrow> string \<Rightarrow> int \<Rightarrow> stored_session" where
  "demo_session i c now = \<lparr>ss_id = i, ss_client_id = c, ss_created_at = now, ss_last_seen_at = now,
     ss_access_expires_at = now + 3600000, ss_refresh_hash = ''r'' @ i, ss_refresh_expires_at = now + 2592000000,
     ss_resource = None, ss_revoked_at = None\<rparr>"

definition demo_code :: "int \<Rightarrow> stored_auth_code" where
  "demo_code now = \<lparr>ac_code_hash = [], ac_client_id = ''a'', ac_redirect_uri = ''https://a'', ac_challenge = ''c'',
     ac_resource = None, ac_expires_at = now + 600000\<rparr>"

definition demo_before :: "(store_op \<times> int) list" where
  "demo_before = [(RegisterClient (demo_client ''a'' 1000), 1000), (CreateSession (demo_session ''s'' ''a'' 1000), 1000),
     (PutAuthCode ''k'' (demo_code 1000), 1000)]"

definition demo_meta :: pair_meta where
  "demo_meta = \<lparr>pm_hostname = ''h'', pm_os = None, pm_agent_version = None, pm_fingerprint = None\<rparr>"

lemmas demo_defs = demo_world_def demo_client_def demo_session_def demo_code_def demo_before_def demo_meta_def
  fresh_store_def emptyState_def commit_def persist_def

section \<open>Revocation\<close>

lemma revoked_stamps [simp]:
  "0 < now \<Longrightarrow> truthy (cl_revoked_at (revoke_cl now c))"
  "0 < now \<Longrightarrow> truthy (ss_revoked_at (revoke_ss now s))"
  by (simp_all add: revoke_cl_def revoke_ss_def)

lemma inactive_iff:
  "session_dead sid (mem st) \<or> client_dead cid (mem st) \<Longrightarrow> \<not> sessionIsActive sid cid n st"
  by (auto simp: sessionIsActive_def active_in_def dead_iff split: option.split)

text \<open>A revoked session is never active again, whatever operations, purges and restarts follow, as
  long as no session is created under its id.\<close>

lemma revoked_session_stays_revoked:
  assumes "revokeSession sid t0 (store_run w before fresh_store) = (st', True)"
    and "0 < t0" "timely t0 ops" "\<forall>(op, now) \<in> set ops. no_session sid w op"
  shows "\<not> sessionIsActive sid cid n (store_run w ops st')"
proof -
  let ?st = "store_run w before fresh_store"
  from assms(1) obtain s where "map_of (sessions (mem ?st)) sid = Some s"
    and st': "st' = commit (\<lambda>p. p\<lparr>sessions := modify sid (revoke_ss t0) (sessions p)\<rparr>) ?st"
    by (auto simp: revokeSession_def getSession_def split: option.splits)
  then have "session_dead sid (mem st') \<and> session_dead sid (disk st')"
    using assms(2) by (simp add: dead_iff revoke_ss_def)
  moreover have "wf_store st'"
    using wf_step [of ?st w "RevokeSession sid" t0] assms(1) by simp
  ultimately show ?thesis
    using gone_session.run_both [OF _ assms(2,3,4)] inactive_iff by blast
qed

text \<open>Revoking a client ends all its sessions for good: none is active again unless a client is
  registered under the revoked id.\<close>

lemma revoked_client_stays_revoked:
  assumes "revokeClient cid t0 (store_run w before fresh_store) = (st', True)"
    and "0 < t0" "timely t0 ops" "\<forall>(op, now) \<in> set ops. no_client cid w op"
  shows "\<not> sessionIsActive sid cid n (store_run w ops st')"
proof -
  let ?st = "store_run w before fresh_store"
  from assms(1) have "client_dead cid (mem st') \<and> client_dead cid (disk st')"
    using assms(2) by (auto simp: revokeClient_def dead_iff split: option.splits)
  moreover have "wf_store st'"
    using wf_step [of ?st w "RevokeClient cid" t0] assms(1) by simp
  ultimately show ?thesis
    using gone_client.run_both [OF _ assms(2,3,4)] inactive_iff by blast
qed

lemma revoked_client_stays_revoked_witness:
  "\<not> sessionIsActive ''s'' ''a'' 3000
     (store_run demo_world [(CreateSession (demo_session ''z'' ''a'' 2500), 2500), (Restart, 90001)]
       (fst (revokeClient ''a'' 2000 (store_run demo_world demo_before fresh_store))))"
proof (rule revoked_client_stays_revoked [of "''a''" 2000 demo_world demo_before])
  show "revokeClient ''a'' 2000 (store_run demo_world demo_before fresh_store) =
    (fst (revokeClient ''a'' 2000 (store_run demo_world demo_before fresh_store)), True)"
    by code_simp
qed auto

text \<open>\<open>revokeAllClients\<close> returns the number of clients it revoked, leaves no active session, and no
  session of a client it found becomes active again without a new registration.\<close>

lemma revokeAllClients_total:
  assumes "revokeAllClients t0 (store_run w before fresh_store) = (st', k)" "0 < t0"
  shows "k = length (filter (\<lambda>c. \<not> truthy (cl_revoked_at c)) (vals (clients (mem (store_run w before fresh_store))))) \<and>
    activeSessionCount filt n st' = 0 \<and>
    (timely t0 ops \<and> (\<forall>(op, now) \<in> set ops. no_client cid w op) \<longrightarrow>
      \<not> sessionIsActive sid cid m (store_run w ops st'))"
proof -
  let ?st = "store_run w before fresh_store"
  have st': "st' = fst (revokeAllClients t0 ?st)" using assms(1) by simp
  have dead: "client_dead cid (mem st') \<and> client_dead cid (disk st')"
    using assms(2) by (auto simp: st' revokeAllClients_def dead_iff)
  have "wf_store st'"
    using wf_step [of ?st w RevokeAllClients t0] by (simp add: st')
  then have "timely t0 ops \<and> (\<forall>(op, now) \<in> set ops. no_client cid w op) \<longrightarrow>
      \<not> sessionIsActive sid cid m (store_run w ops st')"
    using gone_client.run_both [OF _ assms(2)] dead inactive_iff by blast
  moreover have "activeSessionCount filt n st' = 0"
    using assms(2) by (auto simp: st' activeSessionCount_def revokeAllClients_def filter_empty_conv)
  ultimately show ?thesis using assms(1) by (auto simp: revokeAllClients_def)
qed

lemma revokeAllClients_total_witness:
  "snd (revokeAllClients 2000 (store_run demo_world demo_before fresh_store)) = 1 \<and>
    activeSessionCount None 3000 (fst (revokeAllClients 2000 (store_run demo_world demo_before fresh_store))) = 0"
proof -
  have "snd (revokeAllClients 2000 (store_run demo_world demo_before fresh_store)) = 1" by code_simp
  with revokeAllClients_total [of 2000 demo_world demo_before
      "fst (revokeAllClients 2000 (store_run demo_world demo_before fresh_store))" 1 None 3000] show ?thesis
    by (simp add: prod_eq_iff)
qed

section \<open>Authorization codes\<close>

text \<open>Where a stored code comes from.\<close>

definition issued :: "world \<Rightarrow> (store_op \<times> int) list \<Rightarrow> string \<Rightarrow> stored_auth_code \<Rightarrow> bool" where
  "issued w ops h c = list_ex (\<lambda>(op, now). case op of
     PutAuthCode raw c' \<Rightarrow> w_sha w raw = h \<and> c = c'\<lparr>ac_code_hash := h\<rparr> | _ \<Rightarrow> False) ops"

definition codes_from :: "world \<Rightarrow> (store_op \<times> int) list \<Rightarrow> pstate \<Rightarrow> bool" where
  "codes_from w ops p = (\<forall>h c. map_of (auth_codes p) h = Some c \<longrightarrow> issued w ops h c)"

lemma step_codes:
  assumes "wf_store st" "map_of (auth_codes (mem (store_step w op now st))) h = Some c" "op \<noteq> Restart"
  shows "map_of (auth_codes (mem st)) h = Some c \<or> issued w [(op, now)] h c"
  using assms
  by (cases op) (auto simp: op_unfold issued_def wf_storeD lookup_keep split: step_splits)

lemma codes_from_run:
  assumes "wf_store st" "codes_from w past (mem st)" "codes_from w past (disk st)"
  shows "codes_from w (past @ ops) (mem (store_run w ops st))"
  using assms
proof (induction ops arbitrary: past st)
  case (Cons a ops)
  obtain op now where a: "a = (op, now)" by force
  let ?st = "store_step w op now st"
  have old: "codes_from w (past @ [a]) p" if "codes_from w past p" for p
    using that by (auto simp: codes_from_def issued_def)
  have "codes_from w (past @ [a]) (mem ?st)"
  proof (cases "op = Restart")
    case True
    with old [OF Cons.prems(3)] Cons.prems(1) show ?thesis
      by (auto simp: codes_from_def lookup_keep wf_store_def wf_pstate_def split: step_splits)
  next
    case False
    with step_codes [OF Cons.prems(1), of w op now] old [OF Cons.prems(2)] show ?thesis
      by (fastforce simp: codes_from_def issued_def a)
  qed
  moreover have "codes_from w (past @ [a]) (disk ?st)"
    using step_disk [of w op now st] calculation old [OF Cons.prems(3)] by auto
  ultimately show ?case using Cons.IH [where st = ?st and past = "past @ [a]", OF wf_step [OF Cons.prems(1)]] by (simp add: a)
qed simp

text \<open>An authorization code is accepted at most once and only for what was issued: a successful
  \<open>consumeAuthCode\<close> returns an unexpired code that \<open>putAuthCode\<close> stored for the same hash, and every
  later attempt with it is refused, also after purges and restarts, until that code is issued again.\<close>

lemma auth_code_single_use:
  assumes "consumeAuthCode (w_sha w) raw t0 (store_run w before fresh_store) = (st', Some c)" "0 < t0"
  shows "t0 \<le> ac_expires_at c \<and> issued w before (w_sha w raw) c \<and>
    (timely t0 ops \<and> (\<forall>(op, now) \<in> set ops. no_code (w_sha w raw) w op) \<longrightarrow>
      snd (consumeAuthCode (w_sha w) raw n (store_run w ops st')) = None)"
proof -
  let ?st = "store_run w before fresh_store"
  from assms(1) have c: "map_of (auth_codes (mem ?st)) (w_sha w raw) = Some c" "\<not> ac_expires_at c < t0"
    and st': "st' = commit (\<lambda>p. p\<lparr>auth_codes := AList.delete (w_sha w raw) (auth_codes p)\<rparr>) ?st"
    by (auto simp: consumeAuthCode_def split: option.splits if_splits)
  have "codes_from w before (mem ?st)"
    using codes_from_run [OF wf_fresh, of w "[]" before] by (simp add: codes_from_def emptyState_def)
  then have "issued w before (w_sha w raw) c" using c(1) by (simp add: codes_from_def)
  moreover have "code_dead (w_sha w raw) (mem st') \<and> code_dead (w_sha w raw) (disk st')"
    by (simp add: st' code_dead_def)
  moreover have "wf_store st'"
    using wf_step [of ?st w "ConsumeAuthCode raw" t0] assms(1) by simp
  ultimately show ?thesis
    using gone_code.run_both [OF _ assms(2)] c(2) by (auto simp: consumeAuthCode_def code_dead_def)
qed

lemma auth_code_single_use_witness:
  "snd (consumeAuthCode (w_sha demo_world) ''k'' 1500 (store_run demo_world [(Restart, 1400)]
    (fst (consumeAuthCode (w_sha demo_world) ''k'' 1300 (store_run demo_world demo_before fresh_store))))) = None"
proof -
  have "consumeAuthCode (w_sha demo_world) ''k'' 1300 (store_run demo_world demo_before fresh_store) =
      (fst (consumeAuthCode (w_sha demo_world) ''k'' 1300 (store_run demo_world demo_before fresh_store)),
       Some ((demo_code 1000)\<lparr>ac_code_hash := ''k''\<rparr>))"
    by code_simp
  from auth_code_single_use [OF this, of "[(Restart, 1400)]" 1500] show ?thesis by simp
qed

section \<open>Purge and restart\<close>

text \<open>A restart neither loses nor revives a session: after any run of operations, what the restarted
  process answers about every session, now and later, is what the running one would have answered.\<close>

lemma restart_keeps_sessions:
  assumes "\<forall>(op, now) \<in> set ops. stamped_op op" "0 < t0" "timely t0 (ops @ [(Restart, now)])" "now \<le> n"
  shows "sessionIsActive sid cid n (store_run w (ops @ [(Restart, now)]) fresh_store) =
    sessionIsActive sid cid n (store_run w ops fresh_store)"
proof -
  have split: "store_run w (xs @ [x]) st = store_step w (fst x) (snd x) (store_run w xs st)" for xs x st
    by (induction xs arbitrary: st) (auto, metis prod.collapse store_run.simps)
  have "timely t0 ops" if "timely t0 (ops @ ys)" for t0 ops ys
    using that by (induction ops arbitrary: t0) auto
  moreover have "durable t0 fresh_store" by (simp add: durable_def)
  ultimately show ?thesis
    using durable_run [OF sane_fresh, of t0 ops w sid cid] assms by (simp add: sessionIsActive_def split)
qed

lemma restart_keeps_sessions_witness:
  "sessionIsActive ''s'' ''a'' 7000 (store_run demo_world (demo_before @ [(Restart, 5000)]) fresh_store) =
    sessionIsActive ''s'' ''a'' 7000 (store_run demo_world demo_before fresh_store) \<and>
   sessionIsActive ''s'' ''a'' 7000 (store_run demo_world demo_before fresh_store)"
proof
  show "sessionIsActive ''s'' ''a'' 7000 (store_run demo_world (demo_before @ [(Restart, 5000)]) fresh_store) =
    sessionIsActive ''s'' ''a'' 7000 (store_run demo_world demo_before fresh_store)"
    by (rule restart_keeps_sessions [of _ 1000]) (auto simp: demo_before_def demo_session_def)
  show "sessionIsActive ''s'' ''a'' 7000 (store_run demo_world demo_before fresh_store)" by code_simp
qed

section \<open>Usage, capacity and overlays\<close>

text \<open>The monthly usage counters are exact across restarts: a bucket has one call for each result
  recorded in that month, split into its outcomes without loss.\<close>

lemma usage_exact:
  "let rs = map outcome_of (filter (recorded month) ops); b = usageForMonth month (store_run w ops fresh_store)
   in ub_tool_calls b = length rs \<and> ub_ok b = count_list rs OK \<and> ub_denied b = count_list rs Denied \<and>
      ub_error b = count_list rs Errored \<and> ub_tool_calls b = ub_ok b + ub_denied b + ub_error b"
proof -
  have total: "length rs = count_list rs OK + count_list rs Denied + count_list rs Errored" for rs
  proof (induction rs)
    case (Cons r rs)
    then show ?case by (cases r) auto
  qed simp
  have "usageForMonth month (store_run w ops fresh_store) =
      add_outcomes (map outcome_of (filter (recorded month) ops)) empty_bucket"
    using run_usage [of fresh_store w ops month]
    by (simp add: usageForMonth_def bucket_of_def emptyState_def)
  then show ?thesis by (simp add: Let_def add_outcomes_counts empty_bucket_def total)
qed

text \<open>However many registrations arrive, and across purges and restarts, the store never holds more
  than \<open>OAUTH_MAX_CLIENTS\<close> clients.\<close>

lemma client_cap: "length (clients (mem (store_run w ops fresh_store))) \<le> OAUTH_MAX_CLIENTS (w_env w)"
  by (rule run_clients) (simp_all add: emptyState_def)

definition target_off :: "string \<Rightarrow> pstate \<Rightarrow> bool" where
  "target_off i p = (case map_of (target_controls p) i of None \<Rightarrow> False | Some c \<Rightarrow> \<not> tc_enabled c)"

fun not_switched_on :: "string \<Rightarrow> world \<Rightarrow> store_op \<Rightarrow> bool" where
  "not_switched_on i w (SetTargetEnabled j en r) = (j = i \<longrightarrow> \<not> en)"
| "not_switched_on i w op = True"

interpretation held_target: lasting "target_off i" "not_switched_on i" for i
proof unfold_locales
  fix st :: store and now :: int and w :: world and op :: store_op
  assume "wf_store st" "0 < now" "not_switched_on i w op" "op \<noteq> Restart" "target_off i (mem st)"
  then show "target_off i (mem (store_step w op now st))"
    by (cases op) (auto simp: op_unfold target_off_def split: step_splits)
next
  fix p :: pstate and env :: store_env and now :: int
  assume "wf_pstate p" "target_off i p"
  then show "target_off i (fst (purge_entries env now p))" by (simp add: target_off_def)
qed

text \<open>A target switched off in the console stays off, across restarts, until it is switched on
  there; the overlay never enables a target that the registry disables, and leaves other targets alone.\<close>

lemma target_overlay:
  assumes "0 < t0"
  shows "let st' = setTargetEnabled i False reason t0 (store_run w before fresh_store) in
    (timely t0 ops \<and> (\<forall>(op, now) \<in> set ops. not_switched_on i w op) \<longrightarrow>
       \<not> effectiveTargetEnabled i reg (store_run w ops st')) \<and>
    \<not> effectiveTargetEnabled j False st' \<and>
    (j \<noteq> i \<longrightarrow> effectiveTargetEnabled j reg st' = effectiveTargetEnabled j reg (store_run w before fresh_store))"
proof -
  let ?st = "setTargetEnabled i False reason t0 (store_run w before fresh_store)"
  have "wf_store ?st"
    using wf_step [where op = "SetTargetEnabled i False reason" and now = t0, OF wf_reached [of w before]] by simp
  moreover have "target_off i (mem ?st) \<and> target_off i (disk ?st)"
    by (simp add: target_off_def setTargetEnabled_def)
  ultimately have "timely t0 ops \<and> (\<forall>(op, now) \<in> set ops. not_switched_on i w op) \<longrightarrow>
       target_off i (mem (store_run w ops ?st))"
    using held_target.run_both [OF _ assms] by blast
  then show ?thesis
    by (auto simp: Let_def effectiveTargetEnabled_def setTargetEnabled_def target_off_def split: option.splits)
qed

lemma target_overlay_witness:
  "\<not> effectiveTargetEnabled ''t'' True (store_run demo_world [(Restart, 3000)]
     (setTargetEnabled ''t'' False None 2000 (store_run demo_world demo_before fresh_store)))"
  using target_overlay [of 2000 "''t''" None demo_world demo_before "[(Restart, 3000)]"] by (simp add: Let_def)

text \<open>The inherited name: a target of this id is off before anybody switched it off.\<close>

lemma constructor_target_disabled: "\<not> effectiveTargetEnabled ''constructor'' True fresh_store"
  by (simp add: effectiveTargetEnabled_def emptyState_def)

end
