(* ===== verification/Device_Properties.thy ===== *)
theory Device_Properties
  imports Store_Properties
begin

text \<open>
  The pairing protocol and the device tokens of \<^verbatim>\<open>src/state/store.ts\<close>. SHA-256 is idealised as an
  injective function where a property says so.
\<close>

section \<open>Stored devices\<close>

definition dotless :: "string \<Rightarrow> bool" where
  "dotless s = (CHR ''.'' \<notin> set s)"

text \<open>A stored device is filed under its id and holds the hash of a token that names it.\<close>

definition device_ok :: "(string \<Rightarrow> string) \<Rightarrow> pstate \<Rightarrow> bool" where
  "device_ok sha p = (\<forall>k d. map_of (devices p) k = Some d \<longrightarrow> dv_id d = k \<and> dotless k \<and>
     (\<exists>s. dv_credential_hash d = sha (''wdv_'' @ k @ ''.'' @ s)))"

fun dotless_claim :: "store_op \<Rightarrow> bool" where
  "dotless_claim (ClaimPairing rnd i poll) = dotless rnd"
| "dotless_claim op = True"

lemma device_ok_claim:
  assumes "device_ok sha (mem st)" "dotless rnd"
  shows "device_ok sha (mem (fst (claimPairing sha hmac rnd i poll now st)))"
  using assms
  by (auto simp: claimPairing_def device_ok_def Let_def dotless_def device_token_def split: option.splits if_splits)

lemma device_ok_mem_step:
  assumes "device_ok (w_sha w) (mem st)" "dotless_claim op" "op \<noteq> Restart"
  shows "device_ok (w_sha w) (mem (store_step w op now st))"
proof (cases "\<exists>rnd i poll. op = ClaimPairing rnd i poll")
  case True
  with assms device_ok_claim [of "w_sha w" st] show ?thesis by auto
next
  case False
  with assms show ?thesis
    by (cases op) (auto simp: op_unfold device_ok_def split: step_splits)
qed

lemma device_ok_run:
  assumes "device_ok (w_sha w) (mem st)" "device_ok (w_sha w) (disk st)" "\<forall>(op, now) \<in> set ops. dotless_claim op"
  shows "device_ok (w_sha w) (mem (store_run w ops st))"
  using assms
proof (induction ops arbitrary: st)
  case (Cons a ops)
  obtain op now where a: "a = (op, now)" by force
  have "device_ok (w_sha w) (mem (store_step w op now st))"
    using Cons.prems device_ok_mem_step [of w st op now]
    by (cases "op = Restart") (auto simp: a device_ok_def)
  with Cons step_disk [of w op now st] show ?case by (auto simp: a)
qed simp

lemma device_ok_reached:
  "\<forall>(op, now) \<in> set ops. dotless_claim op \<Longrightarrow> device_ok (w_sha w) (mem (store_run w ops fresh_store))"
  by (rule device_ok_run) (simp_all add: device_ok_def emptyState_def)

lemma takeWhile_sep: "c \<notin> set k \<Longrightarrow> takeWhile (\<lambda>x. x \<noteq> c) (k @ c # s) = k"
  by (induction k) auto

lemma token_names_device:
  assumes "''wdv_'' @ k @ ''.'' @ s = ''wdv_'' @ k' @ ''.'' @ s'" "dotless k" "dotless k'"
  shows "k = k'"
proof -
  have "k @ CHR ''.'' # s = k' @ CHR ''.'' # s'" using assms(1) by simp
  with takeWhile_sep [of "CHR ''.''" k s] takeWhile_sep [of "CHR ''.''" k' s'] assms(2,3) show ?thesis
    by (simp add: dotless_def)
qed

lemma authenticate_device:
  assumes "device_ok sha (mem st)" "wf_store st" "inj sha" "dotless did"
    and "authenticateDeviceToken sha (device_token hmac poll did) st = Some d"
  shows "map_of (devices (mem st)) did = Some d \<and> dv_id d = did \<and> \<not> truthy (dv_revoked_at d)"
proof -
  from assms(5) have d: "d \<in> set (vals (devices (mem st)))" "dv_credential_hash d = sha (device_token hmac poll did)"
      "\<not> truthy (dv_revoked_at d)"
    by (auto simp: authenticateDeviceToken_def dest: find_SomeD)
  from d(1) assms(2) obtain k where k: "map_of (devices (mem st)) k = Some d"
    by (auto simp: wf_store_def wf_pstate_def set_vals_iff)
  with assms(1) obtain s where ok: "dv_id d = k" "dotless k" "dv_credential_hash d = sha (''wdv_'' @ k @ ''.'' @ s)"
    by (auto simp: device_ok_def)
  have "''wdv_'' @ k @ ''.'' @ s = ''wdv_'' @ did @ ''.'' @ hmac poll did"
    by (rule injD [OF assms(3)]) (use ok(3) d(2) in \<open>simp add: device_token_def\<close>)
  then have "k = did" using ok(2) assms(4) by (rule token_names_device)
  with k ok(1) d(3) show ?thesis by simp
qed

text \<open>A device token authenticates only the device it was made for, and never a revoked one: once
  \<open>revokeDevice\<close> has succeeded, no later state accepts a token of that device, unless a device is
  paired again under the same random id.\<close>

lemma revoked_device_stays_out:
  assumes "revokeDevice did t0 (store_run w before fresh_store) = (st', True)" "0 < t0" "timely t0 ops"
    and "\<forall>(op, now) \<in> set before. dotless_claim op"
    and "\<forall>(op, now) \<in> set ops. no_device did w op \<and> dotless_claim op"
    and "inj (w_sha w)" "dotless did"
  shows "authenticateDeviceToken (w_sha w) (device_token hmac poll did) (store_run w ops st') = None"
proof (rule ccontr)
  let ?st = "store_run w before fresh_store"
  assume "authenticateDeviceToken (w_sha w) (device_token hmac poll did) (store_run w ops st') \<noteq> None"
  then obtain d where d: "authenticateDeviceToken (w_sha w) (device_token hmac poll did) (store_run w ops st') = Some d"
    by blast
  have st': "st' = store_step w (RevokeDevice did) t0 ?st" using assms(1) by simp
  have snoc: "store_run w (xs @ x # ys) st = store_run w ys (store_step w (fst x) (snd x) (store_run w xs st))" for xs x ys st
    by (induction xs arbitrary: st) (auto, metis prod.collapse store_run.simps)
  have "device_ok (w_sha w) (mem (store_run w (before @ (RevokeDevice did, t0) # ops) fresh_store))"
    by (rule device_ok_reached) (use assms(4,5) in auto)
  then have ok: "device_ok (w_sha w) (mem (store_run w ops st'))" by (simp add: snoc st')
  have wf: "wf_store st'" unfolding st' by (rule wf_step [OF wf_reached])
  from assms(1) have dead: "device_dead did (mem st') \<and> device_dead did (disk st')"
    using assms(2) by (auto simp: revokeDevice_def dead_iff split: option.splits)
  have "\<forall>(op, now) \<in> set ops. no_device did w op" using assms(5) by auto
  with gone_device.run_both [OF wf assms(2,3)] dead have "device_dead did (mem (store_run w ops st'))" by blast
  with authenticate_device [OF ok wf_run [OF wf] assms(6,7) d] show False by (simp add: dead_iff)
qed

text \<open>A device is paired, then revoked.\<close>

definition demo_pairing :: "(store_op \<times> int) list" where
  "demo_pairing = [(CreatePairing demo_meta [''WD-AAAA-AAAA''] ''poll'' ''p'', 1000),
     (ApprovePairing ''wd-aaaa-aaaa'', 2000), (ClaimPairing ''x'' ''p'' ''poll'', 3000)]"

section \<open>Claiming\<close>

text \<open>A claim pairs a device only for the holder of the poll token of a pairing that was approved and
  has not expired. The token it returns authenticates the new device at once, and a repeated claim
  before the expiry returns the same device and token, so a lost answer can be fetched again.\<close>

lemma claim_pairing_sound:
  assumes "claimPairing (w_sha w) hmac rnd i poll now (store_run w before fresh_store) = (st', Paired d tok)" "0 < now"
    and "\<forall>(op, now) \<in> set before. dotless_claim op" "dotless rnd" "inj (w_sha w)"
  shows "\<exists>x. map_of (pairings (mem (store_run w before fresh_store))) i = Some x \<and>
      pr_poll_hash x = w_sha w poll \<and> truthy (pr_approved_at x) \<and> now \<le> pr_expires_at x \<and>
      tok = device_token hmac poll (dv_id d) \<and>
      (coalesce (pr_device_id x) [] = [] \<longrightarrow>
        authenticateDeviceToken (w_sha w) tok st' = Some d \<and>
        (\<forall>n rnd'. n \<le> pr_expires_at x \<longrightarrow> claimPairing (w_sha w) hmac rnd' i poll n st' = (st', Paired d tok)))"
proof -
  define st where "st = store_run w before fresh_store"
  define sha where "sha = w_sha w"
  note assms = assms [folded st_def sha_def]
  have ok: "device_ok sha (mem st)"
    unfolding st_def sha_def by (rule device_ok_reached) (rule assms(3))
  have wf: "wf_store st" by (simp add: st_def)
  from assms(1,2) obtain x where x: "map_of (pairings (mem st)) i = Some x" "pr_poll_hash x = sha poll"
      "truthy (pr_approved_at x)" "now \<le> pr_expires_at x" "tok = device_token hmac poll (dv_id d)"
    by (auto simp: claimPairing_def Let_def split: option.splits if_splits)
  moreover have "authenticateDeviceToken sha tok st' = Some d \<and>
      (\<forall>n rnd'. n \<le> pr_expires_at x \<longrightarrow> claimPairing sha hmac rnd' i poll n st' = (st', Paired d tok))"
    if new: "coalesce (pr_device_id x) [] = []"
  proof -
    note rnd = assms(4) and sha = assms(5)
    from assms(1,2) x new have did: "dv_id d = ''dev_'' @ rnd" "dv_credential_hash d = sha tok" "dv_revoked_at d = None"
      and st': "map_of (devices (mem st')) (''dev_'' @ rnd) = Some d"
      and x': "map_of (pairings (mem st')) i = Some (x\<lparr>pr_device_id := Some (''dev_'' @ rnd), pr_claimed_at := Some now\<rparr>)"
      by (auto simp: claimPairing_def Let_def)
    have ok': "device_ok sha (mem st')" using device_ok_claim [OF ok rnd, of hmac i poll now] assms(1) by simp
    have wf': "wf_store st'"
      using wf_step [OF wf, of "\<lparr>w_env = undefined, w_sha = sha, w_hmac = hmac\<rparr>" "ClaimPairing rnd i poll" now] assms(1)
      by simp
    have dl: "dotless (''dev_'' @ rnd)" using rnd by (simp add: dotless_def)
    have in_vals: "d \<in> set (vals (devices (mem st')))" using st' by (rule lookup_in_vals)
    have "authenticateDeviceToken sha tok st' = Some d"
      unfolding authenticateDeviceToken_def
    proof (rule find_unique [OF in_vals])
      show "dv_credential_hash d = sha tok \<and> \<not> truthy (dv_revoked_at d)" using did by simp
      fix y
      assume y: "y \<in> set (vals (devices (mem st')))" "dv_credential_hash y = sha tok \<and> \<not> truthy (dv_revoked_at y)"
      then obtain k where k: "map_of (devices (mem st')) k = Some y"
        using wf' by (auto simp: wf_store_def wf_pstate_def set_vals_iff)
      with ok' obtain s where s: "dotless k" "dv_credential_hash y = sha (''wdv_'' @ k @ ''.'' @ s)"
        by (auto simp: device_ok_def)
      have "''wdv_'' @ k @ ''.'' @ s = ''wdv_'' @ (''dev_'' @ rnd) @ ''.'' @ hmac poll (''dev_'' @ rnd)"
        by (rule injD [OF sha]) (use s(2) y(2) x(5) did(1) in \<open>simp add: device_token_def\<close>)
      then have "k = ''dev_'' @ rnd" using s(1) dl by (rule token_names_device)
      with k st' show "y = d" by simp
    qed
    moreover have "claimPairing sha hmac rnd' i poll n st' = (st', Paired d tok)" if "n \<le> pr_expires_at x" for n rnd'
      using that x x' st' did by (simp add: claimPairing_def)
    ultimately show ?thesis by blast
  qed
  ultimately show ?thesis unfolding st_def [symmetric] sha_def [symmetric] by blast
qed

section \<open>Codes\<close>

text \<open>The draws end as soon as they show more different codes than there are pending pairings.\<close>

lemma fresh_code_None:
  "fresh_code sha now p draws = None \<longleftrightarrow> (\<forall>c \<in> set draws. code_taken sha now p c)"
  by (induction draws) auto

lemma fresh_code_Some: "fresh_code sha now p draws = Some c \<Longrightarrow> \<not> code_taken sha now p c"
  by (induction draws) (auto split: if_splits)

lemma taken_hashes:
  "code_taken sha now p c \<Longrightarrow>
     sha (normalizePairCode c) \<in> set (map pr_code_hash (filter (open_pairing now) (vals (pairings p))))"
  by (force simp: code_taken_def list_ex_iff open_pairing_def)

text \<open>The loop that draws a pairing code ends: \<open>createPairing\<close> returns as soon as its draws hold
  \<open>AGENT_MAX_PENDING_PAIRINGS\<close> codes of different hashes, because fewer pairings than that are pending
  when it draws.\<close>

lemma createPairing_returns:
  assumes "AGENT_MAX_PENDING_PAIRINGS env \<le> card ((\<lambda>c. sha (normalizePairCode c)) ` set draws)"
  shows "createPairing env sha meta draws poll i now st \<noteq> None"
proof -
  have "fresh_code sha now p draws \<noteq> None"
    if few: "length (filter (open_pairing now) (vals (pairings p))) < AGENT_MAX_PENDING_PAIRINGS env" for p
  proof
    assume "fresh_code sha now p draws = None"
    then have "(\<lambda>c. sha (normalizePairCode c)) ` set draws \<subseteq>
        set (map pr_code_hash (filter (open_pairing now) (vals (pairings p))))"
      using taken_hashes [of sha now p] by (simp only: fresh_code_None image_subset_iff) blast
    then have "card ((\<lambda>c. sha (normalizePairCode c)) ` set draws) \<le>
        length (map pr_code_hash (filter (open_pairing now) (vals (pairings p))))"
      by (meson List.finite_set card_length card_mono order_trans)
    with few assms show False by simp
  qed
  from this [of "(mem st)\<lparr>pairings := keep (\<lambda>i x. \<not> (\<not> truthy (pr_claimed_at x) \<and> pr_expires_at x + 3600000 < now))
      (pairings (mem st))\<rparr>"]
  show ?thesis by (auto simp: createPairing_def Let_def not_le split: option.split)
qed

lemma createPairing_returns_witness:
  "createPairing (w_env demo_world) (w_sha demo_world) demo_meta [''WD-AAAA-AAAA''] ''poll'' ''p'' 1000 fresh_store \<noteq> None"
  by (rule createPairing_returns) code_simp

text \<open>The code shown for a new pairing approves that pairing and no other, at every later moment
  before it expires, however it is typed (case and white space are ignored).\<close>

lemma approve_new_pairing:
  assumes "createPairing env sha meta draws poll i now st = Some (st', Inr t)" "now < n" "n \<le> pt_expires_at t"
    and "normalizePairCode typed = normalizePairCode (pt_code t)" "wf_store st" "n \<noteq> 0"
  shows "\<exists>x st''. approvePairingByCode sha typed n st' = (st'', Some x) \<and> pr_id x = pt_pairing_id t \<and>
     pr_poll_hash x = sha (pt_poll_token t) \<and>
     map_of (pairings (mem st'')) i = Some x \<and> truthy (pr_approved_at x)"
proof -
  let ?p = "(mem st)\<lparr>pairings := keep (\<lambda>i x. \<not> (\<not> truthy (pr_claimed_at x) \<and> pr_expires_at x + 3600000 < now))
               (pairings (mem st))\<rparr>"
  let ?h = "sha (normalizePairCode (pt_code t))"
  from assms(1) obtain x where x: "x = \<lparr>pr_id = i, pr_code_hash = ?h, pr_poll_hash = sha poll,
                  pr_created_at = now, pr_expires_at = pt_expires_at t,
                  pr_hostname = pm_hostname meta, pr_os = pm_os meta, pr_agent_version = pm_agent_version meta,
                  pr_fingerprint = pm_fingerprint meta, pr_approved_at = None, pr_claimed_at = None,
                  pr_device_id = None\<rparr>"
    and st': "pairings (mem st') = AList.update i x (pairings ?p)"
    and t: "pt_pairing_id t = i" "pt_poll_token t = poll" and new: "\<not> code_taken sha now ?p (pt_code t)"
    by (auto simp: createPairing_def Let_def split: if_splits option.splits dest: fresh_code_Some)
  have wf: "wf_table (pairings (mem st'))"
    using assms(5) by (simp add: st' wf_store_def wf_pstate_def)
  let ?P = "\<lambda>(i, x). pr_code_hash x = ?h \<and> open_pairing n x"
  have "List.find ?P (pairings (mem st')) = Some (i, x)"
  proof (rule find_unique)
    have "map_of (pairings (mem st')) i = Some x" by (simp add: st')
    then show "(i, x) \<in> set (pairings (mem st'))" by (rule map_of_SomeD)
    show "?P (i, x)" using assms(3) by (simp add: x open_pairing_def)
    fix y
    assume y: "y \<in> set (pairings (mem st'))" "?P y"
    obtain j z where jz: "y = (j, z)" by force
    have j: "map_of (pairings (mem st')) j = Some z"
      using wf y(1) by (simp add: jz wf_table_def keys_def)
    have "j = i"
    proof (rule ccontr)
      assume "j \<noteq> i"
      with j have "map_of (pairings ?p) j = Some z" by (simp add: st')
      then have "z \<in> set (vals (pairings ?p))" by (rule lookup_in_vals)
      with y(2) new assms(2) show False
        by (auto simp: code_taken_def list_ex_iff jz open_pairing_def)
    qed
    with j show "y = (i, x)" by (simp add: jz st')
  qed
  then show ?thesis using assms(4,6) t by (simp add: approvePairingByCode_def x st')
qed

lemma approve_new_pairing_witness:
  "\<exists>x st'' st' t. createPairing (w_env demo_world) (w_sha demo_world) demo_meta [''WD-AAAA-AAAA''] ''poll'' ''p'' 1000 fresh_store =
       Some (st', Inr t) \<and>
     approvePairingByCode (w_sha demo_world) ''wd-aaaa- aaaa'' 2000 st' = (st'', Some x) \<and> pr_id x = ''p''"
proof -
  let ?c = "createPairing (w_env demo_world) (w_sha demo_world) demo_meta [''WD-AAAA-AAAA''] ''poll'' ''p'' 1000 fresh_store"
  have "(case ?c of Some (st', Inr t) \<Rightarrow> pt_code t = ''WD-AAAA-AAAA'' \<and> pt_pairing_id t = ''p'' \<and> 2000 \<le> pt_expires_at t | _ \<Rightarrow> False)"
    by code_simp
  then obtain st' t where c: "?c = Some (st', Inr t)" "pt_code t = ''WD-AAAA-AAAA''" "pt_pairing_id t = ''p''"
      "2000 \<le> pt_expires_at t"
    by (auto split: option.splits prod.splits sum.splits)
  have "normalizePairCode ''wd-aaaa- aaaa'' = normalizePairCode ''WD-AAAA-AAAA''" by code_simp
  with approve_new_pairing [OF c(1), of 2000 "''wd-aaaa- aaaa''"] c wf_fresh show ?thesis by fastforce
qed

text \<open>At the very moment an older pairing of the same code expires, the new code still approves the
  older one: the draw asks for \<open>expires_at > now\<close>, the approval for \<open>expires_at >= now\<close>.\<close>

lemma approve_older_at_expiry:
  "let run = store_run (demo_world\<lparr>w_env := (w_env demo_world)\<lparr>AGENT_MAX_PENDING_PAIRINGS := 5\<rparr>\<rparr>)
        [(CreatePairing demo_meta [''WD-AAAA-AAAA''] ''old'' ''p1'', 1000),
         (CreatePairing demo_meta [''WD-AAAA-AAAA''] ''new'' ''p2'', 601000)] fresh_store
   in map_option pr_id (snd (approvePairingByCode (w_sha demo_world) ''WD-AAAA-AAAA'' 601000 run)) = Some ''p1''"
  by code_simp

end
