(* ===== verification/Baseline.thy ===== *)
theory Baseline
  imports Targets
begin

text \<open>
  \<^verbatim>\<open>src/config/capability-baseline.ts\<close>: the presets of agent targets and the comparison of a target
  with its preset.
\<close>

datatype preset =
    Operator_Workspace
  | Preset_Read_Only
  | Openhands_Read
  | Openhands_Execute
  | Postgres_Readback
  | Managed_Admin
  | Deepharness_Semantic_Lab

definition AGENT_WORKSPACE_ROOT :: string where
  "AGENT_WORKSPACE_ROOT = ''/opt/wandora/ops-workspace''"

definition OPERATOR_WORKSPACE_PROGRAMS :: "string list" where
  "OPERATOR_WORKSPACE_PROGRAMS =
    [''bash'', ''sh'', ''git'', ''node'', ''npm'', ''npx'', ''pnpm'', ''python3'',
     ''curl'', ''wget'', ''jq'', ''grep'', ''sed'', ''awk'', ''find'', ''head'', ''tail'', ''cat'', ''wc'', ''make'']"

text \<open>\<open>base\<close> with the fields every preset leaves empty.\<close>

definition preset_base :: "string \<Rightarrow> string \<Rightarrow> environment \<Rightarrow> target_config" where
  "preset_base targetId devId envt = \<lparr>tid = targetId, host = ''127.0.0.1'', port = 22, username = ''ops-mcp'',
     credentialRef = None, keyFile = None, deviceId = Some devId, hostKeyFingerprint = None, hostKey = None,
     environment = envt, capabilityProfile = Prod_Read_Mostly, allowedPaths = [], allowedDockerContainers = [],
     allowedDockerExecContainers = [], allowedDockerExecPrograms = [], allowedDockerActions = [],
     allowedDockerImageLoadRoots = [], allowedDockerCandidateImagePrefixes = [], allowedDockerCandidateNetworks = [],
     allowedDockerCandidateNamePrefixes = [], allowedDockerCandidateHostPorts = [],
     allowedDockerCandidateContainerPorts = [], allowedServices = [], allowedServiceActions = [],
     allowedGitRepos = [], allowedSemanticCapabilities = [], allowedAdminPrograms = [], allowedAdminCwds = [],
     allowedWritePaths = [], allowedProcessCwds = [], allowedProcessPrograms = [], enabled = True,
     transport = Agent, commandTimeoutMs = None, connectTimeoutMs = None\<rparr>"

definition buildAgentTargetFromPreset :: "string \<Rightarrow> string \<Rightarrow> environment \<Rightarrow> preset \<Rightarrow> exn + target_config" where
  "buildAgentTargetFromPreset targetId devId envt pre =
    (let base = preset_base targetId devId envt in
     if pre = Managed_Admin then
       Inr (base\<lparr>capabilityProfile := Operator,
         allowedPaths := [AGENT_WORKSPACE_ROOT],
         allowedServices := [''wandora-ops-agent.service'', ''wandora-ops-exec-broker.service'', ''wandora-ops-admin-broker.service''],
         allowedServiceActions := [S_Restart],
         allowedWritePaths := [AGENT_WORKSPACE_ROOT],
         allowedProcessCwds := [AGENT_WORKSPACE_ROOT],
         allowedProcessPrograms := OPERATOR_WORKSPACE_PROGRAMS,
         allowedSemanticCapabilities := [MANAGED_ADMIN_CAPABILITY],
         allowedAdminPrograms := MANAGED_ADMIN_DEFAULT_PROGRAMS,
         allowedAdminCwds := MANAGED_ADMIN_DEFAULT_CWDS\<rparr>)
     else if pre = Deepharness_Semantic_Lab then
       bindR (ensure (targetId = ''deepharness-semantic-lab'' \<and> envt = Development) (Error ''deepharness_lab_target_denied''))
         (\<lambda>_. Inr (base\<lparr>capabilityProfile := Semantic_Operator,
            allowedSemanticCapabilities := [''deepharness.semantic'']\<rparr>))
     else if pre = Openhands_Read then
       Inr (base\<lparr>capabilityProfile := Read_Only, allowedSemanticCapabilities := [''openhands.read'']\<rparr>)
     else if pre = Openhands_Execute then
       Inr (base\<lparr>capabilityProfile := Semantic_Operator,
         allowedSemanticCapabilities := [''openhands.read'', ''openhands.execute'']\<rparr>)
     else if pre = Postgres_Readback then
       Inr (base\<lparr>capabilityProfile := Read_Only, allowedSemanticCapabilities := [''postgres.pinned_readback'']\<rparr>)
     else if pre = Preset_Read_Only then
       Inr (base\<lparr>capabilityProfile := Read_Only,
         allowedPaths := [AGENT_WORKSPACE_ROOT],
         allowedServices := [''wandora-ops-agent.service'', ''wandora-ops-exec-broker.service'']\<rparr>)
     else
       Inr (base\<lparr>capabilityProfile := Operator,
         allowedPaths := [AGENT_WORKSPACE_ROOT],
         allowedServices := [''wandora-ops-agent.service'', ''wandora-ops-exec-broker.service''],
         allowedServiceActions := [S_Restart],
         allowedWritePaths := [AGENT_WORKSPACE_ROOT],
         allowedProcessCwds := [AGENT_WORKSPACE_ROOT],
         allowedProcessPrograms := OPERATOR_WORKSPACE_PROGRAMS\<rparr>))"

record capability_baseline =
  cb_authority_class :: capability_profile
  cb_transport :: transport
  cb_workspace_read_roots :: nat
  cb_workspace_write_roots :: nat
  cb_process_cwd_roots :: nat
  cb_process_programs :: nat
  cb_docker_read_containers :: nat
  cb_docker_exec_containers :: nat
  cb_docker_actions :: nat
  cb_service_units :: nat
  cb_service_actions :: nat
  cb_semantic_capabilities :: nat
  cb_managed_admin :: bool
  cb_admin_programs :: nat
  cb_admin_cwd_roots :: nat

definition describeTargetCapabilityBaseline :: "target_config \<Rightarrow> capability_baseline" where
  "describeTargetCapabilityBaseline t =
    \<lparr>cb_authority_class = capabilityProfile t, cb_transport = transport t,
     cb_workspace_read_roots = length (allowedPaths t), cb_workspace_write_roots = length (allowedWritePaths t),
     cb_process_cwd_roots = length (allowedProcessCwds t), cb_process_programs = length (allowedProcessPrograms t),
     cb_docker_read_containers = length (allowedDockerContainers t),
     cb_docker_exec_containers = length (allowedDockerExecContainers t),
     cb_docker_actions = length (allowedDockerActions t), cb_service_units = length (allowedServices t),
     cb_service_actions = length (allowedServiceActions t),
     cb_semantic_capabilities = length (allowedSemanticCapabilities t),
     cb_managed_admin = (MANAGED_ADMIN_CAPABILITY \<in> set (allowedSemanticCapabilities t)),
     cb_admin_programs = length (allowedAdminPrograms t), cb_admin_cwd_roots = length (allowedAdminCwds t)\<rparr>"

text \<open>
  \<open>stable\<close>: the JSON text of a string, or of an array sorted by \<open>localeCompare\<close> of its elements'
  text; \<open>le\<close> is the order of \<open>localeCompare\<close>.
\<close>

fun json_value :: "jval \<Rightarrow> string" where
  "json_value (JStr s) = json_string s"
| "json_value (JNum n) = num_text n"
| "json_value (JBool b) = (if b then ''true'' else ''false'')"
| "json_value _ = ''null''"

definition stable :: "(string \<Rightarrow> string \<Rightarrow> bool) \<Rightarrow> jval \<Rightarrow> string" where
  "stable le v = (case v of
     JArr vs \<Rightarrow> ''['' @ join '','' (map json_value (sort_by (\<lambda>a b. le (str_of a) (str_of b)) vs)) @ '']''
   | _ \<Rightarrow> json_value v)"

text \<open>\<open>AUTHORITY_KEYS\<close>, each with its value in a target.\<close>

definition AUTHORITY_KEYS :: "(string \<times> (target_config \<Rightarrow> jval)) list" where
  "AUTHORITY_KEYS =
    [(''capabilityProfile'', \<lambda>t. JStr (profile_text (capabilityProfile t))),
     (''allowedPaths'', \<lambda>t. jstrs (allowedPaths t)),
     (''allowedDockerContainers'', \<lambda>t. jstrs (allowedDockerContainers t)),
     (''allowedDockerExecContainers'', \<lambda>t. jstrs (allowedDockerExecContainers t)),
     (''allowedDockerExecPrograms'', \<lambda>t. jstrs (allowedDockerExecPrograms t)),
     (''allowedDockerActions'', \<lambda>t. jstrs (map docker_action_text (allowedDockerActions t))),
     (''allowedDockerImageLoadRoots'', \<lambda>t. jstrs (allowedDockerImageLoadRoots t)),
     (''allowedDockerCandidateImagePrefixes'', \<lambda>t. jstrs (allowedDockerCandidateImagePrefixes t)),
     (''allowedDockerCandidateNetworks'', \<lambda>t. jstrs (allowedDockerCandidateNetworks t)),
     (''allowedDockerCandidateNamePrefixes'', \<lambda>t. jstrs (allowedDockerCandidateNamePrefixes t)),
     (''allowedDockerCandidateHostPorts'', \<lambda>t. jints (allowedDockerCandidateHostPorts t)),
     (''allowedDockerCandidateContainerPorts'', \<lambda>t. jints (allowedDockerCandidateContainerPorts t)),
     (''allowedServices'', \<lambda>t. jstrs (allowedServices t)),
     (''allowedServiceActions'', \<lambda>t. jstrs (map service_action_text (allowedServiceActions t))),
     (''allowedGitRepos'', \<lambda>t. jstrs (allowedGitRepos t)),
     (''allowedSemanticCapabilities'', \<lambda>t. jstrs (allowedSemanticCapabilities t)),
     (''allowedAdminPrograms'', \<lambda>t. jstrs (allowedAdminPrograms t)),
     (''allowedAdminCwds'', \<lambda>t. jstrs (allowedAdminCwds t)),
     (''allowedWritePaths'', \<lambda>t. jstrs (allowedWritePaths t)),
     (''allowedProcessCwds'', \<lambda>t. jstrs (allowedProcessCwds t)),
     (''allowedProcessPrograms'', \<lambda>t. jstrs (allowedProcessPrograms t))]"

record preset_check =
  pc_preset :: preset
  pc_valid :: bool
  pc_differences :: "string list"
  pc_baseline :: capability_baseline

definition validateAgentTargetAgainstPreset ::
    "(string \<Rightarrow> string \<Rightarrow> bool) \<Rightarrow> target_config \<Rightarrow> preset \<Rightarrow> exn + preset_check" where
  "validateAgentTargetAgainstPreset le t pre =
    (if transport t \<noteq> Agent \<or> coalesce (deviceId t) [] = [] then
       Inr \<lparr>pc_preset = pre, pc_valid = False, pc_differences = [''transport/deviceId''],
         pc_baseline = describeTargetCapabilityBaseline t\<rparr>
     else bindR (buildAgentTargetFromPreset (tid t) (the (deviceId t)) (environment t) pre) (\<lambda>expected.
       let differences = map fst (filter (\<lambda>(k, get). stable le (get t) \<noteq> stable le (get expected)) AUTHORITY_KEYS) in
       Inr \<lparr>pc_preset = pre, pc_valid = (differences = []), pc_differences = differences,
         pc_baseline = describeTargetCapabilityBaseline t\<rparr>))"

section \<open>Properties\<close>

lemmas preset_simps = buildAgentTargetFromPreset_def preset_base_def Let_def

lemma build_Inr:
  "buildAgentTargetFromPreset i d e pre = Inr t \<Longrightarrow>
     tid t = i \<and> deviceId t = Some d \<and> environment t = e \<and> transport t = Agent \<and> enabled t"
  by (cases pre) (auto simp: preset_simps bindR_Inr_iff)

lemma semantic_ids: "re_semantic MANAGED_ADMIN_CAPABILITY" "re_semantic ''deepharness.semantic''"
  "re_semantic ''openhands.read''" "re_semantic ''openhands.execute''" "re_semantic ''postgres.pinned_readback''"
  "list_all re_program MANAGED_ADMIN_DEFAULT_PROGRAMS"
  by code_simp+

text \<open>A target built from a preset for a valid id and device is a valid agent target with that id, device
  and environment, and it is found to conform to its preset, whatever the locale's string order.\<close>

lemma preset_target_conforms:
  assumes "re_target_id i" "re_device_id d" "buildAgentTargetFromPreset i d e pre = Inr t"
  shows "TargetSchema t \<and> tid t = i \<and> deviceId t = Some d \<and> environment t = e \<and> transport t = Agent \<and>
    (\<exists>c. validateAgentTargetAgainstPreset le t pre = Inr c \<and> pc_valid c \<and> pc_differences c = [])"
proof -
  have "d \<noteq> []" using assms(2) by (auto simp: re_device_id_def starts_with_iff)
  moreover have "TargetSchema t"
    using assms semantic_ids
    by (cases pre) (auto simp: preset_simps TargetSchema_def opt_all_def bindR_Inr_iff)
  ultimately show ?thesis
    using build_Inr [OF assms(3)] assms(3)
    by (auto simp: validateAgentTargetAgainstPreset_def)
qed

lemma preset_target_conforms_witness:
  "\<exists>t. buildAgentTargetFromPreset ''ops-1'' ''dev_12345678'' Production Managed_Admin = Inr t \<and> TargetSchema t"
proof -
  have "is_ok (buildAgentTargetFromPreset ''ops-1'' ''dev_12345678'' Production Managed_Admin)"
    "re_target_id ''ops-1''" "re_device_id ''dev_12345678''" by code_simp+
  with preset_target_conforms [of "''ops-1''" "''dev_12345678''"] show ?thesis by (metis is_ok_iff)
qed

text \<open>No preset gives Docker access or Git repositories; only the managed-admin preset gives root
  programs, none of them on the hard-deny list; only it and the operator workspace can write or run
  programs, and only inside the workspace.\<close>

lemma preset_least_authority:
  assumes "buildAgentTargetFromPreset i d e pre = Inr t"
  shows "allowedDockerContainers t = [] \<and> allowedDockerExecContainers t = [] \<and> allowedDockerExecPrograms t = [] \<and>
    allowedDockerActions t = [] \<and> allowedGitRepos t = [] \<and>
    (allowedAdminPrograms t \<noteq> [] \<longleftrightarrow> pre = Managed_Admin) \<and>
    (MANAGED_ADMIN_CAPABILITY \<in> set (allowedSemanticCapabilities t) \<longleftrightarrow> pre = Managed_Admin) \<and>
    set (allowedAdminPrograms t) \<inter> set MANAGED_ADMIN_HARD_DENY = {} \<and>
    (capabilityProfile t = Operator \<longleftrightarrow> pre \<in> {Managed_Admin, Operator_Workspace}) \<and>
    (pre \<notin> {Managed_Admin, Operator_Workspace} \<longrightarrow>
       allowedWritePaths t = [] \<and> allowedProcessPrograms t = [] \<and> allowedServiceActions t = []) \<and>
    set (allowedWritePaths t @ allowedProcessCwds t @ allowedPaths t) \<subseteq> {AGENT_WORKSPACE_ROOT}"
proof -
  have "set MANAGED_ADMIN_DEFAULT_PROGRAMS \<inter> set MANAGED_ADMIN_HARD_DENY = {}" by code_simp
  moreover have "MANAGED_ADMIN_DEFAULT_PROGRAMS \<noteq> []" by (simp add: MANAGED_ADMIN_DEFAULT_PROGRAMS_def)
  ultimately show ?thesis
    using assms by (cases pre) (auto simp: preset_simps bindR_Inr_iff MANAGED_ADMIN_CAPABILITY_def)
qed

lemma preset_least_authority_witness:
  "\<exists>t. buildAgentTargetFromPreset ''ops-1'' ''dev_12345678'' Production Openhands_Execute = Inr t \<and>
     allowedProcessPrograms t = []"
proof -
  have "is_ok (buildAgentTargetFromPreset ''ops-1'' ''dev_12345678'' Production Openhands_Execute)" by code_simp
  with preset_least_authority [of "''ops-1''" "''dev_12345678''" Production Openhands_Execute] show ?thesis
    by (auto simp: is_ok_iff)
qed

end
