(* ===== verification/Redact.thy ===== *)
theory Redact
  imports Paths
begin

text \<open>
  \<^verbatim>\<open>src/security/redact.ts\<close>: the redaction of tool output. A regular expression of the source is a
  syntax tree here, and \<open>ends\<close> lists the lengths of its matches at a place in the order in which the
  backtracking matcher of the language tries them, so that the first one is the match it takes.
\<close>

section \<open>Regular expressions\<close>

datatype re =
    Eps
  | Cls "char \<Rightarrow> bool"
  | Seq re re
  | Alt re re
  | Star re
  | Lazy re
  | Word_Edge
  | Line_Start
  | Line_End

definition word_char :: "char \<Rightarrow> bool" where
  "word_char c = (is_alnum c \<or> c = CHR ''_'')"

definition line_break :: "char \<Rightarrow> bool" where
  "line_break c = (code c = 10 \<or> code c = 13)"

definition head_is :: "(char \<Rightarrow> bool) \<Rightarrow> string \<Rightarrow> bool" where
  "head_is P s = (case s of [] \<Rightarrow> False | c # cs \<Rightarrow> P c)"

definition prev_is :: "(char \<Rightarrow> bool) \<Rightarrow> char option \<Rightarrow> bool" where
  "prev_is P p = (case p of None \<Rightarrow> False | Some c \<Rightarrow> P c)"

text \<open>The unit before the place \<open>n\<close> units further.\<close>

definition prev_at :: "char option \<Rightarrow> string \<Rightarrow> nat \<Rightarrow> char option" where
  "prev_at p s n = (if n = 0 \<or> s = [] then p else Some (last (take n s)))"

function ends :: "re \<Rightarrow> char option \<Rightarrow> string \<Rightarrow> nat list" where
  "ends Eps p s = [0]"
| "ends (Cls P) p s = (if head_is P s then [1] else [])"
| "ends (Seq a b) p s =
    concat (map (\<lambda>n. if n \<le> length s then map (\<lambda>m. n + m) (ends b (prev_at p s n) (drop n s)) else []) (ends a p s))"
| "ends (Alt a b) p s = ends a p s @ ends b p s"
| "ends (Star a) p s =
    concat (map (\<lambda>n. if 0 < n \<and> n \<le> length s then map (\<lambda>m. n + m) (ends (Star a) (prev_at p s n) (drop n s)) else [])
      (ends a p s)) @ [0]"
| "ends (Lazy a) p s = 0 #
    concat (map (\<lambda>n. if 0 < n \<and> n \<le> length s then map (\<lambda>m. n + m) (ends (Lazy a) (prev_at p s n) (drop n s)) else [])
      (ends a p s))"
| "ends Word_Edge p s = (if prev_is word_char p \<noteq> head_is word_char s then [0] else [])"
| "ends Line_Start p s = (if p = None \<or> prev_is line_break p then [0] else [])"
| "ends Line_End p s = (if s = [] \<or> head_is line_break s then [0] else [])"
  by pat_completeness auto
termination by (relation "measures [\<lambda>(r, p, s). length s + size r, \<lambda>(r, p, s). size r]") auto

text \<open>\<open>s.replace(r, new)\<close> with the flag \<open>g\<close>. No expression of the source matches the empty text.\<close>

function replace_from :: "re \<Rightarrow> string \<Rightarrow> char option \<Rightarrow> string \<Rightarrow> string" where
  "replace_from r new p [] = []"
| "replace_from r new p (c # s) =
    (case ends r p (c # s) of
       [] \<Rightarrow> c # replace_from r new (Some c) s
     | n # ns \<Rightarrow> if n = 0 then c # replace_from r new (Some c) s
         else new @ replace_from r new (prev_at p (c # s) n) (drop n (c # s)))"
  by pat_completeness auto
termination by (relation "measure (\<lambda>(r, b, p, s). length s)") auto

definition replace_all :: "re \<Rightarrow> string \<Rightarrow> string \<Rightarrow> string" where
  "replace_all r new s = replace_from r new None s"

section \<open>The patterns\<close>

text \<open>Both cases of a class, sequences, repetitions and literal texts.\<close>

definition ci :: "(char \<Rightarrow> bool) \<Rightarrow> char \<Rightarrow> bool" where
  "ci P c = (P c \<or> is_upper c \<and> P (char_of (code c + 32)) \<or> is_lower c \<and> P (char_of (code c - 32)))"

fun seq :: "re list \<Rightarrow> re" where
  "seq [] = Eps"
| "seq [r] = r"
| "seq (r # rs) = Seq r (seq rs)"

fun alts :: "re list \<Rightarrow> re" where
  "alts [] = Cls (\<lambda>c. False)"
| "alts [r] = r"
| "alts (r # rs) = Alt r (alts rs)"

definition opt :: "re \<Rightarrow> re" where "opt r = Alt r Eps"
definition one_up :: "re \<Rightarrow> re" where "one_up r = Seq r (Star r)"
definition at_least :: "nat \<Rightarrow> re \<Rightarrow> re" where "at_least n r = seq (replicate n r @ [Star r])"
definition exactly :: "nat \<Rightarrow> re \<Rightarrow> re" where "exactly n r = seq (replicate n r)"
definition lit_re :: "string \<Rightarrow> re" where "lit_re s = seq (map (\<lambda>c. Cls (\<lambda>x. x = c)) s)"
definition lit_i :: "string \<Rightarrow> re" where "lit_i s = seq (map (\<lambda>c. Cls (ci (\<lambda>x. x = c))) s)"

definition among :: "string \<Rightarrow> char \<Rightarrow> bool" where "among s c = (c \<in> set s)"
definition alnum_or :: "string \<Rightarrow> char \<Rightarrow> bool" where "alnum_or s c = (is_alnum c \<or> c \<in> set s)"
definition tick :: char where "tick = char_of (96 :: nat)"
definition dquotes :: char where "dquotes = char_of (34 :: nat)"
definition squotes :: char where "squotes = char_of (39 :: nat)"

abbreviation "ws_star \<equiv> Star (Cls is_ws)"
abbreviation "quote_opt \<equiv> opt (Cls (among [dquotes, squotes]))"
abbreviation "under_dash_opt \<equiv> opt (Cls (among ''_-''))"

definition private_key_mark :: "string \<Rightarrow> re" where
  "private_key_mark w = seq [lit_re (''-----'' @ w @ '' ''), Star (Cls (\<lambda>c. is_upper c \<or> c = CHR '' '')), lit_re ''PRIVATE KEY-----'']"

definition word_token :: "string \<Rightarrow> string \<Rightarrow> nat \<Rightarrow> re" where
  "word_token mark extra n = seq [Word_Edge, lit_re mark, at_least n (Cls (alnum_or extra)), Word_Edge]"

definition secret_words :: re where
  "secret_words = alts
    [lit_i ''password'', lit_i ''passwd'', lit_i ''pwd'', lit_i ''secret'', lit_i ''token'',
     seq [lit_i ''api'', under_dash_opt, lit_i ''key''], lit_i ''apikey'',
     seq [lit_i ''access'', under_dash_opt, lit_i ''token''], seq [lit_i ''refresh'', under_dash_opt, lit_i ''token''],
     seq [lit_i ''client'', under_dash_opt, lit_i ''secret''], seq [lit_i ''private'', under_dash_opt, lit_i ''key''],
     seq [lit_i ''service'', under_dash_opt, lit_i ''role'', under_dash_opt, lit_i ''key''],
     seq [lit_i ''anon'', under_dash_opt, lit_i ''key'']]"

definition TEXT_PATTERNS :: "re list" where
  "TEXT_PATTERNS =
    [seq [private_key_mark ''BEGIN'', Lazy (Cls (\<lambda>c. True)), private_key_mark ''END''],
     seq [Word_Edge, lit_re ''AKIA'', exactly 16 (Cls (\<lambda>c. is_digit c \<or> is_upper c)), Word_Edge],
     seq [Word_Edge, alts [seq [opt (lit_i ''aws''), opt (lit_re ''_''), lit_i ''access'', opt (lit_re ''_''), lit_i ''key'',
            opt (lit_re ''_''), lit_i ''id''],
          seq [lit_i ''aws'', opt (lit_re ''_''), lit_i ''secret'', opt (lit_re ''_''), lit_i ''access'', opt (lit_re ''_''), lit_i ''key'']],
        Word_Edge, ws_star, Cls (among '':=''), ws_star, quote_opt, at_least 8 (Cls (alnum_or ''/+=''))],
     seq [Word_Edge, lit_re ''eyJ'', at_least 6 (Cls (alnum_or ''_-'')), lit_re ''.'', at_least 6 (Cls (alnum_or ''_-'')), lit_re ''.'',
        at_least 6 (Cls (alnum_or ''_-'')), Word_Edge],
     word_token ''sbp_'' [] 16, word_token ''sk-'' ''_-'' 16, word_token ''sk-proj-'' ''_-'' 16, word_token ''ghp_'' [] 16,
     word_token ''gho_'' [] 16, word_token ''github_pat_'' ''_'' 16,
     seq [Word_Edge, lit_re ''xox'', Cls (among ''baprs''), lit_re ''-'', at_least 10 (Cls (alnum_or ''-'')), Word_Edge],
     word_token ''AIza'' ''_-'' 20, word_token ''YA29.'' ''_-'' 20,
     seq [Word_Edge, lit_i ''Bearer'', one_up (Cls is_ws), at_least 10 (Cls (alnum_or ''._~-''))],
     seq [Word_Edge, lit_i ''Basic'', one_up (Cls is_ws), at_least 16 (Cls (alnum_or ''+/=''))],
     seq [Word_Edge, secret_words, Word_Edge, ws_star, Cls (among '':=''), ws_star, quote_opt,
        at_least 4 (Cls (\<lambda>c. \<not> is_ws c \<and> c \<notin> {dquotes, squotes, tick}))],
     seq [Word_Edge, alts [seq [lit_i ''postgres'', opt (lit_i ''ql'')], lit_i ''mysql'', lit_i ''mariadb'',
            seq [lit_i ''mongodb'', opt (lit_i ''+srv'')], lit_i ''redis'', lit_i ''rediss'', seq [lit_i ''amqp'', opt (lit_i ''s'')]],
        lit_re ''://'', one_up (Cls (\<lambda>c. \<not> is_ws c \<and> c \<notin> set '':/@'')), lit_re '':'', one_up (Cls (\<lambda>c. \<not> is_ws c \<and> c \<notin> set ''@/'')),
        lit_re ''@''],
     seq [Line_Start, ws_star, Star (Cls (alnum_or ''_'')), alts (map lit_i [''PASSWORD'', ''SECRET'', ''TOKEN'', ''KEY'', ''CREDENTIAL'']),
        Star (Cls (alnum_or ''_'')), ws_star, lit_re ''='', ws_star, one_up (Cls (\<lambda>c. \<not> is_ws c)), Line_End]]"

definition REDACTED :: string where "REDACTED = ''[REDACTED]''"

definition redactText :: "string \<Rightarrow> string" where
  "redactText t = foldl (\<lambda>out p. replace_all p REDACTED out) t TEXT_PATTERNS"

section \<open>Objects\<close>

definition SENSITIVE_KEY_NAMES :: "string list" where
  "SENSITIVE_KEY_NAMES = [''env'', ''environment'', ''password'', ''passwd'', ''secret'', ''secrets'', ''token'', ''tokens'',
     ''authorization'', ''auth'', ''authconfig'', ''apikey'', ''api_key'', ''clientsecret'', ''client_secret'', ''privatekey'',
     ''private_key'', ''credential'', ''credentials'', ''registryconfig'']"

definition SENSITIVE_TOKENS :: "string list" where
  "SENSITIVE_TOKENS = [''env'', ''environment'', ''password'', ''passwd'', ''secret'', ''secrets'', ''token'', ''tokens'',
     ''credential'', ''credentials'', ''apikey'', ''key'', ''keys'', ''auth'', ''authorization'', ''privatekey'', ''cookie'']"

text \<open>The non-empty parts of \<open>s.split(/[^a-z0-9]+/)\<close>.\<close>

fun words_of :: "string \<Rightarrow> string \<Rightarrow> string list" where
  "words_of acc [] = (if acc = [] then [] else [rev acc])"
| "words_of acc (c # s) =
    (if is_lower c \<or> is_digit c then words_of (c # acc) s
     else (if acc = [] then [] else [rev acc]) @ words_of [] s)"

definition keyIsSensitive :: "string \<Rightarrow> bool" where
  "keyIsSensitive key = (let norm = lower key in
     filter (\<lambda>c. is_lower c \<or> c = CHR ''_'') norm \<in> set SENSITIVE_KEY_NAMES \<or>
     list_ex (\<lambda>tk. tk \<in> set SENSITIVE_TOKENS) (words_of [] norm))"

definition redacted_value :: "jval \<Rightarrow> jval" where
  "redacted_value v = (case v of
     JArr vs \<Rightarrow> JStr (''['' @ nat_text (length vs) @ '' valores redigidos]'')
   | _ \<Rightarrow> JStr REDACTED)"

fun deepRedact :: "jval \<Rightarrow> nat \<Rightarrow> jval" where
  "deepRedact v depth =
    (if 12 < depth then JStr ''[MAX_DEPTH]''
     else (case v of
         JStr s \<Rightarrow> JStr (redactText s)
       | JArr vs \<Rightarrow> JArr (map (\<lambda>v. deepRedact v (depth + 1)) vs)
       | JObj fs \<Rightarrow> JObj (map (\<lambda>(k, v). (k, if keyIsSensitive k then redacted_value v else deepRedact v (depth + 1))) fs)
       | _ \<Rightarrow> v))"

declare deepRedact.simps [simp del]

definition redactObject :: "jval \<Rightarrow> jval" where
  "redactObject v = deepRedact v 0"

section \<open>What redaction guarantees\<close>

text \<open>A text in which no pattern matches is not touched.\<close>

definition no_match :: "re \<Rightarrow> string \<Rightarrow> bool" where
  "no_match r s = (\<forall>i < length s. ends r (if i = 0 then None else Some (s ! (i - 1))) (drop i s) = [])"

lemma replace_from_no_match:
  "(\<forall>i < length s. ends r (if i = 0 then p else Some (s ! (i - 1))) (drop i s) = []) \<Longrightarrow> replace_from r new p s = s"
proof (induction s arbitrary: p)
  case Nil
  then show ?case by simp
next
  case (Cons c s)
  have "ends r (if i = 0 then Some c else Some (s ! (i - 1))) (drop i s) = []" if "i < length s" for i
    using that Cons.prems [rule_format, of "Suc i"] by (cases i) auto
  then have "replace_from r new (Some c) s = s" by (intro Cons.IH) blast
  moreover have "ends r p (c # s) = []" using Cons.prems [rule_format, of 0] by simp
  ultimately show ?case by simp
qed

lemma redactText_no_match:
  assumes "\<And>r. r \<in> set TEXT_PATTERNS \<Longrightarrow> no_match r s"
  shows "redactText s = s"
proof -
  have "foldl (\<lambda>out p. replace_all p REDACTED out) s ps = s" if "\<forall>r \<in> set ps. no_match r s" for ps
    using that by (induction ps) (simp_all add: replace_all_def no_match_def replace_from_no_match)
  then show ?thesis using assms by (simp add: redactText_def)
qed

text \<open>Two values that differ only below sensitive keys, where an array stays an array of its length.\<close>

definition same_shape :: "jval \<Rightarrow> jval \<Rightarrow> bool" where
  "same_shape v w = (case (v, w) of
     (JArr a, JArr b) \<Rightarrow> length a = length b
   | (JArr a, _) \<Rightarrow> False
   | (_, JArr b) \<Rightarrow> False
   | _ \<Rightarrow> True)"

inductive agree :: "jval \<Rightarrow> jval \<Rightarrow> bool" where
  agree_refl: "agree v v"
| agree_arr: "list_all2 agree vs ws \<Longrightarrow> agree (JArr vs) (JArr ws)"
| agree_obj: "list_all2 (\<lambda>p q. fst p = fst q \<and> (if keyIsSensitive (fst p) then same_shape (snd p) (snd q) else agree (snd p) (snd q)))
    fs gs \<Longrightarrow> agree (JObj fs) (JObj gs)"

lemma same_shape_redacted: "same_shape v w \<Longrightarrow> redacted_value v = redacted_value w"
  by (auto simp: same_shape_def redacted_value_def split: jval.splits)

lemma deepRedact_agree: "agree v w \<Longrightarrow> deepRedact v d = deepRedact w d"
proof (induction arbitrary: d rule: agree.induct)
  case (agree_refl v)
  then show ?case by simp
next
  case (agree_arr vs ws)
  then have "map (\<lambda>v. deepRedact v (d + 1)) vs = map (\<lambda>v. deepRedact v (d + 1)) ws"
    by (induction rule: list_all2_induct) auto
  then show ?case by (simp add: deepRedact.simps [of "JArr vs"] deepRedact.simps [of "JArr ws"])
next
  case (agree_obj fs gs)
  then have "map (\<lambda>(k, v). (k, if keyIsSensitive k then redacted_value v else deepRedact v (d + 1))) fs =
      map (\<lambda>(k, v). (k, if keyIsSensitive k then redacted_value v else deepRedact v (d + 1))) gs"
    by (induction rule: list_all2_induct) (auto simp: same_shape_redacted split: if_splits)
  then show ?case by (simp add: deepRedact.simps [of "JObj fs"] deepRedact.simps [of "JObj gs"])
qed

text \<open>What a tool returns through the redaction does not depend on what stands below a sensitive key, at any
  depth: two results that differ only there, arrays keeping their length, are redacted to the same value.\<close>

lemma redaction_hides_sensitive:
  assumes "agree v w"
  shows "redactObject v = redactObject w"
  unfolding redactObject_def using assms by (rule deepRedact_agree)

lemma redaction_hides_sensitive_witness:
  "redactObject (JObj [(''a'', JArr [JObj [(''Registry-Auth'', JStr ''hunter2'')]])]) =
   redactObject (JObj [(''a'', JArr [JObj [(''Registry-Auth'', JNull)]])])"
proof -
  have "keyIsSensitive ''Registry-Auth''" "\<not> keyIsSensitive ''a''" by code_simp+
  then have "agree (JObj [(''a'', JArr [JObj [(''Registry-Auth'', JStr ''hunter2'')]])])
      (JObj [(''a'', JArr [JObj [(''Registry-Auth'', JNull)]])])"
    by (auto intro!: agree_obj agree_arr simp: same_shape_def)
  then show ?thesis by (rule redaction_hides_sensitive)
qed

end
