(* ===== verification/Remote.thy ===== *)
theory Remote
  imports Redact Targets
begin

text \<open>
  What a tool does to the outside: it asks (runs a command on a target, sends an operation to an agent,
  calls an HTTP API) and goes on with the answer. A run of a handler is the tree of what it asks and what
  it returns or throws for every answer; \<open>eval\<close> runs it against a world that answers.
\<close>

section \<open>Questions and answers\<close>

datatype http_method = GET | POST | PUT | DELETE

record exec_options =
  xo_timeoutMs :: "int option"
  xo_maxBytes :: "int option"

datatype wire =
    Exec target_config "string list" exec_options
  | Operate string string "(string \<times> jval) list" exec_options
  | Api http_method string jval

datatype answer =
    Result exec_result
  | Failure exn
  | No_Key
  | Network_Error
  | Aborted
  | Response int string

datatype 'a prog = Ret "exn + 'a" | Ask wire "answer \<Rightarrow> 'a prog"

text \<open>The answer of a command or an agent operation.\<close>

definition exec_answer :: "answer \<Rightarrow> exn + exec_result" where
  "exec_answer a = (case a of Result r \<Rightarrow> Inr r | Failure e \<Rightarrow> Inl e | _ \<Rightarrow> Inl (Error ''transport''))"

definition no_options :: exec_options where
  "no_options = \<lparr>xo_timeoutMs = None, xo_maxBytes = None\<rparr>"

section \<open>Sequencing\<close>

primrec bindP :: "'a prog \<Rightarrow> ('a \<Rightarrow> 'b prog) \<Rightarrow> 'b prog" where
  "bindP (Ret r) f = (case r of Inl e \<Rightarrow> Ret (Inl e) | Inr x \<Rightarrow> f x)"
| "bindP (Ask q k) f = Ask q (\<lambda>a. bindP (k a) f)"

definition ret :: "'a \<Rightarrow> 'a prog" where "ret x = Ret (Inr x)"
definition fail :: "exn \<Rightarrow> 'a prog" where "fail e = Ret (Inl e)"

text \<open>A guard \<open>if (!b) throw e\<close>, and \<open>p.catch(() => null)\<close>.\<close>

definition guardP :: "bool \<Rightarrow> exn \<Rightarrow> 'a prog \<Rightarrow> 'a prog" where
  "guardP b e p = (if b then p else fail e)"

primrec catchP :: "'a prog \<Rightarrow> 'a option prog" where
  "catchP (Ret r) = Ret (case r of Inl e \<Rightarrow> Inr None | Inr x \<Rightarrow> Inr (Some x))"
| "catchP (Ask q k) = Ask q (\<lambda>a. catchP (k a))"

definition exec_on :: "target_config \<Rightarrow> string list \<Rightarrow> exec_options \<Rightarrow> exec_result prog" where
  "exec_on t argv opts = Ask (Exec t argv opts) (\<lambda>a. Ret (exec_answer a))"

text \<open>\<open>run\<close> of the path checks, which take no options.\<close>

definition canonicalP :: "string \<Rightarrow> target_config \<Rightarrow> string prog" where
  "canonicalP p t = bindP (Ret (lexical_path p)) (\<lambda>n.
     Ask (Exec t (realpath_argv n) no_options) (\<lambda>a. Ret (resolved_path (exec_answer a))))"

definition checkedPathP :: "string \<Rightarrow> target_config \<Rightarrow> string prog" where
  "checkedPathP p t = bindP (canonicalP p t) (\<lambda>real. Ret (within_roots (allowedPaths t) real))"

definition checkedCwdP :: "string \<Rightarrow> target_config \<Rightarrow> string prog" where
  "checkedCwdP p t = bindP (canonicalP p t) (\<lambda>real. Ret (within_roots (allowedProcessCwds t) real))"

text \<open>The repositories of the allowlist are resolved one after the other until one matches.\<close>

fun find_repo :: "string \<Rightarrow> target_config \<Rightarrow> string list \<Rightarrow> string prog" where
  "find_repo real t [] = fail (OpsError REPO_NOT_ALLOWED)"
| "find_repo real t (configured # rest) =
     bindP (catchP (canonicalP configured t)) (\<lambda>allowed. if allowed = Some real then ret real else find_repo real t rest)"

definition checkedRepoP :: "string \<Rightarrow> target_config \<Rightarrow> string prog" where
  "checkedRepoP p t = bindP (canonicalP p t) (\<lambda>real.
     if allowedGitRepos t = [] then fail (OpsError REPO_NOT_ALLOWED) else find_repo real t (allowedGitRepos t))"

section \<open>Runs\<close>

primrec eval :: "'a prog \<Rightarrow> ('w \<Rightarrow> wire \<Rightarrow> 'w \<times> answer) \<Rightarrow> 'w \<Rightarrow> 'w \<times> wire list \<times> (exn + 'a)" where
  "eval (Ret r) world w = (w, [], r)"
| "eval (Ask q k) world w =
    (let (w', a) = world w q; (w'', qs, r) = eval (k a) world w' in (w'', q # qs, r))"

definition asked :: "'a prog \<Rightarrow> ('w \<Rightarrow> wire \<Rightarrow> 'w \<times> answer) \<Rightarrow> 'w \<Rightarrow> wire list" where
  "asked p world w = fst (snd (eval p world w))"

definition outcome :: "'a prog \<Rightarrow> ('w \<Rightarrow> wire \<Rightarrow> 'w \<times> answer) \<Rightarrow> 'w \<Rightarrow> exn + 'a" where
  "outcome p world w = snd (snd (eval p world w))"

lemma asked_Ask [simp]: "asked (Ask q k) world w = q # asked (k (snd (world w q))) world (fst (world w q))"
  by (simp add: asked_def case_prod_beta)

lemma asked_Ret [simp]: "asked (Ret r) world w = []"
  by (simp add: asked_def)

lemma outcome_Ret [simp]: "outcome (Ret r) world u = r"
  by (simp add: outcome_def)

lemma outcome_Ask [simp]: "outcome (Ask q k) world w = outcome (k (snd (world w q))) world (fst (world w q))"
  by (simp add: outcome_def case_prod_beta)

section \<open>What a run may ask and return\<close>

text \<open>\<open>holds P Q p\<close>: whatever the answers, \<open>p\<close> asks only what \<open>P\<close> allows and returns only what \<open>Q\<close> allows.\<close>

primrec holds :: "(wire \<Rightarrow> bool) \<Rightarrow> ('a \<Rightarrow> bool) \<Rightarrow> 'a prog \<Rightarrow> bool" where
  "holds P Q (Ret r) = (case r of Inl e \<Rightarrow> True | Inr x \<Rightarrow> Q x)"
| "holds P Q (Ask q k) = (P q \<and> (\<forall>a. holds P Q (k a)))"

named_theorems prog_rules \<open>what the parts of a handler ask and return\<close>

lemma holds_weaken: "holds P Q p \<Longrightarrow> (\<And>q. P q \<Longrightarrow> P' q) \<Longrightarrow> (\<And>x. Q x \<Longrightarrow> Q' x) \<Longrightarrow> holds P' Q' p"
  by (induction p) (auto split: sum.splits)

lemma holds_bind [prog_rules]:
  "holds P (\<lambda>x. holds P R (f x)) p \<Longrightarrow> holds P R (bindP p f)"
  by (induction p) (auto split: sum.splits)

lemma holds_catch: "holds P Q p \<Longrightarrow> holds P (\<lambda>x. \<forall>y. x = Some y \<longrightarrow> Q y) (catchP p)"
  by (induction p) (auto split: sum.splits)

lemma holds_ret [simp]: "holds P Q (ret x) = Q x"
  by (simp add: ret_def)

lemma holds_fail [simp]: "holds P Q (fail e)"
  by (simp add: fail_def)

lemma holds_guard [simp]: "holds P Q (guardP b e p) = (b \<longrightarrow> holds P Q p)"
  by (simp add: guardP_def)

lemma holds_exec [simp]: "holds P Q (exec_on t argv opts) = (P (Exec t argv opts) \<and> (\<forall>a. case exec_answer a of Inl e \<Rightarrow> True | Inr x \<Rightarrow> Q x))"
  by (simp add: exec_on_def)

lemma holds_asked: "holds P Q p \<Longrightarrow> list_all P (asked p world w)"
  by (induction p arbitrary: w) auto

lemma holds_outcome: "holds P Q p \<Longrightarrow> outcome p world w = Inr x \<Longrightarrow> Q x"
  by (induction p arbitrary: w) auto

section \<open>The path checks\<close>

text \<open>A path that a handler may put on a command line: absolute, without parent components and no secret.\<close>

definition clean_path :: "string \<Rightarrow> bool" where
  "clean_path p = (starts_with p ''/'' \<and> ''..'' \<notin> set (segs p) \<and> \<not> denySecretPath p)"

lemma lexical_clean:
  assumes "lexical_path p = Inr n"
  shows "clean_path n"
proof -
  let ?ss = "clean_segs (sanitizeSegments p)"
  note n = lexical_path_Inr [OF assms]
  then have "segs n = [] # ?ss" by (simp add: segs_normal_clean)
  moreover have "starts_with n ''/''" using n by (simp add: normal_path_def starts_with_slash)
  ultimately show ?thesis using n by (auto simp: clean_path_def)
qed

lemma resolved_clean: "resolved_path a = Inr n \<Longrightarrow> clean_path n"
  by (drule resolved_path_Inr) (simp add: clean_path_def)

definition may_resolve :: "(wire \<Rightarrow> bool) \<Rightarrow> target_config \<Rightarrow> bool" where
  "may_resolve P t = (\<forall>n. clean_path n \<longrightarrow> P (Exec t (realpath_argv n) no_options))"

lemma holds_canonical:
  assumes "may_resolve P t"
  shows "holds P clean_path (canonicalP p t)"
  using assms lexical_clean resolved_clean
  by (auto simp: canonicalP_def may_resolve_def intro!: holds_bind split: sum.splits)

lemma holds_checkedPath:
  assumes "may_resolve P t"
  shows "holds P (\<lambda>real. clean_path real \<and> (\<exists>root \<in> set (allowedPaths t). inside_root root real)) (checkedPathP p t)"
  unfolding checkedPathP_def
  by (intro holds_bind holds_weaken [OF holds_canonical [OF assms]])
    (auto simp: within_roots_def ensure_def list_ex_iff)

lemma holds_checkedCwd:
  assumes "may_resolve P t"
  shows "holds P (\<lambda>real. clean_path real \<and> (\<exists>root \<in> set (allowedProcessCwds t). inside_root root real)) (checkedCwdP p t)"
  unfolding checkedCwdP_def
  by (intro holds_bind holds_weaken [OF holds_canonical [OF assms]])
    (auto simp: within_roots_def ensure_def list_ex_iff)

lemma holds_find_repo:
  assumes "may_resolve P t" "clean_path real"
  shows "holds P clean_path (find_repo real t repos)"
  by (induction repos)
    (auto intro!: holds_bind holds_weaken [OF holds_catch [OF holds_canonical [OF assms(1)]]] simp: assms(2))

lemma holds_checkedRepo:
  assumes "may_resolve P t"
  shows "holds P clean_path (checkedRepoP p t)"
  unfolding checkedRepoP_def
  by (intro holds_bind holds_weaken [OF holds_canonical [OF assms]]) (auto intro!: holds_find_repo [OF assms])

text \<open>The trees agree with the path checks of the code run against one answering function.\<close>

definition answering :: "(string list \<Rightarrow> exn + exec_result) \<Rightarrow> unit \<Rightarrow> wire \<Rightarrow> unit \<times> answer" where
  "answering run w q = (w, (case q of
     Exec t argv opts \<Rightarrow> (case run argv of Inl e \<Rightarrow> Failure e | Inr r \<Rightarrow> Result r)
   | _ \<Rightarrow> No_Key))"

lemma outcome_bind: "outcome (bindP p f) (answering run) u = bindR (outcome p (answering run) u) (\<lambda>x. outcome (f x) (answering run) u)"
  by (induction p) (auto simp: outcome_def case_prod_beta answering_def split: sum.splits)

lemma outcome_canonical: "outcome (canonicalP p t) (answering run) u = canonicalRealPath p run"
proof -
  have "outcome (Ask (Exec t (realpath_argv n) no_options) (\<lambda>a. Ret (resolved_path (exec_answer a)))) (answering run) u
      = resolved_path (run (realpath_argv n))" for n
    by (auto simp: outcome_def answering_def exec_answer_def split: sum.splits)
  then show ?thesis by (cases u) (simp only: canonicalP_def canonicalRealPath_def outcome_bind outcome_Ret)
qed

lemma outcome_checkedPath: "outcome (checkedPathP p t) (answering run) u = resolveCheckedPath p t run"
  by (simp add: checkedPathP_def resolveCheckedPath_def outcome_bind outcome_canonical)

lemma outcome_checkedCwd: "outcome (checkedCwdP p t) (answering run) u = resolveCheckedProcessCwd p t run"
  by (simp add: checkedCwdP_def resolveCheckedProcessCwd_def outcome_bind outcome_canonical)

lemma outcome_catch: "outcome (catchP p) (answering run) u =
    Inr (case outcome p (answering run) u of Inl e \<Rightarrow> None | Inr x \<Rightarrow> Some x)"
  by (induction p) (auto simp: outcome_def case_prod_beta answering_def split: sum.splits)

lemma outcome_find_repo: "outcome (find_repo real t repos) (answering run) u =
    (if list_ex (\<lambda>c. canonicalRealPath c run = Inr real) repos then Inr real else Inl (OpsError REPO_NOT_ALLOWED))"
  by (induction repos)
    (auto simp: fail_def ret_def outcome_bind outcome_catch outcome_canonical split: sum.splits)

lemma outcome_checkedRepo: "outcome (checkedRepoP p t) (answering run) u = resolveCheckedGitRepo p t run"
  by (auto simp: checkedRepoP_def resolveCheckedGitRepo_def outcome_bind outcome_canonical outcome_find_repo fail_def
      fun_eq_iff bindR_def ensure_def split: sum.splits)

end
