(* ===== verification/Portainer.thy ===== *)
theory Portainer
  imports Remote Ticket
begin

text \<open>
  \<^verbatim>\<open>src/portainer/client.ts\<close>: the client of the Portainer API. The answer of a call is what \<open>fetch\<close>
  yields; its text is read by \<open>parse\<close> (\<open>JSON.parse\<close>, \<open>None\<close> when it throws). An answer that is
  missing its key stands for a call that was never sent.
\<close>

section \<open>The key\<close>

definition token_ok :: "string \<Rightarrow> bool" where
  "token_ok token = (token \<noteq> [] \<and> \<not> length token < 16 \<and> \<not> list_ex is_ws token)"

text \<open>\<open>cachedApiKey\<close> is the state; \<open>key_file\<close> is what the key file holds now.\<close>

definition apiKey :: "string option \<Rightarrow> string option \<Rightarrow> string option \<times> (exn + string)" where
  "apiKey key_file cached =
    (if coalesce cached [] \<noteq> [] then (cached, Inr (coalesce cached []))
     else (case key_file of
         None \<Rightarrow> (cached, Inl (OpsError CAPABILITY_DENIED))
       | Some raw \<Rightarrow> (let token = trim raw in
           if \<not> token_ok token then (cached, Inl (OpsError CAPABILITY_DENIED)) else (Some token, Inr token))))"

definition apiUrl :: "string \<Rightarrow> string \<Rightarrow> string" where
  "apiUrl portainer_url path =
    strip_slashes portainer_url @ ''/api'' @ (if starts_with path ''/'' then path else slash # path)"

text \<open>The cached key is dropped when the API refuses it.\<close>

definition key_after :: "int \<Rightarrow> string option \<Rightarrow> string option" where
  "key_after status cached = (if status = 401 \<or> status = 403 then None else cached)"

section \<open>Requests\<close>

type_synonym parser = "string \<Rightarrow> jval option"

definition response_ok :: "int \<Rightarrow> bool" where
  "response_ok status = (200 \<le> status \<and> status \<le> 299)"

definition payload_of :: "parser \<Rightarrow> string \<Rightarrow> jval" where
  "payload_of parse t = (if t = [] then JNull
     else (case parse t of Some v \<Rightarrow> v | None \<Rightarrow> JStr (redactText (take 1000 t))))"

definition api_value :: "parser \<Rightarrow> answer \<Rightarrow> exn + jval" where
  "api_value parse a = (case a of
     Response status t \<Rightarrow>
       if response_ok status then Inr (payload_of parse t)
       else if status = 401 \<or> status = 403 then Inl (OpsError CAPABILITY_DENIED)
       else Inl (OpsError REMOTE_COMMAND_FAILED)
   | No_Key \<Rightarrow> Inl (OpsError CAPABILITY_DENIED)
   | Aborted \<Rightarrow> Inl (OpsError COMMAND_TIMEOUT)
   | _ \<Rightarrow> Inl (OpsError REMOTE_COMMAND_FAILED))"

definition requestJson :: "parser \<Rightarrow> http_method \<Rightarrow> string \<Rightarrow> jval \<Rightarrow> jval prog" where
  "requestJson parse m path body = Ask (Api m path body) (\<lambda>a. Ret (api_value parse a))"

section \<open>Values\<close>

text \<open>\<open>v.key\<close>, which throws on \<open>null\<close> and \<open>undefined\<close>; \<open>if (v)\<close>; \<open>typeof v === "object"\<close> of a true value.\<close>

definition get :: "jval \<Rightarrow> string \<Rightarrow> exn + jval" where
  "get v k = (if nullish v then Inl (Error ''TypeError'') else Inr (case v of JObj fs \<Rightarrow> field fs k | _ \<Rightarrow> JUndef))"

definition attr :: "jval \<Rightarrow> string \<Rightarrow> jval" where
  "attr v k = (case v of JObj fs \<Rightarrow> field fs k | _ \<Rightarrow> JUndef)"

definition js_true :: "jval \<Rightarrow> bool" where
  "js_true v = (case v of
     JUndef \<Rightarrow> False | JNull \<Rightarrow> False | JBool b \<Rightarrow> b | JStr s \<Rightarrow> s \<noteq> [] | JNum n \<Rightarrow> n \<notin> {NInt 0, NaN} | _ \<Rightarrow> True)"

definition is_object :: "jval \<Rightarrow> bool" where
  "is_object v = (case v of JArr vs \<Rightarrow> True | JObj fs \<Rightarrow> True | _ \<Rightarrow> False)"

definition or_null :: "jval \<Rightarrow> jval" where
  "or_null v = or_default v JNull"

type_synonym env_var = "string \<times> string"

fun envItems :: "jval list \<Rightarrow> env_var list" where
  "envItems [] = []"
| "envItems (item # items) =
    (case (if is_object item then attr item ''name'' else JUndef) of
       JStr n \<Rightarrow> (n, str_or_empty (attr item ''value'')) # envItems items
     | _ \<Rightarrow> envItems items)"

definition envArray :: "jval \<Rightarrow> env_var list" where
  "envArray v = (case v of JArr items \<Rightarrow> envItems items | _ \<Rightarrow> [])"

definition env_json :: "env_var list \<Rightarrow> jval" where
  "env_json es = JArr (map (\<lambda>(n, v). JObj [(''name'', JStr n), (''value'', JStr v)]) es)"

definition safe_git :: "jval \<Rightarrow> jval" where
  "safe_git git = (if is_object git then JObj
     [(''URL'', or_null (attr git ''URL'')), (''ReferenceName'', or_null (attr git ''ReferenceName'')),
      (''ConfigFilePath'', or_null (attr git ''ConfigFilePath'')), (''ConfigHash'', or_null (attr git ''ConfigHash''))]
   else JNull)"

definition safe_env :: "env_var list \<Rightarrow> jval" where
  "safe_env es = JArr (map (\<lambda>(n, v).
     JObj [(''name'', JStr n), (''configured'', JBool (v \<noteq> [])), (''value'', JStr REDACTED)]) es)"

definition safeStack :: "jval \<Rightarrow> exn + jval" where
  "safeStack stack = bindR (get stack ''GitConfig'') (\<lambda>git.
     Inr (JObj (map (\<lambda>k. (k, or_null (attr stack k)))
         [''Id'', ''Name'', ''Type'', ''Status'', ''EndpointId'', ''EntryPoint'', ''CreatedBy'', ''UpdatedBy''] @
       [(''GitConfig'', safe_git git), (''Env'', safe_env (envArray (attr stack ''Env'')))])))"

definition rawStack :: "parser \<Rightarrow> jnum \<Rightarrow> jval prog" where
  "rawStack parse i = requestJson parse GET (''/stacks/'' @ num_text i) JUndef"

definition stackEndpointId :: "(string \<Rightarrow> jnum) \<Rightarrow> jval \<Rightarrow> exn + int" where
  "stackEndpointId lit stack = bindR (get stack ''EndpointId'') (\<lambda>v.
     (case int_such (\<lambda>n. 0 < n) (num_of lit v) of None \<Rightarrow> Inl (OpsError REMOTE_COMMAND_FAILED) | Some i \<Rightarrow> Inr i))"

definition stackName :: "jval \<Rightarrow> exn + string" where
  "stackName stack = bindR (get stack ''Name'') (\<lambda>v. let n = str_or_empty v in
     bindR (ensure (n \<noteq> []) (OpsError REMOTE_COMMAND_FAILED)) (\<lambda>_. Inr n))"

section \<open>Operations\<close>

definition portainerStatus :: "parser \<Rightarrow> string \<Rightarrow> jval prog" where
  "portainerStatus parse url = bindP (requestJson parse GET ''/system/status'' JUndef) (\<lambda>status.
     ret (redactObject (JObj [(''configuredUrl'', JStr url), (''status'', status)])))"

definition list_items :: "jval \<Rightarrow> jval list" where
  "list_items v = (case v of JArr items \<Rightarrow> items | _ \<Rightarrow> [])"

definition portainerEndpoints :: "parser \<Rightarrow> jval prog" where
  "portainerEndpoints parse = bindP (requestJson parse GET ''/endpoints'' JUndef) (\<lambda>items.
     ret (JObj [(''endpoints'', JArr (map (\<lambda>item.
       JObj (map (\<lambda>k. (k, or_null (attr item k))) [''Id'', ''Name'', ''Type'', ''Status'', ''GroupId''])) (list_items items)))]))"

definition portainerStacks :: "parser \<Rightarrow> jval prog" where
  "portainerStacks parse = bindP (requestJson parse GET ''/stacks'' JUndef) (\<lambda>items.
     bindP (Ret (mapR (\<lambda>item. safeStack (or_default item (JObj []))) (list_items items))) (\<lambda>stacks.
     ret (JObj [(''stacks'', JArr stacks)])))"

definition portainerStack :: "parser \<Rightarrow> jnum \<Rightarrow> jval prog" where
  "portainerStack parse i = bindP (rawStack parse i) (\<lambda>s. Ret (safeStack s))"

text \<open>The stack that every changing operation reads first, when its name is the confirmed one.\<close>

definition confirmed_stack :: "parser \<Rightarrow> jnum \<Rightarrow> string \<Rightarrow> (jval \<times> string) prog" where
  "confirmed_stack parse stackId confirmStackName =
    bindP (rawStack parse stackId) (\<lambda>stack.
    bindP (Ret (stackName stack)) (\<lambda>nm.
    guardP (confirmStackName = nm) (OpsError INVALID_ARGUMENT) (ret (stack, nm))))"

text \<open>The variables afterwards, in the order of the \<open>Map\<close>.\<close>

definition merged_env :: "env_var list \<Rightarrow> bool \<Rightarrow> string list \<Rightarrow> env_var list \<Rightarrow> env_var list" where
  "merged_env current replaceAll unsetNames changes =
    (let kept = (if replaceAll then [] else fold (\<lambda>(n, v) m. AList.update n v m) current []);
         unset = fold AList.delete unsetNames kept
     in fold (\<lambda>(n, v) m. AList.update n v m) changes unset)"

record env_update =
  eu_stackId :: jnum
  eu_confirmStackName :: string
  eu_changes :: "env_var list"
  eu_unsetNames :: "string list"
  eu_replaceAll :: bool
  eu_pullImage :: bool
  eu_prune :: bool

definition stack_path :: "jnum \<Rightarrow> string \<Rightarrow> string" where
  "stack_path i rest = ''/stacks/'' @ num_text i @ rest"

definition updatePortainerStackEnv :: "parser \<Rightarrow> (string \<Rightarrow> jnum) \<Rightarrow> env_update \<Rightarrow> jval prog" where
  "updatePortainerStackEnv parse lit u =
    bindP (confirmed_stack parse (eu_stackId u) (eu_confirmStackName u)) (\<lambda>(stack, nm).
    let merged = merged_env (envArray (attr stack ''Env'')) (eu_replaceAll u) (eu_unsetNames u) (eu_changes u) in
    bindP (Ret (stackEndpointId lit stack)) (\<lambda>endpointId.
    let isGit = js_true (attr stack ''GitConfig'');
        flags = [(''env'', env_json merged), (''pullImage'', JBool (eu_pullImage u)), (''prune'', JBool (eu_prune u))];
        result = JObj [(''stackId'', JNum (eu_stackId u)), (''stackName'', JStr nm),
          (''source'', JStr (if isGit then ''git'' else ''compose'')),
          (''updatedVariables'', JArr (map (\<lambda>(n, v). JStr n) (eu_changes u))),
          (''removedVariables'', JArr (map JStr (eu_unsetNames u))),
          (''totalVariables'', JNum (NInt (int (length merged)))), (''redeployed'', JBool True)] in
    if isGit then
      bindP (requestJson parse PUT (stack_path (eu_stackId u) (''/git/redeploy?endpointId='' @ int_text endpointId)) (JObj flags)) (\<lambda>_.
      ret result)
    else
      bindP (requestJson parse GET (stack_path (eu_stackId u) ''/file'') JUndef) (\<lambda>file.
      bindP (Ret (get file ''StackFileContent'')) (\<lambda>v.
      let stackFileContent = str_or_empty v in
      guardP (stackFileContent \<noteq> []) (OpsError REMOTE_COMMAND_FAILED) (
      bindP (requestJson parse PUT (stack_path (eu_stackId u) (''?endpointId='' @ int_text endpointId))
        (JObj ((''stackFileContent'', JStr stackFileContent) # flags))) (\<lambda>_.
      ret result))))))"

definition redeployPortainerGitStack ::
    "parser \<Rightarrow> (string \<Rightarrow> jnum) \<Rightarrow> jnum \<Rightarrow> string \<Rightarrow> bool \<Rightarrow> bool \<Rightarrow> jval prog" where
  "redeployPortainerGitStack parse lit stackId confirmStackName pullImage prune =
    bindP (confirmed_stack parse stackId confirmStackName) (\<lambda>(stack, nm).
    guardP (js_true (attr stack ''GitConfig'')) (OpsError INVALID_ARGUMENT) (
    bindP (Ret (stackEndpointId lit stack)) (\<lambda>endpointId.
    bindP (requestJson parse PUT (stack_path stackId (''/git/redeploy?endpointId='' @ int_text endpointId))
      (JObj [(''env'', env_json (envArray (attr stack ''Env''))), (''pullImage'', JBool pullImage), (''prune'', JBool prune)])) (\<lambda>_.
    ret (JObj [(''stackId'', JNum stackId), (''stackName'', JStr nm), (''redeployed'', JBool True),
      (''pullImage'', JBool pullImage), (''prune'', JBool prune)])))))"

definition startPortainerStack :: "parser \<Rightarrow> (string \<Rightarrow> jnum) \<Rightarrow> jnum \<Rightarrow> string \<Rightarrow> jval prog" where
  "startPortainerStack parse lit stackId confirmStackName =
    bindP (confirmed_stack parse stackId confirmStackName) (\<lambda>(stack, nm).
    bindP (Ret (stackEndpointId lit stack)) (\<lambda>endpointId.
    bindP (requestJson parse POST (stack_path stackId (''/start?endpointId='' @ int_text endpointId)) JUndef) (\<lambda>started.
    bindP (Ret (safeStack started)) (\<lambda>safe.
    ret (JObj [(''stackId'', JNum stackId), (''stackName'', JStr nm), (''started'', JBool True), (''stack'', safe)])))))"

definition stopPortainerStack :: "parser \<Rightarrow> (string \<Rightarrow> jnum) \<Rightarrow> jnum \<Rightarrow> string \<Rightarrow> jval prog" where
  "stopPortainerStack parse lit stackId confirmStackName =
    bindP (confirmed_stack parse stackId confirmStackName) (\<lambda>(stack, nm).
    bindP (Ret (stackEndpointId lit stack)) (\<lambda>endpointId.
    bindP (requestJson parse POST (stack_path stackId (''/stop?endpointId='' @ int_text endpointId)) JUndef) (\<lambda>stopped.
    bindP (Ret (safeStack stopped)) (\<lambda>safe.
    ret (JObj [(''stackId'', JNum stackId), (''stackName'', JStr nm), (''stopped'', JBool True), (''stack'', safe)])))))"

definition deletePortainerStack :: "parser \<Rightarrow> (string \<Rightarrow> jnum) \<Rightarrow> jnum \<Rightarrow> string \<Rightarrow> bool \<Rightarrow> jval prog" where
  "deletePortainerStack parse lit stackId confirmStackName removeVolumes =
    bindP (confirmed_stack parse stackId confirmStackName) (\<lambda>(stack, nm).
    bindP (Ret (stackEndpointId lit stack)) (\<lambda>endpointId.
    bindP (requestJson parse DELETE (stack_path stackId (''?endpointId='' @ int_text endpointId @
      ''&removeVolumes='' @ (if removeVolumes then ''true'' else ''false''))) JUndef) (\<lambda>_.
    ret (JObj [(''stackId'', JNum stackId), (''stackName'', JStr nm), (''deleted'', JBool True),
      (''removeVolumes'', JBool removeVolumes)]))))"

record git_stack =
  gs_endpointId :: jnum
  gs_name :: string
  gs_repositoryUrl :: string
  gs_referenceName :: string
  gs_composeFile :: string
  gs_env :: "env_var list"

definition createPortainerGitStack :: "parser \<Rightarrow> git_stack \<Rightarrow> jval prog" where
  "createPortainerGitStack parse g =
    bindP (requestJson parse POST (''/stacks/create/standalone/repository?endpointId='' @ num_text (gs_endpointId g))
      (JObj [(''Name'', JStr (gs_name g)), (''RepositoryURL'', JStr (gs_repositoryUrl g)),
        (''RepositoryReferenceName'', JStr (gs_referenceName g)), (''ComposeFile'', JStr (gs_composeFile g)),
        (''RepositoryAuthentication'', JBool False), (''Env'', env_json (gs_env g))])) (\<lambda>created.
    Ret (safeStack created))"

section \<open>What the client guarantees\<close>

lemma fold_update_lookup:
  "map_of (fold (\<lambda>(n, v) m. AList.update n v m) cs m) k = (case map_of (rev cs) k of Some v \<Rightarrow> Some v | None \<Rightarrow> map_of m k)"
  by (induction cs arbitrary: m) (auto simp: map_add_def split: option.splits)

lemma fold_delete_lookup: "map_of (fold AList.delete ks m) k = (if k \<in> set ks then None else map_of m k)"
  by (induction ks arbitrary: m) auto

lemma merged_lookup:
  "map_of (merged_env current replaceAll unsetNames changes) k =
    (case map_of (rev changes) k of
       Some v \<Rightarrow> Some v
     | None \<Rightarrow> if replaceAll \<or> k \<in> set unsetNames then None else map_of (rev current) k)"
  by (auto simp: merged_env_def fold_update_lookup fold_delete_lookup split: option.splits)

lemma wf_fold_update: "wf_table m \<Longrightarrow> wf_table (fold (\<lambda>(n, v) m. AList.update n v m) cs m)"
  by (induction cs arbitrary: m) auto

lemma wf_fold_delete: "wf_table m \<Longrightarrow> wf_table (fold AList.delete ks m)"
  by (induction ks arbitrary: m) auto

text \<open>Updating the variables of a stack changes exactly what was asked: a changed name has its last new value, an
  unset one is gone, every other one keeps the value it had unless everything is replaced, and no name occurs
  twice.\<close>

lemma env_update_exact:
  "wf_table (merged_env current replaceAll unsetNames changes) \<and>
   map_of (merged_env current replaceAll unsetNames changes) k =
    (case map_of (rev changes) k of
       Some v \<Rightarrow> Some v
     | None \<Rightarrow> if replaceAll \<or> k \<in> set unsetNames then None else map_of (rev current) k)"
  by (simp add: merged_lookup) (simp add: merged_env_def Let_def wf_fold_update wf_fold_delete)

definition env_shape :: "env_var list \<Rightarrow> (string \<times> bool) list" where
  "env_shape es = map (\<lambda>(n, v). (n, v = [])) es"

lemma safe_env_shape: "env_shape es = env_shape es' \<Longrightarrow> safe_env es = safe_env es'"
proof (induction es arbitrary: es')
  case Nil
  then show ?case by (simp add: env_shape_def)
next
  case (Cons e es)
  then obtain e' es2 where e: "es' = e' # es2" "fst e = fst e'" "(snd e = []) = (snd e' = [])" "env_shape es = env_shape es2"
    by (cases es'; cases e) (auto simp: env_shape_def)
  with Cons.IH [OF e(4)] show ?case by (cases e; cases e') (simp add: safe_env_def)
qed

text \<open>No variable value and no Git credential of a stack leaves the client: two stacks with the same metadata
  whose variables have the same names and are empty in the same places give the same result.\<close>

lemma portainer_hides_env:
  assumes "\<forall>k \<in> set [''Id'', ''Name'', ''Type'', ''Status'', ''EndpointId'', ''EntryPoint'', ''CreatedBy'', ''UpdatedBy''].
      attr (JObj s) k = attr (JObj s') k"
    and "is_object (attr (JObj s) ''GitConfig'') = is_object (attr (JObj s') ''GitConfig'')"
    and "\<forall>k \<in> set [''URL'', ''ReferenceName'', ''ConfigFilePath'', ''ConfigHash''].
      attr (attr (JObj s) ''GitConfig'') k = attr (attr (JObj s') ''GitConfig'') k"
    and "env_shape (envArray (attr (JObj s) ''Env'')) = env_shape (envArray (attr (JObj s') ''Env''))"
  shows "safeStack (JObj s) = safeStack (JObj s')"
proof -
  have "safe_git (attr (JObj s) ''GitConfig'') = safe_git (attr (JObj s') ''GitConfig'')"
    using assms(2,3) by (simp add: safe_git_def)
  moreover have "get (JObj f) k = Inr (attr (JObj f) k)" for f k
    by (simp add: get_def nullish_def attr_def)
  ultimately show ?thesis using assms(1) safe_env_shape [OF assms(4)] by (simp add: safeStack_def)
qed

definition demo_stack :: "string \<Rightarrow> string \<Rightarrow> (string \<times> jval) list" where
  "demo_stack secret git_password =
    [(''Id'', JNum (NInt 4)), (''Name'', JStr ''web''), (''EndpointId'', JNum (NInt 2)),
     (''GitConfig'', JObj [(''URL'', JStr ''https://g/r''), (''Authentication'', JStr git_password)]),
     (''Env'', JArr [JObj [(''name'', JStr ''DB''), (''value'', JStr secret)], JNull])]"

lemma portainer_hides_env_witness:
  "safeStack (JObj (demo_stack ''hunter2'' ''p'')) = safeStack (JObj (demo_stack ''other'' ''q''))"
  by (rule portainer_hides_env)
    (simp_all add: demo_stack_def attr_def field_def is_object_def envArray_def env_shape_def str_or_empty_def or_default_def
      nullish_def)

definition confirms :: "parser \<Rightarrow> answer \<Rightarrow> string \<Rightarrow> bool" where
  "confirms parse a name = (case api_value parse a of Inl e \<Rightarrow> False | Inr stack \<Rightarrow> stackName stack = Inr name)"

lemma asked_confirmed:
  assumes "p = bindP (confirmed_stack parse i name) f"
  shows "\<exists>rest. asked p world w = Api GET (''/stacks/'' @ num_text i) JUndef # rest \<and>
    (rest \<noteq> [] \<longrightarrow> confirms parse (snd (world w (Api GET (''/stacks/'' @ num_text i) JUndef))) name)"
proof -
  let ?q = "Api GET (''/stacks/'' @ num_text i) JUndef"
  define k where "k a = bindP (bindP (Ret (api_value parse a)) (\<lambda>stack. bindP (Ret (stackName stack)) (\<lambda>nm.
      guardP (name = nm) (OpsError INVALID_ARGUMENT) (ret (stack, nm))))) f" for a
  have p: "p = Ask ?q k"
    by (simp add: assms confirmed_stack_def rawStack_def requestJson_def k_def fun_eq_iff)
  have "asked (k a) world w' = []" if "\<not> confirms parse a name" for a w'
    using that by (auto simp: k_def confirms_def guardP_def fail_def split: sum.splits)
  then show ?thesis unfolding p asked_Ask by blast
qed

text \<open>C38: A stack is changed only after its name was confirmed: every changing operation first reads the stack, and
  asks for anything else only if the answer is a stack whose name is the confirmed one.\<close>

theorem portainer_changes_confirmed:
  assumes "p \<in> {updatePortainerStackEnv parse lit u, redeployPortainerGitStack parse lit (eu_stackId u) (eu_confirmStackName u) pull prune,
      startPortainerStack parse lit (eu_stackId u) (eu_confirmStackName u),
      stopPortainerStack parse lit (eu_stackId u) (eu_confirmStackName u),
      deletePortainerStack parse lit (eu_stackId u) (eu_confirmStackName u) volumes}"
  shows "\<exists>rest. asked p world w = Api GET (''/stacks/'' @ num_text (eu_stackId u)) JUndef # rest \<and>
    (rest \<noteq> [] \<longrightarrow> confirms parse (snd (world w (Api GET (''/stacks/'' @ num_text (eu_stackId u)) JUndef))) (eu_confirmStackName u))"
proof -
  from assms obtain f where "p = bindP (confirmed_stack parse (eu_stackId u) (eu_confirmStackName u)) f"
    unfolding updatePortainerStackEnv_def redeployPortainerGitStack_def startPortainerStack_def stopPortainerStack_def
      deletePortainerStack_def by blast
  then show ?thesis by (rule asked_confirmed)
qed

text \<open>A server that answers every request with the same stack.\<close>

definition demo_api :: "unit \<Rightarrow> wire \<Rightarrow> unit \<times> answer" where
  "demo_api w q = (w, Response 200 ''stack'')"

definition demo_parse :: parser where
  "demo_parse s = Some (JObj (demo_stack ''a'' ''b''))"

theorem portainer_changes_confirmed_witness:
  "asked (deletePortainerStack demo_parse (\<lambda>s. NaN) (NInt 4) ''web'' False) demo_api () =
     [Api GET ''/stacks/4'' JUndef, Api DELETE ''/stacks/4?endpointId=2&removeVolumes=false'' JUndef] \<and>
   confirms demo_parse (Response 200 ''stack'') ''web''"
proof -
  let ?u = "\<lparr>eu_stackId = NInt 4, eu_confirmStackName = ''web'', eu_changes = [], eu_unsetNames = [], eu_replaceAll = False,
    eu_pullImage = False, eu_prune = False\<rparr>"
  let ?p = "deletePortainerStack demo_parse (\<lambda>s. NaN) (NInt 4) ''web'' False"
  have a: "asked ?p demo_api () =
     [Api GET ''/stacks/4'' JUndef, Api DELETE ''/stacks/4?endpointId=2&removeVolumes=false'' JUndef]" by code_simp
  have "?p \<in> {updatePortainerStackEnv demo_parse (\<lambda>s. NaN) ?u, redeployPortainerGitStack demo_parse (\<lambda>s. NaN) (eu_stackId ?u) (eu_confirmStackName ?u) True True,
      startPortainerStack demo_parse (\<lambda>s. NaN) (eu_stackId ?u) (eu_confirmStackName ?u),
      stopPortainerStack demo_parse (\<lambda>s. NaN) (eu_stackId ?u) (eu_confirmStackName ?u),
      deletePortainerStack demo_parse (\<lambda>s. NaN) (eu_stackId ?u) (eu_confirmStackName ?u) False}" by simp
  from portainer_changes_confirmed [OF this, of demo_api "()"] a
  have "confirms demo_parse (Response 200 ''stack'') ''web''" by (auto simp: demo_api_def)
  with a show ?thesis by blast
qed

end
