(* ===== verification/Schema.thy ===== *)
theory Schema
  imports Errors
begin

text \<open>
  The input schemas of the tools (\<^verbatim>\<open>src/tools/index.ts\<close>). A schema is the expression the code builds,
  with its checks on a text or a number as one predicate; \<open>parse_schema\<close> is what the schema accepts and what it
  makes of it: unknown keys are dropped from the arguments and refused in a strict object.
\<close>

datatype schema =
    Z_String "string \<Rightarrow> bool"
  | Z_Trimmed "string \<Rightarrow> bool"
  | Z_Int "int \<Rightarrow> bool"
  | Z_Coerce "int \<Rightarrow> bool"
  | Z_Bool
  | Z_Enum "string list"
  | Z_Array nat nat schema
  | Z_Optional schema
  | Z_Nullable schema
  | Z_Default jval schema
  | Z_Strict "(string \<times> schema) list" "(string \<times> jval) list \<Rightarrow> bool"
  | Z_Unknown

type_synonym shape = "(string \<times> schema) list"

text \<open>All of a list or nothing.\<close>

fun all_some :: "'a option list \<Rightarrow> 'a list option" where
  "all_some [] = Some []"
| "all_some (None # xs) = None"
| "all_some (Some x # xs) = map_option (Cons x) (all_some xs)"

definition defined_fields :: "(string \<times> jval) list \<Rightarrow> (string \<times> jval) list" where
  "defined_fields fs = filter (\<lambda>(k, v). v \<noteq> JUndef) fs"

fun parse_schema :: "(string \<Rightarrow> jnum) \<Rightarrow> schema \<Rightarrow> jval \<Rightarrow> jval option" where
  "parse_schema lit (Z_String P) v = (case v of JStr s \<Rightarrow> if P s then Some v else None | _ \<Rightarrow> None)"
| "parse_schema lit (Z_Trimmed P) v = (case v of JStr s \<Rightarrow> if P (trim s) then Some (JStr (trim s)) else None | _ \<Rightarrow> None)"
| "parse_schema lit (Z_Int P) v = (case v of JNum (NInt i) \<Rightarrow> if P i then Some v else None | _ \<Rightarrow> None)"
| "parse_schema lit (Z_Coerce P) v = (case num_of lit v of NInt i \<Rightarrow> if P i then Some (JNum (NInt i)) else None | _ \<Rightarrow> None)"
| "parse_schema lit Z_Bool v = (case v of JBool b \<Rightarrow> Some v | _ \<Rightarrow> None)"
| "parse_schema lit (Z_Enum xs) v = (case v of JStr s \<Rightarrow> if s \<in> set xs then Some v else None | _ \<Rightarrow> None)"
| "parse_schema lit (Z_Array lo hi z) v = (case v of
     JArr vs \<Rightarrow> if lo \<le> length vs \<and> length vs \<le> hi then map_option JArr (all_some (map (parse_schema lit z) vs)) else None
   | _ \<Rightarrow> None)"
| "parse_schema lit (Z_Optional z) v = (if v = JUndef then Some JUndef else parse_schema lit z v)"
| "parse_schema lit (Z_Nullable z) v = (if v = JNull then Some JNull else parse_schema lit z v)"
| "parse_schema lit (Z_Default d z) v = (if v = JUndef then Some d else parse_schema lit z v)"
| "parse_schema lit (Z_Strict sh refine) v = (case v of
     JObj fs \<Rightarrow>
       (if \<not> set (map fst fs) \<subseteq> set (map fst sh) then None
        else (case all_some (map (\<lambda>(k, z). map_option (Pair k) (parse_schema lit z (field fs k))) sh) of
            None \<Rightarrow> None
          | Some gs \<Rightarrow> if refine (defined_fields gs) then Some (JObj (defined_fields gs)) else None))
   | _ \<Rightarrow> None)"
| "parse_schema lit Z_Unknown v = Some v"

definition parse_args :: "(string \<Rightarrow> jnum) \<Rightarrow> shape \<Rightarrow> (string \<times> jval) list \<Rightarrow> (string \<times> jval) list option" where
  "parse_args lit sh fs =
    map_option defined_fields (all_some (map (\<lambda>(k, z). map_option (Pair k) (parse_schema lit z (field fs k))) sh))"

text \<open>The checks on texts and numbers.\<close>

definition len_between :: "nat \<Rightarrow> nat \<Rightarrow> string \<Rightarrow> bool" where
  "len_between lo hi s = (lo \<le> length s \<and> length s \<le> hi)"

definition int_between :: "int \<Rightarrow> int \<Rightarrow> int \<Rightarrow> bool" where
  "int_between lo hi i = (lo \<le> i \<and> i \<le> hi)"

text \<open>A text with a fixed beginning and a class: \<open>/^adm_[a-f0-9]{24}$/\<close>.\<close>

definition re_marked :: "string \<Rightarrow> (char \<Rightarrow> bool) \<Rightarrow> nat \<Rightarrow> nat \<Rightarrow> string \<Rightarrow> bool" where
  "re_marked mark P lo hi s = (starts_with s mark \<and> re_class P lo hi (drop (length mark) s))"

lemma all_some_iff: "all_some xs = Some ys \<longleftrightarrow> xs = map Some ys"
  by (induction xs arbitrary: ys rule: all_some.induct) (auto simp: Cons_eq_map_conv)

text \<open>The accepted arguments have the keys of the schema, each with a value its schema made.\<close>

lemma parse_args_field:
  assumes "parse_args lit sh fs = Some gs" "(k, v) \<in> set gs"
  shows "\<exists>z. (k, z) \<in> set sh \<and> parse_schema lit z (field fs k) = Some v"
proof -
  from assms(1) obtain hs where h: "all_some (map (\<lambda>(k, z). map_option (Pair k) (parse_schema lit z (field fs k))) sh) = Some hs"
    and g: "gs = defined_fields hs" by (auto simp: parse_args_def)
  from assms(2) g have "(k, v) \<in> set hs" by (auto simp: defined_fields_def)
  then have "Some (k, v) \<in> set (map Some hs)" by simp
  then have "Some (k, v) \<in> set (map (\<lambda>(k, z). map_option (Pair k) (parse_schema lit z (field fs k))) sh)"
    using h unfolding all_some_iff by simp
  then show ?thesis by (auto simp: eq_commute [of "Some (k, v)"])
qed

end
