(* ===== verification/Posix_Path.thy ===== *)
theory Posix_Path
  imports Paths
begin

text \<open>
  The functions of Node's \<^verbatim>\<open>path.posix\<close> that the exec broker uses, on absolute paths: \<open>normalize\<close>,
  \<open>dirname\<close>, \<open>relative\<close> and \<open>join\<close>.
\<close>

text \<open>Segments with empty ones and dots dropped and \<open>..\<close> resolved; the stack is kept in reverse.\<close>

fun resolve_segs :: "string list \<Rightarrow> string list \<Rightarrow> string list" where
  "resolve_segs acc [] = rev acc"
| "resolve_segs acc (s # ss) =
    (if s = [] \<or> s = ''.'' then resolve_segs acc ss
     else if s = ''..'' then resolve_segs (tl acc) ss
     else resolve_segs (s # acc) ss)"

definition path_segs :: "string \<Rightarrow> string list" where
  "path_segs p = resolve_segs [] (segs p)"

definition normalize_abs :: "string \<Rightarrow> string" where
  "normalize_abs p =
    (let ss = path_segs p in
     if ss = [] then ''/'' else normal_path ss @ (if ends_with p ''/'' then ''/'' else []))"

text \<open>\<open>dirname\<close> of an absolute path.\<close>

definition dirname_abs :: "string \<Rightarrow> string" where
  "dirname_abs p =
    (let q = strip_slashes p; d = rev (dropWhile (\<lambda>c. c \<noteq> slash) (rev q)) in
     if q = [] then ''/'' else if length d \<le> 1 then ''/'' else butlast d)"

fun common_prefix :: "string list \<Rightarrow> string list \<Rightarrow> nat" where
  "common_prefix (x # xs) (y # ys) = (if x = y then Suc (common_prefix xs ys) else 0)"
| "common_prefix _ _ = 0"

definition relative_abs :: "string \<Rightarrow> string \<Rightarrow> string" where
  "relative_abs a b =
    (let xs = path_segs a; ys = path_segs b; n = common_prefix xs ys
     in join ''/'' (replicate (length xs - n) ''..'' @ drop n ys))"

definition join_abs :: "string \<Rightarrow> string \<Rightarrow> string" where
  "join_abs a b = normalize_abs (if b = [] then a else a @ ''/'' @ b)"

section \<open>Facts\<close>

definition plain_seg :: "string \<Rightarrow> bool" where
  "plain_seg s = (s \<noteq> [] \<and> s \<noteq> ''.'' \<and> s \<noteq> ''..'' \<and> slash \<notin> set s)"

lemma resolve_append: "resolve_segs acc (xs @ ys) = resolve_segs (rev (resolve_segs acc xs)) ys"
  by (induction acc xs rule: resolve_segs.induct) auto

lemma resolve_plain: "list_all plain_seg ss \<Longrightarrow> resolve_segs acc ss = rev acc @ ss"
  by (induction ss arbitrary: acc) (auto simp: plain_seg_def)

lemma resolve_result: "list_all plain_seg acc \<Longrightarrow> \<forall>s \<in> set ss. slash \<notin> set s \<Longrightarrow> list_all plain_seg (resolve_segs acc ss)"
proof (induction acc ss rule: resolve_segs.induct)
  case (1 acc)
  then show ?case by (simp add: list_all_iff)
next
  case (2 acc s ss)
  have tl: "list_all plain_seg (tl acc)" using 2(4) by (cases acc) auto
  have rest: "\<forall>s \<in> set ss. slash \<notin> set s" using 2(5) by simp
  show ?case
  proof (cases "s = [] \<or> s = ''.''")
    case True
    with 2(1) [OF True 2(4) rest] show ?thesis by auto
  next
    case no: False
    show ?thesis
    proof (cases "s = ''..''")
      case True
      with 2(2) [OF no True tl rest] no show ?thesis by simp
    next
      case False
      have "plain_seg s" using 2(5) no False by (simp add: plain_seg_def)
      then have "list_all plain_seg (s # acc)" using 2(4) by simp
      with 2(3) [OF no False this rest] no False show ?thesis by simp
    qed
  qed
qed

lemma path_segs_plain: "list_all plain_seg (path_segs p)"
  unfolding path_segs_def segs_def by (rule resolve_result) (auto dest: split_on_parts)

lemma segs_join: "list_all plain_seg ss \<Longrightarrow> ss \<noteq> [] \<Longrightarrow> segs (join ''/'' ss) = ss"
  unfolding segs_def by (rule split_on_join) (auto simp: list_all_iff plain_seg_def)

lemma resolve_up: "n \<le> length xs \<Longrightarrow> resolve_segs (rev xs) (replicate n ''..'' @ ss) = resolve_segs (rev (take (length xs - n) xs)) ss"
proof (induction n arbitrary: xs)
  case (Suc n)
  then obtain ys y where xs: "xs = ys @ [y]" by (cases xs rule: rev_cases) auto
  with Suc show ?case by simp
qed simp

lemma common_prefix_take: "take (common_prefix xs ys) xs = take (common_prefix xs ys) ys"
  by (induction xs ys rule: common_prefix.induct) auto

lemma common_prefix_le: "common_prefix xs ys \<le> length xs" "common_prefix xs ys \<le> length ys"
  by (induction xs ys rule: common_prefix.induct) auto

text \<open>Joining a directory with the way from it to a path gives the path, dots resolved.\<close>

lemma path_segs_cat: "path_segs (a @ slash # b) = resolve_segs (rev (path_segs a)) (segs b)"
  by (simp add: path_segs_def segs_def split_on_append_general resolve_append)

lemma join_relative: "path_segs (if relative_abs a p = [] then a else a @ ''/'' @ relative_abs a p) = path_segs p"
proof -
  let ?xs = "path_segs a" and ?ys = "path_segs p"
  let ?n = "common_prefix ?xs ?ys"
  let ?rel = "replicate (length ?xs - ?n) ''..'' @ drop ?n ?ys"
  have parts: "\<forall>s \<in> set ?rel. slash \<notin> set s \<and> s \<noteq> []"
  proof
    fix s
    assume "s \<in> set ?rel"
    then consider "s = ''..''" | "s \<in> set ?ys" using set_drop_subset [of ?n ?ys] by (auto split: if_splits)
    then show "slash \<notin> set s \<and> s \<noteq> []"
      using path_segs_plain [of p] by cases (auto simp: list_all_iff plain_seg_def)
  qed
  show ?thesis
  proof (cases "?rel = []")
    case True
    then have "relative_abs a p = []" by (simp add: relative_abs_def Let_def)
    moreover have "length ?xs = ?n" "length ?ys = ?n" using True common_prefix_le [of ?xs ?ys] by auto
    then have "?xs = ?ys" using common_prefix_take [of ?xs ?ys] by simp
    ultimately show ?thesis by simp
  next
    case False
    then obtain s ss where rel: "?rel = s # ss" by (cases ?rel) auto
    have "join ''/'' ?rel \<noteq> []" using parts unfolding rel by (cases ss) auto
    moreover have "segs (join ''/'' ?rel) = ?rel"
      unfolding segs_def by (rule split_on_join) (use parts False in auto)
    moreover have "resolve_segs (rev ?xs) ?rel = ?ys"
    proof -
      have "resolve_segs (rev ?xs) ?rel = resolve_segs (rev (take ?n ?xs)) (drop ?n ?ys)"
        using resolve_up [of "length ?xs - ?n" ?xs] common_prefix_le [of ?xs ?ys] by simp
      also have "\<dots> = take ?n ?xs @ drop ?n ?ys"
        using resolve_plain [of "drop ?n ?ys"] path_segs_plain [of p] set_drop_subset [of ?n ?ys]
        by (simp add: list_all_iff subset_iff)
      also have "\<dots> = take ?n ?ys @ drop ?n ?ys" by (subst common_prefix_take) (rule refl)
      finally show ?thesis by simp
    qed
    ultimately show ?thesis by (simp add: relative_abs_def Let_def path_segs_cat)
  qed
qed

lemma path_segs_normal: "list_all plain_seg ss \<Longrightarrow> ss \<noteq> [] \<Longrightarrow> path_segs (normal_path ss) = ss"
  using segs_join [of ss] resolve_plain [of ss "[]"]
  by (simp add: path_segs_def segs_def normal_path_def)

lemma path_segs_root: "path_segs ''/'' = []"
  by (simp add: path_segs_def segs_def)

lemma path_segs_snoc_slash: "path_segs (p @ ''/'') = path_segs p"
proof -
  have "path_segs (p @ slash # []) = resolve_segs (rev (path_segs p)) (segs [])" by (rule path_segs_cat)
  then show ?thesis by (simp add: segs_def)
qed

lemma path_segs_normalize: "path_segs (normalize_abs p) = path_segs p"
  using path_segs_normal [OF path_segs_plain [of p]] path_segs_snoc_slash [of "normal_path (path_segs p)"]
  by (auto simp: normalize_abs_def Let_def path_segs_root)

end
