(* ===== verification/Exec_Broker.thy ===== *)
theory Exec_Broker
  imports Posix_Path Ticket
begin

text \<open>
  \<^verbatim>\<open>src/exec/broker.ts\<close>: the unprivileged broker that gives an agent a workspace and child
  processes. What it asks of the file system is a parameter (\<open>file_system\<close>), what it does to it an
  \<open>fs_effect\<close>; the table of sessions is state, driven by requests and by the events of the children.
  Bytes are characters; the decoder of UTF-8 bytes is a parameter.
\<close>

record exec_cfg =
  ex_roots :: "string list"
  ex_programs :: "string list"
  MAX_ACTIVE_SESSIONS :: nat

definition MAX_OUTPUT :: nat where "MAX_OUTPUT = 1024 * 1024"
definition MAX_WRITE :: nat where "MAX_WRITE = 512 * 1024"

text \<open>\<open>realpathSync\<close> and \<open>readFileSync\<close> throw on \<open>None\<close>; \<open>fs_lstat\<close> tells whether \<open>lstatSync\<close> succeeds;
  \<open>fs_text\<close> decodes the bytes of a buffer as UTF-8.\<close>

record file_system =
  fs_realpath :: "string \<Rightarrow> string option"
  fs_lstat :: "string \<Rightarrow> bool"
  fs_read :: "string \<Rightarrow> string option"
  fs_text :: "string \<Rightarrow> string"

datatype fs_effect = Make_Dir string | Write_File string string | Append_File string string | Rename_File string string

section \<open>Paths\<close>

definition broker_secret_dirs :: "string list" where
  "broker_secret_dirs = [''.ssh'', ''.aws'', ''.gnupg'', ''.kube'', ''.docker'']"

definition broker_secret_files :: "string list" where
  "broker_secret_files = [''.env'', ''authorized_keys'', ''known_hosts'', ''.netrc'', ''.git-credentials'', ''.npmrc'',
     ''.pypirc'', ''.htpasswd'', ''shadow'', ''gshadow'']"

definition isSecretPath :: "string \<Rightarrow> bool" where
  "isSecretPath p =
    (list_ex (\<lambda>s. s \<in> set (broker_secret_dirs @ broker_secret_files) \<or> starts_with s ''.env.'') (segs (lower p)) \<or>
     list_ex (\<lambda>e. ends_with (lower p) e) [''.pem'', ''.key'', ''.p12'', ''.pfx'', ''.jks'', ''.keystore'', ''.kdbx''])"

definition cleanAbs :: "jval \<Rightarrow> exn + string" where
  "cleanAbs input =
    (let s = str_or_empty input in
     if \<not> starts_with s ''/'' \<or> list_ex is_nul_cr_lf s \<or> ''..'' \<in> set (segs s) \<or> 2048 < length s
     then Inl (Error ''invalid_path'')
     else (let normalized = normalize_abs s in
       if isSecretPath normalized then Inl (Error ''secret_path_denied'') else Inr normalized))"

definition rootReal :: "file_system \<Rightarrow> string \<Rightarrow> exn + string" where
  "rootReal fs root = (case fs_realpath fs root of None \<Rightarrow> Inl (Error ''ENOENT'') | Some r \<Rightarrow> Inr (strip_slashes r))"

definition inside :: "string \<Rightarrow> string \<Rightarrow> bool" where
  "inside root p = (p = root \<or> starts_with p (root @ ''/''))"

lemma dirname_shorter: "dirname_abs p \<noteq> p \<Longrightarrow> starts_with p ''/'' \<Longrightarrow> length (dirname_abs p) < length p"
proof -
  assume p: "dirname_abs p \<noteq> p" "starts_with p ''/''"
  let ?q = "strip_slashes p"
  let ?d = "rev (dropWhile (\<lambda>c. c \<noteq> slash) (rev ?q))"
  have q: "length ?q \<le> length p"
    using length_dropWhile_le [of "\<lambda>c. c = slash" "rev p"] by (simp add: strip_slashes_def)
  have d: "length ?d \<le> length ?q" using length_dropWhile_le [of _ "rev ?q"] by simp
  have one: "length p = 1 \<Longrightarrow> dirname_abs p = ''/''"
    using q d by (auto simp: dirname_abs_def Let_def)
  show ?thesis
  proof (cases "?q = [] \<or> length ?d \<le> 1")
    case True
    then have "dirname_abs p = ''/''" by (auto simp: dirname_abs_def Let_def)
    moreover from p(2) have "1 \<le> length p" by (auto simp: starts_with_iff)
    moreover have "length p \<noteq> 1" using p calculation(1) by (auto simp: starts_with_iff)
    ultimately show ?thesis by simp
  next
    case False
    then have "dirname_abs p = butlast ?d" by (auto simp: dirname_abs_def Let_def)
    with False q d show ?thesis by (simp, linarith)
  qed
qed

text \<open>The loop up to the nearest existing ancestor; it stops at the root at the latest. The paths are absolute.\<close>

function nearestExisting :: "file_system \<Rightarrow> string \<Rightarrow> exn + string" where
  "nearestExisting fs cur =
    (if fs_lstat fs cur then Inr cur
     else (let parent = dirname_abs cur in
       if parent = cur \<or> \<not> starts_with cur ''/'' then Inl (Error ''path_parent_missing'') else nearestExisting fs parent))"
  by pat_completeness auto
termination by (relation "measure (\<lambda>(fs, cur). length cur)") (auto simp: dirname_shorter)

declare nearestExisting.simps [simp del]

definition checkedPath :: "exec_cfg \<Rightarrow> file_system \<Rightarrow> jval \<Rightarrow> bool \<Rightarrow> exn + string" where
  "checkedPath cfg fs input requireExisting =
    bindR (cleanAbs input) (\<lambda>normalized.
    bindR (mapR (rootReal fs) (ex_roots cfg)) (\<lambda>allowedRoots.
    if requireExisting then
      (case fs_realpath fs normalized of
         None \<Rightarrow> Inl (Error ''ENOENT'')
       | Some real \<Rightarrow>
           bindR (ensure (list_ex (\<lambda>r. inside r real) allowedRoots) (Error ''path_outside_workspace'')) (\<lambda>_.
           bindR (ensure (\<not> isSecretPath real) (Error ''secret_path_denied'')) (\<lambda>_.
           Inr real)))
    else
      bindR (nearestExisting fs normalized) (\<lambda>near.
      (case fs_realpath fs near of
         None \<Rightarrow> Inl (Error ''ENOENT'')
       | Some existing \<Rightarrow>
          (case List.find (\<lambda>r. inside r existing) allowedRoots of
             None \<Rightarrow> Inl (Error ''path_outside_workspace'')
           | Some root \<Rightarrow>
              (let rel = relative_abs existing normalized; candidate = join_abs existing rel in
               bindR (ensure (root \<noteq> []) (Error ''path_outside_workspace'')) (\<lambda>_.
               bindR (ensure (inside root candidate) (Error ''path_outside_workspace'')) (\<lambda>_.
               Inr candidate))))))))"

section \<open>Arguments\<close>

definition textArg :: "jval \<Rightarrow> nat \<Rightarrow> exn + string" where
  "textArg v mx = (let s = str_or_empty v in
     bindR (ensure (utf8_length s \<le> mx) (Error ''argument_too_large'')) (\<lambda>_. Inr s))"

definition b64_char :: "char \<Rightarrow> bool" where
  "b64_char c = (is_alnum c \<or> c = CHR ''+'' \<or> c = slash)"

definition b64_text :: "string \<Rightarrow> bool" where
  "b64_text s = (let pad = dropWhile b64_char s in length pad \<le> 2 \<and> list_all (\<lambda>c. c = CHR ''='') pad)"

definition b64_value :: "char \<Rightarrow> nat" where
  "b64_value c =
    (if is_upper c then code c - 65 else if is_lower c then code c - 71 else if is_digit c then code c + 4
     else if c = CHR ''+'' then 62 else 63)"

text \<open>\<open>Buffer.from(s, "base64")\<close> of the digits: four of them are three bytes, a rest of two or three is one or
  two bytes.\<close>

fun b64_bytes :: "nat list \<Rightarrow> string" where
  "b64_bytes (a # b # c # d # rest) =
     char_of (a * 4 + b div 16) # char_of (b mod 16 * 16 + c div 4) # char_of (c mod 4 * 64 + d) # b64_bytes rest"
| "b64_bytes [a, b, c] = [char_of (a * 4 + b div 16), char_of (b mod 16 * 16 + c div 4)]"
| "b64_bytes [a, b] = [char_of (a * 4 + b div 16)]"
| "b64_bytes _ = []"

definition decodeB64 :: "jval \<Rightarrow> nat \<Rightarrow> exn + string" where
  "decodeB64 v mx =
    (let s = str_or_empty v in
     bindR (ensure (b64_text s) (Error ''invalid_base64'')) (\<lambda>_.
     let b = b64_bytes (map b64_value (takeWhile b64_char s)) in
     bindR (ensure (length b \<le> mx) (Error ''payload_too_large'')) (\<lambda>_. Inr b)))"

definition exec_safeProgram :: "exec_cfg \<Rightarrow> jval \<Rightarrow> exn + string" where
  "exec_safeProgram cfg v = (let p = str_or_empty v in
     bindR (ensure (re_program p \<and> p \<in> set (ex_programs cfg)) (Error ''program_not_allowed'')) (\<lambda>_. Inr p))"

definition safeArgs :: "jval \<Rightarrow> exn + string list" where
  "safeArgs v = (case v of
     JArr vs \<Rightarrow> bindR (ensure (length vs \<le> 80) (Error ''invalid_args'')) (\<lambda>_. mapR (\<lambda>x. textArg x 16384) vs)
   | _ \<Rightarrow> Inl (Error ''invalid_args''))"

section \<open>Sessions\<close>

record exec_session =
  es_id :: string
  es_startedAt :: int
  es_cwd :: string
  es_program :: string
  es_output :: string
  es_exitCode :: "int option"
  es_closedAt :: "int option"

type_synonym exec_sessions = "(string, exec_session) table"

text \<open>\<open>append\<close>; the cap counts bytes, the cut characters.\<close>

definition append_output :: "string \<Rightarrow> string \<Rightarrow> string" where
  "append_output output add =
    (let out = output @ add in
     if MAX_OUTPUT < utf8_length out then drop (length out - MAX_OUTPUT) out else out)"

definition exec_active :: "exec_sessions \<Rightarrow> nat" where
  "exec_active ss = length (filter (\<lambda>s. es_closedAt s = None) (vals ss))"

definition reap :: "int \<Rightarrow> exec_sessions \<Rightarrow> exec_sessions" where
  "reap now ss = keep (\<lambda>i s. \<not> (truthy (es_closedAt s) \<and> 30 * 60000 < now - coalesce (es_closedAt s) 0)) ss"

text \<open>What the children do to their session: output on either stream, a start error, the close.\<close>

datatype child_event = Out string | Err string | Start_Error string | Closed "int option"

definition session_event :: "int \<Rightarrow> child_event \<Rightarrow> exec_session \<Rightarrow> exec_session" where
  "session_event now ev s = (case ev of
     Out t \<Rightarrow> s\<lparr>es_output := append_output (es_output s) t\<rparr>
   | Err t \<Rightarrow> s\<lparr>es_output := append_output (es_output s) (''[stderr] '' @ t)\<rparr>
   | Start_Error m \<Rightarrow> s\<lparr>es_output := append_output (es_output s) (''[error] '' @ m @ [newline])\<rparr>
   | Closed c \<Rightarrow> s\<lparr>es_exitCode := c, es_closedAt := Some now\<rparr>)"

section \<open>Requests\<close>

text \<open>\<open>String.split\<close> by a text: characters for the empty one.\<close>

function split_str :: "string \<Rightarrow> string \<Rightarrow> string \<Rightarrow> string list" where
  "split_str sep acc s =
    (if sep = [] then map (\<lambda>c. [c]) s
     else if s = [] then [rev acc]
     else if starts_with s sep then rev acc # split_str sep [] (drop (length sep) s)
     else split_str sep (hd s # acc) (tl s))"
  by pat_completeness auto
termination by (relation "measure (\<lambda>(sep, acc, s). length s)") auto

declare split_str.simps [simp del]

text \<open>A number of a request, 0 and \<open>NaN\<close> replaced by the default; the tools send integers.\<close>

definition num_or :: "(string \<Rightarrow> jnum) \<Rightarrow> jval \<Rightarrow> int \<Rightarrow> int" where
  "num_or lit v d = (case num_of lit (or_default v (JNum (NInt d))) of NInt i \<Rightarrow> if i = 0 then d else i | NOther s \<Rightarrow> d)"

record read_reply =
  rr_running :: bool
  rr_exit_code :: "int option"
  rr_output :: string
  rr_next_offset :: nat
  rr_truncated :: bool

datatype exec_reply =
    Dir_Made string
  | Written string nat bool
  | Edited string int
  | Moved string string
  | Started string string string "string list"
  | Output read_reply
  | Sent_Input string nat
  | Signalled string string
  | Listing nat nat "exec_session list"

definition processRead :: "(string \<Rightarrow> jnum) \<Rightarrow> jval \<Rightarrow> jval \<Rightarrow> exec_session \<Rightarrow> read_reply" where
  "processRead lit off mx s =
    (let offset = nat (max 0 (num_or lit off 0)); limit = nat (clamp 1 262144 (num_or lit mx 65536));
         out = take limit (drop offset (es_output s))
     in \<lparr>rr_running = (es_closedAt s = None), rr_exit_code = es_exitCode s, rr_output = out,
         rr_next_offset = offset + length out, rr_truncated = (offset + length out < length (es_output s))\<rparr>)"

definition workspaceEdit :: "exec_cfg \<Rightarrow> file_system \<Rightarrow> (string \<Rightarrow> jnum) \<Rightarrow> (string \<times> jval) list \<Rightarrow> exn + (fs_effect list \<times> exec_reply)" where
  "workspaceEdit cfg fs lit a =
    bindR (checkedPath cfg fs (field a ''path'') True) (\<lambda>target.
    bindR (decodeB64 (field a ''old_b64'') MAX_WRITE) (\<lambda>oldB.
    bindR (decodeB64 (field a ''new_b64'') MAX_WRITE) (\<lambda>newB.
    (let oldText = fs_text fs oldB; newText = fs_text fs newB in
    (case int_such (\<lambda>n. 1 \<le> n \<and> n \<le> 100) (num_of lit (or_default (field a ''expected_replacements'') (JNum (NInt 1)))) of
       None \<Rightarrow> Inl (Error ''invalid_expected_replacements'')
     | Some expected \<Rightarrow>
        (case fs_read fs target of
           None \<Rightarrow> Inl (Error ''ENOENT'')
         | Some current \<Rightarrow>
            (let parts = split_str oldText [] current; count = int (length parts) - 1 in
             bindR (ensure (count = expected) (Error ''replacement_count_mismatch'')) (\<lambda>_.
             Inr ([Write_File target (join newText parts)], Edited target count)))))))))"

text \<open>\<open>handle\<close>: the effects on the files, the sessions afterwards and the reply; \<open>newid\<close> is the random id.
  A failing request has no effect but the reaping.\<close>

definition exec_handle ::
    "exec_cfg \<Rightarrow> file_system \<Rightarrow> (string \<Rightarrow> jnum) \<Rightarrow> string \<Rightarrow> int \<Rightarrow> (string \<times> jval) list \<Rightarrow> exec_sessions \<Rightarrow>
     exec_sessions \<times> (exn + (fs_effect list \<times> exec_reply))" where
  "exec_handle cfg fs lit newid now req ss0 =
    (let ss = reap now ss0;
         op = str_or_empty (field req ''op'');
         a = (case field req ''args'' of JObj fs \<Rightarrow> fs | _ \<Rightarrow> []) in
     if op = ''workspace.mkdir'' then
       (ss, bindR (checkedPath cfg fs (field a ''path'') False) (\<lambda>target. Inr ([Make_Dir target], Dir_Made target)))
     else if op = ''workspace.write'' then
       (ss, bindR (checkedPath cfg fs (field a ''path'') False) (\<lambda>target.
            bindR (decodeB64 (field a ''content_b64'') MAX_WRITE) (\<lambda>data.
            let app = (field a ''mode'' = JStr ''append'') in
            Inr ([Make_Dir (dirname_abs target), if app then Append_File target data else Write_File target data],
                 Written target (length data) app))))
     else if op = ''workspace.edit'' then (ss, workspaceEdit cfg fs lit a)
     else if op = ''workspace.move'' then
       (ss, bindR (checkedPath cfg fs (field a ''source'') True) (\<lambda>source.
            bindR (checkedPath cfg fs (field a ''destination'') False) (\<lambda>destination.
            Inr ([Make_Dir (dirname_abs destination), Rename_File source destination], Moved source destination))))
     else if op = ''process.start'' then
       (if MAX_ACTIVE_SESSIONS cfg \<le> exec_active ss then (ss, Inl (Error ''session_capacity''))
        else (case
          bindR (checkedPath cfg fs (field a ''cwd'') True) (\<lambda>cwd.
          bindR (exec_safeProgram cfg (field a ''program'')) (\<lambda>program.
          bindR (safeArgs (field a ''argv'')) (\<lambda>args.
          Inr (cwd, program, args)))) of
          Inl e \<Rightarrow> (ss, Inl e)
        | Inr (cwd, program, args) \<Rightarrow>
            (let i = ''ps_'' @ newid in
             (AList.update i \<lparr>es_id = i, es_startedAt = now, es_cwd = cwd, es_program = program, es_output = [],
                es_exitCode = None, es_closedAt = None\<rparr> ss,
              Inr ([], Started i cwd program args)))))
     else if op = ''process.read'' then
       (ss, (case map_of ss (str_or_empty (field a ''session_id'')) of
          None \<Rightarrow> Inl (Error ''session_not_found'')
        | Some s \<Rightarrow> Inr ([], Output (processRead lit (field a ''offset'') (field a ''max_chars'') s))))
     else if op = ''process.input'' then
       (ss, (case map_of ss (str_or_empty (field a ''session_id'')) of
          None \<Rightarrow> Inl (Error ''session_not_running'')
        | Some s \<Rightarrow>
            if es_closedAt s \<noteq> None then Inl (Error ''session_not_running'')
            else bindR (decodeB64 (field a ''input_b64'') 65536) (\<lambda>data. Inr ([], Sent_Input (es_id s) (length data)))))
     else if op = ''process.kill'' then
       (ss, (case map_of ss (str_or_empty (field a ''session_id'')) of
          None \<Rightarrow> Inl (Error ''session_not_found'')
        | Some s \<Rightarrow>
            (let signal = str_of (or_default (field a ''signal'') (JStr ''SIGTERM'')) in
             bindR (ensure (signal \<in> {''SIGTERM'', ''SIGINT'', ''SIGKILL''}) (Error ''signal_not_allowed'')) (\<lambda>_.
             Inr ([], Signalled (es_id s) signal)))))
     else if op = ''process.list'' then
       (ss, Inr ([], Listing (MAX_ACTIVE_SESSIONS cfg) (exec_active ss) (vals ss)))
     else (ss, Inl (Error ''unsupported_operation'')))"

end
