(* ===== verification/Base64.thy ===== *)
theory Base64
  imports Exec_Broker
begin

text \<open>
  \<open>Buffer.toString("base64")\<close> as the tools use it to send texts to the execution broker
  (\<^verbatim>\<open>src/tools/index.ts\<close>), and that the broker's \<open>decodeB64\<close> undoes it.
\<close>

definition b64_digit :: "nat \<Rightarrow> char" where
  "b64_digit n = (if n < 26 then char_of (65 + n) else if n < 52 then char_of (71 + n) else if n < 62 then char_of (n - 4)
     else if n = 62 then CHR ''+'' else slash)"

fun b64_encode :: "string \<Rightarrow> string" where
  "b64_encode (a # b # c # rest) =
     b64_digit (code a div 4) # b64_digit (code a mod 4 * 16 + code b div 16) # b64_digit (code b mod 16 * 4 + code c div 64) #
     b64_digit (code c mod 64) # b64_encode rest"
| "b64_encode [a, b] = [b64_digit (code a div 4), b64_digit (code a mod 4 * 16 + code b div 16), b64_digit (code b mod 16 * 4), CHR ''='']"
| "b64_encode [a] = [b64_digit (code a div 4), b64_digit (code a mod 4 * 16), CHR ''='', CHR ''='']"
| "b64_encode [] = []"

lemma code_less: "code c < 256"
proof -
  have "code c = code c mod 256" by (metis char_of_char code_def of_char_of)
  then show ?thesis by simp
qed

lemma code_char_of: "n < 256 \<Longrightarrow> code (char_of n) = n"
  by (simp add: code_def)

lemma b64_digit_value:
  assumes "n < 64"
  shows "b64_char (b64_digit n) \<and> b64_value (b64_digit n) = n"
proof -
  consider "n < 26" | "26 \<le> n" "n < 52" | "52 \<le> n" "n < 62" | "n = 62" | "n = 63" using assms by linarith
  then show ?thesis
  proof cases
    case 1
    then have "code (b64_digit n) = 65 + n" by (simp add: b64_digit_def code_char_of)
    with 1 show ?thesis by (simp add: b64_char_def b64_value_def is_alnum_def is_upper_def is_lower_def is_digit_def between_def)
  next
    case 2
    then have "code (b64_digit n) = 71 + n" by (simp add: b64_digit_def code_char_of)
    with 2 show ?thesis by (simp add: b64_char_def b64_value_def is_alnum_def is_upper_def is_lower_def is_digit_def between_def)
  next
    case 3
    then have "code (b64_digit n) = n - 4" "48 \<le> n - 4" "n - 4 \<le> 57" "n - 4 + 4 = n"
      by (simp_all add: b64_digit_def code_char_of)
    with 3 show ?thesis by (simp add: b64_char_def b64_value_def is_alnum_def is_upper_def is_lower_def is_digit_def between_def)
  next
    case 4
    moreover have "b64_char CHR ''+'' \<and> b64_value CHR ''+'' = 62" by code_simp
    ultimately show ?thesis by (simp add: b64_digit_def)
  next
    case 5
    moreover have "b64_char slash \<and> b64_value slash = 63" by code_simp
    ultimately show ?thesis by (simp add: b64_digit_def)
  qed
qed

lemma pad_no_digit: "\<not> b64_char CHR ''=''"
  by code_simp

lemma char_of_code: "char_of (code c) = c"
  by (simp add: code_def)

lemma high_low: "y < k \<Longrightarrow> (x * k + y) div k = x \<and> (x * k + y) mod k = (y :: nat)"
  by simp

lemma code_parts: "code c div 4 < 64" "code c div 16 < 16" "code c div 64 < 4"
  using code_less [of c] by (simp_all add: less_mult_imp_div_less)

lemma digits_bounds:
  "code a div 4 < 64" "code a mod 4 * 16 + code b div 16 < 64" "code b mod 16 * 4 + code c div 64 < 64" "code c mod 64 < 64"
  "code a mod 4 * 16 < 64" "code b mod 16 * 4 < 64"
proof -
  have "code a mod 4 < 4" "code b mod 16 < 16" by simp_all
  then show "code a div 4 < 64" "code a mod 4 * 16 + code b div 16 < 64" "code b mod 16 * 4 + code c div 64 < 64"
    "code c mod 64 < 64" "code a mod 4 * 16 < 64" "code b mod 16 * 4 < 64"
    using code_parts [of a] code_parts [of b] code_parts [of c] by (simp, linarith, linarith, simp, linarith, linarith)
qed

lemma b64_group:
  "b64_bytes (code a div 4 # (code a mod 4 * 16 + code b div 16) # (code b mod 16 * 4 + code c div 64) # code c mod 64 # rest) =
     a # b # c # b64_bytes rest"
  "b64_bytes [code a div 4, code a mod 4 * 16 + code b div 16, code b mod 16 * 4] = [a, b]"
  "b64_bytes [code a div 4, code a mod 4 * 16] = [a]"
proof -
  note parts = high_low [OF code_parts(2) [of b], of "code a mod 4"] high_low [OF code_parts(3) [of c], of "code b mod 16"]
  have "code a div 4 * 4 + code a mod 4 = code a" "code b div 16 * 16 + code b mod 16 = code b"
    "code c div 64 * 64 + code c mod 64 = code c" by simp_all
  then show
    "b64_bytes (code a div 4 # (code a mod 4 * 16 + code b div 16) # (code b mod 16 * 4 + code c div 64) # code c mod 64 # rest) =
       a # b # c # b64_bytes rest"
    "b64_bytes [code a div 4, code a mod 4 * 16 + code b div 16, code b mod 16 * 4] = [a, b]"
    "b64_bytes [code a div 4, code a mod 4 * 16] = [a]"
    using parts by (simp_all only: b64_bytes.simps char_of_code nonzero_mult_div_cancel_right)
qed

lemma b64_decode_encode:
  "b64_text (b64_encode s) \<and> b64_bytes (map b64_value (takeWhile b64_char (b64_encode s))) = s"
proof (induction s rule: b64_encode.induct)
  case (1 a b c rest)
  then show ?case by (simp only: b64_encode.simps b64_text_def Let_def dropWhile.simps takeWhile.simps list.map b64_digit_value digits_bounds b64_group if_True simp_thms)
next
  case (2 a b)
  then show ?case by (simp only: b64_encode.simps b64_text_def Let_def dropWhile.simps takeWhile.simps list.map b64_digit_value digits_bounds b64_group pad_no_digit if_True if_False simp_thms) simp
next
  case (3 a)
  then show ?case by (simp only: b64_encode.simps b64_text_def Let_def dropWhile.simps takeWhile.simps list.map b64_digit_value digits_bounds b64_group pad_no_digit if_True if_False simp_thms) simp
next
  case 4
  then show ?case by (simp add: b64_text_def)
qed

lemma decode_encode: "length s \<le> mx \<Longrightarrow> decodeB64 (JStr (b64_encode s)) mx = Inr s"
  using b64_decode_encode [of s] by (simp add: decodeB64_def Let_def)

end
