(* ===== verification/Quote.thy ===== *)
theory Quote
  imports Errors
begin

text \<open>
  \<^verbatim>\<open>src/lib/quote.ts\<close>: quoting of remote commands and validation of identifiers. The reader of the
  command, a POSIX shell, is specified by a word lexer; quoting is correct when the lexer gives
  back the argument list.
\<close>

abbreviation quote_char :: char where "quote_char \<equiv> char_of (39::nat)"
abbreviation backslash :: char where "backslash \<equiv> char_of (92::nat)"
abbreviation space :: char where "space \<equiv> char_of (32::nat)"

section \<open>The code\<close>

definition shq_char :: "char \<Rightarrow> string" where
  "shq_char c = (if c = quote_char then [quote_char, backslash, quote_char, quote_char] else [c])"

definition shq :: "string \<Rightarrow> string" where
  "shq s = quote_char # concat (map shq_char s) @ [quote_char]"

definition buildRemoteCommand :: "string list \<Rightarrow> string" where
  "buildRemoteCommand argv = join [space] (map shq argv)"

definition ident_char :: "char \<Rightarrow> bool" where
  "ident_char c = (is_alnum c \<or> c \<in> set ''_.@+-'')"

definition is_identifier :: "string \<Rightarrow> bool" where
  "is_identifier s = re_head_class is_alnum ident_char 0 99 s"

definition assertIdentifier :: "string \<Rightarrow> exn + string" where
  "assertIdentifier value = (if is_identifier value then Inr value else Inl (OpsError INVALID_ARGUMENT))"

section \<open>The shell's side\<close>

text \<open>
  The word lexer of the POSIX shell, for commands made of words, blanks, single quotes and
  backslashes; any unquoted character with another meaning to the shell gives \<open>None\<close>.
\<close>

datatype sh_mode = Blank | Word | Quoted | Escaped

definition sh_plain :: "char \<Rightarrow> bool" where
  "sh_plain c = (is_alnum c \<or> c \<in> set ''_-./:=@%+,'')"

fun sh_lex :: "sh_mode \<Rightarrow> string \<Rightarrow> string \<Rightarrow> string list option" where
  "sh_lex Blank w [] = Some []"
| "sh_lex Word w [] = Some [w]"
| "sh_lex Quoted w [] = None"
| "sh_lex Escaped w [] = None"
| "sh_lex Blank w (c # cs) =
    (if c = space then sh_lex Blank [] cs
     else if c = quote_char then sh_lex Quoted [] cs
     else if c = backslash then sh_lex Escaped [] cs
     else if sh_plain c then sh_lex Word [c] cs
     else None)"
| "sh_lex Word w (c # cs) =
    (if c = space then map_option (Cons w) (sh_lex Blank [] cs)
     else if c = quote_char then sh_lex Quoted w cs
     else if c = backslash then sh_lex Escaped w cs
     else if sh_plain c then sh_lex Word (w @ [c]) cs
     else None)"
| "sh_lex Quoted w (c # cs) =
    (if c = quote_char then sh_lex Word w cs else sh_lex Quoted (w @ [c]) cs)"
| "sh_lex Escaped w (c # cs) = (if code c = 10 then None else sh_lex Word (w @ [c]) cs)"

definition sh_words :: "string \<Rightarrow> string list option" where
  "sh_words s = sh_lex Blank [] s"

lemma distinct_marks [simp]:
  "quote_char \<noteq> backslash" "backslash \<noteq> quote_char" "quote_char \<noteq> space" "space \<noteq> quote_char"
  "backslash \<noteq> space" "space \<noteq> backslash" "code quote_char = 39"
  by (simp_all add: code_def)

lemma sh_lex_quoted_body:
  "sh_lex Quoted w (concat (map shq_char s) @ rest) = sh_lex Quoted (w @ s) rest"
  by (induction s arbitrary: w) (auto simp: shq_char_def)

lemma sh_lex_shq: "sh_lex Blank [] (shq s @ rest) = sh_lex Word s rest"
  by (simp add: shq_def sh_lex_quoted_body)

lemma sh_lex_join: "sh_lex Blank [] (join [space] (map shq argv)) = Some argv"
proof (induction argv)
  case Nil
  then show ?case by simp
next
  case (Cons a argv)
  show ?case
  proof (cases argv)
    case Nil
    then show ?thesis using sh_lex_shq [of a "[]"] by simp
  next
    case (Cons b bs)
    with Cons.IH show ?thesis by (simp add: sh_lex_shq)
  qed
qed

text \<open>C34: Quoting loses nothing and adds nothing: a POSIX shell that splits the built command line gets back exactly
  the arguments, whatever characters they hold.\<close>

theorem remote_command_round_trip: "sh_words (buildRemoteCommand argv) = Some argv"
  by (simp add: sh_words_def buildRemoteCommand_def sh_lex_join)

section \<open>Identifiers\<close>

lemma assertIdentifier_Inr [guard_simps]:
  "assertIdentifier s = Inr r \<longleftrightarrow> r = s \<and> is_identifier s"
  by (auto simp: assertIdentifier_def)

lemma is_identifier_chars: "is_identifier s \<Longrightarrow> c \<in> set s \<Longrightarrow> ident_char c"
  by (auto simp: is_identifier_def re_head_class_def ident_char_def re_class_def list_all_iff
      split: list.splits)

lemma is_identifier_head: "is_identifier s \<Longrightarrow> s \<noteq> [] \<and> is_alnum (hd s)"
  by (auto simp: is_identifier_def re_head_class_def split: list.splits)

lemma is_identifier_length: "is_identifier s \<Longrightarrow> length s \<le> 100"
  by (auto simp: is_identifier_def re_head_class_def re_class_def split: list.splits)

end
