(* ===== verification/Approvals.thy ===== *)
theory Approvals
  imports Baseline Store_Run
begin

text \<open>
  The two-step approvals of the control plane: \<^verbatim>\<open>src/config/approval-utils.ts\<close>,
  \<^verbatim>\<open>src/config/target-approvals.ts\<close> and \<^verbatim>\<open>src/config/deepharness-read-approval.ts\<close>. A
  \<open>control\<close> is what they read of the rest of the process. Approval ids are random and arguments; the
  prose summaries are left out; one clock reading serves a whole call.
\<close>

record control =
  ct_store :: store
  ct_oauth :: bool
  ct_secret :: "string option"
  ct_stale_seconds :: int

section \<open>Shared checks\<close>

definition APPROVAL_TTL_MS :: int where "APPROVAL_TTL_MS = 10 * 60000"

definition newApprovalId :: "string \<Rightarrow> string" where
  "newApprovalId hex24 = ''adm_'' @ hex24"

definition requireLiveDevice :: "control \<Rightarrow> string \<Rightarrow> int \<Rightarrow> exn + stored_device" where
  "requireLiveDevice ct devId now =
    (case List.find (\<lambda>d. dv_id d = devId) (listDevices (ct_store ct)) of
       None \<Rightarrow> Inl (OpsError INVALID_ARGUMENT)
     | Some d \<Rightarrow>
         if truthy (dv_revoked_at d) then Inl (OpsError INVALID_ARGUMENT)
         else if \<not> truthy (dv_last_seen_at d) \<or> ct_stale_seconds ct * 2 * 1000 < now - coalesce (dv_last_seen_at d) 0
         then Inl (OpsError REMOTE_COMMAND_FAILED)
         else Inr d)"

definition requireApprovalConfirmation :: "string \<Rightarrow> string \<Rightarrow> exn + unit" where
  "requireApprovalConfirmation i confirmation =
    ensure (trim confirmation = ''APPROVE '' @ i) (OpsError CAPABILITY_DENIED)"

definition has_capability :: "string \<Rightarrow> stored_device \<Rightarrow> bool" where
  "has_capability c d = (c \<in> set (coalesce (dv_capabilities d) []))"

text \<open>\<open>!env.AUTH_SECRET || env.AUTH_SECRET.length < 32\<close> negated\<close>

definition strong_auth :: "control \<Rightarrow> bool" where
  "strong_auth ct = (ct_oauth ct \<and> 32 \<le> length (coalesce (ct_secret ct) []))"

lemma requireLiveDevice_Inr:
  "requireLiveDevice ct devId now = Inr d \<Longrightarrow>
     d \<in> set (vals (devices (mem (ct_store ct)))) \<and> dv_id d = devId \<and> \<not> truthy (dv_revoked_at d) \<and>
     (\<exists>seen. dv_last_seen_at d = Some seen \<and> seen \<noteq> 0 \<and> now - seen \<le> ct_stale_seconds ct * 2000)"
  by (cases "dv_last_seen_at d")
    (auto simp: requireLiveDevice_def listDevices_def dest!: find_SomeD split: option.splits if_splits)

section \<open>One approval, one effect\<close>

text \<open>
  The contract of an approval queue: an operation succeeds only for a pending approval and takes it
  away, and no operation of this kind adds one. \<open>pending s i\<close> tells whether approval \<open>i\<close> is there, \<open>inv\<close>
  whether the queue files its entries under their ids.
\<close>

locale one_shot =
  fixes act :: "'a \<Rightarrow> 's \<Rightarrow> 's \<times> (exn + 'r)"
    and ident :: "'a \<Rightarrow> string"
    and pending :: "'s \<Rightarrow> string \<Rightarrow> bool"
    and inv :: "'s \<Rightarrow> bool"
  assumes keeps: "inv s \<Longrightarrow> inv (fst (act a s))"
    and needs: "inv s \<Longrightarrow> act a s = (s', Inr r) \<Longrightarrow> pending s (ident a)"
    and takes: "inv s \<Longrightarrow> act a s = (s', Inr r) \<Longrightarrow> \<not> pending s' (ident a)"
    and adds_none: "inv s \<Longrightarrow> pending (fst (act a s)) i \<Longrightarrow> pending s i"
begin

text \<open>The ids of the calls that succeed, in order; other code may change the state in between, but only
  this code's preparation adds approvals.\<close>

definition shrinks :: "('s \<Rightarrow> 's) \<Rightarrow> bool" where
  "shrinks change = (\<forall>s. inv s \<longrightarrow> inv (change s) \<and> (\<forall>i. pending (change s) i \<longrightarrow> pending s i))"

fun successes :: "('a \<times> ('s \<Rightarrow> 's)) list \<Rightarrow> 's \<Rightarrow> string list" where
  "successes [] s = []"
| "successes ((a, change) # as) s =
    (case act a s of (s', r) \<Rightarrow> (if is_ok r then [ident a] else []) @ successes as (change s'))"

lemma no_success:
  "inv s \<Longrightarrow> \<not> pending s i \<Longrightarrow> list_all (\<lambda>(a, change). shrinks change) as \<Longrightarrow> i \<notin> set (successes as s)"
proof (induction as arbitrary: s)
  case (Cons x as)
  obtain a change where x: "x = (a, change)" by force
  obtain s' r where act: "act a s = (s', r)" by force
  have sh: "shrinks change" and rest: "list_all (\<lambda>(a, change). shrinks change) as"
    using Cons.prems(3) by (simp_all add: x)
  have s': "inv s'" using keeps [OF Cons.prems(1), of a] act by simp
  have "\<not> pending s' i" using Cons.prems(2) adds_none [OF Cons.prems(1), of a i] act by auto
  then have "inv (change s')" "\<not> pending (change s') i" using sh s' by (auto simp: shrinks_def)
  then have "i \<notin> set (successes as (change s'))" using rest by (rule Cons.IH)
  moreover have "ident a \<noteq> i" if "is_ok r"
    using that needs [OF Cons.prems(1), of a s'] Cons.prems(2) act by (auto simp: is_ok_iff)
  ultimately show ?case by (auto simp: x act)
qed simp

lemma at_most_once:
  "inv s \<Longrightarrow> list_all (\<lambda>(a, change). shrinks change) as \<Longrightarrow> distinct (successes as s)"
proof (induction as arbitrary: s)
  case (Cons x as)
  obtain a change where x: "x = (a, change)" by force
  obtain s' r where act: "act a s = (s', r)" by force
  have sh: "shrinks change" and rest: "list_all (\<lambda>(a, change). shrinks change) as"
    using Cons.prems(2) by (simp_all add: x)
  have s': "inv s'" using keeps [OF Cons.prems(1), of a] act by simp
  then have c: "inv (change s')" using sh by (simp add: shrinks_def)
  have "ident a \<notin> set (successes as (change s'))" if ok: "is_ok r"
  proof -
    from ok obtain y where "r = Inr y" by (auto simp: is_ok_iff)
    with act have "\<not> pending s' (ident a)" using takes [OF Cons.prems(1), of a s' y] by simp
    then have "\<not> pending (change s') (ident a)" using sh s' by (auto simp: shrinks_def)
    with c show ?thesis using rest by (rule no_success)
  qed
  with Cons.IH [OF c rest] show ?case by (simp add: x act)
qed simp

end

text \<open>A queue whose entries are filed under their own ids.\<close>

definition queue_ok :: "('a \<Rightarrow> string) \<Rightarrow> (string, 'a) table \<Rightarrow> bool" where
  "queue_ok idf q = (wf_table q \<and> list_all (\<lambda>(k, a). idf a = k) q)"

lemma queue_ok_lookup: "queue_ok idf q \<Longrightarrow> map_of q k = Some a \<Longrightarrow> idf a = k"
  by (auto simp: queue_ok_def list_all_iff dest: map_of_SomeD)

lemma queue_ok_keep: "queue_ok idf q \<Longrightarrow> queue_ok idf (keep P q)"
  by (auto simp: queue_ok_def list_all_iff keep_def wf_table_keep [unfolded keep_def])

lemma queue_ok_delete: "queue_ok idf q \<Longrightarrow> queue_ok idf (AList.delete k q)"
  by (auto simp: queue_ok_def list_all_iff AList.delete_eq wf_table_delete [unfolded AList.delete_eq])

lemma queue_ok_iff: "queue_ok idf q \<longleftrightarrow> wf_table q \<and> (\<forall>k a. map_of q k = Some a \<longrightarrow> idf a = k)"
  by (auto simp: queue_ok_def list_all_iff wf_table_def keys_def dest: map_of_SomeD)

lemma queue_ok_update: "queue_ok idf q \<Longrightarrow> idf a = k \<Longrightarrow> queue_ok idf (AList.update k a q)"
  by (auto simp: queue_ok_iff)

lemma queue_ok_Nil [simp]: "queue_ok idf []"
  by (simp add: queue_ok_def)

section \<open>Target approvals\<close>

record agent_approval =
  ap_id :: string
  ap_actor :: string
  ap_createdAt :: int
  ap_expiresAt :: int
  ap_target :: target_config

type_synonym agent_approvals = "(string, agent_approval) table"

definition purge_agent :: "int \<Rightarrow> agent_approvals \<Rightarrow> agent_approvals" where
  "purge_agent now q = keep (\<lambda>i a. \<not> ap_expiresAt a < now) q"

record agent_request =
  ar_actor :: string
  ar_targetId :: string
  ar_deviceId :: string
  ar_environment :: environment
  ar_preset :: preset

record agent_prepared =
  ag_approval_id :: string
  ag_expires_at :: int
  ag_target_id :: string
  ag_device_id :: string
  ag_device_name :: string
  ag_preset :: preset
  ag_baseline :: capability_baseline
  ag_required_confirmation :: string

definition prepareAgentTarget ::
    "control \<Rightarrow> string \<Rightarrow> agent_request \<Rightarrow> int \<Rightarrow> agent_approvals \<Rightarrow> agent_approvals \<times> (exn + agent_prepared)" where
  "prepareAgentTarget ct hex24 req now q0 =
    (let q = purge_agent now q0;
         res = bindR (ensure (\<not> (ar_preset req \<in> {Managed_Admin, Openhands_Execute, Deepharness_Semantic_Lab} \<and> \<not> strong_auth ct))
                 (OpsError CAPABILITY_DENIED)) (\<lambda>_.
           bindR (ensure (\<not> (ar_preset req = Deepharness_Semantic_Lab \<and>
                    (ar_targetId req \<noteq> ''deepharness-semantic-lab'' \<or> ar_environment req \<noteq> Development)))
                 (OpsError CAPABILITY_DENIED)) (\<lambda>_.
           bindR (requireLiveDevice ct (ar_deviceId req) now) (\<lambda>device.
           bindR (ensure (\<not> (ar_preset req = Deepharness_Semantic_Lab \<and> \<not> has_capability ''deepharness.semantic'' device))
                 (OpsError CAPABILITY_DENIED)) (\<lambda>_.
           bindR (buildAgentTargetFromPreset (ar_targetId req) (ar_deviceId req) (ar_environment req) (ar_preset req)) (\<lambda>target.
           bindR (ensure (\<not> (ar_preset req = Managed_Admin \<and> \<not> has_capability MANAGED_ADMIN_CAPABILITY device))
                 (OpsError CAPABILITY_DENIED)) (\<lambda>_.
           Inr (device, target)))))))
     in (case res of
           Inl e \<Rightarrow> (q, Inl e)
         | Inr (device, target) \<Rightarrow>
             (let i = newApprovalId hex24 in
              (AList.update i \<lparr>ap_id = i, ap_actor = ar_actor req, ap_createdAt = now,
                 ap_expiresAt = now + APPROVAL_TTL_MS, ap_target = target\<rparr> q,
               Inr \<lparr>ag_approval_id = i, ag_expires_at = now + APPROVAL_TTL_MS, ag_target_id = tid target,
                 ag_device_id = ar_deviceId req, ag_device_name = dv_display_name device,
                 ag_preset = ar_preset req, ag_baseline = describeTargetCapabilityBaseline target,
                 ag_required_confirmation = ''APPROVE '' @ i\<rparr>))))"

record apply_request =
  aq_actor :: string
  aq_approvalId :: string
  aq_confirmation :: string

record agent_applied =
  aa_approval_id :: string
  aa_target :: jval
  aa_baseline :: capability_baseline

definition applyAgentTargetApproval ::
    "control \<Rightarrow> (string \<Rightarrow> string \<Rightarrow> bool) \<Rightarrow> int \<Rightarrow> apply_request \<Rightarrow> agent_approvals \<times> registry_state \<Rightarrow>
     (agent_approvals \<times> registry_state) \<times> (exn + agent_applied)" where
  "applyAgentTargetApproval ct le now req st =
    (let q = purge_agent now (fst st); rs = snd st;
         res = (case map_of q (aq_approvalId req) of
             None \<Rightarrow> Inl (OpsError INVALID_ARGUMENT)
           | Some a \<Rightarrow>
             bindR (ensure (ap_actor a = aq_actor req) (OpsError CAPABILITY_DENIED)) (\<lambda>_.
             bindR (requireApprovalConfirmation (ap_id a) (aq_confirmation req)) (\<lambda>_.
             bindR (requireLiveDevice ct (coalesce (deviceId (ap_target a)) []) now) (\<lambda>liveDevice.
             bindR (ensure (\<not> (tid (ap_target a) = ''deepharness-semantic-lab'' \<and>
                      allowedSemanticCapabilities (ap_target a) = [''deepharness.semantic''] \<and>
                      \<not> has_capability ''deepharness.semantic'' liveDevice)) (OpsError CAPABILITY_DENIED)) (\<lambda>_.
             bindR (ensure (\<not> (MANAGED_ADMIN_CAPABILITY \<in> set (allowedSemanticCapabilities (ap_target a)) \<and>
                      \<not> has_capability MANAGED_ADMIN_CAPABILITY liveDevice)) (OpsError CAPABILITY_DENIED)) (\<lambda>_.
             Inr a))))))
     in (case res of
           Inl e \<Rightarrow> ((q, rs), Inl e)
         | Inr a \<Rightarrow> (case upsertDynamicAgentTarget le (ap_target a) rs of
               (rs', Inl e) \<Rightarrow> ((q, rs'), Inl e)
             | (rs', Inr t) \<Rightarrow> ((AList.delete (ap_id a) q, rs'),
                 Inr \<lparr>aa_approval_id = ap_id a, aa_target = publicTarget t,
                   aa_baseline = describeTargetCapabilityBaseline t\<rparr>))))"

section \<open>Read access to the DeepHarness containers\<close>

definition DH_TARGET :: string where "DH_TARGET = ''deepharness-read''"

definition DH_CONTAINERS :: "string list" where
  "DH_CONTAINERS = [''deepharness-web-1'', ''deepharness-mcp-grants-db-1'']"

record dh_pending =
  dp_actor :: string
  dp_expires :: int
  dp_deviceId :: string

type_synonym dh_queue = "(string, dh_pending) table"

definition dh_baseline :: "control \<Rightarrow> int \<Rightarrow> registry_state \<Rightarrow> exn + target_config" where
  "dh_baseline ct now rs =
    bindR (getTarget DH_TARGET rs) (\<lambda>found. (case found of
      None \<Rightarrow> Inl (OpsError CAPABILITY_DENIED)
    | Some t \<Rightarrow>
        bindR (ensure (transport t = Agent \<and> capabilityProfile t = Read_Only \<and> enabled t \<and>
                 coalesce (deviceId t) [] \<noteq> [] \<and> environment t = Production) (OpsError CAPABILITY_DENIED)) (\<lambda>_.
        bindR (ensure (allowedDockerExecContainers t = [] \<and> allowedDockerExecPrograms t = [] \<and>
                 allowedDockerActions t = [] \<and> allowedWritePaths t = [] \<and> allowedProcessPrograms t = [] \<and>
                 allowedAdminPrograms t = [] \<and> allowedSemanticCapabilities t = []) (OpsError CAPABILITY_DENIED)) (\<lambda>_.
        bindR (ensure (\<not> list_ex (\<lambda>c. c \<notin> set DH_CONTAINERS) (allowedDockerContainers t)) (OpsError CAPABILITY_DENIED)) (\<lambda>_.
        bindR (requireLiveDevice ct (coalesce (deviceId t) []) now) (\<lambda>_.
        Inr t))))))"

definition prepareDeepharnessDockerRead ::
    "control \<Rightarrow> string \<Rightarrow> string \<Rightarrow> int \<Rightarrow> registry_state \<Rightarrow> dh_queue \<Rightarrow> dh_queue \<times> (exn + string \<times> int)" where
  "prepareDeepharnessDockerRead ct hex24 actor now rs q =
    (case dh_baseline ct now rs of
       Inl e \<Rightarrow> (q, Inl e)
     | Inr t \<Rightarrow>
         (let q' = keep (\<lambda>i p. \<not> dp_expires p < now) q; i = newApprovalId hex24; expires = now + APPROVAL_TTL_MS in
          (AList.update i \<lparr>dp_actor = actor, dp_expires = expires, dp_deviceId = coalesce (deviceId t) []\<rparr> q',
           Inr (i, expires))))"

definition applyDeepharnessDockerRead ::
    "control \<Rightarrow> (string \<Rightarrow> string \<Rightarrow> bool) \<Rightarrow> int \<Rightarrow> apply_request \<Rightarrow> dh_queue \<times> registry_state \<Rightarrow>
     (dh_queue \<times> registry_state) \<times> (exn + string list)" where
  "applyDeepharnessDockerRead ct le now req st =
    (let q = fst st; rs = snd st; i = aq_approvalId req in
     (case map_of q i of
        None \<Rightarrow> ((AList.delete i q, rs), Inl (OpsError INVALID_ARGUMENT))
      | Some p \<Rightarrow>
          if dp_expires p < now then ((AList.delete i q, rs), Inl (OpsError INVALID_ARGUMENT))
          else (case
              bindR (ensure (aq_actor req = dp_actor p) (OpsError CAPABILITY_DENIED)) (\<lambda>_.
              bindR (requireApprovalConfirmation i (aq_confirmation req)) (\<lambda>_.
              bindR (dh_baseline ct now rs) (\<lambda>t.
              bindR (ensure (coalesce (deviceId t) [] = dp_deviceId p) (OpsError CAPABILITY_DENIED)) (\<lambda>_.
              Inr t)))) of
            Inl e \<Rightarrow> ((q, rs), Inl e)
          | Inr t \<Rightarrow> (case upsertDynamicAgentTarget le (t\<lparr>allowedDockerContainers := DH_CONTAINERS\<rparr>) rs of
                (rs', Inl e) \<Rightarrow> ((q, rs'), Inl e)
              | (rs', Inr r) \<Rightarrow> ((AList.delete i q, rs'), Inr DH_CONTAINERS)))))"

section \<open>The queues are one-shot\<close>

text \<open>The checks of \<open>applyAgentTargetApproval\<close> before the registry is written.\<close>

lemma apply_agent_cases:
  assumes "applyAgentTargetApproval ct le now req (q, rs) = ((q', rs'), res)"
  shows "(\<exists>e. res = Inl e \<and> q' = purge_agent now q) \<or>
    (\<exists>a t live. map_of (purge_agent now q) (aq_approvalId req) = Some a \<and> ap_actor a = aq_actor req \<and>
       trim (aq_confirmation req) = ''APPROVE '' @ ap_id a \<and>
       requireLiveDevice ct (coalesce (deviceId (ap_target a)) []) now = Inr live \<and>
       (MANAGED_ADMIN_CAPABILITY \<in> set (allowedSemanticCapabilities (ap_target a)) \<longrightarrow>
          has_capability MANAGED_ADMIN_CAPABILITY live) \<and>
       upsertDynamicAgentTarget le (ap_target a) rs = (rs', Inr t) \<and>
       q' = AList.delete (ap_id a) (purge_agent now q) \<and>
       res = Inr \<lparr>aa_approval_id = ap_id a, aa_target = publicTarget t,
         aa_baseline = describeTargetCapabilityBaseline t\<rparr>)"
  using assms
  by (auto simp: applyAgentTargetApproval_def Let_def requireApprovalConfirmation_def bindR_Inr_iff bindR_Inl_iff
      ensure_Inr_iff split: option.splits sum.splits prod.splits)

lemma apply_dh_cases:
  assumes "applyDeepharnessDockerRead ct le now req (q, rs) = ((q', rs'), res)"
  shows "(\<exists>e. res = Inl e \<and> (q' = q \<or> q' = AList.delete (aq_approvalId req) q)) \<or>
    (\<exists>p t r. map_of q (aq_approvalId req) = Some p \<and> now \<le> dp_expires p \<and> aq_actor req = dp_actor p \<and>
       trim (aq_confirmation req) = ''APPROVE '' @ aq_approvalId req \<and> dh_baseline ct now rs = Inr t \<and>
       coalesce (deviceId t) [] = dp_deviceId p \<and>
       upsertDynamicAgentTarget le (t\<lparr>allowedDockerContainers := DH_CONTAINERS\<rparr>) rs = (rs', Inr r) \<and>
       q' = AList.delete (aq_approvalId req) q \<and> res = Inr DH_CONTAINERS)"
  using assms
  by (auto simp: applyDeepharnessDockerRead_def Let_def requireApprovalConfirmation_def bindR_Inr_iff bindR_Inl_iff
      ensure_Inr_iff split: option.splits sum.splits prod.splits if_splits)

type_synonym apply_call = "control \<times> (string \<Rightarrow> string \<Rightarrow> bool) \<times> int \<times> apply_request"

fun call_id :: "apply_call \<Rightarrow> string" where
  "call_id (ct, le, now, req) = aq_approvalId req"

fun apply_agent_call ::
    "apply_call \<Rightarrow> agent_approvals \<times> registry_state \<Rightarrow> (agent_approvals \<times> registry_state) \<times> (exn + agent_applied)" where
  "apply_agent_call (ct, le, now, req) st = applyAgentTargetApproval ct le now req st"

fun apply_dh_call ::
    "apply_call \<Rightarrow> dh_queue \<times> registry_state \<Rightarrow> (dh_queue \<times> registry_state) \<times> (exn + string list)" where
  "apply_dh_call (ct, le, now, req) st = applyDeepharnessDockerRead ct le now req st"

definition is_pending :: "(string, 'a) table \<times> 'b \<Rightarrow> string \<Rightarrow> bool" where
  "is_pending st i = (map_of (fst st) i \<noteq> None)"

definition filed :: "('a \<Rightarrow> string) \<Rightarrow> (string, 'a) table \<times> 'b \<Rightarrow> bool" where
  "filed idf st = queue_ok idf (fst st)"

lemma purge_agent_queue: "queue_ok ap_id q \<Longrightarrow> queue_ok ap_id (purge_agent now q)"
  by (simp add: purge_agent_def queue_ok_keep)

lemma purge_agent_lookup:
  "queue_ok ap_id q \<Longrightarrow> map_of (purge_agent now q) i = Some a \<longleftrightarrow> map_of q i = Some a \<and> now \<le> ap_expiresAt a"
  by (auto simp: purge_agent_def lookup_keep queue_ok_def split: option.splits)

interpretation agent_queue: one_shot apply_agent_call call_id
  is_pending "filed ap_id"
proof unfold_locales
  fix s :: "agent_approvals \<times> registry_state" and c :: apply_call
  obtain q rs where s: "s = (q, rs)" by force
  obtain ct le now req where c: "c = (ct, le, now, req)" by (cases c)
  obtain q' rs' res where r: "apply_agent_call c (q, rs) = ((q', rs'), res)" by (cases "apply_agent_call c (q, rs)") auto
  note cases = apply_agent_cases [OF r [unfolded c apply_agent_call.simps]]
  assume ok: "filed ap_id s"
  from cases ok [unfolded filed_def s fst_conv] purge_agent_queue [of q now] show "filed ap_id (fst (apply_agent_call c s))"
    by (auto simp: s r filed_def queue_ok_delete)
  { fix s' x
    assume "apply_agent_call c s = (s', Inr x)"
    with r have eq: "s' = (q', rs')" "res = Inr x" by (auto simp: s)
    with cases obtain a where "map_of (purge_agent now q) (aq_approvalId req) = Some a"
        "q' = AList.delete (ap_id a) (purge_agent now q)" by auto
    with ok s queue_ok_lookup [OF purge_agent_queue] eq show "is_pending s (call_id c)" "\<not> is_pending s' (call_id c)"
      by (auto simp: eq c filed_def is_pending_def purge_agent_lookup) }
  fix i
  assume "is_pending (fst (apply_agent_call c s)) i"
  with cases ok s show "is_pending s i"
    by (auto simp: s r filed_def is_pending_def purge_agent_lookup split: if_splits)
qed

interpretation dh_read: one_shot apply_dh_call call_id is_pending "\<lambda>st. True"
proof unfold_locales
  fix s :: "dh_queue \<times> registry_state" and c :: apply_call
  obtain q rs where s: "s = (q, rs)" by force
  obtain ct le now req where c: "c = (ct, le, now, req)" by (cases c)
  obtain q' rs' res where r: "apply_dh_call c (q, rs) = ((q', rs'), res)" by (cases "apply_dh_call c (q, rs)") auto
  note cases = apply_dh_cases [OF r [unfolded c apply_dh_call.simps]]
  { fix s' x
    assume "apply_dh_call c s = (s', Inr x)"
    with r have eq: "s' = (q', rs')" "res = Inr x" by (auto simp: s)
    with cases show "is_pending s (call_id c)" "\<not> is_pending s' (call_id c)"
      by (auto simp: s c is_pending_def) }
  fix i
  assume "is_pending (fst (apply_dh_call c s)) i"
  with cases s show "is_pending s i" by (auto simp: s r is_pending_def split: if_splits)
qed simp

section \<open>Properties\<close>

text \<open>A target approval is applied only for the actor it was prepared for, before it expires, with the
  exact confirmation text, and while its device is paired, unrevoked and heard from within twice the
  staleness limit, and announces root administration when the target grants it. The registry then holds
  the approved target.\<close>

lemma apply_agent_sound:
  assumes "applyAgentTargetApproval ct le now req (q, rs) = ((q', rs'), Inr res)" "queue_ok ap_id q" "loadRegistry rs = Inr rs"
  shows "\<exists>a d seen. map_of q (aq_approvalId req) = Some a \<and> ap_actor a = aq_actor req \<and> now \<le> ap_expiresAt a \<and>
    trim (aq_confirmation req) = ''APPROVE '' @ aq_approvalId req \<and>
    d \<in> set (vals (devices (mem (ct_store ct)))) \<and> deviceId (ap_target a) = Some (dv_id d) \<and>
    \<not> truthy (dv_revoked_at d) \<and> dv_last_seen_at d = Some seen \<and> now - seen \<le> ct_stale_seconds ct * 2000 \<and>
    (MANAGED_ADMIN_CAPABILITY \<in> set (allowedSemanticCapabilities (ap_target a)) \<longrightarrow> has_capability MANAGED_ADMIN_CAPABILITY d) \<and>
    getTarget (tid (ap_target a)) rs' = Inr (Some (ap_target a)) \<and> map_of q' (aq_approvalId req) = None"
proof -
  from apply_agent_cases [OF assms(1)] obtain a t d where a: "map_of (purge_agent now q) (aq_approvalId req) = Some a"
      "ap_actor a = aq_actor req" "trim (aq_confirmation req) = ''APPROVE '' @ ap_id a"
    and live: "requireLiveDevice ct (coalesce (deviceId (ap_target a)) []) now = Inr d"
    and cap: "MANAGED_ADMIN_CAPABILITY \<in> set (allowedSemanticCapabilities (ap_target a)) \<longrightarrow>
          has_capability MANAGED_ADMIN_CAPABILITY d"
    and up: "upsertDynamicAgentTarget le (ap_target a) rs = (rs', Inr t)"
    and q': "q' = AList.delete (ap_id a) (purge_agent now q)"
    by auto
  have ident: "ap_id a = aq_approvalId req" using a(1) purge_agent_queue [OF assms(2)] by (rule queue_ok_lookup [rotated])
  from a(1) assms(2) have q: "map_of q (aq_approvalId req) = Some a" "now \<le> ap_expiresAt a"
    by (simp_all add: purge_agent_lookup)
  from up have "coalesce (deviceId (ap_target a)) [] \<noteq> []"
    by (auto simp: upsertDynamicAgentTarget_def split: if_splits)
  then have dev: "deviceId (ap_target a) = Some (dv_id d)"
    using requireLiveDevice_Inr [OF live] by (cases "deviceId (ap_target a)") auto
  show ?thesis
    using a ident q q' cap dev requireLiveDevice_Inr [OF live] upsert_effect [OF assms(3) up] by auto
qed

text \<open>An approval is applied at most once: in any sequence of apply calls, by any actors at any times
  and with the registry changing in between, starting from a queue filed under its ids, no approval id
  succeeds twice.\<close>

lemma agent_approval_once:
  assumes "filed ap_id st"
  shows "distinct (agent_queue.successes (map (\<lambda>(c, f). (c, apsnd f)) calls) st)"
proof (rule agent_queue.at_most_once)
  have "agent_queue.shrinks (apsnd f)" for f
    by (auto simp: agent_queue.shrinks_def filed_def is_pending_def)
  then show "list_all (\<lambda>(c, change). agent_queue.shrinks change) (map (\<lambda>(c, f). (c, apsnd f)) calls)"
    by (auto simp: list_all_iff)
qed (rule assms)

text \<open>Preparing a target succeeds only for a live device and, for the presets that can run or administer,
  only under OAuth with a strong secret (and, for root administration, only when the device announces it).
  What it files is the preset's target, pending for ten minutes for that actor, and it leaves every other
  unexpired approval as it was.\<close>

lemma prepare_agent_sound:
  assumes "prepareAgentTarget ct hex24 req now q = (q', Inr r)" "queue_ok ap_id q"
  shows "\<exists>a d. map_of q' (ag_approval_id r) = Some a \<and> ap_actor a = ar_actor req \<and> ap_expiresAt a = now + 600000 \<and>
    buildAgentTargetFromPreset (ar_targetId req) (ar_deviceId req) (ar_environment req) (ar_preset req) = Inr (ap_target a) \<and>
    requireLiveDevice ct (ar_deviceId req) now = Inr d \<and>
    (ar_preset req \<in> {Managed_Admin, Openhands_Execute, Deepharness_Semantic_Lab} \<longrightarrow> strong_auth ct) \<and>
    (ar_preset req = Managed_Admin \<longrightarrow> has_capability MANAGED_ADMIN_CAPABILITY d) \<and>
    ag_required_confirmation r = ''APPROVE '' @ ap_id a \<and> queue_ok ap_id q' \<and>
    (\<forall>i b. i \<noteq> ag_approval_id r \<longrightarrow> map_of q' i = Some b \<longleftrightarrow> map_of q i = Some b \<and> now \<le> ap_expiresAt b)"
proof -
  from assms(1) obtain d t where live: "requireLiveDevice ct (ar_deviceId req) now = Inr d"
    and t: "buildAgentTargetFromPreset (ar_targetId req) (ar_deviceId req) (ar_environment req) (ar_preset req) = Inr t"
    and g: "ar_preset req \<in> {Managed_Admin, Openhands_Execute, Deepharness_Semantic_Lab} \<longrightarrow> strong_auth ct"
      "ar_preset req = Managed_Admin \<longrightarrow> has_capability MANAGED_ADMIN_CAPABILITY d"
    and q': "q' = AList.update (newApprovalId hex24) \<lparr>ap_id = newApprovalId hex24, ap_actor = ar_actor req, ap_createdAt = now,
        ap_expiresAt = now + APPROVAL_TTL_MS, ap_target = t\<rparr> (purge_agent now q)"
    and r: "ag_approval_id r = newApprovalId hex24" "ag_required_confirmation r = ''APPROVE '' @ newApprovalId hex24"
    by (auto simp: prepareAgentTarget_def Let_def bindR_Inr_iff ensure_Inr_iff split: sum.splits)
  have "queue_ok ap_id q'"
    unfolding q' by (rule queue_ok_update) (use purge_agent_queue [OF assms(2)] in simp_all)
  moreover have "\<forall>i b. i \<noteq> ag_approval_id r \<longrightarrow> map_of q' i = Some b \<longleftrightarrow> map_of q i = Some b \<and> now \<le> ap_expiresAt b"
    by (simp add: q' r purge_agent_lookup [OF assms(2)])
  ultimately show ?thesis
    using live t g by (auto simp: q' r APPROVAL_TTL_MS_def)
qed

definition demo_device :: "string \<Rightarrow> int \<Rightarrow> stored_device" where
  "demo_device i seen = \<lparr>dv_id = i, dv_display_name = ''h'', dv_hostname = ''h'', dv_os = None, dv_agent_version = None,
     dv_fingerprint = None, dv_credential_hash = ''c'', dv_created_at = 1, dv_last_seen_at = Some seen,
     dv_capabilities = Some [MANAGED_ADMIN_CAPABILITY], dv_revoked_at = None\<rparr>"

definition demo_control :: control where
  "demo_control = \<lparr>ct_store = \<lparr>mem = emptyState\<lparr>devices := [(''dev_12345678'', demo_device ''dev_12345678'' 500000)]\<rparr>,
       disk = emptyState, lastSessionTouch = []\<rparr>,
     ct_oauth = True, ct_secret = Some (replicate 32 CHR ''k''), ct_stale_seconds = 120\<rparr>"

definition demo_agent_request :: agent_request where
  "demo_agent_request = \<lparr>ar_actor = ''me'', ar_targetId = ''ops-1'', ar_deviceId = ''dev_12345678'',
     ar_environment = Production, ar_preset = Openhands_Execute\<rparr>"

definition demo_queue :: agent_approvals where
  "demo_queue = fst (prepareAgentTarget demo_control ''1'' demo_agent_request 600000 [])"

definition demo_apply :: apply_request where
  "demo_apply = \<lparr>aq_actor = ''me'', aq_approvalId = ''adm_1'', aq_confirmation = '' APPROVE adm_1 ''\<rparr>"

definition demo_loaded :: registry_state where
  "demo_loaded = (case loadRegistry demo_registry of Inr rs \<Rightarrow> rs | Inl e \<Rightarrow> demo_registry)"

lemma demo_loaded_ok: "loadRegistry demo_loaded = Inr demo_loaded"
proof -
  have "is_ok (loadRegistry demo_registry)" by code_simp
  then show ?thesis using loadRegistry_again by (auto simp: is_ok_iff demo_loaded_def)
qed

lemma prepare_agent_sound_witness:
  "\<exists>r d. prepareAgentTarget demo_control ''1'' demo_agent_request 600000 [] = (demo_queue, Inr r) \<and>
     requireLiveDevice demo_control ''dev_12345678'' 600000 = Inr d \<and> strong_auth demo_control \<and>
     queue_ok ap_id demo_queue"
proof -
  have "is_ok (snd (prepareAgentTarget demo_control ''1'' demo_agent_request 600000 []))" by code_simp
  then obtain r where "snd (prepareAgentTarget demo_control ''1'' demo_agent_request 600000 []) = Inr r"
    unfolding is_ok_iff by blast
  then have r: "prepareAgentTarget demo_control ''1'' demo_agent_request 600000 [] = (demo_queue, Inr r)"
    by (simp add: demo_queue_def prod_eq_iff)
  from prepare_agent_sound [OF r] r show ?thesis by (auto simp: demo_agent_request_def)
qed

lemma apply_agent_sound_witness:
  "\<exists>q' rs' res a. applyAgentTargetApproval demo_control (\<lambda>a b. True) 700000 demo_apply (demo_queue, demo_loaded) =
       ((q', rs'), Inr res) \<and>
     map_of demo_queue ''adm_1'' = Some a \<and> getTarget (tid (ap_target a)) rs' = Inr (Some (ap_target a))"
proof -
  let ?r = "applyAgentTargetApproval demo_control (\<lambda>a b. True) 700000 demo_apply (demo_queue, demo_loaded)"
  have "is_ok (snd ?r)" "queue_ok ap_id demo_queue" by code_simp+
  then obtain res where "?r = ((fst (fst ?r), snd (fst ?r)), Inr res)" and q: "queue_ok ap_id demo_queue"
    by (auto simp: is_ok_iff prod_eq_iff)
  then obtain q' rs' res where r: "?r = ((q', rs'), Inr res)" by metis
  from apply_agent_sound [OF r q demo_loaded_ok] obtain a where
    "map_of demo_queue ''adm_1'' = Some a" "getTarget (tid (ap_target a)) rs' = Inr (Some (ap_target a))"
    by (auto simp: demo_apply_def)
  with r show ?thesis by blast
qed

lemma agent_approval_once_witness:
  "distinct (agent_queue.successes (map (\<lambda>(c, f). (c, apsnd f))
     [((demo_control, \<lambda>a b. True, 700000, demo_apply), \<lambda>rs. rs), ((demo_control, \<lambda>a b. True, 700001, demo_apply), \<lambda>rs. rs)])
       (demo_queue, demo_loaded))"
proof (rule agent_approval_once)
  have "queue_ok ap_id demo_queue" by code_simp
  then show "filed ap_id (demo_queue, demo_loaded)" by (simp add: filed_def)
qed

text \<open>Applying a DeepHarness read approval changes exactly one thing in the registry: the Docker read
  allowlist of the production target \<open>deepharness-read\<close>, which becomes the two fixed containers. It
  succeeds only for the actor of a pending, unexpired approval, for a target that is still bound to the
  device approved and has no other authority.\<close>

lemma dh_read_sound:
  assumes "applyDeepharnessDockerRead ct le now req (q, rs) = ((q', rs'), Inr res)" "loadRegistry rs = Inr rs"
  shows "\<exists>p t. map_of q (aq_approvalId req) = Some p \<and> dp_actor p = aq_actor req \<and> now \<le> dp_expires p \<and>
    getTarget DH_TARGET rs = Inr (Some t) \<and> environment t = Production \<and> deviceId t = Some (dp_deviceId p) \<and>
    allowedDockerExecContainers t = [] \<and> allowedDockerActions t = [] \<and> allowedWritePaths t = [] \<and>
    allowedProcessPrograms t = [] \<and> allowedAdminPrograms t = [] \<and> allowedSemanticCapabilities t = [] \<and>
    set (allowedDockerContainers t) \<subseteq> set DH_CONTAINERS \<and>
    getTarget DH_TARGET rs' = Inr (Some (t\<lparr>allowedDockerContainers := DH_CONTAINERS\<rparr>)) \<and>
    (\<forall>i. i \<noteq> DH_TARGET \<longrightarrow> getTarget i rs' = getTarget i rs) \<and> map_of q' (aq_approvalId req) = None"
proof -
  from apply_dh_cases [OF assms(1)] obtain p t r where p: "map_of q (aq_approvalId req) = Some p" "now \<le> dp_expires p"
      "aq_actor req = dp_actor p" and base: "dh_baseline ct now rs = Inr t"
    and dev: "coalesce (deviceId t) [] = dp_deviceId p"
    and up: "upsertDynamicAgentTarget le (t\<lparr>allowedDockerContainers := DH_CONTAINERS\<rparr>) rs = (rs', Inr r)"
    and q': "q' = AList.delete (aq_approvalId req) q" by auto
  from base have t: "getTarget DH_TARGET rs = Inr (Some t)" "environment t = Production"
      "coalesce (deviceId t) [] \<noteq> []" "set (allowedDockerContainers t) \<subseteq> set DH_CONTAINERS"
      "allowedDockerExecContainers t = [] \<and> allowedDockerActions t = [] \<and> allowedWritePaths t = [] \<and>
       allowedProcessPrograms t = [] \<and> allowedAdminPrograms t = [] \<and> allowedSemanticCapabilities t = []"
    by (auto simp: dh_baseline_def bindR_Inr_iff ensure_Inr_iff list_ex_iff split: option.splits)
  have ident: "tid t = DH_TARGET"
    using t(1) registry_load_schema [OF assms(2)] by (auto simp: getTarget_def split: option.splits)
  have "deviceId t = Some (dp_deviceId p)" using dev t(3) by (cases "deviceId t") auto
  with p t ident q' upsert_effect [OF assms(2) up] show ?thesis by auto
qed

end
