(* ===== verification/Admin_Approvals.thy ===== *)
theory Admin_Approvals
  imports Approvals
begin

text \<open>
  \<^verbatim>\<open>src/config/managed-admin-approvals.ts\<close>: the preparation of a root action and the exchange of
  its approval for a signed ticket. The tool's unchecked arguments are dynamic values; the approval id
  and the nonce are random and arguments; the redacted summary for the reader is left out.
\<close>

record admin_action =
  ac_targetId :: string
  ac_deviceId :: string
  ac_program :: string
  ac_argv :: "string list"
  ac_cwd :: string
  ac_timeoutMs :: int

record admin_approval =
  am_id :: string
  am_actor :: string
  am_createdAt :: int
  am_expiresAt :: int
  am_action :: admin_action

type_synonym admin_approvals = "(string, admin_approval) table"

definition TICKET_TTL_MS :: int where "TICKET_TTL_MS = 90000"

definition purge_admin :: "int \<Rightarrow> admin_approvals \<Rightarrow> admin_approvals" where
  "purge_admin now q = keep (\<lambda>i a. \<not> am_expiresAt a < now) q"

definition requireManagedAdminAuthSecret :: "control \<Rightarrow> exn + string" where
  "requireManagedAdminAuthSecret ct =
    bindR (ensure (ct_oauth ct) (OpsError CAPABILITY_DENIED)) (\<lambda>_.
    bindR (ensure (32 \<le> length (coalesce (ct_secret ct) [])) (OpsError CAPABILITY_DENIED)) (\<lambda>_.
    Inr (coalesce (ct_secret ct) [])))"

definition requireManagedAdminTarget :: "control \<Rightarrow> registry_state \<Rightarrow> string \<Rightarrow> exn + target_config" where
  "requireManagedAdminTarget ct rs targetId =
    bindR (getTarget targetId rs) (\<lambda>found. (case found of
      None \<Rightarrow> Inl (OpsError TARGET_NOT_FOUND)
    | Some t \<Rightarrow>
        bindR (ensure (effectiveTargetEnabled (tid t) (enabled t) (ct_store ct)) (OpsError TARGET_DISABLED)) (\<lambda>_.
        bindR (ensure (transport t = Agent \<and> coalesce (deviceId t) [] \<noteq> []) (OpsError CAPABILITY_DENIED)) (\<lambda>_.
        bindR (ensure (capabilityProfile t = Operator) (OpsError CAPABILITY_DENIED)) (\<lambda>_.
        bindR (ensure (MANAGED_ADMIN_CAPABILITY \<in> set (allowedSemanticCapabilities t)) (OpsError CAPABILITY_DENIED)) (\<lambda>_.
        Inr t))))))"

definition normalizeProgram :: "target_config \<Rightarrow> jval \<Rightarrow> exn + string" where
  "normalizeProgram t value =
    (let program = str_or_empty value in
     bindR (ensure (re_program program) (OpsError INVALID_ARGUMENT)) (\<lambda>_.
     bindR (ensure (program \<notin> set MANAGED_ADMIN_HARD_DENY) (OpsError CAPABILITY_DENIED)) (\<lambda>_.
     bindR (ensure (program \<in> set (allowedAdminPrograms t)) (OpsError CAPABILITY_DENIED)) (\<lambda>_.
     Inr program))))"

definition normalizeArgv :: "jval \<Rightarrow> exn + string list" where
  "normalizeArgv value = (case value of
     JUndef \<Rightarrow> Inr []
   | JArr vs \<Rightarrow>
       bindR (ensure (length vs \<le> 80) (OpsError INVALID_ARGUMENT)) (\<lambda>_.
       mapR (\<lambda>item. let arg = str_or_empty item in
         bindR (ensure (admin_arg_ok arg) (OpsError INVALID_ARGUMENT)) (\<lambda>_. Inr arg)) vs)
   | _ \<Rightarrow> Inl (OpsError INVALID_ARGUMENT))"

definition normalizeCwd :: "target_config \<Rightarrow> jval \<Rightarrow> exn + string" where
  "normalizeCwd t value =
    (let cwd = str_of (or_default value (JStr ''/opt/wandora/ops-workspace'')) in
     bindR (ensure (cwdLexicallyAllowed cwd (allowedAdminCwds t)) (OpsError CAPABILITY_DENIED)) (\<lambda>_. Inr cwd))"

definition normalizeTimeout :: "(string \<Rightarrow> jnum) \<Rightarrow> jval \<Rightarrow> exn + int" where
  "normalizeTimeout lit value =
    (case int_such timeout_ok (num_of lit (or_default value (JNum (NInt 30000)))) of
       None \<Rightarrow> Inl (OpsError INVALID_ARGUMENT)
     | Some n \<Rightarrow> Inr n)"

definition requireDeviceCapability :: "control \<Rightarrow> string \<Rightarrow> int \<Rightarrow> exn + unit" where
  "requireDeviceCapability ct devId now =
    bindR (requireLiveDevice ct devId now) (\<lambda>device.
    ensure (has_capability MANAGED_ADMIN_CAPABILITY device) (OpsError CAPABILITY_DENIED))"

record admin_request =
  mr_actor :: string
  mr_targetId :: string
  mr_program :: jval
  mr_argv :: jval
  mr_cwd :: jval
  mr_timeoutMs :: jval

definition check_action ::
    "(string \<Rightarrow> jnum) \<Rightarrow> target_config \<Rightarrow> jval \<Rightarrow> jval \<Rightarrow> jval \<Rightarrow> jval \<Rightarrow> exn + admin_action" where
  "check_action lit t program argv cwd timeoutMs =
    bindR (normalizeProgram t program) (\<lambda>p.
    bindR (normalizeArgv argv) (\<lambda>a.
    bindR (normalizeCwd t cwd) (\<lambda>c.
    bindR (normalizeTimeout lit timeoutMs) (\<lambda>n.
    Inr \<lparr>ac_targetId = tid t, ac_deviceId = coalesce (deviceId t) [], ac_program = p, ac_argv = a, ac_cwd = c,
      ac_timeoutMs = n\<rparr>))))"

definition prepareManagedAdminAction ::
    "control \<Rightarrow> registry_state \<Rightarrow> (string \<Rightarrow> jnum) \<Rightarrow> string \<Rightarrow> admin_request \<Rightarrow> int \<Rightarrow> admin_approvals \<Rightarrow>
     admin_approvals \<times> (exn + admin_approval)" where
  "prepareManagedAdminAction ct rs lit hex24 req now q0 =
    (let q = purge_admin now q0 in
     (case
       bindR (requireManagedAdminAuthSecret ct) (\<lambda>_.
       bindR (requireManagedAdminTarget ct rs (mr_targetId req)) (\<lambda>t.
       bindR (requireDeviceCapability ct (coalesce (deviceId t) []) now) (\<lambda>_.
       check_action lit t (mr_program req) (mr_argv req) (mr_cwd req) (mr_timeoutMs req)))) of
       Inl e \<Rightarrow> (q, Inl e)
     | Inr action \<Rightarrow>
         (let i = newApprovalId hex24;
              a = \<lparr>am_id = i, am_actor = mr_actor req, am_createdAt = now, am_expiresAt = now + APPROVAL_TTL_MS,
                am_action = action\<rparr>
          in (AList.update i a q, Inr a))))"

record consume_request =
  mc_actor :: string
  mc_targetId :: string
  mc_approvalId :: string
  mc_confirmation :: string

record consumed =
  cs_approvalId :: string
  cs_target :: target_config
  cs_ticket :: ticket
  cs_signature :: string

text \<open>The runtime's cryptography as the code uses it.\<close>

record crypto =
  cy_sha256 :: "string \<Rightarrow> string"
  cy_sign :: "string \<Rightarrow> string \<Rightarrow> string"

definition consumeManagedAdminApproval ::
    "control \<Rightarrow> registry_state \<Rightarrow> (string \<Rightarrow> jnum) \<Rightarrow> crypto \<Rightarrow> string \<Rightarrow> consume_request \<Rightarrow> int \<Rightarrow> admin_approvals \<Rightarrow>
     admin_approvals \<times> (exn + consumed)" where
  "consumeManagedAdminApproval ct rs lit cy nonce req now q0 =
    (let q = purge_admin now q0 in
     (case map_of q (mc_approvalId req) of
        None \<Rightarrow> (q, Inl (OpsError INVALID_ARGUMENT))
      | Some a \<Rightarrow>
         (case
           bindR (ensure (am_actor a = mc_actor req) (OpsError CAPABILITY_DENIED)) (\<lambda>_.
           bindR (ensure (ac_targetId (am_action a) = mc_targetId req) (OpsError CAPABILITY_DENIED)) (\<lambda>_.
           bindR (requireApprovalConfirmation (am_id a) (mc_confirmation req)) (\<lambda>_.
           bindR (requireManagedAdminAuthSecret ct) (\<lambda>secret.
           bindR (requireManagedAdminTarget ct rs (ac_targetId (am_action a))) (\<lambda>t.
           bindR (ensure (deviceId t = Some (ac_deviceId (am_action a))) (OpsError CAPABILITY_DENIED)) (\<lambda>_.
           bindR (requireDeviceCapability ct (ac_deviceId (am_action a)) now) (\<lambda>_.
           bindR (check_action lit t (JStr (ac_program (am_action a))) (jstrs (ac_argv (am_action a)))
                    (JStr (ac_cwd (am_action a))) (JNum (NInt (ac_timeoutMs (am_action a))))) (\<lambda>action.
           Inr (secret, t, action))))))))) of
           Inl e \<Rightarrow> (q, Inl e)
         | Inr (secret, t, action) \<Rightarrow>
             (let q' = AList.delete (am_id a) q;
                  tk = \<lparr>tk_target_id = ac_targetId (am_action a), tk_device_id = ac_deviceId (am_action a),
                    tk_program = ac_program action, tk_argv = ac_argv action, tk_cwd = ac_cwd action,
                    tk_timeout_ms = ac_timeoutMs action, tk_nonce = nonce, tk_issued_at = now,
                    tk_expires_at = now + TICKET_TTL_MS\<rparr>
              in (q', bindR (signManagedAdminTicket lit (cy_sha256 cy) (cy_sign cy) tk secret) (\<lambda>sig.
                   Inr \<lparr>cs_approvalId = am_id a, cs_target = t, cs_ticket = tk, cs_signature = sig\<rparr>))))))"

section \<open>What a checked action is\<close>

lemma normalizeArgv_Inr:
  "normalizeArgv v = Inr args \<Longrightarrow> length args \<le> 80 \<and> list_all admin_arg_ok args"
proof (cases v)
  case (JArr vs)
  assume "normalizeArgv v = Inr args"
  then have "length vs \<le> 80" "list_all2 (\<lambda>x y. admin_arg_ok y) vs args"
    by (auto simp: JArr normalizeArgv_def Let_def bindR_Inr_iff ensure_Inr_iff mapR_Inr_iff elim: list_all2_mono)
  then show ?thesis
    by (auto simp: list_all_length list_all2_conv_all_nth)
qed (auto simp: normalizeArgv_def)

lemma cwd_allowed_shape: "cwdLexicallyAllowed cwd roots \<Longrightarrow> cwd_shape cwd"
  by (simp add: cwdLexicallyAllowed_def)

lemma check_action_Inr:
  assumes "check_action lit t p a c n = Inr act"
  shows "ac_targetId act = tid t \<and> ac_deviceId act = coalesce (deviceId t) [] \<and> re_program (ac_program act) \<and>
    ac_program act \<in> set (allowedAdminPrograms t) - set MANAGED_ADMIN_HARD_DENY \<and>
    length (ac_argv act) \<le> 80 \<and> list_all admin_arg_ok (ac_argv act) \<and>
    cwdLexicallyAllowed (ac_cwd act) (allowedAdminCwds t) \<and> timeout_ok (ac_timeoutMs act)"
  using assms normalizeArgv_Inr [of a]
  by (auto simp: check_action_def normalizeProgram_def normalizeCwd_def normalizeTimeout_def Let_def bindR_Inr_iff
      ensure_Inr_iff int_such_Some split: option.splits)

lemma normalizeArgv_jstrs: "length xs \<le> 80 \<Longrightarrow> list_all admin_arg_ok xs \<Longrightarrow> normalizeArgv (jstrs xs) = Inr xs"
proof -
  assume a: "length xs \<le> 80" "list_all admin_arg_ok xs"
  have "list_all admin_arg_ok ys \<Longrightarrow>
      mapR (\<lambda>item. let arg = str_or_empty item in
         bindR (ensure (admin_arg_ok arg) (OpsError INVALID_ARGUMENT)) (\<lambda>_. Inr arg)) (map JStr ys) = Inr ys" for ys
    by (induction ys) (auto simp: Let_def)
  with a show ?thesis by (simp add: normalizeArgv_def jstrs_def)
qed

text \<open>Checking a checked action again gives it back, so consuming repeats the preparation's decision.\<close>

lemma check_action_again:
  assumes "check_action lit t p a c n = Inr act"
  shows "check_action lit t (JStr (ac_program act)) (jstrs (ac_argv act)) (JStr (ac_cwd act))
    (JNum (NInt (ac_timeoutMs act))) = Inr act"
  using check_action_Inr [OF assms]
  by (auto simp: check_action_def normalizeProgram_def normalizeCwd_def normalizeTimeout_def or_default_def nullish_def
      normalizeArgv_jstrs)

lemma consume_cases:
  assumes "consumeManagedAdminApproval ct rs lit cy nonce req now q = (q', res)"
  shows "(\<exists>e. res = Inl e) \<and> (q' = purge_admin now q \<or> (\<exists>i. q' = AList.delete i (purge_admin now q))) \<or>
    (\<exists>a t act secret tk sig. map_of (purge_admin now q) (mc_approvalId req) = Some a \<and> am_actor a = mc_actor req \<and>
      ac_targetId (am_action a) = mc_targetId req \<and> trim (mc_confirmation req) = ''APPROVE '' @ am_id a \<and>
      requireManagedAdminAuthSecret ct = Inr secret \<and>
      requireManagedAdminTarget ct rs (mc_targetId req) = Inr t \<and> deviceId t = Some (ac_deviceId (am_action a)) \<and>
      requireDeviceCapability ct (ac_deviceId (am_action a)) now = Inr () \<and>
      check_action lit t (JStr (ac_program (am_action a))) (jstrs (ac_argv (am_action a)))
        (JStr (ac_cwd (am_action a))) (JNum (NInt (ac_timeoutMs (am_action a)))) = Inr act \<and>
      tk = \<lparr>tk_target_id = mc_targetId req, tk_device_id = ac_deviceId (am_action a),
        tk_program = ac_program act, tk_argv = ac_argv act, tk_cwd = ac_cwd act,
        tk_timeout_ms = ac_timeoutMs act, tk_nonce = nonce, tk_issued_at = now, tk_expires_at = now + TICKET_TTL_MS\<rparr> \<and>
      signManagedAdminTicket lit (cy_sha256 cy) (cy_sign cy) tk secret = Inr sig \<and>
      q' = AList.delete (am_id a) (purge_admin now q) \<and>
      res = Inr \<lparr>cs_approvalId = am_id a, cs_target = t, cs_ticket = tk, cs_signature = sig\<rparr>)"
  using assms
  by (auto simp: consumeManagedAdminApproval_def Let_def requireApprovalConfirmation_def bindR_Inr_iff bindR_Inl_iff
      ensure_Inr_iff split: option.splits sum.splits) (meson sum.exhaust)+

text \<open>When every checked ticket is valid, a consumption either gives one or leaves the queue purged only.\<close>

lemma consume_kinds:
  assumes "consumeManagedAdminApproval ct rs lit cy nonce req now q = (q', res)"
    and ok: "\<And>t d act p a c n. requireManagedAdminTarget ct rs (mc_targetId req) = Inr t \<Longrightarrow> deviceId t = Some d \<Longrightarrow>
      check_action lit t p a c n = Inr act \<Longrightarrow>
      ticket_ok \<lparr>tk_target_id = mc_targetId req, tk_device_id = d, tk_program = ac_program act,
        tk_argv = ac_argv act, tk_cwd = ac_cwd act, tk_timeout_ms = ac_timeoutMs act, tk_nonce = nonce,
        tk_issued_at = now, tk_expires_at = now + TICKET_TTL_MS\<rparr>"
  shows "(\<exists>e. res = Inl e) \<and> q' = purge_admin now q \<or>
    (\<exists>r b. res = Inr r \<and> map_of (purge_admin now q) (mc_approvalId req) = Some b \<and>
      q' = AList.delete (am_id b) (purge_admin now q))"
proof -
  have key: "\<exists>sig. signManagedAdminTicket lit (cy_sha256 cy) (cy_sign cy) tk secret = Inr sig"
    if "requireManagedAdminAuthSecret ct = Inr secret" "ticket_ok tk" for tk secret
    using that by (auto simp: requireManagedAdminAuthSecret_def signManagedAdminTicket_def deriveManagedAdminPrivateKey_def
        seedFromSecret_def bindR_Inr_iff ensure_Inr_iff ticketBytes_ok)
  show ?thesis
    using assms(1) ok key
    by (fastforce simp: consumeManagedAdminApproval_def Let_def bindR_Inr_iff bindR_Inl_iff
        ensure_Inr_iff split: option.splits sum.splits)
qed

section \<open>Consuming is one-shot\<close>

type_synonym consume_call = "control \<times> (string \<Rightarrow> jnum) \<times> crypto \<times> string \<times> consume_request \<times> int"

fun consume_id :: "consume_call \<Rightarrow> string" where
  "consume_id (ct, lit, cy, nonce, req, now) = mc_approvalId req"

fun consume_call ::
    "consume_call \<Rightarrow> admin_approvals \<times> registry_state \<Rightarrow> (admin_approvals \<times> registry_state) \<times> (exn + consumed)" where
  "consume_call (ct, lit, cy, nonce, req, now) (q, rs) =
     (case consumeManagedAdminApproval ct rs lit cy nonce req now q of (q', r) \<Rightarrow> ((q', rs), r))"

lemma purge_admin_queue: "queue_ok am_id q \<Longrightarrow> queue_ok am_id (purge_admin now q)"
  by (simp add: purge_admin_def queue_ok_keep)

lemma purge_admin_lookup:
  "queue_ok am_id q \<Longrightarrow> map_of (purge_admin now q) i = Some a \<longleftrightarrow> map_of q i = Some a \<and> now \<le> am_expiresAt a"
  by (auto simp: purge_admin_def lookup_keep queue_ok_def split: option.splits)

lemma consume_queue_shape:
  assumes "consumeManagedAdminApproval ct rs lit cy nonce req now q = (q', res)"
  shows "(q' = purge_admin now q \<or> (\<exists>i. q' = AList.delete i (purge_admin now q)))"
  using consume_cases [OF assms] by blast

interpretation admin_queue: one_shot consume_call consume_id is_pending "filed am_id"
proof unfold_locales
  fix s :: "admin_approvals \<times> registry_state" and c :: consume_call
  obtain q rs where s: "s = (q, rs)" by force
  obtain ct lit cy nonce req now where c: "c = (ct, lit, cy, nonce, req, now)" by (cases c)
  obtain q' res where r: "consumeManagedAdminApproval ct rs lit cy nonce req now q = (q', res)" by force
  assume "filed am_id s"
  then have ok: "queue_ok am_id q" by (simp add: filed_def s)
  note shape = consume_queue_shape [OF r]
  from shape ok purge_admin_queue [OF ok] show "filed am_id (fst (consume_call c s))"
    by (auto simp: s c r filed_def queue_ok_delete)
  { fix s' x
    assume "consume_call c s = (s', Inr x)"
    then have eq: "s' = (q', rs)" "res = Inr x" by (auto simp: s c r)
    with consume_cases [OF r] obtain a where "map_of (purge_admin now q) (mc_approvalId req) = Some a"
        "q' = AList.delete (am_id a) (purge_admin now q)" by auto
    with ok queue_ok_lookup [OF purge_admin_queue [OF ok]] eq
    show "is_pending s (consume_id c)" "\<not> is_pending s' (consume_id c)"
      by (auto simp: s c is_pending_def purge_admin_lookup) }
  fix i
  assume "is_pending (fst (consume_call c s)) i"
  with shape ok show "is_pending s i"
    by (auto simp: s c r is_pending_def purge_admin_lookup split: if_splits)
qed

section \<open>Properties\<close>

lemma target_id_RE: "re_target_id i \<Longrightarrow> ID_RE i"
  by (auto simp: re_target_id_def ID_RE_def re_head_class_def re_class_def split: list.splits)

lemma admin_target_Inr:
  "requireManagedAdminTarget ct rs i = Inr t \<Longrightarrow>
     getTarget i rs = Inr (Some t) \<and> effectiveTargetEnabled (tid t) (enabled t) (ct_store ct) \<and> transport t = Agent \<and>
     coalesce (deviceId t) [] \<noteq> [] \<and> capabilityProfile t = Operator \<and>
     MANAGED_ADMIN_CAPABILITY \<in> set (allowedSemanticCapabilities t)"
  by (auto simp: requireManagedAdminTarget_def bindR_Inr_iff ensure_Inr_iff split: option.splits)

text \<open>On a loaded registry the ticket of a checked action is always valid, so it can be signed.\<close>

lemma consumed_ticket_ok:
  assumes "loadRegistry rs = Inr rs" "requireManagedAdminTarget ct rs i = Inr t" "deviceId t = Some d"
    and "check_action lit t p a c n = Inr act" "NONCE_RE nonce"
  shows "ticket_ok \<lparr>tk_target_id = i, tk_device_id = d, tk_program = ac_program act, tk_argv = ac_argv act,
    tk_cwd = ac_cwd act, tk_timeout_ms = ac_timeoutMs act, tk_nonce = nonce, tk_issued_at = now,
    tk_expires_at = now + TICKET_TTL_MS\<rparr>"
proof -
  have "TargetSchema t \<and> tid t = i"
    using registry_load_schema [OF assms(1)] admin_target_Inr [OF assms(2)] by (auto simp: getTarget_def split: option.splits)
  then have "ID_RE i" "re_device_id d"
    using assms(3) target_id_RE by (auto simp: TargetSchema_def opt_all_def)
  with check_action_Inr [OF assms(4)] assms(5) cwd_allowed_shape [of "ac_cwd act" "allowedAdminCwds t"] show ?thesis
    by (simp add: ticket_ok_def TICKET_TTL_MS_def)
qed

lemma consumed_facts:
  assumes "consumeManagedAdminApproval ct rs lit cy nonce req now q = (q', Inr r)"
    and "queue_ok am_id q" "loadRegistry rs = Inr rs" "NONCE_RE nonce"
  shows "\<exists>a t d. map_of q (mc_approvalId req) = Some a \<and> am_actor a = mc_actor req \<and> now \<le> am_expiresAt a \<and>
    trim (mc_confirmation req) = ''APPROVE '' @ mc_approvalId req \<and> strong_auth ct \<and>
    getTarget (mc_targetId req) rs = Inr (Some t) \<and> effectiveTargetEnabled (tid t) (enabled t) (ct_store ct) \<and>
    MANAGED_ADMIN_CAPABILITY \<in> set (allowedSemanticCapabilities t) \<and>
    requireLiveDevice ct (tk_device_id (cs_ticket r)) now = Inr d \<and> deviceId t = Some (dv_id d) \<and>
    ticket_ok (cs_ticket r) \<and> tk_target_id (cs_ticket r) = tid t \<and>
    tk_program (cs_ticket r) \<in> set (allowedAdminPrograms t) - set MANAGED_ADMIN_HARD_DENY \<and>
    cwdLexicallyAllowed (tk_cwd (cs_ticket r)) (allowedAdminCwds t) \<and>
    tk_issued_at (cs_ticket r) = now \<and> tk_expires_at (cs_ticket r) = now + 90000 \<and>
    signManagedAdminTicket lit (cy_sha256 cy) (cy_sign cy) (cs_ticket r) (coalesce (ct_secret ct) []) = Inr (cs_signature r)"
proof -
  from consume_cases [OF assms(1)] obtain a t act secret where a: "map_of (purge_admin now q) (mc_approvalId req) = Some a"
      "am_actor a = mc_actor req" "trim (mc_confirmation req) = ''APPROVE '' @ am_id a"
    and secret: "requireManagedAdminAuthSecret ct = Inr secret"
    and t: "requireManagedAdminTarget ct rs (mc_targetId req) = Inr t" "deviceId t = Some (ac_deviceId (am_action a))"
    and cap: "requireDeviceCapability ct (ac_deviceId (am_action a)) now = Inr ()"
    and act: "check_action lit t (JStr (ac_program (am_action a))) (jstrs (ac_argv (am_action a)))
        (JStr (ac_cwd (am_action a))) (JNum (NInt (ac_timeoutMs (am_action a)))) = Inr act"
    and tk: "cs_ticket r = \<lparr>tk_target_id = mc_targetId req, tk_device_id = ac_deviceId (am_action a),
        tk_program = ac_program act, tk_argv = ac_argv act, tk_cwd = ac_cwd act,
        tk_timeout_ms = ac_timeoutMs act, tk_nonce = nonce, tk_issued_at = now, tk_expires_at = now + TICKET_TTL_MS\<rparr>"
    and sig: "signManagedAdminTicket lit (cy_sha256 cy) (cy_sign cy) (cs_ticket r) secret = Inr (cs_signature r)"
    by auto
  from cap obtain d where d: "requireLiveDevice ct (ac_deviceId (am_action a)) now = Inr d"
    by (auto simp: requireDeviceCapability_def bindR_Inr_iff)
  have "am_id a = mc_approvalId req" using a(1) purge_admin_queue [OF assms(2)] by (rule queue_ok_lookup [rotated])
  moreover have "ticket_ok (cs_ticket r)" unfolding tk using consumed_ticket_ok [OF assms(3) t act assms(4)] .
  moreover have "strong_auth ct \<and> secret = coalesce (ct_secret ct) []"
    using secret by (auto simp: requireManagedAdminAuthSecret_def strong_auth_def bindR_Inr_iff ensure_Inr_iff)
  moreover have "tid t = mc_targetId req"
    using registry_load_schema [OF assms(3)] admin_target_Inr [OF t(1)] by (auto simp: getTarget_def split: option.splits)
  ultimately show ?thesis
    using a sig d t(2) admin_target_Inr [OF t(1)] check_action_Inr [OF act] requireLiveDevice_Inr [OF d] assms(2)
    by (intro exI [of _ a] exI [of _ t] exI [of _ d]) (auto simp: tk purge_admin_lookup TICKET_TTL_MS_def)
qed


text \<open>A refused consumption never burns the approval: on a loaded registry, whenever no ticket is returned
  every unexpired approval is still pending. And a ticket takes exactly its own approval away.\<close>

lemma consume_admin_keeps_approval:
  assumes "consumeManagedAdminApproval ct rs lit cy nonce req now q = (q', res)"
    and "queue_ok am_id q" "loadRegistry rs = Inr rs" "NONCE_RE nonce"
  shows "map_of q' i = Some a \<longleftrightarrow>
    map_of q i = Some a \<and> now \<le> am_expiresAt a \<and> \<not> (is_ok res \<and> i = mc_approvalId req)"
proof -
  have "(\<exists>e. res = Inl e) \<and> q' = purge_admin now q \<or>
      (\<exists>r b. res = Inr r \<and> map_of (purge_admin now q) (mc_approvalId req) = Some b \<and>
        q' = AList.delete (am_id b) (purge_admin now q))"
  proof (rule consume_kinds [OF assms(1)])
    fix t d act p a c n
    assume "requireManagedAdminTarget ct rs (mc_targetId req) = Inr t" "deviceId t = Some d"
      "check_action lit t p a c n = Inr act"
    with assms(3,4) show "ticket_ok \<lparr>tk_target_id = mc_targetId req, tk_device_id = d, tk_program = ac_program act,
        tk_argv = ac_argv act, tk_cwd = ac_cwd act, tk_timeout_ms = ac_timeoutMs act, tk_nonce = nonce,
        tk_issued_at = now, tk_expires_at = now + TICKET_TTL_MS\<rparr>"
      using consumed_ticket_ok by blast
  qed
  then show ?thesis
  proof (elim disjE exE conjE)
    fix r b
    assume r: "res = Inr r" "map_of (purge_admin now q) (mc_approvalId req) = Some b"
      "q' = AList.delete (am_id b) (purge_admin now q)"
    then have "am_id b = mc_approvalId req" using queue_ok_lookup [OF purge_admin_queue [OF assms(2)]] by blast
    with r assms(2) show ?thesis by (auto simp: purge_admin_lookup)
  qed (use assms(2) in \<open>simp add: purge_admin_lookup\<close>)
qed

text \<open>C5: An approval is exchanged for at most one ticket: in any sequence of consume calls, of any actors and
  at any times, while the registry changes in between, no approval id succeeds twice.\<close>

theorem admin_approval_once:
  assumes "filed am_id st"
  shows "distinct (admin_queue.successes (map (\<lambda>(c, f). (c, apsnd f)) calls) st)"
proof (rule admin_queue.at_most_once)
  have "admin_queue.shrinks (apsnd f)" for f
    by (auto simp: admin_queue.shrinks_def filed_def is_pending_def)
  then show "list_all (\<lambda>(c, change). admin_queue.shrinks change) (map (\<lambda>(c, f). (c, apsnd f)) calls)"
    by (auto simp: list_all_iff)
qed (rule assms)

text \<open>Preparing and consuming on one registry: the ticket of the prepared action.\<close>

lemma prepared_consumable:
  assumes "prepareManagedAdminAction ct rs lit hex24 req t0 q = (q1, Inr a)" "queue_ok am_id q" "loadRegistry rs = Inr rs"
    and "consumeManagedAdminApproval ct rs lit cy nonce creq t1 q1 = (q2, res)" "NONCE_RE nonce"
    and "mc_actor creq = mr_actor req" "mc_targetId creq = mr_targetId req" "mc_approvalId creq = am_id a"
    and "trim (mc_confirmation creq) = ''APPROVE '' @ am_id a" "t1 \<le> t0 + 600000"
    and "requireDeviceCapability ct (ac_deviceId (am_action a)) t1 = Inr ()"
  shows "\<exists>r. res = Inr r \<and> tk_program (cs_ticket r) = ac_program (am_action a) \<and>
    tk_argv (cs_ticket r) = ac_argv (am_action a) \<and> tk_cwd (cs_ticket r) = ac_cwd (am_action a) \<and>
    tk_timeout_ms (cs_ticket r) = ac_timeoutMs (am_action a) \<and> tk_device_id (cs_ticket r) = ac_deviceId (am_action a)"
proof -
  from assms(1) obtain t act where t: "requireManagedAdminTarget ct rs (mr_targetId req) = Inr t"
    and sec: "\<exists>s. requireManagedAdminAuthSecret ct = Inr s"
    and act: "check_action lit t (mr_program req) (mr_argv req) (mr_cwd req) (mr_timeoutMs req) = Inr act"
    and a: "a = \<lparr>am_id = newApprovalId hex24, am_actor = mr_actor req, am_createdAt = t0,
        am_expiresAt = t0 + APPROVAL_TTL_MS, am_action = act\<rparr>"
    and q1: "q1 = AList.update (am_id a) a (purge_admin t0 q)"
    by (auto simp: prepareManagedAdminAction_def Let_def bindR_Inr_iff split: sum.splits)
  have ok1: "queue_ok am_id q1"
    unfolding q1 by (rule queue_ok_update) (use purge_admin_queue [OF assms(2)] in simp_all)
  have a1: "map_of (purge_admin t1 q1) (am_id a) = Some a"
    using assms(10) by (simp add: purge_admin_lookup [OF ok1]) (simp add: q1 a APPROVAL_TTL_MS_def)
  have ids: "tid t = mr_targetId req" "deviceId t = Some (ac_deviceId act)"
    using registry_load_schema [OF assms(3)] admin_target_Inr [OF t] check_action_Inr [OF act]
    by (auto simp: getTarget_def split: option.splits) (cases "deviceId t"; simp)
  obtain s where s: "requireManagedAdminAuthSecret ct = Inr s" using sec by blast
  let ?tk = "\<lparr>tk_target_id = mr_targetId req, tk_device_id = ac_deviceId act, tk_program = ac_program act,
    tk_argv = ac_argv act, tk_cwd = ac_cwd act, tk_timeout_ms = ac_timeoutMs act, tk_nonce = nonce,
    tk_issued_at = t1, tk_expires_at = t1 + TICKET_TTL_MS\<rparr>"
  have "ticket_ok ?tk" using consumed_ticket_ok [OF assms(3) t ids(2) act assms(5)] .
  then obtain sig where "signManagedAdminTicket lit (cy_sha256 cy) (cy_sign cy) ?tk s = Inr sig"
    using s by (auto simp: requireManagedAdminAuthSecret_def signManagedAdminTicket_def deriveManagedAdminPrivateKey_def
        seedFromSecret_def bindR_Inr_iff ensure_Inr_iff ticketBytes_ok)
  moreover have "ac_targetId act = mr_targetId req" using check_action_Inr [OF act] ids by simp
  ultimately have "res = Inr \<lparr>cs_approvalId = am_id a, cs_target = t, cs_ticket = ?tk, cs_signature = sig\<rparr>"
    using assms(4,6-9,11) a1 s t ids check_action_again [OF act]
    by (simp add: consumeManagedAdminApproval_def a requireApprovalConfirmation_def)
  then show ?thesis by (simp add: a)
qed

section \<open>An example\<close>

text \<open>A registry with one managed host, a prepared action and its consumption.\<close>

definition demo_admin_target :: target_config where
  "demo_admin_target = (demo_target ''ops-1'' Agent (Some ''dev_12345678''))\<lparr>capabilityProfile := Operator,
     allowedSemanticCapabilities := [MANAGED_ADMIN_CAPABILITY], allowedAdminPrograms := [''df''],
     allowedAdminCwds := [''/opt'']\<rparr>"

definition demo_admin_rs :: registry_state where
  "demo_admin_rs = \<lparr>rs_static = Targets [demo_admin_target], rs_dynamic = No_File,
     rs_registry = Some [(''ops-1'', demo_admin_target)]\<rparr>"

definition demo_lit :: "string \<Rightarrow> jnum" where
  "demo_lit s = NaN"

definition demo_admin_request :: admin_request where
  "demo_admin_request = \<lparr>mr_actor = ''me'', mr_targetId = ''ops-1'', mr_program = JStr ''df'',
     mr_argv = JArr [JStr ''-h'', JNum (NInt 5)], mr_cwd = JUndef, mr_timeoutMs = JStr '' 5000 ''\<rparr>"

definition demo_admin_queue :: admin_approvals where
  "demo_admin_queue = fst (prepareManagedAdminAction demo_control demo_admin_rs demo_lit ''2'' demo_admin_request 710000 [])"

definition demo_consume :: consume_request where
  "demo_consume = \<lparr>mc_actor = ''me'', mc_targetId = ''ops-1'', mc_approvalId = ''adm_2'', mc_confirmation = ''APPROVE adm_2''\<rparr>"

definition demo_crypto :: crypto where
  "demo_crypto = \<lparr>cy_sha256 = (\<lambda>s. s), cy_sign = (\<lambda>k m. replicate 86 CHR ''A'')\<rparr>"

definition demo_nonce :: string where
  "demo_nonce = replicate 48 CHR ''0''"

lemma demo_admin_facts:
  "loadRegistry demo_admin_rs = Inr demo_admin_rs" "queue_ok am_id demo_admin_queue" "NONCE_RE demo_nonce"
  by code_simp+

lemma demo_prepared:
  "\<exists>a. prepareManagedAdminAction demo_control demo_admin_rs demo_lit ''2'' demo_admin_request 710000 [] = (demo_admin_queue, Inr a) \<and>
     am_id a = ''adm_2'' \<and> ac_deviceId (am_action a) = ''dev_12345678''"
proof -
  let ?p = "prepareManagedAdminAction demo_control demo_admin_rs demo_lit ''2'' demo_admin_request 710000 []"
  have "(case snd ?p of Inl e \<Rightarrow> False | Inr a \<Rightarrow> am_id a = ''adm_2'' \<and> ac_deviceId (am_action a) = ''dev_12345678'')"
    by code_simp
  then show ?thesis by (auto simp: demo_admin_queue_def prod_eq_iff split: sum.splits)
qed

lemma demo_live: "requireDeviceCapability demo_control ''dev_12345678'' 720000 = Inr ()"
proof -
  have "is_ok (requireDeviceCapability demo_control ''dev_12345678'' 720000)" by code_simp
  then show ?thesis by (auto simp: is_ok_iff)
qed

lemma demo_confirmation: "trim (mc_confirmation demo_consume) = ''APPROVE '' @ ''adm_2''"
  by code_simp

lemma demo_match:
  "mc_actor demo_consume = mr_actor demo_admin_request" "mc_targetId demo_consume = mr_targetId demo_admin_request"
  "am_id a = ''adm_2'' \<Longrightarrow> mc_approvalId demo_consume = am_id a"
  "am_id a = ''adm_2'' \<Longrightarrow> trim (mc_confirmation demo_consume) = ''APPROVE '' @ am_id a"
  "ac_deviceId (am_action a) = ''dev_12345678'' \<Longrightarrow>
     requireDeviceCapability demo_control (ac_deviceId (am_action a)) 720000 = Inr ()"
  by (simp_all only: demo_confirmation demo_live) (simp_all add: demo_consume_def demo_admin_request_def)

lemma demo_consumed:
  "\<exists>q' r. consumeManagedAdminApproval demo_control demo_admin_rs demo_lit demo_crypto demo_nonce demo_consume 720000 demo_admin_queue
     = (q', Inr r)"
proof -
  obtain a where p: "prepareManagedAdminAction demo_control demo_admin_rs demo_lit ''2'' demo_admin_request 710000 [] =
      (demo_admin_queue, Inr a)" and a: "am_id a = ''adm_2''" "ac_deviceId (am_action a) = ''dev_12345678''"
    using demo_prepared by blast
  obtain q' res where c: "consumeManagedAdminApproval demo_control demo_admin_rs demo_lit demo_crypto demo_nonce demo_consume
      720000 demo_admin_queue = (q', res)" by force
  from prepared_consumable [OF p queue_ok_Nil demo_admin_facts(1) c demo_admin_facts(3) demo_match(1,2) demo_match(3) [OF a(1)]
      demo_match(4) [OF a(1)] _ demo_match(5) [OF a(2)]]
  have "\<exists>r. res = Inr r" by auto
  with c show ?thesis by blast
qed


theorem admin_approval_once_witness:
  "distinct (admin_queue.successes (map (\<lambda>(c, f). (c, apsnd f))
     [((demo_control, demo_lit, demo_crypto, demo_nonce, demo_consume, 720000), \<lambda>rs. rs),
      ((demo_control, demo_lit, demo_crypto, demo_nonce, demo_consume, 720001), \<lambda>rs. rs)])
       (demo_admin_queue, demo_admin_rs))"
  by (rule admin_approval_once) (simp add: filed_def demo_admin_facts)

text \<open>What was approved is what is run: an action prepared by an actor and consumed by the same actor within
  ten minutes, on the same registry and with the device still live, gives a ticket with exactly the
  prepared program, arguments, directory and timeout.\<close>

lemma prepared_action_is_ticketed:
  assumes "prepareManagedAdminAction ct rs lit hex24 req t0 q = (q1, Inr a)" "queue_ok am_id q" "loadRegistry rs = Inr rs"
    and "consumeManagedAdminApproval ct rs lit cy nonce creq t1 q1 = (q2, res)" "NONCE_RE nonce"
    and "mc_actor creq = mr_actor req" "mc_targetId creq = mr_targetId req" "mc_approvalId creq = am_id a"
    and "trim (mc_confirmation creq) = ''APPROVE '' @ am_id a" "t1 \<le> t0 + 600000"
    and "requireDeviceCapability ct (ac_deviceId (am_action a)) t1 = Inr ()"
  shows "\<exists>r. res = Inr r \<and> tk_program (cs_ticket r) = ac_program (am_action a) \<and>
    tk_argv (cs_ticket r) = ac_argv (am_action a) \<and> tk_cwd (cs_ticket r) = ac_cwd (am_action a) \<and>
    tk_timeout_ms (cs_ticket r) = ac_timeoutMs (am_action a) \<and> tk_device_id (cs_ticket r) = ac_deviceId (am_action a)"
  using assms by (rule prepared_consumable)

lemma prepared_action_is_ticketed_witness:
  "\<exists>a q2 r. prepareManagedAdminAction demo_control demo_admin_rs demo_lit ''2'' demo_admin_request 710000 [] = (demo_admin_queue, Inr a) \<and>
     consumeManagedAdminApproval demo_control demo_admin_rs demo_lit demo_crypto demo_nonce demo_consume 720000 demo_admin_queue
       = (q2, Inr r) \<and> tk_argv (cs_ticket r) = ac_argv (am_action a)"
proof -
  obtain a where p: "prepareManagedAdminAction demo_control demo_admin_rs demo_lit ''2'' demo_admin_request 710000 [] =
      (demo_admin_queue, Inr a)" and a: "am_id a = ''adm_2''" "ac_deviceId (am_action a) = ''dev_12345678''"
    using demo_prepared by blast
  obtain q2 r where c: "consumeManagedAdminApproval demo_control demo_admin_rs demo_lit demo_crypto demo_nonce demo_consume
      720000 demo_admin_queue = (q2, Inr r)" using demo_consumed by blast
  from prepared_action_is_ticketed [OF p queue_ok_Nil demo_admin_facts(1) c demo_admin_facts(3) demo_match(1,2)
      demo_match(3) [OF a(1)] demo_match(4) [OF a(1)] _ demo_match(5) [OF a(2)]]
  have "tk_argv (cs_ticket r) = ac_argv (am_action a)" by auto
  with p c show ?thesis by blast
qed

end
