(* ===== verification/Tools_Base.thy ===== *)
theory Tools_Base
  imports Portainer Schema Base64 Quote Baseline Admin_Approvals
begin

text \<open>
  The frame of \<^verbatim>\<open>src/tools/index.ts\<close>: what a tool is, the state its handler works on, and the helpers all
  handlers share. A handler returns the new state (only the approval tools change it, before they ask
  anything) and the tree of what it asks and returns. Prose notes of the results are shortened.
\<close>

section \<open>Tools\<close>

text \<open>The process a tool runs in: clock, random values, cryptography, the runtime's own functions (number
  grammar, comparison and quotient of doubles, dates, \<open>localeCompare\<close>, \<open>JSON.parse\<close>), the format checks of
  the schema library and the settings.\<close>

record tenv =
  te_now :: int
  te_hex24 :: string
  te_nonce :: string
  te_crypto :: crypto
  te_lit :: "string \<Rightarrow> jnum"
  te_less :: "jnum \<Rightarrow> jnum \<Rightarrow> bool"
  te_pct :: "jnum \<Rightarrow> jnum \<Rightarrow> jnum"
  te_human :: "string \<Rightarrow> string"
  te_trunc :: "string \<Rightarrow> nat"
  te_parse :: parser
  te_iso :: "int \<Rightarrow> string"
  te_locale :: "string \<Rightarrow> string \<Rightarrow> bool"
  te_uuid :: "string \<Rightarrow> bool"
  te_url :: "string \<Rightarrow> bool"
  te_mock :: bool
  te_MAX_LOG_LINES :: int
  te_READ_FILE_MAX_BYTES :: int
  te_MAX_OUTPUT_BYTES :: int
  te_PORTAINER_URL :: string

record tstate =
  ts_control :: control
  ts_registry :: registry_state
  ts_agent :: agent_approvals
  ts_admin :: admin_approvals
  ts_dh :: dh_queue

type_synonym args = "(string \<times> jval) list"
type_synonym handler = "tenv \<Rightarrow> string \<Rightarrow> args \<Rightarrow> tstate \<Rightarrow> tstate \<times> jval prog"

record tool =
  tl_name :: string
  tl_schema :: "tenv \<Rightarrow> shape"
  tl_mutation :: bool
  tl_destructive :: bool
  tl_idempotent :: "bool option"
  tl_run :: handler

definition read_tool :: "string \<Rightarrow> (tenv \<Rightarrow> shape) \<Rightarrow> handler \<Rightarrow> tool" where
  "read_tool n sh run = \<lparr>tl_name = n, tl_schema = sh, tl_mutation = False, tl_destructive = False, tl_idempotent = None, tl_run = run\<rparr>"

definition tool_of :: "string \<Rightarrow> (tenv \<Rightarrow> shape) \<Rightarrow> bool \<Rightarrow> bool \<Rightarrow> bool \<Rightarrow> handler \<Rightarrow> tool" where
  "tool_of n sh mutation destructive idempotent run =
    \<lparr>tl_name = n, tl_schema = sh, tl_mutation = mutation, tl_destructive = destructive, tl_idempotent = Some idempotent, tl_run = run\<rparr>"

text \<open>A handler that leaves the state alone.\<close>

definition pure_handler :: "(tenv \<Rightarrow> args \<Rightarrow> tstate \<Rightarrow> jval prog) \<Rightarrow> handler" where
  "pure_handler h env actor a st = (st, h env a st)"

definition jint :: "int \<Rightarrow> jval" where "jint i = JNum (NInt i)"
definition jnat :: "nat \<Rightarrow> jval" where "jnat n = JNum (NInt (int n))"

abbreviation use :: "exn + 'a \<Rightarrow> ('a \<Rightarrow> 'b prog) \<Rightarrow> 'b prog" where
  "use r f \<equiv> bindP (Ret r) f"

lemma holds_use [simp]: "holds P Q (case r of Inl e \<Rightarrow> Ret (Inl e) | Inr x \<Rightarrow> f x) = (\<forall>x. r = Inr x \<longrightarrow> holds P Q (f x))"
  by (cases r) auto

text \<open>Splitting at runs of white space (\<open>split(/\s+/)\<close>) and \<open>xs[i]\<close>.\<close>

function split_ws :: "string \<Rightarrow> string \<Rightarrow> string list" where
  "split_ws acc [] = [rev acc]"
| "split_ws acc (c # s) = (if is_ws c then rev acc # split_ws [] (dropWhile is_ws s) else split_ws (c # acc) s)"
  by pat_completeness auto
termination by (relation "measure (\<lambda>(acc, s). length s)") (auto simp: le_imp_less_Suc length_dropWhile_le)

definition item_at :: "string list \<Rightarrow> nat \<Rightarrow> jval" where
  "item_at xs i = (if i < length xs then JStr (xs ! i) else JUndef)"

text \<open>The first way, in the order of the backtracking matcher, in which the expressions cover the whole text.\<close>

fun covers :: "re list \<Rightarrow> char option \<Rightarrow> string \<Rightarrow> string list list" where
  "covers [] p s = (if s = [] then [[]] else [])"
| "covers (r # rs) p s = concat (map (\<lambda>n. map (Cons (take n s)) (covers rs (prev_at p s n) (drop n s))) (ends r p s))"

definition captures :: "re list \<Rightarrow> string \<Rightarrow> string list option" where
  "captures rs s = (case covers rs None s of [] \<Rightarrow> None | c # cs \<Rightarrow> Some c)"

section \<open>Shared helpers\<close>

definition target_enabled :: "tstate \<Rightarrow> target_config \<Rightarrow> bool" where
  "target_enabled st t = effectiveTargetEnabled (tid t) (enabled t) (ct_store (ts_control st))"

definition resolveTarget :: "tstate \<Rightarrow> jval \<Rightarrow> exn + target_config" where
  "resolveTarget st i = (case i of
     JStr s \<Rightarrow>
       bindR (ensure (s \<noteq> []) (OpsError INVALID_ARGUMENT)) (\<lambda>_.
       bindR (getTarget s (ts_registry st)) (\<lambda>found.
       (case found of
          None \<Rightarrow> Inl (OpsError TARGET_NOT_FOUND)
        | Some t \<Rightarrow> bindR (ensure (target_enabled st t) (OpsError TARGET_DISABLED)) (\<lambda>_. Inr t))))
   | _ \<Rightarrow> Inl (OpsError INVALID_ARGUMENT))"

definition baseline_json :: "capability_baseline \<Rightarrow> jval" where
  "baseline_json b = JObj
    [(''authority_class'', JStr (profile_text (cb_authority_class b))), (''transport'', JStr (transport_text (cb_transport b))),
     (''workspace_read_roots'', jnat (cb_workspace_read_roots b)), (''workspace_write_roots'', jnat (cb_workspace_write_roots b)),
     (''process_cwd_roots'', jnat (cb_process_cwd_roots b)), (''process_programs'', jnat (cb_process_programs b)),
     (''docker_read_containers'', jnat (cb_docker_read_containers b)), (''docker_exec_containers'', jnat (cb_docker_exec_containers b)),
     (''docker_actions'', jnat (cb_docker_actions b)), (''service_units'', jnat (cb_service_units b)),
     (''service_actions'', jnat (cb_service_actions b)), (''semantic_capabilities'', jnat (cb_semantic_capabilities b)),
     (''managed_admin'', JBool (cb_managed_admin b)), (''admin_programs'', jnat (cb_admin_programs b)),
     (''admin_cwd_roots'', jnat (cb_admin_cwd_roots b))]"

definition targetCapabilitySummary :: "tstate \<Rightarrow> target_config \<Rightarrow> jval" where
  "targetCapabilitySummary st t = JObj
    [(''id'', JStr (tid t)), (''environment'', JStr (environment_text (environment t))),
     (''capabilityProfile'', JStr (profile_text (capabilityProfile t))), (''transport'', JStr (transport_text (transport t))),
     (''enabled'', JBool (target_enabled st t)), (''capabilityBaseline'', baseline_json (describeTargetCapabilityBaseline t))]"

definition checkAllow :: "string list \<Rightarrow> string \<Rightarrow> error_code \<Rightarrow> exn + unit" where
  "checkAllow allowed v refusal = ensure (''*'' \<in> set allowed \<or> v \<in> set allowed) (OpsError refusal)"

definition requireExec :: "exec_result \<Rightarrow> exec_result prog" where
  "requireExec res = (if exit_code res = None then fail (OpsError SSH_UNAVAILABLE) else ret res)"

text \<open>\<open>/r/.test(s)\<close>: the expression matches at some place.\<close>

fun re_test_from :: "re \<Rightarrow> char option \<Rightarrow> string \<Rightarrow> bool" where
  "re_test_from r p [] = (ends r p [] \<noteq> [])"
| "re_test_from r p (c # s) = (ends r p (c # s) \<noteq> [] \<or> re_test_from r (Some c) s)"

definition re_test :: "re \<Rightarrow> string \<Rightarrow> bool" where
  "re_test r s = re_test_from r None s"

definition permission_denied :: re where
  "permission_denied = lit_i ''permission denied''"

definition docker_permission :: re where
  "docker_permission = alts [permission_denied, seq [lit_i ''permission'', Star (Cls (\<lambda>c. \<not> line_break c)), lit_i ''docker'']]"

definition exec_denied :: re where
  "exec_denied = alts [permission_denied, lit_i ''not_allowed'', lit_i ''denied'']"

definition dockerAccessError :: "exec_result \<Rightarrow> exn" where
  "dockerAccessError res =
    (if re_test docker_permission (stderr res) then OpsError DOCKER_ACCESS_DENIED else OpsError REMOTE_COMMAND_FAILED)"

definition journalAccessNote :: "exec_result \<Rightarrow> jval" where
  "journalAccessNote res =
    (if exit_code res = Some 0 \<and> trim (stdout res) = [] then JStr ''journal empty for this user''
     else if re_test permission_denied (stderr res) then JStr ''no journal permission'' else JUndef)"

text \<open>\<open>humanBytes\<close> on an integer is exact: the quotients by 1024 are, and \<open>toFixed\<close> rounds half up.\<close>

definition round_div :: "int \<Rightarrow> int \<Rightarrow> int" where
  "round_div n d = (2 * n + d) div (2 * d)"

fun human_scaled :: "int \<Rightarrow> int \<Rightarrow> string list \<Rightarrow> string" where
  "human_scaled n d [] = []"
| "human_scaled n d (u # us) =
    (if 1024 * d \<le> n \<and> us \<noteq> [] then human_scaled n (1024 * d) us
     else if 10 * d \<le> n \<or> d = 1 then int_text (round_div n d) @ '' '' @ u
     else int_text (round_div (10 * n) d div 10) @ ''.'' @ int_text (round_div (10 * n) d mod 10) @ '' '' @ u)"

definition humanBytes :: "tenv \<Rightarrow> jnum \<Rightarrow> string" where
  "humanBytes env n = (case n of
     NInt i \<Rightarrow> human_scaled i 1 [''B'', ''KiB'', ''MiB'', ''GiB'', ''TiB'']
   | NOther s \<Rightarrow> te_human env s)"

text \<open>Comparison, \<open>Math.min(Math.max(x, lo), hi)\<close> and \<open>x || d\<close> on numbers.\<close>

definition num_less :: "tenv \<Rightarrow> jnum \<Rightarrow> jnum \<Rightarrow> bool" where
  "num_less env x y = (case (x, y) of (NInt i, NInt j) \<Rightarrow> i < j | _ \<Rightarrow> te_less env x y)"

definition num_min :: "tenv \<Rightarrow> jnum \<Rightarrow> jnum \<Rightarrow> jnum" where
  "num_min env x y = (if x = NaN \<or> y = NaN then NaN else if num_less env y x then y else x)"

definition num_max :: "tenv \<Rightarrow> jnum \<Rightarrow> jnum \<Rightarrow> jnum" where
  "num_max env x y = (if x = NaN \<or> y = NaN then NaN else if num_less env x y then y else x)"

definition num_clamp :: "tenv \<Rightarrow> int \<Rightarrow> int \<Rightarrow> jnum \<Rightarrow> jnum" where
  "num_clamp env lo hi x = num_min env (num_max env x (NInt lo)) (NInt hi)"

definition num_truthy :: "jnum \<Rightarrow> bool" where
  "num_truthy n = (n \<noteq> NInt 0 \<and> n \<noteq> NaN)"

definition arg_num :: "tenv \<Rightarrow> jval \<Rightarrow> int \<Rightarrow> jnum" where
  "arg_num env v d = num_of (te_lit env) (or_default v (jint d))"

section \<open>Agent operations\<close>

definition opts :: "int option \<Rightarrow> int option \<Rightarrow> exec_options" where
  "opts timeout mx = \<lparr>xo_timeoutMs = timeout, xo_maxBytes = mx\<rparr>"

text \<open>\<open>res.stdout || "{}"\<close> read as JSON and redacted.\<close>

definition agent_value :: "tenv \<Rightarrow> answer \<Rightarrow> exn + jval" where
  "agent_value env a =
    bindR (exec_answer a) (\<lambda>res.
    bindR (ensure (exit_code res = Some 0) (OpsError REMOTE_COMMAND_FAILED)) (\<lambda>_.
    (case te_parse env (if stdout res = [] then ''{}'' else stdout res) of
       None \<Rightarrow> Inl (OpsError REMOTE_COMMAND_FAILED)
     | Some v \<Rightarrow> Inr (redactObject v))))"

definition agentJson :: "tenv \<Rightarrow> target_config \<Rightarrow> string \<Rightarrow> args \<Rightarrow> int \<Rightarrow> jval prog" where
  "agentJson env t op args timeoutMs =
    (if transport t \<noteq> Agent \<or> coalesce (deviceId t) [] = [] then fail (OpsError INVALID_ARGUMENT)
     else Ask (Operate (coalesce (deviceId t) []) op args (opts (Some timeoutMs) (Some (1024 * 1024))))
       (\<lambda>a. Ret (agent_value env a)))"

definition DEFAULT_AGENT_TIMEOUT :: int where "DEFAULT_AGENT_TIMEOUT = 15000"

text \<open>\<open>{...fs, ...v}\<close>\<close>

fun index_fields :: "nat \<Rightarrow> jval list \<Rightarrow> (string \<times> jval) list" where
  "index_fields n [] = []"
| "index_fields n (v # vs) = (nat_text n, v) # index_fields (Suc n) vs"

definition spread :: "(string \<times> jval) list \<Rightarrow> jval \<Rightarrow> jval" where
  "spread fs v = JObj (fold (\<lambda>(k, x) m. AList.update k x m)
    (case v of JObj gs \<Rightarrow> gs | JArr vs \<Rightarrow> index_fields 0 vs | JStr s \<Rightarrow> index_fields 0 (map (\<lambda>c. JStr [c]) s) | _ \<Rightarrow> []) fs)"

definition with_target :: "target_config \<Rightarrow> jval \<Rightarrow> jval" where
  "with_target t v = spread [(''target'', JStr (tid t))] v"

section \<open>Requirements\<close>

definition requireOperator :: "target_config \<Rightarrow> exn + unit" where
  "requireOperator t = ensure (capabilityProfile t = Operator) (OpsError INVALID_ARGUMENT)"

definition cap_char :: "char \<Rightarrow> bool" where
  "cap_char c = alnum_or ''_.+-'' c"

definition requireNamedCapability :: "string list \<Rightarrow> jval \<Rightarrow> exn + string" where
  "requireNamedCapability allowed v = (let item = str_or_empty v in
     bindR (ensure (re_class cap_char 1 100 item) (OpsError INVALID_ARGUMENT)) (\<lambda>_.
     bindR (ensure (''*'' \<in> set allowed \<or> item \<in> set allowed) (OpsError CAPABILITY_DENIED)) (\<lambda>_.
     Inr item)))"

definition requireAgentMutationTransport :: "target_config \<Rightarrow> exn + unit" where
  "requireAgentMutationTransport t = ensure (transport t = Agent) (OpsError CAPABILITY_DENIED)"

definition requireSemanticCapability :: "target_config \<Rightarrow> string \<Rightarrow> exn + unit" where
  "requireSemanticCapability t cap =
    bindR (ensure (transport t = Agent) (OpsError CAPABILITY_DENIED)) (\<lambda>_.
    bindR (requireNamedCapability (allowedSemanticCapabilities t) (JStr cap)) (\<lambda>_. Inr ()))"

definition requireOpenHandsExecutor :: "target_config \<Rightarrow> exn + unit" where
  "requireOpenHandsExecutor t =
    bindR (ensure (capabilityProfile t = Semantic_Operator) (OpsError CAPABILITY_DENIED)) (\<lambda>_.
    requireSemanticCapability t ''openhands.execute'')"

definition requireProgram :: "target_config \<Rightarrow> jval \<Rightarrow> exn + string" where
  "requireProgram t v = (let program = str_or_empty v in
     bindR (ensure (re_program program) (OpsError INVALID_ARGUMENT)) (\<lambda>_.
     bindR (ensure (program \<in> set (allowedProcessPrograms t)) (OpsError INVALID_ARGUMENT)) (\<lambda>_.
     Inr program)))"

definition image_char :: "char \<Rightarrow> bool" where
  "image_char c = alnum_or ''_./:@+-'' c"

definition matches_prefix :: "string list \<Rightarrow> string \<Rightarrow> bool" where
  "matches_prefix allowed_prefixes s = (allowed_prefixes \<noteq> [] \<and> list_ex (\<lambda>p. p = ''*'' \<or> starts_with s p) allowed_prefixes)"

definition requirePrefixCapability :: "string list \<Rightarrow> jval \<Rightarrow> exn + string" where
  "requirePrefixCapability allowed_prefixes v = (let item = str_or_empty v in
     bindR (ensure (re_head_class is_alnum image_char 0 199 item) (OpsError INVALID_ARGUMENT)) (\<lambda>_.
     bindR (ensure (matches_prefix allowed_prefixes item) (OpsError CAPABILITY_DENIED)) (\<lambda>_.
     Inr item)))"

definition requireCandidateName :: "string list \<Rightarrow> jval \<Rightarrow> exn + string" where
  "requireCandidateName allowed_prefixes v =
    bindR (assertIdentifier (str_or_empty v)) (\<lambda>name.
    bindR (ensure (matches_prefix allowed_prefixes name) (OpsError CAPABILITY_DENIED)) (\<lambda>_.
    Inr name))"

definition requireAllowedPort :: "tenv \<Rightarrow> int list \<Rightarrow> jval \<Rightarrow> exn + int" where
  "requireAllowedPort env ports v = (case int_such (\<lambda>n. 1 \<le> n \<and> n \<le> 65535) (num_of (te_lit env) v) of
     None \<Rightarrow> Inl (OpsError INVALID_ARGUMENT)
   | Some n \<Rightarrow> bindR (ensure (n \<in> set ports) (OpsError CAPABILITY_DENIED)) (\<lambda>_. Inr n))"

definition requirePaperclipSemantic :: "target_config \<Rightarrow> exn + unit" where
  "requirePaperclipSemantic t =
    bindR (requireOperator t) (\<lambda>_.
    bindR (requireAgentMutationTransport t) (\<lambda>_.
    checkAllow (allowedDockerExecContainers t) ''wandora-paperclip'' CONTAINER_NOT_ALLOWED))"

definition unwrapPaperclipResult :: "target_config \<Rightarrow> jval \<Rightarrow> exn + jval" where
  "unwrapPaperclipResult t v = bindR (get v ''result'') (\<lambda>result.
     Inr (case result of
       JObj fs \<Rightarrow> with_target t result
     | _ \<Rightarrow> JObj [(''target'', JStr (tid t)), (''result'', or_null result)]))"

text \<open>A handler starts by resolving its target.\<close>

definition on_target :: "(tenv \<Rightarrow> args \<Rightarrow> target_config \<Rightarrow> tstate \<Rightarrow> jval prog) \<Rightarrow> handler" where
  "on_target h = pure_handler (\<lambda>env a st. bindP (Ret (resolveTarget st (field a ''target''))) (\<lambda>t. h env a t st))"

section \<open>Schemas shared by the tools\<close>

definition targetField :: schema where
  "targetField = Z_String (len_between 1 64)"

definition paperclipGuid :: "tenv \<Rightarrow> schema" where
  "paperclipGuid env = Z_String (te_uuid env)"

definition optional_nullable :: "schema \<Rightarrow> schema" where
  "optional_nullable z = Z_Nullable (Z_Optional z)"

definition no_refine :: "(string \<times> jval) list \<Rightarrow> bool" where
  "no_refine fs = True"

definition name_char :: "char \<Rightarrow> bool" where
  "name_char c = alnum_or ''_.:-'' c"

definition tool_name_ok :: "string \<Rightarrow> bool" where
  "tool_name_ok s = (len_between 1 240 s \<and> list_all name_char s)"

definition paperclipActor :: "tenv \<Rightarrow> schema" where
  "paperclipActor env = Z_Strict
    [(''actorType'', Z_Enum [''agent'', ''user'', ''system'', ''plugin'']),
     (''actorId'', Z_Trimmed (len_between 1 240)),
     (''agentId'', optional_nullable (paperclipGuid env))] no_refine"

definition paperclipRunContext :: "tenv \<Rightarrow> schema" where
  "paperclipRunContext env = Z_Strict
    [(''heartbeatRunId'', optional_nullable (paperclipGuid env)),
     (''issueId'', optional_nullable (paperclipGuid env)),
     (''projectId'', optional_nullable (paperclipGuid env)),
     (''routineId'', optional_nullable (paperclipGuid env)),
     (''gatewayId'', optional_nullable (paperclipGuid env)),
     (''gatewayPublicId'', optional_nullable (Z_Trimmed (\<lambda>s. len_between 1 120 s \<and> list_all name_char s))),
     (''gatewayTokenId'', optional_nullable (paperclipGuid env)),
     (''clientSubjectType'', optional_nullable (Z_Enum [''gateway_client'', ''heartbeat_run'', ''board_user'', ''agent''])),
     (''clientSubjectId'', optional_nullable (Z_Trimmed (len_between 1 240))),
     (''clientName'', optional_nullable (Z_Trimmed (len_between 1 160))),
     (''externalClient'', optional_nullable Z_Bool)] no_refine"

definition paperclipPolicyRequest :: "tenv \<Rightarrow> schema" where
  "paperclipPolicyRequest env = Z_Strict
    [(''applicationId'', optional_nullable (paperclipGuid env)),
     (''connectionId'', optional_nullable (paperclipGuid env)),
     (''catalogEntryId'', optional_nullable (paperclipGuid env)),
     (''toolName'', Z_Trimmed (len_between 1 240)),
     (''arguments'', Z_Optional Z_Unknown),
     (''idempotencyKey'', optional_nullable (Z_Trimmed (len_between 1 512))),
     (''sideEffecting'', Z_Optional Z_Bool)] no_refine"

definition paperclipPolicySelectors :: "tenv \<Rightarrow> schema" where
  "paperclipPolicySelectors env = Z_Strict
    [(''agentId'', Z_Optional (paperclipGuid env)),
     (''connectionId'', Z_Optional (paperclipGuid env)),
     (''catalogEntryId'', Z_Optional (paperclipGuid env)),
     (''toolName'', Z_Optional (Z_Trimmed tool_name_ok)),
     (''toolNames'', Z_Optional (Z_Array 1 32 (Z_Trimmed tool_name_ok)))] (\<lambda>fs. fs \<noteq> [])"

definition paperclipRateLimitConfig :: schema where
  "paperclipRateLimitConfig = Z_Strict
    [(''limit'', Z_Int (int_between 1 1000)),
     (''windowSeconds'', Z_Int (int_between 1 86400)),
     (''keyBy'', Z_Array 1 4 (Z_Enum [''agent'', ''tool'', ''connection'']))] no_refine"

end
