(* ===== verification/Tools_Docker.thy ===== *)
theory Tools_Docker
  imports Tools_Base
begin

text \<open>
  The Docker tools of \<^verbatim>\<open>src/tools/index.ts\<close>: inventory and inspection, execution in a container, the
  allowlisted actions; and the semantic tools that go to the Docker proxy of the host: the pinned PostgreSQL
  verifier and the Paperclip operations.
\<close>

section \<open>Reading\<close>

text \<open>One line of \<open>docker ps --format json\<close>; \<open>null\<close> and malformed lines are kept as redacted text.\<close>

definition container_row :: "tenv \<Rightarrow> string \<Rightarrow> jval" where
  "container_row env l = (case te_parse env l of
     Some ob \<Rightarrow> if nullish ob then JObj [(''raw'', JStr (redactText l))] else JObj
       [(''id'', attr ob ''ID''), (''name'', attr ob ''Names''), (''image'', attr ob ''Image''), (''state'', attr ob ''State''),
        (''status'', attr ob ''Status''), (''ports'', or_default (attr ob ''Ports'') (JStr []))]
   | None \<Rightarrow> JObj [(''raw'', JStr (redactText l))])"

definition tool_docker_list :: tool where
  "tool_docker_list = read_tool ''docker_list'' (\<lambda>env. [(''target'', targetField)])
    (on_target (\<lambda>env a t st.
      if allowedDockerContainers t = [] then ret (JObj [(''target'', JStr (tid t)), (''count'', jint 0), (''containers'', JArr [])])
      else
        bindP (exec_on t [''docker'', ''ps'', ''-a'', ''--format'', ''{{json .}}''] no_options) (\<lambda>res.
        if exit_code res \<noteq> Some 0 then fail (dockerAccessError res)
        else
          let containers = map (container_row env) (take 100 (filter (\<lambda>l. trim l \<noteq> []) (split_on newline (stdout res))));
              scoped = filterDockerListByAllowlist containers (Some (allowedDockerContainers t)) in
          ret (JObj [(''target'', JStr (tid t)), (''count'', jnat (length scoped)), (''containers'', JArr scoped)]))))"

definition containerField :: schema where
  "containerField = Z_String (len_between 1 100)"

text \<open>The container argument: an identifier of the allowlist.\<close>

definition container_arg :: "string list \<Rightarrow> args \<Rightarrow> exn + string" where
  "container_arg allowed a =
    bindR (assertIdentifier (str_or_empty (field a ''container''))) (\<lambda>container.
    bindR (checkAllow allowed container CONTAINER_NOT_ALLOWED) (\<lambda>_. Inr container))"

definition first_line :: "string \<Rightarrow> string" where
  "first_line s = hd (split_on newline s)"

definition json_or_fail :: "tenv \<Rightarrow> string \<Rightarrow> exn + jval" where
  "json_or_fail env s = (case te_parse env s of None \<Rightarrow> Inl (OpsError REMOTE_COMMAND_FAILED) | Some v \<Rightarrow> Inr v)"

text \<open>\<open>state.Health?.Status ?? null\<close>\<close>

definition health_status :: "jval \<Rightarrow> jval" where
  "health_status state = or_null (attr (attr state ''Health'') ''Status'')"

definition tool_docker_health :: tool where
  "tool_docker_health = read_tool ''docker_health'' (\<lambda>env. [(''target'', targetField), (''container'', containerField)])
    (on_target (\<lambda>env a t st.
      use (container_arg (allowedDockerContainers t) a) (\<lambda>container.
      bindP (exec_on t [''docker'', ''inspect'', ''--format'', ''{{json .State}}'', container] no_options) (\<lambda>res.
      guardP (exit_code res = Some 0) (dockerAccessError res) (
      use (json_or_fail env (first_line (trim (stdout res)))) (\<lambda>state.
      use (get state ''Status'') (\<lambda>status.
      ret (JObj [(''target'', JStr (tid t)), (''container'', JStr container), (''status'', or_null status),
        (''running'', or_null (attr state ''Running'')), (''health'', health_status state),
        (''started_at'', or_null (attr state ''StartedAt'')), (''restart_count'', or_null (attr state ''RestartCount''))]))))))))"

text \<open>The environment of a container is cut out and its registry credentials are dropped before the rest is redacted.\<close>

definition without_env :: "jval \<Rightarrow> jval" where
  "without_env config = (case config of
     JObj fs \<Rightarrow> (case field fs ''Env'' of
         JArr vs \<Rightarrow> JObj (AList.update ''Env'' (JStr (''['' @ nat_text (length vs) @ '' variables REMOVED]'')) fs)
       | _ \<Rightarrow> config)
   | _ \<Rightarrow> config)"

definition sanitized_item :: "jval \<Rightarrow> exn + jval" where
  "sanitized_item item = bindR (get item ''AuthConfig'') (\<lambda>auth.
     Inr (redactObject (case item of
         JObj fs \<Rightarrow>
           (let fs1 = (if field fs ''Config'' = JUndef then fs else AList.update ''Config'' (without_env (field fs ''Config'')) fs) in
            JObj (if js_true auth then AList.delete ''AuthConfig'' fs1 else fs1))
       | _ \<Rightarrow> item)))"

definition tool_docker_inspect_safe :: tool where
  "tool_docker_inspect_safe = read_tool ''docker_inspect_safe'' (\<lambda>env. [(''target'', targetField), (''container'', containerField)])
    (on_target (\<lambda>env a t st.
      use (container_arg (allowedDockerContainers t) a) (\<lambda>container.
      bindP (exec_on t [''docker'', ''inspect'', container] no_options) (\<lambda>res.
      guardP (exit_code res = Some 0) (dockerAccessError res) (
      use (json_or_fail env (stdout res)) (\<lambda>items.
      use (mapR sanitized_item (list_items items)) (\<lambda>sanitized.
      ret (JObj [(''target'', JStr (tid t)), (''container'', JStr container), (''inspect'', JArr sanitized)]))))))))"

definition linesField :: "tenv \<Rightarrow> schema" where
  "linesField env = Z_Optional (Z_Coerce (int_between 1 (te_MAX_LOG_LINES env)))"

definition lines_arg :: "tenv \<Rightarrow> args \<Rightarrow> jnum" where
  "lines_arg env a = num_clamp env 1 (te_MAX_LOG_LINES env) (arg_num env (field a ''lines'') 100)"

definition code_value :: "exec_result \<Rightarrow> jval" where
  "code_value res = (case exit_code res of None \<Rightarrow> JNull | Some c \<Rightarrow> jint c)"

definition tool_docker_logs :: tool where
  "tool_docker_logs = read_tool ''docker_logs''
    (\<lambda>env. [(''target'', targetField), (''container'', containerField), (''lines'', linesField env)])
    (on_target (\<lambda>env a t st.
      use (assertIdentifier (str_or_empty (field a ''container''))) (\<lambda>container.
      let lines = lines_arg env a in
      use (checkAllow (allowedDockerContainers t) container CONTAINER_NOT_ALLOWED) (\<lambda>_.
      bindP (exec_on t [''docker'', ''logs'', ''--tail'', num_text lines, ''--timestamps'', container] no_options) (\<lambda>res.
      guardP (\<not> (exit_code res \<noteq> Some 0 \<and> re_test permission_denied (stderr res))) (dockerAccessError res)
        (ret (JObj [(''target'', JStr (tid t)), (''container'', JStr container), (''requested_lines'', JNum lines),
          (''exit_code'', code_value res), (''truncated'', JBool (truncated res)),
          (''output'', JStr (redactText (stdout res @ (if stderr res \<noteq> [] then newline # ''[stderr]'' @ newline # stderr res else []))))])))))))"

section \<open>Acting\<close>

definition str_args :: "jval \<Rightarrow> string list" where
  "str_args v = (case v of JArr vs \<Rightarrow> map str_of vs | _ \<Rightarrow> [])"

definition argsField :: schema where
  "argsField = Z_Optional (Z_Array 0 80 (Z_String (len_between 0 16384)))"

definition command_timeout :: "target_config \<Rightarrow> int" where
  "command_timeout t = coalesce (commandTimeoutMs t) 30000"

definition tool_docker_exec :: tool where
  "tool_docker_exec = tool_of ''docker_exec''
    (\<lambda>env. [(''target'', targetField), (''container'', containerField), (''program'', Z_String (len_between 1 80)), (''args'', argsField)])
    True True False
    (on_target (\<lambda>env a t st.
      use (requireOperator t) (\<lambda>_.
      use (requireAgentMutationTransport t) (\<lambda>_.
      use (container_arg (allowedDockerExecContainers t) a) (\<lambda>container.
      use (requireNamedCapability (allowedDockerExecPrograms t) (field a ''program'')) (\<lambda>program.
      bindP (exec_on t ([''docker'', ''exec'', container, program] @ str_args (field a ''args''))
          (opts (Some (command_timeout t)) (Some (te_MAX_OUTPUT_BYTES env)))) (\<lambda>res.
      guardP (\<not> (exit_code res \<noteq> Some 0 \<and> re_test exec_denied (stderr res))) (dockerAccessError res)
        (ret (JObj [(''target'', JStr (tid t)), (''container'', JStr container), (''program'', JStr program),
          (''exit_code'', code_value res), (''timed_out'', JBool (timedOut res)), (''truncated'', JBool (truncated res)),
          (''stdout'', JStr (redactText (stdout res))), (''stderr'', JStr (redactText (stderr res)))])))))))))"

text \<open>The three kinds of action besides start, stop and restart.\<close>

definition load_image :: "tenv \<Rightarrow> args \<Rightarrow> target_config \<Rightarrow> string \<Rightarrow> jval prog" where
  "load_image env a t action =
    use (assertConfiguredPath (str_or_empty (field a ''path'')) (allowedDockerImageLoadRoots t)) (\<lambda>path.
    guardP (ends_with path ''.tar'') (OpsError INVALID_ARGUMENT) (
    bindP (agentJson env t ''docker.image_load'' [(''path'', JStr path)] 120000) (\<lambda>v.
    ret (spread [(''target'', JStr (tid t)), (''action'', JStr action)] v))))"

definition candidate_run :: "tenv \<Rightarrow> args \<Rightarrow> target_config \<Rightarrow> string \<Rightarrow> jval prog" where
  "candidate_run env a t action =
    use (requireCandidateName (allowedDockerCandidateNamePrefixes t) (field a ''name'')) (\<lambda>name.
    use (requirePrefixCapability (allowedDockerCandidateImagePrefixes t) (field a ''image'')) (\<lambda>image.
    use (requireNamedCapability (allowedDockerCandidateNetworks t) (field a ''network'')) (\<lambda>network.
    use (requireAllowedPort env (allowedDockerCandidateHostPorts t) (field a ''host_port'')) (\<lambda>hostPort.
    use (requireAllowedPort env (allowedDockerCandidateContainerPorts t) (field a ''container_port'')) (\<lambda>containerPort.
    bindP (agentJson env t ''docker.candidate_run''
      [(''name'', JStr name), (''image'', JStr image), (''network'', JStr network), (''hostPort'', jint hostPort),
       (''containerPort'', jint containerPort)] 60000) (\<lambda>v.
    ret (spread [(''target'', JStr (tid t)), (''action'', JStr action)] v)))))))"

definition candidate_remove :: "tenv \<Rightarrow> args \<Rightarrow> target_config \<Rightarrow> string \<Rightarrow> jval prog" where
  "candidate_remove env a t action =
    use (requireCandidateName (allowedDockerCandidateNamePrefixes t) (field a ''name'')) (\<lambda>name.
    bindP (agentJson env t ''docker.candidate_remove'' [(''name'', JStr name)] 30000) (\<lambda>v.
    ret (spread [(''target'', JStr (tid t)), (''action'', JStr action)] v)))"

definition container_action :: "tenv \<Rightarrow> args \<Rightarrow> target_config \<Rightarrow> string \<Rightarrow> jval prog" where
  "container_action env a t action =
    use (container_arg (allowedDockerContainers t) a) (\<lambda>container.
    bindP (exec_on t [''docker'', action, container] (opts (Some (command_timeout t)) None)) (\<lambda>res.
    guardP (exit_code res = Some 0) (dockerAccessError res)
      (ret (JObj [(''target'', JStr (tid t)), (''container'', JStr container), (''action'', JStr action), (''status'', JStr ''ok''),
        (''output'', JStr (redactText (stdout res)))]))))"

definition tool_docker_action :: tool where
  "tool_docker_action = tool_of ''docker_action''
    (\<lambda>env. [(''target'', targetField),
       (''action'', Z_Enum [''start'', ''stop'', ''restart'', ''load_image'', ''candidate_run'', ''candidate_remove'']),
       (''container'', Z_Optional containerField), (''path'', Z_Optional (Z_String (len_between 1 1024))),
       (''name'', Z_Optional (Z_String (len_between 1 100))), (''image'', Z_Optional (Z_String (len_between 1 200))),
       (''network'', Z_Optional (Z_String (len_between 1 100))), (''host_port'', Z_Optional (Z_Int (int_between 1024 65535))),
       (''container_port'', Z_Optional (Z_Int (int_between 1 65535)))])
    True True False
    (on_target (\<lambda>env a t st.
      use (requireOperator t) (\<lambda>_.
      use (requireAgentMutationTransport t) (\<lambda>_.
      use (requireNamedCapability (map docker_action_text (allowedDockerActions t)) (field a ''action'')) (\<lambda>action.
      if action \<in> {''start'', ''stop'', ''restart''} then container_action env a t action
      else if action = ''load_image'' then load_image env a t action
      else if action = ''candidate_run'' then candidate_run env a t action
      else if action = ''candidate_remove'' then candidate_remove env a t action
      else fail (OpsError INVALID_ARGUMENT))))))"

section \<open>PostgreSQL and Paperclip\<close>

definition verifier_head :: "char \<Rightarrow> bool" where "verifier_head c = (is_lower c \<or> is_digit c)"
definition verifier_char :: "char \<Rightarrow> bool" where "verifier_char c = (is_lower c \<or> is_digit c \<or> c \<in> set ''_.-'')"

definition tool_postgres_pinned_verifier_readback :: tool where
  "tool_postgres_pinned_verifier_readback = tool_of ''postgres_pinned_verifier_readback''
    (\<lambda>env. [(''target'', targetField), (''verifier_id'', Z_String (re_head_class verifier_head verifier_char 1 79)),
       (''sql'', Z_String (len_between 1 (128 * 1024)))])
    False False True
    (on_target (\<lambda>env a t st.
      use (requireSemanticCapability t ''postgres.pinned_readback'') (\<lambda>_.
      bindP (agentJson env t ''postgres.pinned_readback''
        [(''verifierId'', JStr (str_of (field a ''verifier_id''))), (''sql'', JStr (str_of (field a ''sql'')))] 30000) (\<lambda>v.
      ret (with_target t v)))))"

text \<open>Every Paperclip tool sends one operation and unwraps its result.\<close>

definition paperclip_call :: "(tenv \<Rightarrow> args \<Rightarrow> args) \<Rightarrow> string \<Rightarrow> handler" where
  "paperclip_call mk op = on_target (\<lambda>env a t st.
     use (requirePaperclipSemantic t) (\<lambda>_.
     bindP (agentJson env t op (mk env a) 20000) (\<lambda>v. Ret (unwrapPaperclipResult t v))))"

definition str_field :: "args \<Rightarrow> string \<Rightarrow> jval" where
  "str_field a k = JStr (str_of (field a k))"

definition tool_paperclip_task_drain_status :: tool where
  "tool_paperclip_task_drain_status = tool_of ''paperclip_task_drain_status'' (\<lambda>env. [(''target'', targetField)]) False False True
    (paperclip_call (\<lambda>env a. []) ''paperclip.task_drain_status'')"

definition tool_paperclip_tool_policies_list :: tool where
  "tool_paperclip_tool_policies_list = tool_of ''paperclip_tool_policies_list''
    (\<lambda>env. [(''target'', targetField), (''company_id'', paperclipGuid env)]) False False True
    (paperclip_call (\<lambda>env a. [(''companyId'', str_field a ''company_id'')]) ''paperclip.tool_policies_list'')"

definition tool_paperclip_tool_connection_activity_safe :: tool where
  "tool_paperclip_tool_connection_activity_safe = tool_of ''paperclip_tool_connection_activity_safe''
    (\<lambda>env. [(''target'', targetField), (''company_id'', paperclipGuid env), (''connection_id'', paperclipGuid env),
       (''limit'', Z_Default (jint 20) (Z_Int (int_between 1 100))), (''run_id'', paperclipGuid env),
       (''tool_name'', Z_Trimmed tool_name_ok)]) False False True
    (paperclip_call (\<lambda>env a. [(''companyId'', str_field a ''company_id''), (''connectionId'', str_field a ''connection_id''),
       (''limit'', JNum (arg_num env (field a ''limit'') 20)), (''runId'', str_field a ''run_id''), (''toolName'', str_field a ''tool_name'')])
     ''paperclip.tool_connection_activity_safe'')"

definition tool_paperclip_tool_policy_test :: tool where
  "tool_paperclip_tool_policy_test = tool_of ''paperclip_tool_policy_test''
    (\<lambda>env. [(''target'', targetField), (''company_id'', paperclipGuid env), (''actor'', paperclipActor env),
       (''run_context'', optional_nullable (paperclipRunContext env)), (''request'', paperclipPolicyRequest env)]) False False True
    (paperclip_call (\<lambda>env a. [(''companyId'', str_field a ''company_id''), (''actor'', field a ''actor''),
       (''runContext'', or_null (field a ''run_context'')), (''request'', field a ''request'')]) ''paperclip.tool_policy_test'')"

definition tool_paperclip_task_drain_start :: tool where
  "tool_paperclip_task_drain_start = tool_of ''paperclip_task_drain_start''
    (\<lambda>env. [(''target'', targetField), (''ttl_ms'', Z_Int (int_between 1 86400000))]) True False False
    (paperclip_call (\<lambda>env a. [(''ttlMs'', JNum (num_of (te_lit env) (field a ''ttl_ms'')))]) ''paperclip.task_drain_start'')"

definition tool_paperclip_task_drain_stop :: tool where
  "tool_paperclip_task_drain_stop = tool_of ''paperclip_task_drain_stop'' (\<lambda>env. [(''target'', targetField)]) True False True
    (paperclip_call (\<lambda>env a. []) ''paperclip.task_drain_stop'')"

definition tool_paperclip_tool_policy_create :: tool where
  "tool_paperclip_tool_policy_create = tool_of ''paperclip_tool_policy_create''
    (\<lambda>env. [(''target'', targetField), (''company_id'', paperclipGuid env), (''name'', Z_Trimmed (len_between 1 160)),
       (''description'', optional_nullable (Z_String (len_between 0 4000))), (''policy_type'', Z_Enum [''block'', ''rate_limit'']),
       (''priority'', Z_Default (jint 100) (Z_Int (int_between 0 10000))), (''selectors'', paperclipPolicySelectors env),
       (''config'', optional_nullable paperclipRateLimitConfig)]) True False False
    (paperclip_call (\<lambda>env a. [(''companyId'', str_field a ''company_id''), (''name'', str_field a ''name''),
       (''description'', or_null (field a ''description'')), (''policyType'', str_field a ''policy_type''),
       (''priority'', JNum (arg_num env (field a ''priority'') 100)), (''selectors'', field a ''selectors''),
       (''config'', or_null (field a ''config''))]) ''paperclip.tool_policy_create'')"

definition tool_paperclip_tool_policy_delete :: tool where
  "tool_paperclip_tool_policy_delete = tool_of ''paperclip_tool_policy_delete''
    (\<lambda>env. [(''target'', targetField), (''company_id'', paperclipGuid env), (''policy_id'', paperclipGuid env),
       (''expected_name'', Z_Trimmed (len_between 1 160))]) True True False
    (paperclip_call (\<lambda>env a. [(''companyId'', str_field a ''company_id''), (''policyId'', str_field a ''policy_id''),
       (''expectedName'', str_field a ''expected_name'')]) ''paperclip.tool_policy_delete'')"

end
