(* ===== verification/Tools_Host.thy ===== *)
theory Tools_Host
  imports Tools_Base
begin

text \<open>
  The tools of \<^verbatim>\<open>src/tools/index.ts\<close> on the server itself, on targets and approvals, and on the basic state
  of a host.
\<close>

section \<open>The server and its targets\<close>

definition tool_health :: tool where
  "tool_health = read_tool ''health'' (\<lambda>env. [])
    (pure_handler (\<lambda>env a st. use (targetIds (ts_registry st)) (\<lambda>ids.
      ret (JObj [(''status'', JStr ''ok''), (''service'', JStr ''remote-ops-mcp''), (''version'', JStr ''2.0.0-dev''),
        (''authMode'', JStr (if ct_oauth (ts_control st) then ''oauth'' else ''noauth'')), (''mockMode'', JBool (te_mock env)),
        (''targets'', jstrs ids)]))))"

definition tool_targets_list :: tool where
  "tool_targets_list = read_tool ''targets_list'' (\<lambda>env. [])
    (pure_handler (\<lambda>env a st. use (listTargets (ts_registry st)) (\<lambda>ts.
      ret (JObj [(''targets'', JArr (map (\<lambda>t. JObj
        [(''id'', JStr (tid t)), (''environment'', JStr (environment_text (environment t))),
         (''capabilityProfile'', JStr (profile_text (capabilityProfile t))), (''transport'', JStr (transport_text (transport t))),
         (''enabled'', JBool (target_enabled st t))]) ts))]))))"

definition tool_target_status :: tool where
  "tool_target_status = read_tool ''target_status''
    (\<lambda>env. [(''target'', targetField), (''detail'', Z_Optional (Z_Enum [''summary'', ''full'']))])
    (on_target (\<lambda>env a t st.
      ret (if field a ''detail'' = JStr ''full'' then publicTarget t else targetCapabilitySummary st t)))"

section \<open>Approvals\<close>

definition environment_of :: "string \<Rightarrow> environment" where
  "environment_of s = (if s = ''staging'' then Staging else if s = ''development'' then Development else Production)"

definition preset_names :: "(string \<times> preset) list" where
  "preset_names = [(''operator-workspace'', Operator_Workspace), (''read-only'', Preset_Read_Only), (''openhands-read'', Openhands_Read),
     (''openhands-execute'', Openhands_Execute), (''postgres-readback'', Postgres_Readback), (''managed-admin'', Managed_Admin),
     (''deepharness-semantic-lab'', Deepharness_Semantic_Lab)]"

definition preset_of :: "string \<Rightarrow> preset" where
  "preset_of s = coalesce (map_of preset_names s) Operator_Workspace"

definition preset_text :: "preset \<Rightarrow> string" where
  "preset_text p = coalesce (map_of (map prod.swap preset_names) p) []"

text \<open>The handlers of the approval tools run the operation on the state and return its value.\<close>

definition tool_target_agent_prepare :: tool where
  "tool_target_agent_prepare = tool_of ''target_agent_prepare''
    (\<lambda>env. [(''target_id'', Z_String re_target_id), (''device_id'', Z_String re_device_id),
       (''environment'', Z_Default (JStr ''production'') (Z_Enum [''production'', ''staging'', ''development''])),
       (''preset'', Z_Default (JStr ''operator-workspace'') (Z_Enum (map fst preset_names)))])
    True False False
    (\<lambda>env actor a st.
      let (q, r) = prepareAgentTarget (ts_control st) (te_hex24 env)
            \<lparr>ar_actor = actor, ar_targetId = str_of (field a ''target_id''), ar_deviceId = str_of (field a ''device_id''),
             ar_environment = environment_of (str_of (or_default (field a ''environment'') (JStr ''production''))),
             ar_preset = preset_of (str_of (or_default (field a ''preset'') (JStr ''operator-workspace'')))\<rparr>
            (te_now env) (ts_agent st)
      in (st\<lparr>ts_agent := q\<rparr>, use r (\<lambda>p. ret (JObj
        [(''approval_id'', JStr (ag_approval_id p)), (''expires_at'', JStr (te_iso env (ag_expires_at p))),
         (''target_id'', JStr (ag_target_id p)), (''device_id'', JStr (ag_device_id p)), (''device_name'', JStr (ag_device_name p)),
         (''preset'', JStr (preset_text (ag_preset p))), (''capability_baseline'', baseline_json (ag_baseline p)),
         (''required_confirmation'', JStr (ag_required_confirmation p)), (''applied'', JBool False)]))))"

definition re_approval_id :: "string \<Rightarrow> bool" where
  "re_approval_id = re_marked ''adm_'' hex_char 24 24"

definition approval_shape :: "tenv \<Rightarrow> shape" where
  "approval_shape env = [(''approval_id'', Z_String re_approval_id), (''confirmation'', Z_String (len_between 1 80))]"

definition apply_of :: "string \<Rightarrow> args \<Rightarrow> apply_request" where
  "apply_of actor a = \<lparr>aq_actor = actor, aq_approvalId = str_of (field a ''approval_id''),
     aq_confirmation = str_of (field a ''confirmation'')\<rparr>"

definition tool_target_agent_apply :: tool where
  "tool_target_agent_apply = tool_of ''target_agent_apply'' approval_shape True False False
    (\<lambda>env actor a st.
      let ((q, rs), r) = applyAgentTargetApproval (ts_control st) (te_locale env) (te_now env) (apply_of actor a)
            (ts_agent st, ts_registry st);
          st' = st\<lparr>ts_agent := q, ts_registry := rs\<rparr>
      in (st', use r (\<lambda>applied. use (resolveTarget st' (JStr (str_or_empty (attr (aa_target applied) ''id'')))) (\<lambda>t.
        ret (JObj [(''approval_id'', JStr (aa_approval_id applied)), (''applied'', JBool True),
          (''target'', targetCapabilitySummary st' t)])))))"

definition tool_deepharness_docker_read_prepare :: tool where
  "tool_deepharness_docker_read_prepare = tool_of ''deepharness_docker_read_prepare'' (\<lambda>env. []) True False False
    (\<lambda>env actor a st.
      let (q, r) = prepareDeepharnessDockerRead (ts_control st) (te_hex24 env) actor (te_now env) (ts_registry st) (ts_dh st)
      in (st\<lparr>ts_dh := q\<rparr>, use r (\<lambda>(i, expires). ret (JObj
        [(''approval_id'', JStr i), (''expires_at'', JStr (te_iso env expires)), (''target_id'', JStr DH_TARGET),
         (''allowed_docker_containers'', jstrs DH_CONTAINERS), (''docker_exec'', JBool False), (''docker_mutations'', JBool False),
         (''host_proxy_update_required'', JBool True), (''required_confirmation'', JStr (''APPROVE '' @ i)), (''applied'', JBool False)]))))"

definition tool_deepharness_docker_read_apply :: tool where
  "tool_deepharness_docker_read_apply = tool_of ''deepharness_docker_read_apply'' approval_shape True False False
    (\<lambda>env actor a st.
      let ((q, rs), r) = applyDeepharnessDockerRead (ts_control st) (te_locale env) (te_now env) (apply_of actor a)
            (ts_dh st, ts_registry st)
      in (st\<lparr>ts_dh := q, ts_registry := rs\<rparr>, use r (\<lambda>containers. ret (JObj
        [(''applied'', JBool True), (''target_id'', JStr DH_TARGET), (''allowed_docker_containers'', jstrs containers),
         (''host_proxy_update_required'', JBool True)]))))"

definition tool_host_admin_prepare :: tool where
  "tool_host_admin_prepare = tool_of ''host_admin_prepare''
    (\<lambda>env. [(''target'', targetField), (''program'', Z_String re_program),
       (''args'', Z_Optional (Z_Array 0 80 (Z_String (len_between 0 16384)))),
       (''cwd'', Z_Optional (Z_String (len_between 1 1024))), (''timeout_ms'', Z_Optional (Z_Coerce (int_between 1000 120000)))])
    True False False
    (\<lambda>env actor a st.
      let (q, r) = prepareManagedAdminAction (ts_control st) (ts_registry st) (te_lit env) (te_hex24 env)
            \<lparr>mr_actor = actor, mr_targetId = str_of (field a ''target''), mr_program = field a ''program'', mr_argv = field a ''args'',
             mr_cwd = field a ''cwd'', mr_timeoutMs = field a ''timeout_ms''\<rparr> (te_now env) (ts_admin st)
      in (st\<lparr>ts_admin := q\<rparr>, use r (\<lambda>p. let x = am_action p in ret (JObj
        [(''approval_id'', JStr (am_id p)), (''expires_at'', JStr (te_iso env (am_expiresAt p))),
         (''target_id'', JStr (ac_targetId x)), (''device_id'', JStr (ac_deviceId x)), (''program'', JStr (ac_program x)),
         (''argv_preview'', jstrs (map redactText (ac_argv x))), (''cwd'', JStr (ac_cwd x)), (''timeout_ms'', jint (ac_timeoutMs x)),
         (''required_confirmation'', JStr (''APPROVE '' @ am_id p)), (''executed'', JBool False)]))))"

definition tool_host_admin_apply :: tool where
  "tool_host_admin_apply = tool_of ''host_admin_apply'' (\<lambda>env. (''target'', targetField) # approval_shape env) True True False
    (\<lambda>env actor a st.
      let (q, r) = consumeManagedAdminApproval (ts_control st) (ts_registry st) (te_lit env) (te_crypto env) (te_nonce env)
            \<lparr>mc_actor = actor, mc_targetId = str_of (field a ''target''), mc_approvalId = str_of (field a ''approval_id''),
             mc_confirmation = str_of (field a ''confirmation'')\<rparr> (te_now env) (ts_admin st)
      in (st\<lparr>ts_admin := q\<rparr>, use r (\<lambda>approved.
        bindP (agentJson env (cs_target approved) ''host.managed_admin''
            [(''ticket'', ticket_value (cs_ticket approved)), (''signature'', JStr (cs_signature approved))]
            (min (tk_timeout_ms (cs_ticket approved) + 5000) 120000)) (\<lambda>result.
        use (get result ''exit_code'') (\<lambda>exit.
        guardP (exit = JNum (NInt 0) \<and> attr result ''timed_out'' \<noteq> JBool True) (OpsError REMOTE_COMMAND_FAILED)
          (ret (JObj [(''target'', JStr (tid (cs_target approved))), (''approval_id'', JStr (cs_approvalId approved)),
            (''executed'', JBool True), (''result'', result)])))))))"

section \<open>The host\<close>

text \<open>\<open>x?.stdout.trim()\<close> of a caught command.\<close>

definition opt_trim :: "exec_result option \<Rightarrow> jval" where
  "opt_trim r = (case r of None \<Rightarrow> JUndef | Some x \<Rightarrow> JStr (trim (stdout x)))"

definition caught :: "target_config \<Rightarrow> string list \<Rightarrow> exec_result option prog" where
  "caught t argv = catchP (exec_on t argv no_options)"

definition tool_host_status :: tool where
  "tool_host_status = read_tool ''host_status'' (\<lambda>env. [(''target'', targetField)])
    (on_target (\<lambda>env a t st.
      bindP (exec_on t [''hostname''] no_options) (\<lambda>hostname.
      bindP (requireExec hostname) (\<lambda>_.
      bindP (caught t [''uname'', ''-srm'']) (\<lambda>kernel.
      bindP (caught t [''cat'', ''/proc/loadavg'']) (\<lambda>load.
      bindP (caught t [''uptime'', ''-p'']) (\<lambda>up.
      bindP (caught t [''head'', ''-n'', ''5'', ''/etc/os-release'']) (\<lambda>os.
      let loadParts = split_ws [] (trim (case load of None \<Rightarrow> [] | Some l \<Rightarrow> stdout l)) in
      ret (JObj [(''target'', JStr (tid t)), (''hostname'', JStr (trim (stdout hostname))), (''kernel'', opt_trim kernel),
        (''load'', JObj [(''one'', item_at loadParts 0), (''five'', item_at loadParts 1), (''fifteen'', item_at loadParts 2)]),
        (''uptime'', opt_trim up), (''os'', opt_trim os), (''duration_ms'', jint (durationMs hostname))])))))))))"

definition dot :: "char \<Rightarrow> bool" where
  "dot c = (\<not> line_break c)"

definition size_re :: re where
  "size_re = Seq (one_up (Cls (\<lambda>c. is_digit c \<or> c = CHR ''.''))) (opt (Cls (among ''KMGTPE'')))"

definition df_line :: "re list" where
  "df_line = (let gap = one_up (Cls is_ws) in
    [Seq (Cls dot) (Lazy (Cls dot)), gap, size_re, gap, size_re, gap, size_re, gap, Seq (one_up (Cls is_digit)) (lit_re ''%''), gap,
     one_up (Cls dot)])"

definition df_row :: "string \<Rightarrow> (string \<times> jval) list option" where
  "df_row line = (case captures df_line (trim line) of
     Some [fs, g1, sz, g2, us, g3, av, g4, pct, g5, mnt] \<Rightarrow>
       Some [(''filesystem'', JStr fs), (''size'', JStr sz), (''used'', JStr us), (''avail'', JStr av), (''use'', JStr pct),
         (''mounted_on'', JStr mnt)]
   | _ \<Rightarrow> None)"

definition tool_disk_usage :: tool where
  "tool_disk_usage = read_tool ''disk_usage'' (\<lambda>env. [(''target'', targetField)])
    (on_target (\<lambda>env a t st.
      bindP (exec_on t [''df'', ''-hP''] no_options) (\<lambda>out.
      bindP (requireExec out) (\<lambda>res.
      let rows = List.map_filter df_row (tl (split_on newline (stdout res)));
          root = List.find (\<lambda>r. field r ''mounted_on'' = JStr ''/'') rows in
      ret (JObj [(''target'', JStr (tid t)), (''root_summary'', (case root of None \<Rightarrow> JNull | Some r \<Rightarrow> JObj r)),
        (''filesystems'', JArr (map JObj rows)), (''truncated'', JBool (truncated res))])))))"

text \<open>The numbers of the columns after the first, of a line that may be missing.\<close>

definition free_cols :: "tenv \<Rightarrow> string option \<Rightarrow> jnum list" where
  "free_cols env line = (case line of
     None \<Rightarrow> [] | Some l \<Rightarrow> map (num_of_text (te_lit env)) (tl (split_ws [] l)))"

definition num_at :: "jnum list \<Rightarrow> nat \<Rightarrow> int \<Rightarrow> jnum" where
  "num_at xs i d = (if i < length xs then xs ! i else NInt d)"

definition free_line :: "string \<Rightarrow> string \<Rightarrow> string option" where
  "free_line mark out = List.find (\<lambda>l. starts_with l mark) (split_on newline out)"

definition tool_memory_status :: tool where
  "tool_memory_status = read_tool ''memory_status'' (\<lambda>env. [(''target'', targetField)])
    (on_target (\<lambda>env a t st.
      bindP (exec_on t [''free'', ''-b''] no_options) (\<lambda>out.
      bindP (requireExec out) (\<lambda>res.
      let m = free_cols env (free_line ''Mem:'' (stdout res));
          s = free_cols env (free_line ''Swap:'' (stdout res));
          available = (if 6 < length m then m ! 6 else num_at m 2 0);
          mem = (if 4 \<le> length m then JObj
              [(''total'', JNum (m ! 0)), (''used'', JNum (m ! 1)), (''free'', JNum (m ! 2)), (''available'', JNum available),
               (''used_pct'', JNum (te_pct env (m ! 1) (m ! 0))),
               (''total_human'', JStr (humanBytes env (m ! 0))), (''used_human'', JStr (humanBytes env (m ! 1))),
               (''available_human'', JStr (humanBytes env available))]
            else JNull);
          swap = JObj [(''total'', JNum (num_at s 0 0)), (''used'', JNum (num_at s 1 0)), (''free'', JNum (num_at s 2 0)),
            (''used_pct'', JNum (if 3 \<le> length s \<and> num_less env (NInt 0) (s ! 0) then te_pct env (s ! 1) (s ! 0) else NInt 0))] in
      ret (JObj [(''target'', JStr (tid t)), (''mem'', mem), (''swap'', swap)])))))"

text \<open>Both commands are started before either answer is read.\<close>

definition tool_uptime :: tool where
  "tool_uptime = read_tool ''uptime'' (\<lambda>env. [(''target'', targetField)])
    (on_target (\<lambda>env a t st.
      Ask (Exec t [''uptime'', ''-p''] no_options) (\<lambda>x. Ask (Exec t [''uptime'', ''-s''] no_options) (\<lambda>y.
      use (exec_answer x) (\<lambda>pretty. use (exec_answer y) (\<lambda>since.
      ret (JObj [(''target'', JStr (tid t)), (''uptime'', JStr (trim (stdout pretty))), (''since'', JStr (trim (stdout since)))])))))))"

definition ok_result :: "exec_result option \<Rightarrow> exec_result option" where
  "ok_result r = (case r of Some x \<Rightarrow> if exit_code x = Some 0 then r else None | None \<Rightarrow> None)"

definition tool_runtime_summary :: tool where
  "tool_runtime_summary = read_tool ''runtime_summary'' (\<lambda>env. [(''target'', targetField)])
    (on_target (\<lambda>env a t st.
      bindP (caught t [''df'', ''-hP'']) (\<lambda>disk.
      bindP (caught t [''free'', ''-b'']) (\<lambda>mem.
      bindP (caught t [''uptime'', ''-p'']) (\<lambda>up.
      bindP (caught t [''docker'', ''ps'', ''-q'']) (\<lambda>dockerPs.
      let root = (case ok_result disk of None \<Rightarrow> JNull
            | Some d \<Rightarrow> (case List.find (\<lambda>l. ends_with (trim l) ''/'') (split_on newline (stdout d)) of
                None \<Rightarrow> JNull | Some l \<Rightarrow> JStr (trim l)));
          memPct = (case ok_result mem of None \<Rightarrow> JNull
            | Some x \<Rightarrow> (let cols = free_cols env (free_line ''Mem:'' (stdout x)) in
                if 3 \<le> length cols \<and> num_less env (NInt 0) (cols ! 0) then JNum (te_pct env (cols ! 1) (cols ! 0)) else JNull));
          running = (case ok_result dockerPs of None \<Rightarrow> JNull
            | Some d \<Rightarrow> jnat (length (filter (\<lambda>l. trim l \<noteq> []) (split_on newline (stdout d))))) in
      ret (JObj [(''target'', JStr (tid t)), (''disk_root'', root), (''memory_used_pct'', memPct), (''uptime'', or_null (opt_trim up)),
        (''docker_running'', running),
        (''notes'', if ok_result dockerPs = None then JStr ''docker not available for this user'' else JUndef)])))))))"

end
