(* ===== verification/Tools_Files.thy ===== *)
theory Tools_Files
  imports Tools_Docker Tools_Host
begin

text \<open>
  The tools of \<^verbatim>\<open>src/tools/index.ts\<close> on services, git repositories, files and processes of a target: the
  first read through commands of the allowlists, the writing and process tools send operations to the agent's
  execution broker.
\<close>

section \<open>Services\<close>

definition serviceField :: schema where
  "serviceField = Z_String (len_between 1 100)"

definition unit_of :: "string \<Rightarrow> string" where
  "unit_of service = (if CHR ''.'' \<in> set service then service else service @ ''.service'')"

text \<open>The service argument and its unit: the allowlist holds the name as it was given.\<close>

definition service_arg :: "target_config \<Rightarrow> args \<Rightarrow> exn + string" where
  "service_arg t a =
    bindR (assertIdentifier (str_or_empty (field a ''service''))) (\<lambda>service.
    bindR (checkAllow (allowedServices t) service SERVICE_NOT_ALLOWED) (\<lambda>_. Inr service))"

text \<open>The lines \<open>key=value\<close>; the last one of a key counts.\<close>

definition prop_line :: "string \<Rightarrow> (string \<times> string) option" where
  "prop_line line = (let k = takeWhile (\<lambda>c. c \<noteq> CHR ''='') line in
     if k \<noteq> [] \<and> length k < length line then Some (k, drop (Suc (length k)) line) else None)"

definition props_of :: "string \<Rightarrow> (string, string) table" where
  "props_of out = fold (\<lambda>(k, v) m. AList.update k v m) (List.map_filter prop_line (split_on newline out)) []"

definition prop_or_null :: "(string, string) table \<Rightarrow> string \<Rightarrow> jval" where
  "prop_or_null props k = (case map_of props k of None \<Rightarrow> JNull | Some v \<Rightarrow> JStr v)"

text \<open>\<open>Number(props.k) || d\<close>\<close>

definition prop_number :: "tenv \<Rightarrow> (string, string) table \<Rightarrow> string \<Rightarrow> jval \<Rightarrow> jval" where
  "prop_number env props k d =
    (let n = (case map_of props k of None \<Rightarrow> NaN | Some v \<Rightarrow> num_of_text (te_lit env) v) in
     if num_truthy n then JNum n else d)"

definition tool_service_status :: tool where
  "tool_service_status = read_tool ''service_status'' (\<lambda>env. [(''target'', targetField), (''service'', serviceField)])
    (on_target (\<lambda>env a t st.
      use (service_arg t a) (\<lambda>service.
      bindP (exec_on t [''systemctl'', ''show'', unit_of service, ''-p'', ''LoadState'', ''-p'', ''ActiveState'', ''-p'', ''SubState'',
          ''-p'', ''UnitFileState'', ''-p'', ''ExecMainPID'', ''-p'', ''MemoryCurrent'', ''-p'', ''NRestarts'', ''-p'', ''FragmentPath'',
          ''--no-pager''] no_options) (\<lambda>res.
      let props = props_of (stdout res) in
      ret (JObj [(''target'', JStr (tid t)), (''unit'', JStr (unit_of service)),
        (''load'', prop_or_null props ''LoadState''), (''active'', prop_or_null props ''ActiveState''),
        (''sub'', prop_or_null props ''SubState''), (''unit_file'', prop_or_null props ''UnitFileState''),
        (''pid'', prop_number env props ''ExecMainPID'' JNull), (''memory_bytes'', prop_number env props ''MemoryCurrent'' JNull),
        (''restarts'', prop_number env props ''NRestarts'' (jint 0)), (''fragment'', prop_or_null props ''FragmentPath''),
        (''note'', if exit_code res \<noteq> Some 0 then JStr (redactText (take 200 (stderr res))) else JUndef)])))))"

definition tool_service_logs :: tool where
  "tool_service_logs = read_tool ''service_logs''
    (\<lambda>env. [(''target'', targetField), (''service'', serviceField), (''lines'', linesField env)])
    (on_target (\<lambda>env a t st.
      use (service_arg t a) (\<lambda>service.
      let lines = lines_arg env a in
      bindP (exec_on t [''journalctl'', ''-u'', unit_of service, ''-n'', num_text lines, ''--no-pager'', ''-o'', ''short-iso''] no_options) (\<lambda>res.
      ret (JObj [(''target'', JStr (tid t)), (''unit'', JStr (unit_of service)), (''requested_lines'', JNum lines),
        (''exit_code'', code_value res), (''truncated'', JBool (truncated res)), (''note'', journalAccessNote res),
        (''output'', JStr (redactText (stdout res)))])))))"

definition tool_service_action :: tool where
  "tool_service_action = tool_of ''service_action''
    (\<lambda>env. [(''target'', targetField), (''service'', serviceField), (''action'', Z_Enum [''start'', ''stop'', ''restart'', ''reload''])])
    True True False
    (on_target (\<lambda>env a t st.
      use (requireOperator t) (\<lambda>_.
      use (service_arg t a) (\<lambda>service.
      use (requireNamedCapability (map service_action_text (allowedServiceActions t)) (field a ''action'')) (\<lambda>action.
      bindP (exec_on t [''systemctl'', action, unit_of service] (opts (Some (command_timeout t)) None)) (\<lambda>res.
      guardP (exit_code res = Some 0) (OpsError REMOTE_COMMAND_FAILED)
        (ret (JObj [(''target'', JStr (tid t)), (''unit'', JStr (unit_of service)), (''action'', JStr action), (''status'', JStr ''ok''),
          (''output'', JStr (redactText (stdout res)))]))))))))"

section \<open>Git\<close>

definition repositoryField :: schema where
  "repositoryField = Z_String (len_between 1 256)"

definition repo_arg :: "args \<Rightarrow> target_config \<Rightarrow> string prog" where
  "repo_arg a t = checkedRepoP (str_or_empty (field a ''repository'')) t"

definition line_or_null :: "string list \<Rightarrow> nat \<Rightarrow> jval" where
  "line_or_null ls i = or_null (item_at ls i)"

definition tool_git_head :: tool where
  "tool_git_head = read_tool ''git_head'' (\<lambda>env. [(''target'', targetField), (''repository'', repositoryField)])
    (on_target (\<lambda>env a t st.
      bindP (repo_arg a t) (\<lambda>repo.
      bindP (exec_on t [''git'', ''-C'', repo, ''rev-parse'', ''HEAD''] no_options) (\<lambda>out.
      bindP (requireExec out) (\<lambda>head.
      bindP (caught t [''git'', ''-C'', repo, ''log'', ''-1'', ''--format=%H%n%an%n%aI%n%s'']) (\<lambda>log.
      let logLines = split_on newline (case log of None \<Rightarrow> [] | Some l \<Rightarrow> stdout l) in
      ret (JObj [(''target'', JStr (tid t)), (''repository'', JStr repo), (''head'', JStr (trim (stdout head))),
        (''author'', line_or_null logLines 1), (''date'', line_or_null logLines 2), (''message'', line_or_null logLines 3)])))))))"

text \<open>\<open>redactText(res.stdout || res.stderr)\<close>\<close>

definition output_of :: "exec_result \<Rightarrow> jval" where
  "output_of res = JStr (redactText (if stdout res \<noteq> [] then stdout res else stderr res))"

definition tool_git_status :: tool where
  "tool_git_status = read_tool ''git_status'' (\<lambda>env. [(''target'', targetField), (''repository'', repositoryField)])
    (on_target (\<lambda>env a t st.
      bindP (repo_arg a t) (\<lambda>repo.
      bindP (exec_on t [''git'', ''-C'', repo, ''-c'', ''core.quotepath=false'', ''status'', ''--porcelain=v1'', ''-b''] no_options) (\<lambda>res.
      ret (JObj [(''target'', JStr (tid t)), (''repository'', JStr repo), (''exit_code'', code_value res), (''output'', output_of res)])))))"

definition caught_output :: "exec_result option \<Rightarrow> jval" where
  "caught_output r = (case r of None \<Rightarrow> JNull | Some res \<Rightarrow> output_of res)"

definition tool_git_diff_summary :: tool where
  "tool_git_diff_summary = read_tool ''git_diff_summary'' (\<lambda>env. [(''target'', targetField), (''repository'', repositoryField)])
    (on_target (\<lambda>env a t st.
      bindP (repo_arg a t) (\<lambda>repo.
      bindP (caught t [''git'', ''-C'', repo, ''diff'', ''--stat'']) (\<lambda>worktree.
      bindP (caught t [''git'', ''-C'', repo, ''diff'', ''--cached'', ''--stat'']) (\<lambda>staged.
      ret (JObj [(''target'', JStr (tid t)), (''repository'', JStr repo), (''working_tree'', caught_output worktree),
        (''staged'', caught_output staged)]))))))"

section \<open>Reading files\<close>

definition pathField :: "nat \<Rightarrow> schema" where
  "pathField n = Z_String (len_between 1 n)"

definition path_arg :: "args \<Rightarrow> target_config \<Rightarrow> string prog" where
  "path_arg a t = checkedPathP (str_or_empty (field a ''path'')) t"

definition tool_list_directory :: tool where
  "tool_list_directory = read_tool ''list_directory'' (\<lambda>env. [(''target'', targetField), (''path'', pathField 512)])
    (on_target (\<lambda>env a t st.
      bindP (path_arg a t) (\<lambda>real.
      bindP (exec_on t [''ls'', ''-la'', ''--time-style=long-iso'', real] no_options) (\<lambda>out.
      bindP (requireExec out) (\<lambda>res.
      ret (JObj [(''target'', JStr (tid t)), (''path'', JStr real), (''listing'', JStr (redactText (stdout res))),
        (''truncated'', JBool (truncated res))]))))))"

text \<open>The count that \<open>slice(0, n)\<close> takes: a fraction is cut off.\<close>

definition slice_count :: "tenv \<Rightarrow> jnum \<Rightarrow> nat" where
  "slice_count env n = (case n of NInt i \<Rightarrow> nat i | NOther s \<Rightarrow> te_trunc env s)"

definition tool_read_file :: tool where
  "tool_read_file = read_tool ''read_file''
    (\<lambda>env. [(''target'', targetField), (''path'', pathField 512), (''max_lines'', Z_Optional (Z_Coerce (int_between 1 400)))])
    (on_target (\<lambda>env a t st.
      let maxLines = num_clamp env 1 400 (arg_num env (field a ''max_lines'') 200) in
      bindP (path_arg a t) (\<lambda>real.
      bindP (exec_on t [''stat'', ''-c'', ''%s'', real] no_options) (\<lambda>stat.
      let parsed = num_of_text (te_lit env) (trim (stdout stat));
          size = (if num_truthy parsed then parsed else NInt 0);
          mx = NInt (te_READ_FILE_MAX_BYTES env);
          bytes = num_min env (if num_truthy size then size else mx) mx in
      bindP (exec_on t [''head'', ''-c'', num_text bytes, real] no_options) (\<lambda>out.
      bindP (requireExec out) (\<lambda>head.
      let lines = split_on newline (stdout head);
          content = join [newline] (take (slice_count env maxLines) lines) in
      ret (JObj [(''target'', JStr (tid t)), (''path'', JStr real), (''size_bytes'', JNum size), (''returned_bytes'', JNum bytes),
        (''truncated_by_bytes'', JBool (num_less env bytes size \<or> truncated head)),
        (''truncated_by_lines'', JBool (num_less env maxLines (NInt (int (length lines))))),
        (''content'', JStr (redactText content))])))))))"

section \<open>Writing files\<close>

text \<open>A path of the write roots, and \<open>Buffer.from(text, "utf8").toString("base64")\<close>.\<close>

definition write_path :: "target_config \<Rightarrow> args \<Rightarrow> string \<Rightarrow> exn + string" where
  "write_path t a k = assertConfiguredPath (str_or_empty (field a k)) (allowedWritePaths t)"

definition b64_field :: "args \<Rightarrow> string \<Rightarrow> jval" where
  "b64_field a k = JStr (b64_encode (utf8 (str_or_empty (field a k))))"

definition target_call :: "tenv \<Rightarrow> target_config \<Rightarrow> string \<Rightarrow> args \<Rightarrow> int \<Rightarrow> jval prog" where
  "target_call env t op args timeoutMs = bindP (agentJson env t op args timeoutMs) (\<lambda>v. ret (with_target t v))"

definition tool_create_directory :: tool where
  "tool_create_directory = tool_of ''create_directory'' (\<lambda>env. [(''target'', targetField), (''path'', pathField 1024)]) True False True
    (on_target (\<lambda>env a t st.
      use (requireOperator t) (\<lambda>_.
      use (write_path t a ''path'') (\<lambda>targetPath.
      target_call env t ''workspace.mkdir'' [(''path'', JStr targetPath)] DEFAULT_AGENT_TIMEOUT))))"

definition tool_write_file :: tool where
  "tool_write_file = tool_of ''write_file''
    (\<lambda>env. [(''target'', targetField), (''path'', pathField 1024), (''content'', Z_String (len_between 0 524288)),
       (''mode'', Z_Optional (Z_Enum [''rewrite'', ''append'']))])
    True True False
    (on_target (\<lambda>env a t st.
      use (requireOperator t) (\<lambda>_.
      use (write_path t a ''path'') (\<lambda>targetPath.
      let mode = (if field a ''mode'' = JStr ''append'' then ''append'' else ''rewrite'') in
      target_call env t ''workspace.write''
        [(''path'', JStr targetPath), (''content_b64'', b64_field a ''content''), (''mode'', JStr mode)] 20000))))"

definition tool_edit_file :: tool where
  "tool_edit_file = tool_of ''edit_file''
    (\<lambda>env. [(''target'', targetField), (''path'', pathField 1024), (''old_string'', Z_String (len_between 1 262144)),
       (''new_string'', Z_String (len_between 0 262144)), (''expected_replacements'', Z_Optional (Z_Coerce (int_between 1 100)))])
    True True False
    (on_target (\<lambda>env a t st.
      use (requireOperator t) (\<lambda>_.
      use (write_path t a ''path'') (\<lambda>targetPath.
      target_call env t ''workspace.edit''
        [(''path'', JStr targetPath), (''old_b64'', b64_field a ''old_string''), (''new_b64'', b64_field a ''new_string''),
         (''expected_replacements'', JNum (arg_num env (field a ''expected_replacements'') 1))] 20000))))"

definition tool_move_file :: tool where
  "tool_move_file = tool_of ''move_file''
    (\<lambda>env. [(''target'', targetField), (''source'', pathField 1024), (''destination'', pathField 1024)]) True True False
    (on_target (\<lambda>env a t st.
      use (requireOperator t) (\<lambda>_.
      use (write_path t a ''source'') (\<lambda>source.
      use (write_path t a ''destination'') (\<lambda>destination.
      target_call env t ''workspace.move'' [(''source'', JStr source), (''destination'', JStr destination)] DEFAULT_AGENT_TIMEOUT)))))"

section \<open>Processes\<close>

definition sessionField :: schema where
  "sessionField = Z_String (re_marked ''ps_'' hex_char 24 24)"

definition tool_start_process :: tool where
  "tool_start_process = tool_of ''start_process''
    (\<lambda>env. [(''target'', targetField), (''cwd'', pathField 1024), (''program'', Z_String (len_between 1 80)), (''args'', argsField)])
    True True False
    (on_target (\<lambda>env a t st.
      use (requireOperator t) (\<lambda>_.
      bindP (checkedCwdP (str_or_empty (field a ''cwd'')) t) (\<lambda>cwd.
      use (requireProgram t (field a ''program'')) (\<lambda>program.
      target_call env t ''process.start''
        [(''cwd'', JStr cwd), (''program'', JStr program), (''argv'', jstrs (str_args (field a ''args'')))] DEFAULT_AGENT_TIMEOUT)))))"

definition tool_read_process_output :: tool where
  "tool_read_process_output = read_tool ''read_process_output''
    (\<lambda>env. [(''target'', targetField), (''session_id'', sessionField), (''offset'', Z_Optional (Z_Coerce (\<lambda>i. 0 \<le> i))),
       (''max_chars'', Z_Optional (Z_Coerce (int_between 1 262144)))])
    (on_target (\<lambda>env a t st.
      use (requireOperator t) (\<lambda>_.
      target_call env t ''process.read''
        [(''session_id'', str_field a ''session_id''), (''offset'', JNum (arg_num env (field a ''offset'') 0)),
         (''max_chars'', JNum (arg_num env (field a ''max_chars'') 65536))] DEFAULT_AGENT_TIMEOUT)))"

definition tool_send_process_input :: tool where
  "tool_send_process_input = tool_of ''send_process_input''
    (\<lambda>env. [(''target'', targetField), (''session_id'', sessionField), (''input'', Z_String (len_between 0 65536))])
    True False False
    (on_target (\<lambda>env a t st.
      use (requireOperator t) (\<lambda>_.
      target_call env t ''process.input''
        [(''session_id'', str_field a ''session_id''), (''input_b64'', b64_field a ''input'')] DEFAULT_AGENT_TIMEOUT)))"

definition tool_kill_process :: tool where
  "tool_kill_process = tool_of ''kill_process''
    (\<lambda>env. [(''target'', targetField), (''session_id'', sessionField),
       (''signal'', Z_Optional (Z_Enum [''SIGTERM'', ''SIGINT'', ''SIGKILL'']))])
    True True False
    (on_target (\<lambda>env a t st.
      use (requireOperator t) (\<lambda>_.
      target_call env t ''process.kill''
        [(''session_id'', str_field a ''session_id''), (''signal'', JStr (str_of (or_default (field a ''signal'') (JStr ''SIGTERM''))))]
        DEFAULT_AGENT_TIMEOUT)))"

definition tool_list_processes :: tool where
  "tool_list_processes = read_tool ''list_processes'' (\<lambda>env. [(''target'', targetField)])
    (on_target (\<lambda>env a t st.
      use (requireOperator t) (\<lambda>_. target_call env t ''process.list'' [] DEFAULT_AGENT_TIMEOUT)))"

end
