(* ===== verification/Tools_Remote.thy ===== *)
theory Tools_Remote
  imports Tools_Files
begin

text \<open>
  The tools of \<^verbatim>\<open>src/tools/index.ts\<close> on the Portainer API of the control plane and on the OpenHands
  backend of a semantic target.
\<close>

section \<open>Portainer\<close>

definition positive :: "int \<Rightarrow> bool" where "positive i = (0 < i)"

definition stackField :: "string \<times> schema" where
  "stackField = (''stack_id'', Z_Int positive)"

definition confirmField :: "string \<times> schema" where
  "confirmField = (''confirm_stack_name'', Z_String (len_between 1 120))"

definition boolField :: "bool \<Rightarrow> schema" where
  "boolField d = Z_Default (JBool d) Z_Bool"

definition env_head :: "char \<Rightarrow> bool" where "env_head c = (is_upper c \<or> is_lower c \<or> c = CHR ''_'')"

definition env_name_ok :: "string \<Rightarrow> bool" where
  "env_name_ok s = re_head_class env_head (alnum_or ''_'') 0 159 s"

definition envRows :: schema where
  "envRows = Z_Default (JArr []) (Z_Array 0 100 (Z_Strict
     [(''name'', Z_String env_name_ok), (''value'', Z_String (len_between 0 32768))] no_refine))"

definition stack_id :: "tenv \<Rightarrow> args \<Rightarrow> jnum" where
  "stack_id env a = num_of (te_lit env) (field a ''stack_id'')"

definition confirmed_name :: "args \<Rightarrow> string" where
  "confirmed_name a = str_of (field a ''confirm_stack_name'')"

text \<open>\<open>args.k ?? []\<close> as the rows and the names the client takes.\<close>

definition env_rows :: "jval \<Rightarrow> env_var list" where
  "env_rows v = map (\<lambda>ob. (str_of (attr ob ''name''), str_of (attr ob ''value''))) (list_items v)"

definition name_rows :: "jval \<Rightarrow> string list" where
  "name_rows v = map str_of (list_items v)"

definition is_true :: "jval \<Rightarrow> bool" where "is_true v = (v = JBool True)"

definition tool_portainer_status :: tool where
  "tool_portainer_status = read_tool ''portainer_status'' (\<lambda>env. [])
    (pure_handler (\<lambda>env a st. portainerStatus (te_parse env) (te_PORTAINER_URL env)))"

definition tool_portainer_endpoints_list :: tool where
  "tool_portainer_endpoints_list = read_tool ''portainer_endpoints_list'' (\<lambda>env. [])
    (pure_handler (\<lambda>env a st. portainerEndpoints (te_parse env)))"

definition tool_portainer_stacks_list :: tool where
  "tool_portainer_stacks_list = read_tool ''portainer_stacks_list'' (\<lambda>env. [])
    (pure_handler (\<lambda>env a st. portainerStacks (te_parse env)))"

definition tool_portainer_stack_get :: tool where
  "tool_portainer_stack_get = read_tool ''portainer_stack_get'' (\<lambda>env. [stackField])
    (pure_handler (\<lambda>env a st. portainerStack (te_parse env) (stack_id env a)))"

definition tool_portainer_stack_start :: tool where
  "tool_portainer_stack_start = tool_of ''portainer_stack_start'' (\<lambda>env. [stackField, confirmField]) True False False
    (pure_handler (\<lambda>env a st. startPortainerStack (te_parse env) (te_lit env) (stack_id env a) (confirmed_name a)))"

definition tool_portainer_stack_stop :: tool where
  "tool_portainer_stack_stop = tool_of ''portainer_stack_stop'' (\<lambda>env. [stackField, confirmField]) True True False
    (pure_handler (\<lambda>env a st. stopPortainerStack (te_parse env) (te_lit env) (stack_id env a) (confirmed_name a)))"

definition tool_portainer_stack_delete :: tool where
  "tool_portainer_stack_delete = tool_of ''portainer_stack_delete''
    (\<lambda>env. [stackField, confirmField, (''remove_volumes'', boolField False)]) True True False
    (pure_handler (\<lambda>env a st. deletePortainerStack (te_parse env) (te_lit env) (stack_id env a) (confirmed_name a)
      (is_true (field a ''remove_volumes''))))"

definition tool_portainer_stack_update_env :: tool where
  "tool_portainer_stack_update_env = tool_of ''portainer_stack_update_env''
    (\<lambda>env. [stackField, confirmField, (''changes'', envRows),
       (''unset_names'', Z_Default (JArr []) (Z_Array 0 100 (Z_String env_name_ok))),
       (''replace_all'', boolField False), (''pull_image'', boolField False), (''prune'', boolField False)])
    True True False
    (pure_handler (\<lambda>env a st.
      let changes = env_rows (field a ''changes''); unsetNames = name_rows (field a ''unset_names'') in
      guardP (\<not> (changes = [] \<and> unsetNames = [] \<and> \<not> is_true (field a ''replace_all''))) (OpsError INVALID_ARGUMENT)
        (updatePortainerStackEnv (te_parse env) (te_lit env)
          \<lparr>eu_stackId = stack_id env a, eu_confirmStackName = confirmed_name a, eu_changes = changes, eu_unsetNames = unsetNames,
           eu_replaceAll = is_true (field a ''replace_all''), eu_pullImage = is_true (field a ''pull_image''),
           eu_prune = is_true (field a ''prune'')\<rparr>)))"

definition tool_portainer_stack_git_redeploy :: tool where
  "tool_portainer_stack_git_redeploy = tool_of ''portainer_stack_git_redeploy''
    (\<lambda>env. [stackField, confirmField, (''pull_image'', boolField True), (''prune'', boolField False)]) True True False
    (pure_handler (\<lambda>env a st. redeployPortainerGitStack (te_parse env) (te_lit env) (stack_id env a) (confirmed_name a)
      (field a ''pull_image'' \<noteq> JBool False) (is_true (field a ''prune''))))"

text \<open>A compose file is named relative to the repository and stays inside it.\<close>

definition compose_ok :: "string \<Rightarrow> bool" where
  "compose_ok s = (len_between 1 240 s \<and> \<not> starts_with s ''/'' \<and> ''..'' \<notin> set (split_on slash s))"

definition stack_name_head :: "char \<Rightarrow> bool" where "stack_name_head c = (is_lower c \<or> is_digit c)"
definition stack_name_char :: "char \<Rightarrow> bool" where "stack_name_char c = (is_lower c \<or> is_digit c \<or> c \<in> set ''_-'')"

definition tool_portainer_stack_create_git :: tool where
  "tool_portainer_stack_create_git = tool_of ''portainer_stack_create_git''
    (\<lambda>env. [(''endpoint_id'', Z_Int positive), (''name'', Z_String (re_head_class stack_name_head stack_name_char 0 62)),
       (''confirm_stack_name'', Z_String (len_between 1 63)), (''repository_url'', Z_String (te_url env)),
       (''reference_name'', Z_Default (JStr ''refs/heads/main'') (Z_String (len_between 1 240))),
       (''compose_file'', Z_String compose_ok), (''env'', envRows)])
    True False False
    (pure_handler (\<lambda>env a st.
      let nm = str_of (field a ''name'') in
      guardP (str_of (field a ''confirm_stack_name'') = nm) (OpsError INVALID_ARGUMENT)
        (createPortainerGitStack (te_parse env)
          \<lparr>gs_endpointId = num_of (te_lit env) (field a ''endpoint_id''), gs_name = nm,
           gs_repositoryUrl = str_of (field a ''repository_url''),
           gs_referenceName = str_of (or_default (field a ''reference_name'') (JStr ''refs/heads/main'')),
           gs_composeFile = str_of (field a ''compose_file''), gs_env = env_rows (field a ''env'')\<rparr>)))"

section \<open>OpenHands\<close>

definition conversationField :: "tenv \<Rightarrow> schema" where
  "conversationField env = Z_String (te_uuid env)"

text \<open>A reading tool needs the capability \<open>openhands.read\<close>.\<close>

definition openhands_read :: "string \<Rightarrow> (args \<Rightarrow> args) \<Rightarrow> handler" where
  "openhands_read op build = on_target (\<lambda>env a t st.
     use (requireSemanticCapability t ''openhands.read'') (\<lambda>_.
     target_call env t op (build a) DEFAULT_AGENT_TIMEOUT))"

definition tool_openhands_health :: tool where
  "tool_openhands_health = read_tool ''openhands_health'' (\<lambda>env. [(''target'', targetField)])
    (openhands_read ''openhands.health'' (\<lambda>a. []))"

definition tool_openhands_list :: tool where
  "tool_openhands_list = read_tool ''openhands_list''
    (\<lambda>env. [(''target'', targetField), (''limit'', Z_Default (jint 10) (Z_Int (int_between 1 20))),
       (''page_id'', Z_Optional (Z_String (len_between 1 256)))])
    (openhands_read ''openhands.list''
      (\<lambda>a. [(''limit'', or_default (field a ''limit'') (jint 10)), (''page_id'', field a ''page_id'')]))"

definition tool_openhands_status :: tool where
  "tool_openhands_status = read_tool ''openhands_status''
    (\<lambda>env. [(''target'', targetField), (''conversation_id'', conversationField env)])
    (openhands_read ''openhands.status'' (\<lambda>a. [(''conversation_id'', field a ''conversation_id'')]))"

definition tool_openhands_result :: tool where
  "tool_openhands_result = read_tool ''openhands_result''
    (\<lambda>env. [(''target'', targetField), (''conversation_id'', conversationField env)])
    (openhands_read ''openhands.result'' (\<lambda>a. [(''conversation_id'', field a ''conversation_id'')]))"

definition page_char :: "char \<Rightarrow> bool" where "page_char c = alnum_or ''_=-'' c"

definition tool_openhands_events :: tool where
  "tool_openhands_events = read_tool ''openhands_events''
    (\<lambda>env. [(''target'', targetField), (''conversation_id'', conversationField env),
       (''limit'', Z_Default (jint 20) (Z_Int (int_between 1 20))), (''page_id'', Z_Optional (Z_String (re_class page_char 1 256)))])
    (openhands_read ''openhands.events''
      (\<lambda>a. [(''conversation_id'', field a ''conversation_id''), (''limit'', or_default (field a ''limit'') (jint 20)),
        (''page_id'', field a ''page_id'')]))"

definition tool_openhands_start :: tool where
  "tool_openhands_start = tool_of ''openhands_start'' (\<lambda>env. [(''target'', targetField), (''task'', Z_Trimmed (len_between 5 4000))])
    True False False
    (on_target (\<lambda>env a t st.
      use (requireOpenHandsExecutor t) (\<lambda>_.
      target_call env t ''openhands.start'' [(''task'', field a ''task'')] 30000)))"

text \<open>The confirmation is compared before the target is looked up.\<close>

definition tool_openhands_stop :: tool where
  "tool_openhands_stop = tool_of ''openhands_stop''
    (\<lambda>env. [(''target'', targetField), (''conversation_id'', conversationField env), (''confirm_conversation_id'', conversationField env)])
    True True False
    (pure_handler (\<lambda>env a st.
      guardP (field a ''conversation_id'' = field a ''confirm_conversation_id'') (OpsError INVALID_ARGUMENT) (
      use (resolveTarget st (field a ''target'')) (\<lambda>t.
      use (requireOpenHandsExecutor t) (\<lambda>_.
      target_call env t ''openhands.stop'' [(''conversation_id'', field a ''conversation_id'')] 20000)))))"

end
