(* ===== verification/Tools.thy ===== *)
theory Tools
  imports Tools_Remote
begin

text \<open>
  The list of tools with the guard around every handler (\<^verbatim>\<open>src/tools/index.ts\<close>, from line 1562), and a call
  as the server makes it (\<^verbatim>\<open>src/server/mcp.ts\<close>): arguments checked by the schema, the handler run, its
  outcome audited and turned into a reply.
\<close>

section \<open>The tools\<close>

definition BASE_TOOLS :: "tool list" where
  "BASE_TOOLS =
    [tool_health, tool_targets_list, tool_target_status, tool_target_agent_prepare, tool_target_agent_apply,
     tool_deepharness_docker_read_prepare, tool_deepharness_docker_read_apply, tool_host_admin_prepare, tool_host_admin_apply,
     tool_host_status, tool_disk_usage, tool_memory_status, tool_uptime,
     tool_docker_list, tool_docker_health, tool_docker_inspect_safe, tool_docker_logs, tool_docker_exec, tool_docker_action,
     tool_postgres_pinned_verifier_readback,
     tool_paperclip_task_drain_status, tool_paperclip_tool_policies_list, tool_paperclip_tool_connection_activity_safe,
     tool_paperclip_tool_policy_test, tool_paperclip_task_drain_start, tool_paperclip_task_drain_stop,
     tool_paperclip_tool_policy_create, tool_paperclip_tool_policy_delete,
     tool_service_status, tool_service_logs, tool_service_action, tool_git_head, tool_git_status, tool_git_diff_summary,
     tool_list_directory, tool_read_file, tool_create_directory, tool_write_file, tool_edit_file, tool_move_file,
     tool_start_process, tool_read_process_output, tool_send_process_input, tool_kill_process, tool_list_processes,
     tool_portainer_status, tool_portainer_endpoints_list, tool_portainer_stacks_list, tool_portainer_stack_get,
     tool_portainer_stack_start, tool_portainer_stack_stop, tool_portainer_stack_delete, tool_portainer_stack_update_env,
     tool_portainer_stack_git_redeploy, tool_portainer_stack_create_git,
     tool_openhands_health, tool_openhands_list, tool_openhands_status, tool_openhands_result, tool_openhands_events,
     tool_openhands_start, tool_openhands_stop, tool_runtime_summary]"

definition OPENHANDS_SEMANTIC_TOOLS :: "string list" where
  "OPENHANDS_SEMANTIC_TOOLS = [''openhands_health'', ''openhands_list'', ''openhands_status'', ''openhands_result'',
     ''openhands_events'', ''openhands_start'', ''openhands_stop'']"

text \<open>What is checked before a handler runs: a semantic target admits only the tools of its backend.\<close>

definition semantic_check :: "string \<Rightarrow> tstate \<Rightarrow> args \<Rightarrow> exn + unit" where
  "semantic_check nm st a = (case field a ''target'' of
     JStr i \<Rightarrow> bindR (getTarget i (ts_registry st)) (\<lambda>found.
       ensure (\<not> (map_option capabilityProfile found = Some Semantic_Operator \<and> nm \<notin> set OPENHANDS_SEMANTIC_TOOLS))
         (OpsError CAPABILITY_DENIED))
   | _ \<Rightarrow> Inr ())"

definition guarded_run :: "tool \<Rightarrow> handler" where
  "guarded_run u env actor a st = (case semantic_check (tl_name u) st a of
     Inl e \<Rightarrow> (st, fail e)
   | Inr _ \<Rightarrow> tl_run u env actor a st)"

definition TOOL_DEFS :: "tool list" where
  "TOOL_DEFS = map (\<lambda>u. u\<lparr>tl_run := guarded_run u\<rparr>) BASE_TOOLS"

definition tool_named :: "string \<Rightarrow> tool option" where
  "tool_named nm = List.find (\<lambda>u. tl_name u = nm) TOOL_DEFS"

section \<open>Calls\<close>

datatype audit_result = Audit_Ok | Audit_Denied | Audit_Error

record audit_entry =
  au_request_id :: string
  au_actor :: string
  au_target :: "string option"
  au_tool :: string
  au_mutation :: bool
  au_result :: audit_result
  au_error_code :: "error_code option"

datatype tool_reply = Content jval | Tool_Error error_code

record annotations =
  an_readOnlyHint :: bool
  an_destructiveHint :: bool
  an_idempotentHint :: bool

definition annotations_of :: "tool \<Rightarrow> annotations" where
  "annotations_of u = \<lparr>an_readOnlyHint = (\<not> tl_mutation u), an_destructiveHint = tl_destructive u,
     an_idempotentHint = coalesce (tl_idempotent u) (\<not> tl_mutation u)\<rparr>"

text \<open>The outcome of a handler as a value: \<open>try\<close> and \<open>catch\<close> around its run.\<close>

primrec tryP :: "'a prog \<Rightarrow> (exn + 'a) prog" where
  "tryP (Ret r) = Ret (Inr r)"
| "tryP (Ask q k) = Ask q (\<lambda>x. tryP (k x))"

definition audit_of :: "string \<Rightarrow> string \<Rightarrow> tool \<Rightarrow> args \<Rightarrow> exn + jval \<Rightarrow> audit_entry" where
  "audit_of request actor u a r =
    \<lparr>au_request_id = request, au_actor = actor,
     au_target = (case field a ''target'' of JStr i \<Rightarrow> Some i | _ \<Rightarrow> None),
     au_tool = tl_name u, au_mutation = tl_mutation u,
     au_result = (case r of Inr v \<Rightarrow> Audit_Ok | Inl e \<Rightarrow> if snd (toolErrorPayload e) then Audit_Denied else Audit_Error),
     au_error_code = (case r of Inr v \<Rightarrow> None | Inl e \<Rightarrow> Some (fst (toolErrorPayload e)))\<rparr>"

definition reply_of :: "exn + jval \<Rightarrow> tool_reply" where
  "reply_of r = (case r of Inr v \<Rightarrow> Content v | Inl e \<Rightarrow> Tool_Error (fst (toolErrorPayload e)))"

text \<open>The callback of \<open>registerTool\<close>.\<close>

definition tool_callback :: "string \<Rightarrow> string \<Rightarrow> tool \<Rightarrow> tenv \<Rightarrow> args \<Rightarrow> tstate \<Rightarrow> tstate \<times> (audit_entry \<times> tool_reply) prog" where
  "tool_callback request actor u env a st = (let (st', p) = tl_run u env actor a st in
     (st', bindP (tryP p) (\<lambda>r. ret (audit_of request actor u a r, reply_of r))))"

text \<open>A call by name: an unknown tool or arguments that the schema refuses never reach a handler.\<close>

definition call_tool :: "string \<Rightarrow> string \<Rightarrow> tenv \<Rightarrow> string \<Rightarrow> args \<Rightarrow> tstate \<Rightarrow>
    tstate \<times> (audit_entry \<times> tool_reply) option prog" where
  "call_tool request actor env nm fs st = (case tool_named nm of
     None \<Rightarrow> (st, ret None)
   | Some u \<Rightarrow> (case parse_args (te_lit env) (tl_schema u env) fs of
       None \<Rightarrow> (st, ret None)
     | Some a \<Rightarrow> (let (st', p) = tool_callback request actor u env a st in (st', bindP p (\<lambda>x. ret (Some x))))))"

end
