(* ===== verification/Agent_Ops.thy ===== *)
theory Agent_Ops
  imports Portainer Ticket Quote
begin

text \<open>
  \<^verbatim>\<open>src/agent/operations.ts\<close>: a command line on its way to an agent becomes a named operation with checked
  arguments (\<open>argvToAgentOperation\<close>), and the agent turns an operation into a command line again or into a
  call of a local service (\<open>executeAgentOperation\<close>); \<^verbatim>\<open>src/transport.ts\<close> is the server's side of it.
  An executor's single local call and what is made of its answer is a \<open>plan\<close>; the measured time is \<open>ms\<close>.
\<close>

section \<open>Arguments\<close>

record agent_operation =
  ao_op :: string
  ao_args :: "(string \<times> jval) list"

definition safePath :: "jval \<Rightarrow> exn + string" where
  "safePath value = (let s = str_or_empty value in
     bindR (ensure (starts_with s ''/'' \<and> \<not> has_nul_cr_lf s \<and> ''..'' \<notin> set (segs s) \<and> length s \<le> 1024) (Error ''invalid_path'')) (\<lambda>_.
     bindR (ensure (\<not> denySecretPath s) (Error ''secret_path_denied'')) (\<lambda>_. Inr s)))"

definition safeId :: "jval \<Rightarrow> exn + string" where
  "safeId value = (let s = str_or_empty value in bindR (ensure (is_identifier s) (Error ''invalid_identifier'')) (\<lambda>_. Inr s))"

text \<open>\<open>const n = Number(value); if (!Number.isInteger(n) || n < lo || n > hi) throw\<close>\<close>

definition safe_number :: "(string \<Rightarrow> jnum) \<Rightarrow> int \<Rightarrow> int \<Rightarrow> string \<Rightarrow> jval \<Rightarrow> exn + int" where
  "safe_number lit lo hi refusal value = (case int_such (\<lambda>n. lo \<le> n \<and> n \<le> hi) (num_of lit value) of
     None \<Rightarrow> Inl (Error refusal) | Some n \<Rightarrow> Inr n)"

definition safeLines :: "(string \<Rightarrow> jnum) \<Rightarrow> jval \<Rightarrow> exn + int" where
  "safeLines lit = safe_number lit 1 500 ''invalid_lines''"

definition safeBytes :: "(string \<Rightarrow> jnum) \<Rightarrow> jval \<Rightarrow> exn + int" where
  "safeBytes lit = safe_number lit 1 1048576 ''invalid_bytes''"

definition safePort :: "(string \<Rightarrow> jnum) \<Rightarrow> jval \<Rightarrow> exn + int" where
  "safePort lit = safe_number lit 1 65535 ''invalid_port''"

definition safeProgram :: "jval \<Rightarrow> exn + string" where
  "safeProgram value = (let s = str_or_empty value in bindR (ensure (re_program s) (Error ''invalid_program'')) (\<lambda>_. Inr s))"

definition safe_argument :: "jval \<Rightarrow> exn + string" where
  "safe_argument v = (let s = str_or_empty v in bindR (ensure (admin_arg_ok s) (Error ''invalid_argument'')) (\<lambda>_. Inr s))"

definition safeArgv :: "jval \<Rightarrow> exn + string list" where
  "safeArgv value = (case value of
     JArr vs \<Rightarrow> bindR (ensure (length vs \<le> 80) (Error ''invalid_argv'')) (\<lambda>_. mapR safe_argument vs)
   | _ \<Rightarrow> Inl (Error ''invalid_argv''))"

definition safe_word :: "string list \<Rightarrow> string \<Rightarrow> jval \<Rightarrow> exn + string" where
  "safe_word ws refusal value = (let s = str_or_empty value in bindR (ensure (s \<in> set ws) (Error refusal)) (\<lambda>_. Inr s))"

definition docker_actions :: "string list" where "docker_actions = [''start'', ''stop'', ''restart'']"
definition service_actions :: "string list" where "service_actions = [''start'', ''stop'', ''restart'', ''reload'']"

definition safeDockerAction :: "jval \<Rightarrow> exn + string" where
  "safeDockerAction = safe_word docker_actions ''invalid_docker_action''"

definition safeServiceAction :: "jval \<Rightarrow> exn + string" where
  "safeServiceAction = safe_word service_actions ''invalid_service_action''"

definition image_ref_char :: "char \<Rightarrow> bool" where
  "image_ref_char c = (is_alnum c \<or> c \<in> set ''_./:@+-'')"

definition safeImageRef :: "jval \<Rightarrow> exn + string" where
  "safeImageRef value = (let s = str_or_empty value in
     bindR (ensure (re_head_class is_alnum image_ref_char 0 199 s) (Error ''invalid_image_ref'')) (\<lambda>_. Inr s))"

section \<open>From a command line to an operation\<close>

text \<open>\<open>a[i]\<close>, and an operation of one checked argument.\<close>

definition arg :: "string list \<Rightarrow> nat \<Rightarrow> jval" where
  "arg a i = (if i < length a then JStr (a ! i) else JUndef)"

definition arg_is :: "string list \<Rightarrow> nat \<Rightarrow> string \<Rightarrow> bool" where
  "arg_is a i s = (i < length a \<and> a ! i = s)"

definition plain_op :: "string \<Rightarrow> exn + agent_operation" where
  "plain_op op = Inr \<lparr>ao_op = op, ao_args = []\<rparr>"

definition op_with :: "string \<Rightarrow> string \<Rightarrow> exn + string \<Rightarrow> exn + agent_operation" where
  "op_with op k r = bindR r (\<lambda>v. Inr \<lparr>ao_op = op, ao_args = [(k, JStr v)]\<rparr>)"

text \<open>The tests of the code in their order; a first word that is no command of the list is refused.\<close>

definition argvToAgentOperation :: "(string \<Rightarrow> jnum) \<Rightarrow> string list \<Rightarrow> exn + agent_operation" where
  "argvToAgentOperation lit argv =
    (let is = (\<lambda>cmd. arg_is argv 0 cmd); a = tl argv; joined = join '' '' a in
     if is ''hostname'' \<and> a = [] then plain_op ''host.hostname''
     else if is ''uname'' \<and> joined = ''-srm'' then plain_op ''host.uname''
     else if is ''cat'' \<and> a = [''/proc/loadavg''] then plain_op ''host.loadavg''
     else if is ''uptime'' \<and> a = [''-p''] then plain_op ''host.uptime_pretty''
     else if is ''uptime'' \<and> a = [''-s''] then plain_op ''host.uptime_since''
     else if is ''head'' \<and> a = [''-n'', ''5'', ''/etc/os-release''] then plain_op ''host.os_release''
     else if is ''df'' \<and> joined = ''-hP'' then plain_op ''host.disk_usage''
     else if is ''free'' \<and> joined = ''-b'' then plain_op ''host.memory''
     else if is ''docker'' \<and> joined = ''ps -a --format {{json .}}'' then plain_op ''docker.list''
     else if is ''docker'' \<and> joined = ''ps -q'' then plain_op ''docker.running''
     else if is ''docker'' \<and> arg_is a 0 ''inspect'' \<and> arg_is a 1 ''--format'' \<and> arg_is a 2 ''{{json .State}}'' \<and> length a = 4
       then op_with ''docker.health'' ''container'' (safeId (arg a 3))
     else if is ''docker'' \<and> arg_is a 0 ''inspect'' \<and> length a = 2 then op_with ''docker.inspect'' ''container'' (safeId (arg a 1))
     else if is ''docker'' \<and> arg_is a 0 ''logs'' \<and> arg_is a 1 ''--tail'' \<and> arg_is a 3 ''--timestamps'' \<and> length a = 5
       then bindR (safeId (arg a 4)) (\<lambda>container. bindR (safeLines lit (arg a 2)) (\<lambda>lines.
         Inr \<lparr>ao_op = ''docker.logs'', ao_args = [(''container'', JStr container), (''lines'', JNum (NInt lines))]\<rparr>))
     else if is ''docker'' \<and> arg_is a 0 ''exec'' \<and> 3 \<le> length a
       then bindR (safeId (arg a 1)) (\<lambda>container. bindR (safeProgram (arg a 2)) (\<lambda>program.
         bindR (safeArgv (jstrs (drop 3 a))) (\<lambda>args.
         Inr \<lparr>ao_op = ''docker.exec'', ao_args = [(''container'', JStr container), (''program'', JStr program), (''argv'', jstrs args)]\<rparr>)))
     else if is ''docker'' \<and> list_ex (arg_is a 0) docker_actions \<and> length a = 2
       then bindR (safeDockerAction (arg a 0)) (\<lambda>action. bindR (safeId (arg a 1)) (\<lambda>container.
         Inr \<lparr>ao_op = ''docker.action'', ao_args = [(''action'', JStr action), (''container'', JStr container)]\<rparr>))
     else if is ''systemctl'' \<and> arg_is a 0 ''show'' \<and> 2 \<le> length a then op_with ''service.status'' ''unit'' (safeId (arg a 1))
     else if is ''systemctl'' \<and> list_ex (arg_is a 0) service_actions \<and> length a = 2
       then bindR (safeServiceAction (arg a 0)) (\<lambda>action. bindR (safeId (arg a 1)) (\<lambda>unit.
         Inr \<lparr>ao_op = ''service.action'', ao_args = [(''action'', JStr action), (''unit'', JStr unit)]\<rparr>))
     else if is ''journalctl'' \<and> arg_is a 0 ''-u'' \<and> arg_is a 2 ''-n''
       then bindR (safeId (arg a 1)) (\<lambda>unit. bindR (safeLines lit (arg a 3)) (\<lambda>lines.
         Inr \<lparr>ao_op = ''service.logs'', ao_args = [(''unit'', JStr unit), (''lines'', JNum (NInt lines))]\<rparr>))
     else if is ''git'' \<and> arg_is a 0 ''-C'' \<and> arg_is a 2 ''rev-parse'' \<and> arg_is a 3 ''HEAD''
       then op_with ''git.head'' ''repo'' (safePath (arg a 1))
     else if is ''git'' \<and> arg_is a 0 ''-C'' \<and> arg_is a 2 ''log'' then op_with ''git.log'' ''repo'' (safePath (arg a 1))
     else if is ''git'' \<and> arg_is a 0 ''-C'' \<and> ''status'' \<in> set a then op_with ''git.status'' ''repo'' (safePath (arg a 1))
     else if is ''git'' \<and> arg_is a 0 ''-C'' \<and> arg_is a 2 ''diff'' \<and> ''--cached'' \<in> set a
       then op_with ''git.diff_staged'' ''repo'' (safePath (arg a 1))
     else if is ''git'' \<and> arg_is a 0 ''-C'' \<and> arg_is a 2 ''diff'' then op_with ''git.diff'' ''repo'' (safePath (arg a 1))
     else if is ''realpath'' \<and> arg_is a 0 ''-e'' \<and> arg_is a 1 ''--'' \<and> length a = 3 then op_with ''fs.realpath'' ''path'' (safePath (arg a 2))
     else if is ''ls'' \<and> arg_is a 0 ''-la'' \<and> arg_is a 1 ''--time-style=long-iso'' \<and> length a = 3
       then op_with ''fs.list'' ''path'' (safePath (arg a 2))
     else if is ''stat'' \<and> arg_is a 0 ''-c'' \<and> arg_is a 1 ''%s'' \<and> length a = 3 then op_with ''fs.stat_size'' ''path'' (safePath (arg a 2))
     else if is ''head'' \<and> arg_is a 0 ''-c'' \<and> length a = 3
       then bindR (safeBytes lit (arg a 1)) (\<lambda>bytes. bindR (safePath (arg a 2)) (\<lambda>path.
         Inr \<lparr>ao_op = ''fs.read_head'', ao_args = [(''bytes'', JNum (NInt bytes)), (''path'', JStr path)]\<rparr>))
     else Inl (Error ''unsupported_agent_operation''))"

section \<open>From an operation to a command line\<close>

definition status_properties :: "string list" where
  "status_properties = [''-p'', ''LoadState'', ''-p'', ''ActiveState'', ''-p'', ''SubState'', ''-p'', ''UnitFileState'',
     ''-p'', ''ExecMainPID'', ''-p'', ''MemoryCurrent'', ''-p'', ''NRestarts'', ''-p'', ''FragmentPath'', ''--no-pager'']"

text \<open>The operations without arguments.\<close>

definition fixed_argv :: "(string \<times> string list) list" where
  "fixed_argv =
    [(''host.hostname'', [''hostname'']), (''host.uname'', [''uname'', ''-srm'']), (''host.loadavg'', [''cat'', ''/proc/loadavg'']),
     (''host.uptime_pretty'', [''uptime'', ''-p'']), (''host.uptime_since'', [''uptime'', ''-s'']),
     (''host.os_release'', [''head'', ''-n'', ''5'', ''/etc/os-release'']), (''host.disk_usage'', [''df'', ''-hP'']),
     (''host.memory'', [''free'', ''-b'']), (''docker.list'', [''docker'', ''ps'', ''-a'', ''--format'', ''{{json .}}'']),
     (''docker.running'', [''docker'', ''ps'', ''-q''])]"

text \<open>The operations on one path: what stands before it and after it.\<close>

definition path_argv :: "(string \<times> string \<times> string list \<times> string list) list" where
  "path_argv =
    [(''git.head'', ''repo'', [''git'', ''-C''], [''rev-parse'', ''HEAD'']),
     (''git.log'', ''repo'', [''git'', ''-C''], [''log'', ''-1'', ''--format=%H%n%an%n%aI%n%s'']),
     (''git.status'', ''repo'', [''git'', ''-C''], [''-c'', ''core.quotepath=false'', ''status'', ''--porcelain=v1'', ''-b'']),
     (''git.diff'', ''repo'', [''git'', ''-C''], [''diff'', ''--stat'']),
     (''git.diff_staged'', ''repo'', [''git'', ''-C''], [''diff'', ''--cached'', ''--stat'']),
     (''fs.realpath'', ''path'', [''realpath'', ''-e'', ''--''], []),
     (''fs.list'', ''path'', [''ls'', ''-la'', ''--time-style=long-iso''], []),
     (''fs.stat_size'', ''path'', [''stat'', ''-c'', ''%s''], [])]"

definition operationArgv :: "(string \<Rightarrow> jnum) \<Rightarrow> agent_operation \<Rightarrow> exn + string list" where
  "operationArgv lit x = (let a = ao_args x in
     (case map_of fixed_argv (ao_op x) of Some argv \<Rightarrow> Inr argv | None \<Rightarrow>
     (case map_of path_argv (ao_op x) of
        Some (k, before, after) \<Rightarrow> bindR (safePath (field a k)) (\<lambda>path. Inr (before @ path # after))
      | None \<Rightarrow>
     if ao_op x = ''docker.health'' then
       bindR (safeId (field a ''container'')) (\<lambda>c. Inr [''docker'', ''inspect'', ''--format'', ''{{json .State}}'', c])
     else if ao_op x = ''docker.inspect'' then bindR (safeId (field a ''container'')) (\<lambda>c. Inr [''docker'', ''inspect'', c])
     else if ao_op x = ''docker.logs'' then
       bindR (safeLines lit (field a ''lines'')) (\<lambda>n. bindR (safeId (field a ''container'')) (\<lambda>c.
       Inr [''docker'', ''logs'', ''--tail'', int_text n, ''--timestamps'', c]))
     else if ao_op x = ''service.status'' then
       bindR (safeId (field a ''unit'')) (\<lambda>u. Inr ([''systemctl'', ''show'', u] @ status_properties))
     else if ao_op x = ''service.logs'' then
       bindR (safeId (field a ''unit'')) (\<lambda>u. bindR (safeLines lit (field a ''lines'')) (\<lambda>n.
       Inr [''journalctl'', ''-u'', u, ''-n'', int_text n, ''--no-pager'', ''-o'', ''short-iso'']))
     else if ao_op x = ''service.action'' then
       bindR (safeServiceAction (field a ''action'')) (\<lambda>action. bindR (safeId (field a ''unit'')) (\<lambda>u. Inr [''systemctl'', action, u]))
     else if ao_op x = ''fs.read_head'' then
       bindR (safeBytes lit (field a ''bytes'')) (\<lambda>n. bindR (safePath (field a ''path'')) (\<lambda>path.
       Inr [''head'', ''-c'', int_text n, path]))
     else Inl (Error ''unsupported_agent_operation''))))"

record process_env =
  pe_PATH :: "string option"
  pe_DOCKER_HOST :: "string option"

definition DOCKER_PROXY :: string where "DOCKER_PROXY = ''tcp://127.0.0.1:23751''"

definition require_proxy :: "process_env \<Rightarrow> exn + unit" where
  "require_proxy pe = ensure (pe_DOCKER_HOST pe = Some DOCKER_PROXY) (Error ''docker_read_proxy_required'')"

definition childEnvForOperation :: "process_env \<Rightarrow> agent_operation \<Rightarrow> exn + (string \<times> string) list" where
  "childEnvForOperation pe x =
    (let base = [(''PATH'', coalesce (pe_PATH pe) ''/usr/local/sbin:/usr/local/bin:/usr/sbin:/usr/bin:/sbin:/bin''), (''LANG'', ''C.UTF-8'')] in
     if starts_with (ao_op x) ''docker.'' then bindR (require_proxy pe) (\<lambda>_. Inr (base @ [(''DOCKER_HOST'', DOCKER_PROXY)])) else Inr base)"

end
