(* ===== verification/Agent_Exec.thy ===== *)
theory Agent_Exec
  imports Agent_Ops
begin

text \<open>
  The execution half of \<^verbatim>\<open>src/agent/operations.ts\<close>: which local service or child process an operation reaches
  and what result its answer gives; the child's captured output; the socket clients of the two brokers
  (\<^verbatim>\<open>src/agent/exec-broker-client.ts\<close>, \<^verbatim>\<open>src/agent/managed-admin-broker-client.ts\<close>); and the server's side,
  \<^verbatim>\<open>src/transport.ts\<close>.
\<close>

section \<open>Printing\<close>

text \<open>\<open>JSON.stringify\<close>: undefined fields are dropped, a number that is no finite one prints as \<open>null\<close>.\<close>

definition json_num :: "jnum \<Rightarrow> string" where
  "json_num n = (if n \<in> {NaN, NOther ''Infinity'', NOther ''-Infinity''} then ''null'' else num_text n)"

fun json_text :: "jval \<Rightarrow> string" where
  "json_text JUndef = ''null''"
| "json_text JNull = ''null''"
| "json_text (JBool b) = (if b then ''true'' else ''false'')"
| "json_text (JNum n) = json_num n"
| "json_text (JStr s) = json_string s"
| "json_text (JArr vs) = ''['' @ join '','' (map json_text vs) @ '']''"
| "json_text (JObj fs) = ''{'' @ join '','' (concat (map (\<lambda>(k, v). if v = JUndef then [] else [json_field k (json_text v)]) fs)) @ ''}''"

fun exn_text :: "exn \<Rightarrow> string" where
  "exn_text (OpsError c) = code_text c"
| "exn_text (Error m) = m"

section \<open>Plans\<close>

datatype local_call =
    Spawn "string list" "(string \<times> string) list" int int
  | Proxy string jval int
  | Exec_Request string "(string \<times> jval) list" int
  | Admin_Request ticket string int
  | Openhands_Request string "(string \<times> jval) list" exec_options
  | Deepharness_Request string "(string \<times> jval) list" exec_options

text \<open>An answer: of an HTTP request, of a broker, of a child or another component; or the exception instead of one.\<close>

datatype local_answer =
    Http int string
  | Socket jval
  | Finished exec_result
  | Thrown string
  | Timed_Out

datatype plan = Finish exec_result | Call local_call "local_answer \<Rightarrow> exn + exec_result"

definition result :: "int \<Rightarrow> int option \<Rightarrow> string \<Rightarrow> string \<Rightarrow> bool \<Rightarrow> bool \<Rightarrow> exec_result" where
  "result ms c out err trunc timed = \<lparr>exit_code = c, stdout = out, stderr = err, durationMs = ms, truncated = trunc, timedOut = timed\<rparr>"

definition failed :: "int \<Rightarrow> string \<Rightarrow> exec_result" where
  "failed ms err = result ms (Some 1) [] err False False"

text \<open>The \<open>catch\<close> of an executor.\<close>

definition caught_result :: "int \<Rightarrow> exn + exec_result \<Rightarrow> exec_result" where
  "caught_result ms r = (case r of Inl e \<Rightarrow> failed ms (exn_text e) | Inr x \<Rightarrow> x)"

text \<open>\<open>typeof x === "string" ? x : ""\<close>, and a number as an exit code: one that is no small integer counts as 1, as
  anything but a number does; what reads a code only tells 0 from the rest.\<close>

definition text_of :: "jval \<Rightarrow> string" where
  "text_of v = (case v of JStr s \<Rightarrow> s | _ \<Rightarrow> [])"

definition code_or_1 :: "jval \<Rightarrow> int" where
  "code_or_1 v = (case v of JNum (NInt i) \<Rightarrow> i | _ \<Rightarrow> 1)"

text \<open>\<open>String(parsed.error ?? text)\<close>\<close>

definition error_text :: "jval \<Rightarrow> string \<Rightarrow> exn + string" where
  "error_text parsed d = bindR (get parsed ''error'') (\<lambda>v. Inr (str_of (or_default v (JStr d))))"

definition parsed_body :: "parser \<Rightarrow> string \<Rightarrow> jval" where
  "parsed_body parse raw = (case parse raw of None \<Rightarrow> JObj [] | Some v \<Rightarrow> v)"

text \<open>A request to the Docker proxy: an error status, a reply that \<open>ok\<close> reads, a timeout or another exception.\<close>

definition proxy_answer :: "parser \<Rightarrow> int \<Rightarrow> string \<Rightarrow> (jval \<Rightarrow> exn + exec_result) \<Rightarrow> local_answer \<Rightarrow> exec_result" where
  "proxy_answer parse ms nm ok x = (case x of
     Http status raw \<Rightarrow> (let parsed = parsed_body parse raw in
       if response_ok status then caught_result ms (ok parsed)
       else caught_result ms (bindR (error_text parsed (nm @ ''_proxy_http_'' @ int_text status)) (\<lambda>m. Inr (failed ms m))))
   | Timed_Out \<Rightarrow> result ms None [] (nm @ ''_proxy_timeout'') False True
   | Thrown m \<Rightarrow> failed ms m
   | _ \<Rightarrow> failed ms [])"

definition proxy_output :: "int \<Rightarrow> jval \<Rightarrow> exn + exec_result" where
  "proxy_output ms parsed = bindR (get parsed ''code'') (\<lambda>c.
     Inr (result ms (Some (code_or_1 c)) (text_of (attr parsed ''stdout'')) (text_of (attr parsed ''stderr''))
       (attr parsed ''truncated'' = JBool True) False))"

section \<open>Executors\<close>

definition number_or_null :: "jval \<Rightarrow> jval" where
  "number_or_null v = (case v of JNum n \<Rightarrow> v | _ \<Rightarrow> JNull)"

definition admin_answer :: "int \<Rightarrow> ticket \<Rightarrow> local_answer \<Rightarrow> exec_result" where
  "admin_answer ms tk x = (case x of
     Socket response \<Rightarrow> caught_result ms (bindR (get response ''ok'') (\<lambda>ok.
       if \<not> js_true ok then
         (let e = attr response ''error'' in
          Inr (failed ms (str_of (or_default (attr e ''code'') (JStr ''MANAGED_ADMIN_DENIED'')) @ '': '' @
            str_of (or_default (attr e ''message'') (JStr ''managed admin denied'')))))
       else
         (let r = or_default (attr response ''result'') (JObj []);
              trunc = (attr r ''truncated'' = JBool True) in
          Inr (result ms (Some 0) (json_text (JObj
            [(''exit_code'', number_or_null (attr r ''code'')), (''stdout'', JStr (text_of (attr r ''stdout''))),
             (''stderr'', JStr (text_of (attr r ''stderr''))),
             (''duration_ms'', case attr r ''duration_ms'' of JNum n \<Rightarrow> JNum n | _ \<Rightarrow> JNum (NInt ms)),
             (''truncated'', JBool trunc), (''timed_out'', JBool (attr r ''timed_out'' = JBool True)),
             (''program'', case attr r ''program'' of JStr p \<Rightarrow> JStr p | _ \<Rightarrow> JStr (tk_program tk))])) [] trunc False))))
   | Thrown m \<Rightarrow> failed ms m
   | _ \<Rightarrow> failed ms [])"

definition executeManagedAdminOperation :: "(string \<Rightarrow> jnum) \<Rightarrow> int \<Rightarrow> agent_operation \<Rightarrow> exec_options \<Rightarrow> plan" where
  "executeManagedAdminOperation lit ms x o1 = (let a = ao_args x in
     (case normalizeManagedAdminTicket lit (field a ''ticket'') of
        Inl e \<Rightarrow> Finish (failed ms (exn_text e))
      | Inr tk \<Rightarrow>
         (let signature = str_or_empty (field a ''signature'') in
          if \<not> SIGNATURE_RE signature then Finish (failed ms ''managed_admin_signature_invalid'')
          else Call (Admin_Request tk signature (coalesce (xo_timeoutMs o1) (tk_timeout_ms tk + 5000)))
            (\<lambda>r. Inr (admin_answer ms tk r)))))"

text \<open>\<open>encodeURIComponent\<close>\<close>

definition uri_plain :: "char \<Rightarrow> bool" where
  "uri_plain c = (is_alnum c \<or> c \<in> set ''-_.!~*()'' \<or> c = squotes)"

definition hex_upper :: "nat \<Rightarrow> char" where
  "hex_upper n = (if n < 10 then char_of (48 + n) else char_of (55 + n))"

definition encodeURIComponent :: "string \<Rightarrow> string" where
  "encodeURIComponent s = concat (map (\<lambda>c. if uri_plain c then [c]
     else concat (map (\<lambda>b. [CHR ''%'', hex_upper (code b div 16), hex_upper (code b mod 16)]) (utf8_char c))) s)"

text \<open>Path and body of the request that a Docker operation of an operator makes.\<close>

definition docker_request :: "(string \<Rightarrow> jnum) \<Rightarrow> agent_operation \<Rightarrow> exn + (string \<times> (string \<times> jval) list)" where
  "docker_request lit x = (let a = ao_args x in
     if ao_op x = ''docker.exec'' then
       bindR (safeId (field a ''container'')) (\<lambda>c. bindR (safeProgram (field a ''program'')) (\<lambda>program.
       bindR (safeArgv (field a ''argv'')) (\<lambda>argv.
       Inr (''/ops/containers/'' @ encodeURIComponent c @ ''/exec'', [(''program'', JStr program), (''argv'', jstrs argv)]))))
     else if ao_op x = ''docker.action'' then
       bindR (safeId (field a ''container'')) (\<lambda>c. bindR (safeDockerAction (field a ''action'')) (\<lambda>action.
       Inr (''/ops/containers/'' @ encodeURIComponent c @ ''/'' @ action, [])))
     else if ao_op x = ''docker.image_load'' then
       bindR (safePath (field a ''path'')) (\<lambda>path. Inr (''/ops/images/load'', [(''path'', JStr path)]))
     else if ao_op x = ''docker.candidate_run'' then
       bindR (safeId (field a ''name'')) (\<lambda>nm. bindR (safeImageRef (field a ''image'')) (\<lambda>image.
       bindR (safeId (field a ''network'')) (\<lambda>network. bindR (safePort lit (field a ''hostPort'')) (\<lambda>hostPort.
       bindR (safePort lit (field a ''containerPort'')) (\<lambda>containerPort.
       Inr (''/ops/candidates/run'', [(''name'', JStr nm), (''image'', JStr image), (''network'', JStr network),
         (''hostPort'', JNum (NInt hostPort)), (''containerPort'', JNum (NInt containerPort))]))))))
     else if ao_op x = ''docker.candidate_remove'' then
       bindR (safeId (field a ''name'')) (\<lambda>nm. Inr (''/ops/candidates/'' @ encodeURIComponent nm @ ''/remove'', []))
     else Inl (Error ''unsupported_docker_operator_operation''))"

definition executeDockerOperatorOperation ::
    "parser \<Rightarrow> (string \<Rightarrow> jnum) \<Rightarrow> process_env \<Rightarrow> int \<Rightarrow> agent_operation \<Rightarrow> exec_options \<Rightarrow> exn + plan" where
  "executeDockerOperatorOperation parse lit pe ms x o1 =
    bindR (require_proxy pe) (\<lambda>_. bindR (docker_request lit x) (\<lambda>(path, body).
    Inr (Call (Proxy path (JObj body) (coalesce (xo_timeoutMs o1) 15000)) (\<lambda>r. Inr (proxy_answer parse ms ''docker''
      (\<lambda>parsed. if ao_op x = ''docker.exec'' then proxy_output ms parsed
        else Inr (result ms (Some 0) (json_text parsed) [] False False)) r)))))"

definition postgres_output :: "int \<Rightarrow> jval \<Rightarrow> exn + exec_result" where
  "postgres_output ms parsed = bindR (get parsed ''code'') (\<lambda>c.
     let err = text_of (attr parsed ''stderr''); trunc = (attr parsed ''truncated'' = JBool True) in
     if code_or_1 c \<noteq> 0 then Inr (result ms (Some (code_or_1 c)) [] (if err = [] then ''postgres_verifier_failed'' else err) trunc False)
     else Inr (result ms (Some 0) (json_text (JObj
       [(''verifier_id'', or_null (attr parsed ''verifier_id'')), (''sha256'', or_null (attr parsed ''sha256'')),
        (''output'', JStr (text_of (attr parsed ''stdout''))), (''stderr'', JStr err), (''truncated'', JBool trunc)])) [] trunc False))"

definition executePostgresPinnedReadbackOperation ::
    "parser \<Rightarrow> process_env \<Rightarrow> int \<Rightarrow> agent_operation \<Rightarrow> exec_options \<Rightarrow> exn + plan" where
  "executePostgresPinnedReadbackOperation parse pe ms x o1 =
    bindR (require_proxy pe) (\<lambda>_.
    Inr (Call (Proxy ''/ops/postgres/pinned-verifier'' (JObj (ao_args x)) (coalesce (xo_timeoutMs o1) 30000))
      (\<lambda>r. Inr (proxy_answer parse ms ''postgres'' (postgres_output ms) r))))"

definition paperclip_paths :: "(string \<times> string) list" where
  "paperclip_paths =
    [(''paperclip.task_drain_status'', ''/ops/paperclip/task-drain-status''),
     (''paperclip.task_drain_start'', ''/ops/paperclip/task-drain-start''),
     (''paperclip.task_drain_stop'', ''/ops/paperclip/task-drain-stop''),
     (''paperclip.tool_policies_list'', ''/ops/paperclip/tool-policies-list''),
     (''paperclip.tool_connection_activity_safe'', ''/ops/paperclip/tool-connection-activity-safe''),
     (''paperclip.tool_policy_test'', ''/ops/paperclip/tool-policy-test''),
     (''paperclip.tool_policy_create'', ''/ops/paperclip/tool-policy-create''),
     (''paperclip.tool_policy_delete'', ''/ops/paperclip/tool-policy-delete'')]"

definition executePaperclipSemanticOperation ::
    "parser \<Rightarrow> process_env \<Rightarrow> int \<Rightarrow> agent_operation \<Rightarrow> exec_options \<Rightarrow> exn + plan" where
  "executePaperclipSemanticOperation parse pe ms x o1 =
    bindR (require_proxy pe) (\<lambda>_. (case map_of paperclip_paths (ao_op x) of
       None \<Rightarrow> Inl (Error ''unsupported_paperclip_operation'')
     | Some path \<Rightarrow> Inr (Call (Proxy path (JObj (ao_args x)) (coalesce (xo_timeoutMs o1) 15000))
         (\<lambda>r. Inr (proxy_answer parse ms ''paperclip'' (proxy_output ms) r)))))"

definition exec_broker_answer :: "int \<Rightarrow> local_answer \<Rightarrow> exec_result" where
  "exec_broker_answer ms x = (case x of
     Socket response \<Rightarrow> caught_result ms (bindR (get response ''ok'') (\<lambda>ok.
       if js_true ok then Inr (result ms (Some 0) (json_text (or_default (attr response ''result'') (JObj []))) [] False False)
       else (let e = attr response ''error'' in
         Inr (failed ms (str_of (attr e ''code'') @ '': '' @ str_of (attr e ''message''))))))
   | Thrown m \<Rightarrow> failed ms m
   | _ \<Rightarrow> failed ms [])"

definition operator_docker_ops :: "string list" where
  "operator_docker_ops = [''docker.exec'', ''docker.action'', ''docker.image_load'', ''docker.candidate_run'', ''docker.candidate_remove'']"

text \<open>A child's end: its result, or the exception of a failed start.\<close>

definition child_answer :: "local_answer \<Rightarrow> exn + exec_result" where
  "child_answer x = (case x of Finished r \<Rightarrow> Inr r | Thrown m \<Rightarrow> Inl (Error m) | _ \<Rightarrow> Inl (Error []))"

definition executeAgentOperation ::
    "parser \<Rightarrow> (string \<Rightarrow> jnum) \<Rightarrow> process_env \<Rightarrow> int \<Rightarrow> agent_operation \<Rightarrow> exec_options \<Rightarrow> exn + plan" where
  "executeAgentOperation parse lit pe ms x o1 =
    (let op = ao_op x in
     if op = ''deepharness.semantic'' then Inr (Call (Deepharness_Request op (ao_args x) o1) child_answer)
     else if op = ''host.managed_admin'' then Inr (executeManagedAdminOperation lit ms x o1)
     else if op = ''postgres.pinned_readback'' then executePostgresPinnedReadbackOperation parse pe ms x o1
     else if starts_with op ''openhands.'' then Inr (Call (Openhands_Request op (ao_args x) o1) child_answer)
     else if starts_with op ''paperclip.'' then executePaperclipSemanticOperation parse pe ms x o1
     else if op \<in> set operator_docker_ops then executeDockerOperatorOperation parse lit pe ms x o1
     else if starts_with op ''workspace.'' \<or> starts_with op ''process.'' then
       Inr (Call (Exec_Request op (ao_args x) (coalesce (xo_timeoutMs o1) 15000)) (\<lambda>r. Inr (exec_broker_answer ms r)))
     else bindR (operationArgv lit x) (\<lambda>argv. bindR (childEnvForOperation pe x) (\<lambda>env.
       Inr (Call (Spawn argv env (coalesce (xo_timeoutMs o1) 15000) (coalesce (xo_maxBytes o1) 262144)) child_answer))))"

section \<open>The output of a child\<close>

record capture =
  cp_out :: string
  cp_err :: string
  cp_truncated :: bool
  cp_timedOut :: bool

datatype capture_step = Stdout_Chunk string | Stderr_Chunk string | Timer_Fired

definition append_agent :: "nat \<Rightarrow> string \<Rightarrow> string \<Rightarrow> string \<times> bool" where
  "append_agent cap buf chunk =
    (if cap \<le> length buf then (buf, True)
     else if cap < length buf + length chunk then (buf @ take (cap - length buf) chunk, True)
     else (buf @ chunk, False))"

definition child_step :: "nat \<Rightarrow> capture_step \<Rightarrow> capture \<Rightarrow> capture" where
  "child_step maxBytes s c = (case s of
     Stdout_Chunk d \<Rightarrow> (let (b, trunc) = append_agent maxBytes (cp_out c) d in c\<lparr>cp_out := b, cp_truncated := cp_truncated c \<or> trunc\<rparr>)
   | Stderr_Chunk d \<Rightarrow> (let (b, trunc) = append_agent (min maxBytes 65536) (cp_err c) d in
       c\<lparr>cp_err := b, cp_truncated := cp_truncated c \<or> trunc\<rparr>)
   | Timer_Fired \<Rightarrow> c\<lparr>cp_timedOut := True\<rparr>)"

definition captured_result :: "(string \<Rightarrow> string) \<Rightarrow> nat \<Rightarrow> int \<Rightarrow> capture_step list \<Rightarrow> int option \<Rightarrow> exec_result" where
  "captured_result dec maxBytes ms steps c =
    (let cp = fold (child_step maxBytes) steps \<lparr>cp_out = [], cp_err = [], cp_truncated = False, cp_timedOut = False\<rparr> in
     result ms c (dec (cp_out cp)) (dec (cp_err cp)) (cp_truncated cp) (cp_timedOut cp))"

section \<open>The clients of the brokers\<close>

text \<open>Both clients differ in their messages and in the cap of the timeout. The first outcome settles the call.\<close>

record broker_client =
  bc_name :: string
  bc_max_timeout :: int
  bc_empty :: string

definition callExecBroker :: broker_client where
  "callExecBroker = \<lparr>bc_name = ''exec_broker'', bc_max_timeout = 120000, bc_empty = ''empty broker response''\<rparr>"

definition callManagedAdminBroker :: broker_client where
  "callManagedAdminBroker = \<lparr>bc_name = ''managed_admin_broker'', bc_max_timeout = 125000, bc_empty = ''empty managed admin broker response''\<rparr>"

definition client_timeout :: "broker_client \<Rightarrow> int \<Rightarrow> int" where
  "client_timeout bc timeoutMs = min (max timeoutMs 1000) (bc_max_timeout bc)"

datatype socket_event = Data_Chunk string | Socket_Error string | Socket_End | Socket_Timer

record client_state =
  cl_data :: string
  cl_outcome :: "(exn + jval) option"

definition MAX_RESPONSE :: nat where "MAX_RESPONSE = 5 * 1024 * 1024"

text \<open>A missing answer is settled as an empty one (\<open>response ?? ...\<close>).\<close>

definition settled_value :: "broker_client \<Rightarrow> jval \<Rightarrow> jval" where
  "settled_value bc v = or_default v (JObj [(''ok'', JBool False),
     (''error'', JObj [(''code'', JStr ''BROKER_EMPTY''), (''message'', JStr (bc_empty bc))])])"

definition socket_step :: "parser \<Rightarrow> broker_client \<Rightarrow> socket_event \<Rightarrow> client_state \<Rightarrow> client_state" where
  "socket_step parse bc ev s = (if cl_outcome s \<noteq> None then s else (case ev of
     Data_Chunk chunk \<Rightarrow>
       (let d = cl_data s @ chunk; s' = s\<lparr>cl_data := d\<rparr> in
        if MAX_RESPONSE < length d then s'\<lparr>cl_outcome := Some (Inl (Error (bc_name bc @ ''_response_too_large'')))\<rparr>
        else if newline \<notin> set d then s'
        else (case parse (takeWhile (\<lambda>c. c \<noteq> newline) d) of
            None \<Rightarrow> s'\<lparr>cl_outcome := Some (Inl (Error (bc_name bc @ ''_invalid_json'')))\<rparr>
          | Some v \<Rightarrow> s'\<lparr>cl_outcome := Some (Inr (settled_value bc v))\<rparr>))
   | Socket_Error m \<Rightarrow> s\<lparr>cl_outcome := Some (Inl (Error m))\<rparr>
   | Socket_End \<Rightarrow> s\<lparr>cl_outcome := Some (Inl (Error (bc_name bc @ ''_disconnected'')))\<rparr>
   | Socket_Timer \<Rightarrow> s\<lparr>cl_outcome := Some (Inl (Error (bc_name bc @ ''_timeout'')))\<rparr>))"

definition broker_outcome :: "parser \<Rightarrow> broker_client \<Rightarrow> socket_event list \<Rightarrow> (exn + jval) option" where
  "broker_outcome parse bc evs = cl_outcome (fold (socket_step parse bc) evs \<lparr>cl_data = [], cl_outcome = None\<rparr>)"

section \<open>The server's side\<close>

text \<open>\<open>agentExec\<close>: the errors of the dispatch become \<open>SSH_UNAVAILABLE\<close>.\<close>

definition agentExec :: "(string \<Rightarrow> jnum) \<Rightarrow> target_config \<Rightarrow> string list \<Rightarrow> exec_options \<Rightarrow> exec_result prog" where
  "agentExec lit t argv o1 =
    (if coalesce (deviceId t) [] = [] then fail (OpsError SSH_UNAVAILABLE)
     else (case argvToAgentOperation lit argv of
         Inl e \<Rightarrow> fail (OpsError REMOTE_COMMAND_FAILED)
       | Inr x \<Rightarrow> Ask (Operate (coalesce (deviceId t) []) (ao_op x) (ao_args x) o1)
           (\<lambda>r. Ret (case exec_answer r of Inl e \<Rightarrow> Inl (OpsError SSH_UNAVAILABLE) | Inr res \<Rightarrow> Inr res))))"

datatype carrier = Mock_Carrier | Agent_Carrier | Ssh_Carrier

definition getTransport :: "bool \<Rightarrow> target_config \<Rightarrow> carrier" where
  "getTransport mock t = (if mock \<or> transport t = Mock then Mock_Carrier
     else if transport t = Agent then Agent_Carrier else Ssh_Carrier)"

end
