(* ===== verification/Tool_Rules.thy ===== *)
theory Tool_Rules
  imports Tools Agent_Exec
begin

text \<open>
  What the tools may ask of the hosts: the commands and operations that only read, those that change something,
  each with what the target must grant for it; and the rules that carry a handler's checks to its questions.
\<close>

section \<open>Commands\<close>

text \<open>A command line with one free place.\<close>

definition wrapped :: "string list \<Rightarrow> string list \<Rightarrow> (string \<Rightarrow> bool) \<Rightarrow> string list \<Rightarrow> bool" where
  "wrapped before after P argv = (length before < length argv \<and> take (length before) argv = before \<and>
     drop (Suc (length before)) argv = after \<and> P (argv ! length before))"

lemma wrapped_iff: "wrapped before after P argv \<longleftrightarrow> (\<exists>x. argv = before @ x # after \<and> P x)"
proof
  assume w: "wrapped before after P argv"
  then have "argv = before @ argv ! length before # after"
    by (metis wrapped_def id_take_nth_drop)
  with w show "\<exists>x. argv = before @ x # after \<and> P x" by (auto simp: wrapped_def)
qed (auto simp: wrapped_def)

definition allowed_word :: "string list \<Rightarrow> string \<Rightarrow> bool" where
  "allowed_word xs w = (is_identifier w \<and> (''*'' \<in> set xs \<or> w \<in> set xs))"

definition confined_to :: "string list \<Rightarrow> string \<Rightarrow> bool" where
  "confined_to roots p = (clean_path p \<and> list_ex (\<lambda>root. inside_root root p) roots)"

definition unit_ok :: "target_config \<Rightarrow> string \<Rightarrow> bool" where
  "unit_ok t u = ((CHR ''.'' \<in> set u \<and> allowed_word (allowedServices t) u) \<or>
     (ends_with u ''.service'' \<and> allowed_word (allowedServices t) (take (length u - 8) u)))"

definition path_ok :: "target_config \<Rightarrow> string \<Rightarrow> string \<Rightarrow> bool" where
  "path_ok t op p = (if op \<in> {''fs.list'', ''fs.stat_size''} then confined_to (allowedPaths t) p else clean_path p)"

text \<open>The commands that only read.\<close>

definition read_command :: "target_config \<Rightarrow> string list \<Rightarrow> bool" where
  "read_command t argv =
    (list_ex (\<lambda>(op, x). argv = x) fixed_argv \<or>
     list_ex (\<lambda>(op, k, before, after). wrapped before after (path_ok t op) argv) path_argv \<or>
     wrapped [''head'', ''-c'', argv ! 2] [] (confined_to (allowedPaths t)) argv \<or>
     wrapped [''docker'', ''inspect'', ''--format'', ''{{json .State}}''] [] (allowed_word (allowedDockerContainers t)) argv \<or>
     wrapped [''docker'', ''inspect''] [] (allowed_word (allowedDockerContainers t)) argv \<or>
     wrapped [''docker'', ''logs'', ''--tail'', argv ! 3, ''--timestamps''] [] (allowed_word (allowedDockerContainers t)) argv \<or>
     wrapped [''systemctl'', ''show''] status_properties (unit_ok t) argv \<or>
     wrapped [''journalctl'', ''-u''] [''-n'', argv ! 4, ''--no-pager'', ''-o'', ''short-iso''] (unit_ok t) argv)"

text \<open>The commands that change something, and what the target must grant.\<close>

definition act_command :: "target_config \<Rightarrow> string list \<Rightarrow> bool" where
  "act_command t argv =
    (capabilityProfile t = Operator \<and>
     (transport t = Agent \<and> 4 \<le> length argv \<and> take 2 argv = [''docker'', ''exec''] \<and>
        allowed_word (allowedDockerExecContainers t) (argv ! 2) \<and>
        (''*'' \<in> set (allowedDockerExecPrograms t) \<or> argv ! 3 \<in> set (allowedDockerExecPrograms t)) \<or>
      transport t = Agent \<and> wrapped [''docker'', argv ! 1] [] (allowed_word (allowedDockerContainers t)) argv \<and>
        argv ! 1 \<in> set docker_actions \<and> argv ! 1 \<in> set (map docker_action_text (allowedDockerActions t)) \<or>
      wrapped [''systemctl'', argv ! 1] [] (unit_ok t) argv \<and>
        argv ! 1 \<in> set (map service_action_text (allowedServiceActions t))))"

section \<open>Operations\<close>

definition semantic :: "target_config \<Rightarrow> string \<Rightarrow> bool" where
  "semantic t c = (''*'' \<in> set (allowedSemanticCapabilities t) \<or> c \<in> set (allowedSemanticCapabilities t))"

definition grants_paperclip :: "target_config \<Rightarrow> bool" where
  "grants_paperclip t = (capabilityProfile t = Operator \<and>
     (''*'' \<in> set (allowedDockerExecContainers t) \<or> ''wandora-paperclip'' \<in> set (allowedDockerExecContainers t)))"

definition text_field :: "args \<Rightarrow> string \<Rightarrow> (string \<Rightarrow> bool) \<Rightarrow> bool" where
  "text_field a k P = (case field a k of JStr s \<Rightarrow> P s | _ \<Rightarrow> False)"

definition openhands_reads :: "string list" where
  "openhands_reads = [''openhands.health'', ''openhands.list'', ''openhands.status'', ''openhands.result'', ''openhands.events'']"

definition paperclip_reads :: "string list" where
  "paperclip_reads = [''paperclip.task_drain_status'', ''paperclip.tool_policies_list'',
     ''paperclip.tool_connection_activity_safe'', ''paperclip.tool_policy_test'']"

definition read_operation :: "target_config \<Rightarrow> string \<Rightarrow> bool" where
  "read_operation t op =
    (op \<in> {''process.read'', ''process.list''} \<and> capabilityProfile t = Operator \<or>
     op \<in> set openhands_reads \<and> semantic t ''openhands.read'' \<or>
     op \<in> set paperclip_reads \<and> grants_paperclip t \<or>
     op = ''postgres.pinned_readback'' \<and> semantic t ''postgres.pinned_readback'')"

definition prefixed_by :: "string list \<Rightarrow> string \<Rightarrow> bool" where
  "prefixed_by ps s = list_ex (\<lambda>p. p = ''*'' \<or> starts_with s p) ps"

definition act_workspace :: "target_config \<Rightarrow> string \<Rightarrow> args \<Rightarrow> bool" where
  "act_workspace t op a = (capabilityProfile t = Operator \<and>
     (op \<in> {''workspace.mkdir'', ''workspace.write'', ''workspace.edit''} \<and> text_field a ''path'' (confined_to (allowedWritePaths t)) \<or>
      op = ''workspace.move'' \<and> text_field a ''source'' (confined_to (allowedWritePaths t)) \<and>
        text_field a ''destination'' (confined_to (allowedWritePaths t)) \<or>
      op = ''process.start'' \<and> text_field a ''cwd'' (confined_to (allowedProcessCwds t)) \<and>
        text_field a ''program'' (\<lambda>p. p \<in> set (allowedProcessPrograms t)) \<or>
      op \<in> {''process.input'', ''process.kill''}))"

definition docker_granted :: "target_config \<Rightarrow> string \<Rightarrow> bool" where
  "docker_granted t action = (action \<in> set (map docker_action_text (allowedDockerActions t)))"

definition act_candidate :: "target_config \<Rightarrow> string \<Rightarrow> args \<Rightarrow> bool" where
  "act_candidate t op a = (capabilityProfile t = Operator \<and>
     (op = ''docker.image_load'' \<and> docker_granted t ''load_image'' \<and> text_field a ''path'' (confined_to (allowedDockerImageLoadRoots t)) \<or>
      op = ''docker.candidate_run'' \<and> docker_granted t ''candidate_run'' \<and>
        text_field a ''name'' (prefixed_by (allowedDockerCandidateNamePrefixes t)) \<and>
        text_field a ''image'' (prefixed_by (allowedDockerCandidateImagePrefixes t)) \<and>
        field a ''hostPort'' \<in> set (map jint (allowedDockerCandidateHostPorts t)) \<and>
        field a ''containerPort'' \<in> set (map jint (allowedDockerCandidateContainerPorts t)) \<or>
      op = ''docker.candidate_remove'' \<and> docker_granted t ''candidate_remove'' \<and>
        text_field a ''name'' (prefixed_by (allowedDockerCandidateNamePrefixes t))))"

definition act_semantic :: "target_config \<Rightarrow> string \<Rightarrow> bool" where
  "act_semantic t op =
    (op \<in> {''paperclip.task_drain_start'', ''paperclip.task_drain_stop'', ''paperclip.tool_policy_create'',
        ''paperclip.tool_policy_delete''} \<and> grants_paperclip t \<or>
     op \<in> {''openhands.start'', ''openhands.stop''} \<and> capabilityProfile t = Semantic_Operator \<and> semantic t ''openhands.execute'' \<or>
     op = ''host.managed_admin'' \<and> MANAGED_ADMIN_CAPABILITY \<in> set (allowedSemanticCapabilities t))"

definition act_operation :: "target_config \<Rightarrow> string \<Rightarrow> args \<Rightarrow> bool" where
  "act_operation t op a = (act_workspace t op a \<or> act_candidate t op a \<or> act_semantic t op)"

section \<open>Questions\<close>

text \<open>What a tool may ask on a target; a tool that only reads never asks for a change.\<close>

definition permitted :: "bool \<Rightarrow> target_config \<Rightarrow> wire \<Rightarrow> bool" where
  "permitted mutation t q = (case q of
     Exec t' argv x \<Rightarrow> t' = t \<and> (read_command t argv \<or> mutation \<and> act_command t argv)
   | Operate d op a x \<Rightarrow> transport t = Agent \<and> d = coalesce (deviceId t) [] \<and> d \<noteq> [] \<and>
       (read_operation t op \<or> mutation \<and> act_operation t op a)
   | Api m path body \<Rightarrow> False)"

text \<open>A question of a tool: an API request of a Portainer tool, or one permitted on the enabled target named by the
  arguments.\<close>

definition question_ok :: "string \<Rightarrow> bool \<Rightarrow> tstate \<Rightarrow> args \<Rightarrow> wire \<Rightarrow> bool" where
  "question_ok nm mutation st a q = (case q of
     Api m path body \<Rightarrow> starts_with nm ''portainer_'' \<and> (mutation \<or> m = GET \<and> body = JUndef)
   | _ \<Rightarrow> (case resolveTarget st (field a ''target'') of Inl e \<Rightarrow> False | Inr t \<Rightarrow> permitted mutation t q))"

definition any :: "'a \<Rightarrow> bool" where "any x = True"

lemma any_simp [simp]: "any x"
  by (simp add: any_def)

definition tool_ok :: "tool \<Rightarrow> bool" where
  "tool_ok u = (\<forall>env actor a st fs. parse_args (te_lit env) (tl_schema u env) fs = Some a \<longrightarrow>
     holds (question_ok (tl_name u) (tl_mutation u) st a) any (snd (tl_run u env actor a st)))"

section \<open>Rules\<close>

named_theorems tool_rules \<open>from a handler to the questions it asks\<close>

lemma Ret_ret: "holds P Q (Ret (Inr x)) = Q x" by simp

lemma holds_use_bind [simp]: "holds P Q (bindP (Ret r) f) = (\<forall>x. r = Inr x \<longrightarrow> holds P Q (f x))"
  by (cases r) auto

lemma holds_exec_bind [simp]: "holds P Q (bindP (exec_on t argv o1) f) =
    (P (Exec t argv o1) \<and> (\<forall>r. holds P Q (f r)))"
proof -
  have "(\<forall>a. holds P Q (bindP (Ret (exec_answer a)) f)) = (\<forall>r. holds P Q (f r))"
  proof
    assume h: "\<forall>a. holds P Q (bindP (Ret (exec_answer a)) f)"
    show "\<forall>r. holds P Q (f r)"
    proof
      fix r
      from h have "holds P Q (bindP (Ret (exec_answer (Result r))) f)" by blast
      then show "holds P Q (f r)" by (simp add: exec_answer_def)
    qed
  qed auto
  then show ?thesis by (simp add: exec_on_def del: holds_use_bind)
qed

lemma holds_requireExec_bind [simp]: "holds P Q (bindP (requireExec r) f) = (exit_code r \<noteq> None \<longrightarrow> holds P Q (f r))"
  by (simp add: requireExec_def fail_def ret_def)

lemma holds_caught_bind [simp]: "holds P Q (bindP (caught t argv) f) \<longleftrightarrow>
    P (Exec t argv no_options) \<and> (\<forall>r. holds P Q (f r))"
proof -
  have "(\<forall>a. holds P Q (bindP (catchP (Ret (exec_answer a))) f)) = (\<forall>r. holds P Q (f r))"
  proof
    assume h: "\<forall>a. holds P Q (bindP (catchP (Ret (exec_answer a))) f)"
    show "\<forall>r. holds P Q (f r)"
    proof
      fix r
      show "holds P Q (f r)"
      proof (cases r)
        case None
        from h have "holds P Q (bindP (catchP (Ret (exec_answer No_Key))) f)" by blast
        then show ?thesis using None by (simp add: exec_answer_def)
      next
        case (Some x)
        from h have "holds P Q (bindP (catchP (Ret (exec_answer (Result x)))) f)" by blast
        then show ?thesis using Some by (simp add: exec_answer_def)
      qed
    qed
  qed auto
  then show ?thesis by (simp add: caught_def exec_on_def)
qed

lemma holds_checked_bind:
  assumes "may_resolve P t" and f: "\<And>x. confined_to (allowedPaths t) x \<Longrightarrow> holds P Q (f x)"
  shows "holds P Q (bindP (checkedPathP p t) f)"
proof (rule holds_bind, rule holds_weaken [OF holds_checkedPath [OF assms(1)]])
  fix x
  assume "clean_path x \<and> (\<exists>root\<in>set (allowedPaths t). inside_root root x)"
  then show "holds P Q (f x)" by (intro f) (simp add: confined_to_def list_ex_iff)
qed

lemma holds_cwd_bind:
  assumes "may_resolve P t" and f: "\<And>x. confined_to (allowedProcessCwds t) x \<Longrightarrow> holds P Q (f x)"
  shows "holds P Q (bindP (checkedCwdP p t) f)"
proof (rule holds_bind, rule holds_weaken [OF holds_checkedCwd [OF assms(1)]])
  fix x
  assume "clean_path x \<and> (\<exists>root\<in>set (allowedProcessCwds t). inside_root root x)"
  then show "holds P Q (f x)" by (intro f) (simp add: confined_to_def list_ex_iff)
qed

lemma holds_repo_bind:
  assumes "may_resolve P t" and "\<And>x. clean_path x \<Longrightarrow> holds P Q (f x)"
  shows "holds P Q (bindP (checkedRepoP p t) f)"
  by (rule holds_bind, rule holds_weaken [OF holds_checkedRepo [OF assms(1)]]) (auto intro: assms(2))

text \<open>An agent operation may be asked when the target has an agent.\<close>

definition may_operate :: "(wire \<Rightarrow> bool) \<Rightarrow> target_config \<Rightarrow> string \<Rightarrow> args \<Rightarrow> bool" where
  "may_operate P t op a = (transport t = Agent \<longrightarrow> coalesce (deviceId t) [] \<noteq> [] \<longrightarrow>
     (\<forall>x. P (Operate (coalesce (deviceId t) []) op a x)))"

lemma holds_agentJson:
  assumes "may_operate P t op a"
  shows "holds P any (agentJson env t op a n)"
  using assms by (auto simp: agentJson_def fail_def may_operate_def split: sum.splits)

lemma holds_agentJson_bind:
  assumes "may_operate P t op a" and "\<And>v. holds P Q (f v)"
  shows "holds P Q (bindP (agentJson env t op a n) f)"
  by (rule holds_bind, rule holds_weaken [OF holds_agentJson [OF assms(1)]]) (auto intro: assms(2))

lemma holds_target_call:
  assumes "may_operate P t op a"
  shows "holds P any (target_call env t op a n)"
  unfolding target_call_def by (rule holds_agentJson_bind [OF assms]) simp

section \<open>Handlers\<close>

definition on_target_ok :: "(wire \<Rightarrow> bool) \<Rightarrow> jval prog \<Rightarrow> bool" where
  "on_target_ok P p = holds P any p"

text \<open>A handler on a target: its questions must be permitted on the target it resolved.\<close>

lemma on_target_okI:
  assumes "\<And>env a t st. on_target_ok (permitted (tl_mutation u) t) (h env a t st)" and "tl_run u = on_target h"
  shows "tool_ok u"
  unfolding tool_ok_def
proof (intro allI impI)
  fix env actor a st fs
  show "holds (question_ok (tl_name u) (tl_mutation u) st a) any (snd (tl_run u env actor a st))"
  proof (cases "resolveTarget st (field a ''target'')")
    case (Inl e)
    then show ?thesis by (simp add: assms(2) on_target_def pure_handler_def)
  next
    case (Inr t)
    from assms(1) have "holds (permitted (tl_mutation u) t) any (h env a t st)" by (simp add: on_target_ok_def)
    then have "holds (question_ok (tl_name u) (tl_mutation u) st a) any (h env a t st)"
      by (rule holds_weaken) (auto simp: question_ok_def Inr permitted_def split: wire.splits)
    with Inr show ?thesis by (simp add: assms(2) on_target_def pure_handler_def)
  qed
qed

lemma read_okI:
  assumes "\<And>env a t st. on_target_ok (permitted False t) (h env a t st)"
  shows "tool_ok (read_tool n sh (on_target h))"
  by (rule on_target_okI [where h = h]) (use assms in \<open>simp_all add: read_tool_def\<close>)

lemma act_okI:
  assumes "\<And>env a t st. on_target_ok (permitted mutation t) (h env a t st)"
  shows "tool_ok (tool_of n sh mutation destructive idempotent (on_target h))"
  by (rule on_target_okI [where h = h]) (use assms in \<open>simp_all add: tool_of_def\<close>)

lemma permitted_resolve: "may_resolve (permitted mutation t) t"
proof -
  have "read_command t (realpath_argv n)" if "clean_path n" for n
    using that by (simp add: read_command_def path_argv_def wrapped_iff path_ok_def)
  then show ?thesis by (simp add: may_resolve_def permitted_def)
qed

lemma permitted_operate:
  "may_operate (permitted mutation t) t op a \<longleftrightarrow>
    (transport t = Agent \<longrightarrow> coalesce (deviceId t) [] \<noteq> [] \<longrightarrow> read_operation t op \<or> mutation \<and> act_operation t op a)"
  by (auto simp: may_operate_def permitted_def)

lemma permitted_exec [simp]:
  "permitted mutation t (Exec t argv x) \<longleftrightarrow> read_command t argv \<or> mutation \<and> act_command t argv"
  by (simp add: permitted_def)

end
