(* ===== verification/Tool_Safety.thy ===== *)
theory Tool_Safety
  imports Tool_Rules
begin

text \<open>
  Every tool of the list asks only what is permitted: one lemma for each tool or group of tools, by the rules on
  handlers and what a passed check says.
\<close>

section \<open>What a passed check says\<close>

named_theorems passed \<open>the consequences of a successful check\<close>

lemma assertIdentifier_passed [passed]: "assertIdentifier s = Inr x \<longleftrightarrow> is_identifier s \<and> x = s"
  by (auto simp: assertIdentifier_def)

lemma checkAllow_passed [passed]: "checkAllow xs s e = Inr u \<longleftrightarrow> ''*'' \<in> set xs \<or> s \<in> set xs"
  by (simp add: checkAllow_def ensure_Inr_iff)

lemma container_passed [passed]: "container_arg xs a = Inr c \<longleftrightarrow> c = str_or_empty (field a ''container'') \<and> allowed_word xs c"
  by (auto simp: container_arg_def allowed_word_def bindR_Inr_iff passed)

lemma operator_passed [passed]: "requireOperator t = Inr u \<longleftrightarrow> capabilityProfile t = Operator"
  by (simp add: requireOperator_def ensure_Inr_iff)

lemma transport_passed [passed]: "requireAgentMutationTransport t = Inr u \<longleftrightarrow> transport t = Agent"
  by (simp add: requireAgentMutationTransport_def ensure_Inr_iff)

lemma named_passed: "requireNamedCapability xs v = Inr c \<Longrightarrow> c = str_or_empty v \<and> (''*'' \<in> set xs \<or> c \<in> set xs)"
  by (auto simp: requireNamedCapability_def Let_def bindR_Inr_iff ensure_Inr_iff)

lemma program_passed: "requireProgram t v = Inr p \<Longrightarrow> p \<in> set (allowedProcessPrograms t)"
  by (auto simp: requireProgram_def Let_def bindR_Inr_iff ensure_Inr_iff)

lemma semantic_passed: "requireSemanticCapability t c = Inr u \<Longrightarrow> semantic t c"
  using named_passed [of "allowedSemanticCapabilities t" "JStr c"]
  by (auto simp: requireSemanticCapability_def semantic_def bindR_Inr_iff)

lemma executor_passed: "requireOpenHandsExecutor t = Inr u \<Longrightarrow> capabilityProfile t = Semantic_Operator \<and> semantic t ''openhands.execute''"
  by (auto simp: requireOpenHandsExecutor_def bindR_Inr_iff ensure_Inr_iff dest: semantic_passed)

lemma paperclip_passed: "requirePaperclipSemantic t = Inr u \<Longrightarrow> grants_paperclip t"
  by (auto simp: requirePaperclipSemantic_def grants_paperclip_def bindR_Inr_iff passed)

lemma configured_passed:
  assumes "assertConfiguredPath p roots = Inr x"
  shows "confined_to roots x"
proof -
  note q = assertConfiguredPath_Inr [OF assms]
  then have "segs x = [] # clean_segs (sanitizeSegments p)" by (simp add: segs_normal_clean)
  moreover have "starts_with x ''/''" using q by (simp add: normal_path_def starts_with_slash)
  ultimately show ?thesis using q by (auto simp: confined_to_def clean_path_def list_ex_iff)
qed

lemma write_path_passed: "write_path t a k = Inr x \<Longrightarrow> confined_to (allowedWritePaths t) x"
  by (auto simp: write_path_def dest: configured_passed)

lemma unit_of_ok:
  assumes "is_identifier s" "''*'' \<in> set (allowedServices t) \<or> s \<in> set (allowedServices t)"
  shows "unit_ok t (unit_of s)"
  using assms by (auto simp: unit_ok_def unit_of_def allowed_word_def ends_with_def starts_with_def)

lemma service_passed: "service_arg t a = Inr s \<Longrightarrow> unit_ok t (unit_of s)"
  by (auto simp: service_arg_def bindR_Inr_iff passed intro: unit_of_ok)

lemma candidate_name_passed: "requireCandidateName ps v = Inr s \<Longrightarrow> prefixed_by ps s"
  by (auto simp: requireCandidateName_def matches_prefix_def prefixed_by_def bindR_Inr_iff ensure_Inr_iff)

lemma image_passed: "requirePrefixCapability ps v = Inr s \<Longrightarrow> prefixed_by ps s"
  by (auto simp: requirePrefixCapability_def matches_prefix_def prefixed_by_def Let_def bindR_Inr_iff ensure_Inr_iff)

lemma port_passed: "requireAllowedPort env ports v = Inr n \<Longrightarrow> n \<in> set ports"
  by (auto simp: requireAllowedPort_def bindR_Inr_iff ensure_Inr_iff split: option.splits)

section \<open>Commands that are allowed\<close>

text \<open>The shapes of the command lines, each with its one condition.\<close>

lemma fixed_reads [simp]:
  "read_command t [''hostname'']" "read_command t [''uname'', ''-srm'']" "read_command t [''cat'', ''/proc/loadavg'']"
  "read_command t [''uptime'', ''-p'']" "read_command t [''uptime'', ''-s'']" "read_command t [''head'', ''-n'', ''5'', ''/etc/os-release'']"
  "read_command t [''df'', ''-hP'']" "read_command t [''free'', ''-b'']" "read_command t [''docker'', ''ps'', ''-a'', ''--format'', ''{{json .}}'']"
  "read_command t [''docker'', ''ps'', ''-q'']"
  by (simp_all add: read_command_def fixed_argv_def)

lemma git_reads:
  assumes "clean_path p"
  shows "read_command t [''git'', ''-C'', p, ''rev-parse'', ''HEAD'']"
    "read_command t [''git'', ''-C'', p, ''log'', ''-1'', ''--format=%H%n%an%n%aI%n%s'']"
    "read_command t [''git'', ''-C'', p, ''-c'', ''core.quotepath=false'', ''status'', ''--porcelain=v1'', ''-b'']"
    "read_command t [''git'', ''-C'', p, ''diff'', ''--stat'']"
    "read_command t [''git'', ''-C'', p, ''diff'', ''--cached'', ''--stat'']"
  using assms by (simp_all add: read_command_def path_argv_def wrapped_iff path_ok_def)

lemma file_reads:
  assumes "confined_to (allowedPaths t) p"
  shows "read_command t [''ls'', ''-la'', ''--time-style=long-iso'', p]" "read_command t [''stat'', ''-c'', ''%s'', p]"
    "read_command t [''head'', ''-c'', n, p]"
  using assms by (simp_all add: read_command_def path_argv_def wrapped_iff path_ok_def)

lemma docker_reads:
  assumes "allowed_word (allowedDockerContainers t) c"
  shows "read_command t [''docker'', ''inspect'', ''--format'', ''{{json .State}}'', c]"
    "read_command t [''docker'', ''inspect'', c]"
    "read_command t [''docker'', ''logs'', ''--tail'', n, ''--timestamps'', c]"
  using assms by (simp_all add: read_command_def wrapped_iff)

lemma service_reads:
  assumes "unit_ok t u"
  shows "read_command t (''systemctl'' # ''show'' # u # status_properties)"
    "read_command t [''journalctl'', ''-u'', u, ''-n'', n, ''--no-pager'', ''-o'', ''short-iso'']"
  using assms by (simp_all add: read_command_def wrapped_iff)

lemma no_star_action [simp]: "docker_action_text x \<noteq> ''*''" "service_action_text y \<noteq> ''*''"
  by (cases x; simp) (cases y; simp)

section \<open>The tools\<close>

text \<open>The host.\<close>

lemma ok_host_status: "tool_ok tool_host_status"
  unfolding tool_host_status_def by (rule read_okI) (simp add: on_target_ok_def Let_def)

lemma ok_disk_usage: "tool_ok tool_disk_usage"
  unfolding tool_disk_usage_def by (rule read_okI) (simp add: on_target_ok_def Let_def)

lemma ok_memory_status: "tool_ok tool_memory_status"
  unfolding tool_memory_status_def by (rule read_okI) (simp add: on_target_ok_def Let_def)

lemma ok_uptime: "tool_ok tool_uptime"
  unfolding tool_uptime_def by (rule read_okI) (simp add: on_target_ok_def Let_def)

lemma ok_runtime_summary: "tool_ok tool_runtime_summary"
  unfolding tool_runtime_summary_def by (rule read_okI) (simp add: on_target_ok_def Let_def)

lemma ok_target_status: "tool_ok tool_target_status"
  unfolding tool_target_status_def by (rule read_okI) (simp add: on_target_ok_def)

text \<open>Docker.\<close>

lemma ok_docker_list: "tool_ok tool_docker_list"
  unfolding tool_docker_list_def by (rule read_okI) (simp add: on_target_ok_def Let_def)

lemma ok_docker_health: "tool_ok tool_docker_health"
  unfolding tool_docker_health_def by (rule read_okI) (auto simp: on_target_ok_def passed docker_reads)

lemma ok_docker_inspect_safe: "tool_ok tool_docker_inspect_safe"
  unfolding tool_docker_inspect_safe_def by (rule read_okI) (auto simp: on_target_ok_def passed docker_reads)

lemma ok_docker_logs: "tool_ok tool_docker_logs"
  unfolding tool_docker_logs_def
  by (rule read_okI) (auto simp: on_target_ok_def Let_def passed allowed_word_def intro!: docker_reads)

lemma exec_allowed:
  assumes "capabilityProfile t = Operator" "transport t = Agent" "allowed_word (allowedDockerExecContainers t) c"
    "''*'' \<in> set (allowedDockerExecPrograms t) \<or> p \<in> set (allowedDockerExecPrograms t)"
  shows "act_command t (''docker'' # ''exec'' # c # p # xs)"
  using assms by (simp add: act_command_def)

lemma ok_docker_exec: "tool_ok tool_docker_exec"
  unfolding tool_docker_exec_def
  by (rule act_okI) (auto simp: on_target_ok_def passed dest: named_passed intro!: exec_allowed)

lemma container_action_allowed:
  assumes "capabilityProfile t = Operator" "transport t = Agent" "allowed_word (allowedDockerContainers t) c"
    "x \<in> {''start'', ''stop'', ''restart''}" "x \<in> set (map docker_action_text (allowedDockerActions t))"
  shows "act_command t [''docker'', x, c]"
  using assms by (auto simp: act_command_def wrapped_iff docker_actions_def)

lemma granted_action:
  assumes "requireNamedCapability (map docker_action_text (allowedDockerActions t)) v = Inr x"
  shows "docker_granted t x"
  using named_passed [OF assms] by (auto simp: docker_granted_def no_star_action [symmetric])

lemma ok_container_action:
  assumes "capabilityProfile t = Operator" "transport t = Agent" "docker_granted t x" "x \<in> {''start'', ''stop'', ''restart''}"
  shows "holds (permitted True t) any (container_action env a t x)"
  using assms container_action_allowed by (auto simp: container_action_def passed docker_granted_def)

lemma candidate_operate:
  assumes "act_candidate t op x"
  shows "may_operate (permitted True t) t op x"
  using assms by (simp add: permitted_operate act_operation_def)

lemma ok_load_image:
  assumes "capabilityProfile t = Operator" "docker_granted t ''load_image''"
  shows "holds (permitted True t) any (load_image env a t x)"
  using assms
  by (auto simp: load_image_def act_candidate_def text_field_def field_def dest!: configured_passed
      intro!: holds_agentJson_bind candidate_operate)

lemma ok_candidate_run:
  assumes "capabilityProfile t = Operator" "docker_granted t ''candidate_run''"
  shows "holds (permitted True t) any (candidate_run env a t x)"
  using assms
  by (auto simp: candidate_run_def act_candidate_def text_field_def field_def
      dest!: candidate_name_passed image_passed port_passed intro!: holds_agentJson_bind candidate_operate)

lemma ok_candidate_remove:
  assumes "capabilityProfile t = Operator" "docker_granted t ''candidate_remove''"
  shows "holds (permitted True t) any (candidate_remove env a t x)"
  using assms
  by (auto simp: candidate_remove_def act_candidate_def text_field_def field_def
      dest!: candidate_name_passed intro!: holds_agentJson_bind candidate_operate)

lemma ok_docker_action: "tool_ok tool_docker_action"
  unfolding tool_docker_action_def
  by (rule act_okI)
    (auto simp: on_target_ok_def passed dest!: granted_action
      intro!: ok_container_action ok_load_image ok_candidate_run ok_candidate_remove)

text \<open>PostgreSQL and Paperclip.\<close>

lemma ok_postgres: "tool_ok tool_postgres_pinned_verifier_readback"
  unfolding tool_postgres_pinned_verifier_readback_def
  by (rule act_okI)
    (auto simp: on_target_ok_def permitted_operate read_operation_def dest!: semantic_passed intro!: holds_agentJson_bind)

definition paperclip_acts :: "string list" where
  "paperclip_acts = [''paperclip.task_drain_start'', ''paperclip.task_drain_stop'', ''paperclip.tool_policy_create'',
     ''paperclip.tool_policy_delete'']"

lemma paperclip_granted:
  assumes "grants_paperclip t" "op \<in> set paperclip_reads \<or> mutation \<and> op \<in> set paperclip_acts"
  shows "read_operation t op \<or> mutation \<and> act_operation t op x"
proof -
  have "act_semantic t op" if "op \<in> set paperclip_acts"
    using that assms(1) unfolding act_semantic_def paperclip_acts_def by simp
  moreover have "read_operation t op" if "op \<in> set paperclip_reads"
    using that assms(1) unfolding read_operation_def by blast
  ultimately show ?thesis using assms(2) unfolding act_operation_def by blast
qed

lemma holds_paperclip:
  assumes "op \<in> set paperclip_reads \<or> mutation \<and> op \<in> set paperclip_acts"
  shows "holds (permitted mutation t) any (use (requirePaperclipSemantic t) (\<lambda>_.
    bindP (agentJson env t op x n) (\<lambda>v. Ret (unwrapPaperclipResult t v))))"
proof -
  have "may_operate (permitted mutation t) t op x" if "requirePaperclipSemantic t = Inr u" for u
    using paperclip_granted [OF paperclip_passed [OF that] assms] by (simp add: permitted_operate)
  then show ?thesis by (auto intro!: holds_agentJson_bind split: sum.splits)
qed

lemma ok_paperclip:
  assumes "op \<in> set paperclip_reads \<or> mutation \<and> op \<in> set paperclip_acts"
  shows "tool_ok (tool_of n sh mutation destructive idempotent (paperclip_call mk op))"
  unfolding paperclip_call_def by (rule act_okI) (simp only: on_target_ok_def holds_paperclip [OF assms])

lemma ok_paperclip_tools:
  "tool_ok tool_paperclip_task_drain_status" "tool_ok tool_paperclip_tool_policies_list"
  "tool_ok tool_paperclip_tool_connection_activity_safe" "tool_ok tool_paperclip_tool_policy_test"
  "tool_ok tool_paperclip_task_drain_start" "tool_ok tool_paperclip_task_drain_stop"
  "tool_ok tool_paperclip_tool_policy_create" "tool_ok tool_paperclip_tool_policy_delete"
  unfolding tool_paperclip_task_drain_status_def tool_paperclip_tool_policies_list_def
    tool_paperclip_tool_connection_activity_safe_def tool_paperclip_tool_policy_test_def tool_paperclip_task_drain_start_def
    tool_paperclip_task_drain_stop_def tool_paperclip_tool_policy_create_def tool_paperclip_tool_policy_delete_def
  by (rule ok_paperclip; simp add: paperclip_reads_def paperclip_acts_def)+

text \<open>Services, git and files.\<close>

lemma ok_service_status: "tool_ok tool_service_status"
  unfolding tool_service_status_def
  by (rule read_okI) (auto simp: on_target_ok_def Let_def dest!: service_passed intro!: service_reads(1) [unfolded status_properties_def])

lemma ok_service_logs: "tool_ok tool_service_logs"
  unfolding tool_service_logs_def
  by (rule read_okI) (auto simp: on_target_ok_def Let_def dest!: service_passed intro: service_reads)

lemma service_action_allowed:
  assumes "capabilityProfile t = Operator" "unit_ok t u" "x \<in> set (map service_action_text (allowedServiceActions t))"
  shows "act_command t [''systemctl'', x, u]"
  using assms by (auto simp: act_command_def wrapped_iff)

lemma granted_service:
  assumes "requireNamedCapability (map service_action_text (allowedServiceActions t)) v = Inr x"
  shows "x \<in> set (map service_action_text (allowedServiceActions t))"
  using named_passed [OF assms] by (auto simp: no_star_action [symmetric])

lemma ok_service_action: "tool_ok tool_service_action"
  unfolding tool_service_action_def
  by (rule act_okI) (auto simp only: on_target_ok_def holds_use_bind operator_passed holds_exec_bind permitted_exec
      dest!: service_passed granted_service intro!: service_action_allowed; simp)

lemma ok_git_head: "tool_ok tool_git_head"
  unfolding tool_git_head_def
  by (rule read_okI) (auto simp: on_target_ok_def Let_def repo_arg_def git_reads intro!: holds_repo_bind permitted_resolve)

lemma ok_git_status: "tool_ok tool_git_status"
  unfolding tool_git_status_def
  by (rule read_okI) (auto simp: on_target_ok_def Let_def repo_arg_def git_reads intro!: holds_repo_bind permitted_resolve)

lemma ok_git_diff_summary: "tool_ok tool_git_diff_summary"
  unfolding tool_git_diff_summary_def
  by (rule read_okI) (auto simp: on_target_ok_def Let_def repo_arg_def git_reads intro!: holds_repo_bind permitted_resolve)

lemma ok_list_directory: "tool_ok tool_list_directory"
  unfolding tool_list_directory_def
  by (rule read_okI) (auto simp: on_target_ok_def Let_def path_arg_def file_reads intro!: holds_checked_bind permitted_resolve)

lemma ok_read_file: "tool_ok tool_read_file"
  unfolding tool_read_file_def
  by (rule read_okI) (auto simp: on_target_ok_def Let_def path_arg_def file_reads intro!: holds_checked_bind permitted_resolve)

text \<open>Writing and processes: every call needs an operator and its own paths.\<close>

lemma workspace_call:
  assumes "act_workspace t op x"
  shows "holds (permitted True t) any (target_call env t op x n)"
  by (rule holds_target_call) (use assms in \<open>simp add: permitted_operate act_operation_def\<close>)

lemma process_read_call:
  assumes "op \<in> {''process.read'', ''process.list''}" "capabilityProfile t = Operator"
  shows "holds (permitted False t) any (target_call env t op x n)"
  by (rule holds_target_call) (use assms in \<open>auto simp: permitted_operate read_operation_def\<close>)

lemmas workspace_simps = on_target_ok_def Let_def passed act_workspace_def text_field_def field_def

lemma ok_create_directory: "tool_ok tool_create_directory"
  unfolding tool_create_directory_def
  by (rule act_okI) (auto simp: workspace_simps dest!: write_path_passed intro!: workspace_call)

lemma ok_write_file: "tool_ok tool_write_file"
  unfolding tool_write_file_def
  by (rule act_okI) (auto simp: workspace_simps dest!: write_path_passed intro!: workspace_call)

lemma ok_edit_file: "tool_ok tool_edit_file"
  unfolding tool_edit_file_def
  by (rule act_okI) (auto simp: workspace_simps dest!: write_path_passed intro!: workspace_call)

lemma ok_move_file: "tool_ok tool_move_file"
  unfolding tool_move_file_def
  by (rule act_okI) (auto simp: workspace_simps dest!: write_path_passed intro!: workspace_call)

lemma ok_start_process: "tool_ok tool_start_process"
  unfolding tool_start_process_def
  by (rule act_okI)
    (auto simp: workspace_simps dest!: program_passed intro!: holds_cwd_bind permitted_resolve workspace_call)

lemma ok_read_process_output: "tool_ok tool_read_process_output"
  unfolding tool_read_process_output_def
  by (rule read_okI) (auto simp: on_target_ok_def passed intro!: process_read_call)

lemma ok_send_process_input: "tool_ok tool_send_process_input"
  unfolding tool_send_process_input_def
  by (rule act_okI) (auto simp: on_target_ok_def passed act_workspace_def intro!: workspace_call)

lemma ok_kill_process: "tool_ok tool_kill_process"
  unfolding tool_kill_process_def
  by (rule act_okI) (auto simp: on_target_ok_def passed act_workspace_def intro!: workspace_call)

lemma ok_list_processes: "tool_ok tool_list_processes"
  unfolding tool_list_processes_def
  by (rule read_okI) (auto simp: on_target_ok_def passed intro!: process_read_call)

text \<open>OpenHands.\<close>

lemma openhands_read_call:
  assumes "op \<in> set openhands_reads" "semantic t ''openhands.read''"
  shows "holds (permitted False t) any (target_call env t op x n)"
  by (rule holds_target_call) (use assms in \<open>auto simp: permitted_operate read_operation_def\<close>)

lemma openhands_act_call:
  assumes "op \<in> {''openhands.start'', ''openhands.stop''}" "capabilityProfile t = Semantic_Operator" "semantic t ''openhands.execute''"
  shows "holds (permitted True t) any (target_call env t op x n)"
  by (rule holds_target_call) (use assms in \<open>auto simp: permitted_operate act_operation_def act_semantic_def\<close>)

lemma ok_openhands_read:
  assumes "op \<in> set openhands_reads"
  shows "tool_ok (read_tool n sh (openhands_read op build))"
  unfolding openhands_read_def
  by (rule read_okI) (use assms in \<open>auto simp: on_target_ok_def dest!: semantic_passed intro!: openhands_read_call\<close>)

lemma ok_openhands_reads:
  "tool_ok tool_openhands_health" "tool_ok tool_openhands_list" "tool_ok tool_openhands_status"
  "tool_ok tool_openhands_result" "tool_ok tool_openhands_events"
  unfolding tool_openhands_health_def tool_openhands_list_def tool_openhands_status_def tool_openhands_result_def
    tool_openhands_events_def
  by (rule ok_openhands_read; simp add: openhands_reads_def)+

lemma ok_openhands_start: "tool_ok tool_openhands_start"
  unfolding tool_openhands_start_def
  by (rule act_okI) (auto simp: on_target_ok_def dest!: executor_passed intro!: openhands_act_call)

text \<open>A handler that resolves its target later.\<close>

lemma question_at:
  assumes "resolveTarget st (field a ''target'') = Inr t" "holds (permitted mutation t) Q p"
  shows "holds (question_ok n mutation st a) Q p"
  using assms(2) by (rule holds_weaken) (auto simp: question_ok_def assms(1) permitted_def split: wire.splits)

lemma ok_openhands_stop: "tool_ok tool_openhands_stop"
  unfolding tool_openhands_stop_def tool_ok_def tool_of_def
  by (auto simp: pure_handler_def dest!: executor_passed intro!: question_at openhands_act_call)

text \<open>The server, the approvals.\<close>

lemma silent_ok:
  assumes "\<And>env actor a st. \<exists>r. snd (tl_run u env actor a st) = Ret r"
  shows "tool_ok u"
  unfolding tool_ok_def using assms by (metis (no_types, lifting) any_simp holds.simps(1) sum.case_eq_if)

lemma ok_silent:
  "tool_ok tool_health" "tool_ok tool_targets_list" "tool_ok tool_target_agent_prepare" "tool_ok tool_target_agent_apply"
  "tool_ok tool_deepharness_docker_read_prepare" "tool_ok tool_deepharness_docker_read_apply" "tool_ok tool_host_admin_prepare"
  unfolding tool_ok_def tool_health_def tool_targets_list_def tool_target_agent_prepare_def tool_target_agent_apply_def
    tool_deepharness_docker_read_prepare_def tool_deepharness_docker_read_apply_def tool_host_admin_prepare_def
  by (auto simp: read_tool_def tool_of_def pure_handler_def Let_def split: prod.splits)

text \<open>Portainer: the requests themselves.\<close>

definition api_only :: "bool \<Rightarrow> wire \<Rightarrow> bool" where
  "api_only mutation q = (case q of Api m path body \<Rightarrow> mutation \<or> m = GET \<and> body = JUndef | _ \<Rightarrow> False)"

lemma api_only_simps [simp]: "api_only True (Api m p b)" "api_only mutation (Api GET p JUndef)"
  by (simp_all add: api_only_def)

lemma holds_request_bind [simp]:
  assumes "P (Api m path body)" "\<And>v. holds P Q (f v)"
  shows "holds P Q (bindP (requestJson parse m path body) f)"
  using assms by (auto simp: requestJson_def split: sum.splits)

lemma portainer_reads_ok:
  "holds (api_only b) any (portainerStatus parse url)" "holds (api_only b) any (portainerEndpoints parse)"
  "holds (api_only b) any (portainerStacks parse)" "holds (api_only b) any (portainerStack parse i)"
  by (simp_all add: portainerStatus_def portainerEndpoints_def portainerStacks_def portainerStack_def rawStack_def
      split: sum.splits prod.splits)

lemma confirmed_bind:
  assumes "\<And>x. holds (api_only b) Q (f x)"
  shows "holds (api_only b) Q (bindP (confirmed_stack parse i c) f)"
  using assms by (intro holds_bind) (simp add: confirmed_stack_def rawStack_def)

lemma portainer_acts_ok:
  "holds (api_only True) any (updatePortainerStackEnv parse lit u)"
  "holds (api_only True) any (redeployPortainerGitStack parse lit i c pull prune)"
  "holds (api_only True) any (startPortainerStack parse lit i c)"
  "holds (api_only True) any (stopPortainerStack parse lit i c)"
  "holds (api_only True) any (deletePortainerStack parse lit i c vols)"
  "holds (api_only True) any (createPortainerGitStack parse g)"
  by (auto simp: updatePortainerStackEnv_def redeployPortainerGitStack_def startPortainerStack_def stopPortainerStack_def
      deletePortainerStack_def createPortainerGitStack_def Let_def split: sum.splits prod.splits intro!: confirmed_bind)

lemma api_question:
  assumes "starts_with n ''portainer_''" "holds (api_only mutation) Q p"
  shows "holds (question_ok n mutation st a) Q p"
  using assms(2) by (rule holds_weaken) (use assms(1) in \<open>auto simp: question_ok_def api_only_def split: wire.splits\<close>)

lemma ok_portainer:
  "tool_ok tool_portainer_status" "tool_ok tool_portainer_endpoints_list" "tool_ok tool_portainer_stacks_list"
  "tool_ok tool_portainer_stack_get" "tool_ok tool_portainer_stack_start" "tool_ok tool_portainer_stack_stop"
  "tool_ok tool_portainer_stack_delete" "tool_ok tool_portainer_stack_update_env" "tool_ok tool_portainer_stack_git_redeploy"
  "tool_ok tool_portainer_stack_create_git"
  unfolding tool_ok_def tool_portainer_status_def tool_portainer_endpoints_list_def tool_portainer_stacks_list_def
    tool_portainer_stack_get_def tool_portainer_stack_start_def tool_portainer_stack_stop_def tool_portainer_stack_delete_def
    tool_portainer_stack_update_env_def tool_portainer_stack_git_redeploy_def tool_portainer_stack_create_git_def
  by (auto simp: read_tool_def tool_of_def pure_handler_def Let_def starts_with_def
      intro!: api_question portainer_reads_ok portainer_acts_ok)

text \<open>The privileged apply: the ticket goes to the device of the target it was approved for.\<close>

lemma consumed_target:
  assumes "consumeManagedAdminApproval ct rs lit cy nonce req now q = (q', Inr r)"
  shows "requireManagedAdminTarget ct rs (mc_targetId req) = Inr (cs_target r)"
  using consume_cases [OF assms] by auto

lemma parsed_target:
  assumes "parse_args lit ((''target'', targetField) # sh) fs = Some a"
  shows "\<exists>s. field a ''target'' = JStr s \<and> s \<noteq> []"
proof -
  from assms obtain v gs where v: "parse_schema lit targetField (field fs ''target'') = Some v"
    and a: "a = defined_fields ((''target'', v) # gs)"
    by (auto simp: parse_args_def all_some_iff Cons_eq_map_conv)
  from v obtain s where s: "field fs ''target'' = JStr s" "len_between 1 64 s" "v = JStr s"
    unfolding targetField_def parse_schema.simps by (cases "field fs ''target''") (simp_all split: if_splits)
  then have "s \<noteq> []" by (cases s) (simp_all add: len_between_def)
  with a s show ?thesis by (simp add: defined_fields_def field_def)
qed

lemma admin_resolved:
  assumes "requireManagedAdminTarget (ts_control st) (ts_registry st) s = Inr t" "s \<noteq> []"
  shows "resolveTarget st (JStr s) = Inr t \<and> MANAGED_ADMIN_CAPABILITY \<in> set (allowedSemanticCapabilities t)"
  using assms
  by (auto simp: requireManagedAdminTarget_def resolveTarget_def target_enabled_def bindR_Inr_iff ensure_Inr_iff split: option.splits)

lemma admin_operate:
  assumes "MANAGED_ADMIN_CAPABILITY \<in> set (allowedSemanticCapabilities t)"
  shows "may_operate (permitted True t) t ''host.managed_admin'' x"
  using assms by (simp add: permitted_operate act_operation_def act_semantic_def)

lemma ok_host_admin_apply: "tool_ok tool_host_admin_apply"
  unfolding tool_ok_def
proof (intro allI impI)
  fix env actor a and st :: tstate and fs
  let ?req = "\<lparr>mc_actor = actor, mc_targetId = str_of (field a ''target''), mc_approvalId = str_of (field a ''approval_id''),
      mc_confirmation = str_of (field a ''confirmation'')\<rparr>"
  assume "parse_args (te_lit env) (tl_schema tool_host_admin_apply env) fs = Some a"
  then obtain s where s: "field a ''target'' = JStr s" "s \<noteq> []"
    using parsed_target by (fastforce simp: tool_host_admin_apply_def tool_of_def)
  obtain q r where c: "consumeManagedAdminApproval (ts_control st) (ts_registry st) (te_lit env) (te_crypto env) (te_nonce env)
      ?req (te_now env) (ts_admin st) = (q, r)" by fastforce
  show "holds (question_ok (tl_name tool_host_admin_apply) (tl_mutation tool_host_admin_apply) st a) any
      (snd (tl_run tool_host_admin_apply env actor a st))"
  proof (cases r)
    case (Inl e)
    with c show ?thesis by (simp add: tool_host_admin_apply_def tool_of_def)
  next
    case (Inr x)
    from consumed_target [OF c [unfolded Inr]] s
    have t: "requireManagedAdminTarget (ts_control st) (ts_registry st) s = Inr (cs_target x)" by simp
    note res = admin_resolved [OF t s(2)]
    then have "resolveTarget st (field a ''target'') = Inr (cs_target x)" by (simp add: s(1))
    moreover note op = admin_operate [OF conjunct2 [OF res]]
    ultimately show ?thesis using c Inr
      by (auto simp: tool_host_admin_apply_def tool_of_def intro!: question_at holds_agentJson_bind [OF op])
  qed
qed

lemma all_tools_ok: "\<forall>u \<in> set BASE_TOOLS. tool_ok u"
  unfolding BASE_TOOLS_def
  by (simp only: list.set ball_simps insert_iff empty_iff ok_silent ok_target_status ok_host_admin_apply ok_host_status
      ok_disk_usage ok_memory_status ok_uptime ok_docker_list ok_docker_health ok_docker_inspect_safe ok_docker_logs
      ok_docker_exec ok_docker_action ok_postgres ok_paperclip_tools ok_service_status ok_service_logs ok_service_action
      ok_git_head ok_git_status ok_git_diff_summary ok_list_directory ok_read_file ok_create_directory ok_write_file
      ok_edit_file ok_move_file ok_start_process ok_read_process_output ok_send_process_input ok_kill_process
      ok_list_processes ok_portainer ok_openhands_reads ok_openhands_start ok_openhands_stop ok_runtime_summary simp_thms)

end
