(* ===== verification/Exec_Properties.thy ===== *)
theory Exec_Properties
  imports Exec_Broker
begin

text \<open>What \<^verbatim>\<open>src/exec/broker.ts\<close> guarantees: confinement of paths, the session table, the output
  buffer and the edits.\<close>

section \<open>Paths\<close>

definition real_root :: "exec_cfg \<Rightarrow> file_system \<Rightarrow> string \<Rightarrow> bool" where
  "real_root cfg fs root = list_ex (\<lambda>r. rootReal fs r = Inr root) (ex_roots cfg)"

lemma roots_real: "mapR (rootReal fs) (ex_roots cfg) = Inr roots \<Longrightarrow> r \<in> set roots \<Longrightarrow> real_root cfg fs r"
  unfolding mapR_Inr_iff real_root_def list_ex_iff by (rule list_all2_back)

lemma cleanAbs_Inr:
  "cleanAbs v = Inr p \<Longrightarrow> p = normalize_abs (str_or_empty v) \<and> \<not> isSecretPath p \<and> starts_with (str_or_empty v) ''/'' \<and>
     ''..'' \<notin> set (segs (str_or_empty v))"
  by (auto simp: cleanAbs_def Let_def split: if_splits)

lemma checked_existing:
  assumes "checkedPath cfg fs v True = Inr real"
  shows "\<exists>root. real_root cfg fs root \<and> inside root real \<and> \<not> isSecretPath real \<and>
    fs_realpath fs (normalize_abs (str_or_empty v)) = Some real"
proof -
  from assms obtain p roots where p: "cleanAbs v = Inr p" and roots: "mapR (rootReal fs) (ex_roots cfg) = Inr roots"
    unfolding checkedPath_def bindR_Inr_iff by blast
  have real: "fs_realpath fs p = Some real" "list_ex (\<lambda>r. inside r real) roots" "\<not> isSecretPath real"
    using assms by (cases "fs_realpath fs p"; simp add: checkedPath_def p roots bindR_Inr_iff ensure_Inr_iff)+
  from real(2) obtain r where "r \<in> set roots" "inside r real" by (auto simp: list_ex_iff)
  with roots_real [OF roots] real cleanAbs_Inr [OF p] show ?thesis by blast
qed

lemma checked_new:
  assumes "checkedPath cfg fs v False = Inr c"
  shows "\<exists>root near existing. real_root cfg fs root \<and> root \<noteq> [] \<and> inside root c \<and> inside root existing \<and>
    nearestExisting fs (normalize_abs (str_or_empty v)) = Inr near \<and> fs_realpath fs near = Some existing \<and>
    path_segs c = path_segs (normalize_abs (str_or_empty v))"
proof -
  from assms obtain p roots near where p: "cleanAbs v = Inr p"
    and roots: "mapR (rootReal fs) (ex_roots cfg) = Inr roots" and near: "nearestExisting fs p = Inr near"
    unfolding checkedPath_def bindR_Inr_iff by (auto simp: bindR_Inr_iff)
  obtain existing where ex: "fs_realpath fs near = Some existing"
    using assms by (cases "fs_realpath fs near") (simp_all add: checkedPath_def p roots near)
  obtain root where root: "List.find (\<lambda>r. inside r existing) roots = Some root"
    using assms by (cases "List.find (\<lambda>r. inside r existing) roots") (simp_all add: checkedPath_def p roots near ex)
  from assms have c: "root \<noteq> []" "c = join_abs existing (relative_abs existing p)" "inside root c"
    by (auto simp: checkedPath_def p roots near ex root Let_def bindR_Inr_iff ensure_Inr_iff)
  have "path_segs c = path_segs p"
    unfolding c(2) join_abs_def path_segs_normalize by (rule join_relative)
  with roots_real [OF roots] find_SomeD [OF root] near ex c cleanAbs_Inr [OF p] show ?thesis by blast
qed

text \<open>C33: A path the exec broker accepts is confined: an existing one is the real path of the request, inside
  the real path of a configured root and not secret; a new one has exactly the requested segments, lies
  inside such a root, and so does the real path of its nearest existing ancestor, so that no symbolic
  link on the way leads out.\<close>

theorem checkedPath_confined:
  assumes "checkedPath cfg fs v requireExisting = Inr c"
  shows "\<exists>root. real_root cfg fs root \<and> inside root c \<and>
    (if requireExisting then fs_realpath fs (normalize_abs (str_or_empty v)) = Some c \<and> \<not> isSecretPath c
     else \<exists>near existing. nearestExisting fs (normalize_abs (str_or_empty v)) = Inr near \<and>
       fs_realpath fs near = Some existing \<and> inside root existing \<and>
       path_segs c = path_segs (str_or_empty v))"
proof (cases requireExisting)
  case True
  with assms checked_existing show ?thesis by simp blast
next
  case False
  with assms checked_new [of cfg fs v c] show ?thesis by (auto simp: path_segs_normalize)
qed

definition demo_exec_cfg :: exec_cfg where
  "demo_exec_cfg = \<lparr>ex_roots = [''/ws''], ex_programs = [''git''], MAX_ACTIVE_SESSIONS = 2\<rparr>"

text \<open>A file system where \<open>/ws\<close>, \<open>/ws/a\<close> and the link \<open>/ws/out\<close> to \<open>/etc\<close> exist.\<close>

definition demo_fs :: file_system where
  "demo_fs = \<lparr>fs_realpath = (\<lambda>p. if p = ''/ws/out'' then Some ''/etc'' else if p \<in> {''/'', ''/ws'', ''/ws/a''} then Some p else None),
     fs_lstat = (\<lambda>p. p \<in> {''/'', ''/ws'', ''/ws/a'', ''/ws/out''}),
     fs_read = (\<lambda>p. if p = ''/ws/a'' then Some ''one two one'' else None), fs_text = (\<lambda>b. b)\<rparr>"

theorem checkedPath_confined_witness:
  "\<exists>root. real_root demo_exec_cfg demo_fs root \<and> inside root ''/ws/b/c''"
proof -
  have "checkedPath demo_exec_cfg demo_fs (JStr ''/ws//b/./c/'') False = Inr ''/ws/b/c''" by code_simp
  from checkedPath_confined [OF this] show ?thesis by auto
qed

text \<open>A link that leads out is refused. A trailing slash hides a secret file extension from the check of a
  new path: the path is then accepted, and the slash is gone from it.\<close>

lemma checkedPath_examples:
  "checkedPath demo_exec_cfg demo_fs (JStr ''/ws/out/passwd'') False = Inl (Error ''path_outside_workspace'')"
  "checkedPath demo_exec_cfg demo_fs (JStr ''/ws/id.pem'') False = Inl (Error ''secret_path_denied'')"
  "checkedPath demo_exec_cfg demo_fs (JStr ''/ws/id.pem/'') False = Inr ''/ws/id.pem''"
  by code_simp+

section \<open>Sessions\<close>

datatype exec_event =
    Request file_system string int "(string \<times> jval) list"
  | Child string int child_event

fun exec_step :: "exec_cfg \<Rightarrow> (string \<Rightarrow> jnum) \<Rightarrow> exec_event \<Rightarrow> exec_sessions \<Rightarrow> exec_sessions" where
  "exec_step cfg lit (Request fs newid now req) ss = fst (exec_handle cfg fs lit newid now req ss)"
| "exec_step cfg lit (Child i now ev) ss = modify i (session_event now ev) ss"

definition exec_run :: "exec_cfg \<Rightarrow> (string \<Rightarrow> jnum) \<Rightarrow> exec_event list \<Rightarrow> exec_sessions \<Rightarrow> exec_sessions" where
  "exec_run cfg lit steps ss = fold (exec_step cfg lit) steps ss"

text \<open>What a request does to the table: the reaping, and for a start one new session below the limit.\<close>

lemma exec_handle_sessions:
  "fst (exec_handle cfg fs lit newid now req ss) = reap now ss \<or>
   (\<exists>cwd program. exec_active (reap now ss) < MAX_ACTIVE_SESSIONS cfg \<and>
      fst (exec_handle cfg fs lit newid now req ss) =
      AList.update (''ps_'' @ newid) \<lparr>es_id = ''ps_'' @ newid, es_startedAt = now, es_cwd = cwd, es_program = program,
        es_output = [], es_exitCode = None, es_closedAt = None\<rparr> (reap now ss))"
  by (auto simp: exec_handle_def Let_def not_le split: sum.splits)

lemma active_update: "exec_active (AList.update i s ss) \<le> Suc (exec_active ss)"
  by (induction ss) (auto simp: exec_active_def vals_def)

lemma active_modify:
  "(\<And>s. es_closedAt (f s) = None \<Longrightarrow> es_closedAt s = None) \<Longrightarrow> exec_active (modify i f ss) \<le> exec_active ss"
proof -
  assume f: "\<And>s. es_closedAt (f s) = None \<Longrightarrow> es_closedAt s = None"
  have "map_of ss i = Some s \<Longrightarrow> exec_active (AList.update i (f s) ss) \<le> exec_active ss" for s
  proof (induction ss)
    case (Cons x ss)
    then show ?case using f [of s] by (cases x) (auto simp: exec_active_def vals_def split: if_splits)
  qed simp
  then show ?thesis by (auto simp: modify_def split: option.split)
qed

lemma active_reap: "exec_active (reap now ss) \<le> exec_active ss"
  by (induction ss) (auto simp: exec_active_def vals_def reap_def keep_def)

definition session_fits :: "exec_session \<Rightarrow> bool" where
  "session_fits s = (length (es_output s) \<le> MAX_OUTPUT)"

lemma utf8_length_ge: "length s \<le> utf8_length s"
  by (induction s) (auto simp: utf8_length_def)

lemma append_output_fits: "length (append_output out add) \<le> MAX_OUTPUT"
  using utf8_length_ge [of "out @ add"] by (auto simp: append_output_def Let_def)

lemma session_event_facts:
  "session_fits s \<Longrightarrow> session_fits (session_event now ev s)"
  "es_closedAt (session_event now ev s) = None \<Longrightarrow> es_closedAt s = None"
  by (cases ev; simp add: session_event_def session_fits_def append_output_fits)+

lemma fits_update: "list_all session_fits (vals ss) \<Longrightarrow> session_fits s \<Longrightarrow> list_all session_fits (vals (AList.update i s ss))"
  using vals_update_subset [of i s ss] by (auto simp: list_all_iff)

text \<open>Whatever requests arrive and whatever the children do, at most \<open>MAX_ACTIVE_SESSIONS\<close> sessions
  are running and no session buffers more than 1 MiB of characters.\<close>

lemma exec_sessions_bounded:
  "exec_active (exec_run cfg lit steps []) \<le> MAX_ACTIVE_SESSIONS cfg \<and>
   list_all (\<lambda>s. length (es_output s) \<le> 1048576) (vals (exec_run cfg lit steps []))"
proof -
  define inv where "inv ss = (exec_active ss \<le> MAX_ACTIVE_SESSIONS cfg \<and> list_all session_fits (vals ss))" for ss
  have "inv (exec_step cfg lit st ss)" if "inv ss" for st ss
  proof (cases st)
    case (Request fs newid now req)
    let ?r = "reap now ss"
    have r: "inv ?r"
      using that active_reap [of now ss] vals_keep_subset [of _ ss]
      by (auto simp: inv_def reap_def list_all_iff)
    from exec_handle_sessions [of cfg fs lit newid now req ss] show ?thesis
    proof (elim disjE exE conjE)
      fix cwd program
      let ?s = "\<lparr>es_id = ''ps_'' @ newid, es_startedAt = now, es_cwd = cwd, es_program = program,
        es_output = [], es_exitCode = None, es_closedAt = None\<rparr>"
      assume "exec_active ?r < MAX_ACTIVE_SESSIONS cfg"
        and eq: "fst (exec_handle cfg fs lit newid now req ss) = AList.update (''ps_'' @ newid) ?s ?r"
      then show ?thesis
        using r active_update [of "''ps_'' @ newid" ?s ?r] fits_update [of ?r ?s "''ps_'' @ newid"]
        by (simp only: Request exec_step.simps eq) (auto simp: inv_def session_fits_def)
    qed (use r Request in simp)
  next
    case (Child i now ev)
    have "list_all session_fits (vals (modify i (session_event now ev) ss))"
    proof (cases "map_of ss i")
      case None
      with that show ?thesis by (simp add: modify_def inv_def)
    next
      case (Some s)
      then have "session_fits s" using that lookup_in_vals [OF Some] by (auto simp: inv_def list_all_iff)
      then have "session_fits (session_event now ev s)" by (rule session_event_facts(1))
      with that fits_update [of ss "session_event now ev s" i] show ?thesis by (simp add: modify_def inv_def Some)
    qed
    moreover have "exec_active (modify i (session_event now ev) ss) \<le> exec_active ss"
      by (rule active_modify) (rule session_event_facts(2))
    ultimately show ?thesis using that by (simp add: Child inv_def)
  qed
  then have "inv ss \<Longrightarrow> inv (fold (exec_step cfg lit) steps ss)" for ss
    by (induction steps arbitrary: ss) simp_all
  moreover have "inv []" by (simp add: inv_def exec_active_def vals_def)
  ultimately have "inv (exec_run cfg lit steps [])" by (simp add: exec_run_def)
  then show ?thesis by (simp add: inv_def session_fits_def MAX_OUTPUT_def list_all_iff)
qed

section \<open>Starting, reading and editing\<close>

text \<open>A process starts only when a session slot is free, with a program of the broker's list, arguments
  within their limits and a working directory that is real, inside a root and not secret; no file is
  touched by it. Every other request that is not a workspace one leaves the files alone as well.\<close>

lemma process_start_sound:
  assumes "exec_handle cfg fs lit newid now req ss = (ss', Inr (effects, Started i cwd program args))"
  shows "effects = [] \<and> i = ''ps_'' @ newid \<and> exec_active (reap now ss) < MAX_ACTIVE_SESSIONS cfg \<and>
    program \<in> set (ex_programs cfg) \<and> re_program program \<and> length args \<le> 80 \<and>
    list_all (\<lambda>a. utf8_length a \<le> 16384) args \<and> (\<exists>root. real_root cfg fs root \<and> inside root cwd) \<and> \<not> isSecretPath cwd \<and>
    map_of ss' i = Some \<lparr>es_id = i, es_startedAt = now, es_cwd = cwd, es_program = program, es_output = [],
      es_exitCode = None, es_closedAt = None\<rparr>"
proof -
  let ?a = "case field req ''args'' of JObj fs \<Rightarrow> fs | _ \<Rightarrow> []"
  have op: "str_or_empty (field req ''op'') = ''process.start''"
    using assms by (simp add: exec_handle_def Let_def bindR_Inr_iff workspaceEdit_def split: if_splits option.splits)
      (auto split: option.splits)
  have slot: "exec_active (reap now ss) < MAX_ACTIVE_SESSIONS cfg"
    using assms by (simp add: exec_handle_def Let_def op not_le split: if_splits)
  from assms slot obtain c p v where c: "checkedPath cfg fs (field ?a ''cwd'') True = Inr c"
    and p: "exec_safeProgram cfg (field ?a ''program'') = Inr p" and v: "safeArgs (field ?a ''argv'') = Inr v"
    and eq: "effects = []" "i = ''ps_'' @ newid" "cwd = c" "program = p" "args = v"
      "ss' = AList.update (''ps_'' @ newid) \<lparr>es_id = ''ps_'' @ newid, es_startedAt = now, es_cwd = c, es_program = p,
        es_output = [], es_exitCode = None, es_closedAt = None\<rparr> (reap now ss)"
    by (auto simp: exec_handle_def Let_def op bindR_Inr_iff split: sum.splits)
  have "length v \<le> 80 \<and> list_all (\<lambda>a. utf8_length a \<le> 16384) v"
  proof (cases "field ?a ''argv''")
    case (JArr vs)
    with v have "length vs \<le> 80" "list_all2 (\<lambda>x y. utf8_length y \<le> 16384) vs v"
      by (auto simp: safeArgs_def textArg_def Let_def bindR_Inr_iff ensure_Inr_iff mapR_Inr_iff elim: list_all2_mono)
    then show ?thesis by (auto simp: list_all_length list_all2_conv_all_nth)
  qed (use v in \<open>simp_all add: safeArgs_def\<close>)
  moreover have "re_program p \<and> p \<in> set (ex_programs cfg)"
    using p by (auto simp: exec_safeProgram_def Let_def bindR_Inr_iff ensure_Inr_iff)
  ultimately show ?thesis using slot eq checked_existing [OF c] by auto
qed

definition demo_start :: "(string \<times> jval) list" where
  "demo_start = [(''op'', JStr ''process.start''), (''args'', JObj [(''cwd'', JStr ''/ws/a''), (''program'', JStr ''git''),
     (''argv'', JArr [JStr ''status''])])]"

text \<open>A reader that follows \<open>next_offset\<close> until nothing is truncated.\<close>

lemma read_progress:
  "rr_truncated (processRead lit (JNum (NInt (int off))) mx s) \<Longrightarrow> off < rr_next_offset (processRead lit (JNum (NInt (int off))) mx s)"
  using clamp_bounds [of 1 262144 "num_or lit mx 65536"]
  by (auto simp: processRead_def Let_def num_or_def or_default_def nullish_def split: if_splits)

lemma read_in_range: "rr_truncated (processRead lit off mx s) \<Longrightarrow> rr_next_offset (processRead lit off mx s) < length (es_output s)"
  by (simp add: processRead_def Let_def)

function read_all :: "(string \<Rightarrow> jnum) \<Rightarrow> jval \<Rightarrow> exec_session \<Rightarrow> nat \<Rightarrow> string" where
  "read_all lit mx s off =
    (let r = processRead lit (JNum (NInt (int off))) mx s in
     if rr_truncated r then rr_output r @ read_all lit mx s (rr_next_offset r) else rr_output r)"
  by pat_completeness auto
termination
proof (relation "measure (\<lambda>(lit, mx, s, off). length (es_output s) - off)")
  fix lit mx s off r
  assume "r = processRead lit (JNum (NInt (int off))) mx s" "rr_truncated r"
  with read_progress [of lit off mx s] read_in_range [of lit "JNum (NInt (int off))" mx s]
  show "((lit, mx, s, rr_next_offset r), lit, mx, s, off) \<in> measure (\<lambda>(lit, mx, s, off). length (es_output s) - off)"
    by simp
qed simp

declare read_all.simps [simp del]

lemma num_or_int: "num_or lit (JNum (NInt i)) 0 = i"
  by (simp add: num_or_def or_default_def nullish_def)

lemma take_then_drop: "take n ys @ drop (length (take n ys)) ys = ys"
  by (cases "n \<le> length ys") auto

lemma read_output:
  "rr_output (processRead lit (JNum (NInt (int off))) mx s) @ drop (rr_next_offset (processRead lit (JNum (NInt (int off))) mx s)) (es_output s)
     = drop off (es_output s)"
proof -
  let ?ys = "drop off (es_output s)" and ?r = "processRead lit (JNum (NInt (int off))) mx s"
  obtain n where r: "rr_output ?r = take n ?ys" "rr_next_offset ?r = off + length (take n ?ys)"
    by (auto simp: processRead_def Let_def num_or_int)
  have "drop (rr_next_offset ?r) (es_output s) = drop (length (take n ?ys)) ?ys"
    unfolding r(2) drop_drop by (simp only: add.commute)
  with r(1) take_then_drop [of n ?ys] show ?thesis by simp
qed


lemma split_str_nonempty: "sep \<noteq> [] \<Longrightarrow> split_str sep acc s \<noteq> []"
  by (induction sep acc s rule: split_str.induct) (subst split_str.simps, auto)

lemma split_str_join: "sep \<noteq> [] \<Longrightarrow> join sep (split_str sep acc s) = rev acc @ s"
proof (induction sep acc s rule: split_str.induct)
  case (1 sep acc s)
  show ?case
  proof (cases "s = []")
    case True
    with 1(3) show ?thesis by (simp add: split_str.simps [of sep acc "[]"])
  next
    case ne: False
    show ?thesis
    proof (cases "starts_with s sep")
      case True
      then obtain r where s: "s = sep @ r" by (auto simp: starts_with_iff)
      from 1(1) [OF 1(3) ne True 1(3)] have "join sep (split_str sep [] r) = r" by (simp add: s)
      then show ?thesis
        using ne 1(3) True by (simp add: split_str.simps [of sep acc "sep @ r"] s join_Cons split_str_nonempty)
    next
      case False
      from 1(2) [OF 1(3) ne False 1(3)] ne 1(3) False show ?thesis
        by (cases s) (simp_all add: split_str.simps [of sep acc "_ # _"])
    qed
  qed
qed

lemma split_str_empty: "join [] (split_str [] acc s) = s"
proof -
  have "join [] (map (\<lambda>c. [c]) s) = s" for s :: string
    by (induction s rule: induct_list012) auto
  then show ?thesis by (simp add: split_str.simps)
qed

text \<open>An edit that succeeds rewrites exactly the checked file: the file is the old text's occurrences between
  parts, their number is the expected one, between 1 and 100, and the file is written with the new text
  in their place and everything else as it was.\<close>

lemma workspace_edit_exact:
  assumes "workspaceEdit cfg fs lit a = Inr (effects, reply)"
  shows "\<exists>target current parts oldB newB. checkedPath cfg fs (field a ''path'') True = Inr target \<and>
    decodeB64 (field a ''old_b64'') MAX_WRITE = Inr oldB \<and> decodeB64 (field a ''new_b64'') MAX_WRITE = Inr newB \<and>
    fs_read fs target = Some current \<and> current = join (fs_text fs oldB) parts \<and>
    effects = [Write_File target (join (fs_text fs newB) parts)] \<and>
    reply = Edited target (int (length parts) - 1) \<and> 2 \<le> length parts \<and> length parts \<le> 101 \<and>
    num_of lit (or_default (field a ''expected_replacements'') (JNum (NInt 1))) = NInt (int (length parts) - 1)"
proof -
  from assms obtain target oldB newB where t: "checkedPath cfg fs (field a ''path'') True = Inr target"
    "decodeB64 (field a ''old_b64'') MAX_WRITE = Inr oldB" "decodeB64 (field a ''new_b64'') MAX_WRITE = Inr newB"
    unfolding workspaceEdit_def bindR_Inr_iff by blast
  let ?n = "num_of lit (or_default (field a ''expected_replacements'') (JNum (NInt 1)))"
  note run = assms [unfolded workspaceEdit_def t bindR_simps Let_def]
  from run obtain expected where x: "int_such (\<lambda>n. 1 \<le> n \<and> n \<le> 100) ?n = Some expected"
    by (cases "int_such (\<lambda>n. 1 \<le> n \<and> n \<le> 100) ?n") simp_all
  then have e: "?n = NInt expected" "1 \<le> expected" "expected \<le> 100" by (auto simp: int_such_Some)
  note run = run [unfolded x option.case]
  from run obtain current where cur: "fs_read fs target = Some current"
    by (cases "fs_read fs target") simp_all
  let ?parts = "split_str (fs_text fs oldB) [] current"
  from run cur have r: "int (length ?parts) - 1 = expected"
      "effects = [Write_File target (join (fs_text fs newB) ?parts)]" "reply = Edited target (int (length ?parts) - 1)"
    by (auto simp: bindR_Inr_iff ensure_Inr_iff)
  have "current = join (fs_text fs oldB) ?parts"
    using split_str_join [of "fs_text fs oldB" "[]" current] split_str_empty [of "[]" current]
    by (cases "fs_text fs oldB = []") simp_all
  moreover from r(1) e have "2 \<le> length ?parts" "length ?parts \<le> 101" by linarith+
  ultimately show ?thesis using t e(1) cur r by blast
qed

definition demo_edit :: "(string \<times> jval) list" where
  "demo_edit = [(''path'', JStr ''/ws/a''), (''old_b64'', JStr ''b25l''), (''new_b64'', JStr ''MQ==''),
     (''expected_replacements'', JNum (NInt 2))]"

lemma workspace_edit_exact_witness:
  "\<exists>parts. ''one two one'' = join ''one'' parts \<and> ''1 two 1'' = join ''1'' parts \<and> length parts = 3"
proof -
  have field: "field demo_edit ''path'' = JStr ''/ws/a''" "field demo_edit ''old_b64'' = JStr ''b25l''"
    "field demo_edit ''new_b64'' = JStr ''MQ==''" "field demo_edit ''expected_replacements'' = JNum (NInt 2)"
    by (code_simp, code_simp, code_simp, code_simp)
  have c: "checkedPath demo_exec_cfg demo_fs (JStr ''/ws/a'') True = Inr ''/ws/a''" by code_simp
  have "b64_text ''b25l''" "b64_text ''MQ==''" by code_simp+
  moreover have "b64_bytes (map b64_value (takeWhile b64_char ''b25l'')) = ''one''" by code_simp
  moreover have "b64_bytes (map b64_value (takeWhile b64_char ''MQ=='')) = ''1''" by code_simp
  ultimately have b: "decodeB64 (JStr ''b25l'') MAX_WRITE = Inr ''one''" "decodeB64 (JStr ''MQ=='') MAX_WRITE = Inr ''1''"
    by (simp_all add: decodeB64_def MAX_WRITE_def Let_def)
  have s: "split_str ''one'' [] ''one two one'' = [[], '' two '', []]" by code_simp
  have r: "fs_read demo_fs ''/ws/a'' = Some ''one two one''" "fs_text demo_fs = (\<lambda>b. b)" by (simp_all add: demo_fs_def)
  have n: "num_of (\<lambda>s. NOther s) (or_default (JNum (NInt 2)) (JNum (NInt 1))) = NInt 2" by code_simp
  have "workspaceEdit demo_exec_cfg demo_fs (\<lambda>s. NOther s) demo_edit = Inr ([Write_File ''/ws/a'' ''1 two 1''], Edited ''/ws/a'' 2)"
    using r by (simp add: workspaceEdit_def field b c n s int_such_def Let_def)
  from workspace_edit_exact [OF this] show ?thesis
    by (auto simp: field b c r)
qed

end
