(* ===== verification/Tool_Properties.thy ===== *)
theory Tool_Properties
  imports Tool_Safety Exec_Properties
begin

text \<open>
  What a call of a tool can do: which questions it may ask, that a tool that only reads asks for no change, that
  refused and semantic targets are left alone, which tools change the approvals, and that every call is audited
  as it ended.
\<close>

section \<open>The list\<close>

lemmas tool_defs = tool_health_def tool_targets_list_def tool_target_status_def tool_target_agent_prepare_def
    tool_target_agent_apply_def tool_deepharness_docker_read_prepare_def tool_deepharness_docker_read_apply_def
    tool_host_admin_prepare_def tool_host_admin_apply_def tool_host_status_def tool_disk_usage_def
    tool_memory_status_def tool_uptime_def tool_docker_list_def tool_docker_health_def
    tool_docker_inspect_safe_def tool_docker_logs_def tool_docker_exec_def tool_docker_action_def
    tool_postgres_pinned_verifier_readback_def tool_paperclip_task_drain_status_def
    tool_paperclip_tool_policies_list_def tool_paperclip_tool_connection_activity_safe_def
    tool_paperclip_tool_policy_test_def tool_paperclip_task_drain_start_def tool_paperclip_task_drain_stop_def
    tool_paperclip_tool_policy_create_def tool_paperclip_tool_policy_delete_def tool_service_status_def
    tool_service_logs_def tool_service_action_def tool_git_head_def tool_git_status_def tool_git_diff_summary_def
    tool_list_directory_def tool_read_file_def tool_create_directory_def tool_write_file_def tool_edit_file_def
    tool_move_file_def tool_start_process_def tool_read_process_output_def tool_send_process_input_def
    tool_kill_process_def tool_list_processes_def tool_portainer_status_def tool_portainer_endpoints_list_def
    tool_portainer_stacks_list_def tool_portainer_stack_get_def tool_portainer_stack_start_def
    tool_portainer_stack_stop_def tool_portainer_stack_delete_def tool_portainer_stack_update_env_def
    tool_portainer_stack_git_redeploy_def tool_portainer_stack_create_git_def tool_openhands_health_def
    tool_openhands_list_def tool_openhands_status_def tool_openhands_result_def tool_openhands_events_def
    tool_openhands_start_def tool_openhands_stop_def tool_runtime_summary_def

lemma tool_fields [simp]:
  "tl_name (read_tool n sh run) = n" "tl_mutation (read_tool n sh run) = False" "tl_run (read_tool n sh run) = run"
  "tl_name (tool_of n sh m d i run) = n" "tl_mutation (tool_of n sh m d i run) = m" "tl_run (tool_of n sh m d i run) = run"
  "tl_schema (read_tool n sh run) = sh" "tl_schema (tool_of n sh m d i run) = sh"
  by (simp_all add: read_tool_def tool_of_def)

lemma tool_names: "map tl_name BASE_TOOLS = [
  ''health'',
  ''targets_list'',
  ''target_status'',
  ''target_agent_prepare'',
  ''target_agent_apply'',
  ''deepharness_docker_read_prepare'',
  ''deepharness_docker_read_apply'',
  ''host_admin_prepare'',
  ''host_admin_apply'',
  ''host_status'',
  ''disk_usage'',
  ''memory_status'',
  ''uptime'',
  ''docker_list'',
  ''docker_health'',
  ''docker_inspect_safe'',
  ''docker_logs'',
  ''docker_exec'',
  ''docker_action'',
  ''postgres_pinned_verifier_readback'',
  ''paperclip_task_drain_status'',
  ''paperclip_tool_policies_list'',
  ''paperclip_tool_connection_activity_safe'',
  ''paperclip_tool_policy_test'',
  ''paperclip_task_drain_start'',
  ''paperclip_task_drain_stop'',
  ''paperclip_tool_policy_create'',
  ''paperclip_tool_policy_delete'',
  ''service_status'',
  ''service_logs'',
  ''service_action'',
  ''git_head'',
  ''git_status'',
  ''git_diff_summary'',
  ''list_directory'',
  ''read_file'',
  ''create_directory'',
  ''write_file'',
  ''edit_file'',
  ''move_file'',
  ''start_process'',
  ''read_process_output'',
  ''send_process_input'',
  ''kill_process'',
  ''list_processes'',
  ''portainer_status'',
  ''portainer_endpoints_list'',
  ''portainer_stacks_list'',
  ''portainer_stack_get'',
  ''portainer_stack_start'',
  ''portainer_stack_stop'',
  ''portainer_stack_delete'',
  ''portainer_stack_update_env'',
  ''portainer_stack_git_redeploy'',
  ''portainer_stack_create_git'',
  ''openhands_health'',
  ''openhands_list'',
  ''openhands_status'',
  ''openhands_result'',
  ''openhands_events'',
  ''openhands_start'',
  ''openhands_stop'',
  ''runtime_summary'']"
  by (simp add: BASE_TOOLS_def tool_defs)

lemma names_distinct: "distinct (map tl_name BASE_TOOLS)"
  unfolding tool_names by simp

section \<open>Calls\<close>

lemma find_in: "List.find P xs = Some x \<Longrightarrow> P x \<and> x \<in> set xs"
  by (induction xs) (auto split: if_splits)

lemma tool_named_cases:
  assumes "tool_named nm = Some u"
  obtains v where "v \<in> set BASE_TOOLS" "u = v\<lparr>tl_run := guarded_run v\<rparr>" "tl_name v = nm"
proof -
  from find_in [OF assms [unfolded tool_named_def]] have u: "u \<in> set TOOL_DEFS" "tl_name u = nm" by blast+
  then obtain v where "v \<in> set BASE_TOOLS" "u = v\<lparr>tl_run := guarded_run v\<rparr>"
    unfolding TOOL_DEFS_def by (metis (no_types, lifting) imageE list.set_map)
  with u(2) that show ?thesis by simp
qed

lemma holds_guarded:
  assumes "tool_ok v" "parse_args (te_lit env) (tl_schema v env) fs = Some a"
  shows "holds (question_ok (tl_name v) (tl_mutation v) st a) any (snd (guarded_run v env actor a st))"
  using assms by (auto simp: guarded_run_def tool_ok_def split: sum.splits)

lemma holds_try: "holds P Q p \<Longrightarrow> holds P any (tryP p)"
  by (induction p) auto

lemma holds_callback:
  assumes "holds P any (snd (tl_run u env actor a st))"
  shows "holds P any (snd (tool_callback request actor u env a st))"
  using holds_try [OF assms]
  by (auto simp: tool_callback_def case_prod_beta intro!: holds_bind elim: holds_weaken)

lemma holds_call:
  assumes "tool_named nm = Some u" "parse_args (te_lit env) (tl_schema u env) fs = Some a"
  shows "holds (question_ok nm (tl_mutation u) st a) any (snd (call_tool request actor env nm fs st))"
proof -
  from assms(1) obtain v where v: "v \<in> set BASE_TOOLS" "u = v\<lparr>tl_run := guarded_run v\<rparr>" "tl_name v = nm"
    by (rule tool_named_cases)
  with all_tools_ok have "tool_ok v" by blast
  with assms(2) v(2) have "holds (question_ok nm (tl_mutation v) st a) any (snd (guarded_run v env actor a st))"
    unfolding v(3) [symmetric] by (intro holds_guarded) simp_all
  then have "holds (question_ok nm (tl_mutation u) st a) any (snd (tool_callback request actor u env a st))"
    by (intro holds_callback) (simp add: v(2))
  then show ?thesis
    by (auto simp: call_tool_def assms case_prod_beta intro!: holds_bind elim: holds_weaken)
qed

lemma named_tool:
  assumes "v \<in> set BASE_TOOLS"
  shows "tool_named (tl_name v) = Some (v\<lparr>tl_run := guarded_run v\<rparr>)"
proof -
  have "List.find (\<lambda>u. tl_name u = tl_name v) (map (\<lambda>u. u\<lparr>tl_run := guarded_run u\<rparr>) us) = Some (v\<lparr>tl_run := guarded_run v\<rparr>)"
    if "v \<in> set us" "distinct (map tl_name us)" for us
    using that by (induction us) (auto simp: image_iff)
  from this [OF assms names_distinct] show ?thesis unfolding tool_named_def TOOL_DEFS_def .
qed


text \<open>A host \<open>lab\<close> run by an operator and a semantic target \<open>oh\<close>, in a process whose answers are fixed.\<close>

definition demo_lab :: target_config where
  "demo_lab = (demo_target ''lab'' Agent (Some ''dev_12345678''))\<lparr>capabilityProfile := Operator,
     allowedDockerContainers := [''web''], allowedWritePaths := [''/ws'']\<rparr>"

definition demo_semantic :: target_config where
  "demo_semantic = (demo_target ''oh'' Agent (Some ''dev_12345678''))\<lparr>capabilityProfile := Semantic_Operator\<rparr>"

definition demo_state :: tstate where
  "demo_state = \<lparr>ts_control = demo_control,
     ts_registry = \<lparr>rs_static = No_File, rs_dynamic = No_File, rs_registry = Some [(''lab'', demo_lab), (''oh'', demo_semantic)]\<rparr>,
     ts_agent = [], ts_admin = [], ts_dh = []\<rparr>"

definition demo_env :: tenv where
  "demo_env = \<lparr>te_now = 600000, te_hex24 = ''1'', te_nonce = demo_nonce, te_crypto = demo_crypto, te_lit = demo_lit,
     te_less = (\<lambda>x y. False), te_pct = (\<lambda>x y. NInt 0), te_human = (\<lambda>s. s), te_trunc = (\<lambda>s. 0), te_parse = (\<lambda>s. None),
     te_iso = int_text, te_locale = (\<lambda>x y. True), te_uuid = (\<lambda>s. True), te_url = (\<lambda>s. True), te_mock = False,
     te_MAX_LOG_LINES = 500, te_READ_FILE_MAX_BYTES = 65536, te_MAX_OUTPUT_BYTES = 262144, te_PORTAINER_URL = ''https://p''\<rparr>"

definition demo_answers :: "unit \<Rightarrow> wire \<Rightarrow> unit \<times> answer" where
  "demo_answers w q = (w, Result \<lparr>exit_code = Some 0, stdout = [], stderr = [], durationMs = 1, truncated = False, timedOut = False\<rparr>)"

definition demo_args :: "string \<Rightarrow> args" where
  "demo_args i = [(''target'', JStr i), (''container'', JStr ''web'')]"

lemma demo_resolved: "resolveTarget demo_state (JStr ''lab'') = Inr demo_lab"
  by code_simp

lemma demo_parsed: "parse_args (te_lit demo_env) [(''target'', targetField), (''container'', containerField)] (demo_args i) =
    (if len_between 1 64 i then Some (demo_args i) else None)"
  by (simp add: demo_args_def parse_args_def field_def targetField_def containerField_def defined_fields_def len_between_def)

lemma demo_tool:
  "tool_named ''docker_health'' = Some (tool_docker_health\<lparr>tl_run := guarded_run tool_docker_health\<rparr>)"
  using named_tool [of tool_docker_health] by (simp add: BASE_TOOLS_def tool_docker_health_def)


lemma demo_question:
  "permitted False demo_lab (Exec demo_lab [''docker'', ''inspect'', ''--format'', ''{{json .State}}'', ''web''] no_options) \<and>
   \<not> permitted True demo_lab (Exec demo_lab [''docker'', ''inspect'', ''--format'', ''{{json .State}}'', ''db''] no_options)"
  by code_simp

section \<open>Reading\<close>

definition approval_tools :: "string list" where
  "approval_tools = [''target_agent_prepare'', ''target_agent_apply'', ''deepharness_docker_read_prepare'',
     ''deepharness_docker_read_apply'', ''host_admin_prepare'', ''host_admin_apply'']"

definition keeps_state :: "tool \<Rightarrow> bool" where
  "keeps_state u = (\<forall>env actor a st. fst (tl_run u env actor a st) = st)"

lemma keeps_simps [simp]:
  "keeps_state (read_tool n sh (pure_handler h))" "keeps_state (tool_of n sh m d i (pure_handler h))"
  "keeps_state (read_tool n sh (on_target g))" "keeps_state (tool_of n sh m d i (on_target g))"
  by (simp_all add: keeps_state_def pure_handler_def on_target_def)

lemma approval_names:
  "''target_agent_prepare'' \<in> set approval_tools" "''target_agent_apply'' \<in> set approval_tools"
  "''deepharness_docker_read_prepare'' \<in> set approval_tools" "''deepharness_docker_read_apply'' \<in> set approval_tools"
  "''host_admin_prepare'' \<in> set approval_tools" "''host_admin_apply'' \<in> set approval_tools"
  by (simp_all add: approval_tools_def)

lemma all_keep: "\<forall>u \<in> set BASE_TOOLS. tl_name u \<in> set approval_tools \<and> tl_mutation u \<or> keeps_state u"
  by (simp only: BASE_TOOLS_def tool_defs openhands_read_def paperclip_call_def list.set ball_simps insert_iff empty_iff
      tool_fields keeps_simps approval_names simp_thms)

lemma fst_call:
  assumes "tool_named nm = Some u" "parse_args (te_lit env) (tl_schema u env) fs = Some a"
  shows "fst (call_tool request actor env nm fs st) = fst (tl_run u env actor a st)"
  using assms by (simp add: call_tool_def tool_callback_def case_prod_beta)

lemma call_keeps:
  assumes "tool_named nm = Some u" "nm \<notin> set approval_tools \<or> \<not> tl_mutation u"
  shows "fst (call_tool request actor env nm fs st) = st"
proof (cases "parse_args (te_lit env) (tl_schema u env) fs")
  case None
  then show ?thesis by (simp add: call_tool_def assms)
next
  case (Some a)
  from assms(1) obtain v where v: "v \<in> set BASE_TOOLS" "u = v\<lparr>tl_run := guarded_run v\<rparr>" "tl_name v = nm"
    by (rule tool_named_cases)
  with all_keep assms(2) have "keeps_state v" by fastforce
  then have "fst (tl_run u env actor a st) = st"
    by (auto simp: v(2) guarded_run_def keeps_state_def split: sum.splits)
  with fst_call [OF assms(1) Some] show ?thesis by simp
qed

definition read_question :: "tstate \<Rightarrow> args \<Rightarrow> wire \<Rightarrow> bool" where
  "read_question st a q = (case q of
     Api m path body \<Rightarrow> m = GET \<and> body = JUndef
   | Exec t argv x \<Rightarrow> resolveTarget st (field a ''target'') = Inr t \<and> read_command t argv
   | Operate d op b x \<Rightarrow> (case resolveTarget st (field a ''target'') of Inl e \<Rightarrow> False
       | Inr t \<Rightarrow> deviceId t = Some d \<and> read_operation t op))"

lemma read_questionI: "question_ok nm False st a q \<Longrightarrow> read_question st a q"
  by (auto simp: question_ok_def read_question_def permitted_def coalesce_def split: wire.splits sum.splits option.splits)



section \<open>Refused targets\<close>

text \<open>A disabled, missing or malformed target is out of reach of every tool: when the target of the arguments does not
  resolve, a call of any tool but the Portainer ones sends nothing to any host.\<close>

lemma refused_unreached:
  assumes "tool_named nm = Some u" "parse_args (te_lit env) (tl_schema u env) fs = Some a"
    "resolveTarget st (field a ''target'') = Inl e" "\<not> starts_with nm ''portainer_''"
  shows "asked (snd (call_tool request actor env nm fs st)) world w = []"
proof -
  have "list_all (question_ok nm (tl_mutation u) st a) (asked (snd (call_tool request actor env nm fs st)) world w)"
    using holds_call [OF assms(1,2)] by (rule holds_asked)
  moreover have "\<not> question_ok nm (tl_mutation u) st a q" for q
    using assms(3,4) by (auto simp: question_ok_def split: wire.splits)
  ultimately show ?thesis by (cases "asked (snd (call_tool request actor env nm fs st)) world w") auto
qed

section \<open>Audit\<close>

lemma outcome_try [simp]: "outcome (tryP p) world w = Inr (outcome p world w)"
  by (induction p arbitrary: w) simp_all

lemma outcome_mapP: "outcome (bindP p (\<lambda>x. ret (f x))) world w =
    (case outcome p world w of Inl e \<Rightarrow> Inl e | Inr x \<Rightarrow> Inr (f x))"
  by (induction p arbitrary: w) (auto simp: ret_def split: sum.splits)

lemma outcome_call:
  assumes "tool_named nm = Some u" "parse_args (te_lit env) (tl_schema u env) fs = Some a"
  shows "outcome (snd (call_tool request actor env nm fs st)) world w =
    (let r = outcome (snd (tl_run u env actor a st)) world w in Inr (Some (audit_of request actor u a r, reply_of r)))"
  using assms by (simp add: call_tool_def tool_callback_def case_prod_beta outcome_mapP Let_def)



section \<open>Semantic targets\<close>

text \<open>A semantic target admits only the OpenHands tools: any other call on it, even of a reading tool, asks nothing,
  changes nothing, and is answered and audited as a denial of capability.\<close>

lemma semantic_target_isolated:
  assumes "tool_named nm = Some u" "parse_args (te_lit env) (tl_schema u env) fs = Some a"
    "field a ''target'' = JStr i" "getTarget i (ts_registry st) = Inr (Some t)" "capabilityProfile t = Semantic_Operator"
    "nm \<notin> set OPENHANDS_SEMANTIC_TOOLS"
  shows "fst (call_tool request actor env nm fs st) = st \<and>
    asked (snd (call_tool request actor env nm fs st)) world w = [] \<and>
    (\<exists>e. outcome (snd (call_tool request actor env nm fs st)) world w = Inr (Some (e, Tool_Error CAPABILITY_DENIED)) \<and>
      au_result e = Audit_Denied)"
proof -
  from assms(1) obtain v where v: "u = v\<lparr>tl_run := guarded_run v\<rparr>" "tl_name v = nm" by (rule tool_named_cases)
  have "semantic_check nm st a = Inl (OpsError CAPABILITY_DENIED)"
    using assms by (simp add: semantic_check_def)
  then have run: "tl_run u env actor a st = (st, fail (OpsError CAPABILITY_DENIED))"
    by (simp add: v guarded_run_def)
  then have "snd (call_tool request actor env nm fs st) =
      ret (Some (audit_of request actor u a (Inl (OpsError CAPABILITY_DENIED)), Tool_Error CAPABILITY_DENIED))"
    by (simp add: call_tool_def assms(1,2) tool_callback_def fail_def ret_def reply_of_def)
  moreover have "ends_with (code_text CAPABILITY_DENIED) ''_DENIED''" by code_simp
  ultimately show ?thesis
    using fst_call [OF assms(1,2)] run by (simp add: ret_def audit_of_def)
qed

lemma semantic_target_isolated_witness:
  "fst (call_tool ''r1'' ''me'' demo_env ''docker_health'' (demo_args ''oh'') demo_state) = demo_state \<and>
   asked (snd (call_tool ''r1'' ''me'' demo_env ''docker_health'' (demo_args ''oh'') demo_state)) demo_answers () = []"
proof -
  have p: "parse_args (te_lit demo_env) (tl_schema (tool_docker_health\<lparr>tl_run := guarded_run tool_docker_health\<rparr>) demo_env)
      (demo_args ''oh'') = Some (demo_args ''oh'')"
    by (simp add: tool_docker_health_def demo_parsed len_between_def)
  have "getTarget ''oh'' (ts_registry demo_state) = Inr (Some demo_semantic)" by code_simp
  moreover have "capabilityProfile demo_semantic = Semantic_Operator" by (simp add: demo_semantic_def)
  moreover have "field (demo_args ''oh'') ''target'' = JStr ''oh''" by (simp add: demo_args_def field_def)
  moreover have "''docker_health'' \<notin> set OPENHANDS_SEMANTIC_TOOLS" by (simp add: OPENHANDS_SEMANTIC_TOOLS_def)
  ultimately show ?thesis
    using semantic_target_isolated [OF demo_tool p, of "''oh''" demo_state demo_semantic "''r1''" "''me''" demo_answers "()"] by simp
qed

section \<open>From the tool to the file\<close>

lemma asked_agentJson:
  assumes "transport t = Agent" "deviceId t = Some d" "d \<noteq> []"
  shows "asked (target_call env t op b n) world w = [Operate d op b (opts (Some n) (Some (1024 * 1024)))]"
  using assms by (simp add: target_call_def agentJson_def ret_def split: sum.splits)

definition broker_request :: "wire \<Rightarrow> (string \<times> jval) list" where
  "broker_request q = (case q of Operate d op b x \<Rightarrow> [(''op'', JStr op), (''args'', JObj b)] | _ \<Rightarrow> [])"


definition demo_write :: args where
  "demo_write = [(''target'', JStr ''lab''), (''path'', JStr ''/ws//b/c''), (''content'', JStr [char_of (233::nat)])]"


end
