(* ===== verification/Agent_Properties.thy ===== *)
theory Agent_Properties
  imports Tool_Safety
begin

text \<open>
  The agent's side of an operation: what it may put on a command line whatever arrives, that the way of a command
  through an operation ends in the same command, the captured output, and the outcome of a broker call.
\<close>

section \<open>Passed arguments\<close>

lemma safeId_passed [passed]: "safeId v = Inr s \<longleftrightarrow> s = str_or_empty v \<and> is_identifier s"
  by (auto simp: safeId_def Let_def bindR_Inr_iff ensure_Inr_iff)

lemma safePath_passed [passed]: "safePath v = Inr s \<longleftrightarrow> s = str_or_empty v \<and> starts_with s ''/'' \<and> \<not> has_nul_cr_lf s \<and>
    ''..'' \<notin> set (segs s) \<and> length s \<le> 1024 \<and> \<not> denySecretPath s"
  by (auto simp: safePath_def Let_def bindR_Inr_iff ensure_Inr_iff)

lemma safe_number_passed: "safe_number lit lo hi e v = Inr n \<longleftrightarrow> num_of lit v = NInt n \<and> lo \<le> n \<and> n \<le> hi"
  by (auto simp: safe_number_def int_such_Some split: option.splits)

lemma safeLines_passed [passed]: "safeLines lit v = Inr n \<longleftrightarrow> num_of lit v = NInt n \<and> 1 \<le> n \<and> n \<le> 500"
  by (simp add: safeLines_def safe_number_passed)

lemma safeBytes_passed [passed]: "safeBytes lit v = Inr n \<longleftrightarrow> num_of lit v = NInt n \<and> 1 \<le> n \<and> n \<le> 1048576"
  by (simp add: safeBytes_def safe_number_passed)

lemma safe_word_passed [passed]: "safe_word ws e v = Inr s \<longleftrightarrow> s = str_or_empty v \<and> s \<in> set ws"
  by (auto simp: safe_word_def Let_def bindR_Inr_iff ensure_Inr_iff)

section \<open>What an agent runs\<close>

text \<open>A word of a command line that is neither a line break nor a way to a secret.\<close>

definition safe_spawn_word :: "string \<Rightarrow> bool" where
  "safe_spawn_word w = (\<not> has_nul_cr_lf w \<and> (starts_with w ''/'' \<longrightarrow> ''..'' \<notin> set (segs w) \<and> \<not> denySecretPath w))"

definition spawn_programs :: "string list" where
  "spawn_programs = [''hostname'', ''uname'', ''cat'', ''uptime'', ''head'', ''df'', ''free'', ''docker'', ''systemctl'', ''journalctl'',
     ''git'', ''realpath'', ''ls'', ''stat'']"

lemma digit_plain: "is_digit c \<Longrightarrow> \<not> is_nul_cr_lf c \<and> c \<noteq> slash"
  by (auto simp: is_digit_def between_def is_nul_cr_lf_def code_def)

lemma ident_plain:
  assumes "ident_char c"
  shows "\<not> is_nul_cr_lf c \<and> c \<noteq> slash"
proof -
  have "\<not> is_nul_cr_lf c \<and> c \<noteq> slash" if "is_alnum c"
    using that by (auto simp: is_alnum_def is_digit_def is_upper_def is_lower_def between_def is_nul_cr_lf_def code_def)
  moreover have "list_all (\<lambda>c. \<not> is_nul_cr_lf c \<and> c \<noteq> slash) ''_.@+-''" by code_simp
  ultimately show ?thesis using assms by (auto simp: ident_char_def list_all_iff)
qed

lemma plain_safe:
  assumes "list_all (\<lambda>c. \<not> is_nul_cr_lf c) s" "s = [] \<or> hd s \<noteq> slash"
  shows "safe_spawn_word s"
  using assms by (cases s) (auto simp: safe_spawn_word_def has_nul_cr_lf_def list_all_iff list_ex_iff starts_with_def)

lemma ident_chars:
  assumes "is_identifier s"
  shows "list_all ident_char s \<and> s \<noteq> []"
proof (cases s)
  case Nil
  with assms show ?thesis by (simp add: is_identifier_def re_head_class_def)
next
  case (Cons c cs)
  with assms have "is_alnum c" "list_all ident_char cs" by (simp_all add: is_identifier_def re_head_class_def re_class_def)
  with Cons show ?thesis by (simp add: ident_char_def)
qed

lemma ident_safe:
  assumes "is_identifier s"
  shows "safe_spawn_word s"
proof -
  note c = ident_chars [OF assms]
  then have "list_all (\<lambda>c. \<not> is_nul_cr_lf c \<and> c \<noteq> slash) s" using ident_plain by (auto simp: list_all_iff)
  then show ?thesis using c by (intro plain_safe) (auto simp: list_all_iff)
qed

lemma digits_safe:
  assumes "list_all is_digit s"
  shows "safe_spawn_word s"
proof (rule plain_safe)
  show "list_all (\<lambda>c. \<not> is_nul_cr_lf c) s" using assms digit_plain by (simp add: list_all_iff)
  show "s = [] \<or> hd s \<noteq> slash" using assms digit_plain by (cases s) auto
qed

lemma nat_text_digits: "list_all is_digit (nat_text n)"
proof (induction n rule: nat_text.induct)
  case (1 n)
  have d: "k < 10 \<Longrightarrow> is_digit (digit_char k)" for k :: nat
    by (simp add: is_digit_def between_def code_char_of)
  show ?case
  proof (cases "n < 10")
    case True
    then show ?thesis using d [of n] by (simp add: nat_text.simps [of n])
  next
    case False
    then show ?thesis using 1 d [of "n mod 10"] by (simp add: nat_text.simps [of n])
  qed
qed

lemma number_safe: "1 \<le> n \<Longrightarrow> safe_spawn_word (int_text n)"
  by (simp add: int_text_def digits_safe nat_text_digits)

definition safe_line :: "string list \<Rightarrow> bool" where
  "safe_line argv = (argv \<noteq> [] \<and> hd argv \<in> set spawn_programs \<and> list_all safe_spawn_word argv)"

lemma fixed_safe: "list_all (\<lambda>(op, argv). safe_line argv) fixed_argv"
  by code_simp

lemma path_table_safe: "list_all (\<lambda>(op, k, before, after). safe_line before \<and> list_all safe_spawn_word after) path_argv"
  by code_simp

lemma status_safe: "list_all safe_spawn_word status_properties"
  by code_simp

lemma words_safe:
  "list_all safe_spawn_word [''docker'', ''inspect'', ''--format'', ''{{json .State}}'', ''logs'', ''--tail'', ''--timestamps'', ''systemctl'',
     ''show'', ''start'', ''stop'', ''restart'', ''reload'', ''journalctl'', ''-u'', ''-n'', ''--no-pager'', ''-o'', ''short-iso'', ''head'', ''-c'']"
  by code_simp

lemma path_safe: "safePath v = Inr p \<Longrightarrow> safe_spawn_word p"
  by (auto simp: safePath_passed safe_spawn_word_def)

text \<open>The command lines that are not in the tables.\<close>

lemma other_lines:
  assumes "operationArgv lit x = Inr argv" "map_of fixed_argv (ao_op x) = None" "map_of path_argv (ao_op x) = None"
  obtains c where "is_identifier c" "argv = [''docker'', ''inspect'', ''--format'', ''{{json .State}}'', c]"
    | c where "is_identifier c" "argv = [''docker'', ''inspect'', c]"
    | n c where "is_identifier c" "1 \<le> n" "argv = [''docker'', ''logs'', ''--tail'', int_text n, ''--timestamps'', c]"
    | u where "is_identifier u" "argv = [''systemctl'', ''show'', u] @ status_properties"
    | u n where "is_identifier u" "1 \<le> n" "argv = [''journalctl'', ''-u'', u, ''-n'', int_text n, ''--no-pager'', ''-o'', ''short-iso'']"
    | a u where "a \<in> set service_actions" "is_identifier u" "argv = [''systemctl'', a, u]"
    | n p where "1 \<le> n" "safe_spawn_word p" "argv = [''head'', ''-c'', int_text n, p]"
  using assms path_safe
  by (auto simp: operationArgv_def Let_def bindR_Inr_iff safeId_passed safeLines_passed safeBytes_passed safe_word_passed
      safeServiceAction_def simp del: append_Cons split: if_splits)

lemma spawned_line_safe:
  assumes "operationArgv lit x = Inr argv"
  shows "safe_line argv"
proof (cases "map_of fixed_argv (ao_op x)")
  case (Some line)
  from map_of_SomeD [OF this] fixed_safe have "safe_line line" by (auto simp: list_all_iff)
  with assms Some show ?thesis by (simp add: operationArgv_def)
next
  case no_fixed: None
  show ?thesis
  proof (cases "map_of path_argv (ao_op x)")
    case (Some row)
    obtain k before after where r: "row = (k, before, after)" by (cases row)
    from map_of_SomeD [OF Some] path_table_safe have "safe_line before" "list_all safe_spawn_word after"
      by (auto simp: r list_all_iff)
    moreover obtain p where "argv = before @ p # after" "safePath (field (ao_args x) k) = Inr p"
      using assms by (auto simp: operationArgv_def no_fixed Some r bindR_Inr_iff)
    ultimately show ?thesis using path_safe by (auto simp: safe_line_def)
  next
    case None
    have actions: "a \<in> set service_actions \<Longrightarrow> safe_spawn_word a" for a
      using words_safe by (auto simp: service_actions_def)
    from assms no_fixed None show ?thesis
      by (rule other_lines)
        (use words_safe status_safe in \<open>simp_all add: safe_line_def spawn_programs_def ident_safe number_safe actions\<close>)
  qed
qed

text \<open>C14: Whatever operation reaches an agent, the command line of a child process it starts begins with one of
  fourteen programs, carries no NUL or line break, and names no path with a parent component and no secret path.\<close>

theorem agent_spawns_safe:
  assumes "executeAgentOperation parse lit pe ms x o1 = Inr (Call (Spawn argv cenv timeout cap) k)"
  shows "safe_line argv"
proof -
  from assms have "operationArgv lit x = Inr argv"
    by (auto simp: executeAgentOperation_def executeManagedAdminOperation_def executePostgresPinnedReadbackOperation_def
        executePaperclipSemanticOperation_def executeDockerOperatorOperation_def Let_def bindR_Inr_iff
        split: if_splits sum.splits option.splits)
  then show ?thesis by (rule spawned_line_safe)
qed

theorem agent_spawns_safe_witness:
  "safe_line [''ls'', ''-la'', ''--time-style=long-iso'', ''/opt'']"
proof -
  have "operationArgv (\<lambda>s. NaN) \<lparr>ao_op = ''fs.list'', ao_args = [(''path'', JStr ''/opt'')]\<rparr> =
      Inr [''ls'', ''-la'', ''--time-style=long-iso'', ''/opt'']" by code_simp
  then have "executeAgentOperation (\<lambda>s. None) (\<lambda>s. NaN) \<lparr>pe_PATH = Some ''/bin'', pe_DOCKER_HOST = None\<rparr> 1
      \<lparr>ao_op = ''fs.list'', ao_args = [(''path'', JStr ''/opt'')]\<rparr> no_options =
    Inr (Call (Spawn [''ls'', ''-la'', ''--time-style=long-iso'', ''/opt''] [(''PATH'', ''/bin''), (''LANG'', ''C.UTF-8'')] 15000 262144) child_answer)"
    by (simp add: executeAgentOperation_def childEnvForOperation_def operator_docker_ops_def no_options_def starts_with_def)
  from agent_spawns_safe [OF this] show ?thesis .
qed

section \<open>The way through an operation\<close>

lemma fixed_forward: "\<forall>(op, argv) \<in> set fixed_argv. argvToAgentOperation lit argv = Inr \<lparr>ao_op = op, ao_args = []\<rparr>"
  by (simp add: fixed_argv_def argvToAgentOperation_def arg_is_def plain_op_def Let_def)

lemma path_forward:
  assumes "starts_with p ''/''"
  shows "\<forall>(op, k, before, after) \<in> set path_argv. argvToAgentOperation lit (before @ p # after) = op_with op k (safePath (JStr p))"
proof -
  from assms obtain r where "p = slash # r" by (auto simp: starts_with_slash)
  then show ?thesis
    by (simp add: path_argv_def argvToAgentOperation_def arg_is_def arg_def Let_def docker_actions_def service_actions_def)
qed

lemma safePath_text: "safePath (JStr p) = Inr q \<Longrightarrow> q = p"
  by (simp add: safePath_passed)

lemma fixed_distinct: "distinct (map fst fixed_argv)" and path_distinct: "distinct (map fst path_argv)"
  and tables_apart: "list_all (\<lambda>(op, row). map_of fixed_argv op = None) path_argv"
  by code_simp+

text \<open>The words that stand for a number.\<close>

definition number_words :: "string list \<Rightarrow> string list" where
  "number_words argv =
    (if take 2 argv = [''docker'', ''logs''] then [argv ! 3] else if take 2 argv = [''head'', ''-c''] then [argv ! 2]
     else if take 2 argv = [''journalctl'', ''-u''] then [argv ! 4] else [])"

definition plain_numbers :: "(string \<Rightarrow> jnum) \<Rightarrow> string list \<Rightarrow> bool" where
  "plain_numbers lit argv = list_all (\<lambda>w. case num_of_text lit w of NInt i \<Rightarrow> w = int_text i | NOther s \<Rightarrow> True) (number_words argv)"

lemma path_round:
  assumes "(op, k, before, after) \<in> set path_argv" "starts_with p ''/''"
    "argvToAgentOperation lit (before @ p # after) = Inr x"
  shows "operationArgv lit x = Inr (before @ p # after)"
proof -
  have "op_with op k (safePath (JStr p)) = Inr x"
    using bspec [OF path_forward [OF assms(2), of lit] assms(1)] assms(3) by simp
  then obtain q where q: "safePath (JStr p) = Inr q" "x = \<lparr>ao_op = op, ao_args = [(k, JStr q)]\<rparr>"
    by (auto simp: op_with_def bindR_Inr_iff)
  with safePath_text have "q = p" by blast
  moreover have "map_of path_argv op = Some (k, before, after)"
    using assms(1) path_distinct by (simp add: map_of_eq_Some_iff)
  moreover have "map_of fixed_argv op = None" using tables_apart assms(1) by (auto simp: list_all_iff)
  ultimately show ?thesis using q by (simp add: operationArgv_def field_def)
qed

lemma other_forward:
  "argvToAgentOperation lit [''docker'', ''inspect'', ''--format'', ''{{json .State}}'', c] = op_with ''docker.health'' ''container'' (safeId (JStr c))"
  "argvToAgentOperation lit [''docker'', ''inspect'', c] = op_with ''docker.inspect'' ''container'' (safeId (JStr c))"
  "argvToAgentOperation lit [''docker'', ''logs'', ''--tail'', w, ''--timestamps'', c] =
     bindR (safeId (JStr c)) (\<lambda>container. bindR (safeLines lit (JStr w)) (\<lambda>lines.
       Inr \<lparr>ao_op = ''docker.logs'', ao_args = [(''container'', JStr container), (''lines'', JNum (NInt lines))]\<rparr>))"
  "argvToAgentOperation lit (''systemctl'' # ''show'' # c # rest) = op_with ''service.status'' ''unit'' (safeId (JStr c))"
  "argvToAgentOperation lit [''journalctl'', ''-u'', c, ''-n'', w, ''--no-pager'', ''-o'', ''short-iso''] =
     bindR (safeId (JStr c)) (\<lambda>unit. bindR (safeLines lit (JStr w)) (\<lambda>lines.
       Inr \<lparr>ao_op = ''service.logs'', ao_args = [(''unit'', JStr unit), (''lines'', JNum (NInt lines))]\<rparr>))"
  "argvToAgentOperation lit [''head'', ''-c'', w, c] =
     bindR (safeBytes lit (JStr w)) (\<lambda>bytes. bindR (safePath (JStr c)) (\<lambda>path.
       Inr \<lparr>ao_op = ''fs.read_head'', ao_args = [(''bytes'', JNum (NInt bytes)), (''path'', JStr path)]\<rparr>))"
  by (simp_all add: argvToAgentOperation_def arg_is_def arg_def Let_def docker_actions_def service_actions_def)

lemma other_back:
  "operationArgv lit \<lparr>ao_op = ''docker.health'', ao_args = [(''container'', v)]\<rparr> =
     bindR (safeId v) (\<lambda>c. Inr [''docker'', ''inspect'', ''--format'', ''{{json .State}}'', c])"
  "operationArgv lit \<lparr>ao_op = ''docker.inspect'', ao_args = [(''container'', v)]\<rparr> = bindR (safeId v) (\<lambda>c. Inr [''docker'', ''inspect'', c])"
  "operationArgv lit \<lparr>ao_op = ''docker.logs'', ao_args = [(''container'', v), (''lines'', n)]\<rparr> =
     bindR (safeLines lit n) (\<lambda>n. bindR (safeId v) (\<lambda>c. Inr [''docker'', ''logs'', ''--tail'', int_text n, ''--timestamps'', c]))"
  "operationArgv lit \<lparr>ao_op = ''service.status'', ao_args = [(''unit'', v)]\<rparr> =
     bindR (safeId v) (\<lambda>u. Inr (''systemctl'' # ''show'' # u # status_properties))"
  "operationArgv lit \<lparr>ao_op = ''service.logs'', ao_args = [(''unit'', v), (''lines'', n)]\<rparr> =
     bindR (safeId v) (\<lambda>u. bindR (safeLines lit n) (\<lambda>n.
       Inr [''journalctl'', ''-u'', u, ''-n'', int_text n, ''--no-pager'', ''-o'', ''short-iso'']))"
  "operationArgv lit \<lparr>ao_op = ''fs.read_head'', ao_args = [(''bytes'', n), (''path'', v)]\<rparr> =
     bindR (safeBytes lit n) (\<lambda>n. bindR (safePath v) (\<lambda>p. Inr [''head'', ''-c'', int_text n, p]))"
  by (simp_all add: operationArgv_def field_def fixed_argv_def path_argv_def)

lemma other_round:
  assumes "argvToAgentOperation lit argv = Inr x" "plain_numbers lit argv"
    "argv = [''docker'', ''inspect'', ''--format'', ''{{json .State}}'', c] \<or> argv = [''docker'', ''inspect'', c] \<or>
     argv = [''docker'', ''logs'', ''--tail'', w, ''--timestamps'', c] \<or> argv = ''systemctl'' # ''show'' # c # status_properties \<or>
     argv = [''journalctl'', ''-u'', c, ''-n'', w, ''--no-pager'', ''-o'', ''short-iso''] \<or> argv = [''head'', ''-c'', w, c]"
  shows "operationArgv lit x = Inr argv"
proof -
  have t: "str_or_empty (JStr c) = c" by simp
  show ?thesis using assms(3)
  proof (elim disjE)
    assume a: "argv = [''docker'', ''inspect'', ''--format'', ''{{json .State}}'', c]"
    from assms(1) show ?thesis unfolding a other_forward by (auto simp: op_with_def bindR_Inr_iff other_back safeId_passed)
  next
    assume a: "argv = [''docker'', ''inspect'', c]"
    from assms(1) show ?thesis unfolding a other_forward by (auto simp: op_with_def bindR_Inr_iff other_back safeId_passed)
  next
    assume a: "argv = [''docker'', ''logs'', ''--tail'', w, ''--timestamps'', c]"
    from assms(1,2) show ?thesis unfolding a other_forward
      by (auto simp: bindR_Inr_iff other_back safeId_passed safeLines_passed plain_numbers_def number_words_def)
  next
    assume a: "argv = ''systemctl'' # ''show'' # c # status_properties"
    from assms(1) show ?thesis unfolding a other_forward by (auto simp: op_with_def bindR_Inr_iff other_back safeId_passed)
  next
    assume a: "argv = [''journalctl'', ''-u'', c, ''-n'', w, ''--no-pager'', ''-o'', ''short-iso'']"
    from assms(1,2) show ?thesis unfolding a other_forward
      by (auto simp: bindR_Inr_iff other_back safeId_passed safeLines_passed plain_numbers_def number_words_def)
  next
    assume a: "argv = [''head'', ''-c'', w, c]"
    from assms(1,2) show ?thesis unfolding a other_forward
      by (auto simp: bindR_Inr_iff other_back safePath_passed safeBytes_passed plain_numbers_def number_words_def)
  qed
qed

lemma clean_starts: "clean_path p \<Longrightarrow> starts_with p ''/''"
  by (simp add: clean_path_def)



text \<open>The agent protocol stops at 500 lines of a log, whatever the server allows.\<close>

lemma lines_beyond_500:
  assumes "num_of_text lit w = NInt n" "500 < n"
  shows "argvToAgentOperation lit [''docker'', ''logs'', ''--tail'', w, ''--timestamps'', ''web''] = Inl (Error ''invalid_lines'')"
proof -
  have "is_identifier ''web''" by code_simp
  then have "safeId (JStr ''web'') = Inr ''web''" by (simp add: safeId_passed)
  moreover have "safeLines lit (JStr w) = Inl (Error ''invalid_lines'')"
    using assms by (simp add: safeLines_def safe_number_def)
  ultimately show ?thesis by (simp add: other_forward)
qed

section \<open>The captured output\<close>

text \<open>What arrived on each stream.\<close>

fun stdout_of :: "capture_step list \<Rightarrow> string" where
  "stdout_of [] = []"
| "stdout_of (Stdout_Chunk d # ss) = d @ stdout_of ss"
| "stdout_of (s # ss) = stdout_of ss"

fun stderr_of :: "capture_step list \<Rightarrow> string" where
  "stderr_of [] = []"
| "stderr_of (Stderr_Chunk d # ss) = d @ stderr_of ss"
| "stderr_of (s # ss) = stderr_of ss"

fun proper_chunks :: "capture_step list \<Rightarrow> bool" where
  "proper_chunks [] = True"
| "proper_chunks (Stdout_Chunk d # ss) = (d \<noteq> [] \<and> proper_chunks ss)"
| "proper_chunks (Stderr_Chunk d # ss) = (d \<noteq> [] \<and> proper_chunks ss)"
| "proper_chunks (Timer_Fired # ss) = proper_chunks ss"

lemma append_agent_take:
  assumes "d \<noteq> []"
  shows "append_agent cap (take cap b) d = (take cap (b @ d), cap < length b + length d)"
proof (cases "cap \<le> length b")
  case True
  with assms show ?thesis by (cases d) (auto simp: append_agent_def)
next
  case False
  with assms show ?thesis by (auto simp: append_agent_def)
qed

lemma stream_snoc:
  "stdout_of (ss @ [s]) = stdout_of ss @ stdout_of [s]" "stderr_of (ss @ [s]) = stderr_of ss @ stderr_of [s]"
  by (induction ss rule: stdout_of.induct) auto

lemma proper_snoc: "proper_chunks (ss @ [s]) \<longleftrightarrow> proper_chunks ss \<and> proper_chunks [s]"
  by (induction ss rule: proper_chunks.induct) auto

definition no_capture :: capture where
  "no_capture = \<lparr>cp_out = [], cp_err = [], cp_truncated = False, cp_timedOut = False\<rparr>"

lemma capture_exact:
  assumes "proper_chunks ss"
  shows "fold (child_step cap) ss no_capture =
    \<lparr>cp_out = take cap (stdout_of ss), cp_err = take (min cap 65536) (stderr_of ss),
     cp_truncated = (cap < length (stdout_of ss) \<or> min cap 65536 < length (stderr_of ss)), cp_timedOut = (Timer_Fired \<in> set ss)\<rparr>"
  using assms
proof (induction ss rule: rev_induct)
  case Nil
  then show ?case by (simp add: no_capture_def)
next
  case (snoc s ss)
  then have ih: "fold (child_step cap) ss no_capture =
    \<lparr>cp_out = take cap (stdout_of ss), cp_err = take (min cap 65536) (stderr_of ss),
     cp_truncated = (cap < length (stdout_of ss) \<or> min cap 65536 < length (stderr_of ss)), cp_timedOut = (Timer_Fired \<in> set ss)\<rparr>"
    and p: "proper_chunks [s]" by (simp_all add: proper_snoc)
  have "child_step cap s (fold (child_step cap) ss no_capture) =
    \<lparr>cp_out = take cap (stdout_of ss @ stdout_of [s]), cp_err = take (min cap 65536) (stderr_of ss @ stderr_of [s]),
     cp_truncated = (cap < length (stdout_of ss @ stdout_of [s]) \<or> min cap 65536 < length (stderr_of ss @ stderr_of [s])),
     cp_timedOut = (Timer_Fired \<in> set ss \<or> s = Timer_Fired)\<rparr>"
    unfolding ih
  proof (cases s, goal_cases)
    case (1 d)
    with p have "d \<noteq> []" by simp
    with append_agent_take [OF this, of cap "stdout_of ss"] 1 show ?case by (auto simp: child_step_def)
  next
    case (2 d)
    with p have "d \<noteq> []" by simp
    with append_agent_take [OF this, of "min cap 65536" "stderr_of ss"] 2 show ?case by (auto simp: child_step_def)
  next
    case 3
    then show ?case by (simp add: child_step_def)
  qed
  then show ?case by (auto simp: stream_snoc)
qed

text \<open>C39: The output of a child on the agent is exact up to its cap: for every way the runtime cuts the streams into non-empty
  chunks and interleaves them, the result holds the first \<open>maxBytes\<close> bytes of the standard output and the first
  \<open>maxBytes\<close>, at most 65536, of the error output, and is flagged as truncated exactly when one of them had more.\<close>

theorem captured_output_exact:
  assumes "proper_chunks ss"
  shows "captured_result dec cap ms ss c = result ms c (dec (take cap (stdout_of ss))) (dec (take (min cap 65536) (stderr_of ss)))
    (cap < length (stdout_of ss) \<or> min cap 65536 < length (stderr_of ss)) (Timer_Fired \<in> set ss)"
  using capture_exact [OF assms, of cap] by (simp add: captured_result_def no_capture_def)

theorem captured_output_exact_witness:
  "captured_result (\<lambda>b. b) 4 7 [Stdout_Chunk ''ab'', Stderr_Chunk ''e'', Stdout_Chunk ''cde''] (Some 0) =
    result 7 (Some 0) ''abcd'' ''e'' True False"
  using captured_output_exact [of "[Stdout_Chunk ''ab'', Stderr_Chunk ''e'', Stdout_Chunk ''cde'']" "\<lambda>b. b" 4 7 "Some 0"] by simp

section \<open>A call of a broker\<close>

text \<open>The chunks of one answer.\<close>

definition chunks :: "string list \<Rightarrow> socket_event list" where
  "chunks cs = map Data_Chunk cs"

lemma settled_stays:
  assumes "cl_outcome s = Some r"
  shows "fold (socket_step parse bc) evs s = s"
  using assms by (induction evs) (simp_all add: socket_step_def)

definition line_reply :: "parser \<Rightarrow> broker_client \<Rightarrow> string \<Rightarrow> exn + jval" where
  "line_reply parse bc d = (case parse (takeWhile (\<lambda>c. c \<noteq> newline) d) of
     None \<Rightarrow> Inl (Error (bc_name bc @ ''_invalid_json'')) | Some v \<Rightarrow> Inr (settled_value bc v))"

lemma line_of_append: "newline \<in> set d \<Longrightarrow> takeWhile (\<lambda>c. c \<noteq> newline) (d @ e) = takeWhile (\<lambda>c. c \<noteq> newline) d"
  by (induction d) auto

lemma chunk_fold:
  assumes "newline \<in> set (d @ concat cs)" "newline \<notin> set d" "length (d @ concat cs) \<le> MAX_RESPONSE"
  shows "cl_outcome (fold (socket_step parse bc) (chunks cs @ evs) \<lparr>cl_data = d, cl_outcome = None\<rparr>) =
    Some (line_reply parse bc (d @ concat cs))"
  using assms
proof (induction cs arbitrary: d)
  case Nil
  then show ?case by simp
next
  case (Cons c cs)
  show ?case
  proof (cases "newline \<in> set (d @ c)")
    case True
    have "socket_step parse bc (Data_Chunk c) \<lparr>cl_data = d, cl_outcome = None\<rparr> =
        \<lparr>cl_data = d @ c, cl_outcome = Some (line_reply parse bc (d @ c))\<rparr>"
      using True Cons.prems by (simp add: socket_step_def Let_def line_reply_def split: option.splits)
    moreover have "line_reply parse bc (d @ concat (c # cs)) = line_reply parse bc (d @ c)"
      using line_of_append [OF True, of "concat cs"] by (simp add: line_reply_def)
    ultimately show ?thesis by (simp add: chunks_def settled_stays)
  next
    case False
    then have "socket_step parse bc (Data_Chunk c) \<lparr>cl_data = d, cl_outcome = None\<rparr> = \<lparr>cl_data = d @ c, cl_outcome = None\<rparr>"
      using Cons.prems by (simp add: socket_step_def Let_def)
    with Cons.IH [of "d @ c"] Cons.prems False show ?thesis by (simp add: chunks_def)
  qed
qed

text \<open>The outcome of a broker call does not depend on how the answer is cut into chunks: when the answer holds a line and
  stays within 5 MiB, the call returns the value of its first line (or the error of an unreadable one), and nothing
  that happens on the socket afterwards, data, errors, the end or the timeout, changes it.\<close>

lemma broker_call_first_line:
  assumes "newline \<in> set (concat cs)" "length (concat cs) \<le> MAX_RESPONSE"
  shows "broker_outcome parse bc (chunks cs @ evs) = Some (line_reply parse bc (concat cs))"
  using chunk_fold [of "[]" cs parse bc evs] assms by (simp add: broker_outcome_def)

lemma broker_call_first_line_witness:
  "broker_outcome (\<lambda>s. if s = ''{}'' then Some (JObj []) else None) callExecBroker
     (chunks [''{'', ''}'' @ [newline], ''x''] @ [Socket_End]) = Some (Inr (JObj []))"
proof -
  have n: "CHR ''{'' \<noteq> newline" "CHR ''}'' \<noteq> newline" by code_simp+
  then have "line_reply (\<lambda>s. if s = ''{}'' then Some (JObj []) else None) callExecBroker (concat [''{'', ''}'' @ [newline], ''x'']) =
      Inr (JObj [])" by (simp add: line_reply_def settled_value_def or_default_def nullish_def)
  with broker_call_first_line [of "[''{'', ''}'' @ [newline], ''x'']" "\<lambda>s. if s = ''{}'' then Some (JObj []) else None"
      callExecBroker "[Socket_End]"]
  show ?thesis by (simp add: MAX_RESPONSE_def)
qed

end
