(* ===== verification/Gateway.thy ===== *)
theory Gateway
  imports Tools_Base Store_Run
begin

text \<open>
  \<^verbatim>\<open>src/agent/gateway.ts\<close>: the server's end of the agents' websockets. Events are what the runtime delivers:
  an upgrade request, a message, the end of a socket, the sweep of the timer, a dispatched operation with its
  random id, the timeout or the failed send of one, an administrator's disconnect; and any operation of the
  rest of the server on the state store. Sockets are numbered in the order of their upgrades; closing one takes it
  out of \<open>OPEN\<close> at once. Effects are what a step sends, and how it settles the promise of a dispatched operation.
\<close>

section \<open>State\<close>

record live_connection =
  lc_deviceId :: string
  lc_token :: string
  lc_connectedAt :: int
  lc_lastSeenAt :: int
  lc_open :: bool

text \<open>\<open>gw_next\<close> is the number of the next socket, \<open>gw_socks\<close> holds the connection of every socket, \<open>gw_live\<close> the current socket of a device, \<open>gw_pending\<close> the
  device of every operation that waits for its result.\<close>

record gateway =
  gw_store :: store
  gw_socks :: "(nat, live_connection) table"
  gw_live :: "(string, nat) table"
  gw_pending :: "(string, string) table"
  gw_next :: nat

datatype gw_effect =
    Unauthorized
  | Close_Socket nat int string
  | Send nat jval
  | Ping nat
  | Resolved string exec_result
  | Rejected string string

datatype gw_event =
    Upgrade string "string option"
  | Message nat string
  | Socket_Closed nat
  | Sweep
  | Dispatch string string "(string \<times> jval) list" exec_options string
  | Dispatch_Timeout string
  | Send_Failed string string
  | Disconnect string
  | Store_Op store_op

section \<open>Parts\<close>

definition gw_sock :: "gateway \<Rightarrow> nat \<Rightarrow> live_connection option" where
  "gw_sock g s = map_of (gw_socks g) s"

text \<open>The current connection of a device.\<close>

definition gw_conn :: "gateway \<Rightarrow> string \<Rightarrow> (nat \<times> live_connection) option" where
  "gw_conn g d = (case map_of (gw_live g) d of None \<Rightarrow> None
     | Some s \<Rightarrow> (case gw_sock g s of None \<Rightarrow> None | Some c \<Rightarrow> Some (s, c)))"

text \<open>\<open>/^Bearer\s+(.+)$/i\<close>\<close>

definition bearer :: "string option \<Rightarrow> string option" where
  "bearer h = (case captures [lit_i ''bearer'', one_up (Cls is_ws), one_up (Cls (\<lambda>c. \<not> line_break c))] (coalesce h []) of
     Some [b, gap, token] \<Rightarrow> Some token | _ \<Rightarrow> None)"

definition safeJson :: "parser \<Rightarrow> string \<Rightarrow> (string \<times> jval) list option" where
  "safeJson parse d = (case parse d of Some (JObj fs) \<Rightarrow> Some fs | _ \<Rightarrow> None)"

definition modify_sock :: "nat \<Rightarrow> (live_connection \<Rightarrow> live_connection) \<Rightarrow> gateway \<Rightarrow> gateway" where
  "modify_sock s f g = g\<lparr>gw_socks := modify s f (gw_socks g)\<rparr>"

definition close_sock :: "nat \<Rightarrow> gateway \<Rightarrow> gateway" where
  "close_sock s = modify_sock s (\<lambda>c. c\<lparr>lc_open := False\<rparr>)"

text \<open>The open connection of a device, when there is one, is closed.\<close>

definition close_current :: "string \<Rightarrow> int \<Rightarrow> string \<Rightarrow> gateway \<Rightarrow> gateway \<times> gw_effect list" where
  "close_current d num reason g = (case gw_conn g d of
     Some (s, c) \<Rightarrow> if lc_open c then (close_sock s g, [Close_Socket s num reason]) else (g, [])
   | None \<Rightarrow> (g, []))"

definition rejectPendingForDevice :: "string \<Rightarrow> string \<Rightarrow> gateway \<Rightarrow> gateway \<times> gw_effect list" where
  "rejectPendingForDevice d reason g =
    (g\<lparr>gw_pending := filter (\<lambda>(i, d'). d' \<noteq> d) (gw_pending g)\<rparr>,
     map (\<lambda>(i, d'). Rejected i reason) (filter (\<lambda>(i, d'). d' = d) (gw_pending g)))"

text \<open>The answer of an agent as a result; a code that is neither a number nor \<open>null\<close> is 1, a number that is no
  integer is read as 1, only its difference from 0 counts.\<close>

definition agent_result :: "jval \<Rightarrow> exec_result option" where
  "agent_result raw = (case raw of
     JObj r \<Rightarrow> Some
       \<lparr>exit_code = (case field r ''code'' of JNum (NInt i) \<Rightarrow> Some i | JNull \<Rightarrow> None | _ \<Rightarrow> Some 1),
        stdout = (case field r ''stdout'' of JStr s \<Rightarrow> s | _ \<Rightarrow> []), stderr = (case field r ''stderr'' of JStr s \<Rightarrow> s | _ \<Rightarrow> []),
        durationMs = (case field r ''durationMs'' of JNum (NInt i) \<Rightarrow> i | _ \<Rightarrow> 0),
        truncated = (field r ''truncated'' = JBool True), timedOut = (field r ''timedOut'' = JBool True)\<rparr>
   | _ \<Rightarrow> None)"

definition string_items :: "jval \<Rightarrow> string list option" where
  "string_items v = (case v of
     JArr vs \<Rightarrow> Some (take 64 (List.map_filter (\<lambda>x. case x of JStr s \<Rightarrow> Some s | _ \<Rightarrow> None) vs)) | _ \<Rightarrow> None)"

definition text_up_to :: "nat \<Rightarrow> jval \<Rightarrow> string option" where
  "text_up_to n v = (case v of JStr s \<Rightarrow> Some (take n s) | _ \<Rightarrow> None)"

definition heartbeat :: "string \<Rightarrow> string option \<Rightarrow> string list option \<Rightarrow> int \<Rightarrow> gateway \<Rightarrow> gateway" where
  "heartbeat d v caps now g = g\<lparr>gw_store := fst (touchDeviceHeartbeat d v caps now (gw_store g))\<rparr>"

section \<open>Handlers\<close>

definition gw_auth :: "world \<Rightarrow> string \<Rightarrow> gateway \<Rightarrow> stored_device option" where
  "gw_auth w token g = authenticateDeviceToken (w_sha w) token (gw_store g)"

definition welcome_message :: "string \<Rightarrow> int \<Rightarrow> jval" where
  "welcome_message d now = JObj [(''type'', JStr ''welcome''), (''protocol'', jint 1), (''device_id'', JStr d), (''server_time'', jint now),
     (''heartbeat_interval_seconds'', jint 30)]"

text \<open>\<open>server.on("upgrade")\<close>: another path is left to other handlers.\<close>

definition gw_upgrade :: "world \<Rightarrow> string \<Rightarrow> string option \<Rightarrow> int \<Rightarrow> gateway \<Rightarrow> gateway \<times> gw_effect list" where
  "gw_upgrade w path header now g =
    (if path \<noteq> ''/agent/connect'' then (g, [])
     else (case bearer header of
       None \<Rightarrow> (g, [Unauthorized])
     | Some token \<Rightarrow> (case gw_auth w token g of
         None \<Rightarrow> (g, [Unauthorized])
       | Some device \<Rightarrow>
          (let d = dv_id device; s = gw_next g;
               (g1, e1) = close_current d 4001 ''superseded'' g;
               c = \<lparr>lc_deviceId = d, lc_token = token, lc_connectedAt = now, lc_lastSeenAt = now, lc_open = True\<rparr>;
               g2 = g1\<lparr>gw_socks := AList.update s c (gw_socks g1), gw_live := AList.update d s (gw_live g1),
                 gw_next := Suc s\<rparr>
           in (heartbeat d (dv_agent_version device) (dv_capabilities device) now g2, e1 @ [Send s (welcome_message d now)])))))"

definition gw_result :: "string \<Rightarrow> nat \<Rightarrow> (string \<times> jval) list \<Rightarrow> int \<Rightarrow> gateway \<Rightarrow> gateway \<times> gw_effect list" where
  "gw_result d s msg now g =
    (let i = (case field msg ''request_id'' of JStr r \<Rightarrow> r | _ \<Rightarrow> []) in
     if map_of (gw_pending g) i \<noteq> Some d then (g, [])
     else (modify_sock s (\<lambda>c. c\<lparr>lc_lastSeenAt := now\<rparr>) (g\<lparr>gw_pending := AList.delete i (gw_pending g)\<rparr>),
       [case agent_result (field msg ''result'') of None \<Rightarrow> Rejected i ''invalid_agent_result'' | Some r \<Rightarrow> Resolved i r]))"

text \<open>\<open>ws.on("message")\<close>\<close>

definition gw_message :: "world \<Rightarrow> parser \<Rightarrow> nat \<Rightarrow> string \<Rightarrow> int \<Rightarrow> gateway \<Rightarrow> gateway \<times> gw_effect list" where
  "gw_message w parse s data now g = (case gw_sock g s of
     None \<Rightarrow> (g, [])
   | Some c \<Rightarrow>
      (if gw_auth w (lc_token c) g = None then (close_sock s g, [Close_Socket s 4003 ''revoked''])
       else (case safeJson parse data of
           None \<Rightarrow> (close_sock s g, [Close_Socket s 4002 ''invalid_json''])
         | Some msg \<Rightarrow>
            (let type = str_or_empty (field msg ''type'') in
             if type = ''hello'' \<or> type = ''heartbeat'' then
               (modify_sock s (\<lambda>c. c\<lparr>lc_lastSeenAt := now\<rparr>)
                 (heartbeat (lc_deviceId c) (text_up_to 40 (field msg ''agent_version'')) (string_items (field msg ''capabilities'')) now g),
                [Send s (JObj [(''type'', JStr ''heartbeat_ack''), (''server_time'', jint now)])])
             else if type = ''execute_result'' then gw_result (lc_deviceId c) s msg now g
             else (g, [Send s (JObj [(''type'', JStr ''error''), (''code'', JStr ''unsupported_message_type'')])])))))"

text \<open>\<open>ws.on("close")\<close>\<close>

definition gw_closed :: "nat \<Rightarrow> gateway \<Rightarrow> gateway \<times> gw_effect list" where
  "gw_closed s g = (case gw_sock g s of
     None \<Rightarrow> (g, [])
   | Some c \<Rightarrow>
      (let d = lc_deviceId c;
           g1 = (if map_of (gw_live g) d = Some s then g\<lparr>gw_live := AList.delete d (gw_live g)\<rparr> else g)
       in rejectPendingForDevice d ''agent_disconnected'' (g1\<lparr>gw_socks := AList.delete s (gw_socks g1)\<rparr>)))"

text \<open>The body of the interval, for one connection.\<close>

definition sweep_conn :: "world \<Rightarrow> int \<Rightarrow> nat \<Rightarrow> gateway \<Rightarrow> gateway \<times> gw_effect list" where
  "sweep_conn w now s g = (case gw_sock g s of
     None \<Rightarrow> (g, [])
   | Some c \<Rightarrow>
      (if gw_auth w (lc_token c) g = None then (close_sock s g, [Close_Socket s 4003 ''revoked''])
       else if 90000 < now - lc_lastSeenAt c then (close_sock s g, [Close_Socket s 4000 ''heartbeat_timeout''])
       else if lc_open c then (g, [Ping s])
       else (g, [])))"

fun gw_sweep :: "world \<Rightarrow> int \<Rightarrow> nat list \<Rightarrow> gateway \<Rightarrow> gateway \<times> gw_effect list" where
  "gw_sweep w now [] g = (g, [])"
| "gw_sweep w now (s # ss) g =
    (let (g1, e1) = sweep_conn w now s g; (g2, e2) = gw_sweep w now ss g1 in (g2, e1 @ e2))"

definition request_timeout :: "exec_options \<Rightarrow> int" where
  "request_timeout x = min (max (coalesce (xo_timeoutMs x) 15000) 2000) 120000"

definition request_bytes :: "exec_options \<Rightarrow> int" where
  "request_bytes x = min (max (coalesce (xo_maxBytes x) 262144) 4096) 4194304"

definition execute_request :: "string \<Rightarrow> string \<Rightarrow> (string \<times> jval) list \<Rightarrow> exec_options \<Rightarrow> jval" where
  "execute_request i op a x = JObj
    [(''type'', JStr ''execute_request''), (''protocol'', jint 1), (''request_id'', JStr i),
     (''operation'', JObj [(''op'', JStr op), (''args'', JObj a)]),
     (''limits'', JObj [(''timeout_ms'', jint (request_timeout x)), (''max_bytes'', jint (request_bytes x))])]"

definition dispatchAgentOperation ::
    "world \<Rightarrow> string \<Rightarrow> string \<Rightarrow> (string \<times> jval) list \<Rightarrow> exec_options \<Rightarrow> string \<Rightarrow> gateway \<Rightarrow> gateway \<times> gw_effect list" where
  "dispatchAgentOperation w d op a x i g = (case gw_conn g d of
     None \<Rightarrow> (g, [Rejected i ''agent_offline''])
   | Some (s, c) \<Rightarrow>
      (if \<not> lc_open c then (g, [Rejected i ''agent_offline''])
       else if gw_auth w (lc_token c) g = None then (g, [Rejected i ''agent_revoked''])
       else (g\<lparr>gw_pending := AList.update i d (gw_pending g)\<rparr>, [Send s (execute_request i op a x)])))"

text \<open>The timer or the send callback of a request settles it when nothing has before.\<close>

definition settle :: "string \<Rightarrow> string \<Rightarrow> gateway \<Rightarrow> gateway \<times> gw_effect list" where
  "settle i reason g =
    (if map_of (gw_pending g) i = None then (g, [])
     else (g\<lparr>gw_pending := AList.delete i (gw_pending g)\<rparr>, [Rejected i reason]))"

definition disconnectAgentDevice :: "string \<Rightarrow> gateway \<Rightarrow> gateway \<times> gw_effect list" where
  "disconnectAgentDevice d g =
    (let (g1, e1) = close_current d 4003 ''revoked'' g;
         (g2, e2) = rejectPendingForDevice d ''agent_revoked'' (g1\<lparr>gw_live := AList.delete d (gw_live g1)\<rparr>)
     in (g2, e1 @ e2))"

record connection_status =
  ks_online :: bool
  ks_connected_at :: "int option"
  ks_last_seen_at :: "int option"

definition agentConnectionStatus :: "string \<Rightarrow> gateway \<Rightarrow> connection_status" where
  "agentConnectionStatus d g = (case gw_conn g d of
     Some (s, c) \<Rightarrow> if lc_open c then \<lparr>ks_online = True, ks_connected_at = Some (lc_connectedAt c), ks_last_seen_at = Some (lc_lastSeenAt c)\<rparr>
       else \<lparr>ks_online = False, ks_connected_at = None, ks_last_seen_at = None\<rparr>
   | None \<Rightarrow> \<lparr>ks_online = False, ks_connected_at = None, ks_last_seen_at = None\<rparr>)"

section \<open>Steps\<close>

fun gw_step :: "world \<Rightarrow> parser \<Rightarrow> gw_event \<Rightarrow> int \<Rightarrow> gateway \<Rightarrow> gateway \<times> gw_effect list" where
  "gw_step w parse (Upgrade path header) now g = gw_upgrade w path header now g"
| "gw_step w parse (Message s data) now g = gw_message w parse s data now g"
| "gw_step w parse (Socket_Closed s) now g = gw_closed s g"
| "gw_step w parse Sweep now g = gw_sweep w now (vals (gw_live g)) g"
| "gw_step w parse (Dispatch d op a x i) now g = dispatchAgentOperation w d op a x i g"
| "gw_step w parse (Dispatch_Timeout i) now g = settle i ''agent_request_timeout'' g"
| "gw_step w parse (Send_Failed i reason) now g = settle i reason g"
| "gw_step w parse (Disconnect d) now g = disconnectAgentDevice d g"
| "gw_step w parse (Store_Op op) now g = (g\<lparr>gw_store := store_step w op now (gw_store g)\<rparr>, [])"

end
