(* ===== verification/Gateway_Properties.thy ===== *)
theory Gateway_Properties
  imports Gateway Device_Properties
begin

text \<open>
  What the agents' gateway of \<^verbatim>\<open>src/agent/gateway.ts\<close> promises to the rest of the server: every dispatched
  operation is settled exactly once, its result comes from the device it was sent to, and a revoked device
  gets and answers nothing.
\<close>

section \<open>Runs\<close>

fun gw_run :: "world \<Rightarrow> parser \<Rightarrow> (gw_event \<times> int) list \<Rightarrow> gateway \<Rightarrow> gateway \<times> gw_effect list" where
  "gw_run w parse [] g = (g, [])"
| "gw_run w parse ((ev, now) # evs) g =
    (let (g1, e1) = gw_step w parse ev now g; (g2, e2) = gw_run w parse evs g1 in (g2, e1 @ e2))"

definition idle_gateway :: "store \<Rightarrow> gateway" where
  "idle_gateway st = \<lparr>gw_store = st, gw_socks = [], gw_live = [], gw_pending = [], gw_next = 0\<rparr>"

fun new_ids :: "gw_event \<Rightarrow> string list" where
  "new_ids (Dispatch d op a x i) = [i]"
| "new_ids ev = []"

definition dispatched :: "(gw_event \<times> int) list \<Rightarrow> string list" where
  "dispatched evs = concat (map (\<lambda>(ev, now). new_ids ev) evs)"

fun settles :: "gw_effect \<Rightarrow> string option" where
  "settles (Resolved i r) = Some i"
| "settles (Rejected i reason) = Some i"
| "settles e = None"

definition settled :: "gw_effect list \<Rightarrow> string list" where
  "settled es = List.map_filter settles es"

lemma settled_simps [simp]:
  "settled [] = []"
  "settled (e # es) = (case settles e of None \<Rightarrow> settled es | Some i \<Rightarrow> i # settled es)"
  "settled (es @ fs) = settled es @ settled fs"
  by (simp_all add: settled_def List.map_filter_def split: option.split)

lemma dispatched_simps [simp]: "dispatched [] = []" "dispatched ((ev, now) # evs) = new_ids ev @ dispatched evs"
  by (simp_all add: dispatched_def)

lemma gw_run_append:
  "gw_run w parse (evs @ evs') g =
    (let (g1, e1) = gw_run w parse evs g; (g2, e2) = gw_run w parse evs' g1 in (g2, e1 @ e2))"
  by (induction evs arbitrary: g) (auto simp: case_prod_beta Let_def)

section \<open>Parts of a step\<close>

lemma modify_sock_simps [simp]:
  "gw_store (modify_sock s f g) = gw_store g" "gw_live (modify_sock s f g) = gw_live g"
  "gw_pending (modify_sock s f g) = gw_pending g" "gw_next (modify_sock s f g) = gw_next g"
  "gw_sock (modify_sock s f g) s' = (if s' = s then map_option f (gw_sock g s) else gw_sock g s')"
  by (simp_all add: modify_sock_def gw_sock_def)

lemma close_sock_simps [simp]:
  "gw_store (close_sock s g) = gw_store g" "gw_live (close_sock s g) = gw_live g"
  "gw_pending (close_sock s g) = gw_pending g" "gw_next (close_sock s g) = gw_next g"
  "gw_sock (close_sock s g) s' =
     (if s' = s then map_option (\<lambda>c. c\<lparr>lc_open := False\<rparr>) (gw_sock g s) else gw_sock g s')"
  by (simp_all add: close_sock_def)

lemma close_current_simps [simp]:
  "gw_store (fst (close_current d num reason g)) = gw_store g" "gw_live (fst (close_current d num reason g)) = gw_live g"
  "gw_pending (fst (close_current d num reason g)) = gw_pending g" "gw_next (fst (close_current d num reason g)) = gw_next g"
  "settled (snd (close_current d num reason g)) = []"
  by (simp_all add: close_current_def split: option.split)

lemma heartbeat_simps [simp]:
  "gw_live (heartbeat d v cs now g) = gw_live g" "gw_socks (heartbeat d v cs now g) = gw_socks g"
  "gw_pending (heartbeat d v cs now g) = gw_pending g" "gw_sock (heartbeat d v cs now g) s = gw_sock g s"
  "gw_store (heartbeat d v cs now g) = fst (touchDeviceHeartbeat d v cs now (gw_store g))" "gw_next (heartbeat d v cs now g) = gw_next g"
  by (simp_all add: heartbeat_def gw_sock_def)

lemma reject_simps [simp]:
  "gw_store (fst (rejectPendingForDevice d reason g)) = gw_store g"
  "gw_socks (fst (rejectPendingForDevice d reason g)) = gw_socks g"
  "gw_live (fst (rejectPendingForDevice d reason g)) = gw_live g"
  "gw_next (fst (rejectPendingForDevice d reason g)) = gw_next g"
  "gw_sock (fst (rejectPendingForDevice d reason g)) s = gw_sock g s"
  by (simp_all add: rejectPendingForDevice_def gw_sock_def)

lemmas gw_unfold =
  gw_upgrade_def gw_message_def gw_result_def gw_closed_def dispatchAgentOperation_def settle_def disconnectAgentDevice_def
  Let_def case_prod_beta

lemma sweep_conn_frame:
  "gw_store (fst (sweep_conn w now s g)) = gw_store g" "gw_pending (fst (sweep_conn w now s g)) = gw_pending g"
  "settled (snd (sweep_conn w now s g)) = []"
  by (auto simp: sweep_conn_def split: option.split)

lemma sweep_frame:
  "gw_store (fst (gw_sweep w now ss g)) = gw_store g" "gw_pending (fst (gw_sweep w now ss g)) = gw_pending g"
  "settled (snd (gw_sweep w now ss g)) = []"
  by (induction ss arbitrary: g) (simp_all add: sweep_conn_frame case_prod_beta Let_def)

section \<open>Settling\<close>

lemma reject_settles:
  assumes "wf_table (gw_pending g)"
  shows "wf_table (gw_pending (fst (rejectPendingForDevice d reason g))) \<and>
    distinct (settled (snd (rejectPendingForDevice d reason g))) \<and>
    set (settled (snd (rejectPendingForDevice d reason g))) \<inter> set (keys (gw_pending (fst (rejectPendingForDevice d reason g)))) = {} \<and>
    set (settled (snd (rejectPendingForDevice d reason g))) \<union> set (keys (gw_pending (fst (rejectPendingForDevice d reason g)))) =
      set (keys (gw_pending g))"
proof -
  let ?p = "gw_pending g"
  have s: "settled (snd (rejectPendingForDevice d reason g)) = map fst (filter (\<lambda>(i, d'). d' = d) ?p)"
    by (simp add: rejectPendingForDevice_def settled_def List.map_filter_def comp_def case_prod_beta)
  have p: "gw_pending (fst (rejectPendingForDevice d reason g)) = filter (\<lambda>(i, d'). d' \<noteq> d) ?p"
    by (simp add: rejectPendingForDevice_def)
  have dis: "distinct (map fst ?p)" using assms by (simp add: wf_table_def keys_def)
  have "i \<notin> fst ` set (filter (\<lambda>(i, d'). d' \<noteq> d) ?p)" if "i \<in> fst ` set (filter (\<lambda>(i, d'). d' = d) ?p)" for i
    using that dis by (auto dest: eq_key_imp_eq_value)
  with dis show ?thesis
    unfolding s p wf_table_def keys_def by (auto simp: distinct_map_filter image_iff)
qed

lemma settle_keeps:
  assumes "wf_table p" "map_of p i = Some d"
  shows "wf_table (AList.delete i p) \<and> i \<notin> set (keys (AList.delete i p)) \<and> insert i (set (keys (AList.delete i p))) = set (keys p)"
  using assms by (auto simp: keys_def delete_keys dest: map_of_SomeD intro: rev_image_eqI)

definition settled_right :: "string list \<Rightarrow> (string, string) table \<Rightarrow> gateway \<times> gw_effect list \<Rightarrow> bool" where
  "settled_right new p r = (wf_table (gw_pending (fst r)) \<and> distinct (settled (snd r)) \<and>
     set (settled (snd r)) \<inter> set (keys (gw_pending (fst r))) = {} \<and>
     set (settled (snd r)) \<union> set (keys (gw_pending (fst r))) = set (keys p) \<union> set new)"

lemma settled_right_frame: "wf_table p \<Longrightarrow> gw_pending g = p \<Longrightarrow> settled es = [] \<Longrightarrow> settled_right [] p (g, es)"
  by (simp add: settled_right_def)

lemma step_settles:
  assumes wf: "wf_table (gw_pending g)" and new: "set (new_ids ev) \<inter> set (keys (gw_pending g)) = {}"
  shows "settled_right (new_ids ev) (gw_pending g) (gw_step w parse ev now g)"
proof (cases ev)
  case (Upgrade path h)
  with wf show ?thesis by (auto simp: gw_upgrade_def settled_right_def Let_def case_prod_beta split: option.split)
next
  case (Message s data)
  with wf settle_keeps [OF wf] show ?thesis
    by (auto simp: gw_message_def gw_result_def Let_def settled_right_def split: option.split)
next
  case (Socket_Closed s)
  with wf reject_settles show ?thesis
    by (auto simp: gw_closed_def Let_def settled_right_def split: option.split)
next
  case Sweep
  with wf sweep_frame [of w now "vals (gw_live g)" g] show ?thesis by (simp add: settled_right_def)
next
  case (Dispatch d op a x i)
  with wf new show ?thesis by (auto simp: dispatchAgentOperation_def settled_right_def split: option.split)
next
  case (Dispatch_Timeout i)
  with wf settle_keeps [OF wf] show ?thesis by (auto simp: settle_def settled_right_def)
next
  case (Send_Failed i reason)
  with wf settle_keeps [OF wf] show ?thesis by (auto simp: settle_def settled_right_def)
next
  case (Disconnect d)
  with wf reject_settles show ?thesis
    by (auto simp: disconnectAgentDevice_def Let_def case_prod_beta settled_right_def split: option.split)
next
  case (Store_Op op)
  with wf show ?thesis by (simp add: settled_right_def)
qed

lemma run_settles:
  assumes "wf_table (gw_pending g)" "distinct (dispatched evs)" "set (dispatched evs) \<inter> set (keys (gw_pending g)) = {}"
  shows "settled_right (dispatched evs) (gw_pending g) (gw_run w parse evs g)"
  using assms
proof (induction evs arbitrary: g)
  case Nil
  then show ?case by (simp add: settled_right_def)
next
  case (Cons a evs)
  obtain ev now where a: "a = (ev, now)" by force
  obtain g1 e1 where 1: "gw_step w parse ev now g = (g1, e1)" by force
  obtain g2 e2 where 2: "gw_run w parse evs g1 = (g2, e2)" by force
  have new: "set (new_ids ev) \<inter> set (keys (gw_pending g)) = {}" "set (new_ids ev) \<inter> set (dispatched evs) = {}"
      "set (dispatched evs) \<inter> set (keys (gw_pending g)) = {}" "distinct (dispatched evs)"
    using Cons.prems by (auto simp: a)
  have s1: "settled_right (new_ids ev) (gw_pending g) (g1, e1)"
    using step_settles [OF Cons.prems(1) new(1), of w parse now] by (simp only: 1)
  then have "set (keys (gw_pending g1)) \<subseteq> set (keys (gw_pending g)) \<union> set (new_ids ev)" "wf_table (gw_pending g1)"
    by (auto simp: settled_right_def)
  with new have s2: "settled_right (dispatched evs) (gw_pending g1) (g2, e2)"
    using Cons.IH [of g1] 2 by fastforce
  from s1 s2 new show ?case
    unfolding settled_right_def a gw_run.simps dispatched_simps 1 2 Let_def case_prod_conv fst_conv snd_conv settled_simps(3)
      set_append distinct_append
    by blast
qed

section \<open>Whom a socket speaks for\<close>

text \<open>The token of a connection is one of the device the connection is filed under.\<close>

definition token_of :: "string \<Rightarrow> string \<Rightarrow> bool" where
  "token_of d token = (dotless d \<and> (\<exists>x. token = ''wdv_'' @ d @ ''.'' @ x))"

definition conns_ok :: "gateway \<Rightarrow> bool" where
  "conns_ok g = ((\<forall>s c. gw_sock g s = Some c \<longrightarrow> token_of (lc_deviceId c) (lc_token c) \<and> s < gw_next g) \<and>
     (\<forall>d s. map_of (gw_live g) d = Some s \<longrightarrow> s < gw_next g \<and> (\<forall>c. gw_sock g s = Some c \<longrightarrow> lc_deviceId c = d)))"

definition gateway_ok :: "world \<Rightarrow> gateway \<Rightarrow> bool" where
  "gateway_ok w g = (conns_ok g \<and> wf_store (gw_store g) \<and> device_ok (w_sha w) (mem (gw_store g)) \<and>
     device_ok (w_sha w) (disk (gw_store g)))"

lemma authenticated_token:
  assumes "device_ok sha (mem st)" "wf_store st" "inj sha" "authenticateDeviceToken sha token st = Some dev"
  shows "token_of (dv_id dev) token \<and> map_of (devices (mem st)) (dv_id dev) = Some dev \<and> \<not> truthy (dv_revoked_at dev)"
proof -
  from assms(4) have d: "dev \<in> set (vals (devices (mem st)))" "dv_credential_hash dev = sha token"
      "\<not> truthy (dv_revoked_at dev)"
    by (auto simp: authenticateDeviceToken_def dest: find_SomeD)
  from d(1) assms(2) obtain k where k: "map_of (devices (mem st)) k = Some dev"
    by (auto simp: wf_store_def wf_pstate_def set_vals_iff)
  with assms(1) obtain x where ok: "dv_id dev = k" "dotless k" "dv_credential_hash dev = sha (''wdv_'' @ k @ ''.'' @ x)"
    by (auto simp: device_ok_def)
  with d(2) assms(3) have "token = ''wdv_'' @ k @ ''.'' @ x" by (simp add: inj_eq)
  with k ok d(3) show ?thesis by (simp add: token_of_def)
qed

lemma token_of_unique: "token_of d token \<Longrightarrow> token_of d' token \<Longrightarrow> d = d'"
  unfolding token_of_def by (metis token_names_device)

lemma gw_auth_facts:
  assumes "gateway_ok w g" "inj (w_sha w)" "gw_auth w token g = Some dev"
  shows "token_of (dv_id dev) token" "map_of (devices (mem (gw_store g))) (dv_id dev) = Some dev" "\<not> truthy (dv_revoked_at dev)"
  using authenticated_token [of "w_sha w" "gw_store g" token dev] assms by (simp_all add: gateway_ok_def gw_auth_def)

text \<open>What a step does to the connections, the pending table and the store.\<close>

definition same_conn :: "live_connection \<Rightarrow> live_connection \<Rightarrow> bool" where
  "same_conn c c' = (lc_deviceId c' = lc_deviceId c \<and> lc_token c' = lc_token c)"

definition conns_kept :: "gateway \<Rightarrow> gateway \<Rightarrow> bool" where
  "conns_kept g g' = (gw_next g' = gw_next g \<and> (\<forall>d s. map_of (gw_live g') d = Some s \<longrightarrow> map_of (gw_live g) d = Some s) \<and>
     (\<forall>s c'. gw_sock g' s = Some c' \<longrightarrow> (\<exists>c. gw_sock g s = Some c \<and> same_conn c c')))"

lemma conns_kept_refl [simp]: "conns_kept g g"
  by (simp add: conns_kept_def same_conn_def)

lemma conns_kept_trans: "conns_kept g g1 \<Longrightarrow> conns_kept g1 g2 \<Longrightarrow> conns_kept g g2"
  unfolding conns_kept_def same_conn_def by (elim conjE, intro conjI) (simp, blast, fastforce)

lemma conns_kept_frame: "gw_socks g' = gw_socks g \<Longrightarrow> gw_live g' = gw_live g \<Longrightarrow> gw_next g' = gw_next g \<Longrightarrow> conns_kept g g'"
  by (simp add: conns_kept_def same_conn_def gw_sock_def)

lemma conns_kept_modify: "(\<And>c. same_conn c (f c)) \<Longrightarrow> conns_kept g (modify_sock s f g)"
  by (auto simp: conns_kept_def same_conn_def split: if_splits)

lemma conns_kept_close [simp]: "conns_kept g (close_sock s g)"
  unfolding close_sock_def by (rule conns_kept_modify) (simp add: same_conn_def)

lemma conns_kept_touch [simp]: "conns_kept g h \<Longrightarrow> conns_kept g (modify_sock s (\<lambda>c. c\<lparr>lc_lastSeenAt := now\<rparr>) h)"
  by (rule conns_kept_trans [OF _ conns_kept_modify]) (simp_all add: same_conn_def)

lemma conns_kept_beat [simp]: "conns_kept g (heartbeat d v cs now g)" "conns_kept g (g\<lparr>gw_pending := p\<rparr>)"
  by (rule conns_kept_frame; simp)+

lemma conns_kept_current [simp]: "conns_kept g (fst (close_current d num reason g))"
  by (simp add: close_current_def split: option.split)

lemma conns_kept_sweep: "conns_kept g (fst (gw_sweep w now ss g))"
proof (induction ss arbitrary: g)
  case (Cons s ss)
  have "conns_kept g (fst (sweep_conn w now s g))" by (simp add: sweep_conn_def split: option.split)
  from conns_kept_trans [OF this Cons.IH] show ?case by (simp add: case_prod_beta Let_def)
qed simp

lemma conns_kept_ok: "conns_kept g g' \<Longrightarrow> conns_ok g \<Longrightarrow> conns_ok g'"
  unfolding conns_kept_def conns_ok_def same_conn_def by (elim conjE, intro conjI) (fastforce, fastforce)

lemma delete_lookup: "map_of (AList.delete k t) k' = Some v \<Longrightarrow> map_of t k' = Some v"
  by (simp add: delete_conv' split: if_splits)

lemma upgrade_conns:
  assumes "conns_ok g" "\<And>token dev. gw_auth w token g = Some dev \<Longrightarrow> token_of (dv_id dev) token"
  shows "conns_ok (fst (gw_upgrade w path h now g))"
proof (cases "path \<noteq> ''/agent/connect'' \<or> bearer h = None")
  case True
  with assms(1) show ?thesis by (auto simp: gw_upgrade_def)
next
  case False
  then obtain token where b: "path = ''/agent/connect''" "bearer h = Some token" by blast
  show ?thesis
  proof (cases "gw_auth w token g")
    case None
    with b assms(1) show ?thesis by (simp add: gw_upgrade_def)
  next
    case (Some dev)
    define g1 where "g1 = fst (close_current (dv_id dev) 4001 ''superseded'' g)"
    have "conns_ok g1" unfolding g1_def by (rule conns_kept_ok [OF conns_kept_current assms(1)])
    then show ?thesis
      using assms(2) [OF Some] b Some
      by (auto simp: gw_upgrade_def Let_def case_prod_beta g1_def conns_ok_def gw_sock_def update_conv less_Suc_eq)
  qed
qed

lemma step_conns:
  assumes "conns_ok g" "\<And>token dev. gw_auth w token g = Some dev \<Longrightarrow> token_of (dv_id dev) token"
  shows "conns_ok (fst (gw_step w parse ev now g))"
proof (cases ev)
  case (Upgrade path h)
  with upgrade_conns [OF assms] show ?thesis by simp
next
  case (Message s data)
  have "conns_kept g (fst (gw_message w parse s data now g))"
    by (simp add: gw_message_def gw_result_def Let_def split: option.split)
  with assms(1) conns_kept_ok show ?thesis by (simp add: Message)
next
  case (Socket_Closed s)
  have "conns_kept g (fst (gw_closed s g))"
    by (auto simp: gw_closed_def Let_def conns_kept_def same_conn_def gw_sock_def dest: delete_lookup split: option.split)
  with assms(1) conns_kept_ok show ?thesis by (simp add: Socket_Closed)
next
  case Sweep
  with assms(1) conns_kept_ok [OF conns_kept_sweep] show ?thesis by simp
next
  case (Dispatch d op a x i)
  have "conns_kept g (fst (dispatchAgentOperation w d op a x i g))"
    by (simp add: dispatchAgentOperation_def conns_kept_frame split: option.split)
  with assms(1) conns_kept_ok show ?thesis by (simp add: Dispatch)
next
  case (Dispatch_Timeout i)
  with assms(1) show ?thesis by (simp add: settle_def conns_ok_def gw_sock_def)
next
  case (Send_Failed i reason)
  with assms(1) show ?thesis by (simp add: settle_def conns_ok_def gw_sock_def)
next
  case (Disconnect d)
  have "conns_ok (fst (close_current d 4003 ''revoked'' g))" by (rule conns_kept_ok [OF conns_kept_current assms(1)])
  then show ?thesis
    by (simp add: Disconnect disconnectAgentDevice_def Let_def case_prod_beta conns_ok_def gw_sock_def)
next
  case (Store_Op op)
  with assms(1) show ?thesis by (simp add: conns_ok_def gw_sock_def)
qed

text \<open>The store changes by heartbeats and by the operations of the rest of the server only.\<close>

definition store_change :: "world \<Rightarrow> gw_event \<Rightarrow> int \<Rightarrow> store \<Rightarrow> store \<Rightarrow> bool" where
  "store_change w ev now st st' =
    (\<exists>op. st' = store_step w op now st \<and> (ev = Store_Op op \<or> (\<exists>d v cs. op = TouchHeartbeat d v cs)))"

lemma touched [simp]: "store_change w ev now st (fst (touchDeviceHeartbeat d v cs now st))"
  unfolding store_change_def by (rule exI [of _ "TouchHeartbeat d v cs"]) simp

lemma step_store:
  "gw_store (fst (gw_step w parse ev now g)) = gw_store g \<or>
   store_change w ev now (gw_store g) (gw_store (fst (gw_step w parse ev now g)))"
proof (cases ev)
  case (Upgrade path h)
  then show ?thesis by (simp add: gw_upgrade_def Let_def case_prod_beta split: option.split)
next
  case (Message s data)
  then show ?thesis by (simp add: gw_message_def gw_result_def Let_def split: option.split)
next
  case (Socket_Closed s)
  then show ?thesis by (simp add: gw_closed_def Let_def split: option.split)
next
  case (Dispatch d op a x i)
  then show ?thesis by (simp add: dispatchAgentOperation_def split: option.split)
next
  case (Disconnect d)
  then show ?thesis by (simp add: disconnectAgentDevice_def Let_def case_prod_beta)
next
  case (Store_Op op)
  then show ?thesis by (auto simp: store_change_def)
qed (simp_all add: settle_def sweep_frame)

text \<open>The events of one run of the server process: its restart loses every socket and every waiting request.\<close>

fun live_event :: "gw_event \<Rightarrow> bool" where
  "live_event (Store_Op op) = (op \<noteq> Restart \<and> dotless_claim op)"
| "live_event ev = True"

lemma step_gateway_ok:
  assumes "gateway_ok w g" "live_event ev" "inj (w_sha w)"
  shows "gateway_ok w (fst (gw_step w parse ev now g))"
proof -
  have "conns_ok (fst (gw_step w parse ev now g))"
    by (rule step_conns) (use assms gw_auth_facts [OF assms(1,3)] in \<open>auto simp: gateway_ok_def\<close>)
  moreover have "gw_store (fst (gw_step w parse ev now g)) = gw_store g \<or>
      (\<exists>op. gw_store (fst (gw_step w parse ev now g)) = store_step w op now (gw_store g) \<and> op \<noteq> Restart \<and> dotless_claim op)"
    using step_store [of w parse ev now g] assms(2) unfolding store_change_def by fastforce
  then have "wf_store (gw_store (fst (gw_step w parse ev now g))) \<and>
      device_ok (w_sha w) (mem (gw_store (fst (gw_step w parse ev now g)))) \<and>
      device_ok (w_sha w) (disk (gw_store (fst (gw_step w parse ev now g))))"
  proof (elim disjE exE conjE)
    assume "gw_store (fst (gw_step w parse ev now g)) = gw_store g"
    with assms(1) show ?thesis by (simp add: gateway_ok_def)
  next
    fix op
    assume "gw_store (fst (gw_step w parse ev now g)) = store_step w op now (gw_store g)" "op \<noteq> Restart" "dotless_claim op"
    with assms(1) wf_step device_ok_mem_step [of w "gw_store g" op now] step_disk [of w op now "gw_store g"]
    show ?thesis by (auto simp: gateway_ok_def)
  qed
  ultimately show ?thesis by (simp add: gateway_ok_def)
qed

lemma run_gateway_ok:
  assumes "gateway_ok w g" "\<forall>(ev, now) \<in> set evs. live_event ev" "inj (w_sha w)"
  shows "gateway_ok w (fst (gw_run w parse evs g))"
  using assms(1,2)
proof (induction evs arbitrary: g)
  case (Cons a evs)
  obtain ev now where a: "a = (ev, now)" by force
  have "gateway_ok w (fst (gw_step w parse ev now g))"
    by (rule step_gateway_ok) (use Cons.prems assms(3) a in auto)
  from Cons.IH [OF this] Cons.prems(2) show ?case by (simp add: a case_prod_beta Let_def)
qed simp

lemma device_ok_both:
  assumes "device_ok (w_sha w) (mem st)" "device_ok (w_sha w) (disk st)" "\<forall>(op, now) \<in> set ops. dotless_claim op"
  shows "device_ok (w_sha w) (disk (store_run w ops st))"
  using assms
proof (induction ops arbitrary: st)
  case (Cons a ops)
  obtain op now where a: "a = (op, now)" by force
  have "device_ok (w_sha w) (mem (store_step w op now st))"
    using Cons.prems device_ok_mem_step [of w st op now]
    by (cases "op = Restart") (auto simp: a device_ok_def)
  with Cons step_disk [of w op now st] show ?case by (auto simp: a)
qed simp

text \<open>A server that has just started, on any state an earlier process has left.\<close>

lemma idle_gateway_ok:
  "\<forall>(op, now) \<in> set ops. dotless_claim op \<Longrightarrow> gateway_ok w (idle_gateway (store_run w ops fresh_store))"
  using device_ok_reached [of ops w] device_ok_both [of w fresh_store ops]
  by (simp add: gateway_ok_def idle_gateway_def conns_ok_def gw_sock_def device_ok_def emptyState_def)

section \<open>A run\<close>

text \<open>A paired device connects, and two operations are dispatched to it.\<close>

definition demo_traffic :: "(gw_event \<times> int) list" where
  "demo_traffic =
    [(Upgrade ''/agent/connect'' (Some (''Bearer '' @ device_token (w_hmac demo_world) ''poll'' ''dev_x'')), 4000),
     (Dispatch ''dev_x'' ''host.uptime'' [] \<lparr>xo_timeoutMs = None, xo_maxBytes = None\<rparr> ''r1'', 4100),
     (Dispatch ''dev_x'' ''host.memory'' [] \<lparr>xo_timeoutMs = None, xo_maxBytes = None\<rparr> ''r2'', 4200)]"

definition demo_agent_answers :: parser where
  "demo_agent_answers s = Some (JObj [(''type'', JStr ''execute_result''), (''request_id'', JStr s),
     (''result'', JObj [(''code'', jint 0), (''stdout'', JStr ''up'')])])"

definition demo_gateway :: gateway where
  "demo_gateway = idle_gateway (store_run demo_world demo_pairing fresh_store)"

lemma demo_events:
  "inj (w_sha demo_world)" "\<forall>(ev, now) \<in> set demo_traffic. live_event ev" "\<forall>(op, now) \<in> set demo_pairing. dotless_claim op"
  by (simp_all add: demo_world_def demo_traffic_def demo_pairing_def dotless_def inj_def)

text \<open>The close of a superseded connection rejects what was sent over its successor.\<close>

lemma superseded_close_rejects:
  "let (g, es) = gw_run demo_world demo_agent_answers
        (take 1 demo_traffic @ demo_traffic @ [(Socket_Closed 0, 4300)]) demo_gateway
   in drop (length es - 2) es = [Rejected ''r1'' ''agent_disconnected'', Rejected ''r2'' ''agent_disconnected''] \<and>
      ks_online (agentConnectionStatus ''dev_x'' g)"
  by code_simp

section \<open>Every operation is settled\<close>

text \<open>C11: Every operation dispatched to an agent is settled exactly once. In every run with fresh request ids, no
  operation is settled twice or settled without having been dispatched, whatever messages, closes,
  timeouts and disconnects arrive in whatever order, and one that is not settled is still pending; the
  timer that fires then settles it.\<close>

theorem operations_settled_once:
  assumes "distinct (dispatched evs)" "gw_run w parse evs (idle_gateway st) = (g, es)"
  shows "distinct (settled es) \<and> set (settled es) \<inter> set (keys (gw_pending g)) = {} \<and>
    set (dispatched evs) = set (settled es) \<union> set (keys (gw_pending g)) \<and>
    (\<forall>i \<in> set (dispatched evs). i \<in> set (settled (snd (gw_run w parse (evs @ [(Dispatch_Timeout i, t)]) (idle_gateway st)))))"
proof -
  have "settled_right (dispatched evs) [] (g, es)"
    using run_settles [of "idle_gateway st" evs w parse] assms by (simp add: idle_gateway_def keys_def wf_table_def)
  then have all: "distinct (settled es)" "set (settled es) \<inter> set (keys (gw_pending g)) = {}"
      "set (settled es) \<union> set (keys (gw_pending g)) = set (dispatched evs)"
    by (simp_all add: settled_right_def keys_def)
  have "i \<in> set (settled (snd (gw_run w parse (evs @ [(Dispatch_Timeout i, t)]) (idle_gateway st))))"
    if "i \<in> set (dispatched evs)" for i
  proof (cases "map_of (gw_pending g) i")
    case None
    then have "i \<notin> set (keys (gw_pending g))" by (simp add: keys_def map_of_eq_None_iff)
    with that all(3) show ?thesis by (auto simp: gw_run_append assms(2) case_prod_beta Let_def)
  next
    case (Some d)
    then show ?thesis by (simp add: gw_run_append assms(2) settle_def Let_def)
  qed
  with all show ?thesis by blast
qed

theorem operations_settled_once_witness:
  "\<exists>g es. gw_run demo_world demo_agent_answers (demo_traffic @ [(Message 0 ''r1'', 4300)]) demo_gateway = (g, es) \<and>
     settled es = [''r1''] \<and> {''r1'', ''r2''} = set (settled es) \<union> set (keys (gw_pending g))"
proof -
  let ?evs = "demo_traffic @ [(Message 0 ''r1'', 4300)]"
  obtain g es where run: "gw_run demo_world demo_agent_answers ?evs demo_gateway = (g, es)" by force
  have ids: "dispatched ?evs = [''r1'', ''r2'']" by (simp add: dispatched_def demo_traffic_def)
  have "settled (snd (gw_run demo_world demo_agent_answers ?evs demo_gateway)) = [''r1'']" by code_simp
  moreover have "set (dispatched ?evs) = set (settled es) \<union> set (keys (gw_pending g))"
    using operations_settled_once [of ?evs demo_world demo_agent_answers, OF _ run [unfolded demo_gateway_def]] ids by simp
  ultimately show ?thesis using run ids by auto
qed

section \<open>Results\<close>

lemma update_members: "(j, e) \<in> set (AList.update i d t) \<Longrightarrow> (j, e) = (i, d) \<or> (j, e) \<in> set t"
  by (induction t) (auto split: if_splits)

lemma step_pending:
  assumes "(i, d) \<in> set (gw_pending (fst (gw_step w parse ev now g)))"
  shows "(i, d) \<in> set (gw_pending g) \<or> (\<exists>op a x. ev = Dispatch d op a x i)"
proof (cases ev)
  case (Dispatch d op a x i)
  with assms show ?thesis by (auto simp: dispatchAgentOperation_def dest: update_members split: option.splits if_splits)
qed (use assms in \<open>auto simp: gw_unfold rejectPendingForDevice_def AList.delete_eq sweep_frame split: option.splits if_splits\<close>)

lemma run_pending:
  "(i, d) \<in> set (gw_pending (fst (gw_run w parse evs g))) \<Longrightarrow>
     (i, d) \<in> set (gw_pending g) \<or> (\<exists>op a x t. (Dispatch d op a x i, t) \<in> set evs)"
proof (induction evs arbitrary: g)
  case (Cons e evs)
  obtain ev now where e: "e = (ev, now)" by force
  from Cons.prems have "(i, d) \<in> set (gw_pending (fst (gw_run w parse evs (fst (gw_step w parse ev now g)))))"
    by (simp add: e case_prod_beta Let_def)
  from Cons.IH [OF this] step_pending [of i d w parse ev now g] show ?case by (auto simp: e)
qed simp

lemma sweep_settles_nothing: "e \<in> set (snd (gw_sweep w now ss g)) \<Longrightarrow> settles e = None"
  using sweep_frame(3) [of w now ss g] by (auto simp: settled_def List.map_filter_def filter_empty_conv)

lemma resolved_by_message:
  assumes "Resolved i r \<in> set (snd (gw_step w parse ev now g))"
  shows "\<exists>s data c dev msg. ev = Message s data \<and> gw_sock g s = Some c \<and> gw_auth w (lc_token c) g = Some dev \<and>
    safeJson parse data = Some msg \<and> (case field msg ''request_id'' of JStr q \<Rightarrow> q | _ \<Rightarrow> []) = i \<and>
    map_of (gw_pending g) i = Some (lc_deviceId c) \<and> agent_result (field msg ''result'') = Some r"
proof (cases ev)
  case (Message s data)
  with assms show ?thesis
    by (auto simp: gw_message_def gw_result_def Let_def split: option.splits if_splits)
qed (use assms in \<open>auto simp: gw_unfold rejectPendingForDevice_def close_current_def
    dest: sweep_settles_nothing split: option.splits if_splits\<close>)

text \<open>C12: The result an operation is resolved with is an answer of the very device it was dispatched to: it arrives on a
  socket whose token authenticates, at that moment, the device that the operation was dispatched to, it names
  the request, and it is what that device sent; no other device can answer in its place.\<close>

theorem result_from_its_device:
  assumes "gw_run w parse evs (idle_gateway (store_run w ops fresh_store)) = (g, es)"
    and "\<forall>(ev, now) \<in> set evs. live_event ev" "\<forall>(op, now) \<in> set ops. dotless_claim op" "inj (w_sha w)"
    and "Resolved i r \<in> set (snd (gw_step w parse ev now g))"
  shows "\<exists>d op a x t s data c dev msg. (Dispatch d op a x i, t) \<in> set evs \<and> ev = Message s data \<and>
    gw_sock g s = Some c \<and> gw_auth w (lc_token c) g = Some dev \<and> dv_id dev = d \<and>
    safeJson parse data = Some msg \<and> (case field msg ''request_id'' of JStr q \<Rightarrow> q | _ \<Rightarrow> []) = i \<and>
    agent_result (field msg ''result'') = Some r"
proof -
  have ok: "gateway_ok w g"
    using run_gateway_ok [OF idle_gateway_ok [OF assms(3)] assms(2,4), of parse] assms(1) by simp
  from resolved_by_message [OF assms(5)] obtain s data c dev msg where m: "ev = Message s data" "gw_sock g s = Some c"
      "gw_auth w (lc_token c) g = Some dev" "safeJson parse data = Some msg"
      "(case field msg ''request_id'' of JStr q \<Rightarrow> q | _ \<Rightarrow> []) = i" "map_of (gw_pending g) i = Some (lc_deviceId c)"
      "agent_result (field msg ''result'') = Some r"
    by blast
  have "token_of (lc_deviceId c) (lc_token c)" using ok m(2) by (simp add: gateway_ok_def conns_ok_def)
  with gw_auth_facts(1) [OF ok assms(4) m(3)] have "dv_id dev = lc_deviceId c" by (simp add: token_of_unique)
  moreover from map_of_SomeD [OF m(6)] have "\<exists>op a x t. (Dispatch (lc_deviceId c) op a x i, t) \<in> set evs"
    using run_pending [of i "lc_deviceId c" w parse evs "idle_gateway (store_run w ops fresh_store)"] assms(1)
    by (simp add: idle_gateway_def)
  ultimately show ?thesis using m by blast
qed

theorem result_from_its_device_witness:
  "\<exists>d op a x t c dev. (Dispatch d op a x ''r1'', t) \<in> set demo_traffic \<and>
     gw_sock (fst (gw_run demo_world demo_agent_answers demo_traffic demo_gateway)) 0 = Some c \<and>
     gw_auth demo_world (lc_token c) (fst (gw_run demo_world demo_agent_answers demo_traffic demo_gateway)) = Some dev \<and> dv_id dev = d"
proof -
  let ?g = "fst (gw_run demo_world demo_agent_answers demo_traffic demo_gateway)"
  let ?es = "snd (gw_step demo_world demo_agent_answers (Message 0 ''r1'') 4300 ?g)"
  have "(case ?es of [Resolved i r] \<Rightarrow> i = ''r1'' | _ \<Rightarrow> False)" by code_simp
  then obtain r where r: "Resolved ''r1'' r \<in> set ?es"
    by (cases ?es) (auto split: gw_effect.splits list.splits)
  have run: "gw_run demo_world demo_agent_answers demo_traffic (idle_gateway (store_run demo_world demo_pairing fresh_store)) =
      (?g, snd (gw_run demo_world demo_agent_answers demo_traffic demo_gateway))"
    by (simp add: demo_gateway_def)
  from result_from_its_device [OF run demo_events(2,3,1) r] show ?thesis unfolding gw_event.inject by blast
qed

section \<open>Revoked devices\<close>

lemma step_keeps_dead:
  assumes "gateway_ok w g" "live_event ev" "0 < now" "device_dead did (mem (gw_store g))"
    and "\<forall>op. ev = Store_Op op \<longrightarrow> no_device did w op"
  shows "device_dead did (mem (gw_store (fst (gw_step w parse ev now g))))"
proof -
  have wf: "wf_store (gw_store g)" using assms(1) by (simp add: gateway_ok_def)
  have "device_dead did (mem st')" if "store_change w ev now (gw_store g) st'" for st'
  proof -
    from that obtain op where op: "st' = store_step w op now (gw_store g)" "ev = Store_Op op \<or> (\<exists>d v cs. op = TouchHeartbeat d v cs)"
      by (auto simp: store_change_def)
    with assms(2,5) have "no_device did w op" "op \<noteq> Restart" by auto
    with gone_device.step_dead [OF wf assms(3) _ _ assms(4)] op(1) show ?thesis by simp
  qed
  with step_store [of w parse ev now g] assms(4) show ?thesis by auto
qed

lemma run_keeps_dead:
  assumes "gateway_ok w g" "\<forall>(ev, now) \<in> set evs. live_event ev \<and> 0 < now \<and> (\<forall>op. ev = Store_Op op \<longrightarrow> no_device did w op)"
    and "inj (w_sha w)" "device_dead did (mem (gw_store g))"
  shows "device_dead did (mem (gw_store (fst (gw_run w parse evs g))))"
  using assms(1,2,4)
proof (induction evs arbitrary: g)
  case (Cons e evs)
  obtain ev now where e: "e = (ev, now)" by force
  from Cons.prems(2) have ev: "live_event ev" "0 < now" "\<forall>op. ev = Store_Op op \<longrightarrow> no_device did w op" by (auto simp: e)
  from Cons.IH [OF step_gateway_ok [OF Cons.prems(1) ev(1) assms(3)] _ step_keeps_dead [OF Cons.prems(1) ev(1,2) Cons.prems(3) ev(3)]]
    Cons.prems(2)
  show ?case by (simp add: e case_prod_beta Let_def)
qed simp

lemma dead_token:
  assumes "gateway_ok w g" "inj (w_sha w)" "device_dead did (mem (gw_store g))" "token_of did token"
  shows "gw_auth w token g = None"
proof (cases "gw_auth w token g")
  case (Some dev)
  with gw_auth_facts [OF assms(1,2) Some] assms(3,4) token_of_unique show ?thesis by (fastforce simp: dead_iff)
qed

text \<open>C13: A revoked device is cut off: once \<open>revokeDevice\<close> has succeeded, and unless a device is paired again under the
  same random id, no later dispatch sends the device anything, every message on one of its sockets only closes
  that socket, and no upgrade with one of its tokens is let in, also before the gateway has been told to
  disconnect it.\<close>

theorem revoked_agent_cut_off:
  assumes "gw_run w parse before (idle_gateway (store_run w ops fresh_store)) = (g, es)"
    and "revokeDevice did t0 (gw_store g) = (st', True)" "0 < t0"
    and "gw_run w parse evs (g\<lparr>gw_store := st'\<rparr>) = (g', es')"
    and "\<forall>(ev, now) \<in> set evs. live_event ev \<and> 0 < now \<and> (\<forall>op. ev = Store_Op op \<longrightarrow> no_device did w op)"
    and "\<forall>(ev, now) \<in> set before. live_event ev" "\<forall>(op, now) \<in> set ops. dotless_claim op" "inj (w_sha w)"
  shows "(\<exists>reason. snd (gw_step w parse (Dispatch did op a x i) now g') = [Rejected i reason]) \<and>
    (\<forall>s c data. gw_sock g' s = Some c \<and> lc_deviceId c = did \<longrightarrow>
      snd (gw_step w parse (Message s data) now g') = [Close_Socket s 4003 ''revoked'']) \<and>
    (\<forall>h token. bearer h = Some token \<and> token_of did token \<longrightarrow>
      gw_step w parse (Upgrade ''/agent/connect'' h) now g' = (g', [Unauthorized]))"
proof -
  have ok: "gateway_ok w g"
    using run_gateway_ok [OF idle_gateway_ok [OF assms(7)] assms(6,8), of parse] assms(1) by simp
  have "g\<lparr>gw_store := st'\<rparr> = fst (gw_step w parse (Store_Op (RevokeDevice did)) t0 g)" using assms(2) by simp
  with step_gateway_ok [OF ok, of "Store_Op (RevokeDevice did)" parse t0] assms(8)
  have ok1: "gateway_ok w (g\<lparr>gw_store := st'\<rparr>)" by simp
  have "device_dead did (mem st')"
    using assms(2,3) by (auto simp: revokeDevice_def dead_iff split: option.splits)
  then have dead: "device_dead did (mem (gw_store g'))"
    using run_keeps_dead [OF ok1 assms(5,8), of parse] assms(4) by simp
  have "\<forall>(ev, now) \<in> set evs. live_event ev" using assms(5) by auto
  from run_gateway_ok [OF ok1 this assms(8), of parse] assms(4) have ok': "gateway_ok w g'" by simp
  note refuse = dead_token [OF ok' assms(8) dead]
  from ok' have c: "token_of (lc_deviceId c) (lc_token c)" if "gw_sock g' s = Some c" for s c
    using that by (simp add: gateway_ok_def conns_ok_def)
  from ok' have l: "lc_deviceId c = d" if "map_of (gw_live g') d = Some s" "gw_sock g' s = Some c" for d s c
    using that by (simp add: gateway_ok_def conns_ok_def)
  have "\<exists>reason. snd (gw_step w parse (Dispatch did op a x i) now g') = [Rejected i reason]"
    using l refuse c by (fastforce simp: dispatchAgentOperation_def gw_conn_def split: option.splits)
  moreover have "snd (gw_step w parse (Message s data) now g') = [Close_Socket s 4003 ''revoked'']"
    if "gw_sock g' s = Some c" "lc_deviceId c = did" for s c data
    using refuse [of "lc_token c"] c [OF that(1)] that by (simp add: gw_message_def)
  moreover have "gw_step w parse (Upgrade ''/agent/connect'' h) now g' = (g', [Unauthorized])"
    if "bearer h = Some token" "token_of did token" for h token
    using refuse [OF that(2)] that by (simp add: gw_upgrade_def)
  ultimately show ?thesis by blast
qed

theorem revoked_agent_cut_off_witness:
  "\<exists>g st' g' es' reason. gw_run demo_world demo_agent_answers demo_traffic demo_gateway = g \<and>
     revokeDevice ''dev_x'' 5000 (gw_store (fst g)) = (st', True) \<and>
     gw_run demo_world demo_agent_answers [(Message 0 ''r1'', 5100)] ((fst g)\<lparr>gw_store := st'\<rparr>) = (g', es') \<and>
     snd (gw_step demo_world demo_agent_answers (Dispatch ''dev_x'' ''host.disk'' [] \<lparr>xo_timeoutMs = None, xo_maxBytes = None\<rparr> ''r3'') 6000 g')
       = [Rejected ''r3'' reason]"
proof -
  obtain g es where g: "gw_run demo_world demo_agent_answers demo_traffic demo_gateway = (g, es)" by force
  have "snd (revokeDevice ''dev_x'' 5000 (gw_store (fst (gw_run demo_world demo_agent_answers demo_traffic demo_gateway))))" by code_simp
  then obtain st' where st': "revokeDevice ''dev_x'' 5000 (gw_store g) = (st', True)"
    by (cases "revokeDevice ''dev_x'' 5000 (gw_store g)") (simp add: g)
  obtain g' es' where g': "gw_run demo_world demo_agent_answers [(Message 0 ''r1'', 5100)] (g\<lparr>gw_store := st'\<rparr>) = (g', es')" by force
  from revoked_agent_cut_off [OF g [unfolded demo_gateway_def] st' _ g' _ demo_events(2,3,1)] g st' g' show ?thesis by fastforce
qed

end
