(* ===== verification/Docker_Payloads.thy ===== *)
theory Docker_Payloads
  imports Agent_Exec Base64
begin

text \<open>
  What the Docker proxy lets into its two semantic commands: \<^verbatim>\<open>src/docker/postgres-readback.ts\<close>, the SQL verifiers
  that are pinned by their hash, and \<^verbatim>\<open>src/docker/paperclip-semantic.ts\<close>, the payloads of the Paperclip operations.
  The script that the second runs inside its container is a parameter.
\<close>

section \<open>Comma-separated settings\<close>

text \<open>\<open>raw.split(",").map((x) => x.trim()).filter(Boolean)\<close>\<close>

definition csv_items :: "string \<Rightarrow> string list" where
  "csv_items raw = filter (\<lambda>x. x \<noteq> []) (map trim (split_on (CHR '','') raw))"

section \<open>Pinned SQL verifiers\<close>

definition lower_or_digit :: "char \<Rightarrow> bool" where "lower_or_digit c = (is_lower c \<or> is_digit c)"
definition hex_lower :: "char \<Rightarrow> bool" where "hex_lower c = (is_digit c \<or> between 97 102 c)"
definition hex_any :: "char \<Rightarrow> bool" where "hex_any c = (hex_lower c \<or> between 65 70 c)"

definition VERIFIER_ID_RE :: "string \<Rightarrow> bool" where
  "VERIFIER_ID_RE s = re_head_class lower_or_digit (\<lambda>c. lower_or_digit c \<or> c \<in> set ''_.-'') 1 79 s"

definition SHA256_RE :: "string \<Rightarrow> bool" where
  "SHA256_RE s = re_class hex_lower 64 64 s"

definition SAFE_NAME_RE :: "string \<Rightarrow> bool" where
  "SAFE_NAME_RE s = re_head_class (\<lambda>c. is_upper c \<or> is_lower c \<or> c = CHR ''_'') (alnum_or ''_.-'') 0 79 s"

text \<open>The text before the first \<open>=\<close> and the text after it.\<close>

definition split_at_eq :: "string \<Rightarrow> (string \<times> string) option" where
  "split_at_eq s = (let k = takeWhile (\<lambda>c. c \<noteq> CHR ''='') s; v = drop (Suc (length k)) s in
     if k = [] \<or> length k = length s \<or> v = [] then None else Some (k, v))"

definition verifier_entry :: "string \<Rightarrow> (string, string) table \<Rightarrow> exn + (string, string) table" where
  "verifier_entry entry out = (case split_at_eq entry of
     None \<Rightarrow> Inl (Error ''invalid_postgres_verifier_allowlist'')
   | Some (k, v) \<Rightarrow>
      (let verifierId = trim k; sha256 = lower (trim v) in
       bindR (ensure (VERIFIER_ID_RE verifierId \<and> SHA256_RE sha256) (Error ''invalid_postgres_verifier_allowlist'')) (\<lambda>_.
       bindR (ensure (map_of out verifierId = None) (Error ''duplicate_postgres_verifier_id'')) (\<lambda>_.
       Inr (AList.update verifierId sha256 out)))))"

fun verifier_entries :: "string list \<Rightarrow> (string, string) table \<Rightarrow> exn + (string, string) table" where
  "verifier_entries [] out = Inr out"
| "verifier_entries (e # es) out = bindR (verifier_entry e out) (verifier_entries es)"

definition parsePostgresVerifierAllowlist :: "string \<Rightarrow> exn + (string, string) table" where
  "parsePostgresVerifierAllowlist raw = verifier_entries (csv_items raw) []"

record pinned_payload =
  pp_verifierId :: string
  pp_sql :: string

definition normalizePostgresPinnedReadbackPayload :: "jval \<Rightarrow> exn + pinned_payload" where
  "normalizePostgresPinnedReadbackPayload raw =
    bindR (get raw ''verifierId'') (\<lambda>v.
    let verifierId = str_or_empty v; sql = str_or_empty (attr raw ''sql'') in
    bindR (ensure (VERIFIER_ID_RE verifierId) (Error ''invalid_postgres_verifier_id'')) (\<lambda>_.
    bindR (ensure (sql \<noteq> [] \<and> utf8_length sql \<le> 131072 \<and> char_of (0 :: nat) \<notin> set sql) (Error ''invalid_postgres_verifier_sql'')) (\<lambda>_.
    Inr \<lparr>pp_verifierId = verifierId, pp_sql = sql\<rparr>)))"

text \<open>\<open>sql.split(/\r?\n/)\<close>\<close>

definition chop_cr :: "string \<Rightarrow> string" where
  "chop_cr l = (if l \<noteq> [] \<and> last l = char_of (13 :: nat) then butlast l else l)"

definition sql_lines :: "string \<Rightarrow> string list" where
  "sql_lines sql = (let ls = split_on (char_of (10 :: nat)) sql in map chop_cr (butlast ls) @ [last ls])"

definition meta_mark :: char where "meta_mark = char_of (92 :: nat)"

fun without_meta :: "string list \<Rightarrow> exn + string list" where
  "without_meta [] = Inr []"
| "without_meta (l # ls) =
    (let trimmed = trim l in
     if \<not> starts_with trimmed [meta_mark] then bindR (without_meta ls) (\<lambda>out. Inr (l # out))
     else if trimmed = meta_mark # ''set ON_ERROR_STOP on'' \<or> trimmed = meta_mark # ''pset pager off'' then without_meta ls
     else Inl (Error ''unsupported_postgres_meta_command''))"

definition postgresSqlAfterApprovedMetaCommands :: "string \<Rightarrow> exn + string" where
  "postgresSqlAfterApprovedMetaCommands sql =
    bindR (without_meta (sql_lines sql)) (\<lambda>out. Inr (join [char_of (10 :: nat)] out))"

definition requireSafeName :: "string \<Rightarrow> string \<Rightarrow> exn + string" where
  "requireSafeName v label = bindR (ensure (SAFE_NAME_RE v) (Error (''invalid_'' @ label))) (\<lambda>_. Inr v)"

record pinned_config =
  pc_container :: string
  pc_execUser :: string
  pc_dbUser :: string
  pc_dbName :: string
  pc_verifiers :: "(string, string) table"

record pinned_exec =
  px_verifierId :: string
  px_sha256 :: string
  px_container :: string
  px_execUser :: string
  px_env :: "string list"
  px_cmd :: "string list"

definition wrapped_sql :: "string \<Rightarrow> string" where
  "wrapped_sql executable = ''BEGIN TRANSACTION READ ONLY;'' @ [char_of (10 :: nat)] @ executable @ [char_of (10 :: nat)] @
     ''ROLLBACK;'' @ [char_of (10 :: nat)]"

definition pinned_env :: "string list" where
  "pinned_env = [''PGAPPNAME=wandora-postgres-pinned-readback'', ''PGCONNECT_TIMEOUT=5'',
     ''PGOPTIONS=-c default_transaction_read_only=on -c statement_timeout=20000 -c lock_timeout=3000'']"

definition pinned_cmd :: "string \<Rightarrow> string \<Rightarrow> string \<Rightarrow> string list" where
  "pinned_cmd dbUser dbName executable =
    [''psql'', ''-w'', ''-X'', ''-v'', ''ON_ERROR_STOP=1'', ''-U'', dbUser, ''-d'', dbName, ''-c'', wrapped_sql executable]"

text \<open>\<open>sha\<close> is \<open>postgresVerifierSha256\<close>.\<close>

definition buildPostgresPinnedReadbackExec :: "(string \<Rightarrow> string) \<Rightarrow> pinned_config \<Rightarrow> pinned_payload \<Rightarrow> exn + pinned_exec" where
  "buildPostgresPinnedReadbackExec sha cfg p =
    (let expected = coalesce (map_of (pc_verifiers cfg) (pp_verifierId p)) [] in
     bindR (ensure (expected \<noteq> []) (Error ''postgres_verifier_not_allowed'')) (\<lambda>_.
     bindR (ensure (sha (pp_sql p) = expected) (Error ''postgres_verifier_hash_mismatch'')) (\<lambda>_.
     bindR (requireSafeName (pc_container cfg) ''postgres_container'') (\<lambda>container.
     bindR (requireSafeName (pc_execUser cfg) ''postgres_exec_user'') (\<lambda>execUser.
     bindR (requireSafeName (pc_dbUser cfg) ''postgres_db_user'') (\<lambda>dbUser.
     bindR (requireSafeName (pc_dbName cfg) ''postgres_db_name'') (\<lambda>dbName.
     bindR (postgresSqlAfterApprovedMetaCommands (pp_sql p)) (\<lambda>executable.
     Inr \<lparr>px_verifierId = pp_verifierId p, px_sha256 = sha (pp_sql p), px_container = container, px_execUser = execUser,
       px_env = pinned_env, px_cmd = pinned_cmd dbUser dbName executable\<rparr>))))))))"

section \<open>Paperclip payloads\<close>

datatype paperclip_op =
    Task_Drain_Status | Task_Drain_Start | Task_Drain_Stop | Tool_Policies_List | Tool_Connection_Activity_Safe
  | Tool_Policy_Test | Tool_Policy_Create | Tool_Policy_Delete

definition paperclip_names :: "(string \<times> paperclip_op) list" where
  "paperclip_names = [(''task-drain-status'', Task_Drain_Status), (''task-drain-start'', Task_Drain_Start),
     (''task-drain-stop'', Task_Drain_Stop), (''tool-policies-list'', Tool_Policies_List),
     (''tool-connection-activity-safe'', Tool_Connection_Activity_Safe), (''tool-policy-test'', Tool_Policy_Test),
     (''tool-policy-create'', Tool_Policy_Create), (''tool-policy-delete'', Tool_Policy_Delete)]"

definition GUID :: "string \<Rightarrow> bool" where
  "GUID s = (case split_on (CHR ''-'') s of
     [a, b, c, d, e] \<Rightarrow> re_class hex_any 8 8 a \<and> re_class hex_any 4 4 b \<and>
       re_head_class (between 49 56) hex_any 3 3 c \<and> re_head_class (\<lambda>x. x \<in> set ''89abAB'') hex_any 3 3 d \<and> re_class hex_any 12 12 e
   | _ \<Rightarrow> False)"

definition asRecord :: "jval \<Rightarrow> exn + (string \<times> jval) list" where
  "asRecord v = (case v of JObj fs \<Rightarrow> Inr fs | _ \<Rightarrow> Inl (Error ''invalid_payload''))"

definition requireGuid :: "jval \<Rightarrow> string \<Rightarrow> exn + jval" where
  "requireGuid v label = (let s = str_or_empty v in bindR (ensure (GUID s) (Error (''invalid_'' @ label))) (\<lambda>_. Inr (JStr s)))"

definition paperclip_tool_name_ok :: "string \<Rightarrow> bool" where
  "paperclip_tool_name_ok s = re_class (alnum_or ''_.:-'') 1 240 s"

definition requireToolName :: "jval \<Rightarrow> string \<Rightarrow> exn + jval" where
  "requireToolName v label = (let s = trim (str_or_empty v) in
     bindR (ensure (paperclip_tool_name_ok s) (Error (''invalid_'' @ label))) (\<lambda>_. Inr (JStr s)))"

text \<open>\<open>if (input.k != null) out.k = check(input.k)\<close>\<close>

definition optional_field :: "(string \<times> jval) list \<Rightarrow> string \<Rightarrow> (jval \<Rightarrow> exn + jval) \<Rightarrow> exn + (string \<times> jval) list" where
  "optional_field fs k check = (if nullish (field fs k) then Inr [] else bindR (check (field fs k)) (\<lambda>v. Inr [(k, v)]))"

definition selector_names :: "jval \<Rightarrow> exn + jval" where
  "selector_names v = (case v of
     JArr vs \<Rightarrow> bindR (ensure (1 \<le> length vs \<and> length vs \<le> 32) (Error ''invalid_selector_tool_names'')) (\<lambda>_.
       bindR (mapR (\<lambda>x. requireToolName x ''selector_tool_name'') vs) (\<lambda>names. Inr (JArr names)))
   | _ \<Rightarrow> Inl (Error ''invalid_selector_tool_names''))"

definition selector_keys :: "string list" where
  "selector_keys = [''agentId'', ''connectionId'', ''catalogEntryId'', ''toolName'', ''toolNames'']"

definition normalizeSelectors :: "jval \<Rightarrow> exn + jval" where
  "normalizeSelectors v =
    bindR (asRecord v) (\<lambda>input.
    bindR (ensure (list_all (\<lambda>(k, x). k \<in> set selector_keys) input) (Error ''unsupported_selector'')) (\<lambda>_.
    bindR (optional_field input ''agentId'' (\<lambda>x. requireGuid x ''selector_agent_id'')) (\<lambda>a.
    bindR (optional_field input ''connectionId'' (\<lambda>x. requireGuid x ''selector_connection_id'')) (\<lambda>b.
    bindR (optional_field input ''catalogEntryId'' (\<lambda>x. requireGuid x ''selector_catalog_entry_id'')) (\<lambda>c.
    bindR (optional_field input ''toolName'' (\<lambda>x. requireToolName x ''selector_tool_name'')) (\<lambda>d.
    bindR (optional_field input ''toolNames'' selector_names) (\<lambda>e.
    bindR (ensure (a @ b @ c @ d @ e \<noteq> []) (Error ''empty_selectors'')) (\<lambda>_.
    Inr (JObj (a @ b @ c @ d @ e))))))))))"

text \<open>\<open>Number(v)\<close> that is an integer within its bounds.\<close>

definition require_int :: "(string \<Rightarrow> jnum) \<Rightarrow> int \<Rightarrow> int \<Rightarrow> string \<Rightarrow> jval \<Rightarrow> exn + jval" where
  "require_int lit lo hi refusal v = bindR (safe_number lit lo hi refusal v) (\<lambda>n. Inr (JNum (NInt n)))"

text \<open>A trimmed text that is not blank and not longer than its bound.\<close>

definition require_text :: "nat \<Rightarrow> string \<Rightarrow> jval \<Rightarrow> exn + jval" where
  "require_text hi refusal v = (let s = trim (str_or_empty v) in
     bindR (ensure (s \<noteq> [] \<and> length s \<le> hi) (Error refusal)) (\<lambda>_. Inr (JStr s)))"

definition rate_limit_config :: "(string \<Rightarrow> jnum) \<Rightarrow> jval \<Rightarrow> exn + jval" where
  "rate_limit_config lit v =
    bindR (asRecord v) (\<lambda>c.
    bindR (require_int lit 1 1000 ''invalid_rate_limit'' (field c ''limit'')) (\<lambda>limit.
    bindR (require_int lit 1 86400 ''invalid_window_seconds'' (field c ''windowSeconds'')) (\<lambda>windowSeconds.
    (case field c ''keyBy'' of
       JArr vs \<Rightarrow>
         bindR (ensure (1 \<le> length vs \<and> length vs \<le> 4) (Error ''invalid_key_by'')) (\<lambda>_.
         bindR (ensure (list_all (\<lambda>x. str_of x \<in> set [''agent'', ''tool'', ''connection'']) vs) (Error ''invalid_key_by'')) (\<lambda>_.
         Inr (JObj [(''limit'', limit), (''windowSeconds'', windowSeconds), (''keyBy'', JArr (map (\<lambda>x. JStr (str_of x)) vs))])))
     | _ \<Rightarrow> Inl (Error ''invalid_key_by'')))))"

definition activity_payload :: "(string \<Rightarrow> jnum) \<Rightarrow> (string \<times> jval) list \<Rightarrow> exn + (string \<times> jval) list" where
  "activity_payload lit p =
    bindR (requireGuid (field p ''companyId'') ''company_id'') (\<lambda>companyId.
    bindR (requireGuid (field p ''connectionId'') ''connection_id'') (\<lambda>connectionId.
    bindR (require_int lit 1 100 ''invalid_activity_limit'' (or_default (field p ''limit'') (JNum (NInt 20)))) (\<lambda>limit.
    bindR (requireGuid (field p ''runId'') ''run_id'') (\<lambda>runId.
    bindR (requireToolName (field p ''toolName'') ''tool_name'') (\<lambda>toolName.
    Inr [(''companyId'', companyId), (''connectionId'', connectionId), (''limit'', limit), (''runId'', runId), (''toolName'', toolName)])))))"

definition policy_payload :: "(string \<Rightarrow> jnum) \<Rightarrow> jval \<Rightarrow> (string \<times> jval) list \<Rightarrow> exn + (string \<times> jval) list" where
  "policy_payload lit companyId p =
    bindR (require_text 160 ''invalid_policy_name'' (field p ''name'')) (\<lambda>nm.
    let description = (if nullish (field p ''description'') then JNull else JStr (str_of (field p ''description'')));
        policyType = str_or_empty (field p ''policyType'') in
    bindR (ensure (length (text_of description) \<le> 4000) (Error ''invalid_policy_description'')) (\<lambda>_.
    bindR (ensure (policyType = ''block'' \<or> policyType = ''rate_limit'') (Error ''unsupported_policy_type'')) (\<lambda>_.
    bindR (require_int lit 0 10000 ''invalid_policy_priority'' (or_default (field p ''priority'') (JNum (NInt 100)))) (\<lambda>priority.
    bindR (normalizeSelectors (field p ''selectors'')) (\<lambda>selectors.
    bindR (if policyType = ''rate_limit'' then rate_limit_config lit (field p ''config'')
           else if nullish (field p ''config'') then Inr JNull else Inl (Error ''block_config_not_allowed'')) (\<lambda>config.
    Inr [(''companyId'', companyId), (''name'', nm), (''description'', description), (''policyType'', JStr policyType),
      (''priority'', priority), (''enabled'', JBool True), (''selectors'', selectors), (''conditions'', JNull), (''config'', config)]))))))"

definition test_payload :: "jval \<Rightarrow> (string \<times> jval) list \<Rightarrow> exn + (string \<times> jval) list" where
  "test_payload companyId p =
    bindR (asRecord (field p ''actor'')) (\<lambda>actor.
    bindR (asRecord (field p ''request'')) (\<lambda>request.
    bindR (ensure (str_or_empty (field actor ''actorType'') \<in> set [''agent'', ''user'', ''system'', ''plugin'']) (Error ''invalid_actor_type'')) (\<lambda>_.
    bindR (require_text 240 ''invalid_actor_id'' (field actor ''actorId'')) (\<lambda>_.
    bindR (require_text 240 ''invalid_tool_name'' (field request ''toolName'')) (\<lambda>_.
    bindR (if nullish (field p ''runContext'') then Inr JNull else bindR (asRecord (field p ''runContext'')) (\<lambda>r. Inr (JObj r))) (\<lambda>runContext.
    Inr [(''companyId'', companyId), (''actor'', JObj actor), (''runContext'', runContext), (''request'', JObj request),
      (''consumeRateLimit'', JBool False), (''writeAuditEvent'', JBool False)]))))))"

definition normalizePaperclipSemanticPayload :: "(string \<Rightarrow> jnum) \<Rightarrow> paperclip_op \<Rightarrow> jval \<Rightarrow> exn + (string \<times> jval) list" where
  "normalizePaperclipSemanticPayload lit op v =
    bindR (asRecord (or_default v (JObj []))) (\<lambda>p.
    if op = Task_Drain_Status \<or> op = Task_Drain_Stop then Inr []
    else if op = Task_Drain_Start then
      bindR (require_int lit 1 86400000 ''invalid_ttl_ms'' (field p ''ttlMs'')) (\<lambda>ttlMs. Inr [(''ttlMs'', ttlMs)])
    else if op = Tool_Connection_Activity_Safe then activity_payload lit p
    else bindR (requireGuid (field p ''companyId'') ''company_id'') (\<lambda>companyId.
      if op = Tool_Policies_List then Inr [(''companyId'', companyId)]
      else if op = Tool_Policy_Delete then
        bindR (requireGuid (field p ''policyId'') ''policy_id'') (\<lambda>policyId.
        bindR (require_text 160 ''invalid_expected_name'' (field p ''expectedName'')) (\<lambda>expectedName.
        Inr [(''companyId'', companyId), (''policyId'', policyId), (''expectedName'', expectedName)]))
      else if op = Tool_Policy_Create then policy_payload lit companyId p
      else test_payload companyId p))"

text \<open>\<open>toString("base64url")\<close>: the other two digits, no padding.\<close>

definition b64url_encode :: "string \<Rightarrow> string" where
  "b64url_encode bytes = map (\<lambda>c. if c = CHR ''+'' then CHR ''-'' else if c = slash then CHR ''_'' else c)
     (filter (\<lambda>c. c \<noteq> CHR ''='') (b64_encode bytes))"

definition paperclip_name :: "paperclip_op \<Rightarrow> string" where
  "paperclip_name op = fst (the (List.find (\<lambda>(k, x). x = op) paperclip_names))"

definition paperclipSemanticExecCommand :: "string \<Rightarrow> paperclip_op \<Rightarrow> (string \<times> jval) list \<Rightarrow> exn + string list" where
  "paperclipSemanticExecCommand script op payload =
    (let encoded = b64url_encode (utf8 (json_text (JObj payload))) in
     bindR (ensure (length encoded \<le> 180000) (Error ''paperclip_payload_too_large'')) (\<lambda>_.
     Inr [''node'', ''--import'', ''/app/server/node_modules/tsx/dist/loader.mjs'', ''--input-type=module'', ''-e'', script,
       paperclip_name op, encoded]))"

end
