(* ===== verification/Docker_Proxy.thy ===== *)
theory Docker_Proxy
  imports Docker_Payloads Store_Devices
begin

text \<open>
  \<^verbatim>\<open>src/docker/read-proxy.ts\<close>: the only process that holds the Docker socket. A request it receives becomes a tree of
  the requests it sends to Docker and the reply it gives; \<open>new URL\<close> has split the request's URL into path and
  query. The bytes of a body are the characters of a string and \<open>pw_text\<close> is \<open>toString("utf8")\<close>.
\<close>

section \<open>Configuration\<close>

record proxy_cfg =
  px_allowed :: "string list"
  px_exec :: "string list"
  px_programs :: "string list"
  px_actions :: "string list"
  px_roots :: "string list"
  px_images :: "string list"
  px_networks :: "string list"
  px_names :: "string list"
  px_host_ports :: "int list"
  px_container_ports :: "int list"
  px_postgres :: pinned_config
  px_paperclip :: string
  px_max_bytes :: int

text \<open>The settings of the process, unset ones empty.\<close>

type_synonym settings = "string \<Rightarrow> string option"

definition setting :: "settings \<Rightarrow> string \<Rightarrow> string" where
  "setting s k = coalesce (s k) []"

definition csvSet :: "string \<Rightarrow> string list" where
  "csvSet raw = dedup (csv_items raw)"

definition port_item :: "(string \<Rightarrow> jnum) \<Rightarrow> string \<Rightarrow> exn + int" where
  "port_item lit item = (case int_such (\<lambda>n. 1 \<le> n \<and> n \<le> 65535) (num_of_text lit item) of
     None \<Rightarrow> Inl (Error ''invalid numeric Docker allowlist'') | Some n \<Rightarrow> Inr n)"

definition csvNumberSet :: "(string \<Rightarrow> jnum) \<Rightarrow> string \<Rightarrow> exn + int list" where
  "csvNumberSet lit raw = bindR (mapR (port_item lit) (csv_items raw)) (\<lambda>ns. Inr (dedup ns))"

definition container_re :: "string \<Rightarrow> bool" where
  "container_re s = re_head_class is_alnum (alnum_or ''_.-'') 0 127 s"

text \<open>The checks of the start, in their order; \<open>raw_max\<close> is the number \<open>MAX_PROXY_BYTES\<close> holds.\<close>

definition proxy_config :: "(string \<Rightarrow> jnum) \<Rightarrow> settings \<Rightarrow> int \<Rightarrow> exn + proxy_cfg" where
  "proxy_config lit s raw_max =
    bindR (csvNumberSet lit (setting s ''ALLOWED_DOCKER_CANDIDATE_HOST_PORTS'')) (\<lambda>hostPorts.
    bindR (csvNumberSet lit (setting s ''ALLOWED_DOCKER_CANDIDATE_CONTAINER_PORTS'')) (\<lambda>containerPorts.
    bindR (parsePostgresVerifierAllowlist (setting s ''POSTGRES_READBACK_VERIFIERS'')) (\<lambda>verifiers.
    let allowed = csvSet (setting s ''ALLOWED_DOCKER_CONTAINERS''); container = trim (setting s ''POSTGRES_READBACK_CONTAINER'');
        actions = csvSet (setting s ''ALLOWED_DOCKER_ACTIONS''); paperclip = trim (setting s ''PAPERCLIP_SEMANTIC_CONTAINER'') in
    bindR (ensure (allowed \<noteq> []) (Error ''ALLOWED_DOCKER_CONTAINERS must not be empty'')) (\<lambda>_.
    bindR (ensure ((container = []) = (verifiers = [])) (Error ''incomplete PostgreSQL readback configuration'')) (\<lambda>_.
    bindR (ensure (container = [] \<or> container_re container) (Error ''invalid POSTGRES_READBACK_CONTAINER'')) (\<lambda>_.
    bindR (ensure (container = [] \<or> container \<in> set allowed) (Error ''POSTGRES_READBACK_CONTAINER must be in ALLOWED_DOCKER_CONTAINERS'')) (\<lambda>_.
    bindR (ensure (set actions \<subseteq> {''start'', ''stop'', ''restart'', ''load_image'', ''candidate_run'', ''candidate_remove''})
      (Error ''invalid ALLOWED_DOCKER_ACTIONS'')) (\<lambda>_.
    Inr \<lparr>px_allowed = allowed, px_exec = csvSet (setting s ''ALLOWED_DOCKER_EXEC_CONTAINERS''),
      px_programs = csvSet (setting s ''ALLOWED_DOCKER_EXEC_PROGRAMS''), px_actions = actions,
      px_roots = csvSet (setting s ''ALLOWED_DOCKER_IMAGE_LOAD_ROOTS''), px_images = csvSet (setting s ''ALLOWED_DOCKER_CANDIDATE_IMAGE_PREFIXES''),
      px_networks = csvSet (setting s ''ALLOWED_DOCKER_CANDIDATE_NETWORKS''), px_names = csvSet (setting s ''ALLOWED_DOCKER_CANDIDATE_NAME_PREFIXES''),
      px_host_ports = hostPorts, px_container_ports = containerPorts,
      px_postgres = \<lparr>pc_container = container, pc_execUser = trim (coalesce (s ''POSTGRES_READBACK_EXEC_USER'') ''postgres''),
        pc_dbUser = trim (coalesce (s ''POSTGRES_READBACK_DB_USER'') ''postgres''),
        pc_dbName = trim (coalesce (s ''POSTGRES_READBACK_DB_NAME'') ''postgres''), pc_verifiers = verifiers\<rparr>,
      px_paperclip = (if paperclip = [] then ''wandora-paperclip'' else paperclip),
      px_max_bytes = min (max raw_max 65536) 8388608\<rparr>))))))))"

section \<open>Requests and replies\<close>

record proxy_request =
  rq_method :: string
  rq_path :: string
  rq_query :: "(string \<times> string) list"
  rq_search :: bool
  rq_body :: string

datatype request_body = No_Body | Empty_Body | Json_Body jval | Tar_Body string

datatype docker_req = Docker http_method string request_body

record docker_reply =
  dk_status :: int
  dk_type :: "string option"
  dk_body :: string

datatype proxy_reply = Json_Reply int jval | Raw_Reply int string string | Text_Reply int string string

datatype proxy_run = Reply proxy_reply | Throw exn | Request docker_req "exn + docker_reply \<Rightarrow> proxy_run"

text \<open>What the code takes from its surroundings: \<open>JSON.parse\<close>, UTF-8 decoding, the hash, \<open>fs.realpathSync\<close>, numeric
  literals, \<open>Math.min(Math.max(x, lo), hi)\<close> of a number that is no integer, and the Paperclip script.\<close>

record proxy_world =
  pw_parse :: parser
  pw_text :: "string \<Rightarrow> string"
  pw_sha :: "string \<Rightarrow> string"
  pw_realpath :: "string \<Rightarrow> string option"
  pw_lit :: "string \<Rightarrow> jnum"
  pw_clamp :: "int \<Rightarrow> int \<Rightarrow> string \<Rightarrow> jnum"
  pw_script :: string

definition jsonError :: "int \<Rightarrow> string \<Rightarrow> proxy_run" where
  "jsonError status num = Reply (Json_Reply status (JObj [(''error'', JStr num)]))"

text \<open>\<open>dockerRequest\<close> and \<open>dockerFileRequest\<close> with what follows: a failed or too large answer throws.\<close>

definition dockerRequest :: "proxy_cfg \<Rightarrow> docker_req \<Rightarrow> (docker_reply \<Rightarrow> proxy_run) \<Rightarrow> proxy_run" where
  "dockerRequest cfg q k = Request q (\<lambda>a. case a of
     Inl e \<Rightarrow> Throw e
   | Inr u \<Rightarrow> if px_max_bytes cfg < int (length (dk_body u)) then Throw (Error ''upstream_response_too_large'') else k u)"

text \<open>\<open>try { ... } catch (e) { ... }\<close> around a run, and an exception or a value before it.\<close>

primrec catch_run :: "(exn \<Rightarrow> proxy_run) \<Rightarrow> proxy_run \<Rightarrow> proxy_run" where
  "catch_run h (Reply r) = Reply r"
| "catch_run h (Throw e) = h e"
| "catch_run h (Request q k) = Request q (\<lambda>a. catch_run h (k a))"

definition run_with :: "exn + 'a \<Rightarrow> ('a \<Rightarrow> proxy_run) \<Rightarrow> proxy_run" where
  "run_with r f = (case r of Inl e \<Rightarrow> Throw e | Inr x \<Rightarrow> f x)"

definition body_json :: "proxy_world \<Rightarrow> nat \<Rightarrow> proxy_request \<Rightarrow> jval option" where
  "body_json w hi rq = (if hi < length (rq_body rq) then None
     else (let s = pw_text w (rq_body rq) in pw_parse w (if s = [] then ''{}'' else s)))"

text \<open>The \<open>Id\<close> of a reply, empty when there is none, and the \<open>ExitCode\<close>, 1 when there is none.\<close>

definition reply_json :: "proxy_world \<Rightarrow> docker_reply \<Rightarrow> string \<Rightarrow> jval" where
  "reply_json w u k = (case pw_parse w (pw_text w (dk_body u)) of None \<Rightarrow> JUndef | Some v \<Rightarrow> attr v k)"

definition is_docker_id :: "string \<Rightarrow> bool" where
  "is_docker_id s = re_class hex_any 12 64 s"

definition send_raw :: "docker_reply \<Rightarrow> proxy_run" where
  "send_raw u = Reply (Raw_Reply (dk_status u) (dk_body u) ''application/json'')"

definition send_typed :: "docker_reply \<Rightarrow> proxy_run" where
  "send_typed u = Reply (Raw_Reply (dk_status u) (dk_body u) (coalesce (dk_type u) ''application/json''))"

definition send_text :: "proxy_world \<Rightarrow> string \<Rightarrow> docker_reply \<Rightarrow> proxy_run" where
  "send_text w type u = Reply (Text_Reply (dk_status u) (pw_text w (dk_body u)) (coalesce (dk_type u) type))"

section \<open>Checks\<close>

definition allowedPrefix :: "string list \<Rightarrow> string \<Rightarrow> bool" where
  "allowedPrefix ps v = list_ex (\<lambda>p. p = ''*'' \<or> starts_with v p) ps"

definition cleanImageRef :: "jval \<Rightarrow> string option" where
  "cleanImageRef v = (let s = str_or_empty v in if re_head_class is_alnum (alnum_or ''_./:@+-'') 0 199 s then Some s else None)"

definition cleanPort :: "(string \<Rightarrow> jnum) \<Rightarrow> jval \<Rightarrow> int option" where
  "cleanPort lit v = int_such (\<lambda>n. 1 \<le> n \<and> n \<le> 65535) (num_of lit v)"

fun under_roots :: "(string \<Rightarrow> string option) \<Rightarrow> string list \<Rightarrow> string \<Rightarrow> bool" where
  "under_roots realpath [] real = False"
| "under_roots realpath (r # rs) real = (case realpath r of
     None \<Rightarrow> under_roots realpath rs real
   | Some root \<Rightarrow> (let base = strip_slashes root in
       real = base \<or> starts_with real (base @ ''/'') \<or> under_roots realpath rs real))"

definition cleanAllowedLoadPath :: "proxy_cfg \<Rightarrow> (string \<Rightarrow> string option) \<Rightarrow> jval \<Rightarrow> string option" where
  "cleanAllowedLoadPath cfg realpath v = (let raw = str_or_empty v in
     if \<not> starts_with raw ''/'' \<or> has_nul_cr_lf raw \<or> ''..'' \<in> set (segs raw) \<or> denySecretPath raw \<or> \<not> ends_with raw ''.tar'' then None
     else (case realpath raw of
         None \<Rightarrow> None
       | Some real \<Rightarrow>
          if denySecretPath real \<or> \<not> ends_with real ''.tar'' then None
          else if under_roots realpath (px_roots cfg) real then Some real else None))"

text \<open>\<open>pathname.replace(/^\/v\d+(?:\.\d+)?/, "") || "/"\<close>\<close>

definition stripApiVersion :: "string \<Rightarrow> string" where
  "stripApiVersion p =
    (let digits = takeWhile is_digit (drop 2 p); after = drop (2 + length digits) p;
         fraction = takeWhile is_digit (drop 1 after);
         rest = (if \<not> starts_with p ''/v'' \<or> digits = [] then p
                 else if starts_with after ''.'' \<and> fraction \<noteq> [] then drop (1 + length fraction) after else after)
     in if rest = [] then ''/'' else rest)"

text \<open>\<open>decodeURIComponent\<close>: a sequence of two bytes is a character above 127; a longer one is a character the model's
  strings do not have, which no caller accepts.\<close>

definition hex_value :: "char \<Rightarrow> nat" where
  "hex_value c = (if is_digit c then code c - 48 else if is_lower c then code c - 87 else code c - 55)"

definition percent_byte :: "string \<Rightarrow> nat option" where
  "percent_byte s = (case s of
     p # a # b # rest \<Rightarrow> if p = CHR ''%'' \<and> hex_any a \<and> hex_any b then Some (16 * hex_value a + hex_value b) else None
   | _ \<Rightarrow> None)"

function decodeURIComponent :: "string \<Rightarrow> string option" where
  "decodeURIComponent s = (case s of
     [] \<Rightarrow> Some []
   | c # cs \<Rightarrow>
      if c \<noteq> CHR ''%'' then map_option (Cons c) (decodeURIComponent cs)
      else (case percent_byte s of
          None \<Rightarrow> None
        | Some v \<Rightarrow>
           if v < 128 then map_option (Cons (char_of v)) (decodeURIComponent (drop 3 s))
           else (case percent_byte (drop 3 s) of
               None \<Rightarrow> None
             | Some v' \<Rightarrow>
                if v \<in> {194, 195} \<and> 128 \<le> v' \<and> v' < 192
                then map_option (Cons (char_of ((v - 192) * 64 + (v' - 128)))) (decodeURIComponent (drop 6 s)) else None)))"
  by pat_completeness auto
termination by (relation "measure length") auto

declare decodeURIComponent.simps [simp del]

definition cleanContainerRef :: "string \<Rightarrow> string option" where
  "cleanContainerRef ref = (case decodeURIComponent ref of None \<Rightarrow> None | Some r \<Rightarrow> if container_re r then Some r else None)"

definition cleanProgram :: "jval \<Rightarrow> string option" where
  "cleanProgram v = (let p = str_or_empty v in if re_program p then Some p else None)"

fun clean_items :: "jval list \<Rightarrow> string list option" where
  "clean_items [] = Some []"
| "clean_items (x # xs) = (let s = str_or_empty x in
     if 16384 < utf8_length s \<or> has_nul_cr_lf s then None else map_option (Cons s) (clean_items xs))"

definition cleanArgs :: "jval \<Rightarrow> string list option" where
  "cleanArgs v = (case v of JArr xs \<Rightarrow> if 80 < length xs then None else clean_items xs | _ \<Rightarrow> None)"

text \<open>An item of the inventory that carries a name of the scope.\<close>

definition plain_name :: "string \<Rightarrow> string" where
  "plain_name n = (case n of c # cs \<Rightarrow> if c = slash then cs else n | [] \<Rightarrow> [])"

definition named_in :: "string list \<Rightarrow> jval \<Rightarrow> bool" where
  "named_in scope item = (case attr item ''Names'' of
     JArr ns \<Rightarrow> list_ex (\<lambda>n. case n of JStr s \<Rightarrow> plain_name s \<in> set scope | _ \<Rightarrow> False) ns | _ \<Rightarrow> False)"

definition inventory_id :: "jval \<Rightarrow> string" where
  "inventory_id item = text_of (attr item ''Id'')"

fun listed :: "string list \<Rightarrow> string \<Rightarrow> jval list \<Rightarrow> exn + bool" where
  "listed scope ref [] = Inr False"
| "listed scope ref (item # items) = bindR (get item ''Id'') (\<lambda>_.
     if starts_with (inventory_id item) ref \<and> named_in scope item then Inr True else listed scope ref items)"

definition inventory :: docker_req where
  "inventory = Docker GET ''/containers/json?all=1'' No_Body"

definition resolveAllowedContainerRef :: "proxy_world \<Rightarrow> proxy_cfg \<Rightarrow> string \<Rightarrow> string list \<Rightarrow> (string option \<Rightarrow> proxy_run) \<Rightarrow> proxy_run" where
  "resolveAllowedContainerRef w cfg rawRef scope k = (case cleanContainerRef rawRef of
     None \<Rightarrow> k None
   | Some ref \<Rightarrow>
      if ref \<in> set scope then k (Some ref)
      else if \<not> is_docker_id ref then k None
      else dockerRequest cfg inventory (\<lambda>u.
        if dk_status u \<noteq> 200 then k None
        else (case pw_parse w (pw_text w (dk_body u)) of
            Some (JArr items) \<Rightarrow> run_with (listed scope ref items) (\<lambda>b. k (if b then Some ref else None))
          | _ \<Rightarrow> k None)))"

definition allowedQuery :: "proxy_request \<Rightarrow> string list \<Rightarrow> bool" where
  "allowedQuery rq ks = list_all (\<lambda>(k, v). k \<in> set ks) (rq_query rq)"

section \<open>Docker's stream format\<close>

definition be32 :: "string \<Rightarrow> nat" where
  "be32 s = foldl (\<lambda>n c. 256 * n + code c) 0 s"

function frames :: "string \<Rightarrow> (nat \<times> string) list" where
  "frames b = (let n = be32 (take 4 (drop 4 b)) in
     if length b < 8 \<or> length b < 8 + n then [] else (code (b ! 0), take n (drop 8 b)) # frames (drop (8 + n) b))"
  by pat_completeness auto
termination by (relation "measure length") auto

declare frames.simps [simp del]

definition demuxDockerStream :: "(string \<Rightarrow> string) \<Rightarrow> string \<Rightarrow> (string \<times> jval) list" where
  "demuxDockerStream text b = (let fs = frames b in
     [(''stdout'', JStr (if fs = [] then text b else concat (map (\<lambda>(n, x). if n = 2 then [] else text x) fs))),
      (''stderr'', JStr (concat (map (\<lambda>(n, x). if n = 2 then text x else []) fs))), (''truncated'', JBool False)])"

section \<open>Commands inside a container\<close>

definition exec_body :: "(string \<times> jval) list \<Rightarrow> string list \<Rightarrow> jval" where
  "exec_body extra cmd = JObj ([(''AttachStdout'', JBool True), (''AttachStderr'', JBool True), (''AttachStdin'', JBool False),
     (''Tty'', JBool False)] @ extra @ [(''Cmd'', JArr (map JStr cmd))])"

definition container_path :: "string \<Rightarrow> string \<Rightarrow> string" where
  "container_path ref rest = ''/containers/'' @ encodeURIComponent ref @ rest"

definition exec_path :: "string \<Rightarrow> string \<Rightarrow> string" where
  "exec_path i rest = ''/exec/'' @ i @ rest"

definition exit_code_of :: "proxy_world \<Rightarrow> docker_reply \<Rightarrow> jval" where
  "exit_code_of w u = (if dk_status u = 200 then (case reply_json w u ''ExitCode'' of JNum n \<Rightarrow> JNum n | _ \<Rightarrow> JNum (NInt 1)) else JNum (NInt 1))"

text \<open>Create, start and inspect, the same lines in three handlers; \<open>extra\<close> are further fields of the reply.\<close>

definition run_exec :: "proxy_world \<Rightarrow> proxy_cfg \<Rightarrow> string \<Rightarrow> jval \<Rightarrow> (string \<times> jval) list \<Rightarrow> proxy_run" where
  "run_exec w cfg container body extra =
    dockerRequest cfg (Docker POST (container_path container ''/exec'') (Json_Body body)) (\<lambda>created.
    if dk_status created \<noteq> 201 then send_raw created
    else (let i = str_or_empty (reply_json w created ''Id'') in
      if \<not> is_docker_id i then jsonError 502 ''invalid_exec_id''
      else dockerRequest cfg (Docker POST (exec_path i ''/start'') (Json_Body (JObj [(''Detach'', JBool False), (''Tty'', JBool False)]))) (\<lambda>started.
        if dk_status started \<noteq> 200 then send_typed started
        else dockerRequest cfg (Docker GET (exec_path i ''/json'') No_Body) (\<lambda>inspected.
          Reply (Json_Reply 200 (JObj ([(''code'', exit_code_of w inspected)] @ extra @ demuxDockerStream (pw_text w) (dk_body started))))))))"

section \<open>Handlers\<close>

text \<open>A handler that does not know the path leaves the request to the next one: \<open>None\<close>.\<close>

definition postgres_status :: "string \<Rightarrow> int" where
  "postgres_status m = (if sublist ''not_allowed'' m \<or> sublist ''hash_mismatch'' m then 403 else 400)"

definition handlePostgresPinnedReadback :: "proxy_world \<Rightarrow> proxy_cfg \<Rightarrow> proxy_request \<Rightarrow> string \<Rightarrow> proxy_run option" where
  "handlePostgresPinnedReadback w cfg rq path =
    (if path \<noteq> ''/ops/postgres/pinned-verifier'' then None
     else Some (let pg = px_postgres cfg in
       if rq_method rq \<noteq> ''POST'' then jsonError 405 ''method_not_allowed''
       else if pc_container pg = [] \<or> pc_verifiers pg = [] then jsonError 403 ''postgres_readback_not_configured''
       else (case body_json w 163840 rq of
           None \<Rightarrow> jsonError 400 ''invalid_json''
         | Some raw \<Rightarrow> catch_run (\<lambda>e. jsonError (postgres_status (exn_text e)) (exn_text e))
             (run_with (bindR (normalizePostgresPinnedReadbackPayload raw) (buildPostgresPinnedReadbackExec (pw_sha w) pg)) (\<lambda>spec.
               run_exec w cfg (px_container spec)
                 (exec_body [(''User'', JStr (px_execUser spec)), (''Env'', JArr (map JStr (px_env spec)))] (px_cmd spec))
                 [(''verifier_id'', JStr (px_verifierId spec)), (''sha256'', JStr (px_sha256 spec))])))))"

definition paperclip_path :: "string \<Rightarrow> paperclip_op option" where
  "paperclip_path path = (if starts_with path ''/ops/paperclip/'' then map_of paperclip_names (drop 15 path) else None)"

definition handlePaperclipSemantic :: "proxy_world \<Rightarrow> proxy_cfg \<Rightarrow> proxy_request \<Rightarrow> string \<Rightarrow> proxy_run option" where
  "handlePaperclipSemantic w cfg rq path = (case paperclip_path path of
     None \<Rightarrow> None
   | Some op \<Rightarrow> Some (
       if rq_method rq \<noteq> ''POST'' then jsonError 405 ''method_not_allowed''
       else if px_paperclip cfg \<notin> set (px_allowed cfg) \<or> px_paperclip cfg \<notin> set (px_exec cfg)
       then jsonError 403 ''paperclip_semantic_container_not_allowed''
       else (case body_json w 131072 rq of
           None \<Rightarrow> jsonError 400 ''invalid_json''
         | Some raw \<Rightarrow> (case normalizePaperclipSemanticPayload (pw_lit w) op raw of
               Inl e \<Rightarrow> jsonError 400 (exn_text e)
             | Inr payload \<Rightarrow> run_with (paperclipSemanticExecCommand (pw_script w) op payload) (\<lambda>cmd.
                 run_exec w cfg (px_paperclip cfg) (exec_body [] cmd) [])))))"

definition proxy_load_image :: "proxy_world \<Rightarrow> proxy_cfg \<Rightarrow> jval \<Rightarrow> proxy_run" where
  "proxy_load_image w cfg payload = run_with (get payload ''path'') (\<lambda>p.
    case cleanAllowedLoadPath cfg (pw_realpath w) p of
      None \<Rightarrow> jsonError 403 ''image_load_path_not_allowed''
    | Some filePath \<Rightarrow>
       if px_roots cfg = [] then jsonError 403 ''image_load_path_not_allowed''
       else dockerRequest cfg (Docker POST ''/images/load?quiet=1'' (Tar_Body filePath)) (\<lambda>u.
         if dk_status u \<noteq> 200 then send_typed u
         else Reply (Json_Reply 200 (JObj [(''status'', JStr ''ok''), (''path'', JStr (last_seg filePath)),
           (''docker_output'', JStr (take (nat (px_max_bytes cfg)) (pw_text w (dk_body u))))]))))"

definition candidate_body :: "string \<Rightarrow> string \<Rightarrow> int \<Rightarrow> int \<Rightarrow> jval" where
  "candidate_body img network hostPort containerPort = (let portKey = int_text containerPort @ ''/tcp'' in
     JObj [(''Image'', JStr img), (''ExposedPorts'', JObj [(portKey, JObj [])]),
       (''HostConfig'', JObj [(''NetworkMode'', JStr network),
         (''PortBindings'', JObj [(portKey, JArr [JObj [(''HostIp'', JStr ''127.0.0.1''), (''HostPort'', JStr (int_text hostPort))]])]),
         (''RestartPolicy'', JObj [(''Name'', JStr ''no''), (''MaximumRetryCount'', JNum (NInt 0))]),
         (''Privileged'', JBool False), (''ReadonlyRootfs'', JBool False)])])"

definition create_path :: "string \<Rightarrow> string" where
  "create_path name = ''/containers/create?name='' @ encodeURIComponent name"

definition id_path :: "string \<Rightarrow> string \<Rightarrow> string" where
  "id_path i rest = ''/containers/'' @ i @ rest"

definition start_candidate :: "proxy_world \<Rightarrow> proxy_cfg \<Rightarrow> string \<Rightarrow> string \<Rightarrow> string \<Rightarrow> int \<Rightarrow> int \<Rightarrow> proxy_run" where
  "start_candidate w cfg name img network hostPort containerPort =
    dockerRequest cfg (Docker POST (create_path name)
        (Json_Body (candidate_body img network hostPort containerPort))) (\<lambda>created.
    if dk_status created \<noteq> 201 then send_raw created
    else (let i = str_or_empty (reply_json w created ''Id'') in
      if \<not> is_docker_id i then jsonError 502 ''invalid_container_id''
      else dockerRequest cfg (Docker POST (id_path i ''/start'') Empty_Body) (\<lambda>started.
        if dk_status started \<noteq> 204
        then Request (Docker DELETE (id_path i ''?force=1&v=1'') No_Body) (\<lambda>_. send_raw started)
        else Reply (Json_Reply 200 (JObj [(''status'', JStr ''started''), (''id'', JStr i), (''name'', JStr name),
          (''image'', JStr img), (''network'', JStr network), (''hostIp'', JStr ''127.0.0.1''),
          (''hostPort'', JNum (NInt hostPort)), (''containerPort'', JNum (NInt containerPort))])))))"

definition run_candidate :: "proxy_world \<Rightarrow> proxy_cfg \<Rightarrow> jval \<Rightarrow> proxy_run" where
  "run_candidate w cfg payload = run_with (get payload ''name'') (\<lambda>raw_name.
    case cleanContainerRef (str_or_empty raw_name) of
      None \<Rightarrow> jsonError 403 ''candidate_name_not_allowed''
    | Some name \<Rightarrow>
       if \<not> allowedPrefix (px_names cfg) name then jsonError 403 ''candidate_name_not_allowed''
       else (case cleanImageRef (attr payload ''image'') of
           None \<Rightarrow> jsonError 403 ''candidate_image_not_allowed''
         | Some img \<Rightarrow>
            if \<not> allowedPrefix (px_images cfg) img then jsonError 403 ''candidate_image_not_allowed''
            else (case cleanContainerRef (str_or_empty (attr payload ''network'')) of
                None \<Rightarrow> jsonError 403 ''candidate_network_not_allowed''
              | Some network \<Rightarrow>
                 if network \<notin> set (px_networks cfg) then jsonError 403 ''candidate_network_not_allowed''
                 else (case cleanPort (pw_lit w) (attr payload ''hostPort'') of
                     None \<Rightarrow> jsonError 403 ''candidate_host_port_not_allowed''
                   | Some hostPort \<Rightarrow>
                      if hostPort \<notin> set (px_host_ports cfg) then jsonError 403 ''candidate_host_port_not_allowed''
                      else (case cleanPort (pw_lit w) (attr payload ''containerPort'') of
                          None \<Rightarrow> jsonError 403 ''candidate_container_port_not_allowed''
                        | Some containerPort \<Rightarrow>
                           if containerPort \<notin> set (px_container_ports cfg) then jsonError 403 ''candidate_container_port_not_allowed''
                           else start_candidate w cfg name img network hostPort containerPort)))))"

definition remove_candidate :: "proxy_cfg \<Rightarrow> string \<Rightarrow> proxy_run" where
  "remove_candidate cfg rawRef = (case cleanContainerRef rawRef of
     None \<Rightarrow> jsonError 403 ''candidate_name_not_allowed''
   | Some name \<Rightarrow>
      if \<not> allowedPrefix (px_names cfg) name then jsonError 403 ''candidate_name_not_allowed''
      else dockerRequest cfg (Docker DELETE (container_path name ''?force=1&v=1'') No_Body) (\<lambda>u.
        if dk_status u = 404 then Reply (Json_Reply 200 (JObj [(''status'', JStr ''absent''), (''name'', JStr name), (''removed'', JBool False)]))
        else if dk_status u \<noteq> 204 then send_raw u
        else Reply (Json_Reply 200 (JObj [(''status'', JStr ''removed''), (''name'', JStr name), (''removed'', JBool True)]))))"

definition exec_program :: "proxy_world \<Rightarrow> proxy_cfg \<Rightarrow> string \<Rightarrow> jval \<Rightarrow> proxy_run" where
  "exec_program w cfg ref payload = run_with (get payload ''program'') (\<lambda>p.
    case (cleanProgram p, cleanArgs (attr payload ''argv'')) of
      (Some program, Some argv) \<Rightarrow>
        if program \<notin> set (px_programs cfg) then jsonError 403 ''program_not_allowed''
        else run_exec w cfg ref (exec_body [] (program # argv)) []
    | _ \<Rightarrow> jsonError 400 ''invalid_exec'')"

definition exec_container :: "proxy_world \<Rightarrow> proxy_cfg \<Rightarrow> proxy_request \<Rightarrow> string \<Rightarrow> proxy_run" where
  "exec_container w cfg rq rawRef = resolveAllowedContainerRef w cfg rawRef (px_exec cfg) (\<lambda>found. case found of
     None \<Rightarrow> jsonError 403 ''container_exec_not_allowed''
   | Some ref \<Rightarrow>
      if ref \<notin> set (px_allowed cfg) then jsonError 403 ''container_exec_not_allowed''
      else (case body_json w 131072 rq of None \<Rightarrow> jsonError 400 ''invalid_json'' | Some payload \<Rightarrow> exec_program w cfg ref payload))"

definition action_suffix :: "string \<Rightarrow> string" where
  "action_suffix action = ''/'' @ action @ (if action = ''stop'' \<or> action = ''restart'' then ''?t=15'' else [])"

definition act_on_container :: "proxy_world \<Rightarrow> proxy_cfg \<Rightarrow> string \<Rightarrow> string \<Rightarrow> proxy_run" where
  "act_on_container w cfg rawRef action =
    (if action \<notin> set (px_actions cfg) then jsonError 403 ''docker_action_not_allowed''
     else resolveAllowedContainerRef w cfg rawRef (px_allowed cfg) (\<lambda>found. case found of
         None \<Rightarrow> jsonError 403 ''container_not_allowed''
       | Some ref \<Rightarrow> dockerRequest cfg (Docker POST (container_path ref (action_suffix action)) No_Body) (\<lambda>u.
           if dk_status u \<notin> {204, 304} then send_raw u
           else Reply (Json_Reply 200 (JObj [(''container'', JStr ref), (''action'', JStr action), (''status'', JStr ''ok'')])))))"

definition with_body :: "proxy_world \<Rightarrow> proxy_request \<Rightarrow> (jval \<Rightarrow> proxy_run) \<Rightarrow> proxy_run" where
  "with_body w rq k = (case body_json w 131072 rq of None \<Rightarrow> jsonError 400 ''invalid_json'' | Some payload \<Rightarrow> k payload)"

text \<open>The three routes with a reference in their path; \<open>[^/]+\<close> is a segment that is not empty.\<close>

definition handleOperator :: "proxy_world \<Rightarrow> proxy_cfg \<Rightarrow> proxy_request \<Rightarrow> string \<Rightarrow> proxy_run option" where
  "handleOperator w cfg rq path =
    (let post = (\<lambda>k. Some (if rq_method rq \<noteq> ''POST'' then jsonError 405 ''method_not_allowed'' else k)) in
     if path = ''/ops/images/load'' then post (with_body w rq (proxy_load_image w cfg))
     else if path = ''/ops/candidates/run'' then post (with_body w rq (run_candidate w cfg))
     else (case segs path of
         [e, ops, kind, ref, verb] \<Rightarrow>
           if e \<noteq> [] \<or> ops \<noteq> ''ops'' \<or> ref = [] then None
           else if kind = ''candidates'' \<and> verb = ''remove'' then post (remove_candidate cfg ref)
           else if kind = ''containers'' \<and> verb = ''exec'' then post (exec_container w cfg rq ref)
           else if kind = ''containers'' \<and> verb \<in> {''start'', ''stop'', ''restart''} then post (act_on_container w cfg ref verb)
           else None
       | _ \<Rightarrow> None))"

section \<open>Reading\<close>

definition clamp_number :: "proxy_world \<Rightarrow> int \<Rightarrow> int \<Rightarrow> jnum \<Rightarrow> jnum" where
  "clamp_number w lo hi n = (case n of NInt i \<Rightarrow> NInt (min (max i lo) hi) | NOther s \<Rightarrow> pw_clamp w lo hi s)"

text \<open>\<open>Math.min(Math.max(Number(text) || d, lo), hi)\<close>\<close>

definition bounded_number :: "proxy_world \<Rightarrow> int \<Rightarrow> int \<Rightarrow> int \<Rightarrow> string \<Rightarrow> string" where
  "bounded_number w d lo hi s = (let n = num_of_text (pw_lit w) s in
     num_text (clamp_number w lo hi (if n \<in> {NInt 0, NaN} then NInt d else n)))"

definition param :: "proxy_request \<Rightarrow> string \<Rightarrow> string option" where
  "param rq k = map_of (rq_query rq) k"

definition flag :: "bool \<Rightarrow> string" where "flag b = (if b then ''1'' else ''0'')"

definition query_text :: "(string \<times> string) list \<Rightarrow> string" where
  "query_text ps = join ''&'' (map (\<lambda>(k, v). k @ ''='' @ v) ps)"

fun named_items :: "string list \<Rightarrow> jval list \<Rightarrow> exn + jval list" where
  "named_items scope [] = Inr []"
| "named_items scope (item # items) = bindR (get item ''Names'') (\<lambda>_. bindR (named_items scope items) (\<lambda>out.
     Inr (if named_in scope item then item # out else out)))"

definition list_path :: "(string \<times> string) list \<Rightarrow> string" where
  "list_path q = ''/containers/json?'' @ query_text q"

definition list_containers :: "proxy_world \<Rightarrow> proxy_cfg \<Rightarrow> proxy_request \<Rightarrow> proxy_run" where
  "list_containers w cfg rq =
    (if \<not> allowedQuery rq [''all'', ''limit'', ''size'', ''filters''] then jsonError 400 ''query_not_allowed''
     else (let q = [(''all'', flag (param rq ''all'' = Some ''1''))] @
             (case param rq ''limit'' of None \<Rightarrow> [] | Some v \<Rightarrow> [(''limit'', bounded_number w 0 0 100 v)]) @
             (case param rq ''size'' of None \<Rightarrow> [] | Some v \<Rightarrow> [(''size'', flag (v = ''1''))]) in
       dockerRequest cfg (Docker GET (list_path q) No_Body) (\<lambda>u.
         if dk_status u \<noteq> 200 then send_text w ''application/json'' u
         else (case pw_parse w (pw_text w (dk_body u)) of
             None \<Rightarrow> jsonError 502 ''invalid_upstream_json''
           | Some (JArr items) \<Rightarrow> run_with (named_items (px_allowed cfg) items) (\<lambda>out. Reply (Json_Reply 200 (JArr out)))
           | Some _ \<Rightarrow> jsonError 502 ''invalid_upstream_shape''))))"

text \<open>\<open>/^\d+(?:\.\d+)?$/\<close>\<close>

definition is_decimal :: "string \<Rightarrow> bool" where
  "is_decimal s = (case split_on (CHR ''.'') s of
     [a] \<Rightarrow> a \<noteq> [] \<and> list_all is_digit a
   | [a, b] \<Rightarrow> a \<noteq> [] \<and> list_all is_digit a \<and> b \<noteq> [] \<and> list_all is_digit b
   | _ \<Rightarrow> False)"

definition time_param :: "proxy_request \<Rightarrow> string \<Rightarrow> (string \<times> string) list" where
  "time_param rq k = (case param rq k of None \<Rightarrow> [] | Some v \<Rightarrow> if is_decimal v then [(k, v)] else [])"

definition log_query :: "proxy_world \<Rightarrow> proxy_request \<Rightarrow> (string \<times> string) list" where
  "log_query w rq =
    [(''stdout'', flag (param rq ''stdout'' \<noteq> Some ''0'')), (''stderr'', flag (param rq ''stderr'' \<noteq> Some ''0'')),
     (''timestamps'', flag (param rq ''timestamps'' = Some ''1'')),
     (''tail'', bounded_number w 100 1 500 (coalesce (param rq ''tail'') ''100''))] @ time_param rq ''since'' @ time_param rq ''until''"

definition logs_suffix :: "(string \<times> string) list \<Rightarrow> string" where
  "logs_suffix q = ''/logs?'' @ query_text q"

definition read_container :: "proxy_world \<Rightarrow> proxy_cfg \<Rightarrow> proxy_request \<Rightarrow> string \<Rightarrow> string \<Rightarrow> proxy_run" where
  "read_container w cfg rq rawRef what = resolveAllowedContainerRef w cfg rawRef (px_allowed cfg) (\<lambda>found. case found of
     None \<Rightarrow> jsonError 403 ''container_not_allowed''
   | Some ref \<Rightarrow>
      if what = ''json'' then
        (if rq_search rq then jsonError 400 ''query_not_allowed''
         else dockerRequest cfg (Docker GET (container_path ref ''/json'') No_Body) (send_text w ''application/json''))
      else if \<not> allowedQuery rq [''stdout'', ''stderr'', ''timestamps'', ''tail'', ''since'', ''until''] then jsonError 400 ''query_not_allowed''
      else dockerRequest cfg (Docker GET (container_path ref (logs_suffix (log_query w rq))) No_Body) (\<lambda>u.
        Reply (Raw_Reply (dk_status u) (dk_body u) (coalesce (dk_type u) ''application/octet-stream''))))"

definition count :: "'a list \<Rightarrow> jval" where "count xs = JNum (NInt (int (length xs)))"
definition texts :: "string list \<Rightarrow> jval" where "texts xs = JArr (map JStr xs)"
definition numbers :: "int list \<Rightarrow> jval" where "numbers ns = JArr (map (\<lambda>n. JNum (NInt n)) ns)"

definition health :: "proxy_cfg \<Rightarrow> jval" where
  "health cfg = (let pg = px_postgres cfg in JObj
    [(''status'', JStr ''ok''), (''allowed_containers'', count (px_allowed cfg)), (''exec_containers'', count (px_exec cfg)),
     (''exec_programs'', count (px_programs cfg)), (''docker_actions'', texts (px_actions cfg)), (''image_load_roots'', count (px_roots cfg)),
     (''candidate_image_prefixes'', count (px_images cfg)), (''candidate_networks'', texts (px_networks cfg)),
     (''candidate_name_prefixes'', texts (px_names cfg)), (''candidate_host_ports'', numbers (px_host_ports cfg)),
     (''candidate_container_ports'', numbers (px_container_ports cfg)),
     (''postgres_readback_configured'', JBool (pc_container pg \<noteq> [] \<and> pc_verifiers pg \<noteq> [])),
     (''postgres_verifiers'', texts (map fst (pc_verifiers pg)))])"

definition plain_read :: "proxy_world \<Rightarrow> proxy_cfg \<Rightarrow> proxy_request \<Rightarrow> string \<Rightarrow> string \<Rightarrow> proxy_run" where
  "plain_read w cfg rq path type = (if rq_search rq then jsonError 400 ''query_not_allowed''
     else dockerRequest cfg (Docker GET path No_Body) (send_text w type))"

definition handle_get :: "proxy_world \<Rightarrow> proxy_cfg \<Rightarrow> proxy_request \<Rightarrow> string \<Rightarrow> proxy_run" where
  "handle_get w cfg rq path =
    (if rq_method rq \<noteq> ''GET'' then jsonError 405 ''method_not_allowed''
     else if path = ''/healthz'' then Reply (Json_Reply 200 (health cfg))
     else if path = ''/_ping'' then plain_read w cfg rq path ''text/plain''
     else if path = ''/version'' then plain_read w cfg rq path ''application/json''
     else if path = ''/containers/json'' then list_containers w cfg rq
     else (case segs path of
         [e, cs, ref, what] \<Rightarrow>
           if e = [] \<and> cs = ''containers'' \<and> ref \<noteq> [] \<and> what \<in> {''json'', ''logs''} then read_container w cfg rq ref what
           else jsonError 404 ''not_allowed''
       | _ \<Rightarrow> jsonError 404 ''not_allowed''))"

definition handle :: "proxy_world \<Rightarrow> proxy_cfg \<Rightarrow> proxy_request \<Rightarrow> proxy_run" where
  "handle w cfg rq = (let path = stripApiVersion (rq_path rq) in
     case handlePostgresPinnedReadback w cfg rq path of Some r \<Rightarrow> r | None \<Rightarrow>
    (case handlePaperclipSemantic w cfg rq path of Some r \<Rightarrow> r | None \<Rightarrow>
    (case handleOperator w cfg rq path of Some r \<Rightarrow> r | None \<Rightarrow> handle_get w cfg rq path)))"

text \<open>The server answers an exception with 502.\<close>

definition serve :: "proxy_world \<Rightarrow> proxy_cfg \<Rightarrow> proxy_request \<Rightarrow> proxy_run" where
  "serve w cfg rq = catch_run (\<lambda>_. jsonError 502 ''upstream_error'') (handle w cfg rq)"

end
