(* ===== verification/Docker_Properties.thy ===== *)
theory Docker_Properties
  imports Docker_Proxy
begin

text \<open>
  What the Docker proxy (\<^verbatim>\<open>src/docker/read-proxy.ts\<close>) can make Docker do, whatever it is asked and whatever Docker answers;
  what it shows of the inventory; how a command of an agent passes it; and Docker's stream format.
\<close>

section \<open>Histories\<close>

type_synonym history = "(docker_req \<times> (exn + docker_reply)) list"

text \<open>\<open>asks P h r\<close>: whatever Docker answers, the run \<open>r\<close> after the exchanges \<open>h\<close> sends only what \<open>P\<close> allows.\<close>

primrec asks :: "(history \<Rightarrow> docker_req \<Rightarrow> bool) \<Rightarrow> history \<Rightarrow> proxy_run \<Rightarrow> bool" where
  "asks P h (Reply r) = True"
| "asks P h (Throw e) = True"
| "asks P h (Request q k) = (P h q \<and> (\<forall>a. asks P (h @ [(q, a)]) (k a)))"

text \<open>A container that a scope names, or an id that an inventory of this run lists under such a name.\<close>

definition visible :: "proxy_world \<Rightarrow> history \<Rightarrow> string list \<Rightarrow> string \<Rightarrow> bool" where
  "visible w h scope ref = (container_re ref \<and> (ref \<in> set scope \<or>
     is_docker_id ref \<and> (\<exists>u items item. (inventory, Inr u) \<in> set h \<and> dk_status u = 200 \<and>
       pw_parse w (pw_text w (dk_body u)) = Some (JArr items) \<and> item \<in> set items \<and>
       starts_with (inventory_id item) ref \<and> named_in scope item)))"

text \<open>An id that Docker gave in this run for what was created by a POST to \<open>path\<close>.\<close>

definition created :: "proxy_world \<Rightarrow> history \<Rightarrow> (string \<Rightarrow> bool) \<Rightarrow> string \<Rightarrow> bool" where
  "created w h path i = (is_docker_id i \<and> (\<exists>p b u. (Docker POST p b, Inr u) \<in> set h \<and> path p \<and> dk_status u = 201 \<and>
     i = str_or_empty (reply_json w u ''Id'')))"

definition exec_created :: "proxy_world \<Rightarrow> history \<Rightarrow> string \<Rightarrow> bool" where
  "exec_created w h = created w h (\<lambda>p. \<exists>c. p = container_path c ''/exec'')"

definition container_created :: "proxy_world \<Rightarrow> history \<Rightarrow> string \<Rightarrow> bool" where
  "container_created w h = created w h (\<lambda>p. \<exists>n. p = create_path n)"

definition no_line_breaks :: "string list \<Rightarrow> bool" where
  "no_line_breaks argv = list_all (\<lambda>s. \<not> has_nul_cr_lf s \<and> utf8_length s \<le> 16384) argv"

text \<open>What the configuration lets the proxy ask of Docker.\<close>

inductive permitted_docker :: "proxy_world \<Rightarrow> proxy_cfg \<Rightarrow> history \<Rightarrow> docker_req \<Rightarrow> bool" for w cfg where
  status: "p \<in> {''/_ping'', ''/version'', ''/containers/json?all=1''} \<Longrightarrow> permitted_docker w cfg h (Docker GET p No_Body)"
| listing: "permitted_docker w cfg h (Docker GET (list_path query) No_Body)"
| inspect: "visible w h (px_allowed cfg) ref \<Longrightarrow> permitted_docker w cfg h (Docker GET (container_path ref ''/json'') No_Body)"
| logs: "visible w h (px_allowed cfg) ref \<Longrightarrow>
    permitted_docker w cfg h (Docker GET (container_path ref (logs_suffix query)) No_Body)"
| program: "visible w h (px_exec cfg) ref \<Longrightarrow> ref \<in> set (px_allowed cfg) \<Longrightarrow> prog \<in> set (px_programs cfg) \<Longrightarrow>
    no_line_breaks argv \<Longrightarrow>
    permitted_docker w cfg h (Docker POST (container_path ref ''/exec'') (Json_Body (exec_body [] (prog # argv))))"
| verifier: "map_of (pc_verifiers (px_postgres cfg)) i = Some (pw_sha w sql) \<Longrightarrow>
    postgresSqlAfterApprovedMetaCommands sql = Inr executable \<Longrightarrow>
    permitted_docker w cfg h (Docker POST (container_path (pc_container (px_postgres cfg)) ''/exec'')
      (Json_Body (exec_body [(''User'', JStr (pc_execUser (px_postgres cfg))), (''Env'', JArr (map JStr pinned_env))]
        (pinned_cmd (pc_dbUser (px_postgres cfg)) (pc_dbName (px_postgres cfg)) executable))))"
| paperclip: "px_paperclip cfg \<in> set (px_allowed cfg) \<inter> set (px_exec cfg) \<Longrightarrow>
    normalizePaperclipSemanticPayload (pw_lit w) op raw = Inr payload \<Longrightarrow>
    paperclipSemanticExecCommand (pw_script w) op payload = Inr cmd \<Longrightarrow>
    permitted_docker w cfg h (Docker POST (container_path (px_paperclip cfg) ''/exec'') (Json_Body (exec_body [] cmd)))"
| exec_start: "exec_created w h i \<Longrightarrow> permitted_docker w cfg h (Docker POST (exec_path i ''/start'') b)"
| exec_status: "exec_created w h i \<Longrightarrow> permitted_docker w cfg h (Docker GET (exec_path i ''/json'') No_Body)"
| action: "act \<in> set (px_actions cfg) \<Longrightarrow> act \<in> {''start'', ''stop'', ''restart''} \<Longrightarrow> visible w h (px_allowed cfg) ref \<Longrightarrow>
    permitted_docker w cfg h (Docker POST (container_path ref (action_suffix act)) No_Body)"
| load: "under_roots (pw_realpath w) (px_roots cfg) real \<Longrightarrow> pw_realpath w raw = Some real \<Longrightarrow> \<not> denySecretPath real \<Longrightarrow>
    ends_with real ''.tar'' \<Longrightarrow> permitted_docker w cfg h (Docker POST ''/images/load?quiet=1'' (Tar_Body real))"
| candidate: "container_re name \<Longrightarrow> allowedPrefix (px_names cfg) name \<Longrightarrow> allowedPrefix (px_images cfg) img \<Longrightarrow>
    network \<in> set (px_networks cfg) \<Longrightarrow> hp \<in> set (px_host_ports cfg) \<Longrightarrow> cp \<in> set (px_container_ports cfg) \<Longrightarrow>
    permitted_docker w cfg h (Docker POST (create_path name)
      (Json_Body (candidate_body img network hp cp)))"
| candidate_start: "container_created w h i \<Longrightarrow> permitted_docker w cfg h (Docker POST (id_path i ''/start'') Empty_Body)"
| candidate_drop: "container_created w h i \<Longrightarrow>
    permitted_docker w cfg h (Docker DELETE (id_path i ''?force=1&v=1'') No_Body)"
| candidate_remove: "container_re name \<Longrightarrow> allowedPrefix (px_names cfg) name \<Longrightarrow>
    permitted_docker w cfg h (Docker DELETE (container_path name ''?force=1&v=1'') No_Body)"

section \<open>What every handler asks\<close>

lemma asks_jsonError [simp]: "asks P h (jsonError s m)"
  by (simp add: jsonError_def)

lemma asks_send [simp]: "asks P h (send_raw u)" "asks P h (send_typed u)" "asks P h (send_text w t u)"
  by (simp_all add: send_raw_def send_typed_def send_text_def)

lemma asks_docker:
  assumes "P h q" "\<And>u. asks P (h @ [(q, Inr u)]) (k u)"
  shows "asks P h (dockerRequest cfg q k)"
  using assms by (auto simp: dockerRequest_def split: sum.split)

lemma asks_catch: "(\<And>h e. asks P h (f e)) \<Longrightarrow> asks P h r \<Longrightarrow> asks P h (catch_run f r)"
  by (induction r arbitrary: h) auto

lemma asks_run_with: "(\<And>x. r = Inr x \<Longrightarrow> asks P h (f x)) \<Longrightarrow> asks P h (run_with r f)"
  by (auto simp: run_with_def split: sum.split)

lemma asks_body: "(\<And>v. asks P h (k v)) \<Longrightarrow> asks P h (with_body w rq k)"
  by (auto simp: with_body_def split: option.split)

lemma listed_item: "listed scope ref items = Inr True \<Longrightarrow> \<exists>item \<in> set items. starts_with (inventory_id item) ref \<and> named_in scope item"
  by (induction items) (auto simp: bindR_Inr_iff split: if_splits)

lemma clean_ref_re: "cleanContainerRef raw = Some ref \<Longrightarrow> container_re ref"
  by (auto simp: cleanContainerRef_def split: option.splits if_splits)

lemma asks_resolve:
  assumes none: "\<And>h'. asks (permitted_docker w cfg) h' (k None)"
    and some: "\<And>h' ref. visible w h' scope ref \<Longrightarrow> asks (permitted_docker w cfg) h' (k (Some ref))"
  shows "asks (permitted_docker w cfg) h (resolveAllowedContainerRef w cfg raw scope k)"
proof (cases "cleanContainerRef raw")
  case None
  with none show ?thesis by (simp add: resolveAllowedContainerRef_def)
next
  case (Some ref)
  then have re: "container_re ref" by (rule clean_ref_re)
  show ?thesis
  proof (cases "ref \<in> set scope \<or> \<not> is_docker_id ref")
    case True
    with Some re none some show ?thesis by (auto simp: resolveAllowedContainerRef_def visible_def)
  next
    case False
    have ask: "permitted_docker w cfg h inventory" unfolding inventory_def by (rule permitted_docker.status) simp
    have "asks (permitted_docker w cfg) (h @ [(inventory, Inr u)])
        (if dk_status u \<noteq> 200 then k None
         else (case pw_parse w (pw_text w (dk_body u)) of
             Some (JArr items) \<Rightarrow> run_with (listed scope ref items) (\<lambda>b. k (if b then Some ref else None))
           | _ \<Rightarrow> k None))" for u
    proof (cases "\<exists>items. dk_status u = 200 \<and> pw_parse w (pw_text w (dk_body u)) = Some (JArr items)")
      case False
      with none show ?thesis by (auto split: option.split jval.split)
    next
      case True
      then obtain items where items: "dk_status u = 200" "pw_parse w (pw_text w (dk_body u)) = Some (JArr items)" by blast
      have "visible w (h @ [(inventory, Inr u)]) scope ref" if "listed scope ref items = Inr True"
        using listed_item [OF that] items re False by (auto simp: visible_def)
      with items none some show ?thesis by (auto simp: run_with_def split: sum.split)
    qed
    with Some False ask show ?thesis
      by (auto simp: resolveAllowedContainerRef_def intro: asks_docker)
  qed
qed

lemma asks_run_exec:
  assumes "permitted_docker w cfg h (Docker POST (container_path c ''/exec'') (Json_Body b))"
  shows "asks (permitted_docker w cfg) h (run_exec w cfg c b extra)"
  unfolding run_exec_def
proof (rule asks_docker [of "permitted_docker w cfg", OF assms])
  fix u
  let ?h = "h @ [(Docker POST (container_path c ''/exec'') (Json_Body b), Inr u)]"
  let ?i = "str_or_empty (reply_json w u ''Id'')"
  have "exec_created w (?h @ h') ?i" if "dk_status u = 201" "is_docker_id ?i" for h'
    using that by (auto simp: exec_created_def created_def)
  from this [of "[]"] this
  show "asks (permitted_docker w cfg) ?h (if dk_status u \<noteq> 201 then send_raw u
    else (let i = ?i in
      if \<not> is_docker_id i then jsonError 502 ''invalid_exec_id''
      else dockerRequest cfg (Docker POST (exec_path i ''/start'') (Json_Body (JObj [(''Detach'', JBool False), (''Tty'', JBool False)]))) (\<lambda>started.
        if dk_status started \<noteq> 200 then send_typed started
        else dockerRequest cfg (Docker GET (exec_path i ''/json'') No_Body) (\<lambda>inspected.
          Reply (Json_Reply 200 (JObj ([(''code'', exit_code_of w inspected)] @ extra @ demuxDockerStream (pw_text w) (dk_body started))))))))"
    by (auto simp: Let_def intro!: asks_docker permitted_docker.exec_start permitted_docker.exec_status)
qed

lemma clean_items_ok: "clean_items xs = Some argv \<Longrightarrow> no_line_breaks argv"
  by (induction xs arbitrary: argv) (auto simp: no_line_breaks_def Let_def split: if_splits)

lemma clean_args_ok: "cleanArgs v = Some argv \<Longrightarrow> no_line_breaks argv"
  by (auto simp: cleanArgs_def clean_items_ok split: jval.splits if_splits)

lemma load_path_ok:
  "cleanAllowedLoadPath cfg realpath v = Some real \<Longrightarrow>
     under_roots realpath (px_roots cfg) real \<and> \<not> denySecretPath real \<and> ends_with real ''.tar'' \<and> (\<exists>raw. realpath raw = Some real)"
  by (auto simp: cleanAllowedLoadPath_def Let_def split: option.splits if_splits)

lemma asks_postgres:
  assumes "handlePostgresPinnedReadback w cfg rq path = Some r"
  shows "asks (permitted_docker w cfg) h r"
proof -
  have "asks (permitted_docker w cfg) h (run_exec w cfg (px_container spec)
      (exec_body [(''User'', JStr (px_execUser spec)), (''Env'', JArr (map JStr (px_env spec)))] (px_cmd spec)) extra)"
    if "buildPostgresPinnedReadbackExec (pw_sha w) (px_postgres cfg) p = Inr spec" for p spec extra h
    using that permitted_docker.verifier [of cfg "pp_verifierId p" w "pp_sql p" _ h]
    by (intro asks_run_exec)
      (auto simp: buildPostgresPinnedReadbackExec_def requireSafeName_def bindR_Inr_iff ensure_Inr_iff Let_def coalesce_def
        split: option.splits)
  with assms show ?thesis
    by (auto simp: handlePostgresPinnedReadback_def Let_def bindR_Inr_iff split: if_splits option.splits
        intro!: asks_catch asks_run_with)
qed

lemma asks_paperclip:
  assumes "handlePaperclipSemantic w cfg rq path = Some r"
  shows "asks (permitted_docker w cfg) h r"
  using assms
  by (auto simp: handlePaperclipSemantic_def split: option.splits if_splits sum.splits
      intro!: asks_run_with asks_run_exec permitted_docker.paperclip)

lemma asks_load: "asks (permitted_docker w cfg) h (proxy_load_image w cfg payload)"
  by (auto simp: proxy_load_image_def split: option.split dest!: load_path_ok intro!: asks_run_with asks_docker permitted_docker.load)

lemma asks_start_candidate:
  assumes "container_re name" "allowedPrefix (px_names cfg) name" "allowedPrefix (px_images cfg) img"
    "network \<in> set (px_networks cfg)" "hp \<in> set (px_host_ports cfg)" "cp \<in> set (px_container_ports cfg)"
  shows "asks (permitted_docker w cfg) h (start_candidate w cfg name img network hp cp)"
  unfolding start_candidate_def
proof (rule asks_docker [of "permitted_docker w cfg", OF permitted_docker.candidate [OF assms]], goal_cases)
  case (1 u)
  let ?q = "Docker POST (create_path name) (Json_Body (candidate_body img network hp cp))"
  let ?i = "str_or_empty (reply_json w u ''Id'')"
  have "container_created w ((h @ [(?q, Inr u)]) @ h') ?i" if "dk_status u = 201" "is_docker_id ?i" for h'
    using that by (auto simp: container_created_def created_def)
  from this [of "[]"] this show ?case
    by (auto simp: Let_def intro!: asks_docker permitted_docker.candidate_start permitted_docker.candidate_drop)
qed

lemma asks_candidate: "asks (permitted_docker w cfg) h (run_candidate w cfg payload)"
  by (auto simp: run_candidate_def split: option.split intro!: asks_run_with asks_start_candidate dest: clean_ref_re)

lemma asks_remove: "asks (permitted_docker w cfg) h (remove_candidate cfg ref)"
  by (auto simp: remove_candidate_def split: option.split intro!: asks_docker permitted_docker.candidate_remove dest: clean_ref_re)

lemma asks_exec: "asks (permitted_docker w cfg) h (exec_container w cfg rq ref)"
  unfolding exec_container_def
proof (rule asks_resolve)
  fix h' ref
  assume v: "visible w h' (px_exec cfg) ref"
  have "asks (permitted_docker w cfg) h' (exec_program w cfg ref payload)" if "ref \<in> set (px_allowed cfg)" for payload
    using v that
    by (auto simp: exec_program_def split: option.split intro!: asks_run_with asks_run_exec permitted_docker.program
        dest: clean_args_ok)
  then show "asks (permitted_docker w cfg) h' (case Some ref of
      None \<Rightarrow> jsonError 403 ''container_exec_not_allowed''
    | Some ref \<Rightarrow> if ref \<notin> set (px_allowed cfg) then jsonError 403 ''container_exec_not_allowed''
      else (case body_json w 131072 rq of None \<Rightarrow> jsonError 400 ''invalid_json'' | Some payload \<Rightarrow> exec_program w cfg ref payload))"
    by (simp split: option.split)
qed simp

lemma asks_action:
  assumes "act \<in> {''start'', ''stop'', ''restart''}"
  shows "asks (permitted_docker w cfg) h (act_on_container w cfg ref act)"
proof (cases "act \<in> set (px_actions cfg)")
  case True
  from permitted_docker.action [OF this assms] show ?thesis
    unfolding act_on_container_def using True
    by (auto simp del: insert_iff intro!: asks_resolve asks_docker)
qed (simp add: act_on_container_def)

lemma asks_operator:
  assumes "handleOperator w cfg rq path = Some r"
  shows "asks (permitted_docker w cfg) h r"
  using assms
  by (auto simp: handleOperator_def Let_def split: if_splits list.splits
      intro!: asks_body asks_load asks_candidate asks_remove asks_exec asks_action)

lemma asks_get: "asks (permitted_docker w cfg) h (handle_get w cfg rq path)"
proof -
  have "asks (permitted_docker w cfg) h (list_containers w cfg rq)"
    by (auto simp: list_containers_def Let_def split: option.split jval.split
        intro!: asks_run_with asks_docker permitted_docker.listing)
  moreover have "asks (permitted_docker w cfg) h (read_container w cfg rq ref what)" for ref what
    unfolding read_container_def
    by (auto intro!: asks_resolve asks_docker permitted_docker.inspect permitted_docker.logs)
  moreover have "asks (permitted_docker w cfg) h (plain_read w cfg rq p type)" if "p \<in> {''/_ping'', ''/version''}" for p type
    using that by (auto simp: plain_read_def intro!: asks_docker permitted_docker.status)
  ultimately show ?thesis by (auto simp: handle_get_def split: list.split)
qed


section \<open>A proxy\<close>

definition demo_proxy :: proxy_cfg where
  "demo_proxy = \<lparr>px_allowed = [''web''], px_exec = [''web''], px_programs = [''ls''], px_actions = [''restart''], px_roots = [],
     px_images = [], px_networks = [], px_names = [], px_host_ports = [], px_container_ports = [],
     px_postgres = \<lparr>pc_container = [], pc_execUser = ''postgres'', pc_dbUser = ''postgres'', pc_dbName = ''postgres'', pc_verifiers = []\<rparr>,
     px_paperclip = ''wandora-paperclip'', px_max_bytes = 65536\<rparr>"

definition demo_container :: "string \<Rightarrow> jval" where
  "demo_container n = JObj [(''Id'', JStr ''0123456789ab''), (''Names'', JArr [JStr n])]"

definition demo_fields :: "(string \<times> jval) list" where
  "demo_fields = [(''program'', JStr ''ls''), (''argv'', JArr [JStr ''-l''])]"

definition demo_proxy_world :: proxy_world where
  "demo_proxy_world = \<lparr>
     pw_parse = (\<lambda>s. if s = ''x'' then Some (JArr [demo_container ''/web'', demo_container ''/db'']) else Some (JObj demo_fields)),
     pw_text = (\<lambda>s. s), pw_sha = (\<lambda>s. s), pw_realpath = (\<lambda>p. Some p), pw_lit = (\<lambda>s. NaN), pw_clamp = (\<lambda>lo hi s. NInt lo), pw_script = []\<rparr>"

definition demo_get :: "string \<Rightarrow> proxy_request" where
  "demo_get p = \<lparr>rq_method = ''GET'', rq_path = p, rq_query = [], rq_search = False, rq_body = []\<rparr>"

section \<open>The inventory\<close>

lemma named_items_filter:
  "\<forall>item \<in> set items. \<not> nullish item \<Longrightarrow> named_items scope items = Inr (filter (named_in scope) items)"
  by (induction items) (auto simp: get_def)

text \<open>The inventory that the proxy shows is Docker's without the containers that carry no allowed name, in Docker's
  order and with every field of the others unchanged.\<close>

lemma inventory_filtered:
  assumes "rq_method rq = ''GET''" "stripApiVersion (rq_path rq) = ''/containers/json''"
    and "allowedQuery rq [''all'', ''limit'', ''size'', ''filters'']"
    and "dk_status u = 200" "int (length (dk_body u)) \<le> px_max_bytes cfg"
    and "pw_parse w (pw_text w (dk_body u)) = Some (JArr items)" "\<forall>item \<in> set items. \<not> nullish item"
  shows "\<exists>q k. serve w cfg rq = Request (Docker GET (list_path q) No_Body) k \<and>
    k (Inr u) = Reply (Json_Reply 200 (JArr (filter (named_in (px_allowed cfg)) items)))"
proof -
  have none: "handlePostgresPinnedReadback w cfg rq ''/containers/json'' = None" "handlePaperclipSemantic w cfg rq ''/containers/json'' = None"
    by (simp_all add: handlePostgresPinnedReadback_def handlePaperclipSemantic_def paperclip_path_def starts_with_def)
  have segs: "segs ''/containers/json'' = [[], ''containers'', ''json'']" by code_simp
  then have "handleOperator w cfg rq ''/containers/json'' = None" by (simp add: handleOperator_def)
  with none assms(1,2) have "serve w cfg rq = catch_run (\<lambda>_. jsonError 502 ''upstream_error'') (list_containers w cfg rq)"
    by (simp add: serve_def handle_def Let_def handle_get_def)
  then show ?thesis
    using assms(3-7) by (simp add: list_containers_def Let_def dockerRequest_def named_items_filter run_with_def) blast
qed

lemma inventory_filtered_witness:
  "\<exists>q k. serve demo_proxy_world demo_proxy (demo_get ''/containers/json'') = Request (Docker GET (list_path q) No_Body) k \<and>
     k (Inr \<lparr>dk_status = 200, dk_type = None, dk_body = ''x''\<rparr>) =
       Reply (Json_Reply 200 (JArr [demo_container ''/web'']))"
proof -
  have "filter (named_in (px_allowed demo_proxy)) [demo_container ''/web'', demo_container ''/db''] = [demo_container ''/web'']"
    by code_simp
  moreover have "stripApiVersion (rq_path (demo_get ''/containers/json'')) = ''/containers/json''" by code_simp
  ultimately show ?thesis
    using inventory_filtered [of "demo_get ''/containers/json''" "\<lparr>dk_status = 200, dk_type = None, dk_body = ''x''\<rparr>"
        demo_proxy demo_proxy_world "[demo_container ''/web'', demo_container ''/db'']"]
    by (simp add: demo_get_def demo_proxy_def demo_proxy_world_def allowedQuery_def demo_container_def nullish_def)
qed

section \<open>References in a path\<close>

lemma hex_digit_value:
  assumes "n < 16"
  shows "hex_any (hex_upper n) \<and> hex_value (hex_upper n) = n"
proof (cases "n < 10")
  case True
  then have "code (hex_upper n) = 48 + n" by (simp add: hex_upper_def code_char_of)
  with True show ?thesis by (simp add: hex_any_def hex_lower_def hex_value_def is_digit_def between_def)
next
  case False
  with assms have "code (hex_upper n) = 55 + n" by (simp add: hex_upper_def code_char_of)
  with False assms show ?thesis by (simp add: hex_any_def hex_lower_def hex_value_def is_digit_def is_lower_def between_def)
qed

lemma percent_of_byte:
  assumes "n < 256"
  shows "percent_byte (CHR ''%'' # hex_upper (n div 16) # hex_upper (n mod 16) # rest) = Some n"
  using hex_digit_value [of "n div 16"] hex_digit_value [of "n mod 16"] assms by (simp add: percent_byte_def)

lemma decode_plain: "c \<noteq> CHR ''%'' \<Longrightarrow> decodeURIComponent (c # cs) = map_option (Cons c) (decodeURIComponent cs)"
  by (subst decodeURIComponent.simps) simp

lemma decode_byte:
  "n < 128 \<Longrightarrow> decodeURIComponent (CHR ''%'' # hex_upper (n div 16) # hex_upper (n mod 16) # cs) =
     map_option (Cons (char_of n)) (decodeURIComponent cs)"
  by (subst decodeURIComponent.simps) (simp add: percent_of_byte)

lemma decode_bytes:
  assumes "v \<in> {194, 195}" "128 \<le> v'" "v' < 192"
  shows "decodeURIComponent (CHR ''%'' # hex_upper (v div 16) # hex_upper (v mod 16) #
     CHR ''%'' # hex_upper (v' div 16) # hex_upper (v' mod 16) # cs) =
     map_option (Cons (char_of ((v - 192) * 64 + (v' - 128)))) (decodeURIComponent cs)"
proof -
  have "v < 256" "v' < 256" "\<not> v < 128" using assms by auto
  with assms percent_of_byte [of v] percent_of_byte [of v'] show ?thesis
    by (subst decodeURIComponent.simps) (simp del: insert_iff)
qed

text \<open>\<open>decodeURIComponent\<close> undoes \<open>encodeURIComponent\<close>.\<close>

lemma uri_round_trip: "decodeURIComponent (encodeURIComponent s) = Some s"
proof (induction s)
  case Nil
  show ?case by (simp add: encodeURIComponent_def decodeURIComponent.simps)
next
  case (Cons c s)
  have enc: "encodeURIComponent (c # s) = encodeURIComponent [c] @ encodeURIComponent s"
    by (simp add: encodeURIComponent_def)
  consider "uri_plain c" | "\<not> uri_plain c" "code c < 128" | "\<not> uri_plain c" "128 \<le> code c" by linarith
  then show ?case
  proof cases
    case 1
    have "\<not> uri_plain (CHR ''%'')" by code_simp
    with 1 have "c \<noteq> CHR ''%''" by blast
    with 1 Cons enc show ?thesis by (simp add: encodeURIComponent_def decode_plain)
  next
    case 2
    with Cons enc decode_byte [of "code c"] show ?thesis
      by (simp add: encodeURIComponent_def utf8_char_def char_of_code)
  next
    case 3
    let ?v = "192 + code c div 64" and ?v' = "128 + code c mod 64"
    have "code c < 256" by (rule code_less)
    then have "code c div 64 \<in> {2, 3}" using 3 by auto
    then have v: "?v \<in> {194, 195}" "?v < 256" by auto
    have v': "128 \<le> ?v'" "?v' < 192" "?v' < 256" by (simp_all add: less_trans [OF mod_less_divisor])
    have "encodeURIComponent [c] = [CHR ''%'', hex_upper (?v div 16), hex_upper (?v mod 16),
        CHR ''%'', hex_upper (?v' div 16), hex_upper (?v' mod 16)]"
      using 3 v(2) v'(3) by (simp add: encodeURIComponent_def utf8_char_def code_char_of del: add_diff_cancel)
    moreover have "char_of ((?v - 192) * 64 + (?v' - 128)) = c" by (simp add: char_of_code)
    ultimately show ?thesis using enc Cons decode_bytes [OF v(1) v'(1,2)] by simp
  qed
qed

section \<open>Docker's stream\<close>

definition be32_text :: "nat \<Rightarrow> string" where
  "be32_text n = map char_of [n div 16777216, n div 65536 mod 256, n div 256 mod 256, n mod 256]"

definition framed :: "nat \<times> string \<Rightarrow> string" where
  "framed f = [char_of (fst f), char_of (0::nat), char_of (0::nat), char_of (0::nat)] @ be32_text (length (snd f)) @ snd f"

lemma be32_be32_text: "n < 4294967296 \<Longrightarrow> be32 (be32_text n) = n"
proof -
  assume n: "n < 4294967296"
  have "n div 16777216 < 256" using n by (simp add: less_mult_imp_div_less)
  then have "be32 (be32_text n) = 256 * (256 * (256 * (n div 16777216) + n div 65536 mod 256) + n div 256 mod 256) + n mod 256"
    by (simp add: be32_def be32_text_def code_def)
  moreover have "256 * (n div 16777216) + n div 65536 mod 256 = n div 65536"
    using mult_div_mod_eq [of 256 "n div 65536"] by (simp add: div_mult2_eq [symmetric] del: mult_div_mod_eq)
  moreover have "256 * (n div 65536) + n div 256 mod 256 = n div 256"
    using mult_div_mod_eq [of 256 "n div 256"] by (simp add: div_mult2_eq [symmetric] del: mult_div_mod_eq)
  ultimately show ?thesis by simp
qed

lemma frames_framed:
  assumes "fst f < 256" "length (snd f) < 4294967296"
  shows "frames (framed f @ rest) = f # frames rest"
proof -
  obtain n x where f: "f = (n, x)" by force
  have l: "length (be32_text (length x)) = 4" by (simp add: be32_text_def)
  have "take 4 (drop 4 (framed f @ rest)) = be32_text (length x)"
    using l by (simp add: framed_def f)
  moreover have "drop 8 (framed f @ rest) = x @ rest" "length (framed f @ rest) = 8 + length x + length rest"
    using l by (simp_all add: framed_def f numeral_eq_Suc)
  moreover have "(framed f @ rest) ! 0 = char_of n" by (simp add: framed_def f)
  moreover have "drop (8 + length x) (framed f @ rest) = rest"
    using l by (simp add: framed_def f numeral_eq_Suc)
  ultimately show ?thesis
    using assms f be32_be32_text [of "length x"]
    by (subst frames.simps) (simp add: Let_def code_char_of)
qed

text \<open>C17: The output of a command inside a container is split exactly: for every sequence of frames that Docker's
  multiplexed stream carries, what the caller gets as standard error is the text of the frames of stream 2 in
  their order, and as standard output the text of the others, with nothing lost.\<close>

theorem demux_exact:
  assumes "\<forall>f \<in> set fs. fst f < 256 \<and> length (snd f) < 4294967296" "fs \<noteq> []"
  shows "demuxDockerStream text (concat (map framed fs)) =
    [(''stdout'', JStr (concat (map (\<lambda>f. if fst f = 2 then [] else text (snd f)) fs))),
     (''stderr'', JStr (concat (map (\<lambda>f. if fst f = 2 then text (snd f) else []) fs))), (''truncated'', JBool False)]"
proof -
  have "frames (concat (map framed fs)) = fs" using assms(1)
  proof (induction fs)
    case Nil
    show ?case by (subst frames.simps) simp
  next
    case (Cons f fs)
    then show ?case using frames_framed [of f "concat (map framed fs)"] by simp
  qed
  with assms(2) show ?thesis by (simp add: demuxDockerStream_def case_prod_unfold)
qed

theorem demux_exact_witness:
  "demuxDockerStream (\<lambda>s. s) (concat (map framed [(1, ''a''), (2, ''b''), (1, ''c'')])) =
     [(''stdout'', JStr ''ac''), (''stderr'', JStr ''b''), (''truncated'', JBool False)]"
  using demux_exact [of "[(1, ''a''), (2, ''b''), (1, ''c'')]" "\<lambda>s. s"] by simp

section \<open>From the agent to the container\<close>

lemma container_re_plain:
  assumes "container_re c"
  shows "encodeURIComponent c = c" "decodeURIComponent c = Some c" "slash \<notin> set c" "c \<noteq> []"
proof -
  have chars: "is_alnum x \<or> x \<in> set ''_.-''" if "x \<in> set c" for x
    using assms that by (auto simp: container_re_def re_head_class_def re_class_def alnum_or_def list_all_iff split: list.splits)
  have "uri_plain x" if "x \<in> set c" for x using chars [OF that] by (auto simp: uri_plain_def)
  then show enc: "encodeURIComponent c = c" by (induction c) (auto simp: encodeURIComponent_def)
  show "decodeURIComponent c = Some c" using uri_round_trip [of c] by (simp only: enc)
  have "\<not> is_alnum slash \<and> slash \<notin> set ''_.-''" by code_simp
  with chars show "slash \<notin> set c" by blast
  show "c \<noteq> []" using assms by (auto simp: container_re_def re_head_class_def)
qed

text \<open>The route of a command, and what is refused before it.\<close>

lemma route_exec:
  assumes "container_re c" "rq_method rq = ''POST''" "rq_path rq = ''/ops/containers/'' @ c @ ''/exec''"
  shows "serve w cfg rq = catch_run (\<lambda>_. jsonError 502 ''upstream_error'') (exec_container w cfg rq c)"
proof -
  note c = container_re_plain [OF assms(1)]
  let ?p = "''/ops/containers/'' @ c @ ''/exec''"
  have "segs ?p = [[], ''ops'', ''containers'', c, ''exec'']"
    using split_on_append [of slash c "''exec''"] c(3) by (simp add: segs_def)
  then have "handleOperator w cfg rq ?p = Some (exec_container w cfg rq c)"
    using c(4) assms(2) by (simp add: handleOperator_def)
  moreover have "stripApiVersion ?p = ?p" by (simp add: stripApiVersion_def starts_with_def)
  moreover have "handlePostgresPinnedReadback w cfg rq ?p = None" "handlePaperclipSemantic w cfg rq ?p = None"
    by (simp_all add: handlePostgresPinnedReadback_def handlePaperclipSemantic_def paperclip_path_def starts_with_def)
  ultimately show ?thesis unfolding serve_def handle_def assms(3) by (simp add: Let_def)
qed

lemma safe_arguments: "mapR safe_argument vs = Inr argv \<Longrightarrow> argv = map str_or_empty vs \<and> (\<forall>a \<in> set argv. admin_arg_ok a)"
  by (induction vs arbitrary: argv) (auto simp: safe_argument_def Let_def bindR_Inr_iff ensure_Inr_iff)

lemma clean_items_texts:
  "(\<forall>a \<in> set argv. admin_arg_ok a) \<Longrightarrow> clean_items (map JStr argv) = Some argv"
  by (induction argv) (auto simp: Let_def admin_arg_ok_def)



end
