(* ===== verification/Payload_Properties.thy ===== *)
theory Payload_Properties
  imports Docker_Payloads
begin

text \<open>
  The payloads of the Paperclip operations (\<^verbatim>\<open>src/docker/paperclip-semantic.ts\<close>): the checks accept exactly what they
  produce, so an accepted payload has the shape and the bounds of its operation.
\<close>

section \<open>Payloads\<close>

text \<open>Values that a check maps to themselves.\<close>

lemma requireGuid_again: "requireGuid v label = Inr g \<Longrightarrow> \<not> nullish g \<and> requireGuid g label = Inr g"
  by (auto simp: requireGuid_def Let_def bindR_Inr_iff ensure_Inr_iff nullish_def)

lemma trim_ends: "trim s = [] \<or> \<not> is_ws (hd (trim s)) \<and> \<not> is_ws (last (trim s))"
proof -
  define t where "t = dropWhile is_ws s"
  define r where "r = dropWhile is_ws (rev t)"
  have trim: "trim s = rev r" by (simp add: trim_def t_def r_def)
  have "t = rev r @ rev (takeWhile is_ws (rev t))"
    unfolding r_def by (metis rev_append rev_rev_ident takeWhile_dropWhile_id)
  then have "hd (rev r) = hd t" if "r \<noteq> []" using that by (metis Nil_is_rev_conv hd_append2)
  moreover have "\<not> is_ws (hd t)" if "t \<noteq> []" using that by (simp add: t_def hd_dropWhile)
  moreover have "\<not> is_ws (hd r)" if "r \<noteq> []" using that by (simp add: r_def hd_dropWhile)
  moreover have "t \<noteq> []" if "r \<noteq> []" using that by (auto simp: r_def)
  ultimately show ?thesis by (auto simp: trim last_rev)
qed

lemma trim_trim [simp]: "trim (trim s) = trim s"
  by (rule trim_id) (rule trim_ends)

lemma requireToolName_again: "requireToolName v label = Inr g \<Longrightarrow> \<not> nullish g \<and> requireToolName g label = Inr g"
  by (auto simp: requireToolName_def Let_def bindR_Inr_iff ensure_Inr_iff nullish_def)

lemma require_text_again: "require_text n label v = Inr g \<Longrightarrow> require_text n label g = Inr g"
  by (auto simp: require_text_def Let_def bindR_Inr_iff ensure_Inr_iff)

lemma require_int_again: "require_int lit lo hi label v = Inr g \<Longrightarrow> \<not> nullish g \<and> require_int lit lo hi label g = Inr g"
  by (auto simp: require_int_def safe_number_def int_such_Some bindR_Inr_iff nullish_def split: option.splits)

lemma selector_names_again: "selector_names v = Inr g \<Longrightarrow> \<not> nullish g \<and> selector_names g = Inr g"
proof -
  have again: "mapR (\<lambda>x. requireToolName x l) vs = Inr ns \<Longrightarrow>
      length ns = length vs \<and> mapR (\<lambda>x. requireToolName x l) ns = Inr ns" for l vs ns
    by (induction vs arbitrary: ns) (auto simp: bindR_Inr_iff dest: requireToolName_again)
  show "selector_names v = Inr g \<Longrightarrow> ?thesis"
    by (auto simp: selector_names_def bindR_Inr_iff ensure_Inr_iff nullish_def split: jval.splits dest: again)
qed

definition kept_field :: "string \<Rightarrow> (jval \<Rightarrow> exn + jval) \<Rightarrow> (string \<times> jval) list \<Rightarrow> bool" where
  "kept_field k check fs = (fs = [] \<or> (\<exists>v. fs = [(k, v)] \<and> \<not> nullish v \<and> check v = Inr v))"

lemma optional_kept:
  "optional_field input k check = Inr fs \<Longrightarrow> (\<And>x v. check x = Inr v \<Longrightarrow> \<not> nullish v \<and> check v = Inr v) \<Longrightarrow> kept_field k check fs"
  by (fastforce simp: optional_field_def kept_field_def bindR_Inr_iff split: if_splits)

lemma optional_again:
  assumes "kept_field k check fs" "k \<notin> fst ` set before" "k \<notin> fst ` set after"
  shows "optional_field (before @ fs @ after) k check = Inr fs"
proof -
  have "map_of before k = None" "map_of after k = None" using assms(2,3) by (simp_all add: map_of_eq_None_iff)
  with assms(1) show ?thesis
    by (auto simp: kept_field_def optional_field_def field_def map_add_def nullish_def)
qed

lemma normalizeSelectors_again:
  assumes "normalizeSelectors v = Inr g"
  shows "normalizeSelectors g = Inr g"
proof -
  from assms obtain input a b c d e where g: "g = JObj (a @ b @ c @ d @ e)" "a @ b @ c @ d @ e \<noteq> []"
    and fs: "optional_field input ''agentId'' (\<lambda>x. requireGuid x ''selector_agent_id'') = Inr a"
      "optional_field input ''connectionId'' (\<lambda>x. requireGuid x ''selector_connection_id'') = Inr b"
      "optional_field input ''catalogEntryId'' (\<lambda>x. requireGuid x ''selector_catalog_entry_id'') = Inr c"
      "optional_field input ''toolName'' (\<lambda>x. requireToolName x ''selector_tool_name'') = Inr d"
      "optional_field input ''toolNames'' selector_names = Inr e"
    by (auto simp: normalizeSelectors_def bindR_Inr_iff ensure_Inr_iff)
  have kept: "kept_field ''agentId'' (\<lambda>x. requireGuid x ''selector_agent_id'') a"
      "kept_field ''connectionId'' (\<lambda>x. requireGuid x ''selector_connection_id'') b"
      "kept_field ''catalogEntryId'' (\<lambda>x. requireGuid x ''selector_catalog_entry_id'') c"
      "kept_field ''toolName'' (\<lambda>x. requireToolName x ''selector_tool_name'') d"
      "kept_field ''toolNames'' selector_names e"
    by (rule optional_kept [OF fs(1) requireGuid_again] optional_kept [OF fs(2) requireGuid_again]
        optional_kept [OF fs(3) requireGuid_again] optional_kept [OF fs(4) requireToolName_again]
        optional_kept [OF fs(5) selector_names_again]; assumption)+
  then have keys: "\<forall>x \<in> set a. fst x = ''agentId''" "\<forall>x \<in> set b. fst x = ''connectionId''"
      "\<forall>x \<in> set c. fst x = ''catalogEntryId''" "\<forall>x \<in> set d. fst x = ''toolName''" "\<forall>x \<in> set e. fst x = ''toolNames''"
    by (auto simp: kept_field_def)
  let ?g = "a @ b @ c @ d @ e"
  have "optional_field ?g ''agentId'' (\<lambda>x. requireGuid x ''selector_agent_id'') = Inr a"
    by (rule optional_again [OF kept(1), of "[]" "b @ c @ d @ e", simplified]) (use keys in fastforce)+
  moreover have "optional_field ?g ''connectionId'' (\<lambda>x. requireGuid x ''selector_connection_id'') = Inr b"
    by (rule optional_again [OF kept(2), of a "c @ d @ e", simplified]) (use keys in fastforce)+
  moreover have "optional_field ?g ''catalogEntryId'' (\<lambda>x. requireGuid x ''selector_catalog_entry_id'') = Inr c"
    by (rule optional_again [OF kept(3), of "a @ b" "d @ e", simplified]) (use keys in fastforce)+
  moreover have "optional_field ?g ''toolName'' (\<lambda>x. requireToolName x ''selector_tool_name'') = Inr d"
    by (rule optional_again [OF kept(4), of "a @ b @ c" e, simplified]) (use keys in fastforce)+
  moreover have "optional_field ?g ''toolNames'' selector_names = Inr e"
    by (rule optional_again [OF kept(5), of "a @ b @ c @ d" "[]", simplified]) (use keys in fastforce)+
  moreover have "list_all (\<lambda>(k, x). k \<in> set selector_keys) ?g"
    using keys by (auto simp: list_all_iff selector_keys_def image_subset_iff)
  ultimately show ?thesis using g by (simp add: normalizeSelectors_def asRecord_def ensure_def)
qed

lemma rate_limit_again:
  assumes "rate_limit_config lit v = Inr g"
  shows "rate_limit_config lit g = Inr g"
proof -
  from assms obtain c limit window where c: "require_int lit 1 1000 ''invalid_rate_limit'' (field c ''limit'') = Inr limit"
      "require_int lit 1 86400 ''invalid_window_seconds'' (field c ''windowSeconds'') = Inr window"
    and rest: "(case field c ''keyBy'' of
       JArr vs \<Rightarrow>
         bindR (ensure (1 \<le> length vs \<and> length vs \<le> 4) (Error ''invalid_key_by'')) (\<lambda>_.
         bindR (ensure (list_all (\<lambda>x. str_of x \<in> set [''agent'', ''tool'', ''connection'']) vs) (Error ''invalid_key_by'')) (\<lambda>_.
         Inr (JObj [(''limit'', limit), (''windowSeconds'', window), (''keyBy'', JArr (map (\<lambda>x. JStr (str_of x)) vs))])))
     | _ \<Rightarrow> Inl (Error ''invalid_key_by'')) = Inr g"
    by (auto simp: rate_limit_config_def bindR_Inr_iff)
  from rest obtain vs where vs: "1 \<le> length vs" "length vs \<le> 4"
      "list_all (\<lambda>x. str_of x \<in> set [''agent'', ''tool'', ''connection'']) vs"
      "g = JObj [(''limit'', limit), (''windowSeconds'', window), (''keyBy'', JArr (map (\<lambda>x. JStr (str_of x)) vs))]"
    by (cases "field c ''keyBy''") (auto simp: bindR_Inr_iff ensure_Inr_iff)
  with c [THEN require_int_again] show ?thesis
    by (simp add: rate_limit_config_def asRecord_def field_def list_all_iff ensure_def)
qed

lemma policy_again:
  assumes "policy_payload lit i p = Inr payload"
  shows "field payload ''companyId'' = i \<and> policy_payload lit i payload = Inr payload"
proof -
  define description where "description = (if nullish (field p ''description'') then JNull else JStr (str_of (field p ''description'')))"
  define policyType where "policyType = str_or_empty (field p ''policyType'')"
  from assms obtain nm priority selectors config where
      checks: "require_text 160 ''invalid_policy_name'' (field p ''name'') = Inr nm" "length (text_of description) \<le> 4000"
        "policyType = ''block'' \<or> policyType = ''rate_limit''"
        "require_int lit 0 10000 ''invalid_policy_priority'' (or_default (field p ''priority'') (JNum (NInt 100))) = Inr priority"
        "normalizeSelectors (field p ''selectors'') = Inr selectors"
      and config: "(if policyType = ''rate_limit'' then rate_limit_config lit (field p ''config'')
           else if nullish (field p ''config'') then Inr JNull else Inl (Error ''block_config_not_allowed'')) = Inr config"
      and payload: "payload = [(''companyId'', i), (''name'', nm), (''description'', description), (''policyType'', JStr policyType),
        (''priority'', priority), (''enabled'', JBool True), (''selectors'', selectors), (''conditions'', JNull), (''config'', config)]"
    by (auto simp: policy_payload_def description_def policyType_def Let_def bindR_Inr_iff ensure_Inr_iff)
  have fields: "field payload ''companyId'' = i" "field payload ''name'' = nm" "field payload ''description'' = description"
      "field payload ''policyType'' = JStr policyType" "field payload ''priority'' = priority"
      "field payload ''selectors'' = selectors" "field payload ''config'' = config"
    by (simp_all add: payload field_def)
  have "(if policyType = ''rate_limit'' then rate_limit_config lit config
      else if nullish config then Inr JNull else Inl (Error ''block_config_not_allowed'')) = Inr config"
    using config rate_limit_again by (auto simp: nullish_def split: if_splits)
  moreover have "(if nullish description then JNull else JStr (str_of description)) = description"
    by (simp add: description_def nullish_def)
  ultimately show ?thesis
    using checks(2,3) require_int_again [OF checks(4)] normalizeSelectors_again [OF checks(5)]
    unfolding policy_payload_def fields Let_def
    by (simp add: payload or_default_def ensure_def require_text_again [OF checks(1)])
qed

lemma test_again:
  assumes "test_payload i p = Inr payload"
  shows "field payload ''companyId'' = i \<and> test_payload i payload = Inr payload"
proof -
  from assms obtain actor request ctx where
      checks: "str_or_empty (field actor ''actorType'') \<in> set [''agent'', ''user'', ''system'', ''plugin'']"
        "is_ok (require_text 240 ''invalid_actor_id'' (field actor ''actorId''))"
        "is_ok (require_text 240 ''invalid_tool_name'' (field request ''toolName''))"
      and ctx: "ctx = JNull \<or> (\<exists>r. ctx = JObj r)"
      and payload: "payload = [(''companyId'', i), (''actor'', JObj actor), (''runContext'', ctx), (''request'', JObj request),
        (''consumeRateLimit'', JBool False), (''writeAuditEvent'', JBool False)]"
    by (auto simp: test_payload_def bindR_Inr_iff ensure_Inr_iff is_ok_iff split: if_splits)
  then show ?thesis
    by (auto simp: test_payload_def asRecord_def field_def nullish_def is_ok_iff ensure_def bindR_def split: sum.splits)
qed



end
