(* ===== verification/OAuth.thy ===== *)
theory OAuth
  imports Gateway Docker_Payloads
begin

text \<open>
  \<^verbatim>\<open>src/auth/oauth.ts\<close>: the authorization server. An endpoint takes the request's fields, the clock in milliseconds and
  the random values it draws, and returns the store after it and its reply. HMAC-SHA-256, the PKCE hash and
  \<open>new URL\<close> are parameters; page texts and the descriptions of errors are left out.
\<close>

section \<open>Environment\<close>

text \<open>\<open>oe_hmac\<close> gives the digest's bytes, \<open>oe_pkce\<close> is the SHA-256 of a text in base64url, \<open>oe_url\<close> protocol and host name
  of a URL, \<open>oe_above\<close> compares a JSON number that is no integer with one.\<close>

record oauth_env =
  oe_base :: string
  oe_secret :: string
  oe_password :: string
  oe_hmac :: "string \<Rightarrow> string \<Rightarrow> string"
  oe_pkce :: "string \<Rightarrow> string"
  oe_parse :: parser
  oe_text :: "string \<Rightarrow> string"
  oe_url :: "string \<Rightarrow> (string \<times> string) option"
  oe_above :: "string \<Rightarrow> int \<Rightarrow> bool"

definition SCOPES :: string where "SCOPES = ''mcp:read offline_access''"
definition ACCESS_TTL_S :: int where "ACCESS_TTL_S = 3600"
definition REFRESH_TTL_S :: int where "REFRESH_TTL_S = 30 * 24 * 3600"
definition CODE_TTL_S :: int where "CODE_TTL_S = 600"

definition MCP_RESOURCE :: "oauth_env \<Rightarrow> string" where "MCP_RESOURCE e = oe_base e @ ''/mcp''"

section \<open>Access tokens\<close>

definition b64uJson :: "(string \<times> jval) list \<Rightarrow> string" where
  "b64uJson fs = b64url_encode (utf8 (json_text (JObj fs)))"

definition b64url_to_std :: "char \<Rightarrow> char" where
  "b64url_to_std c = (if c = CHR ''-'' then CHR ''+'' else if c = CHR ''_'' then slash else c)"

text \<open>\<open>Buffer.from(s, "base64url")\<close>: either alphabet, anything else is skipped.\<close>

definition b64url_decode :: "string \<Rightarrow> string" where
  "b64url_decode s = b64_bytes (map b64_value (filter b64_char (map b64url_to_std s)))"

definition token_claims :: "oauth_env \<Rightarrow> (string \<times> jval) list \<Rightarrow> string \<Rightarrow> (string \<times> jval) list" where
  "token_claims e payload resource =
    AList.update ''scope'' (JStr SCOPES) (AList.update ''aud'' (JStr resource) (AList.update ''iss'' (JStr (oe_base e)) payload))"

definition signAccessToken :: "oauth_env \<Rightarrow> (string \<times> jval) list \<Rightarrow> string \<Rightarrow> string" where
  "signAccessToken e payload resource =
    (let header = b64uJson [(''alg'', JStr ''HS256''), (''typ'', JStr ''JWT'')];
         data = header @ ''.'' @ b64uJson (token_claims e payload resource)
     in data @ ''.'' @ b64url_encode (oe_hmac e (oe_secret e) data))"

text \<open>\<open>typeof v === "number"\<close> and a comparison with an integer.\<close>

definition number_above :: "oauth_env \<Rightarrow> jval \<Rightarrow> int \<Rightarrow> bool option" where
  "number_above e v n = (case v of JNum (NInt i) \<Rightarrow> Some (n < i) | JNum (NOther s) \<Rightarrow> Some (oe_above e s n) | _ \<Rightarrow> None)"

definition claims_ok :: "oauth_env \<Rightarrow> jval \<Rightarrow> int \<Rightarrow> store \<Rightarrow> bool" where
  "claims_ok e payload ms st =
    (let now = ms div 1000; cid = text_of (attr payload ''cid''); sid = text_of (attr payload ''sid'') in
     number_above e (attr payload ''exp'') now = Some True \<and>
     number_above e (attr payload ''iat'') (now + 60) = Some False \<and>
     attr payload ''iss'' = JStr (oe_base e) \<and> attr payload ''aud'' = JStr (MCP_RESOURCE e) \<and>
     cid \<noteq> [] \<and> sid \<noteq> [] \<and> sessionIsActive sid cid ms st)"

definition verifyAccessToken :: "oauth_env \<Rightarrow> string \<Rightarrow> int \<Rightarrow> store \<Rightarrow> jval option" where
  "verifyAccessToken e token ms st = (case split_on (CHR ''.'') token of
     [h, b, s] \<Rightarrow>
       if b64url_decode s \<noteq> oe_hmac e (oe_secret e) (h @ ''.'' @ b) then None
       else (case oe_parse e (oe_text e (b64url_decode b)) of
           None \<Rightarrow> None
         | Some payload \<Rightarrow> if claims_ok e payload ms st then Some payload else None)
   | _ \<Rightarrow> None)"

text \<open>\<open>requireBearer\<close>: the actor, the client and the session of a request, whose session is touched.\<close>

definition requireBearer :: "oauth_env \<Rightarrow> string option \<Rightarrow> int \<Rightarrow> store \<Rightarrow> store \<times> (string \<times> string \<times> string) option" where
  "requireBearer e header ms st = (case bearer header of
     None \<Rightarrow> (st, None)
   | Some token \<Rightarrow> (case verifyAccessToken e (trim token) ms st of
       None \<Rightarrow> (st, None)
     | Some payload \<Rightarrow>
        (let cid = str_of (or_default (attr payload ''cid'') (JStr ''unknown''));
             sid = str_of (or_default (attr payload ''sid'') (JStr ''unknown'')) in
         (touchSession sid ms st, Some (''oauth:'' @ cid @ '':'' @ take 12 sid, cid, sid)))))"

section \<open>Checks\<close>

definition safeEqual :: "string \<Rightarrow> string \<Rightarrow> bool" where
  "safeEqual a b = (utf8 a = utf8 b)"

definition validRedirectUri :: "oauth_env \<Rightarrow> string \<Rightarrow> bool" where
  "validRedirectUri e uri = (case oe_url e uri of
     None \<Rightarrow> False
   | Some (protocol, hostname) \<Rightarrow> protocol = ''https:'' \<or>
       (protocol = ''http:'' \<and> hostname \<in> {''localhost'', ''127.0.0.1'', ''[::1]''}))"

definition validRedirect :: "oauth_env \<Rightarrow> stored_client \<Rightarrow> string \<Rightarrow> bool" where
  "validRedirect e client uri = (uri \<noteq> [] \<and> uri \<in> set (cl_redirect_uris client) \<and> validRedirectUri e uri)"

definition normalizeResource :: "oauth_env \<Rightarrow> jval \<Rightarrow> string option" where
  "normalizeResource e raw = (let resource = (case raw of JStr s \<Rightarrow> if trim s \<noteq> [] then trim s else MCP_RESOURCE e | _ \<Rightarrow> MCP_RESOURCE e) in
     if resource = MCP_RESOURCE e then Some resource else None)"

fun ws_words :: "string \<Rightarrow> string \<Rightarrow> string list" where
  "ws_words acc [] = (if acc = [] then [] else [rev acc])"
| "ws_words acc (c # cs) = (if is_ws c then (if acc = [] then [] else [rev acc]) @ ws_words [] cs else ws_words (c # acc) cs)"

definition scope_ok :: "jval \<Rightarrow> bool" where
  "scope_ok raw = (case raw of
     JStr s \<Rightarrow> trim s = [] \<or> (''mcp:read'' \<in> set (ws_words [] s) \<and> set (ws_words [] s) \<subseteq> {''mcp:read'', ''offline_access''})
   | _ \<Rightarrow> True)"

section \<open>Endpoints\<close>

record tokens =
  tk_access :: string
  tk_refresh :: string

datatype oauth_reply =
    Refused int string
  | Registered stored_client
  | Login_Page "(string \<times> string) list" bool
  | Redirected string "(string \<times> string) list"
  | Issued tokens

type_synonym form = "(string \<times> jval) list"

text \<open>\<open>POST /register\<close>; \<open>rnd\<close> is the drawn part of the client id.\<close>

definition post_register :: "oauth_env \<Rightarrow> store_env \<Rightarrow> string \<Rightarrow> form \<Rightarrow> int \<Rightarrow> store \<Rightarrow> store \<times> oauth_reply" where
  "post_register e se rnd body now st = (case field body ''redirect_uris'' of
     JArr vs \<Rightarrow>
       if vs = [] \<or> 5 < length vs then (st, Refused 400 ''invalid_redirect_uri'')
       else (let uris = map str_of vs; method = field body ''token_endpoint_auth_method'' in
         if \<not> list_all (validRedirectUri e) uris then (st, Refused 400 ''invalid_redirect_uri'')
         else if js_true method \<and> method \<noteq> JStr ''none'' then (st, Refused 400 ''invalid_client_metadata'')
         else (let client = \<lparr>cl_id = ''ro-'' @ rnd, cl_name = text_up_to 100 (field body ''client_name''), cl_redirect_uris = uris,
                   cl_created_at = now, cl_last_seen_at = None, cl_revoked_at = None\<rparr>;
                   (st', ok) = registerClient se client now st
               in if ok then (st', Registered client) else (st', Refused 429 ''temporarily_unavailable'')))
   | _ \<Rightarrow> (st, Refused 400 ''invalid_redirect_uri''))"

definition form_text :: "form \<Rightarrow> string \<Rightarrow> string \<Rightarrow> string" where
  "form_text body k d = str_of (or_default (field body k) (JStr d))"

record authorize_fields =
  af_response_type :: string
  af_client_id :: string
  af_redirect_uri :: string
  af_state :: string
  af_challenge :: string
  af_method :: string
  af_scope :: string
  af_resource :: string

definition authorize_fields_of :: "oauth_env \<Rightarrow> string \<Rightarrow> form \<Rightarrow> authorize_fields" where
  "authorize_fields_of e response_type body =
    \<lparr>af_response_type = form_text body ''response_type'' response_type, af_client_id = form_text body ''client_id'' [],
     af_redirect_uri = form_text body ''redirect_uri'' [], af_state = form_text body ''state'' [],
     af_challenge = form_text body ''code_challenge'' [], af_method = form_text body ''code_challenge_method'' [],
     af_scope = form_text body ''scope'' SCOPES, af_resource = form_text body ''resource'' (MCP_RESOURCE e)\<rparr>"

definition hidden_fields :: "authorize_fields \<Rightarrow> (string \<times> string) list" where
  "hidden_fields f = [(''response_type'', af_response_type f), (''client_id'', af_client_id f), (''redirect_uri'', af_redirect_uri f),
     (''state'', af_state f), (''code_challenge'', af_challenge f), (''code_challenge_method'', af_method f),
     (''scope'', af_scope f), (''resource'', af_resource f)]"

definition known_redirect :: "oauth_env \<Rightarrow> authorize_fields \<Rightarrow> store \<Rightarrow> bool" where
  "known_redirect e f st = (case getClient (af_client_id f) st of
     None \<Rightarrow> False | Some client \<Rightarrow> \<not> truthy (cl_revoked_at client) \<and> validRedirect e client (af_redirect_uri f))"

definition scope_and_resource_ok :: "oauth_env \<Rightarrow> authorize_fields \<Rightarrow> bool" where
  "scope_and_resource_ok e f = (scope_ok (JStr (af_scope f)) \<and> normalizeResource e (JStr (af_resource f)) \<noteq> None)"

text \<open>\<open>GET /authorize\<close>\<close>

definition get_authorize :: "oauth_env \<Rightarrow> form \<Rightarrow> store \<Rightarrow> oauth_reply" where
  "get_authorize e query st = (let f = authorize_fields_of e [] query in
     if af_response_type f \<noteq> ''code'' \<or> \<not> known_redirect e f st then Refused 400 ''invalid_request''
     else if af_method f \<noteq> ''S256'' \<or> length (af_challenge f) < 43 then Refused 400 ''pkce_required''
     else if \<not> scope_and_resource_ok e f then Refused 400 ''invalid_scope''
     else Login_Page (hidden_fields f) False)"

text \<open>\<open>POST /authorize/submit\<close>; \<open>rnd\<close> is the drawn part of the code.\<close>

definition post_authorize_submit :: "oauth_env \<Rightarrow> world \<Rightarrow> string \<Rightarrow> form \<Rightarrow> int \<Rightarrow> store \<Rightarrow> store \<times> oauth_reply" where
  "post_authorize_submit e w rnd body now st = (let f = authorize_fields_of e ''code'' body in
     if \<not> known_redirect e f st \<or> af_method f \<noteq> ''S256'' \<or> length (af_challenge f) < 43 then (st, Refused 400 ''invalid_request'')
     else if \<not> scope_and_resource_ok e f then (st, Refused 400 ''invalid_scope'')
     else if \<not> safeEqual (str_or_empty (field body ''password'')) (oe_password e) then (st, Login_Page (hidden_fields f) True)
     else (let raw = ''code-'' @ rnd in
       (putAuthCode (w_sha w) raw \<lparr>ac_code_hash = [], ac_client_id = af_client_id f, ac_redirect_uri = af_redirect_uri f,
          ac_challenge = af_challenge f, ac_resource = Some (af_resource f), ac_expires_at = now + CODE_TTL_S * 1000\<rparr> st,
        Redirected (af_redirect_uri f) ([(''code'', raw), (''iss'', oe_base e)] @
          (if af_state f = [] then [] else [(''state'', af_state f)])))))"

definition access_claims :: "string \<Rightarrow> string \<Rightarrow> string \<Rightarrow> int \<Rightarrow> int \<Rightarrow> (string \<times> jval) list" where
  "access_claims clientId sessionId jti ms accessExpiresAt =
    [(''cid'', JStr clientId), (''sid'', JStr sessionId), (''sub'', JStr (''mcp-session:'' @ sessionId)), (''jti'', JStr (''at-'' @ jti)),
     (''iat'', JNum (NInt (ms div 1000))), (''exp'', JNum (NInt (accessExpiresAt div 1000)))]"

definition tokenResponse :: "oauth_env \<Rightarrow> string \<Rightarrow> string \<Rightarrow> string \<Rightarrow> string \<Rightarrow> int \<Rightarrow> int \<Rightarrow> string \<Rightarrow> oauth_reply" where
  "tokenResponse e jti clientId sessionId refresh now accessExpiresAt resource =
    Issued \<lparr>tk_access = signAccessToken e (access_claims clientId sessionId jti now accessExpiresAt) resource, tk_refresh = refresh\<rparr>"

record draws =
  dr_session :: string
  dr_refresh :: string
  dr_jti :: string

definition issueNewSession :: "oauth_env \<Rightarrow> world \<Rightarrow> draws \<Rightarrow> string \<Rightarrow> string \<Rightarrow> int \<Rightarrow> store \<Rightarrow> store \<times> oauth_reply" where
  "issueNewSession e w dr clientId resource now st =
    (let sessionId = ''sess-'' @ dr_session dr; refresh = ''rt-'' @ dr_refresh dr; accessExpiresAt = now + ACCESS_TTL_S * 1000 in
     (createSession \<lparr>ss_id = sessionId, ss_client_id = clientId, ss_created_at = now, ss_last_seen_at = now,
        ss_access_expires_at = accessExpiresAt, ss_refresh_hash = w_sha w refresh, ss_refresh_expires_at = now + REFRESH_TTL_S * 1000,
        ss_resource = Some resource, ss_revoked_at = None\<rparr> st,
      tokenResponse e (dr_jti dr) clientId sessionId refresh now accessExpiresAt resource))"

definition opt_text :: "string option \<Rightarrow> jval" where
  "opt_text x = (case x of None \<Rightarrow> JUndef | Some s \<Rightarrow> JStr s)"

text \<open>The code of the first grant redeems only for its client, its redirect, its resource and its verifier.\<close>

definition code_matches :: "oauth_env \<Rightarrow> stored_auth_code \<Rightarrow> string \<Rightarrow> string \<Rightarrow> string \<Rightarrow> string \<Rightarrow> bool" where
  "code_matches e c clientId redirectUri resource verifier =
    (ac_client_id c = clientId \<and> ac_redirect_uri c = redirectUri \<and> coalesce (ac_resource c) (MCP_RESOURCE e) = resource \<and>
     43 \<le> length verifier \<and> safeEqual (oe_pkce e verifier) (ac_challenge c))"

definition grant_code :: "oauth_env \<Rightarrow> world \<Rightarrow> draws \<Rightarrow> string \<Rightarrow> form \<Rightarrow> int \<Rightarrow> store \<Rightarrow> store \<times> oauth_reply" where
  "grant_code e w dr clientId body now st =
    (let (st', found) = consumeAuthCode (w_sha w) (str_or_empty (field body ''code'')) now st;
         verifier = str_or_empty (field body ''code_verifier''); redirectUri = str_or_empty (field body ''redirect_uri'');
         asked = or_default (field body ''resource'')
           (or_default (case found of None \<Rightarrow> JUndef | Some c \<Rightarrow> opt_text (ac_resource c)) (JStr (MCP_RESOURCE e)))
     in case normalizeResource e asked of
       None \<Rightarrow> (st', Refused 400 ''invalid_target'')
     | Some resource \<Rightarrow> (case found of
         None \<Rightarrow> (st', Refused 400 ''invalid_grant'')
       | Some c \<Rightarrow>
          if code_matches e c clientId redirectUri resource verifier then issueNewSession e w dr clientId resource now st'
          else (st', Refused 400 ''invalid_grant'')))"

definition grant_refresh :: "oauth_env \<Rightarrow> world \<Rightarrow> draws \<Rightarrow> string \<Rightarrow> form \<Rightarrow> int \<Rightarrow> store \<Rightarrow> store \<times> oauth_reply" where
  "grant_refresh e w dr clientId body now st = (case findSessionByRefreshToken (w_sha w) (str_or_empty (field body ''refresh_token'')) st of
     None \<Rightarrow> (st, Refused 400 ''invalid_grant'')
   | Some s \<Rightarrow>
      if ss_client_id s \<noteq> clientId \<or> truthy (ss_revoked_at s) \<or> ss_refresh_expires_at s < now then (st, Refused 400 ''invalid_grant'')
      else (let nextRefresh = ''rt-'' @ dr_refresh dr; accessExpiresAt = now + ACCESS_TTL_S * 1000;
                (st', ok) = rotateRefreshToken (w_sha w) (ss_id s) nextRefresh (now + REFRESH_TTL_S * 1000) accessExpiresAt now st in
        if \<not> ok then (st', Refused 400 ''invalid_grant'')
        else (case normalizeResource e (or_default (field body ''resource'') (or_default (opt_text (ss_resource s)) (JStr (MCP_RESOURCE e)))) of
            None \<Rightarrow> (st', Refused 400 ''invalid_target'')
          | Some resource \<Rightarrow>
             if coalesce (ss_resource s) (MCP_RESOURCE e) \<noteq> resource then (st', Refused 400 ''invalid_target'')
             else (st', tokenResponse e (dr_jti dr) clientId (ss_id s) nextRefresh now accessExpiresAt resource))))"

text \<open>\<open>POST /token\<close>\<close>

definition post_token :: "oauth_env \<Rightarrow> world \<Rightarrow> draws \<Rightarrow> form \<Rightarrow> int \<Rightarrow> store \<Rightarrow> store \<times> oauth_reply" where
  "post_token e w dr body now st =
    (let grant = str_or_empty (field body ''grant_type''); clientId = str_or_empty (field body ''client_id'') in
     case getClient clientId st of
       None \<Rightarrow> (st, Refused 400 ''invalid_client'')
     | Some client \<Rightarrow>
        if truthy (cl_revoked_at client) then (st, Refused 400 ''invalid_client'')
        else if grant = ''authorization_code'' then grant_code e w dr clientId body now st
        else if grant = ''refresh_token'' then grant_refresh e w dr clientId body now st
        else (st, Refused 400 ''unsupported_grant_type''))"

end
