(* ===== verification/OAuth_Properties.thy ===== *)
theory OAuth_Properties
  imports OAuth Store_Properties
begin

text \<open>
  The authorization server of \<^verbatim>\<open>src/auth/oauth.ts\<close> over the store: who gets a code, who redeems it, and that a login
  that follows the protocol ends with a token the server accepts.
\<close>

section \<open>Encodings\<close>

lemma digit_64: "n < 64 \<Longrightarrow> b64_char (b64_digit n) \<and> b64_value (b64_digit n) = n"
  by (rule b64_digit_value)

definition url_char :: "char \<Rightarrow> char" where
  "url_char c = (if c = CHR ''+'' then CHR ''-'' else if c = slash then CHR ''_'' else c)"

lemma pad_after_digits: "c \<in> set (dropWhile b64_char (b64_encode s)) \<Longrightarrow> c = CHR ''=''"
  using b64_decode_encode [of s] by (auto simp: b64_text_def Let_def list_all_iff)

lemma pad_no_char: "\<not> b64_char (CHR ''='')"
  by code_simp

lemma unpadded: "filter (\<lambda>c. c \<noteq> CHR ''='') (b64_encode s) = takeWhile b64_char (b64_encode s)"
proof -
  have "filter (\<lambda>c. c \<noteq> CHR ''='') (takeWhile b64_char xs) = takeWhile b64_char xs" for xs
    using pad_no_char by (induction xs) auto
  moreover have "filter (\<lambda>c. c \<noteq> CHR ''='') (dropWhile b64_char (b64_encode s)) = []"
    using pad_after_digits [of _ s] by (auto simp: filter_empty_conv)
  ultimately show ?thesis
    by (metis append_Nil2 filter_append takeWhile_dropWhile_id)
qed

lemma url_char_back: "b64_char c \<Longrightarrow> b64url_to_std (url_char c) = c"
proof -
  have "\<not> b64_char (CHR ''-'')" "\<not> b64_char (CHR ''_'')" by code_simp+
  then show "b64_char c \<Longrightarrow> ?thesis" by (auto simp: b64url_to_std_def url_char_def)
qed

lemma b64url_round_trip: "b64url_decode (b64url_encode s) = s"
proof -
  let ?d = "takeWhile b64_char (b64_encode s)"
  have "map b64url_to_std (map url_char ?d) = ?d"
    unfolding map_map comp_def by (rule map_idI) (auto dest: set_takeWhileD url_char_back)
  moreover have "b64url_encode s = map url_char ?d"
    by (simp add: b64url_encode_def unpadded url_char_def [abs_def])
  moreover have "filter b64_char ?d = ?d" by (simp add: filter_id_conv) (auto dest: set_takeWhileD)
  ultimately show ?thesis using b64_decode_encode [of s] by (simp add: b64url_decode_def)
qed

lemma no_dot: "CHR ''.'' \<notin> set (b64url_encode s)"
proof -
  have dot: "\<not> b64_char (CHR ''.'')" by code_simp
  then have "\<forall>c \<in> set (takeWhile b64_char (b64_encode s)). CHR ''.'' \<noteq> url_char c"
    by (auto simp: url_char_def dest!: set_takeWhileD)
  then have "CHR ''.'' \<notin> set (map url_char (takeWhile b64_char (b64_encode s)))" by (simp add: image_iff)
  then show ?thesis by (simp add: b64url_encode_def unpadded url_char_def [abs_def])
qed

section \<open>Tokens\<close>

text \<open>What the server has signed it accepts exactly when the claims hold.\<close>

lemma signed_token_verifies:
  assumes "oe_parse e (oe_text e (utf8 (json_text (JObj (token_claims e payload resource))))) = Some (JObj (token_claims e payload resource))"
  shows "verifyAccessToken e (signAccessToken e payload resource) ms st =
    (if claims_ok e (JObj (token_claims e payload resource)) ms st then Some (JObj (token_claims e payload resource)) else None)"
proof -
  let ?h = "b64uJson [(''alg'', JStr ''HS256''), (''typ'', JStr ''JWT'')]" and ?b = "b64uJson (token_claims e payload resource)"
  let ?s = "b64url_encode (oe_hmac e (oe_secret e) (?h @ ''.'' @ ?b))"
  have dots: "CHR ''.'' \<notin> set ?h" "CHR ''.'' \<notin> set ?b" "CHR ''.'' \<notin> set ?s" by (simp_all add: b64uJson_def no_dot)
  have "split_on (CHR ''.'') (signAccessToken e payload resource) = [?h, ?b, ?s]"
    using split_on_append [OF dots(1), of "?b @ CHR ''.'' # ?s"] split_on_append [OF dots(2), of ?s] split_on_no_sep [OF dots(3)]
    by (simp add: signAccessToken_def Let_def)
  moreover have "b64url_decode ?b = utf8 (json_text (JObj (token_claims e payload resource)))"
    by (simp add: b64uJson_def b64url_round_trip)
  ultimately show ?thesis using assms by (simp add: verifyAccessToken_def b64url_round_trip)
qed

lemma access_claims_ok:
  "claims_ok e (JObj (token_claims e (access_claims cid sid jti t0 t1) (MCP_RESOURCE e))) ms st \<longleftrightarrow>
     ms div 1000 < t1 div 1000 \<and> t0 div 1000 \<le> ms div 1000 + 60 \<and> cid \<noteq> [] \<and> sid \<noteq> [] \<and> sessionIsActive sid cid ms st"
  by (auto simp: claims_ok_def token_claims_def access_claims_def attr_def field_def number_above_def text_of_def Let_def update_conv)

section \<open>Codes\<close>

text \<open>C9: A code is stored only for the owner's password. When a submitted authorization changes the store, the client is
  registered and not revoked, the redirect is one of the client's own and uses HTTPS or the loopback interface, the
  challenge is an S256 one of at least 43 characters, scope and resource are the server's, and the password is
  right; the code that is then sent is bound to that client, redirect and challenge.\<close>

theorem authorization_needs_password:
  assumes "post_authorize_submit e w rnd body now st = (st', r)" "st' \<noteq> st"
  shows "\<exists>client f. f = authorize_fields_of e ''code'' body \<and> getClient (af_client_id f) st = Some client \<and>
    \<not> truthy (cl_revoked_at client) \<and> af_redirect_uri f \<in> set (cl_redirect_uris client) \<and> validRedirectUri e (af_redirect_uri f) \<and>
    af_method f = ''S256'' \<and> 43 \<le> length (af_challenge f) \<and> scope_and_resource_ok e f \<and>
    safeEqual (str_or_empty (field body ''password'')) (oe_password e) \<and>
    (\<exists>c. map_of (auth_codes (mem st')) (w_sha w (''code-'' @ rnd)) = Some c \<and> ac_client_id c = af_client_id f \<and>
      ac_redirect_uri c = af_redirect_uri f \<and> ac_challenge c = af_challenge f \<and> ac_expires_at c = now + 600000) \<and>
    r = Redirected (af_redirect_uri f) ([(''code'', ''code-'' @ rnd), (''iss'', oe_base e)] @
      (if af_state f = [] then [] else [(''state'', af_state f)]))"
proof -
  define f where "f = authorize_fields_of e ''code'' body"
  from assms have ok: "known_redirect e f st" "af_method f = ''S256''" "43 \<le> length (af_challenge f)" "scope_and_resource_ok e f"
      "safeEqual (str_or_empty (field body ''password'')) (oe_password e)"
    and st': "st' = putAuthCode (w_sha w) (''code-'' @ rnd) \<lparr>ac_code_hash = [], ac_client_id = af_client_id f,
          ac_redirect_uri = af_redirect_uri f, ac_challenge = af_challenge f, ac_resource = Some (af_resource f),
          ac_expires_at = now + 600000\<rparr> st"
    and r: "r = Redirected (af_redirect_uri f) ([(''code'', ''code-'' @ rnd), (''iss'', oe_base e)] @
      (if af_state f = [] then [] else [(''state'', af_state f)]))"
    by (auto simp: post_authorize_submit_def f_def [symmetric] Let_def CODE_TTL_S_def split: if_splits)
  from ok(1) obtain client where "getClient (af_client_id f) st = Some client" "\<not> truthy (cl_revoked_at client)"
      "af_redirect_uri f \<in> set (cl_redirect_uris client)" "validRedirectUri e (af_redirect_uri f)"
    by (auto simp: known_redirect_def validRedirect_def split: option.splits)
  with ok st' r show ?thesis
    unfolding f_def [symmetric] by (auto simp: putAuthCode_def commit_def persist_def)
qed

lemma code_grant_facts:
  assumes "post_token e w dr body now st = (st', Issued t)" "str_or_empty (field body ''grant_type'') = ''authorization_code''"
    and "0 \<le> now"
  shows "\<exists>c client resource. getClient (str_or_empty (field body ''client_id'')) st = Some client \<and> \<not> truthy (cl_revoked_at client) \<and>
    map_of (auth_codes (mem st)) (w_sha w (str_or_empty (field body ''code''))) = Some c \<and> now \<le> ac_expires_at c \<and>
    code_matches e c (str_or_empty (field body ''client_id'')) (str_or_empty (field body ''redirect_uri'')) resource
      (str_or_empty (field body ''code_verifier'')) \<and> resource = MCP_RESOURCE e \<and>
    map_of (auth_codes (mem st')) (w_sha w (str_or_empty (field body ''code''))) = None \<and>
    sessionIsActive (''sess-'' @ dr_session dr) (str_or_empty (field body ''client_id'')) now st' \<and>
    tk_access t = signAccessToken e (access_claims (str_or_empty (field body ''client_id'')) (''sess-'' @ dr_session dr)
      (dr_jti dr) now (now + 3600000)) resource"
proof -
  let ?cid = "str_or_empty (field body ''client_id'')" and ?raw = "str_or_empty (field body ''code'')"
  from assms(1,2) obtain client where client: "getClient ?cid st = Some client" "\<not> truthy (cl_revoked_at client)"
      "grant_code e w dr ?cid body now st = (st', Issued t)"
    by (auto simp: post_token_def Let_def split: option.splits if_splits)
  obtain st1 found where c1: "consumeAuthCode (w_sha w) ?raw now st = (st1, found)" by force
  from client(3) c1 obtain c resource where c: "found = Some c"
      "code_matches e c ?cid (str_or_empty (field body ''redirect_uri'')) resource (str_or_empty (field body ''code_verifier''))"
      "resource = MCP_RESOURCE e" "issueNewSession e w dr ?cid resource now st1 = (st', Issued t)"
    by (auto simp: grant_code_def Let_def normalizeResource_def split: option.splits if_splits)
  from c1 c(1) have code: "map_of (auth_codes (mem st)) (w_sha w ?raw) = Some c" "now \<le> ac_expires_at c"
      "map_of (auth_codes (mem st1)) (w_sha w ?raw) = None" "clients (mem st1) = clients (mem st)"
    by (auto simp: consumeAuthCode_def commit_def persist_def delete_conv' split: option.splits if_splits)
  from c(4) have st': "auth_codes (mem st') = auth_codes (mem st1)" "clients (mem st') = clients (mem st1)"
      "sessionIsActive (''sess-'' @ dr_session dr) ?cid now st'"
      "tk_access t = signAccessToken e (access_claims ?cid (''sess-'' @ dr_session dr) (dr_jti dr) now (now + 3600000)) resource"
    using client code(4) assms(3)
    by (auto simp: issueNewSession_def tokenResponse_def Let_def createSession_def commit_def persist_def sessionIsActive_def active_in_def
        getClient_def REFRESH_TTL_S_def ACCESS_TTL_S_def update_conv)
  with client code c show ?thesis by auto
qed

text \<open>C8: An authorization code is redeemed only by its client, for its redirect and resource, with a verifier of at least
  43 characters whose hash is the challenge, before it expires; it is gone afterwards, and the session it opens
  is active and belongs to that client.\<close>

theorem code_grant_sound:
  assumes "post_token e w dr body now st = (st', Issued t)" "str_or_empty (field body ''grant_type'') = ''authorization_code''"
    and "0 \<le> now"
  shows "\<exists>c client resource. getClient (str_or_empty (field body ''client_id'')) st = Some client \<and> \<not> truthy (cl_revoked_at client) \<and>
    map_of (auth_codes (mem st)) (w_sha w (str_or_empty (field body ''code''))) = Some c \<and> now \<le> ac_expires_at c \<and>
    ac_client_id c = str_or_empty (field body ''client_id'') \<and> ac_redirect_uri c = str_or_empty (field body ''redirect_uri'') \<and>
    coalesce (ac_resource c) (MCP_RESOURCE e) = resource \<and> resource = MCP_RESOURCE e \<and>
    43 \<le> length (str_or_empty (field body ''code_verifier'')) \<and>
    safeEqual (oe_pkce e (str_or_empty (field body ''code_verifier''))) (ac_challenge c) \<and>
    map_of (auth_codes (mem st')) (w_sha w (str_or_empty (field body ''code''))) = None \<and>
    sessionIsActive (''sess-'' @ dr_session dr) (str_or_empty (field body ''client_id'')) now st' \<and>
    tk_access t = signAccessToken e (access_claims (str_or_empty (field body ''client_id'')) (''sess-'' @ dr_session dr)
      (dr_jti dr) now (now + 3600000)) resource"
  using code_grant_facts [OF assms] by (auto simp: code_matches_def)

section \<open>A login\<close>

lemma login_facts:
  assumes "post_authorize_submit e w rnd body t0 st = (st1, Redirected uri ps)" "f = authorize_fields_of e ''code'' body"
    and "af_resource f = MCP_RESOURCE e" "af_client_id f \<noteq> []"
    and "field form ''grant_type'' = JStr ''authorization_code''" "field form ''client_id'' = JStr (af_client_id f)"
    and "field form ''code'' = JStr (''code-'' @ rnd)" "field form ''redirect_uri'' = JStr (af_redirect_uri f)"
    and "field form ''code_verifier'' = JStr verifier" "field form ''resource'' = JUndef"
    and "safeEqual (oe_pkce e verifier) (af_challenge f)" "43 \<le> length verifier" "t1 \<le> t0 + 600000"
    and "claims = token_claims e (access_claims (af_client_id f) (''sess-'' @ dr_session dr) (dr_jti dr) t1 (t1 + 3600000)) (MCP_RESOURCE e)"
    and "oe_parse e (oe_text e (utf8 (json_text (JObj claims)))) = Some (JObj claims)"
    and "trim (MCP_RESOURCE e) = MCP_RESOURCE e"
  shows "\<exists>st2 t. post_token e w dr form t1 st1 = (st2, Issued t) \<and>
    (\<forall>ms. t1 \<le> ms \<and> ms \<le> t1 + 3599000 \<longrightarrow> verifyAccessToken e (tk_access t) ms st2 = Some (JObj claims))"
proof -
  let ?h = "w_sha w (''code-'' @ rnd)"
  from assms(1) have known: "known_redirect e f st"
    and st1: "st1 = putAuthCode (w_sha w) (''code-'' @ rnd) \<lparr>ac_code_hash = [], ac_client_id = af_client_id f,
          ac_redirect_uri = af_redirect_uri f, ac_challenge = af_challenge f, ac_resource = Some (af_resource f),
          ac_expires_at = t0 + 600000\<rparr> st"
    by (auto simp: post_authorize_submit_def assms(2)[symmetric] Let_def CODE_TTL_S_def split: if_splits)
  from known obtain client where client: "map_of (clients (mem st)) (af_client_id f) = Some client" "\<not> truthy (cl_revoked_at client)"
    by (auto simp: known_redirect_def getClient_def split: option.splits)
  let ?c = "\<lparr>ac_code_hash = ?h, ac_client_id = af_client_id f, ac_redirect_uri = af_redirect_uri f, ac_challenge = af_challenge f,
      ac_resource = Some (MCP_RESOURCE e), ac_expires_at = t0 + 600000\<rparr>"
  have c: "map_of (auth_codes (mem st1)) ?h = Some ?c" "clients (mem st1) = clients (mem st)"
    using assms(3) by (simp_all add: st1 putAuthCode_def commit_def persist_def)
  obtain st1' where consumed: "consumeAuthCode (w_sha w) (''code-'' @ rnd) t1 st1 = (st1', Some ?c)" "clients (mem st1') = clients (mem st)"
    using c assms(13) by (simp add: consumeAuthCode_def commit_def persist_def)
  let ?sid = "''sess-'' @ dr_session dr"
  obtain st2 t where issued: "issueNewSession e w dr (af_client_id f) (MCP_RESOURCE e) t1 st1' = (st2, Issued t)"
      "tk_access t = signAccessToken e (access_claims (af_client_id f) ?sid (dr_jti dr) t1 (t1 + 3600000)) (MCP_RESOURCE e)"
      "\<And>ms. ms \<le> t1 + 2592000000 \<Longrightarrow> sessionIsActive ?sid (af_client_id f) ms st2"
    using client consumed(2)
    by (auto simp: issueNewSession_def tokenResponse_def Let_def createSession_def commit_def persist_def sessionIsActive_def active_in_def
        REFRESH_TTL_S_def ACCESS_TTL_S_def)
  have "MCP_RESOURCE e \<noteq> []" by (simp add: MCP_RESOURCE_def)
  then have "grant_code e w dr (af_client_id f) form t1 st1 = (st2, Issued t)"
    using assms(5-12,16) consumed(1) issued(1)
    by (simp add: grant_code_def opt_text_def or_default_def nullish_def normalizeResource_def code_matches_def coalesce_def)
  then have "post_token e w dr form t1 st1 = (st2, Issued t)"
    using assms(5,6) client c(2) by (simp add: post_token_def getClient_def)
  moreover have "verifyAccessToken e (tk_access t) ms st2 = Some (JObj claims)" if "t1 \<le> ms" "ms \<le> t1 + 3599000" for ms
  proof -
    have "ms div 1000 < (t1 + 3600000) div 1000" "t1 div 1000 \<le> ms div 1000 + 60"
      using that zdiv_mono1 [of t1 ms 1000] zdiv_mono1 [of ms "t1 + 3599000" 1000] by simp_all
    with that assms(4,14,15) issued(2,3) show ?thesis
      by (simp add: signed_token_verifies access_claims_ok)
  qed
  ultimately show ?thesis by blast
qed


text \<open>The resource is compared as it was submitted but checked without the blanks around it: with \<open>resource=\<close>, which the
  check accepts as the default, the code that is sent can never be redeemed.\<close>

lemma blank_resource_never_redeemed:
  assumes "post_authorize_submit e w rnd body t0 st = (st1, Redirected uri ps)" "af_resource (authorize_fields_of e ''code'' body) \<noteq> MCP_RESOURCE e"
    and "field form ''grant_type'' = JStr ''authorization_code''" "field form ''code'' = JStr (''code-'' @ rnd)" "0 \<le> t1"
  shows "snd (post_token e w dr form t1 st1) \<noteq> Issued t"
proof
  assume "snd (post_token e w dr form t1 st1) = Issued t"
  then obtain st2 where "post_token e w dr form t1 st1 = (st2, Issued t)" by (cases "post_token e w dr form t1 st1") simp
  from code_grant_facts [OF this _ assms(5)] assms(3,4) obtain c where
      "map_of (auth_codes (mem st1)) (w_sha w (''code-'' @ rnd)) = Some c" "coalesce (ac_resource c) (MCP_RESOURCE e) = MCP_RESOURCE e"
    by (auto simp: code_matches_def)
  with assms(1,2) show False
    by (auto simp: post_authorize_submit_def Let_def putAuthCode_def commit_def persist_def coalesce_def split: if_splits)
qed

section \<open>A client\<close>

definition demo_oauth :: oauth_env where
  "demo_oauth = \<lparr>oe_base = ''https://s'', oe_secret = ''k'', oe_password = ''pw'', oe_hmac = (\<lambda>k d. d), oe_pkce = (\<lambda>v. v),
     oe_parse = (\<lambda>s. Some (JObj (token_claims (\<lparr>oe_base = ''https://s'', oe_secret = ''k'', oe_password = ''pw'', oe_hmac = (\<lambda>k d. d),
       oe_pkce = (\<lambda>v. v), oe_parse = (\<lambda>s. None), oe_text = (\<lambda>s. s), oe_url = (\<lambda>u. None), oe_above = (\<lambda>s n. False)\<rparr>)
       (access_claims ''ro-c'' ''sess-1'' ''j'' 5000 3605000) ''https://s/mcp''))),
     oe_text = (\<lambda>s. s), oe_url = (\<lambda>u. Some (''https:'', ''a'')), oe_above = (\<lambda>s n. False)\<rparr>"

definition demo_verifier :: string where "demo_verifier = replicate 43 (CHR ''v'')"

definition demo_submit :: form where
  "demo_submit = [(''client_id'', JStr ''ro-c''), (''redirect_uri'', JStr ''https://a''), (''code_challenge'', JStr demo_verifier),
     (''code_challenge_method'', JStr ''S256''), (''password'', JStr ''pw'')]"

definition demo_redeem :: form where
  "demo_redeem = [(''grant_type'', JStr ''authorization_code''), (''client_id'', JStr ''ro-c''), (''code'', JStr ''code-1''),
     (''redirect_uri'', JStr ''https://a''), (''code_verifier'', JStr demo_verifier)]"

definition demo_clients :: store where
  "demo_clients = store_run demo_world [(RegisterClient (demo_client ''ro-c'' 1000), 1000)] fresh_store"

definition demo_draws :: draws where
  "demo_draws = \<lparr>dr_session = ''1'', dr_refresh = ''r'', dr_jti = ''j''\<rparr>"

lemma demo_submitted:
  "\<exists>st1. post_authorize_submit demo_oauth demo_world ''1'' demo_submit 2000 demo_clients =
     (st1, Redirected ''https://a'' [(''code'', ''code-1''), (''iss'', ''https://s'')]) \<and> st1 \<noteq> demo_clients"
proof -
  let ?r = "post_authorize_submit demo_oauth demo_world ''1'' demo_submit 2000 demo_clients"
  have "snd ?r = Redirected ''https://a'' [(''code'', ''code-1''), (''iss'', ''https://s'')]" by code_simp
  moreover have "auth_codes (mem (fst ?r)) \<noteq> auth_codes (mem demo_clients)" by code_simp
  ultimately show ?thesis by (metis prod.collapse)
qed

theorem authorization_needs_password_witness:
  "\<exists>st1 c. post_authorize_submit demo_oauth demo_world ''1'' demo_submit 2000 demo_clients =
     (st1, Redirected ''https://a'' [(''code'', ''code-1''), (''iss'', ''https://s'')]) \<and>
     map_of (auth_codes (mem st1)) ''code-1'' = Some c \<and> ac_client_id c = ''ro-c''"
proof -
  obtain st1 where s: "post_authorize_submit demo_oauth demo_world ''1'' demo_submit 2000 demo_clients =
     (st1, Redirected ''https://a'' [(''code'', ''code-1''), (''iss'', ''https://s'')])" "st1 \<noteq> demo_clients"
    using demo_submitted by blast
  have "af_client_id (authorize_fields_of demo_oauth ''code'' demo_submit) = ''ro-c''" by code_simp
  with authorization_needs_password [OF s] s(1) show ?thesis by (auto simp: demo_world_def)
qed

definition demo_fields_of :: authorize_fields where
  "demo_fields_of = authorize_fields_of demo_oauth ''code'' demo_submit"

lemma demo_field_values:
  "af_resource demo_fields_of = MCP_RESOURCE demo_oauth" "af_client_id demo_fields_of = ''ro-c''"
  "af_redirect_uri demo_fields_of = ''https://a''" "af_challenge demo_fields_of = demo_verifier"
  "trim (MCP_RESOURCE demo_oauth) = MCP_RESOURCE demo_oauth"
  by code_simp+

lemma demo_form:
  "field demo_redeem ''grant_type'' = JStr ''authorization_code''" "field demo_redeem ''client_id'' = JStr (af_client_id demo_fields_of)"
  "field demo_redeem ''code'' = JStr (''code-'' @ ''1'')" "field demo_redeem ''redirect_uri'' = JStr (af_redirect_uri demo_fields_of)"
  "field demo_redeem ''code_verifier'' = JStr demo_verifier" "field demo_redeem ''resource'' = JUndef"
  by (simp_all add: demo_redeem_def field_def demo_field_values)

lemma demo_pkce: "safeEqual (oe_pkce demo_oauth demo_verifier) (af_challenge demo_fields_of)" "43 \<le> length demo_verifier"
  unfolding demo_field_values(4) by (simp_all add: safeEqual_def demo_oauth_def demo_verifier_def)

definition demo_claims :: "(string \<times> jval) list" where
  "demo_claims = token_claims demo_oauth (access_claims (af_client_id demo_fields_of) (''sess-'' @ dr_session demo_draws)
     (dr_jti demo_draws) 5000 (5000 + 3600000)) (MCP_RESOURCE demo_oauth)"

lemma demo_law: "oe_parse demo_oauth (oe_text demo_oauth (utf8 (json_text (JObj demo_claims)))) = Some (JObj demo_claims)"
  unfolding demo_claims_def demo_field_values(2)
  by (simp add: demo_oauth_def demo_draws_def MCP_RESOURCE_def token_claims_def access_claims_def)

lemma demo_login:
  assumes "post_authorize_submit demo_oauth demo_world ''1'' demo_submit 2000 demo_clients = (st1, Redirected uri ps)"
  shows "\<exists>st2 t. post_token demo_oauth demo_world demo_draws demo_redeem 5000 st1 = (st2, Issued t)"
proof -
  have "af_client_id demo_fields_of \<noteq> []" by (simp add: demo_field_values)
  from login_facts [OF assms demo_fields_of_def demo_field_values(1) this demo_form demo_pkce _ demo_claims_def demo_law demo_field_values(5)]
  show ?thesis by auto
qed

theorem code_grant_sound_witness:
  "\<exists>st1 st2 t r. post_authorize_submit demo_oauth demo_world ''1'' demo_submit 2000 demo_clients = (st1, r) \<and>
     post_token demo_oauth demo_world demo_draws demo_redeem 5000 st1 = (st2, Issued t) \<and>
     map_of (auth_codes (mem st2)) ''code-1'' = None \<and> sessionIsActive ''sess-1'' ''ro-c'' 5000 st2"
proof -
  obtain st1 uri ps where s: "post_authorize_submit demo_oauth demo_world ''1'' demo_submit 2000 demo_clients = (st1, Redirected uri ps)"
    using demo_submitted by blast
  from demo_login [OF s] obtain st2 t where t: "post_token demo_oauth demo_world demo_draws demo_redeem 5000 st1 = (st2, Issued t)"
    by blast
  have "str_or_empty (field demo_redeem ''grant_type'') = ''authorization_code''" "str_or_empty (field demo_redeem ''client_id'') = ''ro-c''"
      "str_or_empty (field demo_redeem ''code'') = ''code-1''"
    by (simp_all add: demo_redeem_def field_def)
  with code_grant_sound [OF t] s t show ?thesis by (auto simp: demo_world_def demo_draws_def)
qed


end
