(* ===== verification/Openhands.thy ===== *)
theory Openhands
  imports Agent_Exec Docker_Payloads Portainer
begin

text \<open>
  The bridge of the agent to a local OpenHands server (\<^verbatim>\<open>src/agent/openhands.ts\<close>): one command as the tree of the HTTP
  requests it makes, with any answers, and what it lets through of them. The reader of JSON, the literals and the
  comparison of numbers, the session key on disk and the test for the raw mark of a tool call (whose text is no Latin-1)
  are parameters.
\<close>

section \<open>Parameters and requests\<close>

record oh_env =
  oh_lit :: "string \<Rightarrow> jnum"
  oh_above :: "string \<Rightarrow> int \<Rightarrow> bool"
  oh_parse :: "string \<Rightarrow> jval option"
  oh_mark :: "string \<Rightarrow> bool"
  oh_key :: "string option"

text \<open>A request to \<open>http://127.0.0.1:18080\<close>, and what comes of it: an error or an abort, or a status with the declared
  length and the chunks of a body, which ends or breaks off.\<close>

record oh_request =
  oq_method :: string
  oq_path :: string
  oq_headers :: "(string \<times> string) list"
  oq_body :: "jval option"

datatype body_end = Complete | Broken_Off bool

datatype fetched = Fetch_Error bool | Fetched nat "string option" "(string list \<times> body_end) option"

datatype oh_run = Oh_Done "exn + jval" | Fetch oh_request "fetched \<Rightarrow> oh_run"

text \<open>What an exception of the exchange becomes: an abort is the timeout, an error of the bridge keeps its name, any other
  is unavailability.\<close>

abbreviation oh_unavailable :: exn where "oh_unavailable \<equiv> Error ''openhands_unavailable''"
abbreviation oh_timeout :: exn where "oh_timeout \<equiv> Error ''openhands_timeout''"
abbreviation oh_invalid :: exn where "oh_invalid \<equiv> Error ''invalid_openhands_response''"

definition broken :: "bool \<Rightarrow> exn" where
  "broken aborted = (if aborted then oh_timeout else oh_unavailable)"

definition fetch_ok :: "nat \<Rightarrow> bool" where
  "fetch_ok status = (200 \<le> status \<and> status \<le> 299)"

section \<open>Bodies\<close>

definition MAX_OH_RESPONSE :: nat where "MAX_OH_RESPONSE = 131072"

fun read_chunks :: "nat \<Rightarrow> string list \<Rightarrow> body_end \<Rightarrow> exn + string" where
  "read_chunks got [] e = (case e of Complete \<Rightarrow> Inr [] | Broken_Off aborted \<Rightarrow> Inl (broken aborted))"
| "read_chunks got (c # cs) e =
    (if MAX_OH_RESPONSE < got + length c then Inl (Error ''openhands_response_too_large'')
     else bindR (read_chunks (got + length c) cs e) (\<lambda>s. Inr (c @ s)))"

definition declared_too_large :: "oh_env \<Rightarrow> string option \<Rightarrow> bool" where
  "declared_too_large w declared = (case declared of
     None \<Rightarrow> False
   | Some s \<Rightarrow> s \<noteq> [] \<and> (case num_of_text (oh_lit w) s of NInt n \<Rightarrow> int MAX_OH_RESPONSE < n | NOther x \<Rightarrow> oh_above w x (int MAX_OH_RESPONSE)))"

definition boundedJson :: "oh_env \<Rightarrow> string option \<Rightarrow> (string list \<times> body_end) option \<Rightarrow> exn + jval" where
  "boundedJson w declared body =
    bindR (ensure (\<not> declared_too_large w declared) (Error ''openhands_response_too_large'')) (\<lambda>_.
    (case body of
       None \<Rightarrow> Inl (Error ''openhands_empty_response'')
     | Some (chunks, e) \<Rightarrow>
         bindR (read_chunks 0 chunks e) (\<lambda>s.
         case oh_parse w s of None \<Rightarrow> Inl (Error ''openhands_invalid_json'') | Some v \<Rightarrow> Inr v)))"

section \<open>Projections\<close>

definition conversation_states :: "string list" where
  "conversation_states = [''idle'', ''running'', ''paused'', ''waiting_for_confirmation'', ''finished'', ''error'', ''stuck'', ''deleting'']"

definition safeText :: "jval \<Rightarrow> nat \<Rightarrow> string" where
  "safeText v limit = (case v of JStr s \<Rightarrow> take limit s | _ \<Rightarrow> [])"

definition text_or_null :: "string \<Rightarrow> jval" where
  "text_or_null s = (if s = [] then JNull else JStr s)"

definition projectConversation :: "jval \<Rightarrow> exn + jval" where
  "projectConversation v = (case (v, attr v ''id'') of
     (JObj fs, JStr i) \<Rightarrow>
        bindR (ensure (GUID i) oh_invalid) (\<lambda>_.
        Inr (JObj [(''id'', JStr i), (''title'', JStr (safeText (field fs ''title'') 200)),
          (''execution_status'', (if field fs ''execution_status'' \<in> JStr ` set conversation_states then field fs ''execution_status''
             else JStr ''unknown'')),
          (''created_at'', text_or_null (safeText (field fs ''created_at'') 50)),
          (''updated_at'', text_or_null (safeText (field fs ''updated_at'') 50))]))
   | _ \<Rightarrow> Inl oh_invalid)"

definition SAFE_KIND :: "string \<Rightarrow> bool" where
  "SAFE_KIND s = re_head_class (\<lambda>c. is_upper c \<or> is_lower c) is_alnum 0 63 s"

definition SAFE_TOOL_NAME :: "string \<Rightarrow> bool" where
  "SAFE_TOOL_NAME s = re_head_class (\<lambda>c. is_upper c \<or> is_lower c \<or> c = CHR ''_'') (alnum_or ''_.-'') 0 63 s"

definition SAFE_PAGE_ID :: "string \<Rightarrow> bool" where
  "SAFE_PAGE_ID s = re_class (alnum_or ''_=-'') 1 256 s"

definition diagnosticToolName :: "jval \<Rightarrow> jval" where
  "diagnosticToolName v = (case v of JStr s \<Rightarrow> if SAFE_TOOL_NAME s then JStr s else JNull | _ \<Rightarrow> JNull)"

definition event_kind :: "jval \<Rightarrow> string" where
  "event_kind v = (case v of JStr s \<Rightarrow> if SAFE_KIND s then s else ''UnknownEvent'' | _ \<Rightarrow> ''UnknownEvent'')"

definition event_source :: "jval \<Rightarrow> string" where
  "event_source v = (case v of JStr s \<Rightarrow> if s \<in> {''agent'', ''user'', ''environment''} then s else ''unknown'' | _ \<Rightarrow> ''unknown'')"

text \<open>An array counts as an object here.\<close>

definition plain_object :: "jval \<Rightarrow> bool" where
  "plain_object v = (case v of JObj fs \<Rightarrow> True | JArr vs \<Rightarrow> True | _ \<Rightarrow> False)"

definition array_items :: "jval \<Rightarrow> jval list" where
  "array_items v = (case v of JArr vs \<Rightarrow> vs | _ \<Rightarrow> [])"

definition marked_part :: "oh_env \<Rightarrow> jval \<Rightarrow> bool" where
  "marked_part w part = (case part of
     JStr s \<Rightarrow> oh_mark w s
   | JObj fs \<Rightarrow> (case field fs ''text'' of JStr s \<Rightarrow> oh_mark w s | _ \<Rightarrow> False)
   | _ \<Rightarrow> False)"

definition projectDiagnosticEvent :: "oh_env \<Rightarrow> jval \<Rightarrow> exn + jval" where
  "projectDiagnosticEvent w v = (case v of
     JObj fs \<Rightarrow>
       (let kind = event_kind (field fs ''kind''); source = event_source (field fs ''source'');
            isAction = (kind = ''ActionEvent'');
            isObservation = (kind \<in> {''ObservationEvent'', ''AgentErrorEvent'', ''UserRejectObservation''});
            isAgentMessage = (kind = ''MessageEvent'' \<and> source = ''agent'');
            lm = (if isAgentMessage then field fs ''llm_message'' else JNull) in
        Inr (JObj [(''kind'', JStr kind), (''source'', JStr source),
          (''tool_name'', (if isAction \<or> isObservation then diagnosticToolName (field fs ''tool_name'') else JNull)),
          (''structured_tool_call'', JBool (isAction \<and> plain_object (field fs ''tool_call'') \<or>
             isAgentMessage \<and> array_items (attr lm ''tool_calls'') \<noteq> [])),
          (''has_raw_dsml'', JBool (isAgentMessage \<and> list_ex (marked_part w) (array_items (attr lm ''content''))))]))
   | _ \<Rightarrow> Inl oh_invalid)"

section \<open>The configured agent\<close>

definition denied_status :: "nat \<Rightarrow> bool" where
  "denied_status status = (status = 401 \<or> status = 403)"

abbreviation settings_unavailable :: exn where "settings_unavailable \<equiv> Error ''openhands_agent_settings_unavailable''"

definition agent_source :: "jval \<Rightarrow> exn + (string \<times> jval) list" where
  "agent_source settings = (case settings of
     JObj fs \<Rightarrow>
       if \<not> nullish (field fs ''active_agent_profile_id'') then
         (case field fs ''active_agent_profile_id'' of
            JStr profile \<Rightarrow> bindR (ensure (GUID profile) settings_unavailable) (\<lambda>_. Inr [(''agent_profile_id'', JStr profile)])
          | _ \<Rightarrow> Inl settings_unavailable)
       else (case (field fs ''agent_settings'', attr (field fs ''agent_settings'') ''llm'') of
           (JObj agent, JObj llm) \<Rightarrow>
             bindR (ensure (case field llm ''model'' of JStr m \<Rightarrow> trim m \<noteq> [] | _ \<Rightarrow> False) settings_unavailable) (\<lambda>_.
             Inr [(''agent_settings'', JObj agent), (''secrets_encrypted'', JBool True)])
         | _ \<Rightarrow> Inl settings_unavailable)
   | _ \<Rightarrow> Inl settings_unavailable)"

definition settings_request :: "string \<Rightarrow> oh_request" where
  "settings_request key = \<lparr>oq_method = ''GET'', oq_path = ''/api/settings'',
     oq_headers = [(''X-Session-API-Key'', key), (''X-Expose-Secrets'', ''encrypted'')], oq_body = None\<rparr>"

definition settings_answer :: "oh_env \<Rightarrow> fetched \<Rightarrow> exn + (string \<times> jval) list" where
  "settings_answer w a = (case a of
     Fetch_Error aborted \<Rightarrow> Inl (broken aborted)
   | Fetched status declared body \<Rightarrow>
       if \<not> fetch_ok status then Inl (if denied_status status then Error ''openhands_auth_denied''
         else if status = 429 then Error ''openhands_rate_limited'' else settings_unavailable)
       else bindR (boundedJson w declared body) agent_source)"

definition start_body :: "(string \<times> jval) list \<Rightarrow> string \<Rightarrow> jval" where
  "start_body source task = JObj (source @
    [(''workspace'', JObj [(''kind'', JStr ''LocalWorkspace''), (''working_dir'', JStr ''/projects/mcp-coordination-lab'')]),
     (''confirmation_policy'', JObj [(''kind'', JStr ''AlwaysConfirm'')]), (''max_iterations'', JNum (NInt 60)),
     (''worktree'', JBool False), (''initial_message'', JObj [(''role'', JStr ''user''),
       (''content'', JArr [JObj [(''type'', JStr ''text''), (''text'', JStr task)]]), (''run'', JBool True)])])"

section \<open>Commands\<close>

text \<open>The method and the path of a command, and the task of a start. A query is built as \<open>URLSearchParams\<close> prints it:
  of the characters of a page identifier only \<open>=\<close> is escaped.\<close>

record oh_plan =
  op_method :: string
  op_path :: string
  op_task :: "string option"

definition query_value :: "string \<Rightarrow> string" where
  "query_value s = concat (map (\<lambda>c. if c = CHR ''='' then ''%3D'' else [c]) s)"

definition page_query :: "oh_env \<Rightarrow> (string \<times> jval) list \<Rightarrow> int \<Rightarrow> exn + string" where
  "page_query w args default_limit = (case num_of (oh_lit w) (or_default (field args ''limit'') (JNum (NInt default_limit))) of
     NInt limit \<Rightarrow>
       bindR (ensure (1 \<le> limit \<and> limit \<le> 20) (Error ''invalid_limit'')) (\<lambda>_.
       if field args ''page_id'' = JUndef then Inr (''?limit='' @ int_text limit)
       else bindR (ensure (SAFE_PAGE_ID (str_of (field args ''page_id''))) (Error ''invalid_page_id'')) (\<lambda>_.
         Inr (''?limit='' @ int_text limit @ ''&page_id='' @ query_value (str_of (field args ''page_id'')))))
   | NOther x \<Rightarrow> Inl (Error ''invalid_limit''))"

definition requireUuid :: "jval \<Rightarrow> exn + string" where
  "requireUuid v = (let s = str_or_empty v in
     bindR (ensure (GUID s) (Error ''invalid_conversation_id'')) (\<lambda>_. Inr s))"

definition start_task :: "(string \<times> jval) list \<Rightarrow> exn + string" where
  "start_task args =
    bindR (ensure (set (map fst args) \<subseteq> {''task''}) (Error ''invalid_start_options'')) (\<lambda>_.
    (case field args ''task'' of
       JStr task \<Rightarrow> bindR (ensure (5 \<le> length (trim task) \<and> length task \<le> 4000) (Error ''invalid_task'')) (\<lambda>_. Inr (trim task))
     | _ \<Rightarrow> Inl (Error ''invalid_task'')))"

definition conversation_path :: "string \<Rightarrow> string" where
  "conversation_path i = ''/api/conversations/'' @ i"

definition FINAL_RESPONSE :: string where "FINAL_RESPONSE = ''/agent_final_response''"
definition EVENTS_SEARCH :: string where "EVENTS_SEARCH = ''/events/search''"
definition GOAL_STOP :: string where "GOAL_STOP = ''/goal/stop''"

definition oh_command :: "oh_env \<Rightarrow> string \<Rightarrow> (string \<times> jval) list \<Rightarrow> exn + oh_plan" where
  "oh_command w command args =
    (let get_path = (\<lambda>p. \<lparr>op_method = ''GET'', op_path = p, op_task = None\<rparr>) in
     if command = ''openhands.health'' then Inr (get_path ''/health'')
     else if command = ''openhands.list'' then
       bindR (page_query w args 10) (\<lambda>q. Inr (get_path (''/api/conversations/search'' @ q)))
     else if command = ''openhands.start'' then
       bindR (start_task args) (\<lambda>task. Inr \<lparr>op_method = ''POST'', op_path = ''/api/conversations'', op_task = Some task\<rparr>)
     else if command \<in> {''openhands.status'', ''openhands.result'', ''openhands.events'', ''openhands.stop''} then
       bindR (requireUuid (field args ''conversation_id'')) (\<lambda>i.
         if command = ''openhands.status'' then Inr (get_path (conversation_path i))
         else if command = ''openhands.result'' then Inr (get_path (conversation_path i @ FINAL_RESPONSE))
         else if command = ''openhands.events'' then
           bindR (page_query w args 20) (\<lambda>q. Inr (get_path (conversation_path i @ EVENTS_SEARCH @ q)))
         else Inr \<lparr>op_method = ''POST'', op_path = conversation_path i @ GOAL_STOP, op_task = None\<rparr>)
     else Inl (Error ''openhands_operation_denied''))"

definition oh_credential :: "oh_env \<Rightarrow> exn + string" where
  "oh_credential w = (case oh_key w of
     None \<Rightarrow> Inl (Error ''openhands_auth_unconfigured'')
   | Some s \<Rightarrow> (let key = trim s in
       bindR (ensure (16 \<le> length key \<and> length key \<le> 4096 \<and> list_all (\<lambda>c. code c \<notin> {0, 10, 13}) key)
         (Error ''openhands_auth_unconfigured'')) (\<lambda>_. Inr key)))"

section \<open>Replies\<close>

definition list_cursor :: "jval \<Rightarrow> jval" where
  "list_cursor v = (case v of JStr s \<Rightarrow> JStr (safeText (JStr s) 256) | _ \<Rightarrow> JNull)"

definition list_reply :: "jval \<Rightarrow> exn + jval" where
  "list_reply json = (case attr json ''items'' of
     JArr items \<Rightarrow> bindR (mapR projectConversation items) (\<lambda>vs.
       Inr (JObj [(''items'', JArr vs), (''next_page_id'', list_cursor (attr json ''next_page_id''))]))
   | _ \<Rightarrow> Inl oh_invalid)"

definition events_reply :: "oh_env \<Rightarrow> (string \<times> jval) list \<Rightarrow> jval \<Rightarrow> exn + jval" where
  "events_reply w args json = (case (json, num_of (oh_lit w) (or_default (field args ''limit'') (JNum (NInt 20)))) of
     (JObj page, NInt limit) \<Rightarrow>
       (case field page ''items'' of
          JArr items \<Rightarrow>
            bindR (ensure (int (length items) \<le> limit) oh_invalid) (\<lambda>_.
            bindR (if nullish (field page ''next_page_id'') then Inr JNull
              else (case field page ''next_page_id'' of
                JStr s \<Rightarrow> bindR (ensure (SAFE_PAGE_ID s) oh_invalid) (\<lambda>_. Inr (JStr s))
              | _ \<Rightarrow> Inl oh_invalid)) (\<lambda>cursor.
            bindR (mapR (projectDiagnosticEvent w) items) (\<lambda>vs.
            Inr (JObj [(''conversation_id'', JStr (str_or_empty (field args ''conversation_id''))), (''items'', JArr vs),
              (''next_page_id'', cursor)]))))
        | _ \<Rightarrow> Inl oh_invalid)
   | _ \<Rightarrow> Inl oh_invalid)"

definition command_reply :: "oh_env \<Rightarrow> string \<Rightarrow> (string \<times> jval) list \<Rightarrow> jval \<Rightarrow> exn + jval" where
  "command_reply w command args json =
    (if command = ''openhands.health'' then
       bindR (ensure (attr json ''status'' = JStr ''ok'') (Error ''openhands_unhealthy'')) (\<lambda>_. Inr (JObj [(''healthy'', JBool True)]))
     else if command = ''openhands.list'' then list_reply json
     else if command = ''openhands.status'' \<or> command = ''openhands.start'' then projectConversation json
     else if command = ''openhands.result'' then
       bindR (ensure (plain_object json) oh_invalid) (\<lambda>_.
       Inr (JObj [(''conversation_id'', JStr (str_or_empty (field args ''conversation_id''))),
         (''response'', JStr (safeText (attr json ''response'') 4000))]))
     else if command = ''openhands.events'' then events_reply w args json
     else Inr (JObj [(''conversation_id'', JStr (str_or_empty (field args ''conversation_id''))), (''stop_requested'', JBool True)]))"

definition status_error :: "nat \<Rightarrow> exn" where
  "status_error status = (if denied_status status then Error ''openhands_auth_denied''
     else if status = 404 then Error ''openhands_not_found''
     else if status = 429 then Error ''openhands_rate_limited''
     else Error (''openhands_http_error_'' @ nat_text status))"

definition command_answer :: "oh_env \<Rightarrow> string \<Rightarrow> (string \<times> jval) list \<Rightarrow> fetched \<Rightarrow> exn + jval" where
  "command_answer w command args a = (case a of
     Fetch_Error aborted \<Rightarrow> Inl (broken aborted)
   | Fetched status declared body \<Rightarrow>
       if \<not> fetch_ok status then Inl (status_error status)
       else bindR (boundedJson w declared body) (command_reply w command args))"

definition command_request :: "oh_plan \<Rightarrow> string option \<Rightarrow> jval option \<Rightarrow> oh_request" where
  "command_request p key body = \<lparr>oq_method = op_method p, oq_path = op_path p,
     oq_headers = (case key of None \<Rightarrow> [] | Some k \<Rightarrow>
       (''X-Session-API-Key'', k) # (if body = None then [] else [(''Content-Type'', ''application/json'')])),
     oq_body = body\<rparr>"

definition run_command :: "oh_env \<Rightarrow> string \<Rightarrow> (string \<times> jval) list \<Rightarrow> oh_plan \<Rightarrow> string option \<Rightarrow> oh_run" where
  "run_command w command args p key =
    (let send = (\<lambda>body. Fetch (command_request p key body) (\<lambda>a. Oh_Done (command_answer w command args a))) in
     case op_task p of
       None \<Rightarrow> send None
     | Some task \<Rightarrow> Fetch (settings_request (coalesce key [])) (\<lambda>a. case settings_answer w a of
         Inl e \<Rightarrow> Oh_Done (Inl e)
       | Inr source \<Rightarrow> send (Some (start_body source task))))"

definition runOpenHandsCommand :: "oh_env \<Rightarrow> string \<Rightarrow> (string \<times> jval) list \<Rightarrow> oh_run" where
  "runOpenHandsCommand w command args = (case oh_command w command args of
     Inl e \<Rightarrow> Oh_Done (Inl e)
   | Inr p \<Rightarrow>
       if command = ''openhands.health'' then run_command w command args p None
       else (case oh_credential w of Inl e \<Rightarrow> Oh_Done (Inl e) | Inr key \<Rightarrow> run_command w command args p (Some key)))"

text \<open>The result the agent sends: the JSON text of the reply, or the name of the error.\<close>

definition name_after :: "string \<Rightarrow> (char \<Rightarrow> bool) \<Rightarrow> string \<Rightarrow> bool" where
  "name_after p P s = (starts_with s p \<and> drop (length p) s \<noteq> [] \<and> list_all P (drop (length p) s))"

definition allowed_error :: "string \<Rightarrow> bool" where
  "allowed_error s =
    (name_after ''openhands_'' (\<lambda>c. is_lower c \<or> c = CHR ''_'') s \<or> name_after ''openhands_http_error_'' is_digit s \<or>
     name_after ''invalid_'' (\<lambda>c. is_lower c \<or> c = CHR ''_'') s)"

definition oh_result :: "int \<Rightarrow> exn + jval \<Rightarrow> exec_result" where
  "oh_result ms r = (case r of
     Inr v \<Rightarrow> result ms (Some 0) (json_text v) [] False False
   | Inl e \<Rightarrow> result ms (Some 1) [] (if allowed_error (exn_text e) then exn_text e else ''openhands_unavailable'') False
       (exn_text e = ''openhands_timeout''))"

end
