(* ===== verification/Openhands_Properties.thy ===== *)
theory Openhands_Properties
  imports Openhands Agent_Properties
begin

text \<open>
  What the OpenHands bridge sends and what it lets through, whatever its callers ask and whatever the server answers.
\<close>

section \<open>Runs\<close>

primrec all_requests :: "(oh_request \<Rightarrow> bool) \<Rightarrow> oh_run \<Rightarrow> bool" where
  "all_requests P (Oh_Done r) = True"
| "all_requests P (Fetch q k) = (P q \<and> (\<forall>a. all_requests P (k a)))"

primrec all_outcomes :: "(exn + jval \<Rightarrow> bool) \<Rightarrow> oh_run \<Rightarrow> bool" where
  "all_outcomes P (Oh_Done r) = P r"
| "all_outcomes P (Fetch q k) = (\<forall>a. all_outcomes P (k a))"

lemma run_command_requests:
  assumes "\<And>task. op_task p = Some task \<Longrightarrow> P (settings_request (coalesce key []))"
    and "\<And>task a source. op_task p = Some task \<Longrightarrow> settings_answer w a = Inr source \<Longrightarrow> P (command_request p key (Some (start_body source task)))"
    and "op_task p = None \<Longrightarrow> P (command_request p key None)"
  shows "all_requests P (run_command w command args p key)"
  using assms by (auto simp: run_command_def Let_def split: option.splits sum.splits)

lemma run_command_outcomes:
  assumes "\<And>a. P (command_answer w command args a)" "\<And>a e. settings_answer w a = Inl e \<Longrightarrow> P (Inl e)"
  shows "all_outcomes P (run_command w command args p key)"
  using assms by (auto simp: run_command_def Let_def split: option.splits sum.splits)

section \<open>Requests\<close>

text \<open>A query as the bridge builds one; the fields of the agent a start may name.\<close>

definition plain_query :: "string \<Rightarrow> bool" where
  "plain_query q = (q = [] \<or> starts_with q ''?limit='' \<and> list_all (\<lambda>c. is_alnum c \<or> c \<in> set ''?=&%_-'') q)"

definition permitted_body :: "jval \<Rightarrow> bool" where
  "permitted_body v = (\<exists>source task. v = start_body source task \<and> 5 \<le> length task \<and> length task \<le> 4000 \<and>
     ((\<exists>profile. GUID profile \<and> source = [(''agent_profile_id'', JStr profile)]) \<or>
      (\<exists>agent. source = [(''agent_settings'', JObj agent), (''secrets_encrypted'', JBool True)])))"

definition permitted_request :: "string \<Rightarrow> oh_request \<Rightarrow> bool" where
  "permitted_request command q =
    (if oq_method q = ''POST'' then
       command = ''openhands.start'' \<and> oq_path q = ''/api/conversations'' \<and> (\<exists>v. oq_body q = Some v \<and> permitted_body v) \<or>
       command = ''openhands.stop'' \<and> (\<exists>i. GUID i \<and> oq_path q = conversation_path i @ GOAL_STOP) \<and> oq_body q = None
     else oq_method q = ''GET'' \<and> oq_body q = None \<and>
       (oq_path q = ''/health'' \<and> oq_headers q = [] \<or> oq_path q = ''/api/settings'' \<and> command = ''openhands.start'' \<or>
        (\<exists>s. plain_query s \<and> oq_path q = ''/api/conversations/search'' @ s) \<or>
        (\<exists>i p s. GUID i \<and> p \<in> {[], FINAL_RESPONSE, EVENTS_SEARCH} \<and> plain_query s \<and> oq_path q = conversation_path i @ p @ s)))"

lemma query_value_class: "list_all (alnum_or ''_=-'') s \<Longrightarrow> list_all (\<lambda>c. is_alnum c \<or> c \<in> set ''?=&%_-'') (query_value s)"
  by (induction s) (auto simp: query_value_def alnum_or_def is_alnum_def is_digit_def is_upper_def between_def code_def)

lemma int_text_digits: "0 \<le> i \<Longrightarrow> list_all is_digit (int_text i)"
  by (simp add: int_text_def nat_text_digits)

lemma page_query_plain:
  assumes "page_query w args d = Inr q"
  shows "plain_query q"
proof -
  from assms obtain n where n: "1 \<le> n" and q: "q = ''?limit='' @ int_text n \<or>
      (\<exists>s. list_all (alnum_or ''_=-'') s \<and> q = ''?limit='' @ int_text n @ ''&page_id='' @ query_value s)"
    by (auto simp: page_query_def bindR_Inr_iff ensure_Inr_iff SAFE_PAGE_ID_def re_class_def split: jnum.splits if_splits)
  have d: "list_all (\<lambda>c. is_alnum c \<or> c \<in> set ''?=&%_-'') (int_text n)"
    using int_text_digits [of n] n by (auto simp: list_all_iff is_alnum_def)
  have l: "list_all (\<lambda>c. is_alnum c \<or> c \<in> set ''?=&%_-'') ''?limit=''" "list_all (\<lambda>c. is_alnum c \<or> c \<in> set ''?=&%_-'') ''&page_id=''"
    by code_simp+
  from q show ?thesis
  proof (elim disjE exE conjE)
    assume "q = ''?limit='' @ int_text n"
    then show ?thesis using d l by (simp add: plain_query_def starts_with_def)
  next
    fix s assume "list_all (alnum_or ''_=-'') s" "q = ''?limit='' @ int_text n @ ''&page_id='' @ query_value s"
    then show ?thesis using d l query_value_class [of s] by (simp add: plain_query_def starts_with_def)
  qed
qed

lemma command_known:
  "oh_command w command args = Inr p \<Longrightarrow> command = ''openhands.health'' \<or> command = ''openhands.list'' \<or> command = ''openhands.start'' \<or>
    command = ''openhands.status'' \<or> command = ''openhands.result'' \<or> command = ''openhands.events'' \<or> command = ''openhands.stop''"
  by (simp add: oh_command_def Let_def split: if_split_asm)

lemma command_plan:
  assumes "oh_command w command args = Inr p"
  shows "op_method p = ''POST'' \<and> (command = ''openhands.start'' \<and> op_path p = ''/api/conversations'' \<and>
        (\<exists>task. op_task p = Some task \<and> 5 \<le> length task \<and> length task \<le> 4000) \<or>
      command = ''openhands.stop'' \<and> (\<exists>i. GUID i \<and> op_path p = conversation_path i @ GOAL_STOP) \<and> op_task p = None) \<or>
    op_method p = ''GET'' \<and> op_task p = None \<and> (command = ''openhands.health'' \<and> op_path p = ''/health'' \<or>
      (\<exists>q. plain_query q \<and> op_path p = ''/api/conversations/search'' @ q) \<or>
      (\<exists>i x q. GUID i \<and> x \<in> {[], FINAL_RESPONSE, EVENTS_SEARCH} \<and> plain_query q \<and> op_path p = conversation_path i @ x @ q))"
proof -
  have trim: "length (trim s) \<le> length s" for s
    using length_dropWhile_le [of is_ws "rev (dropWhile is_ws s)"] length_dropWhile_le [of is_ws s] by (simp add: trim_def)
  have none: "plain_query []" by (simp add: plain_query_def)
  note steps = oh_command_def Let_def requireUuid_def bindR_Inr_iff ensure_Inr_iff
  show ?thesis
    using command_known [OF assms]
  proof (elim disjE)
    assume "command = ''openhands.health''"
    with assms have "p = \<lparr>op_method = ''GET'', op_path = ''/health'', op_task = None\<rparr>" by (simp add: oh_command_def)
    with \<open>command = ''openhands.health''\<close> show ?thesis by simp
  next
    assume "command = ''openhands.list''"
    with assms obtain q where "plain_query q" "p = \<lparr>op_method = ''GET'', op_path = ''/api/conversations/search'' @ q, op_task = None\<rparr>"
      by (auto simp: steps dest: page_query_plain)
    then show ?thesis by simp
  next
    assume "command = ''openhands.start''"
    then show ?thesis using assms le_trans [OF trim]
      by (auto simp: steps start_task_def split: jval.splits)
  next
    assume "command = ''openhands.status''"
    with assms obtain i where "GUID i" "p = \<lparr>op_method = ''GET'', op_path = conversation_path i @ [] @ [], op_task = None\<rparr>"
      by (auto simp: steps)
    then show ?thesis using none by auto
  next
    assume "command = ''openhands.result''"
    with assms obtain i where "GUID i" "p = \<lparr>op_method = ''GET'', op_path = conversation_path i @ FINAL_RESPONSE @ [], op_task = None\<rparr>"
      by (auto simp: steps)
    then show ?thesis using none by auto
  next
    assume "command = ''openhands.events''"
    with assms obtain i q where "GUID i" "plain_query q"
        "p = \<lparr>op_method = ''GET'', op_path = conversation_path i @ EVENTS_SEARCH @ q, op_task = None\<rparr>"
      by (auto simp: steps dest: page_query_plain)
    then show ?thesis by auto
  next
    assume "command = ''openhands.stop''"
    with assms obtain i where "GUID i" "p = \<lparr>op_method = ''POST'', op_path = conversation_path i @ GOAL_STOP, op_task = None\<rparr>"
      by (auto simp: steps)
    with \<open>command = ''openhands.stop''\<close> show ?thesis by simp blast
  qed
qed

lemma agent_source_fields:
  "agent_source v = Inr source \<Longrightarrow> (\<exists>profile. GUID profile \<and> source = [(''agent_profile_id'', JStr profile)]) \<or>
    (\<exists>agent. source = [(''agent_settings'', JObj agent), (''secrets_encrypted'', JBool True)])"
  by (auto simp: agent_source_def bindR_Inr_iff ensure_Inr_iff split: jval.splits if_splits)

lemma settings_fields:
  "settings_answer w a = Inr source \<Longrightarrow> (\<exists>profile. GUID profile \<and> source = [(''agent_profile_id'', JStr profile)]) \<or>
    (\<exists>agent. source = [(''agent_settings'', JObj agent), (''secrets_encrypted'', JBool True)])"
  by (auto simp: settings_answer_def bindR_Inr_iff split: fetched.splits if_splits dest!: agent_source_fields)

lemma permitted_plan:
  assumes "oh_command w command args = Inr p" "command = ''openhands.health'' \<longrightarrow> key = None"
  shows "op_task p = None \<Longrightarrow> permitted_request command (command_request p key None)"
    and "op_task p = Some task \<Longrightarrow> settings_answer w a = Inr source \<Longrightarrow>
      permitted_request command (command_request p key (Some (start_body source task)))"
    and "op_task p = Some task \<Longrightarrow> permitted_request command (settings_request k)"
proof -
  note plan = command_plan [OF assms(1)]
  show "permitted_request command (command_request p key None)" if "op_task p = None"
    using plan that assms(2) by (auto simp: permitted_request_def command_request_def)
  show "permitted_request command (command_request p key (Some (start_body source task)))"
    if "op_task p = Some task" "settings_answer w a = Inr source"
  proof -
    have "permitted_body (start_body source task)" using plan that settings_fields [OF that(2)] by (auto simp: permitted_body_def)
    then show ?thesis using plan that by (auto simp: permitted_request_def command_request_def)
  qed
  show "permitted_request command (settings_request k)" if "op_task p = Some task"
    using plan that by (auto simp: permitted_request_def settings_request_def)
qed


section \<open>Outcomes\<close>

fun strings_all :: "(string \<Rightarrow> bool) \<Rightarrow> jval \<Rightarrow> bool" where
  "strings_all P (JStr s) = P s"
| "strings_all P (JArr vs) = list_all (strings_all P) vs"
| "strings_all P (JObj fs) = list_all (\<lambda>(k, v). strings_all P v) fs"
| "strings_all P v = True"

definition token :: "string \<Rightarrow> bool" where
  "token s = (length s \<le> 256 \<and> list_all (alnum_or ''_.=-'') s)"

text \<open>What a reply may say: the events no text at all, a result up to 4000 characters, everything else short strings.\<close>

definition reply_ok :: "string \<Rightarrow> jval \<Rightarrow> bool" where
  "reply_ok command v = (if command = ''openhands.events'' then strings_all token v
     else strings_all (\<lambda>s. length s \<le> (if command = ''openhands.result'' then 4000 else 256)) v)"

definition outcome_ok :: "string \<Rightarrow> exn + jval \<Rightarrow> bool" where
  "outcome_ok command r = (case r of Inl e \<Rightarrow> allowed_error (exn_text e) | Inr v \<Rightarrow> reply_ok command v)"

lemma hex_token: "list_all hex_any s \<Longrightarrow> list_all (alnum_or ''_.=-'') s"
  by (auto simp: list_all_iff alnum_or_def hex_any_def hex_lower_def is_alnum_def is_digit_def is_lower_def is_upper_def between_def)

lemma head_token: "re_head_class H hex_any n n s \<Longrightarrow> \<forall>c. H c \<longrightarrow> alnum_or ''_.=-'' c \<Longrightarrow> length s = Suc n \<and> list_all (alnum_or ''_.=-'') s"
  by (cases s) (auto simp: re_head_class_def re_class_def dest: hex_token)

lemma GUID_parts:
  assumes "GUID s"
  shows "token s \<and> length s = 36"
proof -
  from assms obtain a b c d e where p: "split_on (CHR ''-'') s = [a, b, c, d, e]"
      "re_class hex_any 8 8 a" "re_class hex_any 4 4 b" "re_head_class (between 49 56) hex_any 3 3 c"
      "re_head_class (\<lambda>x. x \<in> set ''89abAB'') hex_any 3 3 d" "re_class hex_any 12 12 e"
    by (auto simp: GUID_def split: list.splits)
  have s: "s = a @ ''-'' @ b @ ''-'' @ c @ ''-'' @ d @ ''-'' @ e"
    using join_split_on [of "CHR ''-''" s] by (simp add: p(1))
  have l: "length a = 8" "length b = 4" "length e = 12" "list_all (alnum_or ''_.=-'') a" "list_all (alnum_or ''_.=-'') b"
    "list_all (alnum_or ''_.=-'') e"
    using p(2,3,6) by (auto simp: re_class_def dest: hex_token)
  have m: "length c = Suc 3 \<and> list_all (alnum_or ''_.=-'') c"
    by (rule head_token [OF p(4)]) (auto simp: alnum_or_def is_alnum_def is_digit_def between_def)
  have n: "length d = Suc 3 \<and> list_all (alnum_or ''_.=-'') d"
    by (rule head_token [OF p(5)]) (auto simp: alnum_or_def is_alnum_def is_digit_def is_upper_def is_lower_def between_def code_def)
  have "alnum_or ''_.=-'' CHR ''-''" by code_simp
  with l m n show ?thesis by (simp add: token_def s)
qed

lemma states_short: "list_all (\<lambda>s. length s \<le> 256) conversation_states"
  by code_simp

lemma safeText_length: "length (safeText v n) \<le> n"
  by (simp add: safeText_def split: jval.split)

lemma text_or_null_short: "length s \<le> 256 \<Longrightarrow> strings_all (\<lambda>s. length s \<le> 256) (text_or_null s)"
  by (simp add: text_or_null_def)

lemma status_short:
  "strings_all (\<lambda>s. length s \<le> 256) (if v \<in> JStr ` set conversation_states then v else JStr ''unknown'')"
  using states_short by (auto simp: list_all_iff)

lemma projectConversation_short:
  assumes "projectConversation v = Inr r"
  shows "strings_all (\<lambda>s. length s \<le> 256) r"
proof -
  from assms obtain fs i where "GUID i" and r: "r = JObj [(''id'', JStr i), (''title'', JStr (safeText (field fs ''title'') 200)),
      (''execution_status'', (if field fs ''execution_status'' \<in> JStr ` set conversation_states then field fs ''execution_status''
         else JStr ''unknown'')),
      (''created_at'', text_or_null (safeText (field fs ''created_at'') 50)), (''updated_at'', text_or_null (safeText (field fs ''updated_at'') 50))]"
    unfolding projectConversation_def by (auto simp only: bindR_Inr_iff ensure_Inr_iff split: jval.splits prod.splits)
  then have i: "length i \<le> 256" using GUID_parts by fastforce
  have l: "length (safeText v 200) \<le> 256" "length (safeText v 50) \<le> 256" for v
    by (rule le_trans [OF safeText_length], simp)+
  show ?thesis
    unfolding r strings_all.simps list.pred_inject prod.case
    by (intro conjI i l status_short text_or_null_short) simp
qed

lemma kind_token: "token (event_kind v)"
proof -
  have "token ''UnknownEvent''" by code_simp
  moreover have "SAFE_KIND s \<Longrightarrow> token s" for s
    by (cases s) (auto simp: SAFE_KIND_def re_head_class_def re_class_def token_def alnum_or_def is_alnum_def list_all_iff)
  ultimately show ?thesis by (auto simp: event_kind_def split: jval.splits)
qed

lemma source_token: "token (event_source v)"
proof -
  have "token ''agent''" "token ''user''" "token ''environment''" "token ''unknown''" by code_simp+
  then show ?thesis by (auto simp: event_source_def split: jval.splits)
qed

lemma tool_token: "strings_all token (diagnosticToolName v)"
proof -
  have "SAFE_TOOL_NAME s \<Longrightarrow> token s" for s
    by (cases s) (auto simp: SAFE_TOOL_NAME_def re_head_class_def re_class_def token_def alnum_or_def is_alnum_def list_all_iff)
  then show ?thesis by (auto simp: diagnosticToolName_def split: jval.splits)
qed

lemma event_tokens: "projectDiagnosticEvent w v = Inr r \<Longrightarrow> strings_all token r"
  by (auto simp: projectDiagnosticEvent_def Let_def kind_token source_token tool_token split: jval.splits)

lemma mapR_all:
  assumes "mapR f xs = Inr ys" "\<And>x y. f x = Inr y \<Longrightarrow> P y"
  shows "list_all P ys"
  using assms(1)
proof (induction xs arbitrary: ys)
  case (Cons x xs)
  then show ?case by (auto simp: bindR_Inr_iff assms(2))
qed simp

lemma list_reply_short:
  assumes "list_reply json = Inr v"
  shows "strings_all (\<lambda>s. length s \<le> 256) v"
proof -
  from assms obtain items vs where "mapR projectConversation items = Inr vs"
      and v: "v = JObj [(''items'', JArr vs), (''next_page_id'', list_cursor (attr json ''next_page_id''))]"
    by (auto simp: list_reply_def bindR_Inr_iff split: jval.splits)
  have "list_all (strings_all (\<lambda>s. length s \<le> 256)) vs"
    by (rule mapR_all [OF \<open>mapR projectConversation items = Inr vs\<close>]) (rule projectConversation_short)
  then show ?thesis using safeText_length [of _ 256] by (simp add: v list_cursor_def split: jval.split)
qed

lemma events_reply_tokens:
  assumes "events_reply w args json = Inr v" "GUID (str_or_empty (field args ''conversation_id''))"
  shows "strings_all token v"
proof -
  from assms(1) obtain items vs cursor where "mapR (projectDiagnosticEvent w) items = Inr vs"
      "cursor = JNull \<or> (\<exists>s. cursor = JStr s \<and> SAFE_PAGE_ID s)"
      and v: "v = JObj [(''conversation_id'', JStr (str_or_empty (field args ''conversation_id''))), (''items'', JArr vs), (''next_page_id'', cursor)]"
    by (auto simp: events_reply_def bindR_Inr_iff ensure_Inr_iff split: jval.splits jnum.splits if_splits)
  moreover have "list_all (strings_all token) vs"
    by (rule mapR_all [OF \<open>mapR (projectDiagnosticEvent w) items = Inr vs\<close>]) (rule event_tokens)
  moreover have "SAFE_PAGE_ID s \<Longrightarrow> token s" for s
    by (auto simp: SAFE_PAGE_ID_def re_class_def token_def alnum_or_def list_all_iff)
  ultimately show ?thesis using GUID_parts [OF assms(2)] by auto
qed

section \<open>The names of the errors\<close>

definition oh_error :: "exn \<Rightarrow> bool" where
  "oh_error e = allowed_error (exn_text e)"

lemma oh_errors:
  "oh_error oh_unavailable" "oh_error oh_timeout" "oh_error oh_invalid" "oh_error settings_unavailable"
  "oh_error (Error ''openhands_response_too_large'')" "oh_error (Error ''openhands_empty_response'')" "oh_error (Error ''openhands_invalid_json'')"
  "oh_error (Error ''openhands_auth_denied'')" "oh_error (Error ''openhands_rate_limited'')" "oh_error (Error ''invalid_limit'')"
  "oh_error (Error ''invalid_page_id'')" "oh_error (Error ''invalid_conversation_id'')" "oh_error (Error ''invalid_start_options'')"
  "oh_error (Error ''invalid_task'')" "oh_error (Error ''openhands_operation_denied'')" "oh_error (Error ''openhands_auth_unconfigured'')"
  "oh_error (Error ''openhands_unhealthy'')" "oh_error (Error ''openhands_not_found'')"
  by code_simp+

lemma http_error: "oh_error (Error (''openhands_http_error_'' @ nat_text n))"
proof -
  have "nat_text n \<noteq> []" by (simp add: nat_text.simps [of n])
  then show ?thesis using nat_text_digits [of n]
    by (simp add: oh_error_def allowed_error_def name_after_def starts_with_def)
qed

lemma broken_error: "oh_error (broken b)"
  by (simp add: broken_def oh_errors)

lemma read_chunks_error: "read_chunks got cs e = Inl x \<Longrightarrow> oh_error x"
  by (induction got cs e rule: read_chunks.induct)
    (auto simp: bindR_Inl_iff broken_error oh_errors split: body_end.splits if_splits)

lemma boundedJson_error: "boundedJson w declared body = Inl x \<Longrightarrow> oh_error x"
  by (auto simp: boundedJson_def bindR_Inl_iff ensure_Inl_iff oh_errors split: option.splits dest: read_chunks_error)

lemma agent_source_error: "agent_source v = Inl x \<Longrightarrow> oh_error x"
  by (auto simp: agent_source_def bindR_Inl_iff ensure_Inl_iff oh_errors split: jval.splits if_splits)

lemma settings_error: "settings_answer w a = Inl x \<Longrightarrow> oh_error x"
  by (auto simp: settings_answer_def bindR_Inl_iff broken_error oh_errors split: fetched.splits if_splits
      dest: boundedJson_error agent_source_error)

lemma mapR_error:
  assumes "mapR f xs = Inl e" "\<And>x e. f x = Inl e \<Longrightarrow> oh_error e"
  shows "oh_error e"
  using assms(1) by (induction xs) (auto simp: bindR_Inl_iff dest: assms(2))

lemma projection_error: "projectConversation v = Inl x \<Longrightarrow> oh_error x" "projectDiagnosticEvent w v = Inl x \<Longrightarrow> oh_error x"
  by (auto simp: projectConversation_def projectDiagnosticEvent_def Let_def bindR_Inl_iff ensure_Inl_iff oh_errors split: jval.splits)

lemma list_reply_error: "list_reply json = Inl x \<Longrightarrow> oh_error x"
  by (auto simp: list_reply_def bindR_Inl_iff oh_errors split: jval.splits dest: mapR_error [OF _ projection_error(1)])

lemma events_reply_error: "events_reply w args json = Inl x \<Longrightarrow> oh_error x"
  by (auto simp: events_reply_def bindR_Inl_iff ensure_Inl_iff oh_errors split: jval.splits jnum.splits if_splits
      dest: mapR_error [OF _ projection_error(2)])

lemma command_reply_error: "command_reply w command args json = Inl x \<Longrightarrow> oh_error x"
  by (auto simp: command_reply_def bindR_Inl_iff ensure_Inl_iff oh_errors split: if_splits
      dest: list_reply_error events_reply_error projection_error)

lemma command_answer_error: "command_answer w command args a = Inl x \<Longrightarrow> oh_error x"
  by (auto simp: command_answer_def bindR_Inl_iff broken_error status_error_def http_error [simplified] oh_errors split: fetched.splits if_splits
      dest: boundedJson_error command_reply_error)

lemma oh_command_error: "oh_command w command args = Inl x \<Longrightarrow> oh_error x"
  by (auto simp: oh_command_def Let_def page_query_def start_task_def requireUuid_def bindR_Inl_iff ensure_Inl_iff oh_errors
      split: if_splits jnum.splits jval.splits)

lemma oh_credential_error: "oh_credential w = Inl x \<Longrightarrow> oh_error x"
  by (auto simp: oh_credential_def Let_def bindR_Inl_iff ensure_Inl_iff oh_errors split: option.splits)

lemma known_conversation:
  "oh_command w command args = Inr p \<Longrightarrow> command \<in> {''openhands.result'', ''openhands.events'', ''openhands.stop''} \<Longrightarrow>
    GUID (str_or_empty (field args ''conversation_id''))"
  by (auto simp: oh_command_def Let_def requireUuid_def bindR_Inr_iff ensure_Inr_iff)

lemma command_reply_ok:
  assumes "command_reply w command args json = Inr v" "oh_command w command args = Inr p"
  shows "reply_ok command v"
proof -
  have g: "length (str_or_empty (field args ''conversation_id'')) = 36" "GUID (str_or_empty (field args ''conversation_id''))"
    if "command \<in> {''openhands.result'', ''openhands.events'', ''openhands.stop''}"
    using known_conversation [OF assms(2) that] GUID_parts by blast+
  note steps = command_reply_def reply_ok_def bindR_Inr_iff ensure_Inr_iff
  show ?thesis
    using command_known [OF assms(2)]
  proof (elim disjE)
    assume "command = ''openhands.list''"
    then show ?thesis using assms(1) by (auto simp: steps dest: list_reply_short)
  next
    assume "command = ''openhands.events''"
    then show ?thesis using assms(1) g(2) by (auto simp: steps dest: events_reply_tokens)
  next
    assume "command = ''openhands.result''"
    then show ?thesis using assms(1) g(1) safeText_length [of _ 4000] by (auto simp: steps)
  next
    assume "command = ''openhands.stop''"
    then show ?thesis using assms(1) g(1) by (auto simp: steps)
  qed (use assms(1) in \<open>auto simp: steps dest: projectConversation_short\<close>)
qed

lemma command_answer_ok:
  assumes "oh_command w command args = Inr p"
  shows "outcome_ok command (command_answer w command args a)"
proof (cases "command_answer w command args a")
  case (Inl e)
  then show ?thesis using command_answer_error [OF Inl] by (simp add: outcome_ok_def oh_error_def)
next
  case (Inr v)
  then have "\<exists>json. command_reply w command args json = Inr v"
    by (auto simp: command_answer_def bindR_Inr_iff split: fetched.splits if_splits)
  then show ?thesis using command_reply_ok [OF _ assms] Inr by (auto simp: outcome_ok_def)
qed

text \<open>C30: Whatever the server answers, what the bridge passes on is of a fixed form: an error is one of its own names, and a
  reply holds no string longer than 256 characters, or 4000 in a result; the events of a conversation hold nothing but
  identifiers, none of the text of the conversation.\<close>

theorem openhands_outcomes:
  "all_outcomes (outcome_ok command) (runOpenHandsCommand w command args)"
proof (cases "oh_command w command args")
  case (Inl e)
  then show ?thesis using oh_command_error [OF Inl] by (simp add: runOpenHandsCommand_def outcome_ok_def oh_error_def)
next
  case (Inr p)
  have "all_outcomes (outcome_ok command) (run_command w command args p key)" for key
    by (rule run_command_outcomes)
      (auto simp: outcome_ok_def oh_error_def [symmetric] intro: command_answer_ok [OF Inr, unfolded outcome_ok_def] dest: settings_error)
  with Inr show ?thesis
    by (auto simp: runOpenHandsCommand_def outcome_ok_def oh_error_def [symmetric] dest: oh_credential_error split: sum.splits)
qed

end
