(* ===== verification/Grants.thy ===== *)
theory Grants
  imports Docker_Payloads "HOL-Library.List_Lexorder" "HOL-Library.Char_ord"
begin

text \<open>
  \<^verbatim>\<open>integrations/deepharness/persistent-grant-store.mjs\<close>: the grants that bind an OAuth session to one lead of
  a DeepHarness workspace, and the receipts of the instructions sent to that lead. Every changing operation waits
  in one queue; an instruction holds the queue while DeepHarness has not answered, so no revocation can come between.
  The file holds a JSON value and its size; what the disk did, the clock and the random identifier an operation
  draws arrive with the operation. SHA-256 is a parameter.
\<close>

section \<open>Identities\<close>

definition DSH_ID :: "string \<Rightarrow> bool" where
  "DSH_ID s = re_head_class is_alnum (alnum_or ''_.:-'') 0 127 s"

definition DSH_HASH :: "string \<Rightarrow> bool" where
  "DSH_HASH s = re_class hex_char 64 64 s"

definition DSH_ACTIONS :: "string list" where
  "DSH_ACTIONS = [''team.read'', ''chat.read'', ''lead.instruct'']"

definition MAX_GRANT_FILE :: nat where "MAX_GRANT_FILE = 8 * 1024 * 1024"
definition MAX_GRANTS :: nat where "MAX_GRANTS = 1000"
definition MAX_DELIVERIES :: nat where "MAX_DELIVERIES = 10000"

abbreviation grant_denied :: exn where "grant_denied \<equiv> Error ''grant_denied''"

record dsh_identity =
  gi_actor :: string
  gi_clientId :: string
  gi_sessionId :: string
  gi_workspaceId :: string
  gi_leadSessionId :: string

definition actor_of :: "string \<Rightarrow> string \<Rightarrow> string" where
  "actor_of clientId sessionId = ''oauth:'' @ clientId @ '':'' @ take 12 sessionId"

definition id_field :: "(string \<times> jval) list \<Rightarrow> string \<Rightarrow> exn + string" where
  "id_field fs k = (case field fs k of
     JStr s \<Rightarrow> bindR (ensure (DSH_ID s) grant_denied) (\<lambda>_. Inr s)
   | _ \<Rightarrow> Inl grant_denied)"

definition identity_fields :: "(string \<times> jval) list \<Rightarrow> exn + dsh_identity" where
  "identity_fields fs =
    bindR (id_field fs ''actor'') (\<lambda>actor.
    bindR (id_field fs ''clientId'') (\<lambda>clientId.
    bindR (id_field fs ''sessionId'') (\<lambda>sessionId.
    bindR (id_field fs ''workspaceId'') (\<lambda>workspaceId.
    bindR (id_field fs ''leadSessionId'') (\<lambda>leadSessionId.
    Inr \<lparr>gi_actor = actor, gi_clientId = clientId, gi_sessionId = sessionId, gi_workspaceId = workspaceId,
      gi_leadSessionId = leadSessionId\<rparr>)))))"

definition own_actor :: "dsh_identity \<Rightarrow> bool" where
  "own_actor i = (gi_actor i = actor_of (gi_clientId i) (gi_sessionId i))"

definition object_fields :: "jval \<Rightarrow> exn + (string \<times> jval) list" where
  "object_fields v = (case v of JObj fs \<Rightarrow> Inr fs | _ \<Rightarrow> Inl grant_denied)"

definition identityOf :: "jval \<Rightarrow> exn + dsh_identity" where
  "identityOf v =
    bindR (object_fields v) (\<lambda>fs.
    bindR (identity_fields fs) (\<lambda>i.
    bindR (ensure (own_actor i) grant_denied) (\<lambda>_. Inr i)))"

definition identity_texts :: "dsh_identity \<Rightarrow> string list" where
  "identity_texts i = [gi_actor i, gi_clientId i, gi_sessionId i, gi_workspaceId i, gi_leadSessionId i]"

definition identityKey :: "(string \<Rightarrow> string) \<Rightarrow> dsh_identity \<Rightarrow> string" where
  "identityKey sha i = sha (json_text (jstrs (identity_texts i)))"

definition deliveryKey :: "(string \<Rightarrow> string) \<Rightarrow> dsh_identity \<Rightarrow> string \<Rightarrow> string" where
  "deliveryKey sha i idempotencyKey = sha (json_text (jstrs (identity_texts i @ [idempotencyKey])))"

section \<open>The state and its file\<close>

record dsh_grant =
  gr_identity :: dsh_identity
  gr_actions :: "string list"
  gr_revision :: string
  gr_updatedAt :: int
  gr_revokedAt :: "int option"

record dsh_delivery =
  dl_identity :: dsh_identity
  dl_payloadHash :: string
  dl_grantRevision :: string
  dl_accepted :: bool
  dl_receiptId :: string
  dl_createdAt :: int
  dl_acceptedAt :: "int option"

record grant_state =
  gs_grants :: "(string, dsh_grant) table"
  gs_deliveries :: "(string, dsh_delivery) table"

definition emptyState :: grant_state where
  "emptyState = \<lparr>gs_grants = [], gs_deliveries = []\<rparr>"

definition safe_integer :: "int \<Rightarrow> bool" where
  "safe_integer i = (\<bar>i\<bar> \<le> 9007199254740991)"

definition safe_int_field :: "(string \<times> jval) list \<Rightarrow> string \<Rightarrow> exn + int" where
  "safe_int_field fs k = (case field fs k of
     JNum (NInt i) \<Rightarrow> bindR (ensure (safe_integer i) grant_denied) (\<lambda>_. Inr i)
   | _ \<Rightarrow> Inl grant_denied)"

text \<open>\<open>x !== null && !Number.isSafeInteger(x)\<close> refuses.\<close>

definition null_or_int_field :: "(string \<times> jval) list \<Rightarrow> string \<Rightarrow> exn + int option" where
  "null_or_int_field fs k = (if field fs k = JNull then Inr None else bindR (safe_int_field fs k) (\<lambda>i. Inr (Some i)))"

definition action_text :: "jval \<Rightarrow> exn + string" where
  "action_text v = (case v of
     JStr s \<Rightarrow> bindR (ensure (s \<in> set DSH_ACTIONS) grant_denied) (\<lambda>_. Inr s)
   | _ \<Rightarrow> Inl grant_denied)"

definition actions_of :: "jval \<Rightarrow> exn + string list" where
  "actions_of v = (case v of
     JArr vs \<Rightarrow>
       bindR (ensure (vs \<noteq> []) grant_denied) (\<lambda>_.
       bindR (mapR action_text vs) (\<lambda>actions.
       bindR (ensure (distinct actions) grant_denied) (\<lambda>_. Inr actions)))
   | _ \<Rightarrow> Inl grant_denied)"

definition read_grant :: "jval \<Rightarrow> exn + dsh_grant" where
  "read_grant v =
    bindR (object_fields v) (\<lambda>fs.
    bindR (identity_fields fs) (\<lambda>i.
    bindR (ensure (own_actor i) grant_denied) (\<lambda>_.
    bindR (actions_of (field fs ''actions'')) (\<lambda>actions.
    bindR (id_field fs ''revision'') (\<lambda>revision.
    bindR (safe_int_field fs ''updatedAt'') (\<lambda>updatedAt.
    bindR (null_or_int_field fs ''revokedAt'') (\<lambda>revokedAt.
    Inr \<lparr>gr_identity = i, gr_actions = actions, gr_revision = revision, gr_updatedAt = updatedAt, gr_revokedAt = revokedAt\<rparr>)))))))"

definition status_field :: "(string \<times> jval) list \<Rightarrow> exn + bool" where
  "status_field fs = (case field fs ''status'' of
     JStr s \<Rightarrow> bindR (ensure (s \<in> {''pending'', ''accepted''}) grant_denied) (\<lambda>_. Inr (s = ''accepted''))
   | _ \<Rightarrow> Inl grant_denied)"

definition hash_field :: "(string \<times> jval) list \<Rightarrow> string \<Rightarrow> exn + string" where
  "hash_field fs k = (case field fs k of
     JStr s \<Rightarrow> bindR (ensure (DSH_HASH s) grant_denied) (\<lambda>_. Inr s)
   | _ \<Rightarrow> Inl grant_denied)"

definition read_delivery :: "jval \<Rightarrow> exn + dsh_delivery" where
  "read_delivery v =
    bindR (object_fields v) (\<lambda>fs.
    bindR (hash_field fs ''payloadHash'') (\<lambda>payloadHash.
    bindR (id_field fs ''grantRevision'') (\<lambda>grantRevision.
    bindR (id_field fs ''receiptId'') (\<lambda>receiptId.
    bindR (identity_fields fs) (\<lambda>i.
    bindR (status_field fs) (\<lambda>accepted.
    bindR (safe_int_field fs ''createdAt'') (\<lambda>createdAt.
    bindR (null_or_int_field fs ''acceptedAt'') (\<lambda>acceptedAt.
    Inr \<lparr>dl_identity = i, dl_payloadHash = payloadHash, dl_grantRevision = grantRevision, dl_accepted = accepted,
      dl_receiptId = receiptId, dl_createdAt = createdAt, dl_acceptedAt = acceptedAt\<rparr>))))))))"

definition read_entry :: "(jval \<Rightarrow> exn + 'a) \<Rightarrow> string \<times> jval \<Rightarrow> exn + (string \<times> 'a)" where
  "read_entry f e = (case e of (k, v) \<Rightarrow>
     bindR (ensure (DSH_HASH k) grant_denied) (\<lambda>_. bindR (f v) (\<lambda>x. Inr (k, x))))"

text \<open>\<open>normalize\<close> keeps the value it checked; here it also reads it, and what nothing reads is left out.\<close>

definition normalize_grants :: "jval \<Rightarrow> exn + grant_state" where
  "normalize_grants raw =
    bindR (object_fields raw) (\<lambda>fs.
    bindR (ensure (field fs ''version'' = JNum (NInt 1)) grant_denied) (\<lambda>_.
    bindR (object_fields (field fs ''grants'')) (\<lambda>gs.
    bindR (object_fields (field fs ''deliveries'')) (\<lambda>ds.
    bindR (ensure (length gs \<le> MAX_GRANTS \<and> length ds \<le> MAX_DELIVERIES) grant_denied) (\<lambda>_.
    bindR (mapR (read_entry read_grant) gs) (\<lambda>grants.
    bindR (mapR (read_entry read_delivery) ds) (\<lambda>deliveries.
    Inr \<lparr>gs_grants = grants, gs_deliveries = deliveries\<rparr>)))))))"

definition identity_value :: "dsh_identity \<Rightarrow> (string \<times> jval) list" where
  "identity_value i = [(''actor'', JStr (gi_actor i)), (''clientId'', JStr (gi_clientId i)), (''sessionId'', JStr (gi_sessionId i)),
     (''workspaceId'', JStr (gi_workspaceId i)), (''leadSessionId'', JStr (gi_leadSessionId i))]"

definition time_or_null :: "int option \<Rightarrow> jval" where
  "time_or_null t = (case t of None \<Rightarrow> JNull | Some i \<Rightarrow> JNum (NInt i))"

definition grant_value :: "dsh_grant \<Rightarrow> jval" where
  "grant_value g = JObj (identity_value (gr_identity g) @ [(''actions'', jstrs (gr_actions g)), (''revision'', JStr (gr_revision g)),
     (''updatedAt'', JNum (NInt (gr_updatedAt g))), (''revokedAt'', time_or_null (gr_revokedAt g))])"

definition delivery_value :: "dsh_delivery \<Rightarrow> jval" where
  "delivery_value d = JObj (identity_value (dl_identity d) @ [(''payloadHash'', JStr (dl_payloadHash d)),
     (''grantRevision'', JStr (dl_grantRevision d)), (''status'', JStr (if dl_accepted d then ''accepted'' else ''pending'')),
     (''receiptId'', JStr (dl_receiptId d)), (''createdAt'', JNum (NInt (dl_createdAt d))), (''acceptedAt'', time_or_null (dl_acceptedAt d))])"

definition grant_state_value :: "grant_state \<Rightarrow> jval" where
  "grant_state_value s = JObj [(''version'', JNum (NInt 1)), (''grants'', JObj (map (apsnd grant_value) (gs_grants s))),
     (''deliveries'', JObj (map (apsnd delivery_value) (gs_deliveries s)))]"

text \<open>What is at the path: nothing; something that is no regular file or does not parse; a JSON value and the bytes it takes.\<close>

datatype grant_file = Absent | Unusable | Present nat jval

definition written :: "grant_state \<Rightarrow> grant_file" where
  "written s = (let v = grant_state_value s in Present (utf8_length (json_text v) + 1) v)"

text \<open>What the disk does with a save: all of it; nothing; the file is replaced, then the directory cannot be synced.\<close>

datatype disk = Kept | Lost | Kept_Late

definition persistFile :: "disk \<Rightarrow> grant_state \<Rightarrow> grant_file \<Rightarrow> grant_file \<times> (exn + unit)" where
  "persistFile d s file = (case d of
     Kept \<Rightarrow> (written s, Inr ())
   | Lost \<Rightarrow> (file, Inl (Error ''EIO''))
   | Kept_Late \<Rightarrow> (written s, Inl (Error ''EIO'')))"

definition loadFile :: "disk \<Rightarrow> grant_file \<Rightarrow> grant_file \<times> (exn + grant_state)" where
  "loadFile d file = (case file of
     Absent \<Rightarrow> (let (file', r) = persistFile d emptyState file in (file', bindR r (\<lambda>_. Inr emptyState)))
   | Unusable \<Rightarrow> (file, Inl grant_denied)
   | Present bytes v \<Rightarrow> (file, bindR (ensure (bytes \<le> MAX_GRANT_FILE) grant_denied) (\<lambda>_. normalize_grants v)))"

section \<open>The store\<close>

record grant_store =
  st_state :: grant_state
  st_file :: grant_file
  st_faulted :: bool

text \<open>What an operation meets when it runs: the clock, a fresh UUID and the disk.\<close>

record grant_io =
  io_now :: int
  io_uuid :: string
  io_disk :: disk

type_synonym audit_event = "(string \<times> jval) list"

definition createStore :: "disk \<Rightarrow> grant_file \<Rightarrow> exn + grant_store" where
  "createStore d file = (let (file', r) = loadFile d file in
     bindR r (\<lambda>s. Inr \<lparr>st_state = s, st_file = file', st_faulted = False\<rparr>))"

definition save :: "disk \<Rightarrow> grant_state \<Rightarrow> grant_store \<Rightarrow> grant_store \<times> (exn + unit)" where
  "save d next_state st = (let (file', r) = persistFile d next_state (st_file st) in
     case r of
       Inl e \<Rightarrow> (st\<lparr>st_file := file', st_faulted := True\<rparr>, Inl e)
     | Inr _ \<Rightarrow> (st\<lparr>st_file := file', st_state := next_state\<rparr>, Inr ()))"

definition store_grant :: "string \<Rightarrow> dsh_grant \<Rightarrow> grant_state \<Rightarrow> grant_state" where
  "store_grant k g s = s\<lparr>gs_grants := AList.update k g (gs_grants s)\<rparr>"

definition store_delivery :: "string \<Rightarrow> dsh_delivery \<Rightarrow> grant_state \<Rightarrow> grant_state" where
  "store_delivery k d s = s\<lparr>gs_deliveries := AList.update k d (gs_deliveries s)\<rparr>"

definition grant_event :: "string \<Rightarrow> dsh_identity \<Rightarrow> audit_event \<Rightarrow> audit_event" where
  "grant_event action i extra = [(''action'', JStr action), (''actor'', JStr (gi_actor i)), (''client_id'', JStr (gi_clientId i)),
     (''workspace_id'', JStr (gi_workspaceId i)), (''lead_session_id'', JStr (gi_leadSessionId i))] @ extra"

datatype grant_result =
    Put_Result string "string list"
  | Revoke_Result bool
  | Receipt string string bool

text \<open>A receipt carries its identifier, the revision of the grant, and whether it is a duplicate; \<open>accepted\<close> and
  \<open>authorizationCheckedAtCommit\<close> are true in every one. Every operation also gives the audit events it emits.\<close>

definition putGrant ::
    "(string \<Rightarrow> string) \<Rightarrow> jval \<Rightarrow> grant_io \<Rightarrow> grant_store \<Rightarrow> grant_store \<times> audit_event list \<times> (exn + grant_result)" where
  "putGrant sha input io st = (case bindR (identityOf input) (\<lambda>i. bindR (actions_of (attr input ''actions'')) (\<lambda>actions. Inr (i, actions))) of
     Inl e \<Rightarrow> (st, [], Inl e)
   | Inr (i, actions) \<Rightarrow>
      (let k = identityKey sha i; grants = gs_grants (st_state st) in
       if map_of grants k = None \<and> MAX_GRANTS \<le> length grants then (st, [], Inl (Error ''grant_store_full''))
       else (let g = \<lparr>gr_identity = i, gr_actions = sort actions, gr_revision = io_uuid io, gr_updatedAt = io_now io, gr_revokedAt = None\<rparr>;
                 (st', r) = save (io_disk io) (store_grant k g (st_state st)) st
             in case r of
                  Inl e \<Rightarrow> (st', [], Inl e)
                | Inr _ \<Rightarrow> (st', [grant_event ''grant_put'' i [(''capabilities'', jstrs (gr_actions g))]],
                    Inr (Put_Result (gr_revision g) (gr_actions g))))))"

definition revokeGrant ::
    "(string \<Rightarrow> string) \<Rightarrow> jval \<Rightarrow> grant_io \<Rightarrow> grant_store \<Rightarrow> grant_store \<times> audit_event list \<times> (exn + grant_result)" where
  "revokeGrant sha input io st = (case identityOf input of
     Inl e \<Rightarrow> (st, [], Inl e)
   | Inr i \<Rightarrow>
      (let k = identityKey sha i in
       case map_of (gs_grants (st_state st)) k of
         None \<Rightarrow> (st, [], Inr (Revoke_Result False))
       | Some current \<Rightarrow>
          if gr_revokedAt current \<noteq> None then (st, [], Inr (Revoke_Result False))
          else (let g = current\<lparr>gr_revision := io_uuid io, gr_updatedAt := io_now io, gr_revokedAt := Some (io_now io)\<rparr>;
                    (st', r) = save (io_disk io) (store_grant k g (st_state st)) st
                in case r of
                     Inl e \<Rightarrow> (st', [], Inl e)
                   | Inr _ \<Rightarrow> (st', [grant_event ''grant_revoked'' i []], Inr (Revoke_Result True)))))"

record current_grant =
  cg_identity :: dsh_identity
  cg_actions :: "string list"
  cg_revision :: string

definition lookupCurrentGrant :: "(string \<Rightarrow> string) \<Rightarrow> jval \<Rightarrow> grant_store \<Rightarrow> exn + current_grant option" where
  "lookupCurrentGrant sha input st =
    bindR (ensure (\<not> st_faulted st) (Error ''grant_store_unavailable'')) (\<lambda>_.
    bindR (identityOf input) (\<lambda>i.
    Inr (case map_of (gs_grants (st_state st)) (identityKey sha i) of
        None \<Rightarrow> None
      | Some g \<Rightarrow>
          if gr_revokedAt g \<noteq> None \<or> gr_identity g \<noteq> i then None
          else Some \<lparr>cg_identity = i, cg_actions = gr_actions g, cg_revision = gr_revision g\<rparr>)))"

record lead_grant =
  lg_workspaceId :: string
  lg_leadSessionId :: string
  lg_revision :: string

definition listCurrentLeadGrants :: "jval \<Rightarrow> grant_store \<Rightarrow> exn + lead_grant list" where
  "listCurrentLeadGrants input st =
    bindR (object_fields input) (\<lambda>fs.
    bindR (id_field fs ''actor'') (\<lambda>actor.
    bindR (id_field fs ''clientId'') (\<lambda>clientId.
    bindR (id_field fs ''sessionId'') (\<lambda>sessionId.
    bindR (id_field fs ''workspaceId'') (\<lambda>workspaceId.
    bindR (ensure (actor = actor_of clientId sessionId \<and> field fs ''action'' = JStr ''team.read'') grant_denied) (\<lambda>_.
    Inr (map (\<lambda>g. \<lparr>lg_workspaceId = gi_workspaceId (gr_identity g), lg_leadSessionId = gi_leadSessionId (gr_identity g),
            lg_revision = gr_revision g\<rparr>)
          (filter (\<lambda>g. gr_revokedAt g = None \<and> gi_actor (gr_identity g) = actor \<and> gi_clientId (gr_identity g) = clientId \<and>
              gi_sessionId (gr_identity g) = sessionId \<and> gi_workspaceId (gr_identity g) = workspaceId \<and>
              ''team.read'' \<in> set (gr_actions g)) (vals (gs_grants (st_state st)))))))))))"

section \<open>Instructions\<close>

text \<open>The part of \<open>withAuthorizedLeadCommit\<close> before \<open>submit()\<close>, what it holds on to meanwhile, and the part after it.\<close>

record commit_frame =
  cf_identity :: dsh_identity
  cf_key :: string
  cf_revision :: string
  cf_delivery :: dsh_delivery

datatype begun = Settled "exn + grant_result" | Submitting commit_frame

record commit_input =
  ci_identity :: dsh_identity
  ci_revision :: string
  ci_idempotencyKey :: string
  ci_payloadHash :: string

definition read_commit_input :: "jval \<Rightarrow> exn + commit_input" where
  "read_commit_input input =
    bindR (identityOf input) (\<lambda>i.
    bindR (object_fields input) (\<lambda>fs.
    bindR (ensure (field fs ''action'' = JStr ''lead.instruct'') grant_denied) (\<lambda>_.
    bindR (id_field fs ''revision'') (\<lambda>revision.
    bindR (ensure (GUID (text_of (field fs ''idempotencyKey''))) grant_denied) (\<lambda>_.
    bindR (hash_field fs ''payloadHash'') (\<lambda>payloadHash.
    Inr \<lparr>ci_identity = i, ci_revision = revision, ci_idempotencyKey = text_of (field fs ''idempotencyKey''),
      ci_payloadHash = payloadHash\<rparr>))))))"

definition usable_grant :: "grant_store \<Rightarrow> string \<Rightarrow> string \<Rightarrow> bool" where
  "usable_grant st k revision = (case map_of (gs_grants (st_state st)) k of
     None \<Rightarrow> False
   | Some g \<Rightarrow> gr_revokedAt g = None \<and> ''lead.instruct'' \<in> set (gr_actions g) \<and> gr_revision g = revision)"

definition commit_event :: "string \<Rightarrow> commit_frame \<Rightarrow> audit_event \<Rightarrow> audit_event" where
  "commit_event action fr extra = grant_event action (cf_identity fr) ([(''idempotency_key_hash'', JStr (cf_key fr))] @ extra)"

definition begin_commit ::
    "(string \<Rightarrow> string) \<Rightarrow> jval \<Rightarrow> grant_io \<Rightarrow> grant_store \<Rightarrow> grant_store \<times> audit_event list \<times> begun" where
  "begin_commit sha input io st = (case read_commit_input input of
     Inl e \<Rightarrow> (st, [], Settled (Inl e))
   | Inr inp \<Rightarrow>
      if \<not> usable_grant st (identityKey sha (ci_identity inp)) (ci_revision inp) then (st, [], Settled (Inl grant_denied))
      else (let k = deliveryKey sha (ci_identity inp) (ci_idempotencyKey inp);
                fresh = \<lparr>dl_identity = ci_identity inp, dl_payloadHash = ci_payloadHash inp, dl_grantRevision = ci_revision inp,
                   dl_accepted = False, dl_receiptId = ''receipt_'' @ io_uuid io, dl_createdAt = io_now io, dl_acceptedAt = None\<rparr>;
                frame = (\<lambda>d. \<lparr>cf_identity = ci_identity inp, cf_key = k, cf_revision = ci_revision inp, cf_delivery = d\<rparr>)
            in case map_of (gs_deliveries (st_state st)) k of
                 Some p \<Rightarrow>
                   if dl_payloadHash p \<noteq> ci_payloadHash inp \<or> dl_grantRevision p \<noteq> ci_revision inp
                   then (st, [], Settled (Inl (Error ''idempotency_conflict'')))
                   else if dl_accepted p
                   then (st, [commit_event ''instruction_duplicate'' (frame p) [(''outcome'', JStr ''accepted'')]],
                     Settled (Inr (Receipt (dl_receiptId p) (ci_revision inp) True)))
                   else (st, [commit_event ''instruction_retry'' (frame p) []], Submitting (frame p))
               | None \<Rightarrow>
                   if MAX_DELIVERIES \<le> length (gs_deliveries (st_state st)) then (st, [], Settled (Inl (Error ''delivery_store_full'')))
                   else (let (st', r) = save (io_disk io) (store_delivery k fresh (st_state st)) st in
                     case r of
                       Inl e \<Rightarrow> (st', [], Settled (Inl e))
                     | Inr _ \<Rightarrow> (st', [commit_event ''instruction_commit_started'' (frame fresh) []], Submitting (frame fresh)))))"

definition finish_commit ::
    "(string \<Rightarrow> string) \<Rightarrow> commit_frame \<Rightarrow> exn + jval \<Rightarrow> grant_io \<Rightarrow> grant_store \<Rightarrow>
     grant_store \<times> audit_event list \<times> (exn + grant_result)" where
  "finish_commit sha fr acknowledgement io st = (case acknowledgement of
     Inl e \<Rightarrow> (st, [], Inl e)
   | Inr ack \<Rightarrow>
      if attr ack ''accepted'' \<noteq> JBool True then (st, [], Inl (Error ''dsh_prompt_not_accepted''))
      else if \<not> usable_grant st (identityKey sha (cf_identity fr)) (cf_revision fr) then (st, [], Inl grant_denied)
      else (let accepted = (cf_delivery fr)\<lparr>dl_accepted := True, dl_acceptedAt := Some (io_now io)\<rparr>;
                (st', r) = save (io_disk io) (store_delivery (cf_key fr) accepted (st_state st)) st
            in case r of
                 Inl e \<Rightarrow> (st', [], Inl e)
               | Inr _ \<Rightarrow> (st', [commit_event ''instruction_accepted'' fr [(''outcome'', JStr ''accepted'')]],
                   Inr (Receipt (dl_receiptId accepted) (cf_revision fr) False))))"

section \<open>The queue\<close>

datatype store_call = Put_Grant jval | Revoke_Grant jval | Commit_Instruction jval

record store_machine =
  sm_store :: grant_store
  sm_running :: "(nat \<times> commit_frame) option"
  sm_queue :: "(nat \<times> store_call \<times> grant_io) list"

text \<open>One operation whose turn it is; a faulted store refuses it.\<close>

definition run_call ::
    "(string \<Rightarrow> string) \<Rightarrow> store_call \<Rightarrow> grant_io \<Rightarrow> grant_store \<Rightarrow> grant_store \<times> audit_event list \<times> begun" where
  "run_call sha c io st =
    (if st_faulted st then (st, [], Settled (Inl (Error ''grant_store_unavailable'')))
     else case c of
       Put_Grant input \<Rightarrow> (let (st', es, r) = putGrant sha input io st in (st', es, Settled r))
     | Revoke_Grant input \<Rightarrow> (let (st', es, r) = revokeGrant sha input io st in (st', es, Settled r))
     | Commit_Instruction input \<Rightarrow> begin_commit sha input io st)"

text \<open>What the callers and DeepHarness see.\<close>

datatype store_effect = Replied nat "exn + grant_result" | Submitted nat commit_frame | Logged audit_event

fun run_queue ::
    "(string \<Rightarrow> string) \<Rightarrow> (nat \<times> store_call \<times> grant_io) list \<Rightarrow> grant_store \<Rightarrow> store_machine \<times> store_effect list" where
  "run_queue sha [] st = (\<lparr>sm_store = st, sm_running = None, sm_queue = []\<rparr>, [])"
| "run_queue sha ((i, c, io) # q) st =
    (let (st', es, b) = run_call sha c io st in
     case b of
       Settled r \<Rightarrow> (let (m, fs) = run_queue sha q st' in (m, map Logged es @ [Replied i r] @ fs))
     | Submitting fr \<Rightarrow> (\<lparr>sm_store = st', sm_running = Some (i, fr), sm_queue = q\<rparr>, map Logged es @ [Submitted i fr]))"

datatype store_input = Called nat store_call grant_io | Answered "exn + jval" grant_io

fun store_machine_step :: "(string \<Rightarrow> string) \<Rightarrow> store_input \<Rightarrow> store_machine \<Rightarrow> store_machine \<times> store_effect list" where
  "store_machine_step sha (Called i c io) m = (case sm_running m of
     None \<Rightarrow> run_queue sha (sm_queue m @ [(i, c, io)]) (sm_store m)
   | Some _ \<Rightarrow> (m\<lparr>sm_queue := sm_queue m @ [(i, c, io)]\<rparr>, []))"
| "store_machine_step sha (Answered ack io) m = (case sm_running m of
     None \<Rightarrow> (m, [])
   | Some (i, fr) \<Rightarrow>
      (let (st', es, r) = finish_commit sha fr ack io (sm_store m); (m', fs) = run_queue sha (sm_queue m) st'
       in (m', map Logged es @ [Replied i r] @ fs)))"

definition idle_machine :: "grant_store \<Rightarrow> store_machine" where
  "idle_machine st = \<lparr>sm_store = st, sm_running = None, sm_queue = []\<rparr>"

end
