(* ===== verification/Semantic_Policy.thy ===== *)
theory Semantic_Policy
  imports Grants
begin

text \<open>
  \<^verbatim>\<open>integrations/deepharness/semantic-policy.mjs\<close>: the gate of the DeepHarness tools. A run of an operation is the
  tree of what it asks its providers (the current grant, the grants of a workspace, the team, the chat, the commit
  of an instruction) and of what it makes of every answer; what a provider rejects with ends the run.
\<close>

abbreviation dsh_denied :: exn where "dsh_denied \<equiv> Error ''deepharness_capability_denied''"

record lead_auth =
  la_identity :: dsh_identity
  la_action :: string
  la_revision :: string

datatype policy_query =
    Lookup_Grant dsh_identity
  | List_Leads jval
  | Read_Team lead_auth
  | Read_Chat lead_auth int
  | Commit_Lead lead_auth string string

datatype policy_run = Outcome "exn + jval" | Query policy_query "exn + jval \<Rightarrow> policy_run"

definition deny :: policy_run where "deny = Outcome (Inl dsh_denied)"

definition gate :: "bool \<Rightarrow> policy_run \<Rightarrow> policy_run" where
  "gate b p = (if b then p else deny)"

text \<open>\<open>await\<close> of a provider: a rejection passes through.\<close>

definition ask_provider :: "policy_query \<Rightarrow> (jval \<Rightarrow> policy_run) \<Rightarrow> policy_run" where
  "ask_provider q k = Query q (\<lambda>a. case a of Inl e \<Rightarrow> Outcome (Inl e) | Inr v \<Rightarrow> k v)"

primrec and_then :: "policy_run \<Rightarrow> (jval \<Rightarrow> policy_run) \<Rightarrow> policy_run" where
  "and_then (Outcome r) k = (case r of Inl e \<Rightarrow> Outcome (Inl e) | Inr v \<Rightarrow> k v)"
| "and_then (Query q f) k = Query q (\<lambda>a. and_then (f a) k)"

section \<open>Checks\<close>

definition dsh_identifier :: "jval \<Rightarrow> string option" where
  "dsh_identifier v = (case v of JStr s \<Rightarrow> if DSH_ID s then Some s else None | _ \<Rightarrow> None)"

definition scopeOf :: "jval \<Rightarrow> (string \<times> string) option" where
  "scopeOf input = (case input of
     JObj fs \<Rightarrow> (case (dsh_identifier (field fs ''workspaceId''), dsh_identifier (field fs ''leadSessionId'')) of
        (Some w, Some l) \<Rightarrow> Some (w, l) | _ \<Rightarrow> None)
   | _ \<Rightarrow> None)"

text \<open>The caller: its actor is the one its client and its session make.\<close>

definition principalOf :: "jval \<Rightarrow> (string \<times> string \<times> string) option" where
  "principalOf trusted = (case trusted of
     JObj fs \<Rightarrow> (case (field fs ''actor'', dsh_identifier (field fs ''clientId''), dsh_identifier (field fs ''sessionId'')) of
        (JStr actor, Some clientId, Some sessionId) \<Rightarrow>
           if starts_with actor ''oauth:'' \<and> actor = actor_of clientId sessionId then Some (actor, clientId, sessionId) else None
      | _ \<Rightarrow> None)
   | _ \<Rightarrow> None)"

definition known_actions :: "jval list \<Rightarrow> bool" where
  "known_actions vs = list_all (\<lambda>x. x \<in> JStr ` set DSH_ACTIONS) vs"

definition validateGrant :: "jval \<Rightarrow> dsh_identity \<Rightarrow> string \<Rightarrow> lead_auth option" where
  "validateGrant grant i action = (case (grant, attr grant ''actions'', dsh_identifier (attr grant ''revision'')) of
     (JObj fs, JArr vs, Some revision) \<Rightarrow>
        if field fs ''actor'' = JStr (gi_actor i) \<and> field fs ''clientId'' = JStr (gi_clientId i) \<and>
           field fs ''sessionId'' = JStr (gi_sessionId i) \<and> field fs ''workspaceId'' = JStr (gi_workspaceId i) \<and>
           field fs ''leadSessionId'' = JStr (gi_leadSessionId i) \<and> JStr action \<in> set vs \<and> known_actions vs
        then Some \<lparr>la_identity = i, la_action = action, la_revision = revision\<rparr> else None
   | _ \<Rightarrow> None)"

section \<open>Operations\<close>

definition authority :: "jval \<Rightarrow> jval \<Rightarrow> string \<Rightarrow> (lead_auth \<Rightarrow> policy_run) \<Rightarrow> policy_run" where
  "authority trusted input action k = (case (principalOf trusted, scopeOf input) of
     (Some (actor, clientId, sessionId), Some (workspaceId, leadSessionId)) \<Rightarrow>
       (let i = \<lparr>gi_actor = actor, gi_clientId = clientId, gi_sessionId = sessionId, gi_workspaceId = workspaceId,
              gi_leadSessionId = leadSessionId\<rparr>
        in ask_provider (Lookup_Grant i) (\<lambda>grant.
             case validateGrant grant i action of None \<Rightarrow> deny | Some auth \<Rightarrow> k auth))
   | _ \<Rightarrow> deny)"

definition recheck :: "lead_auth \<Rightarrow> policy_run \<Rightarrow> policy_run" where
  "recheck expected k = ask_provider (Lookup_Grant (la_identity expected)) (\<lambda>fresh.
     case validateGrant fresh (la_identity expected) (la_action expected) of
       None \<Rightarrow> deny
     | Some auth \<Rightarrow> gate (la_revision auth = la_revision expected) k)"

definition readTeam :: "jval \<Rightarrow> jval \<Rightarrow> policy_run" where
  "readTeam trusted input = authority trusted input ''team.read'' (\<lambda>auth.
     ask_provider (Read_Team auth) (\<lambda>result. recheck auth (Outcome (Inr result))))"

definition page_limit :: "jval \<Rightarrow> int option" where
  "page_limit v = (case v of JNum (NInt n) \<Rightarrow> if 1 \<le> n \<and> n \<le> 20 then Some n else None | _ \<Rightarrow> None)"

definition readChat :: "jval \<Rightarrow> jval \<Rightarrow> policy_run" where
  "readChat trusted input = authority trusted input ''chat.read'' (\<lambda>auth.
     case page_limit (attr input ''limit'') of
       None \<Rightarrow> deny
     | Some n \<Rightarrow> ask_provider (Read_Chat auth n) (\<lambda>result. recheck auth (Outcome (Inr result))))"

definition instruction_ok :: "string \<Rightarrow> bool" where
  "instruction_ok s = (trim s \<noteq> [] \<and> utf8_length s \<le> 4096 \<and> list_all (\<lambda>c. code c \<noteq> 0) s)"

definition instruction_of :: "jval \<Rightarrow> (string \<times> string) option" where
  "instruction_of input = (case (attr input ''instruction'', attr input ''idempotencyKey'') of
     (JStr s, JStr key) \<Rightarrow> if instruction_ok s \<and> GUID key then Some (s, key) else None
   | _ \<Rightarrow> None)"

text \<open>The receipt and whether it is a duplicate, from an acknowledgement that names the grant it was checked against.\<close>

definition commit_ack :: "lead_auth \<Rightarrow> jval \<Rightarrow> (string \<times> bool) option" where
  "commit_ack auth ack = (case (dsh_identifier (attr ack ''receiptId''), attr ack ''duplicate'') of
     (Some receipt, JBool duplicate) \<Rightarrow>
        if attr ack ''authorizationCheckedAtCommit'' = JBool True \<and> attr ack ''grantRevision'' = JStr (la_revision auth) \<and>
           attr ack ''accepted'' = JBool True
        then Some (receipt, duplicate) else None
   | _ \<Rightarrow> None)"

definition sendLeadInstruction :: "jval \<Rightarrow> jval \<Rightarrow> policy_run" where
  "sendLeadInstruction trusted input = authority trusted input ''lead.instruct'' (\<lambda>auth.
     case instruction_of input of
       None \<Rightarrow> deny
     | Some (s, key) \<Rightarrow> ask_provider (Commit_Lead auth s key) (\<lambda>ack.
         case commit_ack auth ack of
           None \<Rightarrow> deny
         | Some (receipt, duplicate) \<Rightarrow> Outcome (Inr (JObj
             [(''workspace_id'', JStr (gi_workspaceId (la_identity auth))),
              (''lead_session_id'', JStr (gi_leadSessionId (la_identity auth))),
              (''receipt_id'', JStr receipt), (''accepted'', JBool True), (''duplicate'', JBool duplicate)]))))"

definition listed_lead :: "string \<Rightarrow> jval \<Rightarrow> string option" where
  "listed_lead workspaceId grant = (case (dsh_identifier (attr grant ''leadSessionId''), dsh_identifier (attr grant ''revision'')) of
     (Some lead, Some revision) \<Rightarrow> if attr grant ''workspaceId'' = JStr workspaceId then Some lead else None
   | _ \<Rightarrow> None)"

fun read_teams :: "jval \<Rightarrow> string \<Rightarrow> string list \<Rightarrow> jval list \<Rightarrow> policy_run" where
  "read_teams trusted workspaceId [] teams = Outcome (Inr (JArr teams))"
| "read_teams trusted workspaceId (l # ls) teams =
    and_then (readTeam trusted (JObj [(''workspaceId'', JStr workspaceId), (''leadSessionId'', JStr l)]))
      (\<lambda>t. read_teams trusted workspaceId ls (teams @ [t]))"

definition lead_query :: "string \<times> string \<times> string \<Rightarrow> string \<Rightarrow> jval" where
  "lead_query p workspaceId = (case p of (actor, clientId, sessionId) \<Rightarrow> JObj
     [(''actor'', JStr actor), (''clientId'', JStr clientId), (''sessionId'', JStr sessionId),
      (''workspaceId'', JStr workspaceId), (''action'', JStr ''team.read'')])"

definition policy_listTeams :: "jval \<Rightarrow> jval \<Rightarrow> policy_run" where
  "policy_listTeams trusted input = (case (principalOf trusted, input, dsh_identifier (attr input ''workspaceId'')) of
     (Some p, JObj fs, Some workspaceId) \<Rightarrow>
       gate (set (map fst fs) \<subseteq> {''workspaceId''})
         (ask_provider (List_Leads (lead_query p workspaceId)) (\<lambda>grants. case grants of
            JArr gs \<Rightarrow>
              (case those (map (listed_lead workspaceId) gs) of
                 Some leads \<Rightarrow> gate (length gs \<le> 1000 \<and> distinct leads) (read_teams trusted workspaceId leads [])
               | None \<Rightarrow> deny)
          | _ \<Rightarrow> deny))
   | _ \<Rightarrow> deny)"

section \<open>Runs\<close>

text \<open>A run with the answers it is given, in order: what was asked with its answer, and the outcome once there is one.\<close>

type_synonym policy_trace = "(policy_query \<times> (exn + jval)) list"

fun answered :: "policy_run \<Rightarrow> (exn + jval) list \<Rightarrow> policy_trace \<times> (exn + jval) option" where
  "answered (Outcome r) as = ([], Some r)"
| "answered (Query q k) [] = ([], None)"
| "answered (Query q k) (a # as) = (let (t, r) = answered (k a) as in ((q, a) # t, r))"

section \<open>The store as the provider of grants\<close>

text \<open>The store's answer to a lookup as the value the policy receives, and its grants of a workspace.\<close>

definition current_grant_value :: "current_grant option \<Rightarrow> jval" where
  "current_grant_value c = (case c of
     None \<Rightarrow> JNull
   | Some g \<Rightarrow> JObj (identity_value (cg_identity g) @ [(''actions'', jstrs (cg_actions g)), (''revision'', JStr (cg_revision g))]))"

definition store_lookup :: "(string \<Rightarrow> string) \<Rightarrow> grant_store \<Rightarrow> dsh_identity \<Rightarrow> exn + jval" where
  "store_lookup sha st i = bindR (lookupCurrentGrant sha (JObj (identity_value i)) st) (\<lambda>c. Inr (current_grant_value c))"

definition lead_grant_value :: "lead_grant \<Rightarrow> jval" where
  "lead_grant_value g = JObj [(''workspaceId'', JStr (lg_workspaceId g)), (''leadSessionId'', JStr (lg_leadSessionId g)),
     (''revision'', JStr (lg_revision g))]"

definition store_list :: "grant_store \<Rightarrow> jval \<Rightarrow> exn + jval" where
  "store_list st q = bindR (listCurrentLeadGrants q st) (\<lambda>gs. Inr (JArr (map lead_grant_value gs)))"

end
