(* ===== verification/Dsh_Mesh.thy ===== *)
theory Dsh_Mesh
  imports Semantic_Policy
begin

text \<open>
  Both ends of the hop of a DeepHarness call over the agent mesh: the envelope of the server
  (\<^verbatim>\<open>integrations/deepharness/agent-mesh-contract.mjs\<close>) and the receiver on the agent's host
  (\<^verbatim>\<open>src/agent/deepharness.ts\<close>, with \<^verbatim>\<open>src/agent/deepharness-advertisement.ts\<close>), which passes the call to a local
  socket that another user owns. The environment, the identity of the process, the metadata of the files and the reader
  of JSON are parameters.
\<close>

section \<open>The envelope\<close>

abbreviation contract_denied :: exn where "contract_denied \<equiv> Error ''deepharness_agent_mesh_contract_denied''"

definition is_record :: "jval \<Rightarrow> bool" where
  "is_record v = (case v of JObj fs \<Rightarrow> True | _ \<Rightarrow> False)"

text \<open>\<open>exact(obj, names)\<close>: a record with these keys and no other.\<close>

definition exact :: "string list \<Rightarrow> jval \<Rightarrow> bool" where
  "exact names v = (case v of
     JObj fs \<Rightarrow> length fs = length names \<and> set names \<subseteq> set (map fst fs) \<and> set (map fst fs) \<subseteq> set names
   | _ \<Rightarrow> False)"

definition with_lead :: "string list" where
  "with_lead = [''operation'', ''workspaceId'', ''leadSessionId'']"

definition page_size :: "jval \<Rightarrow> bool" where
  "page_size v = (case v of JNum (NInt n) \<Rightarrow> 1 \<le> n \<and> n \<le> 20 | _ \<Rightarrow> False)"

definition message_ok :: "jval \<Rightarrow> bool" where
  "message_ok v = (case v of JStr s \<Rightarrow> instruction_ok s | _ \<Rightarrow> False)"

definition guid_ok :: "jval \<Rightarrow> bool" where
  "guid_ok v = (case v of JStr s \<Rightarrow> GUID s | _ \<Rightarrow> False)"

definition id_ok :: "jval \<Rightarrow> bool" where
  "id_ok v = (dsh_identifier v \<noteq> None)"

text \<open>The arguments an operation takes besides its scope.\<close>

definition shape_ok :: "string \<Rightarrow> jval \<Rightarrow> bool" where
  "shape_ok operation args =
    (if operation = ''listTeams'' then exact [''operation'', ''workspaceId''] args
     else if operation = ''getTeamStatus'' \<or> operation = ''listTasks'' then exact with_lead args
     else if operation = ''readLeadChat'' then exact (with_lead @ [''maxMessages'']) args \<and> page_size (attr args ''maxMessages'')
     else exact (with_lead @ [''requestId'', ''text'']) args \<and> guid_ok (attr args ''requestId'') \<and> message_ok (attr args ''text''))"

definition MESH_OPERATIONS :: "string list" where
  "MESH_OPERATIONS = [''listTeams'', ''getTeamStatus'', ''listTasks'', ''readLeadChat'', ''sendLeadInstruction'']"

definition checkArgs :: "jval \<Rightarrow> bool" where
  "checkArgs args = (case attr args ''operation'' of
     JStr operation \<Rightarrow> operation \<in> set MESH_OPERATIONS \<and> shape_ok operation args \<and> id_ok (attr args ''workspaceId'') \<and>
       (operation \<noteq> ''listTeams'' \<longrightarrow> id_ok (attr args ''leadSessionId''))
   | _ \<Rightarrow> False)"

definition json_bytes :: "jval \<Rightarrow> nat" where
  "json_bytes v = utf8_length (json_text v)"

definition MAX_ENVELOPE :: nat where "MAX_ENVELOPE = 16384"
definition MAX_MESH_RESPONSE :: nat where "MAX_MESH_RESPONSE = 262144"

definition validateDshAgentMeshEnvelope :: "jval \<Rightarrow> exn + jval" where
  "validateDshAgentMeshEnvelope v =
    bindR (ensure (exact [''op'', ''args''] v \<and> attr v ''op'' = JStr ''deepharness.semantic'' \<and> checkArgs (attr v ''args'') \<and>
        json_bytes v \<le> MAX_ENVELOPE) contract_denied) (\<lambda>_.
    Inr (JObj [(''op'', JStr ''deepharness.semantic''), (''args'', attr v ''args'')]))"

definition makeDshAgentMeshEnvelope :: "jval \<Rightarrow> exn + jval" where
  "makeDshAgentMeshEnvelope args =
    validateDshAgentMeshEnvelope (JObj [(''op'', JStr ''deepharness.semantic''), (''args'', args)])"

section \<open>The receiver\<close>

abbreviation mesh_denied :: exn where "mesh_denied \<equiv> Error ''deepharness_agent_mesh_denied''"
abbreviation mesh_unavailable :: exn where "mesh_unavailable \<equiv> Error ''deepharness_agent_mesh_unavailable''"

type_synonym variables = "string \<Rightarrow> string option"

definition env_id :: "variables \<Rightarrow> string \<Rightarrow> exn + string" where
  "env_id env k = (case env k of
     Some s \<Rightarrow> bindR (ensure (DSH_ID s) mesh_denied) (\<lambda>_. Inr s)
   | None \<Rightarrow> Inl mesh_denied)"

definition value_id :: "jval \<Rightarrow> exn + string" where
  "value_id v = (case dsh_identifier v of None \<Rightarrow> Inl mesh_denied | Some s \<Rightarrow> Inr s)"

record mesh_call =
  mc_operation :: jval
  mc_args :: jval
  mc_leadId :: string

text \<open>The operation is looked up in its printed form and then compared as it is: what only prints like the name of an
  operation has the arguments of an instruction.\<close>

definition validatedPayload :: "variables \<Rightarrow> jval \<Rightarrow> exn + mesh_call" where
  "validatedPayload env v =
    bindR (ensure (exact [''op'', ''args''] v \<and> attr v ''op'' = JStr ''deepharness.semantic'') mesh_denied) (\<lambda>_.
    (let args = attr v ''args''; operation = attr args ''operation'' in
    bindR (ensure (is_record args) mesh_denied) (\<lambda>_.
    bindR (ensure (str_of operation \<in> set MESH_OPERATIONS) mesh_denied) (\<lambda>_.
    bindR (ensure (shape_ok (text_of operation) args) mesh_denied) (\<lambda>_.
    bindR (value_id (attr args ''workspaceId'')) (\<lambda>workspace.
    bindR (env_id env ''DSH_AGENT_MESH_WORKSPACE_ID'') (\<lambda>expectedWorkspace.
    bindR (env_id env ''DSH_AGENT_MESH_LEAD_SESSION_ID'') (\<lambda>expectedLead.
    bindR (ensure (workspace = expectedWorkspace) mesh_denied) (\<lambda>_.
    bindR (if operation = JStr ''listTeams'' then Inr expectedLead else value_id (attr args ''leadSessionId'')) (\<lambda>lead.
    bindR (ensure (lead = expectedLead) mesh_denied) (\<lambda>_.
    bindR (ensure (json_bytes args \<le> MAX_ENVELOPE) mesh_denied) (\<lambda>_.
    Inr \<lparr>mc_operation = operation, mc_args = args, mc_leadId = expectedLead\<rparr>))))))))))))"

section \<open>The local socket\<close>

record file_stat =
  fs_directory :: bool
  fs_socket :: bool
  fs_symlink :: bool
  fs_uid :: int
  fs_gid :: int
  fs_mode :: nat

record process_identity =
  pi_uid :: int
  pi_gid :: int
  pi_groups :: "int list"

text \<open>\<open>/^[1-9][0-9]*$/\<close> and a safe integer.\<close>

definition positive_number :: "string \<Rightarrow> int option" where
  "positive_number s =
    (if re_head_class (between 49 57) is_digit 0 (length s) s \<and> safe_integer (int (digits_val s)) then Some (int (digits_val s)) else None)"

definition id_number :: "variables \<Rightarrow> string \<Rightarrow> int option" where
  "id_number env k = positive_number (coalesce (env k) [])"

text \<open>Modes in octal: \<open>02710\<close> is 1480 and \<open>0660\<close> is 432; \<open>& 07777\<close> and \<open>& 0777\<close> keep the low 12 and 9 bits.\<close>

definition owned_folder :: "int \<Rightarrow> int \<Rightarrow> 'a file_stat_scheme \<Rightarrow> bool" where
  "owned_folder uid gid st = (fs_directory st \<and> \<not> fs_symlink st \<and> fs_uid st = uid \<and> fs_gid st = gid \<and> fs_mode st mod 4096 = 1480)"

definition owned_socket :: "int \<Rightarrow> int \<Rightarrow> 'a file_stat_scheme \<Rightarrow> bool" where
  "owned_socket uid gid st = (fs_socket st \<and> \<not> fs_symlink st \<and> fs_uid st = uid \<and> fs_gid st = gid \<and> fs_mode st mod 512 = 432)"

definition DSH_SOCKET :: string where "DSH_SOCKET = ''/run/wandora/deepharness-semantic/bridge.sock''"
definition DSH_SOCKET_FOLDER :: string where "DSH_SOCKET_FOLDER = ''/run/wandora/deepharness-semantic''"

type_synonym stat_fn = "string \<Rightarrow> file_stat option"

definition requireLocalSocket :: "variables \<Rightarrow> process_identity \<Rightarrow> stat_fn \<Rightarrow> exn + unit" where
  "requireLocalSocket env me stat =
    (case (id_number env ''DSH_AGENT_MESH_RELAY_UID'', id_number env ''DSH_AGENT_MESH_SOCKET_GID'') of
       (Some relayUid, Some socketGid) \<Rightarrow>
         bindR (ensure (safe_integer (pi_uid me) \<and> pi_uid me \<noteq> 0 \<and> pi_uid me \<noteq> relayUid) mesh_unavailable) (\<lambda>_.
         bindR (ensure (socketGid \<in> set (pi_gid me # pi_groups me)) mesh_unavailable) (\<lambda>_.
         (case stat DSH_SOCKET_FOLDER of
            None \<Rightarrow> Inl mesh_unavailable
          | Some folder \<Rightarrow>
             (case stat DSH_SOCKET of
                None \<Rightarrow> Inl mesh_unavailable
              | Some target \<Rightarrow> ensure (owned_folder relayUid socketGid folder \<and> owned_socket relayUid socketGid target) mesh_unavailable))))
     | _ \<Rightarrow> Inl mesh_unavailable)"

definition canAdvertiseDshSemantic :: "variables \<Rightarrow> process_identity \<Rightarrow> stat_fn \<Rightarrow> bool" where
  "canAdvertiseDshSemantic env me stat =
    (env ''DSH_AGENT_MESH_ENABLED'' = Some ''1'' \<and> DSH_ID (coalesce (env ''DSH_AGENT_MESH_WORKSPACE_ID'') []) \<and>
     DSH_ID (coalesce (env ''DSH_AGENT_MESH_LEAD_SESSION_ID'') []) \<and>
     (case (id_number env ''DSH_AGENT_MESH_RELAY_UID'', id_number env ''DSH_AGENT_MESH_SOCKET_GID'') of
        (Some relayUid, Some socketGid) \<Rightarrow>
          safe_integer (pi_uid me) \<and> pi_uid me \<noteq> 0 \<and> relayUid \<noteq> pi_uid me \<and> socketGid \<in> set (pi_gid me # pi_groups me) \<and>
          (case (stat DSH_SOCKET_FOLDER, stat DSH_SOCKET) of
             (Some folder, Some target) \<Rightarrow> owned_folder relayUid socketGid folder \<and> owned_socket relayUid socketGid target
           | _ \<Rightarrow> False)
      | _ \<Rightarrow> False))"

section \<open>The exchange with the relay\<close>

text \<open>The request to the relay: its chunks are the bytes of the body.\<close>

record relay_request =
  rq_method :: string
  rq_url :: string
  rq_encoding :: "string option"
  rq_transfer :: "string option"
  rq_type :: "string option"
  rq_length :: "string option"
  rq_chunks :: "string list"

definition DSH_ENDPOINT :: string where "DSH_ENDPOINT = ''/wandora/dsh-bridge/v1''"

definition postSocket_request :: "string \<Rightarrow> relay_request" where
  "postSocket_request body = \<lparr>rq_method = ''POST'', rq_url = DSH_ENDPOINT, rq_encoding = None, rq_transfer = None,
     rq_type = Some ''application/json'', rq_length = Some (nat_text (utf8_length body)), rq_chunks = [utf8 body]\<rparr>"

text \<open>What comes of the request to the socket: nothing (an error or the deadline), or a response whose body has ended or not.\<close>

datatype relay_answer =
    No_Response
  | Response int "string option" "string option" "string list" bool

definition json_type :: "string \<Rightarrow> bool" where
  "json_type s = (let t = lower s; p = ''application/json''; r = dropWhile is_ws (drop (length p) t) in
     starts_with t p \<and> (drop (length p) t = [] \<or>
       (case r of c # cs \<Rightarrow> c = CHR '';'' \<and> dropWhile is_ws cs = ''charset=utf-8'' | [] \<Rightarrow> False)))"

text \<open>A body that grows beyond the limit fails when the chunk that passes it arrives; \<open>parse\<close> reads the bytes as UTF-8 and as JSON.\<close>

definition socket_packet :: "(string \<Rightarrow> jval option) \<Rightarrow> relay_answer \<Rightarrow> exn + jval" where
  "socket_packet parse a = (case a of
     No_Response \<Rightarrow> Inl mesh_unavailable
   | Response status ctype encoding chunks ended \<Rightarrow>
       if status \<noteq> 200 \<or> \<not> json_type (coalesce ctype []) \<or> encoding \<noteq> None then Inl mesh_unavailable
       else if MAX_MESH_RESPONSE < length (concat chunks) \<or> \<not> ended then Inl mesh_unavailable
       else (case parse (concat chunks) of
            None \<Rightarrow> Inl mesh_unavailable
          | Some packet \<Rightarrow> bindR (ensure (exact [''result''] packet) mesh_unavailable) (\<lambda>_. Inr (attr packet ''result''))))"

definition is_array :: "jval \<Rightarrow> bool" where
  "is_array v = (case v of JArr vs \<Rightarrow> True | _ \<Rightarrow> False)"

definition is_boolean :: "jval \<Rightarrow> bool" where
  "is_boolean v = (case v of JBool b \<Rightarrow> True | _ \<Rightarrow> False)"

definition elements :: "jval \<Rightarrow> jval list" where
  "elements v = (case v of JArr vs \<Rightarrow> vs | _ \<Rightarrow> [])"

definition team_entry :: "jval \<Rightarrow> bool" where
  "team_entry team = (is_record team \<and> (case attr team ''leadSessionId'' of JStr s \<Rightarrow> True | _ \<Rightarrow> False))"

definition sanitize :: "jval \<Rightarrow> string \<Rightarrow> jval \<Rightarrow> exn + jval" where
  "sanitize operation leadId r =
    (if operation = JStr ''sendLeadInstruction'' then Inr r
     else if operation = JStr ''getTeamStatus'' then
       bindR (ensure (is_record r \<and> attr r ''leadSessionId'' = JStr leadId \<and> is_array (attr r ''members'') \<and> is_array (attr r ''tasks''))
         mesh_denied) (\<lambda>_. Inr r)
     else if operation = JStr ''readLeadChat'' then
       bindR (ensure (is_record r \<and> is_array (attr r ''messages'') \<and> length (elements (attr r ''messages'')) \<le> 20 \<and>
         is_boolean (attr r ''hasMore'')) mesh_denied) (\<lambda>_. Inr r)
     else bindR (ensure (is_array r) mesh_denied) (\<lambda>_.
       if operation = JStr ''listTeams'' then
         bindR (ensure (length (elements r) \<le> 256 \<and> list_all team_entry (elements r)) mesh_denied) (\<lambda>_.
         Inr (JArr (filter (\<lambda>team. attr team ''leadSessionId'' = JStr leadId) (elements r))))
       else Inr r))"

definition instruction_ack :: "jval \<Rightarrow> jval \<Rightarrow> bool" where
  "instruction_ack args r = (case r of
     JObj fs \<Rightarrow> field fs ''accepted'' = JBool True \<and> field fs ''requestId'' = attr args ''requestId'' \<and>
       set (map fst fs) \<subseteq> {''accepted'', ''requestId''}
   | _ \<Rightarrow> False)"

definition relay_reply :: "(string \<Rightarrow> jval option) \<Rightarrow> mesh_call \<Rightarrow> relay_answer \<Rightarrow> exn + string" where
  "relay_reply parse call a =
    bindR (socket_packet parse a) (\<lambda>r.
    bindR (ensure (mc_operation call = JStr ''sendLeadInstruction'' \<longrightarrow> instruction_ack (mc_args call) r) mesh_denied) (\<lambda>_.
    bindR (sanitize (mc_operation call) (mc_leadId call) r) (\<lambda>safe.
    bindR (ensure (json_bytes safe \<le> MAX_MESH_RESPONSE) mesh_denied) (\<lambda>_.
    Inr (json_text safe)))))"

text \<open>A call that is refused posts nothing; one that is passed on posts the text of its arguments with a deadline, and its
  answer becomes the result. Every failure looks the same.\<close>

datatype dsh_plan = Refused_Call exec_result | Post_Call string int "relay_answer \<Rightarrow> exec_result"

definition mesh_failed :: "int \<Rightarrow> exec_result" where
  "mesh_failed ms = failed ms ''deepharness_agent_mesh_unavailable''"

definition executeDshAgentOperation ::
    "variables \<Rightarrow> process_identity \<Rightarrow> stat_fn \<Rightarrow> (string \<Rightarrow> jval option) \<Rightarrow> int \<Rightarrow> exec_options \<Rightarrow> jval \<Rightarrow> dsh_plan" where
  "executeDshAgentOperation env me stat parse ms opts request =
    (case
       bindR (ensure (env ''DSH_AGENT_MESH_ENABLED'' = Some ''1'') mesh_unavailable) (\<lambda>_.
       bindR (validatedPayload env request) (\<lambda>call.
       bindR (requireLocalSocket env me stat) (\<lambda>_. Inr call))) of
       Inl e \<Rightarrow> Refused_Call (mesh_failed ms)
     | Inr call \<Rightarrow> Post_Call (json_text (mc_args call)) (clamp 1000 30000 (coalesce (xo_timeoutMs opts) 10000))
         (\<lambda>a. case relay_reply parse call a of
            Inl e \<Rightarrow> mesh_failed ms
          | Inr out \<Rightarrow> result ms (Some 0) out [] False False))"

end
