(* ===== verification/Dsh_Console.thy ===== *)
theory Dsh_Console
  imports Dsh_Mesh OAuth Gateway Targets Baseline Schema
begin

text \<open>
  Where DeepHarness meets the server's own sessions: the console page that binds a grant to a live OAuth session
  (\<^verbatim>\<open>src/admin/deepharness-grants.ts\<close>, \<^verbatim>\<open>integrations/deepharness/grant-admin-contract.mjs\<close>), and the tools that
  call the policy with the identity of the bearer (\<^verbatim>\<open>integrations/deepharness/mcp-tools.mjs\<close>). The markup of the page,
  the descriptions of the tools and the loading of certificates are left out; zod's UUID test is a parameter.
\<close>

section \<open>The subject of a grant\<close>

abbreviation subject_denied :: exn where "subject_denied \<equiv> Error ''deepharness_grant_admin_denied''"

definition LEAD_ID :: "string \<Rightarrow> bool" where
  "LEAD_ID s = (starts_with s ''session-'' \<and> GUID (drop 8 s))"

datatype grant_operation = Grant_Read | Grant_Instruct | Grant_Revoke

definition operation_of :: "jval \<Rightarrow> grant_operation option" where
  "operation_of v = (if v = JStr ''read'' then Some Grant_Read else if v = JStr ''instruct'' then Some Grant_Instruct
     else if v = JStr ''revoke'' then Some Grant_Revoke else None)"

definition operation_text :: "grant_operation \<Rightarrow> string" where
  "operation_text x = (case x of Grant_Read \<Rightarrow> ''read'' | Grant_Instruct \<Rightarrow> ''instruct'' | Grant_Revoke \<Rightarrow> ''revoke'')"

definition operation_actions :: "grant_operation \<Rightarrow> string list" where
  "operation_actions x = (case x of
     Grant_Read \<Rightarrow> [''team.read'', ''chat.read'']
   | Grant_Instruct \<Rightarrow> [''team.read'', ''chat.read'', ''lead.instruct'']
   | Grant_Revoke \<Rightarrow> [])"

definition confirmation_text :: "grant_operation \<Rightarrow> string" where
  "confirmation_text x = (case x of
     Grant_Read \<Rightarrow> ''GRANT READ TEAM_3'' | Grant_Instruct \<Rightarrow> ''GRANT INSTRUCT TEAM_3'' | Grant_Revoke \<Rightarrow> ''REVOKE TEAM_3'')"

record grant_subject =
  sb_identity :: dsh_identity
  sb_actions :: "string list"
  sb_operation :: grant_operation

text \<open>\<open>sessionId\<close> is tested in its printed form but looked up as it is, so only a text finds a session.\<close>

definition live_client :: "stored_client list \<Rightarrow> string \<Rightarrow> bool" where
  "live_client cs clientId = (case List.find (\<lambda>c. cl_id c = clientId) cs of
     None \<Rightarrow> False
   | Some c \<Rightarrow> \<not> truthy (cl_revoked_at c))"

definition selectCurrentDshGrantSubject ::
    "stored_session list \<Rightarrow> stored_client list \<Rightarrow> jval \<Rightarrow> string \<Rightarrow> string \<Rightarrow> jval \<Rightarrow> jval \<Rightarrow> int \<Rightarrow> exn + grant_subject" where
  "selectCurrentDshGrantSubject ss cs sessionId workspaceId leadSessionId operation confirmation now =
    bindR (ensure (DSH_ID (str_of sessionId) \<and> GUID workspaceId \<and> LEAD_ID leadSessionId \<and> safe_integer now) subject_denied) (\<lambda>_.
    (case operation_of operation of
       None \<Rightarrow> Inl subject_denied
     | Some x \<Rightarrow>
        bindR (ensure (confirmation = JStr (confirmation_text x)) subject_denied) (\<lambda>_.
        (case List.find (\<lambda>s. JStr (ss_id s) = sessionId) ss of
           None \<Rightarrow> Inl subject_denied
         | Some s \<Rightarrow>
            bindR (ensure (DSH_ID (ss_client_id s)) subject_denied) (\<lambda>_.
            bindR (ensure (x = Grant_Revoke \<or> \<not> truthy (ss_revoked_at s) \<and> safe_integer (ss_refresh_expires_at s) \<and>
                now < ss_refresh_expires_at s \<and> live_client cs (ss_client_id s)) subject_denied) (\<lambda>_.
            Inr \<lparr>sb_identity = \<lparr>gi_actor = actor_of (ss_client_id s) (ss_id s), gi_clientId = ss_client_id s, gi_sessionId = ss_id s,
                   gi_workspaceId = workspaceId, gi_leadSessionId = leadSessionId\<rparr>,
                 sb_actions = operation_actions x, sb_operation = x\<rparr>))))))"

definition subject_value :: "grant_subject \<Rightarrow> jval" where
  "subject_value s = JObj (identity_value (sb_identity s) @ [(''actions'', jstrs (sb_actions s)),
     (''operation'', JStr (operation_text (sb_operation s)))])"

section \<open>The console\<close>

abbreviation console_denied :: exn where "console_denied \<equiv> Error ''deepharness_grant_admin_unavailable''"

definition LAB_TARGET :: string where "LAB_TARGET = ''deepharness-semantic-lab''"
definition LAB_WORKSPACE :: string where "LAB_WORKSPACE = ''fc24d43c-caf3-4059-8d82-5e9edd3c04c8''"
definition LAB_LEAD :: string where "LAB_LEAD = ''session-83cba7de-20a3-447b-967a-36315132db1a''"

text \<open>The page works only for the one lab whose target is registered, switched on, as its preset has it, and online.\<close>

definition requireConfiguredLab ::
    "(string \<Rightarrow> string \<Rightarrow> bool) \<Rightarrow> variables \<Rightarrow> registry_state \<Rightarrow> gateway \<Rightarrow> exn + (string \<times> string)" where
  "requireConfiguredLab le env rs g =
    (let w = coalesce (env ''DSH_GRANT_WORKSPACE_ID'') []; l = coalesce (env ''DSH_GRANT_LEAD_SESSION_ID'') [] in
     bindR (ensure (env ''DSH_SEMANTIC_ENABLED'' = Some ''1'' \<and> env ''DSH_SEMANTIC_TRANSPORT'' = Some ''agent-mesh-lab'' \<and>
       env ''DSH_SEMANTIC_AGENT_TARGET_ID'' = Some LAB_TARGET) console_denied) (\<lambda>_.
     bindR (ensure (GUID w \<and> LEAD_ID l \<and> w = LAB_WORKSPACE \<and> l = LAB_LEAD) console_denied) (\<lambda>_.
     bindR (getTarget LAB_TARGET rs) (\<lambda>target.
     (case target of
        None \<Rightarrow> Inl console_denied
      | Some t \<Rightarrow>
         bindR (ensure (enabled t \<and> effectiveTargetEnabled (tid t) (enabled t) (gw_store g)) console_denied) (\<lambda>_.
         bindR (validateAgentTargetAgainstPreset le t Deepharness_Semantic_Lab) (\<lambda>pc.
         bindR (ensure (pc_valid pc \<and> coalesce (deviceId t) [] \<noteq> [] \<and> ks_online (agentConnectionStatus (coalesce (deviceId t) []) g)) console_denied) (\<lambda>_.
         Inr (w, l)))))))))"

text \<open>The call a submitted form makes to the grant store.\<close>

definition console_call ::
    "(string \<Rightarrow> string \<Rightarrow> bool) \<Rightarrow> variables \<Rightarrow> registry_state \<Rightarrow> gateway \<Rightarrow> (string \<times> jval) list \<Rightarrow> int \<Rightarrow>
     exn + (grant_operation \<times> store_call)" where
  "console_call le env rs g body now =
    bindR (requireConfiguredLab le env rs g) (\<lambda>(w, l).
    bindR (selectCurrentDshGrantSubject (listSessions (gw_store g)) (listClients (gw_store g)) (field body ''session_id'') w l (field body ''operation'')
        (field body ''confirmation'') now) (\<lambda>s.
    Inr (sb_operation s, if sb_operation s = Grant_Revoke then Revoke_Grant (subject_value s) else Put_Grant (subject_value s))))"

text \<open>Its answer and the audit line: the tool, the result and the error code.\<close>

datatype console_reply = Redirected | Forbidden

definition console_answer :: "exn + (grant_operation \<times> store_call) \<Rightarrow> exn + grant_result \<Rightarrow> console_reply \<times> string \<times> string \<times> string option" where
  "console_answer call answer = (case (call, answer) of
     (Inr (x, c), Inr r) \<Rightarrow> (Redirected, ''admin.dsh_grant_'' @ operation_text x, ''ok'', None)
   | _ \<Rightarrow> (Forbidden, ''admin.dsh_grant_denied'', ''denied'', Some ''CAPABILITY_DENIED''))"

text \<open>The sessions the page offers.\<close>

definition offered_sessions :: "store \<Rightarrow> int \<Rightarrow> stored_session list" where
  "offered_sessions st now =
    (let live = map cl_id (filter (\<lambda>c. \<not> truthy (cl_revoked_at c)) (listClients st)) in
     take 80 (filter (\<lambda>s. \<not> truthy (ss_revoked_at s) \<and> now < ss_refresh_expires_at s \<and> ss_client_id s \<in> set live) (listSessions st)))"

section \<open>The tools\<close>

text \<open>The caller of a tool as the policy gets it.\<close>

definition caller_value :: "string \<times> string \<times> string \<Rightarrow> jval" where
  "caller_value c = (case c of (actor, clientId, sessionId) \<Rightarrow>
     JObj [(''actor'', JStr actor), (''clientId'', JStr clientId), (''sessionId'', JStr sessionId)])"

record dsh_tool =
  dt_name :: string
  dt_shape :: shape
  dt_mutation :: bool
  dt_idempotent :: bool
  dt_run :: "(string \<times> jval) list \<Rightarrow> string \<times> string \<times> string \<Rightarrow> policy_run"

definition dsh_id_field :: schema where
  "dsh_id_field = Z_String (\<lambda>s. 1 \<le> length s \<and> length s \<le> 256)"

definition lead_fields :: shape where
  "lead_fields = [(''workspaceId'', dsh_id_field), (''leadSessionId'', dsh_id_field)]"

definition list_tasks_run :: "(string \<times> jval) list \<Rightarrow> string \<times> string \<times> string \<Rightarrow> policy_run" where
  "list_tasks_run args c = and_then (readTeam (caller_value c) (JObj args)) (\<lambda>team. Outcome (bindR (get team ''tasks'') (\<lambda>tasks.
     Inr (JObj [(''workspace_id'', field args ''workspaceId''), (''lead_session_id'', field args ''leadSessionId''), (''tasks'', tasks)]))))"

definition read_chat_run :: "(string \<times> jval) list \<Rightarrow> string \<times> string \<times> string \<Rightarrow> policy_run" where
  "read_chat_run args c = readChat (caller_value c) (JObj [(''workspaceId'', field args ''workspaceId''),
     (''leadSessionId'', field args ''leadSessionId''), (''limit'', or_default (field args ''maxMessages'') (JNum (NInt 20)))])"

definition createDeepharnessToolDefs :: "(string \<Rightarrow> bool) \<Rightarrow> dsh_tool list" where
  "createDeepharnessToolDefs uuid =
    [\<lparr>dt_name = ''dsh_list_teams'', dt_shape = [(''workspaceId'', dsh_id_field)], dt_mutation = False, dt_idempotent = False,
       dt_run = (\<lambda>args c. policy_listTeams (caller_value c) (JObj args))\<rparr>,
     \<lparr>dt_name = ''dsh_get_team_status'', dt_shape = lead_fields, dt_mutation = False, dt_idempotent = False,
       dt_run = (\<lambda>args c. readTeam (caller_value c) (JObj args))\<rparr>,
     \<lparr>dt_name = ''dsh_list_tasks'', dt_shape = lead_fields, dt_mutation = False, dt_idempotent = False, dt_run = list_tasks_run\<rparr>,
     \<lparr>dt_name = ''dsh_read_lead_chat'',
       dt_shape = lead_fields @ [(''maxMessages'', Z_Default (JNum (NInt 20)) (Z_Int (\<lambda>n. 1 \<le> n \<and> n \<le> 20)))],
       dt_mutation = False, dt_idempotent = False, dt_run = read_chat_run\<rparr>,
     \<lparr>dt_name = ''dsh_send_lead_instruction'',
       dt_shape = lead_fields @ [(''instruction'', Z_String (\<lambda>s. 1 \<le> length s \<and> length s \<le> 4096)), (''idempotencyKey'', Z_String uuid)],
       dt_mutation = True, dt_idempotent = True, dt_run = (\<lambda>args c. sendLeadInstruction (caller_value c) (JObj args))\<rparr>]"

definition runtime_denied :: exn where "runtime_denied = Error ''deepharness_semantic_runtime_unavailable''"

text \<open>Whether the tools are loaded, and over which transport.\<close>

definition loadDeepharnessToolDefs :: "variables \<Rightarrow> exn + string option" where
  "loadDeepharnessToolDefs env =
    (if env ''DSH_SEMANTIC_ENABLED'' \<noteq> Some ''1'' then Inr None
     else if env ''AUTH_MODE'' = Some ''noauth'' then Inl runtime_denied
     else (let transport_name = coalesce (env ''DSH_SEMANTIC_TRANSPORT'') ''mtls'' in
       if transport_name \<notin> {''mtls'', ''agent-mesh-lab''} then Inl runtime_denied
       else if transport_name = ''agent-mesh-lab'' \<and>
         (env ''AUTH_MODE'' \<noteq> Some ''oauth'' \<or> env ''DSH_SEMANTIC_AGENT_TARGET_ID'' \<noteq> Some LAB_TARGET) then Inl runtime_denied
       else Inr (Some transport_name)))"

end
