(* ===== verification/Dsh_Bridge.thy ===== *)
theory Dsh_Bridge
  imports Dsh_Mesh
begin

text \<open>
  The server's side of a DeepHarness call: the backend that the policy asks
  (\<^verbatim>\<open>integrations/deepharness/private-bridge-backend.mjs\<close>), the client with its five operations
  (\<^verbatim>\<open>private-bridge-client.mjs\<close>), the requester over the agent mesh (\<^verbatim>\<open>agent-mesh-semantic-client.mjs\<close>) and their
  composition with the grant store (\<^verbatim>\<open>composition.mjs\<close>). A run of the backend is the tree of the payloads it posts. The
  requester over mutual TLS is library code around the same payloads.
\<close>

section \<open>The client\<close>

abbreviation bridge_unavailable :: exn where "bridge_unavailable \<equiv> Error ''deepharness_private_bridge_unavailable''"

text \<open>The client's \<open>exact\<close>: no other key, and every key but \<open>maxMessages\<close> present.\<close>

definition client_exact :: "string list \<Rightarrow> jval \<Rightarrow> bool" where
  "client_exact names v = (case v of
     JObj fs \<Rightarrow> set (map fst fs) \<subseteq> set names \<and> set names - {''maxMessages''} \<subseteq> set (map fst fs)
   | _ \<Rightarrow> False)"

definition client_scope :: "string list \<Rightarrow> jval \<Rightarrow> exn + (string \<times> jval) list" where
  "client_scope names input =
    bindR (ensure (client_exact names input) bridge_unavailable) (\<lambda>_.
    bindR (ensure (id_ok (attr input ''workspaceId'')) bridge_unavailable) (\<lambda>_.
    if ''leadSessionId'' \<in> set names then
      bindR (ensure (id_ok (attr input ''leadSessionId'')) bridge_unavailable) (\<lambda>_.
      Inr [(''workspaceId'', attr input ''workspaceId''), (''leadSessionId'', attr input ''leadSessionId'')])
    else Inr [(''workspaceId'', attr input ''workspaceId'')]))"

definition payload :: "string \<Rightarrow> (string \<times> jval) list \<Rightarrow> jval" where
  "payload operation fs = JObj ((''operation'', JStr operation) # fs)"

text \<open>What a call posts, and what it makes of the answer.\<close>

definition client_listTeams :: "jval \<Rightarrow> exn + jval" where
  "client_listTeams input = bindR (client_scope [''workspaceId''] input) (\<lambda>fs. Inr (payload ''listTeams'' fs))"

definition client_getTeamStatus :: "jval \<Rightarrow> exn + jval" where
  "client_getTeamStatus input =
    bindR (client_scope [''workspaceId'', ''leadSessionId''] input) (\<lambda>fs. Inr (payload ''getTeamStatus'' fs))"

definition client_listTasks :: "jval \<Rightarrow> exn + jval" where
  "client_listTasks input = bindR (client_scope [''workspaceId'', ''leadSessionId''] input) (\<lambda>fs. Inr (payload ''listTasks'' fs))"

definition client_readLeadChat :: "jval \<Rightarrow> exn + jval" where
  "client_readLeadChat input =
    (let maxMessages = or_default (attr input ''maxMessages'') (JNum (NInt 50)) in
     bindR (client_scope [''workspaceId'', ''leadSessionId'', ''maxMessages''] input) (\<lambda>fs.
     bindR (ensure (page_size maxMessages) bridge_unavailable) (\<lambda>_.
     Inr (payload ''readLeadChat'' (fs @ [(''maxMessages'', maxMessages)])))))"

definition client_sendLeadInstruction :: "jval \<Rightarrow> exn + jval" where
  "client_sendLeadInstruction input =
    bindR (client_scope [''workspaceId'', ''leadSessionId'', ''requestId'', ''text''] input) (\<lambda>fs.
    bindR (ensure (guid_ok (attr input ''requestId'') \<and> message_ok (attr input ''text'')) bridge_unavailable) (\<lambda>_.
    Inr (payload ''sendLeadInstruction'' (fs @ [(''requestId'', attr input ''requestId''), (''text'', attr input ''text'')]))))"

definition array_reply :: "jval \<Rightarrow> exn + jval" where
  "array_reply r = bindR (ensure (is_array r) bridge_unavailable) (\<lambda>_. Inr r)"

definition record_reply :: "jval \<Rightarrow> exn + jval" where
  "record_reply r = bindR (ensure (is_record r) bridge_unavailable) (\<lambda>_. Inr r)"

text \<open>\<open>result.accepted\<close> of \<open>null\<close> throws.\<close>

definition instruction_reply :: "jval \<Rightarrow> jval \<Rightarrow> exn + jval" where
  "instruction_reply input r =
    bindR (get r ''accepted'') (\<lambda>accepted.
    bindR (ensure (accepted = JBool True \<and> attr r ''requestId'' = attr input ''requestId'') bridge_unavailable) (\<lambda>_.
    Inr (JObj [(''accepted'', JBool True), (''requestId'', attr input ''requestId'')])))"

section \<open>The requester over the agent mesh\<close>

abbreviation mesh_client_unavailable :: exn where
  "mesh_client_unavailable \<equiv> Error ''deepharness_agent_mesh_client_unavailable''"

text \<open>The target of the lab: an enabled agent target with the one semantic capability and nothing else.\<close>

definition validateDshSemanticAgentTarget :: "target_config \<Rightarrow> exn + string" where
  "validateDshSemanticAgentTarget t =
    (case deviceId t of
       None \<Rightarrow> Inl mesh_client_unavailable
     | Some device \<Rightarrow>
        bindR (ensure (tid t = ''deepharness-semantic-lab'' \<and> transport t = Agent \<and> environment t = Development \<and>
            capabilityProfile t = Semantic_Operator \<and> enabled t \<and> re_device_id device \<and>
            allowedSemanticCapabilities t = [''deepharness.semantic''] \<and> allowedPaths t = [] \<and> allowedGitRepos t = [] \<and>
            allowedDockerContainers t = [] \<and> allowedDockerExecContainers t = [] \<and> allowedDockerExecPrograms t = [] \<and>
            allowedDockerActions t = [] \<and> allowedDockerImageLoadRoots t = [] \<and> allowedDockerCandidateImagePrefixes t = [] \<and>
            allowedDockerCandidateNetworks t = [] \<and> allowedDockerCandidateNamePrefixes t = [] \<and>
            allowedDockerCandidateHostPorts t = [] \<and> allowedDockerCandidateContainerPorts t = [] \<and> allowedServices t = [] \<and>
            allowedServiceActions t = [] \<and> allowedAdminPrograms t = [] \<and> allowedAdminCwds t = [] \<and> allowedWritePaths t = [] \<and>
            allowedProcessCwds t = [] \<and> allowedProcessPrograms t = []) mesh_client_unavailable) (\<lambda>_. Inr device))"

text \<open>A request: the device and the envelope it is sent to, from the target the requester was made for and the current one.\<close>

definition mesh_request :: "string \<Rightarrow> target_config option \<Rightarrow> jval \<Rightarrow> exn + string \<times> jval" where
  "mesh_request trusted current args =
    bindR (makeDshAgentMeshEnvelope args) (\<lambda>envelope.
    (case current of
       None \<Rightarrow> Inl mesh_client_unavailable
     | Some t \<Rightarrow>
        bindR (validateDshSemanticAgentTarget t) (\<lambda>device.
        bindR (ensure (device = trusted) mesh_client_unavailable) (\<lambda>_. Inr (trusted, envelope)))))"

definition mesh_response :: "(string \<Rightarrow> jval option) \<Rightarrow> exn + exec_result \<Rightarrow> exn + jval" where
  "mesh_response parse r = (case r of
     Inl e \<Rightarrow> Inl mesh_client_unavailable
   | Inr x \<Rightarrow>
      bindR (ensure (exit_code x = Some 0 \<and> \<not> truncated x \<and> \<not> timedOut x \<and> stderr x = [] \<and>
          utf8_length (stdout x) \<le> MAX_MESH_RESPONSE \<and> stdout x \<noteq> []) mesh_client_unavailable) (\<lambda>_.
      (case parse (stdout x) of None \<Rightarrow> Inl mesh_client_unavailable | Some v \<Rightarrow> Inr v)))"

section \<open>The backend\<close>

abbreviation backend_denied :: exn where "backend_denied \<equiv> Error ''deepharness_private_bridge_denied''"

datatype backend_run = Backend_Done "exn + jval" | Post jval "exn + jval \<Rightarrow> backend_run"

definition post_payload :: "exn + jval \<Rightarrow> (jval \<Rightarrow> exn + jval) \<Rightarrow> (jval \<Rightarrow> backend_run) \<Rightarrow> backend_run" where
  "post_payload p reply k = (case p of
     Inl e \<Rightarrow> Backend_Done (Inl e)
   | Inr args \<Rightarrow> Post args (\<lambda>a. case bindR a reply of Inl e \<Rightarrow> Backend_Done (Inl e) | Inr r \<Rightarrow> k r))"

text \<open>The scope of an authority and its revision; the actor is checked again.\<close>

definition backend_authority :: "jval \<Rightarrow> exn + (dsh_identity \<times> string)" where
  "backend_authority auth = (case auth of
     JObj fs \<Rightarrow> (case (identity_fields fs, id_field fs ''revision'') of
        (Inr i, Inr revision) \<Rightarrow> bindR (ensure (own_actor i) backend_denied) (\<lambda>_. Inr (i, revision))
      | _ \<Rightarrow> Inl backend_denied)
   | _ \<Rightarrow> Inl backend_denied)"

definition scope_input :: "dsh_identity \<Rightarrow> (string \<times> jval) list \<Rightarrow> jval" where
  "scope_input i extra = JObj ([(''workspaceId'', JStr (gi_workspaceId i)), (''leadSessionId'', JStr (gi_leadSessionId i))] @ extra)"

definition bounded_text :: "nat \<Rightarrow> jval \<Rightarrow> exn + jval" where
  "bounded_text limit v = (case v of
     JStr s \<Rightarrow> bindR (ensure (length s \<le> limit) backend_denied) (\<lambda>_. Inr v)
   | _ \<Rightarrow> Inl backend_denied)"

definition backend_id :: "jval \<Rightarrow> exn + jval" where
  "backend_id v = bindR (ensure (id_ok v) backend_denied) (\<lambda>_. Inr v)"

definition one_of :: "string list \<Rightarrow> jval \<Rightarrow> bool" where
  "one_of names v = (v \<in> JStr ` set names)"

definition team_member :: "jval \<Rightarrow> exn + jval" where
  "team_member m =
    bindR (ensure (is_record m \<and> one_of [''lead'', ''teammate''] (attr m ''role'') \<and>
        one_of [''provisioning'', ''active'', ''failed''] (attr m ''phase'')) backend_denied) (\<lambda>_.
    bindR (backend_id (attr m ''id'')) (\<lambda>i.
    bindR (bounded_text 120 (attr m ''name'')) (\<lambda>name.
    Inr (JObj [(''id'', i), (''role'', attr m ''role''), (''name'', name), (''phase'', attr m ''phase'')]))))"

definition positive_revision :: "jval \<Rightarrow> bool" where
  "positive_revision v = (case v of JNum (NInt n) \<Rightarrow> safe_integer n \<and> 1 \<le> n | _ \<Rightarrow> False)"

definition team_task :: "jval \<Rightarrow> exn + jval" where
  "team_task t =
    bindR (ensure (is_record t \<and> positive_revision (attr t ''revision'') \<and>
        one_of [''pending'', ''in_progress'', ''completed''] (attr t ''status'') \<and> is_boolean (attr t ''ready'') \<and>
        is_array (attr t ''blockedBy'') \<and> is_array (attr t ''writeScopes'') \<and> is_array (attr t ''writeScopeWarnings'')) backend_denied) (\<lambda>_.
    bindR (backend_id (attr t ''id'')) (\<lambda>i.
    bindR (bounded_text 240 (attr t ''subject'')) (\<lambda>subject.
    bindR (bounded_text 500 (attr t ''description'')) (\<lambda>description.
    Inr (JObj [(''id'', i), (''status'', attr t ''status''), (''subject'', subject), (''description'', description)])))))"

definition is_lead :: "jval \<Rightarrow> bool" where
  "is_lead m = (attr m ''role'' = JStr ''lead'')"

definition active_lead :: "dsh_identity \<Rightarrow> jval \<Rightarrow> bool" where
  "active_lead i m = (is_lead m \<and> attr m ''id'' = JStr (gi_leadSessionId i) \<and> attr m ''phase'' = JStr ''active'')"

definition validateTeam :: "dsh_identity \<Rightarrow> jval \<Rightarrow> exn + jval" where
  "validateTeam i v =
    bindR (ensure (is_record v \<and> attr v ''leadSessionId'' = JStr (gi_leadSessionId i) \<and> is_array (attr v ''members'') \<and>
        1 \<le> length (elements (attr v ''members'')) \<and> length (elements (attr v ''members'')) \<le> 128 \<and>
        is_array (attr v ''tasks'') \<and> length (elements (attr v ''tasks'')) \<le> 512) backend_denied) (\<lambda>_.
    bindR (mapR team_member (elements (attr v ''members''))) (\<lambda>members.
    bindR (ensure (length (filter (active_lead i) members) = 1 \<and> length (filter is_lead members) = 1) backend_denied) (\<lambda>_.
    bindR (mapR team_task (elements (attr v ''tasks''))) (\<lambda>tasks.
    bindR (ensure (distinct (map (\<lambda>m. attr m ''id'') members) \<and> distinct (map (\<lambda>t. attr t ''id'') tasks)) backend_denied) (\<lambda>_.
    Inr (JObj [(''workspace_id'', JStr (gi_workspaceId i)), (''lead_session_id'', JStr (gi_leadSessionId i)),
      (''members'', JArr members), (''tasks'', JArr tasks)]))))))"

definition team_of :: "dsh_identity \<Rightarrow> (jval \<Rightarrow> backend_run) \<Rightarrow> backend_run" where
  "team_of i k = post_payload (client_getTeamStatus (scope_input i [])) (\<lambda>r. bindR (record_reply r) (validateTeam i)) k"

definition readAuthorizedTeam :: "jval \<Rightarrow> backend_run" where
  "readAuthorizedTeam auth = (case backend_authority auth of
     Inl e \<Rightarrow> Backend_Done (Inl e)
   | Inr (i, revision) \<Rightarrow> team_of i (\<lambda>team. Backend_Done (Inr team)))"

definition chat_message :: "jval \<Rightarrow> exn + jval" where
  "chat_message m =
    bindR (ensure (is_record m \<and> one_of [''user'', ''assistant''] (attr m ''role'')) backend_denied) (\<lambda>_.
    bindR (bounded_text 6000 (attr m ''text'')) (\<lambda>s.
    Inr (JObj [(''role'', attr m ''role''), (''text'', s)])))"

definition chat_page :: "dsh_identity \<Rightarrow> int \<Rightarrow> jval \<Rightarrow> exn + jval" where
  "chat_page i limit r =
    bindR (ensure (is_record r \<and> is_array (attr r ''messages'') \<and> int (length (elements (attr r ''messages''))) \<le> limit \<and>
        is_boolean (attr r ''hasMore'')) backend_denied) (\<lambda>_.
    bindR (mapR chat_message (elements (attr r ''messages''))) (\<lambda>messages.
    Inr (JObj [(''workspace_id'', JStr (gi_workspaceId i)), (''lead_session_id'', JStr (gi_leadSessionId i)),
      (''messages'', JArr (filter (\<lambda>m. attr m ''text'' \<noteq> JStr []) messages))])))"

definition readAuthorizedChat :: "jval \<Rightarrow> backend_run" where
  "readAuthorizedChat auth = (case (backend_authority auth, page_limit (attr auth ''limit'')) of
     (Inl e, _) \<Rightarrow> Backend_Done (Inl e)
   | (Inr (i, revision), None) \<Rightarrow> Backend_Done (Inl backend_denied)
   | (Inr (i, revision), Some limit) \<Rightarrow>
       post_payload (client_readLeadChat (scope_input i [(''maxMessages'', JNum (NInt limit))]))
         (\<lambda>r. bindR (record_reply r) (chat_page i limit)) (\<lambda>page. Backend_Done (Inr page)))"

section \<open>Instructions\<close>

text \<open>The identifier of the prompt: the digest of the scope and the key, as a UUID of version 5. On a byte, \<open>& 0x0f\<close> and
  \<open>& 0x3f\<close> keep its low 4 and 6 bits, and \<open>| 0x50\<close> and \<open>| 0x80\<close> set bits above them.\<close>

definition uuid_bytes :: "nat list \<Rightarrow> nat list" where
  "uuid_bytes digest = (let d = digest[6 := digest ! 6 mod 16 + 80] in take 16 (d[8 := d ! 8 mod 64 + 128]))"

definition hex_byte :: "nat \<Rightarrow> string" where
  "hex_byte b = [hex_digit (b div 16), hex_digit (b mod 16)]"

definition uuid_text :: "nat list \<Rightarrow> string" where
  "uuid_text bs = (let h = concat (map hex_byte bs) in
     take 8 h @ ''-'' @ take 4 (drop 8 h) @ ''-'' @ take 4 (drop 12 h) @ ''-'' @ take 4 (drop 16 h) @ ''-'' @ take 12 (drop 20 h))"

definition promptRequestId :: "(string \<Rightarrow> nat list) \<Rightarrow> dsh_identity \<Rightarrow> string \<Rightarrow> string" where
  "promptRequestId digest i key = uuid_text (uuid_bytes (digest (json_text (jstrs (identity_texts i @ [key])))))"

text \<open>The instruction of an authority, and the grant's commit it asks of the store.\<close>

definition backend_instruction :: "jval \<Rightarrow> (string \<times> string) option" where
  "backend_instruction auth = (if attr auth ''action'' = JStr ''lead.instruct'' then instruction_of auth else None)"

definition commit_request :: "(string \<Rightarrow> string) \<Rightarrow> dsh_identity \<Rightarrow> string \<Rightarrow> string \<Rightarrow> string \<Rightarrow> jval" where
  "commit_request sha i revision s key = JObj (identity_value i @ [(''revision'', JStr revision), (''action'', JStr ''lead.instruct''),
     (''idempotencyKey'', JStr key), (''payloadHash'', JStr (sha (utf8 s)))])"

text \<open>\<open>commitAuthorizedInstruction\<close> as the policy calls it, up to the store.\<close>

definition auth_value :: "lead_auth \<Rightarrow> (string \<times> jval) list" where
  "auth_value auth = identity_value (la_identity auth) @ [(''action'', JStr (la_action auth)), (''revision'', JStr (la_revision auth))]"

definition commit_argument :: "lead_auth \<Rightarrow> string \<Rightarrow> string \<Rightarrow> jval" where
  "commit_argument auth s key = JObj (auth_value auth @ [(''instruction'', JStr s), (''idempotencyKey'', JStr key)])"

definition commit_call :: "(string \<Rightarrow> string) \<Rightarrow> jval \<Rightarrow> exn + (dsh_identity \<times> string \<times> string \<times> string \<times> jval)" where
  "commit_call sha auth =
    bindR (backend_authority auth) (\<lambda>(i, revision).
    case backend_instruction auth of
      None \<Rightarrow> Inl backend_denied
    | Some (s, key) \<Rightarrow> Inr (i, revision, s, key, commit_request sha i revision s key))"

text \<open>What the store has run once it holds the grant: the Lead is resolved again, then the instruction is posted.\<close>

definition submit_instruction :: "(string \<Rightarrow> nat list) \<Rightarrow> dsh_identity \<Rightarrow> string \<Rightarrow> string \<Rightarrow> backend_run" where
  "submit_instruction digest i s key = team_of i (\<lambda>team.
    (let input = scope_input i [(''requestId'', JStr (promptRequestId digest i key)), (''text'', JStr s)] in
     post_payload (client_sendLeadInstruction input) (instruction_reply input)
       (\<lambda>ack. Backend_Done (Inr (JObj [(''accepted'', JBool True)])))))"

text \<open>The receipt of the store as the policy gets it.\<close>

definition receipt_value :: "string \<Rightarrow> string \<Rightarrow> bool \<Rightarrow> jval" where
  "receipt_value receipt revision duplicate = JObj [(''accepted'', JBool True), (''authorizationCheckedAtCommit'', JBool True),
     (''grantRevision'', JStr revision), (''receiptId'', JStr receipt), (''duplicate'', JBool duplicate)]"

definition backend_receipt :: "string \<Rightarrow> exn + grant_result \<Rightarrow> exn + jval" where
  "backend_receipt revision r = (case r of
     Inl e \<Rightarrow> Inl e
   | Inr (Receipt receipt granted duplicate) \<Rightarrow>
       bindR (ensure (granted = revision \<and> DSH_ID receipt) backend_denied) (\<lambda>_. Inr (receipt_value receipt revision duplicate))
   | Inr _ \<Rightarrow> Inl backend_denied)"

end
