(* ===== verification/Grant_Properties.thy ===== *)
theory Grant_Properties
  imports Semantic_Policy
begin

text \<open>
  What the grant store of \<^verbatim>\<open>integrations/deepharness/persistent-grant-store.mjs\<close> promises, over restarts and the order in
  which calls arrive, and what the policy of \<^verbatim>\<open>integrations/deepharness/semantic-policy.mjs\<close> releases on top of it.
\<close>

section \<open>Reading back what was written\<close>

lemma field_Cons: "field ((k, v) # fs) k' = (if k = k' then v else field fs k')"
  by (simp add: field_def)

lemma object_fields_JObj [simp]: "object_fields (JObj fs) = Inr fs"
  by (simp add: object_fields_def)

lemmas value_simps = identity_fields_def id_field_def hash_field_def safe_int_field_def status_field_def
  null_or_int_field_def identity_value_def field_Cons time_or_null_def bindR_Inr_iff ensure_Inr_iff

lemma action_texts: "mapR action_text (map JStr xs) = Inr ys \<longleftrightarrow> ys = xs \<and> set xs \<subseteq> set DSH_ACTIONS"
proof (induction xs arbitrary: ys)
  case (Cons x xs)
  then show ?case by (auto simp: action_text_def bindR_Inr_iff ensure_Inr_iff)
qed auto

lemma actions_of_jstrs: "actions_of (jstrs xs) = Inr ys \<longleftrightarrow> ys = xs \<and> xs \<noteq> [] \<and> set xs \<subseteq> set DSH_ACTIONS \<and> distinct xs"
  by (auto simp: actions_of_def jstrs_def bindR_Inr_iff ensure_Inr_iff action_texts)

definition identity_ok :: "dsh_identity \<Rightarrow> bool" where
  "identity_ok i = list_all DSH_ID (identity_texts i)"

definition time_ok :: "int option \<Rightarrow> bool" where
  "time_ok t = (case t of None \<Rightarrow> True | Some i \<Rightarrow> safe_integer i)"

definition grant_ok :: "dsh_grant \<Rightarrow> bool" where
  "grant_ok g = (identity_ok (gr_identity g) \<and> own_actor (gr_identity g) \<and> gr_actions g \<noteq> [] \<and>
     set (gr_actions g) \<subseteq> set DSH_ACTIONS \<and> distinct (gr_actions g) \<and> DSH_ID (gr_revision g) \<and>
     safe_integer (gr_updatedAt g) \<and> time_ok (gr_revokedAt g))"

definition delivery_ok :: "dsh_delivery \<Rightarrow> bool" where
  "delivery_ok d = (identity_ok (dl_identity d) \<and> DSH_HASH (dl_payloadHash d) \<and> DSH_ID (dl_grantRevision d) \<and>
     DSH_ID (dl_receiptId d) \<and> safe_integer (dl_createdAt d) \<and> time_ok (dl_acceptedAt d))"

lemma read_grant_value: "read_grant (grant_value g) = Inr g' \<longleftrightarrow> g' = g \<and> grant_ok g"
proof (cases g)
  case (fields i acts rev upd revoked)
  show ?thesis
    by (cases i; cases revoked)
      (auto simp: fields read_grant_def grant_value_def value_simps actions_of_jstrs grant_ok_def identity_ok_def
        identity_texts_def time_ok_def)
qed

lemma read_delivery_value: "read_delivery (delivery_value d) = Inr d' \<longleftrightarrow> d' = d \<and> delivery_ok d"
proof (cases d)
  case (fields i payload rev acc rec created accepted)
  show ?thesis
    by (cases i; cases accepted; cases acc)
      (auto simp: fields read_delivery_def delivery_value_def value_simps delivery_ok_def identity_ok_def
        identity_texts_def time_ok_def)
qed

lemma read_entries:
  assumes "\<And>x y. f (g x) = Inr y \<longleftrightarrow> y = x \<and> P x"
  shows "mapR (read_entry f) (map (apsnd g) xs) = Inr ys \<longleftrightarrow> ys = xs \<and> (\<forall>(k, x) \<in> set xs. DSH_HASH k \<and> P x)"
proof (induction xs arbitrary: ys)
  case (Cons x xs)
  then show ?case using assms by (auto simp: read_entry_def bindR_Inr_iff ensure_Inr_iff split: prod.splits)
qed auto

definition state_ok :: "grant_state \<Rightarrow> bool" where
  "state_ok s = (length (gs_grants s) \<le> MAX_GRANTS \<and> length (gs_deliveries s) \<le> MAX_DELIVERIES \<and>
     (\<forall>(k, g) \<in> set (gs_grants s). DSH_HASH k \<and> grant_ok g) \<and> (\<forall>(k, d) \<in> set (gs_deliveries s). DSH_HASH k \<and> delivery_ok d))"

lemma normalize_value: "normalize_grants (grant_state_value s) = Inr s' \<longleftrightarrow> s' = s \<and> state_ok s"
  by (cases s) (auto simp: normalize_grants_def grant_state_value_def field_Cons bindR_Inr_iff ensure_Inr_iff state_ok_def
      read_entries [of read_grant grant_value, OF read_grant_value]
      read_entries [of read_delivery delivery_value, OF read_delivery_value])

section \<open>Runs of the store\<close>

fun machine_run :: "(string \<Rightarrow> string) \<Rightarrow> store_input list \<Rightarrow> store_machine \<Rightarrow> store_machine \<times> store_effect list" where
  "machine_run sha [] m = (m, [])"
| "machine_run sha (e # es) m =
    (let (m', fs) = store_machine_step sha e m; (m'', gs) = machine_run sha es m' in (m'', fs @ gs))"

text \<open>Processes that follow one another on one file; one whose file does not load does nothing.\<close>

fun lifetimes :: "(string \<Rightarrow> string) \<Rightarrow> (disk \<times> store_input list) list \<Rightarrow> grant_file \<Rightarrow> store_effect list" where
  "lifetimes sha [] file = []"
| "lifetimes sha ((d, es) # rest) file = (case createStore d file of
     Inl e \<Rightarrow> lifetimes sha rest (fst (loadFile d file))
   | Inr st \<Rightarrow> (let (m, fs) = machine_run sha es (idle_machine st) in fs @ lifetimes sha rest (st_file (sm_store m))))"

fun accepted_key :: "store_effect \<Rightarrow> string list" where
  "accepted_key (Logged e) = (if field e ''action'' = JStr ''instruction_accepted'' then [text_of (field e ''idempotency_key_hash'')] else [])"
| "accepted_key _ = []"

text \<open>The deliveries that DeepHarness has newly accepted, as the audit log has them.\<close>

definition accepted_keys :: "store_effect list \<Rightarrow> string list" where
  "accepted_keys fs = concat (map accepted_key fs)"

lemma accepted_keys_simps [simp]:
  "accepted_keys [] = []" "accepted_keys (f # fs) = accepted_key f @ accepted_keys fs"
  "accepted_keys (fs @ gs) = accepted_keys fs @ accepted_keys gs"
  by (simp_all add: accepted_keys_def)

definition delivered :: "grant_state \<Rightarrow> string \<Rightarrow> bool" where
  "delivered s k = (case map_of (gs_deliveries s) k of None \<Rightarrow> False | Some d \<Rightarrow> dl_accepted d)"

definition file_delivered :: "grant_file \<Rightarrow> string \<Rightarrow> bool" where
  "file_delivered file k = (\<exists>b s. file = Present b (grant_state_value s) \<and> delivered s k)"

definition store_delivered :: "grant_store \<Rightarrow> string \<Rightarrow> bool" where
  "store_delivered st k = (delivered (st_state st) k \<and> file_delivered (st_file st) k)"

lemma delivered_store [simp]:
  "delivered (store_grant k g s) = delivered s"
  "delivered (store_delivery k d s) k' = (if k' = k then dl_accepted d else delivered s k')"
  by (auto simp: delivered_def store_grant_def store_delivery_def fun_eq_iff update_conv)

lemma file_delivered_written [simp]: "delivered s k \<Longrightarrow> file_delivered (written s) k"
  by (auto simp: file_delivered_def written_def Let_def)

text \<open>A save leaves the state as it was or makes it the new one, and the file too.\<close>

lemma save_cases:
  assumes "save d s st = (st', r)"
  shows "r = Inr () \<and> st' = st\<lparr>st_file := written s, st_state := s\<rparr> \<or>
    (\<exists>e. r = Inl e) \<and> st' = st\<lparr>st_file := st_file st', st_faulted := True\<rparr> \<and> st_file st' \<in> {st_file st, written s}"
  using assms by (cases d) (auto simp: save_def persistFile_def)

lemma save_delivered:
  assumes "save d s st = (st', r)" "store_delivered st k" "delivered (st_state st) k \<Longrightarrow> delivered s k"
  shows "store_delivered st' k"
  using save_cases [OF assms(1)] assms(2,3) by (cases st; cases st') (auto simp: store_delivered_def)

definition new_grant :: "dsh_identity \<Rightarrow> string list \<Rightarrow> grant_io \<Rightarrow> dsh_grant" where
  "new_grant i actions io =
    \<lparr>gr_identity = i, gr_actions = sort actions, gr_revision = io_uuid io, gr_updatedAt = io_now io, gr_revokedAt = None\<rparr>"

lemma putGrant_cases:
  assumes "putGrant sha input io st = (st', es, r)"
  shows "st' = st \<and> es = [] \<and> (\<exists>e. r = Inl e) \<or>
    accepted_keys (map Logged es) = [] \<and>
    (\<exists>i u r'. identityOf input = Inr i \<and> actions_of (attr input ''actions'') = Inr u \<and>
      (map_of (gs_grants (st_state st)) (identityKey sha i) = None \<longrightarrow> length (gs_grants (st_state st)) < MAX_GRANTS) \<and>
      save (io_disk io) (store_grant (identityKey sha i) (new_grant i u io) (st_state st)) st = (st', r'))"
  using assms
  by (auto simp: putGrant_def Let_def bindR_Inr_iff grant_event_def field_Cons not_le new_grant_def
      split: sum.splits if_splits prod.splits)

definition ended_grant :: "dsh_grant \<Rightarrow> grant_io \<Rightarrow> dsh_grant" where
  "ended_grant g io = g\<lparr>gr_revision := io_uuid io, gr_updatedAt := io_now io, gr_revokedAt := Some (io_now io)\<rparr>"

lemma revokeGrant_cases:
  assumes "revokeGrant sha input io st = (st', es, r)"
  shows "st' = st \<and> es = [] \<and> r \<noteq> Inr (Revoke_Result True) \<or>
    accepted_keys (map Logged es) = [] \<and>
    (\<exists>i g r'. identityOf input = Inr i \<and> map_of (gs_grants (st_state st)) (identityKey sha i) = Some g \<and>
      save (io_disk io) (store_grant (identityKey sha i) (ended_grant g io) (st_state st)) st = (st', r') \<and>
      (r = Inr (Revoke_Result True) \<longleftrightarrow> r' = Inr ()))"
  using assms
  by (auto simp: revokeGrant_def Let_def grant_event_def field_Cons ended_grant_def
      split: sum.splits if_splits prod.splits option.splits)

definition new_delivery :: "commit_input \<Rightarrow> grant_io \<Rightarrow> dsh_delivery" where
  "new_delivery inp io = \<lparr>dl_identity = ci_identity inp, dl_payloadHash = ci_payloadHash inp, dl_grantRevision = ci_revision inp,
     dl_accepted = False, dl_receiptId = ''receipt_'' @ io_uuid io, dl_createdAt = io_now io, dl_acceptedAt = None\<rparr>"

definition input_key :: "(string \<Rightarrow> string) \<Rightarrow> commit_input \<Rightarrow> string" where
  "input_key sha inp = deliveryKey sha (ci_identity inp) (ci_idempotencyKey inp)"

definition frame_of :: "(string \<Rightarrow> string) \<Rightarrow> commit_input \<Rightarrow> dsh_delivery \<Rightarrow> commit_frame" where
  "frame_of sha inp d = \<lparr>cf_identity = ci_identity inp, cf_key = input_key sha inp, cf_revision = ci_revision inp, cf_delivery = d\<rparr>"

lemma begin_commit_cases:
  assumes "begin_commit sha input io st = (st', es, b)"
  shows "accepted_keys (map Logged es) = [] \<and>
    (st' = st \<and> (\<exists>x. b = Settled x) \<or>
     (\<exists>inp. read_commit_input input = Inr inp \<and> usable_grant st (identityKey sha (ci_identity inp)) (ci_revision inp) \<and>
       ((\<exists>d. st' = st \<and> map_of (gs_deliveries (st_state st)) (input_key sha inp) = Some d \<and> \<not> dl_accepted d \<and>
          b = Submitting (frame_of sha inp d)) \<or>
        (\<exists>r. map_of (gs_deliveries (st_state st)) (input_key sha inp) = None \<and> length (gs_deliveries (st_state st)) < MAX_DELIVERIES \<and>
          save (io_disk io) (store_delivery (input_key sha inp) (new_delivery inp io) (st_state st)) st = (st', r) \<and>
          ((\<exists>x. r = Inl x \<and> b = Settled (Inl x)) \<or> r = Inr () \<and> b = Submitting (frame_of sha inp (new_delivery inp io)))))))"
  using assms
  by (auto simp: begin_commit_def Let_def commit_event_def grant_event_def field_Cons not_le frame_of_def input_key_def
        new_delivery_def split: sum.splits if_splits prod.splits option.splits)

definition delivery_done :: "commit_frame \<Rightarrow> grant_io \<Rightarrow> dsh_delivery" where
  "delivery_done fr io = (cf_delivery fr)\<lparr>dl_accepted := True, dl_acceptedAt := Some (io_now io)\<rparr>"

lemma finish_commit_cases:
  assumes "finish_commit sha fr ack io st = (st', es, r)"
  shows "st' = st \<and> es = [] \<and> (\<exists>e. r = Inl e) \<or>
    usable_grant st (identityKey sha (cf_identity fr)) (cf_revision fr) \<and>
    (\<exists>r'. save (io_disk io) (store_delivery (cf_key fr) (delivery_done fr io) (st_state st)) st = (st', r') \<and>
      (if r' = Inr () then accepted_keys (map Logged es) = [cf_key fr] else es = []) \<and>
      ((\<exists>e. r = Inl e \<and> r' = Inl e) \<or> r' = Inr () \<and> r = Inr (Receipt (dl_receiptId (cf_delivery fr)) (cf_revision fr) False)))"
  using assms
  by (auto simp: finish_commit_def Let_def commit_event_def grant_event_def field_Cons delivery_done_def text_of_def
      split: sum.splits if_splits prod.splits option.splits)

section \<open>An instruction is accepted once\<close>

definition awaits_new :: "store_machine \<Rightarrow> bool" where
  "awaits_new m = (case sm_running m of None \<Rightarrow> True | Some (i, fr) \<Rightarrow> \<not> delivered (st_state (sm_store m)) (cf_key fr))"

lemma delivered_new: "delivered s k' \<Longrightarrow> map_of (gs_deliveries s) k = None \<Longrightarrow> delivered (store_delivery k d s) k'"
  by (auto simp: delivered_def store_delivery_def update_conv)

lemma delivered_Some: "map_of (gs_deliveries s) k = Some d \<Longrightarrow> delivered s k = dl_accepted d"
  by (simp add: delivered_def)

lemma new_delivery_pending [simp]: "\<not> dl_accepted (new_delivery inp io)"
  by (simp add: new_delivery_def)

lemma call_delivered:
  assumes "run_call sha c io st = (st', es, b)"
  shows "accepted_keys (map Logged es) = [] \<and> (\<forall>k. store_delivered st k \<longrightarrow> store_delivered st' k) \<and>
    (\<forall>fr. b = Submitting fr \<longrightarrow> \<not> delivered (st_state st') (cf_key fr))"
proof (cases "st_faulted st")
  case True
  then show ?thesis using assms by (auto simp: run_call_def)
next
  case False
  show ?thesis
  proof (cases c)
    case (Put_Grant input)
    with assms False obtain r where "putGrant sha input io st = (st', es, r)" "b = Settled r"
      by (auto simp: run_call_def split: prod.splits)
    with putGrant_cases [OF this(1)] show ?thesis by (auto elim: save_delivered)
  next
    case (Revoke_Grant input)
    with assms False obtain r where "revokeGrant sha input io st = (st', es, r)" "b = Settled r"
      by (auto simp: run_call_def split: prod.splits)
    with revokeGrant_cases [OF this(1)] show ?thesis by (auto elim: save_delivered)
  next
    case (Commit_Instruction input)
    with assms False have c: "begin_commit sha input io st = (st', es, b)" by (simp add: run_call_def)
    have "store_delivered st' k" if "store_delivered st k" for k
      using begin_commit_cases [OF c] that by (auto elim!: save_delivered dest: delivered_new)
    moreover have "\<not> delivered (st_state st') (cf_key fr)" if "b = Submitting fr" for fr
      using begin_commit_cases [OF c] that by (auto simp: frame_of_def delivered_Some dest!: save_cases)
    ultimately show ?thesis using begin_commit_cases [OF c] by blast
  qed
qed

lemma queue_delivered:
  "run_queue sha q st = (m, fs) \<Longrightarrow>
    accepted_keys fs = [] \<and> (\<forall>k. store_delivered st k \<longrightarrow> store_delivered (sm_store m) k) \<and> awaits_new m"
proof (induction sha q st arbitrary: m fs rule: run_queue.induct)
  case (1 sha st)
  then show ?case by (auto simp: awaits_new_def)
next
  case (2 sha i c io q st)
  obtain st' es b where c: "run_call sha c io st = (st', es, b)" by (cases "run_call sha c io st") auto
  show ?case
  proof (cases b)
    case (Settled r)
    obtain m' gs where q: "run_queue sha q st' = (m', gs)" by fastforce
    from "2.IH" [OF c [symmetric] refl refl Settled q] call_delivered [OF c] "2.prems" c Settled q show ?thesis by auto
  next
    case (Submitting fr)
    with call_delivered [OF c] "2.prems" c show ?thesis by (auto simp: awaits_new_def)
  qed
qed

definition accepted_once :: "string list \<Rightarrow> store_machine \<Rightarrow> bool" where
  "accepted_once ks m = (distinct ks \<and> (\<forall>k \<in> set ks. store_delivered (sm_store m) k) \<and> awaits_new m)"

lemma finish_delivered:
  assumes "finish_commit sha fr ack io st = (st', es, r)" "\<not> delivered (st_state st) (cf_key fr)"
    and "distinct ks" "\<forall>k \<in> set ks. store_delivered st k"
  shows "distinct (ks @ accepted_keys (map Logged es)) \<and>
    (\<forall>k \<in> set (ks @ accepted_keys (map Logged es)). store_delivered st' k)"
proof (cases "es = [] \<and> st' = st")
  case True
  with assms(3,4) show ?thesis by simp
next
  case False
  with finish_commit_cases [OF assms(1)] obtain r'
    where s: "save (io_disk io) (store_delivery (cf_key fr) (delivery_done fr io) (st_state st)) st = (st', r')"
      and es: "if r' = Inr () then accepted_keys (map Logged es) = [cf_key fr] else es = []"
    by blast
  have old: "store_delivered st' k" if "k \<in> set ks" for k
    using save_delivered [OF s] assms(4) that by (simp add: delivery_done_def)
  have new: "store_delivered st' (cf_key fr)" if "r' = Inr ()"
    using save_cases [OF s] that by (auto simp: store_delivered_def delivery_done_def)
  from assms(2-4) have "cf_key fr \<notin> set ks" by (auto simp: store_delivered_def)
  with old new es assms(3) show ?thesis by (auto split: if_splits)
qed

lemma step_accepted_once:
  assumes "store_machine_step sha e m = (m', fs)" "accepted_once ks m"
  shows "accepted_once (ks @ accepted_keys fs) m'"
proof (cases e)
  case (Called i c io)
  with assms show ?thesis
    by (auto simp: accepted_once_def awaits_new_def split: option.splits dest!: queue_delivered)
next
  case (Answered ack io)
  show ?thesis
  proof (cases "sm_running m")
    case None
    with assms Answered show ?thesis by simp
  next
    case (Some p)
    obtain i fr where p: "p = (i, fr)" by force
    obtain st' es r where f: "finish_commit sha fr ack io (sm_store m) = (st', es, r)"
      by (cases "finish_commit sha fr ack io (sm_store m)") auto
    obtain m1 gs where q: "run_queue sha (sm_queue m) st' = (m1, gs)" by fastforce
    from assms(2) Some p have n: "\<not> delivered (st_state (sm_store m)) (cf_key fr)"
      by (simp add: accepted_once_def awaits_new_def)
    from assms(2) finish_delivered [OF f n] queue_delivered [OF q] have "accepted_once (ks @ accepted_keys (map Logged es)) m1"
      by (auto simp: accepted_once_def)
    with assms(1) Answered Some p f q queue_delivered [OF q] show ?thesis by auto
  qed
qed

lemma run_accepted_once: "machine_run sha es m = (m', fs) \<Longrightarrow> accepted_once ks m \<Longrightarrow> accepted_once (ks @ accepted_keys fs) m'"
proof (induction es arbitrary: m fs ks)
  case (Cons e es)
  obtain m1 gs where s: "store_machine_step sha e m = (m1, gs)" by fastforce
  obtain m2 hs where r: "machine_run sha es m1 = (m2, hs)" by fastforce
  from Cons.IH [OF _ step_accepted_once [OF s Cons.prems(2)]] r Cons.prems(1) s show ?case by auto
qed auto

lemma create_delivered:
  assumes "createStore d fl = Inr st" "file_delivered fl k"
  shows "store_delivered st k"
proof -
  from assms(2) obtain b s where "fl = Present b (grant_state_value s)" "delivered s k" by (auto simp: file_delivered_def)
  with assms(1) have "st_state st = s" "st_file st = fl"
    by (auto simp: createStore_def loadFile_def bindR_Inr_iff ensure_Inr_iff normalize_value)
  with assms(2) \<open>delivered s k\<close> show ?thesis by (simp add: store_delivered_def)
qed

lemma failed_load_keeps: "file_delivered fl k \<Longrightarrow> file_delivered (fst (loadFile d fl)) k"
  by (auto simp: loadFile_def file_delivered_def)

lemma lifetimes_accepted_once:
  "distinct ks \<Longrightarrow> \<forall>k \<in> set ks. file_delivered fl k \<Longrightarrow> distinct (ks @ accepted_keys (lifetimes sha ls fl))"
proof (induction ls arbitrary: ks fl)
  case (Cons l ls)
  obtain d es where l: "l = (d, es)" by force
  show ?case
  proof (cases "createStore d fl")
    case (Inl e)
    with Cons.IH [OF Cons.prems(1), of "fst (loadFile d fl)"] Cons.prems(2) l show ?thesis
      by (simp add: failed_load_keeps)
  next
    case (Inr st)
    obtain m fs where r: "machine_run sha es (idle_machine st) = (m, fs)" by fastforce
    from Cons.prems create_delivered [OF Inr] have "accepted_once ks (idle_machine st)"
      by (auto simp: accepted_once_def awaits_new_def idle_machine_def)
    from run_accepted_once [OF r this] have "distinct (ks @ accepted_keys fs)"
      "\<forall>k \<in> set (ks @ accepted_keys fs). file_delivered (st_file (sm_store m)) k"
      by (auto simp: accepted_once_def store_delivered_def)
    from Cons.IH [OF this] Inr r l show ?thesis by simp
  qed
qed simp

text \<open>C20: However the calls, the answers of DeepHarness, the failures of the disk and the restarts of the process come, no
  instruction is newly accepted twice: the deliveries the store reports as accepted are all different.\<close>

theorem instruction_accepted_once: "distinct (accepted_keys (lifetimes sha ls fl))"
  using lifetimes_accepted_once [of "[]" fl sha ls] by simp

section \<open>The grant of an instruction stands while DeepHarness is asked\<close>

definition grant_at :: "grant_store \<Rightarrow> string \<Rightarrow> dsh_grant option" where
  "grant_at st k = map_of (gs_grants (st_state st)) k"

lemma usable_grant_at: "usable_grant st k r = (\<exists>g. grant_at st k = Some g \<and> gr_revokedAt g = None \<and>
    ''lead.instruct'' \<in> set (gr_actions g) \<and> gr_revision g = r)"
  by (auto simp: usable_grant_def grant_at_def split: option.split)

lemma save_keeps_grants: "save d (store_delivery k x (st_state st)) st = (st', r) \<Longrightarrow> grant_at st' = grant_at st"
  by (cases st; cases st') (auto simp: grant_at_def fun_eq_iff store_delivery_def dest!: save_cases)

definition grant_held :: "(string \<Rightarrow> string) \<Rightarrow> store_machine \<Rightarrow> bool" where
  "grant_held sha m = (case sm_running m of None \<Rightarrow> True
   | Some (i, fr) \<Rightarrow> usable_grant (sm_store m) (identityKey sha (cf_identity fr)) (cf_revision fr))"

lemma submitting_held:
  assumes "run_call sha c io st = (st', es, Submitting fr)"
  shows "usable_grant st' (identityKey sha (cf_identity fr)) (cf_revision fr)"
proof -
  from assms obtain input where "begin_commit sha input io st = (st', es, Submitting fr)"
    by (auto simp: run_call_def split: if_splits store_call.splits prod.splits)
  from begin_commit_cases [OF this] show ?thesis
    by (auto simp: frame_of_def usable_grant_at dest: save_keeps_grants)
qed

lemma queue_held: "run_queue sha q st = (m, fs) \<Longrightarrow> grant_held sha m \<and>
    (\<forall>i fr. Submitted i fr \<in> set fs \<longrightarrow> sm_running m = Some (i, fr))"
proof (induction sha q st arbitrary: m fs rule: run_queue.induct)
  case (1 sha st)
  then show ?case by (auto simp: grant_held_def)
next
  case (2 sha i c io q st)
  obtain st' es b where c: "run_call sha c io st = (st', es, b)" by (cases "run_call sha c io st") auto
  show ?case
  proof (cases b)
    case (Settled r)
    obtain m' gs where q: "run_queue sha q st' = (m', gs)" by fastforce
    from "2.IH" [OF c [symmetric] refl refl Settled q] "2.prems" c Settled q show ?thesis by auto
  next
    case (Submitting fr)
    with submitting_held [of sha c io st st' es fr] "2.prems" c show ?thesis by (auto simp: grant_held_def)
  qed
qed

lemma step_held:
  assumes "store_machine_step sha e m = (m', fs)" "grant_held sha m"
  shows "grant_held sha m' \<and> (\<forall>i fr. Submitted i fr \<in> set fs \<longrightarrow> sm_running m' = Some (i, fr))"
proof (cases e)
  case (Called i c io)
  with assms show ?thesis by (auto simp: grant_held_def split: option.splits dest!: queue_held)
next
  case (Answered ack io)
  with assms show ?thesis by (cases "sm_running m") (auto split: prod.splits dest!: queue_held)
qed

lemma run_held: "machine_run sha es m = (m', fs) \<Longrightarrow> grant_held sha m \<Longrightarrow> grant_held sha m'"
  by (induction es arbitrary: m fs) (auto split: prod.splits dest!: step_held)

text \<open>An instruction that DeepHarness is being asked to take holds its grant: whatever calls arrive meanwhile, the grant is
  not revoked, allows instructions and has the revision the caller was checked against, so that once DeepHarness accepts it
  the caller gets the receipt; a revocation waits for the answer.\<close>

lemma admitted_instruction_accepted:
  assumes "machine_run sha es (idle_machine st) = (m, fs)" "sm_running m = Some (i, fr)"
    and "attr ack ''accepted'' = JBool True" "io_disk io = Kept"
  shows "(\<exists>g. map_of (gs_grants (st_state (sm_store m))) (identityKey sha (cf_identity fr)) = Some g \<and> gr_revokedAt g = None \<and>
      ''lead.instruct'' \<in> set (gr_actions g) \<and> gr_revision g = cf_revision fr) \<and>
    (\<exists>m' gs. store_machine_step sha (Answered (Inr ack) io) m = (m', gs) \<and>
      Replied i (Inr (Receipt (dl_receiptId (cf_delivery fr)) (cf_revision fr) False)) \<in> set gs)"
proof -
  have "grant_held sha (idle_machine st)" by (simp add: grant_held_def idle_machine_def)
  with run_held [OF assms(1)] assms(2)
  have u: "usable_grant (sm_store m) (identityKey sha (cf_identity fr)) (cf_revision fr)" by (auto simp: grant_held_def)
  then show ?thesis using assms(2-4)
    by (auto simp: usable_grant_at grant_at_def finish_commit_def Let_def save_def persistFile_def split: prod.splits)
qed

section \<open>A revoked grant\<close>

definition puts_key :: "(string \<Rightarrow> string) \<Rightarrow> string \<Rightarrow> store_call \<Rightarrow> bool" where
  "puts_key sha k c = (case c of Put_Grant input \<Rightarrow> (case identityOf input of Inl e \<Rightarrow> False | Inr i \<Rightarrow> identityKey sha i = k) | _ \<Rightarrow> False)"

definition ended_at :: "grant_store \<Rightarrow> string \<Rightarrow> bool" where
  "ended_at st k = (\<exists>g. grant_at st k = Some g \<and> gr_revokedAt g \<noteq> None)"

lemma grant_at_save:
  assumes "save d (store_grant k' g (st_state st)) st = (st', r)"
  shows "grant_at st' k = (if r = Inr () \<and> k = k' then Some g else grant_at st k)"
  using save_cases [OF assms] by (cases st; cases st') (auto simp: grant_at_def store_grant_def update_conv)

lemma ended_grant_simps [simp]: "gr_revokedAt (ended_grant g io) = Some (io_now io)" "gr_revision (ended_grant g io) = io_uuid io"
  by (simp_all add: ended_grant_def)

lemma new_grant_simps [simp]: "gr_revision (new_grant i u io) = io_uuid io" "gr_revokedAt (new_grant i u io) = None"
  "gr_identity (new_grant i u io) = i"
  by (simp_all add: new_grant_def)

text \<open>How a grant changes: only with a new revision, and an ended one only by a put.\<close>

lemma call_grant_at:
  assumes "run_call sha c io st = (st', es, b)"
  shows "grant_at st' k = grant_at st k \<or>
    (\<exists>g. grant_at st' k = Some g \<and> gr_revision g = io_uuid io \<and> (puts_key sha k c \<or> gr_revokedAt g \<noteq> None))"
proof (cases "st_faulted st")
  case True
  then show ?thesis using assms by (auto simp: run_call_def)
next
  case False
  show ?thesis
  proof (cases c)
    case (Put_Grant input)
    with assms False obtain r where "putGrant sha input io st = (st', es, r)" by (auto simp: run_call_def split: prod.splits)
    from putGrant_cases [OF this] Put_Grant show ?thesis by (auto simp: puts_key_def dest!: grant_at_save [where k = k] split: if_splits)
  next
    case (Revoke_Grant input)
    with assms False obtain r where "revokeGrant sha input io st = (st', es, r)" by (auto simp: run_call_def split: prod.splits)
    from revokeGrant_cases [OF this] show ?thesis by (auto dest!: grant_at_save [where k = k] split: if_splits)
  next
    case (Commit_Instruction input)
    with assms False have c: "begin_commit sha input io st = (st', es, b)" by (simp add: run_call_def)
    from begin_commit_cases [OF this] show ?thesis by (auto dest: save_keeps_grants)
  qed
qed

type_synonym waiting = "(nat \<times> store_call \<times> grant_io) list"

fun input_waiting :: "store_input \<Rightarrow> waiting" where
  "input_waiting (Called i c io) = [(i, c, io)]"
| "input_waiting (Answered ack io) = []"

definition waiting_run :: "store_machine \<Rightarrow> store_input list \<Rightarrow> waiting" where
  "waiting_run m es = sm_queue m @ concat (map input_waiting es)"

text \<open>A grant at \<open>k\<close> after the calls \<open>q\<close>: as before, or with a revision that one of them drew; and unless one of them puts
  it again, then ended.\<close>

definition moved :: "(string \<Rightarrow> string) \<Rightarrow> waiting \<Rightarrow> string \<Rightarrow> grant_store \<Rightarrow> grant_store \<Rightarrow> bool" where
  "moved sha q k st st' = (grant_at st' k = grant_at st k \<or>
     (\<exists>g. grant_at st' k = Some g \<and> gr_revision g \<in> (\<lambda>(i, c, io). io_uuid io) ` set q \<and>
       ((\<exists>(i, c, io) \<in> set q. puts_key sha k c) \<or> gr_revokedAt g \<noteq> None)))"

lemma moved_refl [simp]: "moved sha q k st st"
  by (simp add: moved_def)

lemma moved_trans: "moved sha q k st st' \<Longrightarrow> moved sha r k st' st'' \<Longrightarrow> set q \<union> set r \<subseteq> set u \<Longrightarrow> moved sha u k st st''"
  unfolding moved_def by (elim disjE exE conjE) (simp_all, blast+)

lemma call_moved: "run_call sha c io st = (st', es, b) \<Longrightarrow> moved sha [(i, c, io)] k st st'"
  using call_grant_at [of sha c io st st' es b k] by (auto simp: moved_def)

lemma queue_moved:
  "run_queue sha q st = (m, fs) \<Longrightarrow> moved sha q k st (sm_store m) \<and> set (sm_queue m) \<subseteq> set q"
proof (induction sha q st arbitrary: m fs rule: run_queue.induct)
  case (2 sha i c io q st)
  obtain st' es b where c: "run_call sha c io st = (st', es, b)" by (cases "run_call sha c io st") auto
  note moved = call_moved [OF c, of i k]
  show ?case
  proof (cases b)
    case (Settled r)
    obtain m' gs where q: "run_queue sha q st' = (m', gs)" by fastforce
    from "2.IH" [OF c [symmetric] refl refl Settled q] have rest: "moved sha q k st' (sm_store m')" "set (sm_queue m') \<subseteq> set q"
      by simp_all
    from moved_trans [OF moved rest(1), of "(i, c, io) # q"] rest(2) "2.prems" c Settled q show ?thesis by auto
  next
    case (Submitting fr)
    with "2.prems" c moved_trans [OF moved moved_refl [of sha "[]"]] show ?thesis by auto
  qed
qed simp

lemma step_moved:
  assumes "store_machine_step sha e m = (m', fs)"
  shows "moved sha (waiting_run m [e]) k (sm_store m) (sm_store m') \<and> set (sm_queue m') \<subseteq> set (waiting_run m [e])"
proof (cases e)
  case (Called i c io)
  with assms show ?thesis by (auto simp: waiting_run_def split: option.splits dest!: queue_moved [where k = k])
next
  case (Answered ack io)
  show ?thesis
  proof (cases "sm_running m")
    case None
    with assms Answered show ?thesis by (auto simp: waiting_run_def)
  next
    case (Some p)
    obtain i fr where p: "p = (i, fr)" by force
    obtain st' es r where f: "finish_commit sha fr ack io (sm_store m) = (st', es, r)"
      by (cases "finish_commit sha fr ack io (sm_store m)") auto
    obtain m1 gs where q: "run_queue sha (sm_queue m) st' = (m1, gs)" by fastforce
    have "moved sha [] k (sm_store m) st'"
      using finish_commit_cases [OF f] by (auto simp: moved_def dest: save_keeps_grants)
    from moved_trans [OF this conjunct1 [OF queue_moved [OF q]]] queue_moved [OF q] assms Answered Some p f q
    show ?thesis by (auto simp: waiting_run_def)
  qed
qed

lemma run_moved:
  "machine_run sha es m = (m', fs) \<Longrightarrow>
    moved sha (waiting_run m es) k (sm_store m) (sm_store m') \<and> set (sm_queue m') \<subseteq> set (waiting_run m es)"
proof (induction es arbitrary: m fs)
  case (Cons e es)
  obtain m1 gs where s: "store_machine_step sha e m = (m1, gs)" by fastforce
  with Cons.prems obtain hs where r: "machine_run sha es m1 = (m', hs)" by (auto split: prod.splits)
  note step = step_moved [OF s, of k] and rest = Cons.IH [OF r]
  have w: "set (waiting_run m1 es) \<subseteq> set (waiting_run m (e # es))" "set (waiting_run m [e]) \<subseteq> set (waiting_run m (e # es))"
    using step by (auto simp: waiting_run_def)
  from moved_trans [OF conjunct1 [OF step] conjunct1 [OF rest]] w rest Cons.prems s r show ?case by auto
qed (simp add: waiting_run_def)

lemma moved_ended:
  assumes "moved sha q k st st'" "ended_at st k" "\<forall>(i, c, io) \<in> set q. \<not> puts_key sha k c"
  shows "ended_at st' k"
  using assms by (auto simp: moved_def ended_at_def)

text \<open>C21: Once a revocation has succeeded, and until the grant is put again, the grant is not found and no instruction
  under it is at DeepHarness, whatever was waiting in the queue or arrives later and however the disk and DeepHarness behave.\<close>

theorem revoked_grant_refuses:
  assumes "revokeGrant sha input io st = (st', es, Inr (Revoke_Result True))" "identityOf input = Inr i"
    and "run_queue sha q st' = (m0, fs0)" "machine_run sha evs m0 = (m, fs)"
    and "\<forall>(j, c, io) \<in> set (q @ concat (map input_waiting evs)). \<not> puts_key sha (identityKey sha i) c"
  shows "lookupCurrentGrant sha input (sm_store m) \<in> {Inr None, Inl (Error ''grant_store_unavailable'')} \<and>
    (\<forall>j fr. sm_running m = Some (j, fr) \<longrightarrow> identityKey sha (cf_identity fr) \<noteq> identityKey sha i)"
proof -
  let ?k = "identityKey sha i"
  from revokeGrant_cases [OF assms(1)] assms(2) have "ended_at st' ?k"
    by (auto simp: ended_at_def dest!: grant_at_save [where k = ?k])
  moreover from queue_moved [OF assms(3), of ?k] have "moved sha q ?k st' (sm_store m0)" "set (sm_queue m0) \<subseteq> set q" by simp_all
  moreover from run_moved [OF assms(4), of ?k] have "moved sha (waiting_run m0 evs) ?k (sm_store m0) (sm_store m)" by simp
  moreover from calculation assms(5) have "\<forall>(j, c, io) \<in> set q. \<not> puts_key sha ?k c"
    "\<forall>(j, c, io) \<in> set (waiting_run m0 evs). \<not> puts_key sha ?k c" by (auto simp: waiting_run_def Ball_def)
  ultimately have ended: "ended_at (sm_store m) ?k"
    by (metis moved_ended)
  from queue_held [OF assms(3)] run_held [OF assms(4)] have "grant_held sha m" by blast
  with ended show ?thesis using assms(2)
    by (auto simp: ended_at_def grant_at_def lookupCurrentGrant_def grant_held_def usable_grant_def ensure_def bindR_def
        split: option.splits)
qed

section \<open>What the policy releases\<close>

lemma ask_provider_answered:
  "answered (ask_provider q k) as = (t, Some (Inr v)) \<longleftrightarrow>
    (\<exists>x bs t'. as = Inr x # bs \<and> t = (q, Inr x) # t' \<and> answered (k x) bs = (t', Some (Inr v)))"
  by (cases as) (auto simp: ask_provider_def split: sum.splits prod.splits)

lemma deny_answered [simp]: "answered deny as = ([], Some (Inl dsh_denied))"
  by (simp add: deny_def)

lemma gate_answered: "answered (gate b p) as = (t, Some (Inr v)) \<longleftrightarrow> b \<and> answered p as = (t, Some (Inr v))"
  by (auto simp: gate_def)

definition scope_identity :: "string \<times> string \<times> string \<Rightarrow> string \<times> string \<Rightarrow> dsh_identity" where
  "scope_identity p s = (case p of (actor, clientId, sessionId) \<Rightarrow> case s of (workspaceId, leadSessionId) \<Rightarrow>
     \<lparr>gi_actor = actor, gi_clientId = clientId, gi_sessionId = sessionId, gi_workspaceId = workspaceId, gi_leadSessionId = leadSessionId\<rparr>)"

lemma validateGrant_auth: "validateGrant g i action = Some auth \<Longrightarrow> la_identity auth = i \<and> la_action auth = action"
  by (auto simp: validateGrant_def split: jval.splits option.splits if_splits)

lemmas validated = validateGrant_auth [THEN conjunct1] validateGrant_auth [THEN conjunct2]

lemma granted_answered:
  "answered (ask_provider q (\<lambda>g. case validateGrant g i action of None \<Rightarrow> deny | Some auth \<Rightarrow> k auth)) as = (t, Some (Inr v)) \<longleftrightarrow>
    (\<exists>g bs t' auth. as = Inr g # bs \<and> t = (q, Inr g) # t' \<and> validateGrant g i action = Some auth \<and>
       la_identity auth = i \<and> la_action auth = action \<and> answered (k auth) bs = (t', Some (Inr v)))"
  by (auto simp: ask_provider_answered split: option.splits) (metis validated)+

lemma authority_answered:
  "answered (authority trusted input action k) as = (t, Some (Inr v)) \<longleftrightarrow>
    (\<exists>p s g bs t' auth. principalOf trusted = Some p \<and> scopeOf input = Some s \<and> as = Inr g # bs \<and>
       t = (Lookup_Grant (scope_identity p s), Inr g) # t' \<and> validateGrant g (scope_identity p s) action = Some auth \<and>
       la_identity auth = scope_identity p s \<and> la_action auth = action \<and> answered (k auth) bs = (t', Some (Inr v)))"
  by (auto simp: authority_def granted_answered scope_identity_def Let_def split: option.splits)

lemma recheck_answered:
  "answered (recheck auth k) as = (t, Some (Inr v)) \<longleftrightarrow>
    (\<exists>g bs t' fresh. as = Inr g # bs \<and> t = (Lookup_Grant (la_identity auth), Inr g) # t' \<and>
       validateGrant g (la_identity auth) (la_action auth) = Some fresh \<and> la_revision fresh = la_revision auth \<and>
       answered k bs = (t', Some (Inr v)))"
  by (auto simp: recheck_def granted_answered gate_answered dest: validated)

text \<open>What a validated answer of the store says.\<close>

lemma validated_lookup:
  assumes "store_lookup sha st i' = Inr g" "validateGrant g i action = Some auth"
  shows "\<exists>gr. grant_at st (identityKey sha i) = Some gr \<and> gr_identity gr = i \<and> gr_revokedAt gr = None \<and> action \<in> set (gr_actions gr) \<and>
    gr_revision gr = la_revision auth \<and> i' = i"
proof -
  from assms obtain c where c: "lookupCurrentGrant sha (JObj (identity_value i')) st = Inr (Some c)" "g = current_grant_value (Some c)"
    by (auto simp: store_lookup_def bindR_Inr_iff current_grant_value_def validateGrant_def split: option.splits)
  then obtain j gr where j: "identityOf (JObj (identity_value i')) = Inr j" "grant_at st (identityKey sha j) = Some gr"
      "gr_revokedAt gr = None" "gr_identity gr = j" "c = \<lparr>cg_identity = j, cg_actions = gr_actions gr, cg_revision = gr_revision gr\<rparr>"
    by (auto simp: lookupCurrentGrant_def bindR_Inr_iff ensure_Inr_iff grant_at_def split: option.splits if_splits)
  moreover from j(1) have "j = i'"
    by (cases i') (auto simp: identityOf_def value_simps)
  moreover from assms(2) c j have "i = j" "action \<in> set (gr_actions gr)" "gr_revision gr = la_revision auth"
    by (cases i; cases j; auto simp: validateGrant_def current_grant_value_def identity_value_def field_Cons attr_def
        jstrs_def dsh_identifier_def split: option.splits if_splits)+
  ultimately show ?thesis by auto
qed

definition uuids_of :: "waiting \<Rightarrow> string set" where
  "uuids_of q = (\<lambda>(i, c, io). io_uuid io) ` set q"

text \<open>A grant whose revision is the same at both ends of a run stood the whole run.\<close>

lemma stood:
  assumes "machine_run sha es1 m = (m1, fs1)" "machine_run sha es2 m1 = (m2, fs2)"
    and "grant_at (sm_store m) k = Some g" "grant_at (sm_store m2) k = Some g2" "gr_revision g2 = gr_revision g"
    and "gr_revision g \<notin> uuids_of (waiting_run m (es1 @ es2))"
  shows "grant_at (sm_store m1) k = Some g \<and> g2 = g"
proof -
  from run_moved [OF assms(1), of k] have one: "moved sha (waiting_run m es1) k (sm_store m) (sm_store m1)"
    "set (sm_queue m1) \<subseteq> set (waiting_run m es1)" by simp_all
  from run_moved [OF assms(2), of k] have two: "moved sha (waiting_run m1 es2) k (sm_store m1) (sm_store m2)" by simp
  have w: "set (waiting_run m es1) \<union> set (waiting_run m1 es2) \<subseteq> set (waiting_run m (es1 @ es2))"
    using one(2) by (auto simp: waiting_run_def)
  have g2: "g2 = g" using moved_trans [OF one(1) two w] assms(3-6) by (auto simp: moved_def uuids_of_def)
  show ?thesis
  proof (cases "grant_at (sm_store m1) k = Some g")
    case False
    with one(1) assms(3) obtain h where h: "grant_at (sm_store m1) k = Some h" "gr_revision h \<in> uuids_of (waiting_run m es1)"
      unfolding moved_def uuids_of_def by (elim disjE exE conjE) (simp, blast+)
    with two assms(4) have "gr_revision g2 \<in> uuids_of (waiting_run m es1) \<union> uuids_of (waiting_run m1 es2)"
      unfolding moved_def uuids_of_def by (elim disjE exE conjE) simp_all
    moreover have "uuids_of (waiting_run m es1) \<union> uuids_of (waiting_run m1 es2) \<subseteq> uuids_of (waiting_run m (es1 @ es2))"
      using w unfolding uuids_of_def by blast
    ultimately show ?thesis using assms(5,6) by auto
  qed (simp add: g2)
qed

lemma read_released:
  assumes "(action, run) \<in> {(''team.read'', readTeam trusted input), (''chat.read'', readChat trusted input)}"
    and "answered run [a1, data, a2] = (t, Some (Inr v))"
  shows "\<exists>p s g1 g2 auth fresh. principalOf trusted = Some p \<and> scopeOf input = Some s \<and> a1 = Inr g1 \<and> data = Inr v \<and> a2 = Inr g2 \<and>
    validateGrant g1 (scope_identity p s) action = Some auth \<and> validateGrant g2 (scope_identity p s) action = Some fresh \<and>
    la_revision fresh = la_revision auth"
  using assms
  by (auto simp: readTeam_def readChat_def authority_answered ask_provider_answered recheck_answered split: option.splits)

text \<open>C22: A team or a chat is released only to a caller whose own grant allows the read and stood unchanged from the
  first look at it to the last, at every moment between: the answer of DeepHarness that was read meanwhile is the one
  released. The store takes any calls between the two looks; the revisions they draw are new.\<close>

theorem released_read_granted:
  assumes "(action, run) \<in> {(''team.read'', readTeam trusted input), (''chat.read'', readChat trusted input)}"
    and "answered run [store_lookup sha (sm_store m) i, data, store_lookup sha (sm_store m2) i2] = (t, Some (Inr v))"
    and "machine_run sha es1 m = (m1, fs1)" "machine_run sha es2 m1 = (m2, fs2)"
    and "\<forall>g. map_of (gs_grants (st_state (sm_store m))) (identityKey sha i) = Some g \<longrightarrow>
      gr_revision g \<notin> uuids_of (waiting_run m (es1 @ es2))"
  shows "data = Inr v \<and> principalOf trusted = Some (gi_actor i, gi_clientId i, gi_sessionId i) \<and>
    scopeOf input = Some (gi_workspaceId i, gi_leadSessionId i) \<and>
    (\<exists>g. gr_identity g = i \<and> gr_revokedAt g = None \<and> action \<in> set (gr_actions g) \<and>
      (\<forall>x \<in> {m, m1, m2}. map_of (gs_grants (st_state (sm_store x))) (identityKey sha i) = Some g))"
proof -
  from read_released [OF assms(1,2)] obtain p s g1 g2 auth fresh
    where r: "principalOf trusted = Some p" "scopeOf input = Some s" "data = Inr v"
      "store_lookup sha (sm_store m) i = Inr g1" "store_lookup sha (sm_store m2) i2 = Inr g2"
      "validateGrant g1 (scope_identity p s) action = Some auth" "validateGrant g2 (scope_identity p s) action = Some fresh"
      "la_revision fresh = la_revision auth" by blast
  from validated_lookup [OF r(4,6)] obtain g where g: "grant_at (sm_store m) (identityKey sha i) = Some g" "gr_identity g = i"
      "gr_revokedAt g = None" "action \<in> set (gr_actions g)" "gr_revision g = la_revision auth" "scope_identity p s = i" by auto
  from validated_lookup [OF r(5,7)] g(6) obtain h where h: "grant_at (sm_store m2) (identityKey sha i) = Some h"
      "gr_revision h = la_revision fresh" by auto
  from g(6) have "p = (gi_actor i, gi_clientId i, gi_sessionId i)" "s = (gi_workspaceId i, gi_leadSessionId i)"
    by (cases p; cases s; auto simp: scope_identity_def)+
  moreover from assms(5) g(1) have "gr_revision g \<notin> uuids_of (waiting_run m (es1 @ es2))" by (simp add: grant_at_def)
  from stood [OF assms(3,4) g(1) h(1) _ this] g(5) h(2) r(8)
  have "grant_at (sm_store m1) (identityKey sha i) = Some g" "h = g" by simp_all
  ultimately show ?thesis using r g h by (auto simp: grant_at_def)
qed

section \<open>A restart\<close>

lemma id_field_Inr: "id_field fs k = Inr s \<Longrightarrow> DSH_ID s"
  by (auto simp: id_field_def bindR_Inr_iff ensure_Inr_iff split: jval.splits)

lemma identity_fields_ok: "identity_fields fs = Inr i \<Longrightarrow> identity_ok i"
  by (auto simp: identity_fields_def bindR_Inr_iff identity_ok_def identity_texts_def dest: id_field_Inr)

lemma safe_int_field_Inr: "safe_int_field fs k = Inr i \<Longrightarrow> safe_integer i"
  by (auto simp: safe_int_field_def bindR_Inr_iff ensure_Inr_iff split: jval.splits jnum.splits)

lemma null_or_int_field_ok: "null_or_int_field fs k = Inr t \<Longrightarrow> time_ok t"
  by (auto simp: null_or_int_field_def time_ok_def bindR_Inr_iff split: if_splits dest: safe_int_field_Inr)

lemma hash_field_Inr: "hash_field fs k = Inr s \<Longrightarrow> DSH_HASH s"
  by (auto simp: hash_field_def bindR_Inr_iff ensure_Inr_iff split: jval.splits)

lemma action_texts_known: "list_all2 (\<lambda>v a. action_text v = Inr a) vs as \<Longrightarrow> set as \<subseteq> set DSH_ACTIONS"
  by (induction rule: list_all2_induct) (auto simp: action_text_def bindR_Inr_iff ensure_Inr_iff split: jval.splits)

lemma actions_of_ok: "actions_of v = Inr as \<Longrightarrow> as \<noteq> [] \<and> set as \<subseteq> set DSH_ACTIONS \<and> distinct as"
  by (auto simp: actions_of_def bindR_Inr_iff ensure_Inr_iff mapR_Inr_iff split: jval.splits dest: action_texts_known list_all2_lengthD)

lemma read_grant_ok: "read_grant v = Inr g \<Longrightarrow> grant_ok g"
  by (auto simp: read_grant_def bindR_Inr_iff ensure_Inr_iff grant_ok_def
      dest!: identity_fields_ok actions_of_ok id_field_Inr safe_int_field_Inr null_or_int_field_ok)

lemma read_delivery_ok: "read_delivery v = Inr d \<Longrightarrow> delivery_ok d"
  by (auto simp: read_delivery_def bindR_Inr_iff delivery_ok_def
      dest: identity_fields_ok hash_field_Inr id_field_Inr safe_int_field_Inr null_or_int_field_ok)

lemma read_entries_ok:
  assumes "mapR (read_entry f) vs = Inr xs" "\<And>v x. f v = Inr x \<Longrightarrow> P x"
  shows "length xs = length vs \<and> (\<forall>(k, x) \<in> set xs. DSH_HASH k \<and> P x)"
proof -
  from assms(1) have "list_all2 (\<lambda>e y. read_entry f e = Inr y) vs xs" by (simp add: mapR_Inr_iff)
  then show ?thesis
    by (induction rule: list_all2_induct) (auto simp: read_entry_def bindR_Inr_iff ensure_Inr_iff assms(2) split: prod.splits)
qed

lemma normalize_ok: "normalize_grants v = Inr s \<Longrightarrow> state_ok s"
  by (auto simp: normalize_grants_def bindR_Inr_iff ensure_Inr_iff state_ok_def
      dest!: read_entries_ok [where f = read_grant and P = grant_ok, OF _ read_grant_ok]
        read_entries_ok [where f = read_delivery and P = delivery_ok, OF _ read_delivery_ok])

definition io_ok :: "grant_io \<Rightarrow> bool" where
  "io_ok io = (safe_integer (io_now io) \<and> DSH_ID (io_uuid io) \<and> DSH_ID (''receipt_'' @ io_uuid io))"

text \<open>While the store has no fault, its file reads as its state.\<close>

definition grant_durable :: "grant_store \<Rightarrow> bool" where
  "grant_durable st = (state_ok (st_state st) \<and>
     (\<not> st_faulted st \<longrightarrow> (\<exists>b v. st_file st = Present b v \<and> normalize_grants v = Inr (st_state st))))"

lemma save_durable:
  assumes "save d s st = (st', r)" "grant_durable st" "state_ok s"
  shows "grant_durable st'"
  using save_cases [OF assms(1)] assms(2,3)
  by (cases st; cases st') (auto simp: grant_durable_def written_def Let_def normalize_value)

lemma grant_length_update: "length (AList.update k v t) = (if map_of t k = None then Suc (length t) else length t)"
  by (induction t) auto

lemma set_update_alist: "set (AList.update k v t) \<subseteq> insert (k, v) (set t)"
  by (induction t) auto

lemma state_ok_grant:
  assumes "state_ok s" "DSH_HASH k" "grant_ok g" "map_of (gs_grants s) k = None \<longrightarrow> length (gs_grants s) < MAX_GRANTS"
  shows "state_ok (store_grant k g s)"
  using assms set_update_alist [of k g "gs_grants s"] by (auto simp: state_ok_def store_grant_def grant_length_update)

lemma state_ok_delivery:
  assumes "state_ok s" "DSH_HASH k" "delivery_ok x" "map_of (gs_deliveries s) k = None \<longrightarrow> length (gs_deliveries s) < MAX_DELIVERIES"
  shows "state_ok (store_delivery k x s)"
  using assms set_update_alist [of k x "gs_deliveries s"] by (auto simp: state_ok_def store_delivery_def grant_length_update)

lemma identityOf_ok: "identityOf v = Inr i \<Longrightarrow> identity_ok i \<and> own_actor i"
  by (auto simp: identityOf_def bindR_Inr_iff ensure_Inr_iff dest: identity_fields_ok)

lemma state_grant_ok: "state_ok s \<Longrightarrow> map_of (gs_grants s) k = Some g \<Longrightarrow> grant_ok g"
  by (auto simp: state_ok_def dest!: map_of_SomeD)

lemma commit_input_ok: "read_commit_input v = Inr inp \<Longrightarrow> io_ok io \<Longrightarrow> delivery_ok (new_delivery inp io)"
  by (auto simp: read_commit_input_def bindR_Inr_iff delivery_ok_def new_delivery_def io_ok_def time_ok_def
      dest: identityOf_ok id_field_Inr hash_field_Inr)

lemma sort_Nil_iff: "sort xs = [] \<longleftrightarrow> xs = []"
  by (metis length_0_conv length_sort)

lemma new_grant_ok: "identityOf v = Inr i \<Longrightarrow> actions_of w = Inr u \<Longrightarrow> io_ok io \<Longrightarrow> grant_ok (new_grant i u io)"
  by (auto simp: grant_ok_def new_grant_def io_ok_def time_ok_def sort_Nil_iff dest!: identityOf_ok actions_of_ok)

lemma ended_grant_ok: "grant_ok g \<Longrightarrow> io_ok io \<Longrightarrow> grant_ok (ended_grant g io)"
  by (auto simp: grant_ok_def ended_grant_def io_ok_def time_ok_def)

lemma durable_state: "grant_durable st \<Longrightarrow> state_ok (st_state st)"
  by (simp add: grant_durable_def)

lemma call_durable:
  assumes "run_call sha c io st = (st', es, b)" "grant_durable st" "io_ok io" "\<And>x. DSH_HASH (sha x)"
  shows "grant_durable st'"
proof (cases "st_faulted st")
  case True
  then show ?thesis using assms by (auto simp: run_call_def)
next
  case False
  note keys = assms(4) [of "json_text (jstrs (identity_texts i))" for i, folded identityKey_def]
  show ?thesis
  proof (cases c)
    case (Put_Grant input)
    with assms False obtain r where "putGrant sha input io st = (st', es, r)" by (auto simp: run_call_def split: prod.splits)
    from putGrant_cases [OF this] assms(2,3) show ?thesis
      by (auto elim!: save_durable intro!: state_ok_grant keys new_grant_ok durable_state)
  next
    case (Revoke_Grant input)
    with assms False obtain r where "revokeGrant sha input io st = (st', es, r)" by (auto simp: run_call_def split: prod.splits)
    from revokeGrant_cases [OF this] assms(2,3) show ?thesis
      by (auto elim!: save_durable intro!: state_ok_grant keys ended_grant_ok durable_state intro: state_grant_ok)
  next
    case (Commit_Instruction input)
    with assms False have c: "begin_commit sha input io st = (st', es, b)" by (simp add: run_call_def)
    from begin_commit_cases [OF c] assms(2-4) show ?thesis
      by (auto elim!: save_durable intro!: state_ok_delivery commit_input_ok durable_state simp: input_key_def deliveryKey_def)
  qed
qed

definition frame_stored :: "grant_store \<Rightarrow> commit_frame \<Rightarrow> bool" where
  "frame_stored st fr = (map_of (gs_deliveries (st_state st)) (cf_key fr) = Some (cf_delivery fr))"

lemma submitting_stored:
  assumes "run_call sha c io st = (st', es, Submitting fr)"
  shows "frame_stored st' fr"
proof -
  from assms obtain input where "begin_commit sha input io st = (st', es, Submitting fr)"
    by (auto simp: run_call_def split: if_splits store_call.splits prod.splits)
  from begin_commit_cases [OF this] show ?thesis
    by (auto simp: frame_stored_def frame_of_def store_delivery_def update_conv dest!: save_cases)
qed

definition machine_durable :: "store_machine \<Rightarrow> bool" where
  "machine_durable m = (grant_durable (sm_store m) \<and> (\<forall>(i, c, io) \<in> set (sm_queue m). io_ok io) \<and>
     (case sm_running m of None \<Rightarrow> True | Some (i, fr) \<Rightarrow> frame_stored (sm_store m) fr))"

lemma queue_durable:
  assumes "\<And>x. DSH_HASH (sha x)"
  shows "run_queue sha q st = (m, fs) \<Longrightarrow> grant_durable st \<Longrightarrow> \<forall>(i, c, io) \<in> set q. io_ok io \<Longrightarrow> machine_durable m"
  using assms
proof (induction sha q st arbitrary: m fs rule: run_queue.induct)
  case (1 sha st)
  then show ?case by (auto simp: machine_durable_def)
next
  case (2 sha i c io q st)
  obtain st' es b where c: "run_call sha c io st = (st', es, b)" by (cases "run_call sha c io st") auto
  have d: "grant_durable st'" using call_durable [OF c "2.prems"(2) _ "2.prems"(4)] "2.prems"(3) by simp
  show ?case
  proof (cases b)
    case (Settled r)
    obtain m' gs where q: "run_queue sha q st' = (m', gs)" by fastforce
    from "2.IH" [OF c [symmetric] refl refl Settled q d _ "2.prems"(4)] "2.prems"(1,3) c Settled q show ?thesis by auto
  next
    case (Submitting fr)
    with submitting_stored [of sha c io st st' es fr] "2.prems"(1,3) c d show ?thesis by (auto simp: machine_durable_def)
  qed
qed

lemma finish_durable:
  assumes "finish_commit sha fr ack io st = (st', es, r)" "grant_durable st" "frame_stored st fr" "io_ok io"
  shows "grant_durable st'"
proof -
  have "DSH_HASH (cf_key fr)" "delivery_ok (cf_delivery fr)"
    using assms(2,3) by (auto simp: grant_durable_def state_ok_def frame_stored_def dest!: map_of_SomeD)
  then have "state_ok (store_delivery (cf_key fr) (delivery_done fr io) (st_state st))"
    using assms by (intro state_ok_delivery durable_state)
      (auto simp: delivery_ok_def delivery_done_def frame_stored_def io_ok_def time_ok_def)
  with finish_commit_cases [OF assms(1)] assms(2) show ?thesis by (auto elim: save_durable)
qed

definition input_ok :: "store_input \<Rightarrow> bool" where
  "input_ok e = (case e of Called i c io \<Rightarrow> io_ok io | Answered ack io \<Rightarrow> io_ok io)"

lemma step_durable:
  assumes "store_machine_step sha e m = (m', fs)" "machine_durable m" "input_ok e" "\<And>x. DSH_HASH (sha x)"
  shows "machine_durable m'"
proof (cases e)
  case (Called i c io)
  show ?thesis
  proof (cases "sm_running m")
    case None
    with assms Called show ?thesis
      by (auto simp: machine_durable_def [of m] input_ok_def intro!: queue_durable [where sha = sha])
  next
    case (Some p)
    with assms Called show ?thesis by (auto simp: machine_durable_def input_ok_def)
  qed
next
  case (Answered ack io)
  show ?thesis
  proof (cases "sm_running m")
    case None
    with assms Answered show ?thesis by simp
  next
    case (Some p)
    obtain i fr where p: "p = (i, fr)" by force
    obtain st' es r where f: "finish_commit sha fr ack io (sm_store m) = (st', es, r)"
      by (cases "finish_commit sha fr ack io (sm_store m)") auto
    obtain m1 gs where q: "run_queue sha (sm_queue m) st' = (m1, gs)" by fastforce
    from assms(2,3) Some p Answered have "grant_durable st'"
      by (intro finish_durable [OF f]) (auto simp: machine_durable_def input_ok_def)
    with queue_durable [OF assms(4) q] assms(1,2) Some p f q Answered show ?thesis by (auto simp: machine_durable_def)
  qed
qed

lemma run_durable:
  assumes "\<And>x. DSH_HASH (sha x)"
  shows "machine_run sha es m = (m', fs) \<Longrightarrow> machine_durable m \<Longrightarrow> list_all input_ok es \<Longrightarrow> machine_durable m'"
  using step_durable [OF _ _ _ assms] by (induction es arbitrary: m fs) (auto split: prod.splits)

lemma empty_state_ok: "state_ok emptyState"
  by (simp add: emptyState_def state_ok_def)

lemma created_durable: "createStore d fl = Inr st \<Longrightarrow> grant_durable st"
  by (cases fl; cases d) (auto simp: createStore_def loadFile_def persistFile_def grant_durable_def written_def Let_def bindR_Inr_iff
      ensure_Inr_iff normalize_value empty_state_ok dest: normalize_ok)

text \<open>C23: A store that met no fault loses nothing in a restart: the file it leaves reads as the state it held, every grant with
  its revision and every receipt, as long as the file is within the size the loader accepts.\<close>

theorem grants_survive_restart:
  assumes "createStore d0 fl = Inr st0" "machine_run sha es (idle_machine st0) = (m, fs)"
    and "\<forall>x. DSH_HASH (sha x)" "list_all input_ok es" "\<not> st_faulted (sm_store m)"
    and "st_file (sm_store m) = Present b v" "b \<le> MAX_GRANT_FILE"
  shows "createStore d (st_file (sm_store m)) = Inr (sm_store m)"
proof -
  from created_durable [OF assms(1)] have "machine_durable (idle_machine st0)" by (simp add: machine_durable_def idle_machine_def)
  with run_durable [OF _ assms(2)] assms(3,4) have "grant_durable (sm_store m)" by (auto simp: machine_durable_def)
  with assms(5-7) show ?thesis
    by (cases "sm_store m") (auto simp: grant_durable_def createStore_def loadFile_def)
qed

section \<open>Examples\<close>

definition demo_dsh :: dsh_identity where
  "demo_dsh = \<lparr>gi_actor = ''oauth:c:s'', gi_clientId = ''c'', gi_sessionId = ''s'', gi_workspaceId = ''w'', gi_leadSessionId = ''l''\<rparr>"

definition demo_call :: "(string \<times> jval) list \<Rightarrow> jval" where
  "demo_call extra = JObj (identity_value demo_dsh @ extra)"

definition demo_io :: "int \<Rightarrow> string \<Rightarrow> grant_io" where
  "demo_io t u = \<lparr>io_now = t, io_uuid = u, io_disk = Kept\<rparr>"

definition demo_grant :: "string \<Rightarrow> dsh_grant" where
  "demo_grant action = \<lparr>gr_identity = demo_dsh, gr_actions = [action], gr_revision = ''u1'', gr_updatedAt = 1, gr_revokedAt = None\<rparr>"

definition demo_granted :: "string \<Rightarrow> grant_store" where
  "demo_granted action = \<lparr>st_state = \<lparr>gs_grants = [(''k'', demo_grant action)], gs_deliveries = []\<rparr>, st_file = Absent, st_faulted = False\<rparr>"

definition demo_instruction :: jval where
  "demo_instruction = demo_call [(''action'', JStr ''lead.instruct''), (''revision'', JStr ''u1''),
     (''idempotencyKey'', JStr ''01234567-89ab-4cde-8f01-23456789abcd''), (''payloadHash'', JStr (replicate 64 CHR ''a''))]"

definition demo_input :: commit_input where
  "demo_input = \<lparr>ci_identity = demo_dsh, ci_revision = ''u1'', ci_idempotencyKey = ''01234567-89ab-4cde-8f01-23456789abcd'',
     ci_payloadHash = replicate 64 CHR ''a''\<rparr>"

lemma demo_reads:
  "identityOf (demo_call []) = Inr demo_dsh" "read_commit_input demo_instruction = Inr demo_input"
  by code_simp+

lemma demo_keys: "identityKey (\<lambda>_. ''k'') i = ''k''" "input_key (\<lambda>_. ''k'') x = ''k''" "deliveryKey (\<lambda>_. ''k'') i y = ''k''"
  by (simp_all add: identityKey_def input_key_def deliveryKey_def)

lemmas demo_steps = idle_machine_def run_call_def begin_commit_def demo_reads demo_keys demo_granted_def demo_grant_def
  usable_grant_def demo_input_def demo_io_def save_def persistFile_def store_delivery_def store_grant_def MAX_DELIVERIES_def Let_def

definition demo_submitted :: store_machine where
  "demo_submitted = fst (machine_run (\<lambda>_. ''k'') [Called 0 (Commit_Instruction demo_instruction) (demo_io 5 ''u2'')]
     (idle_machine (demo_granted ''lead.instruct'')))"

lemma demo_submitted_running: "\<exists>fr. sm_running demo_submitted = Some (0, fr)"
  by (simp add: demo_submitted_def demo_steps)

lemma admitted_instruction_accepted_witness:
  "\<exists>fr m' gs. sm_running demo_submitted = Some (0, fr) \<and>
     store_machine_step (\<lambda>_. ''k'') (Answered (Inr (JObj [(''accepted'', JBool True)])) (demo_io 9 ''u3'')) demo_submitted = (m', gs) \<and>
     Replied 0 (Inr (Receipt (dl_receiptId (cf_delivery fr)) (cf_revision fr) False)) \<in> set gs"
proof -
  obtain fs where run: "machine_run (\<lambda>_. ''k'') [Called 0 (Commit_Instruction demo_instruction) (demo_io 5 ''u2'')]
      (idle_machine (demo_granted ''lead.instruct'')) = (demo_submitted, fs)"
    by (metis demo_submitted_def prod.collapse)
  obtain fr where fr: "sm_running demo_submitted = Some (0, fr)" using demo_submitted_running by blast
  have "attr (JObj [(''accepted'', JBool True)]) ''accepted'' = JBool True" "io_disk (demo_io 9 ''u3'') = Kept"
    by (simp_all add: attr_def field_def demo_io_def)
  with admitted_instruction_accepted [OF run fr] fr show ?thesis by blast
qed

lemma demo_revoked: "\<exists>st' es. revokeGrant (\<lambda>_. ''k'') (demo_call []) (demo_io 3 ''u2'') (demo_granted ''lead.instruct'') =
    (st', es, Inr (Revoke_Result True))"
  by (simp add: revokeGrant_def demo_steps)

theorem revoked_grant_refuses_witness:
  "\<exists>st' es m fs. revokeGrant (\<lambda>_. ''k'') (demo_call []) (demo_io 3 ''u2'') (demo_granted ''lead.instruct'') =
      (st', es, Inr (Revoke_Result True)) \<and>
    machine_run (\<lambda>_. ''k'') [Called 7 (Commit_Instruction demo_instruction) (demo_io 5 ''u4'')]
      (fst (run_queue (\<lambda>_. ''k'') [(6, Commit_Instruction demo_instruction, demo_io 4 ''u3'')] st')) = (m, fs) \<and>
    lookupCurrentGrant (\<lambda>_. ''k'') (demo_call []) (sm_store m) \<in> {Inr None, Inl (Error ''grant_store_unavailable'')}"
proof -
  obtain st' es where r: "revokeGrant (\<lambda>_. ''k'') (demo_call []) (demo_io 3 ''u2'') (demo_granted ''lead.instruct'') =
      (st', es, Inr (Revoke_Result True))" using demo_revoked by blast
  obtain m0 fs0 where q: "run_queue (\<lambda>_. ''k'') [(6, Commit_Instruction demo_instruction, demo_io 4 ''u3'')] st' = (m0, fs0)" by fastforce
  obtain m fs where m: "machine_run (\<lambda>_. ''k'') [Called 7 (Commit_Instruction demo_instruction) (demo_io 5 ''u4'')] m0 = (m, fs)" by fastforce
  have "lookupCurrentGrant (\<lambda>_. ''k'') (demo_call []) (sm_store m) \<in> {Inr None, Inl (Error ''grant_store_unavailable'')}"
    using revoked_grant_refuses [OF r demo_reads(1) q m] by (simp add: puts_key_def)
  moreover have "machine_run (\<lambda>_. ''k'') [Called 7 (Commit_Instruction demo_instruction) (demo_io 5 ''u4'')]
      (fst (run_queue (\<lambda>_. ''k'') [(6, Commit_Instruction demo_instruction, demo_io 4 ''u3'')] st')) = (m, fs)"
    using q m by (metis fst_conv)
  ultimately show ?thesis using r by blast
qed

definition demo_reader :: store_machine where "demo_reader = idle_machine (demo_granted ''team.read'')"

definition demo_trusted :: jval where
  "demo_trusted = JObj [(''actor'', JStr ''oauth:c:s''), (''clientId'', JStr ''c''), (''sessionId'', JStr ''s'')]"

definition demo_scope :: jval where
  "demo_scope = JObj [(''workspaceId'', JStr ''w''), (''leadSessionId'', JStr ''l'')]"

lemma demo_lookup: "store_lookup (\<lambda>_. ''k'') (sm_store demo_reader) demo_dsh = Inr (demo_call [(''actions'', jstrs [''team.read'']), (''revision'', JStr ''u1'')])"
  by code_simp

lemma demo_read: "\<exists>t. answered (readTeam demo_trusted demo_scope)
    [Inr (demo_call [(''actions'', jstrs [''team.read'']), (''revision'', JStr ''u1'')]), Inr (JArr []),
     Inr (demo_call [(''actions'', jstrs [''team.read'']), (''revision'', JStr ''u1'')])] = (t, Some (Inr (JArr [])))"
proof -
  have "snd (answered (readTeam demo_trusted demo_scope)
    [Inr (demo_call [(''actions'', jstrs [''team.read'']), (''revision'', JStr ''u1'')]), Inr (JArr []),
     Inr (demo_call [(''actions'', jstrs [''team.read'']), (''revision'', JStr ''u1'')])]) = Some (Inr (JArr []))" by code_simp
  then show ?thesis by (metis prod.collapse)
qed

theorem released_read_granted_witness:
  "\<exists>t m2 fs. answered (readTeam demo_trusted demo_scope) [store_lookup (\<lambda>_. ''k'') (sm_store demo_reader) demo_dsh, Inr (JArr []),
      store_lookup (\<lambda>_. ''k'') (sm_store m2) demo_dsh] = (t, Some (Inr (JArr []))) \<and>
    machine_run (\<lambda>_. ''k'') [Called 4 (Revoke_Grant JNull) (demo_io 8 ''u9'')] demo_reader = (m2, fs) \<and>
    (\<exists>g. gr_identity g = demo_dsh \<and> ''team.read'' \<in> set (gr_actions g) \<and>
      map_of (gs_grants (st_state (sm_store m2))) (identityKey (\<lambda>_. ''k'') demo_dsh) = Some g)"
proof -
  have run: "machine_run (\<lambda>_. ''k'') [Called 4 (Revoke_Grant JNull) (demo_io 8 ''u9'')] demo_reader =
      (demo_reader, [Replied 4 (Inl grant_denied)])"
    by (simp add: demo_reader_def idle_machine_def run_call_def demo_granted_def revokeGrant_def identityOf_def object_fields_def)
  obtain t where t: "answered (readTeam demo_trusted demo_scope) [store_lookup (\<lambda>_. ''k'') (sm_store demo_reader) demo_dsh, Inr (JArr []),
      store_lookup (\<lambda>_. ''k'') (sm_store demo_reader) demo_dsh] = (t, Some (Inr (JArr [])))"
    unfolding demo_lookup using demo_read by blast
  have rev: "\<forall>g. map_of (gs_grants (st_state (sm_store demo_reader))) (identityKey (\<lambda>_. ''k'') demo_dsh) = Some g \<longrightarrow>
      gr_revision g \<notin> uuids_of (waiting_run demo_reader ([] @ [Called 4 (Revoke_Grant JNull) (demo_io 8 ''u9'')]))"
    by (simp add: demo_reader_def idle_machine_def demo_granted_def demo_grant_def demo_keys uuids_of_def waiting_run_def demo_io_def)
  have "machine_run (\<lambda>_. ''k'') [] demo_reader = (demo_reader, [])" by simp
  from released_read_granted [OF _ t this run rev, of "''team.read''"] t run show ?thesis by blast
qed

definition demo_hash :: string where "demo_hash = replicate 64 CHR ''a''"

definition demo_stored :: grant_state where
  "demo_stored = \<lparr>gs_grants = [(demo_hash, demo_grant ''team.read'')], gs_deliveries = []\<rparr>"

lemma demo_hash_ok: "DSH_HASH demo_hash"
  by code_simp

lemma demo_stored_ok: "state_ok demo_stored"
proof -
  have "grant_ok (demo_grant ''team.read'')" by code_simp
  then show ?thesis by (simp add: state_ok_def demo_stored_def demo_hash_ok MAX_GRANTS_def MAX_DELIVERIES_def)
qed

theorem grants_survive_restart_witness:
  "\<exists>m fs. machine_run (\<lambda>_. demo_hash) [Called 0 (Revoke_Grant JNull) (demo_io 1 ''u1'')]
      (idle_machine \<lparr>st_state = demo_stored, st_file = Present 700 (grant_state_value demo_stored), st_faulted = False\<rparr>) = (m, fs) \<and>
    st_state (sm_store m) = demo_stored \<and> createStore Lost (st_file (sm_store m)) = Inr (sm_store m)"
proof -
  let ?st = "\<lparr>st_state = demo_stored, st_file = Present 700 (grant_state_value demo_stored), st_faulted = False\<rparr>"
  have c: "createStore Kept (Present 700 (grant_state_value demo_stored)) = Inr ?st"
    using normalize_value [of demo_stored demo_stored] demo_stored_ok
    by (simp add: createStore_def loadFile_def MAX_GRANT_FILE_def)
  have r: "machine_run (\<lambda>_. demo_hash) [Called 0 (Revoke_Grant JNull) (demo_io 1 ''u1'')] (idle_machine ?st) =
      (idle_machine ?st, [Replied 0 (Inl grant_denied)])"
    by (simp add: idle_machine_def run_call_def revokeGrant_def identityOf_def object_fields_def)
  have h: "\<forall>x::string. DSH_HASH demo_hash" by (simp add: demo_hash_ok)
  have i: "list_all input_ok [Called 0 (Revoke_Grant JNull) (demo_io 1 ''u1'')]" by code_simp
  have "\<not> st_faulted (sm_store (idle_machine ?st))" "st_file (sm_store (idle_machine ?st)) = Present 700 (grant_state_value demo_stored)"
      "700 \<le> MAX_GRANT_FILE"
    by (simp_all add: idle_machine_def MAX_GRANT_FILE_def)
  from grants_survive_restart [OF c r h i this] r show ?thesis by (auto simp: idle_machine_def)
qed

end
