(* ===== verification/Dsh_Properties.thy ===== *)
theory Dsh_Properties
  imports Dsh_Bridge Grant_Properties
begin

text \<open>
  A DeepHarness call from the policy to the relay: the two ends of the agent mesh agree on what they accept, what the
  receiver passes on belongs to the one workspace and lead it is configured for, and every payload the backend posts
  arrives.
\<close>

section \<open>The advertisement\<close>

lemma id_env: "(\<exists>s. env_id env k = Inr s) \<longleftrightarrow> DSH_ID (coalesce (env k) [])"
  by (auto simp: env_id_def bindR_Inr_iff ensure_Inr_iff DSH_ID_def re_head_class_def split: option.splits list.splits)

lemma advertised_facts:
  "canAdvertiseDshSemantic env me stat \<longleftrightarrow>
    env ''DSH_AGENT_MESH_ENABLED'' = Some ''1'' \<and>
    (\<exists>w. env_id env ''DSH_AGENT_MESH_WORKSPACE_ID'' = Inr w) \<and> (\<exists>l. env_id env ''DSH_AGENT_MESH_LEAD_SESSION_ID'' = Inr l) \<and>
    requireLocalSocket env me stat = Inr ()"
  unfolding id_env
  by (auto simp: canAdvertiseDshSemantic_def requireLocalSocket_def bindR_Inr_iff ensure_Inr_iff split: option.splits)

text \<open>The agent advertises the DeepHarness capability exactly when its receiver would pass a call on: the operator has
  enabled it, a workspace and a lead are configured, and the socket passes the receiver's own check.\<close>

lemma advertised_iff_served:
  "canAdvertiseDshSemantic env me stat \<longleftrightarrow>
    env ''DSH_AGENT_MESH_ENABLED'' = Some ''1'' \<and>
    (\<exists>w. env_id env ''DSH_AGENT_MESH_WORKSPACE_ID'' = Inr w) \<and> (\<exists>l. env_id env ''DSH_AGENT_MESH_LEAD_SESSION_ID'' = Inr l) \<and>
    requireLocalSocket env me stat = Inr ()"
  by (rule advertised_facts)

section \<open>Two ends that agree\<close>

lemma attr_Cons [simp]: "attr (JObj ((k, v) # fs)) k' = (if k = k' then v else attr (JObj fs) k')"
  by (simp add: attr_def field_Cons)

lemma utf8_length_append [simp]: "utf8_length (xs @ ys) = utf8_length xs + utf8_length ys"
  by (simp add: utf8_length_def)

lemma utf8_length_Cons [simp]: "utf8_length (c # s) = (if code c < 128 then 1 else 2) + utf8_length s"
  by (simp add: utf8_length_def)

abbreviation envelope :: "jval \<Rightarrow> jval" where
  "envelope args \<equiv> JObj [(''op'', JStr ''deepharness.semantic''), (''args'', args)]"

lemma exact_envelope [simp]: "exact [''op'', ''args''] (envelope args)"
  by (simp add: exact_def)

lemma shape_record: "shape_ok operation args \<Longrightarrow> \<exists>fs. args = JObj fs"
  by (cases args) (auto simp: shape_ok_def exact_def split: if_splits)

lemma envelope_bytes: "(\<exists>fs. args = JObj fs) \<Longrightarrow> json_bytes args \<le> json_bytes (envelope args)"
  by (auto simp: json_bytes_def json_field_def)

lemma value_id_Inr: "value_id v = Inr s \<longleftrightarrow> v = JStr s \<and> DSH_ID s"
  by (auto simp: value_id_def dsh_identifier_def split: jval.splits if_splits)

lemma id_ok_iff: "id_ok v \<longleftrightarrow> (\<exists>s. v = JStr s \<and> DSH_ID s)"
  by (auto simp: id_ok_def dsh_identifier_def split: jval.splits)

lemma made_iff: "makeDshAgentMeshEnvelope args = Inr v \<longleftrightarrow> v = envelope args \<and> checkArgs args \<and> json_bytes (envelope args) \<le> MAX_ENVELOPE"
  by (auto simp: makeDshAgentMeshEnvelope_def validateDshAgentMeshEnvelope_def bindR_Inr_iff ensure_Inr_iff)

lemma validated_iff:
  assumes "attr args ''operation'' = JStr operation"
    and "env ''DSH_AGENT_MESH_WORKSPACE_ID'' = Some w" "env ''DSH_AGENT_MESH_LEAD_SESSION_ID'' = Some l"
  shows "validatedPayload env (envelope args) = Inr c \<longleftrightarrow>
    operation \<in> set MESH_OPERATIONS \<and> shape_ok operation args \<and> attr args ''workspaceId'' = JStr w \<and> DSH_ID w \<and> DSH_ID l \<and>
    (operation \<noteq> ''listTeams'' \<longrightarrow> attr args ''leadSessionId'' = JStr l) \<and> json_bytes args \<le> MAX_ENVELOPE \<and>
    c = \<lparr>mc_operation = JStr operation, mc_args = args, mc_leadId = l\<rparr>"
proof -
  have t: "text_of (JStr operation) = operation" "str_of (JStr operation) = operation" by (simp_all add: text_of_def)
  show ?thesis using assms shape_record [of operation args]
    by (auto simp: validatedPayload_def is_record_def Let_def bindR_Inr_iff ensure_Inr_iff value_id_Inr env_id_def t split: if_splits)
qed

text \<open>What the server puts into an envelope and what the receiver takes out of one is the same, for the workspace and
  the lead the receiver is configured for: a call with a named operation is accepted there exactly when it is accepted
  here and belongs to them.\<close>

lemma receiver_agrees_with_contract:
  assumes "attr args ''operation'' = JStr operation"
    and "env ''DSH_AGENT_MESH_WORKSPACE_ID'' = Some w" "env ''DSH_AGENT_MESH_LEAD_SESSION_ID'' = Some l" "DSH_ID w" "DSH_ID l"
    and "json_bytes (envelope args) \<le> MAX_ENVELOPE"
  shows "(\<exists>c. validatedPayload env (envelope args) = Inr c) \<longleftrightarrow>
    makeDshAgentMeshEnvelope args = Inr (envelope args) \<and> attr args ''workspaceId'' = JStr w \<and>
    (operation \<noteq> ''listTeams'' \<longrightarrow> attr args ''leadSessionId'' = JStr l)"
proof -
  have "shape_ok operation args \<Longrightarrow> json_bytes args \<le> MAX_ENVELOPE"
    using envelope_bytes [of args] shape_record [of operation args] assms(6) by fastforce
  then show ?thesis
    unfolding validated_iff [OF assms(1-3)] made_iff using assms by (auto simp: checkArgs_def id_ok_iff)
qed

section \<open>What the receiver passes on\<close>

lemma relay_reply_ok:
  assumes "relay_reply parse call a = Inr out"
  shows "\<exists>r safe. socket_packet parse a = Inr r \<and> sanitize (mc_operation call) (mc_leadId call) r = Inr safe \<and>
    out = json_text safe \<and> utf8_length out \<le> 262144"
  using assms by (auto simp: relay_reply_def bindR_Inr_iff ensure_Inr_iff json_bytes_def MAX_MESH_RESPONSE_def)

lemma sanitized_teams:
  "sanitize (JStr ''listTeams'') l r = Inr safe \<Longrightarrow> list_all (\<lambda>team. attr team ''leadSessionId'' = JStr l) (elements safe)"
  by (auto simp: sanitize_def bindR_Inr_iff ensure_Inr_iff elements_def list_all_iff)


section \<open>What the backend posts\<close>

primrec posts :: "(jval \<Rightarrow> bool) \<Rightarrow> backend_run \<Rightarrow> bool" where
  "posts P (Backend_Done r) = True"
| "posts P (Post args k) = (P args \<and> (\<forall>a. posts P (k a)))"

text \<open>A payload for the scope of an identity that both ends accept.\<close>

definition own_payload :: "dsh_identity \<Rightarrow> jval \<Rightarrow> bool" where
  "own_payload i args = (checkArgs args \<and> attr args ''workspaceId'' = JStr (gi_workspaceId i) \<and>
     attr args ''leadSessionId'' = JStr (gi_leadSessionId i))"

lemma posts_payload:
  assumes "\<And>args. p = Inr args \<Longrightarrow> P args" "\<And>r. posts P (k r)"
  shows "posts P (post_payload p reply k)"
  using assms by (cases p) (auto simp: post_payload_def split: sum.splits)

lemma attr_Nil [simp]: "attr (JObj []) k = JUndef"
  by (simp add: attr_def field_def)

lemma client_scope_input:
  "client_scope names (JObj ((''workspaceId'', JStr w) # (''leadSessionId'', JStr l) # extra)) = Inr fs \<Longrightarrow> ''leadSessionId'' \<in> set names \<Longrightarrow>
    fs = [(''workspaceId'', JStr w), (''leadSessionId'', JStr l)] \<and> DSH_ID w \<and> DSH_ID l"
  by (auto simp: client_scope_def bindR_Inr_iff ensure_Inr_iff id_ok_iff)

lemmas own_payload_simps = bindR_Inr_iff ensure_Inr_iff payload_def own_payload_def checkArgs_def shape_ok_def exact_def
  with_lead_def MESH_OPERATIONS_def id_ok_iff scope_input_def

lemma team_payload: "client_getTeamStatus (scope_input i []) = Inr args \<Longrightarrow> own_payload i args"
  by (auto simp: client_getTeamStatus_def own_payload_simps dest!: client_scope_input)

lemma chat_payload:
  "client_readLeadChat (scope_input i [(''maxMessages'', JNum (NInt n))]) = Inr args \<Longrightarrow> own_payload i args"
  by (auto simp: client_readLeadChat_def Let_def or_default_def nullish_def own_payload_simps dest!: client_scope_input)

lemma instruction_payload:
  "client_sendLeadInstruction (scope_input i [(''requestId'', r), (''text'', s)]) = Inr args \<Longrightarrow> own_payload i args"
  by (auto simp: client_sendLeadInstruction_def own_payload_simps dest!: client_scope_input)

lemma team_posts: "(\<And>t. posts (own_payload i) (k t)) \<Longrightarrow> posts (own_payload i) (team_of i k)"
  unfolding team_of_def by (rule posts_payload) (rule team_payload)

lemma backend_posts:
  "posts (own_payload i) (submit_instruction digest i s key)"
  "backend_authority auth = Inr (i, revision) \<Longrightarrow> posts (own_payload i) (readAuthorizedTeam auth)"
  "backend_authority auth = Inr (i, revision) \<Longrightarrow> posts (own_payload i) (readAuthorizedChat auth)"
  unfolding submit_instruction_def readAuthorizedTeam_def readAuthorizedChat_def Let_def
  by (auto split: option.splits intro!: team_posts posts_payload dest: chat_payload instruction_payload)


section \<open>Examples\<close>

definition demo_dsh_env :: variables where
  "demo_dsh_env = map_of [(''DSH_AGENT_MESH_ENABLED'', ''1''), (''DSH_AGENT_MESH_WORKSPACE_ID'', ''w''),
     (''DSH_AGENT_MESH_LEAD_SESSION_ID'', ''l''), (''DSH_AGENT_MESH_RELAY_UID'', ''7''), (''DSH_AGENT_MESH_SOCKET_GID'', ''9'')]"

definition demo_agent :: process_identity where "demo_agent = \<lparr>pi_uid = 5, pi_gid = 9, pi_groups = []\<rparr>"

definition demo_stat :: stat_fn where
  "demo_stat p = (if p = DSH_SOCKET_FOLDER
     then Some \<lparr>fs_directory = True, fs_socket = False, fs_symlink = False, fs_uid = 7, fs_gid = 9, fs_mode = 1480\<rparr>
     else Some \<lparr>fs_directory = False, fs_socket = True, fs_symlink = False, fs_uid = 7, fs_gid = 9, fs_mode = 432\<rparr>)"

definition demo_list :: jval where
  "demo_list = JObj [(''operation'', JStr ''listTeams''), (''workspaceId'', JStr ''w'')]"

lemma demo_dsh_env_facts:
  "demo_dsh_env ''DSH_AGENT_MESH_ENABLED'' = Some ''1''" "demo_dsh_env ''DSH_AGENT_MESH_WORKSPACE_ID'' = Some ''w''"
  "demo_dsh_env ''DSH_AGENT_MESH_LEAD_SESSION_ID'' = Some ''l''" "DSH_ID ''w''" "DSH_ID ''l''"
  by code_simp+

lemma demo_socket: "requireLocalSocket demo_dsh_env demo_agent demo_stat = Inr ()"
  by code_simp

lemma demo_advertises: "canAdvertiseDshSemantic demo_dsh_env demo_agent demo_stat"
  by code_simp

lemma demo_list_ok: "attr demo_list ''operation'' = JStr ''listTeams''" "attr demo_list ''workspaceId'' = JStr ''w''"
  "''listTeams'' \<in> set MESH_OPERATIONS" "shape_ok ''listTeams'' demo_list" "json_bytes demo_list \<le> MAX_ENVELOPE"
  by code_simp+

lemma demo_made: "makeDshAgentMeshEnvelope demo_list = Inr (envelope demo_list)"
  by code_simp

lemma demo_valid: "validatedPayload demo_dsh_env (envelope demo_list) = Inr \<lparr>mc_operation = JStr ''listTeams'', mc_args = demo_list, mc_leadId = ''l''\<rparr>"
  using demo_list_ok(2-) demo_dsh_env_facts(4,5) by (simp add: validated_iff [OF demo_list_ok(1) demo_dsh_env_facts(2,3)])

lemma demo_posted: "\<exists>t k. executeDshAgentOperation demo_dsh_env demo_agent demo_stat parse ms opts (envelope demo_list) = Post_Call (json_text demo_list) t k"
  by (simp add: executeDshAgentOperation_def demo_dsh_env_facts(1) demo_valid demo_socket bindR_def ensure_def)



end
