(* ===== verification/Dsh_Relay.thy ===== *)
theory Dsh_Relay
  imports Dsh_Bridge
begin

text \<open>
  The relay between the agent's socket and DeepHarness: the handler of one request
  (\<^verbatim>\<open>integrations/deepharness/agent-mesh-unix-relay.mjs\<close>), the requester over mutual TLS it posts with
  (\<^verbatim>\<open>private-bridge-client.mjs\<close>), the life of the listening socket (\<^verbatim>\<open>agent-mesh-unix-listener.mjs\<close>) and the
  start-up (\<^verbatim>\<open>agent-mesh-unix-relay-run.mjs\<close>). A run of the handler is the tree of what it posts; a run of the
  listener is the tree of its calls to the file system, with any answers.
\<close>

section \<open>The requester over mutual TLS\<close>

definition DSH_BRIDGE_PATH :: string where "DSH_BRIDGE_PATH = ''/wandora/dsh-bridge/v1''"

definition pin_fingerprint :: "string \<Rightarrow> string" where
  "pin_fingerprint s = lower (filter (\<lambda>c. c \<noteq> CHR '':'') s)"

definition validPin :: "string \<Rightarrow> bool" where
  "validPin s = re_class hex_char 64 64 (pin_fingerprint s)"

text \<open>The peer's fingerprint, or 32 zero bytes when it has none, is compared with the pin.\<close>

definition peer_pinned :: "string \<Rightarrow> string option \<Rightarrow> bool" where
  "peer_pinned pin peer = ((let p = pin_fingerprint (coalesce peer []) in
     if re_class hex_char 64 64 p then p else replicate 64 CHR ''0'') = pin_fingerprint pin)"

text \<open>A payload that is too long is not sent; a peer without the pin gives no response.\<close>

definition mtls_answer :: "(string \<Rightarrow> jval option) \<Rightarrow> string \<Rightarrow> jval \<Rightarrow> string option \<Rightarrow> relay_answer \<Rightarrow> exn + jval" where
  "mtls_answer parse pin args peer a =
    (if MAX_ENVELOPE < json_bytes args \<or> \<not> peer_pinned pin peer then Inl bridge_unavailable
     else (case socket_packet parse a of Inl e \<Rightarrow> Inl bridge_unavailable | Inr r \<Rightarrow> Inr r))"

section \<open>The operation of a request\<close>

definition checkOperation :: "jval \<Rightarrow> string \<Rightarrow> string \<Rightarrow> jval option" where
  "checkOperation v workspaceId leadSessionId =
    (if \<not> is_record v \<or> attr v ''workspaceId'' \<noteq> JStr workspaceId then None
     else (case attr v ''operation'' of
       JStr operation \<Rightarrow>
         if operation \<in> set MESH_OPERATIONS \<and> shape_ok operation v \<and>
            (operation \<noteq> ''listTeams'' \<longrightarrow> attr v ''leadSessionId'' = JStr leadSessionId)
         then Some v else None
     | _ \<Rightarrow> None))"

abbreviation relay_failed :: exn where "relay_failed \<equiv> Error []"

definition relay_scope :: "string \<Rightarrow> string \<Rightarrow> (string \<times> jval) list \<Rightarrow> jval" where
  "relay_scope w l extra = JObj ((''workspaceId'', JStr w) # (''leadSessionId'', JStr l) # extra)"

definition relay_teams :: "string \<Rightarrow> jval \<Rightarrow> exn + jval" where
  "relay_teams l r = bindR (array_reply r) (\<lambda>_.
    bindR (ensure (length (elements r) \<le> 256 \<and> list_all (\<lambda>t. is_record t \<and> id_ok (attr t ''leadSessionId'')) (elements r)) relay_failed) (\<lambda>_.
    Inr (JArr (filter (\<lambda>t. attr t ''leadSessionId'' = JStr l) (elements r)))))"

definition relay_team :: "string \<Rightarrow> jval \<Rightarrow> exn + jval" where
  "relay_team l r = bindR (record_reply r) (\<lambda>_.
    bindR (ensure (attr r ''leadSessionId'' = JStr l \<and> is_array (attr r ''members'') \<and> is_array (attr r ''tasks'')) relay_failed) (\<lambda>_.
    Inr r))"

definition relay_tasks :: "jval \<Rightarrow> exn + jval" where
  "relay_tasks r = bindR (array_reply r) (\<lambda>_. bindR (ensure (length (elements r) \<le> 512) relay_failed) (\<lambda>_. Inr r))"

definition relay_chat :: "jval \<Rightarrow> jval \<Rightarrow> exn + jval" where
  "relay_chat maxMessages r = bindR (record_reply r) (\<lambda>_.
    bindR (ensure (is_array (attr r ''messages'') \<and>
      (case maxMessages of JNum (NInt n) \<Rightarrow> int (length (elements (attr r ''messages''))) \<le> n | _ \<Rightarrow> False) \<and>
      is_boolean (attr r ''hasMore'')) relay_failed) (\<lambda>_. Inr r))"

definition relay_post :: "exn + jval \<Rightarrow> (jval \<Rightarrow> exn + jval) \<Rightarrow> backend_run" where
  "relay_post p reply = post_payload p reply (\<lambda>r. Backend_Done (Inr r))"

definition relay_call :: "jval \<Rightarrow> string \<Rightarrow> backend_run" where
  "relay_call input l =
    (let operation = text_of (attr input ''operation''); w = text_of (attr input ''workspaceId'') in
     if operation = ''listTeams'' then relay_post (client_listTeams (JObj [(''workspaceId'', JStr w)])) (relay_teams l)
     else if operation = ''getTeamStatus'' then relay_post (client_getTeamStatus (relay_scope w l [])) (relay_team l)
     else if operation = ''listTasks'' then relay_post (client_listTasks (relay_scope w l [])) relay_tasks
     else if operation = ''readLeadChat'' then
       relay_post (client_readLeadChat (relay_scope w l [(''maxMessages'', attr input ''maxMessages'')])) (relay_chat (attr input ''maxMessages''))
     else
       (let call = relay_scope w l [(''requestId'', attr input ''requestId''), (''text'', attr input ''text'')] in
        relay_post (client_sendLeadInstruction call) (instruction_reply call)))"

section \<open>The handler\<close>

text \<open>The body is as long as declared, and no longer than the limit.\<close>

definition relay_body :: "relay_request \<Rightarrow> string option" where
  "relay_body rq =
    (if rq_method rq \<noteq> ''POST'' \<or> rq_url rq \<noteq> DSH_BRIDGE_PATH \<or> rq_encoding rq \<noteq> None \<or> rq_transfer rq \<noteq> None \<or>
        \<not> json_type (coalesce (rq_type rq) []) then None
     else (case Option.bind (rq_length rq) positive_number of
       None \<Rightarrow> None
     | Some declared \<Rightarrow>
        if int MAX_ENVELOPE < declared \<or> int (length (concat (rq_chunks rq))) \<noteq> declared then None
        else Some (concat (rq_chunks rq))))"

datatype relay_http = Relay_Reply nat string

definition relay_denied :: relay_http where
  "relay_denied = Relay_Reply 403 (json_text (JObj [(''error'', JStr ''deepharness_unavailable'')]))"

definition relay_result :: "exn + jval \<Rightarrow> relay_http" where
  "relay_result r = (case r of
     Inl e \<Rightarrow> relay_denied
   | Inr v \<Rightarrow> (let json = JObj [(''result'', v)] in
       if MAX_MESH_RESPONSE < json_bytes json then relay_denied else Relay_Reply 200 (json_text json)))"

text \<open>A reply as its client receives it.\<close>

definition reply_received :: "relay_http \<Rightarrow> relay_answer" where
  "reply_received h = (case h of Relay_Reply status body \<Rightarrow>
     Response (int status) (Some (if status = 200 then ''application/json; charset=utf-8'' else ''application/json'')) None [utf8 body] True)"

datatype relay_run = Replied_Http relay_http | Relay_Post jval "exn + jval \<Rightarrow> relay_run"

primrec respond :: "backend_run \<Rightarrow> relay_run" where
  "respond (Backend_Done r) = Replied_Http (relay_result r)"
| "respond (Post args k) = Relay_Post args (\<lambda>a. respond (k a))"

definition relay :: "(string \<Rightarrow> jval option) \<Rightarrow> string \<Rightarrow> string \<Rightarrow> relay_request \<Rightarrow> relay_run" where
  "relay parse workspaceId leadSessionId rq =
    (case Option.bind (Option.bind (relay_body rq) parse) (\<lambda>v. checkOperation v workspaceId leadSessionId) of
       None \<Rightarrow> Replied_Http relay_denied
     | Some input \<Rightarrow> respond (relay_call input leadSessionId))"

section \<open>The listening socket\<close>

abbreviation listener_denied :: exn where "listener_denied \<equiv> Error ''dsh_unix_listener_unavailable''"

definition validSocketPath :: "string \<Rightarrow> bool" where
  "validSocketPath s = (starts_with s ''/'' \<and> ends_with s ''/bridge.sock'' \<and> list_all (\<lambda>c. code c \<noteq> 0) s \<and>
     list_all (\<lambda>(a, b). \<not> (a = slash \<and> b = slash)) (zip s (drop 1 s)) \<and>
     ''..'' \<notin> set (split_on slash s) \<and> length s < 256)"

text \<open>\<open>socketPath.slice(0, socketPath.lastIndexOf("/"))\<close>.\<close>

definition folder_of :: "string \<Rightarrow> string" where
  "folder_of s = rev (drop 1 (dropWhile (\<lambda>c. c \<noteq> slash) (rev s)))"

record socket_stat = file_stat +
  fs_ino :: nat

datatype fs_call = Fs_Stat string | Fs_Listen string | Fs_Chmod string nat | Fs_Close | Fs_Unlink string

datatype fs_answer = Info socket_stat | Missing | Fs_Done | Fs_Failed

datatype listener_run = Started nat | Denied | Ended | Fs fs_call "fs_answer \<Rightarrow> listener_run"

text \<open>Remove the socket only while it is the one that was created.\<close>

definition remove_own :: "string \<Rightarrow> nat \<Rightarrow> (fs_answer \<Rightarrow> listener_run) \<Rightarrow> listener_run \<Rightarrow> listener_run" where
  "remove_own path ino removed other = Fs (Fs_Stat path) (\<lambda>a. case a of
     Info s \<Rightarrow> if fs_socket s \<and> fs_ino s = ino then Fs (Fs_Unlink path) removed else other
   | Missing \<Rightarrow> other
   | _ \<Rightarrow> removed Fs_Failed)"

text \<open>A start that fails after the socket was created closes the server and then removes the socket.\<close>

definition abandon :: "string \<Rightarrow> nat option \<Rightarrow> listener_run" where
  "abandon path own = Fs Fs_Close (\<lambda>_. case own of None \<Rightarrow> Denied | Some ino \<Rightarrow> remove_own path ino (\<lambda>_. Denied) Denied)"

definition own_socket :: "int \<Rightarrow> int \<Rightarrow> socket_stat \<Rightarrow> bool" where
  "own_socket uid gid s = (fs_socket s \<and> \<not> fs_symlink s \<and> fs_uid s = uid \<and> fs_gid s = gid)"

definition verify_socket :: "string \<Rightarrow> int \<Rightarrow> int \<Rightarrow> nat \<Rightarrow> listener_run" where
  "verify_socket path uid gid ino = Fs (Fs_Chmod path 432) (\<lambda>a. if a \<noteq> Fs_Done then abandon path (Some ino) else
     Fs (Fs_Stat path) (\<lambda>a. case a of
       Info s \<Rightarrow>
         if fs_socket s \<and> fs_uid s = uid \<and> fs_gid s = gid \<and> fs_ino s = ino \<and> fs_mode s mod 512 = 432 then Started ino
         else abandon path (Some ino)
     | _ \<Rightarrow> abandon path (Some ino)))"

definition startDshUnixRelayListener :: "bool \<Rightarrow> string \<Rightarrow> int \<Rightarrow> int \<Rightarrow> listener_run" where
  "startDshUnixRelayListener enable path uid gid =
    (if \<not> enable \<or> \<not> validSocketPath path \<or> \<not> safe_integer uid \<or> uid \<le> 0 \<or> \<not> safe_integer gid \<or> gid \<le> 0 then Denied
     else Fs (Fs_Stat (folder_of path)) (\<lambda>a. case a of
       Info folder \<Rightarrow>
         if \<not> owned_folder uid gid folder then Denied
         else Fs (Fs_Stat path) (\<lambda>a. if a \<noteq> Missing then Denied else
           Fs (Fs_Listen path) (\<lambda>a. if a \<noteq> Fs_Done then Denied else
             Fs (Fs_Stat path) (\<lambda>a. case a of
               Info s \<Rightarrow> if own_socket uid gid s then verify_socket path uid gid (fs_ino s) else abandon path None
             | _ \<Rightarrow> abandon path None)))
     | _ \<Rightarrow> Denied))"

text \<open>\<open>close()\<close>; a second call is the first one again.\<close>

definition close_listener :: "string \<Rightarrow> nat \<Rightarrow> listener_run" where
  "close_listener path ino = Fs Fs_Close (\<lambda>_. remove_own path ino
     (\<lambda>a. case a of Fs_Failed \<Rightarrow> Denied | _ \<Rightarrow> Ended) Ended)"

section \<open>Start-up\<close>

abbreviation startup_denied :: exn where "startup_denied \<equiv> Error ''dsh_unix_relay_startup_denied''"

definition relay_secrets :: "string list" where
  "relay_secrets = [''/run/secrets/dsh-bridge-ca.pem'', ''/run/secrets/dsh-bridge-client-cert.pem'', ''/run/secrets/dsh-bridge-client-key.pem'']"

definition secret_ok :: "string option \<Rightarrow> bool" where
  "secret_ok f = (case f of Some s \<Rightarrow> s \<noteq> [] \<and> length s \<le> 32768 | None \<Rightarrow> False)"

text \<open>\<open>/^(?:[0-9a-f]{2}:){31}[0-9a-f]{2}$/i\<close>.\<close>

definition colon_pin :: "string \<Rightarrow> bool" where
  "colon_pin s = (let ps = split_on CHR '':'' s in
     length ps = 32 \<and> list_all (re_class (\<lambda>c. is_digit c \<or> between 97 102 c \<or> between 65 70 c) 2 2) ps)"

record relay_config =
  rc_gid :: int
  rc_workspaceId :: string
  rc_leadSessionId :: string
  rc_pin :: string

definition startDshUnixRelayRuntime :: "variables \<Rightarrow> (string \<Rightarrow> string option) \<Rightarrow> exn + relay_config" where
  "startDshUnixRelayRuntime env readFile =
    (let w = coalesce (env ''DSH_UNIX_RELAY_WORKSPACE_ID'') []; l = coalesce (env ''DSH_UNIX_RELAY_LEAD_SESSION_ID'') [];
         pin = coalesce (env ''DSH_BRIDGE_SERVER_FP_SHA256'') [] in
     case id_number env ''DSH_UNIX_RELAY_SOCKET_GID'' of
       None \<Rightarrow> Inl startup_denied
     | Some gid \<Rightarrow>
        bindR (ensure (env ''DSH_UNIX_RELAY_ENABLED'' = Some ''1'' \<and> DSH_ID w \<and> DSH_ID l \<and> colon_pin pin) startup_denied) (\<lambda>_.
        bindR (ensure (list_all (\<lambda>f. secret_ok (readFile f)) relay_secrets) startup_denied) (\<lambda>_.
        bindR (ensure (validPin pin) startup_denied) (\<lambda>_.
        Inr \<lparr>rc_gid = gid, rc_workspaceId = w, rc_leadSessionId = l, rc_pin = pin\<rparr>))))"

definition relay_listener :: "relay_config \<Rightarrow> int \<Rightarrow> listener_run" where
  "relay_listener c uid = startDshUnixRelayListener True DSH_SOCKET uid (rc_gid c)"

end
