(* ===== verification/Relay_Properties.thy ===== *)
theory Relay_Properties
  imports Dsh_Properties Dsh_Relay
begin

text \<open>
  The relay's half of a DeepHarness call: whatever the receiver posts the relay passes on, whatever the relay answers the
  receiver returns, and the socket the relay's listener keeps is the one the receiver demands.
\<close>

section \<open>Lengths\<close>

lemma digits_val_append: "digits_val (s @ [c]) = 10 * digits_val s + (code c - 48)"
  by (simp add: digits_val_def)

lemma digits_val_nat_text: "digits_val (nat_text n) = n"
proof (induction n rule: nat_text.induct)
  case (1 n)
  show ?case
  proof (cases "n < 10")
    case True
    then show ?thesis by (simp add: digits_val_def nat_text.simps [of n] code_def)
  next
    case False
    then have "nat_text n = nat_text (n div 10) @ [digit_char (n mod 10)]" by (simp add: nat_text.simps [of n])
    moreover have "code (digit_char (n mod 10)) - 48 = n mod 10" by (simp add: code_def)
    ultimately show ?thesis using False 1 by (simp add: digits_val_append)
  qed
qed

lemma nat_text_head: "0 < n \<Longrightarrow> \<exists>c cs. nat_text n = c # cs \<and> between 49 57 c \<and> list_all is_digit cs"
proof (induction n rule: nat_text.induct)
  case (1 n)
  show ?case
  proof (cases "n < 10")
    case True
    with 1(2) show ?thesis by (simp add: nat_text.simps [of n] between_def code_def)
  next
    case False
    then have "nat_text n = nat_text (n div 10) @ [digit_char (n mod 10)]" by (simp add: nat_text.simps [of n])
    moreover have "is_digit (digit_char (n mod 10))" by (simp add: is_digit_def between_def code_def)
    moreover have "0 < n div 10" using False by simp
    ultimately show ?thesis using 1(1) [OF False] by auto
  qed
qed

lemma positive_nat_text: "0 < n \<Longrightarrow> n \<le> MAX_ENVELOPE \<Longrightarrow> positive_number (nat_text n) = Some (int n)"
  using nat_text_head [of n]
  by (auto simp: positive_number_def re_head_class_def re_class_def digits_val_nat_text safe_integer_def MAX_ENVELOPE_def)

lemma length_utf8: "length (utf8 s) = utf8_length s"
  by (induction s) (auto simp: utf8_def utf8_char_def utf8_length_def)

section \<open>The body\<close>

lemma record_text: "is_record args \<Longrightarrow> 0 < json_bytes args"
  by (auto simp: is_record_def json_bytes_def split: jval.splits)

lemma type_ok: "json_type ''application/json''" "json_type ''application/json; charset=utf-8''"
  by code_simp+

lemma relay_body_posted:
  assumes "is_record args" "json_bytes args \<le> MAX_ENVELOPE"
  shows "relay_body (postSocket_request (json_text args)) = Some (utf8 (json_text args))"
  using assms record_text [OF assms(1)] positive_nat_text [of "json_bytes args"]
  by (simp add: relay_body_def postSocket_request_def DSH_ENDPOINT_def DSH_BRIDGE_PATH_def coalesce_def type_ok length_utf8
      json_bytes_def)

lemma posted_call:
  assumes "executeDshAgentOperation env me stat parse ms opts request = Post_Call body t k"
  shows "\<exists>call. validatedPayload env request = Inr call \<and> body = json_text (mc_args call) \<and>
    k = (\<lambda>a. case relay_reply parse call a of Inl e \<Rightarrow> mesh_failed ms | Inr out \<Rightarrow> result ms (Some 0) out [] False False)"
  using assms by (auto simp: executeDshAgentOperation_def bindR_Inr_iff ensure_Inr_iff split: sum.splits)

section \<open>What the relay posts\<close>

lemma exact_attr:
  assumes "exact names (JObj fs)" "exact names (JObj gs)" "\<forall>n \<in> set names. attr (JObj fs) n = attr (JObj gs) n"
  shows "attr (JObj fs) = attr (JObj gs)"
proof
  fix n
  show "attr (JObj fs) n = attr (JObj gs) n"
  proof (cases "n \<in> set names")
    case False
    then have "n \<notin> fst ` set fs" "n \<notin> fst ` set gs" using assms(1,2) by (auto simp: exact_def)
    then show ?thesis by (auto simp: attr_def field_def map_of_eq_None_iff [THEN iffD2] split: option.split)
  qed (use assms(3) in simp)
qed

text \<open>A payload of the relay is the arguments it was given, and what it makes of an answer the receiver takes as it is.\<close>

definition carries :: "jval \<Rightarrow> string \<Rightarrow> jval \<Rightarrow> (jval \<Rightarrow> exn + jval) \<Rightarrow> bool" where
  "carries args l p reply = (attr p = attr args \<and> (\<forall>x r. reply x = Inr r \<longrightarrow> sanitize (attr args ''operation'') l r = Inr r \<and>
     (attr args ''operation'' = JStr ''sendLeadInstruction'' \<longrightarrow> instruction_ack args r)))"

lemma shape_attr:
  assumes "exact names args" "exact names (JObj gs)" "\<forall>n \<in> set names. attr args n = attr (JObj gs) n"
  shows "attr (JObj gs) = attr args"
proof -
  obtain fs where "args = JObj fs" using assms(1) by (cases args) (auto simp: exact_def)
  with exact_attr [of names fs gs] assms show ?thesis by simp
qed

lemmas relay_defs = bindR_Inr_iff ensure_Inr_iff client_scope_def client_exact_def id_ok_iff payload_def relay_scope_def

lemma array_reply_Inr: "array_reply x = Inr r \<longleftrightarrow> (\<exists>vs. x = JArr vs \<and> r = x)"
  by (auto simp: array_reply_def bindR_Inr_iff ensure_Inr_iff is_array_def split: jval.splits)

lemma record_reply_Inr: "record_reply x = Inr r \<longleftrightarrow> is_record x \<and> r = x"
  by (auto simp: record_reply_def bindR_Inr_iff ensure_Inr_iff)

lemma teams_carried:
  assumes "attr args ''operation'' = JStr ''listTeams''" "exact [''operation'', ''workspaceId''] args"
    "attr args ''workspaceId'' = JStr w" "DSH_ID w"
  shows "\<exists>p. client_listTeams (JObj [(''workspaceId'', JStr w)]) = Inr p \<and> carries args l p (relay_teams l)"
proof -
  have "client_listTeams (JObj [(''workspaceId'', JStr w)]) = Inr (payload ''listTeams'' [(''workspaceId'', JStr w)])"
    using assms(4) by (simp add: client_listTeams_def relay_defs)
  moreover have "attr (payload ''listTeams'' [(''workspaceId'', JStr w)]) = attr args"
    unfolding payload_def by (rule shape_attr [OF assms(2)]) (use assms(1,3) in \<open>simp_all add: exact_def\<close>)
  moreover have "sanitize (JStr ''listTeams'') l r = Inr r" if "relay_teams l x = Inr r" for x r
  proof -
    from that obtain vs where "x = JArr vs" "length vs \<le> 256" "\<forall>t \<in> set vs. is_record t \<and> id_ok (attr t ''leadSessionId'')"
        "r = JArr (filter (\<lambda>t. attr t ''leadSessionId'' = JStr l) vs)"
      by (auto simp: relay_teams_def array_reply_Inr bindR_Inr_iff ensure_Inr_iff elements_def list_all_iff)
    moreover have "length (filter (\<lambda>t. attr t ''leadSessionId'' = JStr l) vs) \<le> 256"
      using calculation(2) length_filter_le le_trans by blast
    ultimately show ?thesis
      by (simp add: sanitize_def bindR_Inr_iff ensure_Inr_iff is_array_def elements_def team_entry_def list_all_iff)
  qed
  ultimately show ?thesis using assms(1) by (auto simp: carries_def)
qed

lemma scoped_scope:
  assumes "exact (with_lead @ extra) args" "attr args ''operation'' = JStr operation"
    "attr args ''workspaceId'' = JStr w" "attr args ''leadSessionId'' = JStr l" "map fst es = extra"
    "\<forall>n \<in> set extra. attr args n = attr (JObj es) n" "distinct (with_lead @ extra)"
  shows "attr (JObj ([(''operation'', JStr operation), (''workspaceId'', JStr w), (''leadSessionId'', JStr l)] @ es)) = attr args"
proof (rule shape_attr [OF assms(1)])
  show "exact (with_lead @ extra) (JObj ([(''operation'', JStr operation), (''workspaceId'', JStr w), (''leadSessionId'', JStr l)] @ es))"
    using assms(5) by (auto simp: exact_def with_lead_def)
  show "\<forall>n \<in> set (with_lead @ extra).
      attr args n = attr (JObj ([(''operation'', JStr operation), (''workspaceId'', JStr w), (''leadSessionId'', JStr l)] @ es)) n"
    using assms(2-4,6,7) by (auto simp: with_lead_def)
qed

lemma status_carried:
  assumes "attr args ''operation'' = JStr ''getTeamStatus''" "exact with_lead args"
    "attr args ''workspaceId'' = JStr w" "attr args ''leadSessionId'' = JStr l" "DSH_ID w" "DSH_ID l"
  shows "\<exists>p. client_getTeamStatus (relay_scope w l []) = Inr p \<and> carries args l p (relay_team l)"
  using scoped_scope [of "[]" args "''getTeamStatus''" w l "[]"] assms
  by (auto simp: client_getTeamStatus_def relay_defs carries_def relay_team_def record_reply_Inr sanitize_def with_lead_def)

lemma tasks_carried:
  assumes "attr args ''operation'' = JStr ''listTasks''" "exact with_lead args"
    "attr args ''workspaceId'' = JStr w" "attr args ''leadSessionId'' = JStr l" "DSH_ID w" "DSH_ID l"
  shows "\<exists>p. client_listTasks (relay_scope w l []) = Inr p \<and> carries args l p relay_tasks"
  using scoped_scope [of "[]" args "''listTasks''" w l "[]"] assms
  by (auto simp: client_listTasks_def relay_defs carries_def relay_tasks_def array_reply_Inr sanitize_def with_lead_def is_array_def)

lemma chat_carried:
  assumes "attr args ''operation'' = JStr ''readLeadChat''" "exact (with_lead @ [''maxMessages'']) args" "page_size (attr args ''maxMessages'')"
    "attr args ''workspaceId'' = JStr w" "attr args ''leadSessionId'' = JStr l" "DSH_ID w" "DSH_ID l"
  shows "\<exists>p. client_readLeadChat (relay_scope w l [(''maxMessages'', attr args ''maxMessages'')]) = Inr p \<and>
    carries args l p (relay_chat (attr args ''maxMessages''))"
proof -
  from assms(3) obtain n where "attr args ''maxMessages'' = JNum (NInt n)" "1 \<le> n" "n \<le> 20"
    by (auto simp: page_size_def split: jval.splits jnum.splits)
  then show ?thesis
    using scoped_scope [of "[''maxMessages'']" args "''readLeadChat''" w l "[(''maxMessages'', attr args ''maxMessages'')]"] assms
    by (auto simp: client_readLeadChat_def Let_def relay_defs carries_def relay_chat_def record_reply_Inr sanitize_def with_lead_def
      or_default_def nullish_def page_size_def)
qed

lemma instruction_carried:
  assumes "attr args ''operation'' = JStr ''sendLeadInstruction''" "exact (with_lead @ [''requestId'', ''text'']) args"
    "guid_ok (attr args ''requestId'')" "message_ok (attr args ''text'')"
    "attr args ''workspaceId'' = JStr w" "attr args ''leadSessionId'' = JStr l" "DSH_ID w" "DSH_ID l"
  shows "\<exists>p. client_sendLeadInstruction (relay_scope w l [(''requestId'', attr args ''requestId''), (''text'', attr args ''text'')]) = Inr p \<and>
    carries args l p (instruction_reply (relay_scope w l [(''requestId'', attr args ''requestId''), (''text'', attr args ''text'')]))"
proof -
  let ?es = "[(''requestId'', attr args ''requestId''), (''text'', attr args ''text'')]"
  have "client_sendLeadInstruction (relay_scope w l ?es) =
      Inr (JObj ([(''operation'', JStr ''sendLeadInstruction''), (''workspaceId'', JStr w), (''leadSessionId'', JStr l)] @ ?es))"
    using assms(3,4,7,8) by (simp add: client_sendLeadInstruction_def relay_defs)
  moreover have "attr (JObj ([(''operation'', JStr ''sendLeadInstruction''), (''workspaceId'', JStr w), (''leadSessionId'', JStr l)] @ ?es)) =
      attr args"
    by (rule scoped_scope [OF assms(2,1,5,6)]) (simp_all add: with_lead_def)
  moreover have "instruction_ack args r" if "instruction_reply (relay_scope w l ?es) x = Inr r" for x r
    using that by (auto simp: instruction_reply_def bindR_Inr_iff ensure_Inr_iff relay_scope_def instruction_ack_def field_Cons)
  moreover have "sanitize (JStr ''sendLeadInstruction'') l r = Inr r" for r by (simp add: sanitize_def)
  ultimately show ?thesis using assms(1) by (auto simp: carries_def)
qed

lemma carriedI:
  "c = relay_post m reply \<Longrightarrow> \<exists>p. m = Inr p \<and> carries args l p reply \<Longrightarrow> \<exists>p reply. c = relay_post (Inr p) reply \<and> carries args l p reply"
  by blast

lemma relay_call_carries:
  assumes op: "attr args ''operation'' = JStr operation" "operation \<in> set MESH_OPERATIONS" and shape: "shape_ok operation args"
    and w: "attr args ''workspaceId'' = JStr w" and l: "operation \<noteq> ''listTeams'' \<longrightarrow> attr args ''leadSessionId'' = JStr l"
    and ids: "DSH_ID w" "DSH_ID l"
  shows "\<exists>p reply. relay_call args l = relay_post (Inr p) reply \<and> carries args l p reply"
proof -
  have t: "text_of (attr args ''operation'') = operation" "text_of (attr args ''workspaceId'') = w" by (simp_all add: text_of_def op(1) w)
  have "operation = ''listTeams'' \<or> operation = ''getTeamStatus'' \<or> operation = ''listTasks'' \<or> operation = ''readLeadChat'' \<or>
      operation = ''sendLeadInstruction''"
    using op(2) by (simp add: MESH_OPERATIONS_def)
  then show ?thesis
  proof (elim disjE)
    assume c1: "operation = ''listTeams''"
    have e: "exact [''operation'', ''workspaceId''] args" using shape by (simp add: shape_ok_def c1)
    show ?thesis by (rule carriedI [OF _ teams_carried [OF op(1) [unfolded c1] e w ids(1), of l]]) (simp add: relay_call_def Let_def t c1)
  next
    assume c2: "operation = ''getTeamStatus''"
    have e: "exact with_lead args" using shape by (simp add: shape_ok_def c2)
    show ?thesis by (rule carriedI [OF _ status_carried [OF op(1) [unfolded c2] e w _ ids]]) (use l c2 in \<open>simp_all add: relay_call_def Let_def t\<close>)
  next
    assume c3: "operation = ''listTasks''"
    have e: "exact with_lead args" using shape by (simp add: shape_ok_def c3)
    show ?thesis by (rule carriedI [OF _ tasks_carried [OF op(1) [unfolded c3] e w _ ids]]) (use l c3 in \<open>simp_all add: relay_call_def Let_def t\<close>)
  next
    assume c4: "operation = ''readLeadChat''"
    have s: "exact (with_lead @ [''maxMessages'']) args" "page_size (attr args ''maxMessages'')" using shape by (simp_all add: shape_ok_def c4)
    show ?thesis by (rule carriedI [OF _ chat_carried [OF op(1) [unfolded c4] s w _ ids]]) (use l c4 in \<open>simp_all add: relay_call_def Let_def t\<close>)
  next
    assume c5: "operation = ''sendLeadInstruction''"
    have s: "exact (with_lead @ [''requestId'', ''text'']) args" "guid_ok (attr args ''requestId'')" "message_ok (attr args ''text'')"
      using shape by (simp_all add: shape_ok_def c5)
    show ?thesis by (rule carriedI [OF _ instruction_carried [OF op(1) [unfolded c5] s w _ ids]]) (use l c5 in \<open>simp_all add: relay_call_def Let_def t\<close>)
  qed
qed

section \<open>What the receiver returns\<close>

lemma respond_post: "respond (relay_post (Inr p) reply) = Relay_Post p (\<lambda>a. Replied_Http (relay_result (bindR a reply)))"
  by (auto simp: relay_post_def post_payload_def fun_eq_iff split: sum.splits)

lemma relay_result_cases:
  "relay_result r = relay_denied \<or> (\<exists>v. r = Inr v \<and> relay_result r = Relay_Reply 200 (json_text (JObj [(''result'', v)])) \<and>
    json_bytes (JObj [(''result'', v)]) \<le> MAX_MESH_RESPONSE)"
  by (cases r) (auto simp: relay_result_def Let_def)

lemma denied_received: "relay_reply parse call (reply_received relay_denied) = Inl mesh_unavailable"
  by (simp add: relay_reply_def reply_received_def relay_denied_def socket_packet_def)

lemma result_received:
  assumes "json_bytes (JObj [(''result'', v)]) \<le> MAX_MESH_RESPONSE" "parse (utf8 (json_text (JObj [(''result'', v)]))) = Some (JObj [(''result'', v)])"
    and "mc_operation call = JStr ''sendLeadInstruction'' \<longrightarrow> instruction_ack (mc_args call) v"
    and "sanitize (mc_operation call) (mc_leadId call) v = Inr v" "v \<noteq> JUndef"
  shows "relay_reply parse call (reply_received (Relay_Reply 200 (json_text (JObj [(''result'', v)])))) = Inr (json_text v)"
proof -
  have "socket_packet parse (reply_received (Relay_Reply 200 (json_text (JObj [(''result'', v)])))) = Inr v"
    using assms(1,2) by (simp add: socket_packet_def reply_received_def type_ok coalesce_def length_utf8 json_bytes_def exact_def
      bindR_Inr_iff ensure_Inr_iff)
  moreover have "json_bytes v \<le> MAX_MESH_RESPONSE"
    using assms(1,5) by (simp add: json_bytes_def json_field_def)
  ultimately show ?thesis using assms(3,4) by (simp add: relay_reply_def bindR_Inr_iff ensure_Inr_iff)
qed

lemma sanitized_value:
  "sanitize operation l v = Inr v \<Longrightarrow> operation = JStr ''sendLeadInstruction'' \<longrightarrow> instruction_ack args v \<Longrightarrow> v \<noteq> JUndef"
  by (auto simp: sanitize_def instruction_ack_def bindR_Inr_iff ensure_Inr_iff is_record_def is_array_def split: if_splits)

lemma posted_args:
  assumes "makeDshAgentMeshEnvelope args = Inr request" "validatedPayload env request = Inr call"
    and env: "env ''DSH_AGENT_MESH_WORKSPACE_ID'' = Some w" "env ''DSH_AGENT_MESH_LEAD_SESSION_ID'' = Some l"
  shows "\<exists>operation. attr args ''operation'' = JStr operation \<and> operation \<in> set MESH_OPERATIONS \<and> shape_ok operation args \<and>
    attr args ''workspaceId'' = JStr w \<and> (operation \<noteq> ''listTeams'' \<longrightarrow> attr args ''leadSessionId'' = JStr l) \<and> DSH_ID w \<and> DSH_ID l \<and>
    json_bytes args \<le> MAX_ENVELOPE \<and> call = \<lparr>mc_operation = JStr operation, mc_args = args, mc_leadId = l\<rparr>"
proof -
  from assms(1) have r: "request = envelope args" "checkArgs args" by (simp_all add: made_iff)
  from r(2) obtain operation where o: "attr args ''operation'' = JStr operation" by (auto simp: checkArgs_def split: jval.splits)
  from assms(2) r(1) have "validatedPayload env (envelope args) = Inr call" by simp
  with o show ?thesis unfolding validated_iff [OF o env] by blast
qed

text \<open>C24: A call that the receiver posts for an envelope of the server is not lost at the relay of the same workspace and
  lead: the relay posts on a payload with exactly the same fields, and whatever comes of it, the receiver either reports
  the one failure or returns exactly the value the relay released.\<close>

theorem relay_serves_receiver:
  assumes "makeDshAgentMeshEnvelope args = Inr request"
    and "executeDshAgentOperation env me stat parse ms opts request = Post_Call body t k"
    and "env ''DSH_AGENT_MESH_WORKSPACE_ID'' = Some w" "env ''DSH_AGENT_MESH_LEAD_SESSION_ID'' = Some l"
    and "parse (utf8 body) = Some args"
  shows "\<exists>p f. relay parse w l (postSocket_request body) = Relay_Post p f \<and> attr p = attr args \<and>
    (\<forall>a. \<exists>h. f a = Replied_Http h \<and>
      (h = relay_denied \<and> k (reply_received h) = mesh_failed ms \<or>
       (\<exists>v. h = Relay_Reply 200 (json_text (JObj [(''result'', v)])) \<and>
         (parse (utf8 (json_text (JObj [(''result'', v)]))) = Some (JObj [(''result'', v)]) \<longrightarrow>
           k (reply_received h) = result ms (Some 0) (json_text v) [] False False))))"
proof -
  from posted_call [OF assms(2)] obtain call where call: "validatedPayload env request = Inr call" "body = json_text (mc_args call)"
      "k = (\<lambda>a. case relay_reply parse call a of Inl e \<Rightarrow> mesh_failed ms | Inr out \<Rightarrow> result ms (Some 0) out [] False False)" by blast
  from posted_args [OF assms(1) call(1) assms(3,4)] obtain operation where o: "attr args ''operation'' = JStr operation"
      "operation \<in> set MESH_OPERATIONS" "shape_ok operation args" "attr args ''workspaceId'' = JStr w"
      "operation \<noteq> ''listTeams'' \<longrightarrow> attr args ''leadSessionId'' = JStr l" "DSH_ID w" "DSH_ID l" "json_bytes args \<le> MAX_ENVELOPE"
      "call = \<lparr>mc_operation = JStr operation, mc_args = args, mc_leadId = l\<rparr>" by blast
  have b: "body = json_text args" by (simp add: call(2) o(9))
  have rec: "is_record args" using shape_record [OF o(3)] by (auto simp: is_record_def)
  from relay_call_carries [OF o(1-7)] obtain p reply where p: "relay_call args l = relay_post (Inr p) reply" "carries args l p reply" by blast
  have "checkOperation args w l = Some args" using o rec by (simp add: checkOperation_def)
  moreover have "relay_body (postSocket_request body) = Some (utf8 body)" unfolding b by (rule relay_body_posted [OF rec o(8)])
  ultimately have run: "relay parse w l (postSocket_request body) = Relay_Post p (\<lambda>a. Replied_Http (relay_result (bindR a reply)))"
    using assms(5) by (simp add: relay_def p(1) respond_post)
  have out: "h = relay_denied \<and> k (reply_received h) = mesh_failed ms \<or>
      (\<exists>v. h = Relay_Reply 200 (json_text (JObj [(''result'', v)])) \<and>
        (parse (utf8 (json_text (JObj [(''result'', v)]))) = Some (JObj [(''result'', v)]) \<longrightarrow>
          k (reply_received h) = result ms (Some 0) (json_text v) [] False False))"
    if "h = relay_result (bindR a reply)" for h a
    using relay_result_cases [of "bindR a reply"]
  proof (elim disjE exE conjE)
    assume "relay_result (bindR a reply) = relay_denied"
    with that show ?thesis by (simp add: call(3) denied_received)
  next
    fix v
    assume v: "bindR a reply = Inr v" "relay_result (bindR a reply) = Relay_Reply 200 (json_text (JObj [(''result'', v)]))"
      "json_bytes (JObj [(''result'', v)]) \<le> MAX_MESH_RESPONSE"
    from v(1) p(2) have "sanitize (JStr operation) l v = Inr v" "operation = ''sendLeadInstruction'' \<longrightarrow> instruction_ack args v"
      by (auto simp: carries_def bindR_Inr_iff o(1))
    moreover from this have "v \<noteq> JUndef" using sanitized_value [of "JStr operation" l v args] by simp
    ultimately have s: "mc_operation call = JStr ''sendLeadInstruction'' \<longrightarrow> instruction_ack (mc_args call) v"
        "sanitize (mc_operation call) (mc_leadId call) v = Inr v" "v \<noteq> JUndef" by (simp_all add: o(9))
    show ?thesis unfolding that v(2)
    proof (rule disjI2, intro exI conjI refl impI)
      assume "parse (utf8 (json_text (JObj [(''result'', v)]))) = Some (JObj [(''result'', v)])"
      from result_received [of v parse call, OF v(3) this s]
      show "k (reply_received (Relay_Reply 200 (json_text (JObj [(''result'', v)])))) = result ms (Some 0) (json_text v) [] False False"
        unfolding call(3) by (simp only: sum.case)
    qed (rule refl)
  qed
  show ?thesis
  proof (intro exI conjI allI)
    show "relay parse w l (postSocket_request body) = Relay_Post p (\<lambda>a. Replied_Http (relay_result (bindR a reply)))" by (rule run)
    show "attr p = attr args" using p(2) by (simp add: carries_def)
    show "Replied_Http (relay_result (bindR a reply)) = Replied_Http (relay_result (bindR a reply))" for a by (rule refl)
  qed (rule out [OF refl])
qed

section \<open>The socket\<close>

type_synonym fs_trace = "(fs_call \<times> fs_answer) list"

text \<open>A run with the answers it is given: its calls with their answers, and where it is then.\<close>

fun fs_answered :: "listener_run \<Rightarrow> fs_answer list \<Rightarrow> fs_trace \<times> listener_run" where
  "fs_answered (Fs c k) (a # as) = (let (t, r) = fs_answered (k a) as in ((c, a) # t, r))"
| "fs_answered (Fs c k) [] = ([], Fs c k)"
| "fs_answered r as = ([], r)"

lemma answered_Fs:
  "fs_answered (Fs c k) as = (t, r) \<longleftrightarrow>
    as = [] \<and> t = [] \<and> r = Fs c k \<or> (\<exists>a as' t'. as = a # as' \<and> t = (c, a) # t' \<and> fs_answered (k a) as' = (t', r))"
  by (cases as) (auto split: prod.splits)

lemma answered_step:
  assumes "fs_answered (Fs c k) as = (t, r)"
  obtains (waits) "t = []" "r = Fs c k" | (goes) a as' t' where "t = (c, a) # t'" "fs_answered (k a) as' = (t', r)"
  using assms unfolding answered_Fs by blast

lemma answered_started:
  assumes "fs_answered (Fs c k) as = (t, Started ino)"
  obtains a as' t' where "t = (c, a) # t'" "fs_answered (k a) as' = (t', Started ino)"
  using assms unfolding answered_Fs by blast

lemma answered_end [simp]:
  "fs_answered Denied as = (t, r) \<longleftrightarrow> t = [] \<and> r = Denied"
  "fs_answered Ended as = (t, r) \<longleftrightarrow> t = [] \<and> r = Ended"
  "fs_answered (Started i) as = (t, r) \<longleftrightarrow> t = [] \<and> r = Started i"
  by auto

lemma abandon_denied: "fs_answered (abandon path own) as \<noteq> (t, Started ino)"
proof
  assume "fs_answered (abandon path own) as = (t, Started ino)"
  then show False
    unfolding abandon_def by (auto simp: remove_own_def elim!: answered_started split: option.splits fs_answer.splits if_splits)
qed

lemma started_facts:
  assumes "fs_answered (startDshUnixRelayListener b path uid gid) as = (t, Started ino)"
  shows "\<exists>folder first sock. t = [(Fs_Stat (folder_of path), Info folder), (Fs_Stat path, Missing), (Fs_Listen path, Fs_Done),
      (Fs_Stat path, Info first), (Fs_Chmod path 432, Fs_Done), (Fs_Stat path, Info sock)] \<and>
    owned_folder uid gid folder \<and> fs_ino first = ino \<and> fs_ino sock = ino \<and> fs_socket sock \<and> fs_uid sock = uid \<and> fs_gid sock = gid \<and>
    fs_mode sock mod 512 = 432"
  using assms
  by (auto simp: startDshUnixRelayListener_def verify_socket_def abandon_denied elim!: answered_started split: if_splits fs_answer.splits)

text \<open>C27: A listener of the relay that has started keeps exactly the socket its counterpart demands: it found nothing at the
  path, created the socket itself, and an agent that is neither root nor the relay's user, and that belongs to the
  configured group, accepts the folder and the socket as the listener last saw them.\<close>

theorem listener_serves_receiver:
  assumes "fs_answered (relay_listener c uid) as = (t, Started ino)"
  shows "\<exists>folder first sock. t = [(Fs_Stat DSH_SOCKET_FOLDER, Info folder), (Fs_Stat DSH_SOCKET, Missing), (Fs_Listen DSH_SOCKET, Fs_Done),
      (Fs_Stat DSH_SOCKET, Info first), (Fs_Chmod DSH_SOCKET 432, Fs_Done), (Fs_Stat DSH_SOCKET, Info sock)] \<and>
    fs_ino sock = ino \<and> fs_ino first = ino \<and>
    (\<forall>env me stat. id_number env ''DSH_AGENT_MESH_RELAY_UID'' = Some uid \<and> id_number env ''DSH_AGENT_MESH_SOCKET_GID'' = Some (rc_gid c) \<and>
      safe_integer (pi_uid me) \<and> pi_uid me \<noteq> 0 \<and> pi_uid me \<noteq> uid \<and> rc_gid c \<in> set (pi_gid me # pi_groups me) \<and>
      stat DSH_SOCKET_FOLDER = Some (file_stat.truncate folder) \<and> stat DSH_SOCKET = Some (file_stat.truncate sock) \<and> \<not> fs_symlink sock \<longrightarrow>
      requireLocalSocket env me stat = Inr ())"
proof -
  have f: "folder_of DSH_SOCKET = DSH_SOCKET_FOLDER" by code_simp
  from started_facts [OF assms [unfolded relay_listener_def]] obtain folder first sock where s:
      "t = [(Fs_Stat DSH_SOCKET_FOLDER, Info folder), (Fs_Stat DSH_SOCKET, Missing), (Fs_Listen DSH_SOCKET, Fs_Done),
        (Fs_Stat DSH_SOCKET, Info first), (Fs_Chmod DSH_SOCKET 432, Fs_Done), (Fs_Stat DSH_SOCKET, Info sock)]"
      "owned_folder uid (rc_gid c) folder" "fs_ino first = ino" "fs_ino sock = ino" "fs_socket sock" "fs_uid sock = uid"
      "fs_gid sock = rc_gid c" "fs_mode sock mod 512 = 432" unfolding f by blast
  have "requireLocalSocket env me stat = Inr ()"
    if "id_number env ''DSH_AGENT_MESH_RELAY_UID'' = Some uid" "id_number env ''DSH_AGENT_MESH_SOCKET_GID'' = Some (rc_gid c)"
      "safe_integer (pi_uid me)" "pi_uid me \<noteq> 0" "pi_uid me \<noteq> uid" "rc_gid c \<in> set (pi_gid me # pi_groups me)"
      "stat DSH_SOCKET_FOLDER = Some (file_stat.truncate folder)" "stat DSH_SOCKET = Some (file_stat.truncate sock)" "\<not> fs_symlink sock"
    for env me stat
    using that s(2,5-8) by (simp add: requireLocalSocket_def owned_folder_def owned_socket_def file_stat.truncate_def bindR_Inr_iff ensure_Inr_iff)
  with s show ?thesis by blast
qed

text \<open>The path was listened on and then had the inode that was seen again just before.\<close>

definition own_removal :: "fs_trace \<Rightarrow> string \<Rightarrow> bool" where
  "own_removal t p = (\<exists>u v first last_seen. t = u @ [(Fs_Listen p, Fs_Done), (Fs_Stat p, Info first)] @ v @ [(Fs_Stat p, Info last_seen)] \<and>
     fs_socket last_seen \<and> fs_ino last_seen = fs_ino first)"

fun removes_own :: "fs_trace \<Rightarrow> fs_trace \<Rightarrow> bool" where
  "removes_own before [] = True"
| "removes_own before ((c, a) # t) = ((\<forall>p. c = Fs_Unlink p \<longrightarrow> own_removal before p) \<and> removes_own (before @ [(c, a)]) t)"

lemma removes_own_append: "removes_own before (t @ t') \<longleftrightarrow> removes_own before t \<and> removes_own (before @ t) t'"
  by (induction t arbitrary: before) auto

lemma own_removalI:
  "before = u @ (Fs_Listen p, Fs_Done) # (Fs_Stat p, Info first) # v \<Longrightarrow> fs_socket s \<Longrightarrow> fs_ino s = fs_ino first \<Longrightarrow>
    own_removal (before @ [(Fs_Stat p, Info s)]) p"
  by (auto simp: own_removal_def)

lemma remove_own_removes:
  assumes "before = u @ (Fs_Listen path, Fs_Done) # (Fs_Stat path, Info first) # v"
    and "fs_answered (remove_own path (fs_ino first) f other) as = (t, r)" "\<And>a as t r. fs_answered (f a) as = (t, r) \<Longrightarrow> t = []"
    and "\<And>as t r. fs_answered other as = (t, r) \<Longrightarrow> t = []"
  shows "removes_own before t"
proof -
  have "own_removal (before @ [(Fs_Stat path, Info s)]) path" if "fs_socket s" "fs_ino s = fs_ino first" for s
    by (rule own_removalI [OF assms(1) that])
  with assms(2) show ?thesis unfolding remove_own_def
    by (auto elim!: answered_step split: fs_answer.splits if_splits dest!: assms(3,4))
qed

lemma close_removes:
  assumes "before = u @ (Fs_Listen path, Fs_Done) # (Fs_Stat path, Info first) # v"
    and "fs_answered (close_listener path (fs_ino first)) as = (t, r)"
  shows "removes_own before t"
proof -
  have "removes_own (before @ [(Fs_Close, a)]) t'"
    if "fs_answered (remove_own path (fs_ino first) (\<lambda>a. case a of Fs_Failed \<Rightarrow> Denied | _ \<Rightarrow> Ended) Ended) as' = (t', r)" for a as' t'
    by (rule remove_own_removes [where u = u and v = "v @ [(Fs_Close, a)]", OF _ that])
      (auto simp: assms(1) split: fs_answer.splits)
  with assms(2) show ?thesis unfolding close_listener_def by (auto elim!: answered_step)
qed

lemma abandon_removes:
  assumes "own \<noteq> None \<longrightarrow> (\<exists>u first v. before = u @ (Fs_Listen path, Fs_Done) # (Fs_Stat path, Info first) # v \<and> own = Some (fs_ino first))"
    and "fs_answered (abandon path own) as = (t, r)"
  shows "removes_own before t"
proof (cases own)
  case None
  with assms(2) show ?thesis unfolding abandon_def by (auto elim!: answered_step)
next
  case (Some ino)
  with assms(1) obtain u first v where b: "before = u @ (Fs_Listen path, Fs_Done) # (Fs_Stat path, Info first) # v" "ino = fs_ino first" by auto
  have "removes_own (before @ [(Fs_Close, a)]) t'"
    if "fs_answered (remove_own path (fs_ino first) (\<lambda>_. Denied) Denied) as' = (t', r)" for a as' t'
    by (rule remove_own_removes [where u = u and v = "v @ [(Fs_Close, a)]", OF _ that]) (auto simp: b)
  with assms(2) Some b show ?thesis unfolding abandon_def by (auto elim!: answered_step)
qed

lemma start_removes:
  assumes "fs_answered (startDshUnixRelayListener b path uid gid) as = (t, r)"
  shows "removes_own [] t"
proof -
  have bare: "fs_answered (abandon path None) as = (t, r) \<Longrightarrow> removes_own before t" for before as t
    using abandon_removes [of None] by simp
  have own: "fs_answered (abandon path (Some (fs_ino first))) as = (t, r) \<Longrightarrow>
      removes_own ((Fs_Stat (folder_of path), f) # (Fs_Stat path, m) # (Fs_Listen path, Fs_Done) # (Fs_Stat path, Info first) # v) t"
    for first v f m as t
  proof (rule abandon_removes [where own = "Some (fs_ino first)"], rule impI)
    show "\<exists>u x w. (Fs_Stat (folder_of path), f) # (Fs_Stat path, m) # (Fs_Listen path, Fs_Done) # (Fs_Stat path, Info first) # v =
        u @ (Fs_Listen path, Fs_Done) # (Fs_Stat path, Info x) # w \<and> Some (fs_ino first) = Some (fs_ino x)"
      by (rule exI [where x = "[(Fs_Stat (folder_of path), f), (Fs_Stat path, m)]"]) auto
  qed
  from assms bare own show ?thesis
    unfolding startDshUnixRelayListener_def verify_socket_def
    by (auto elim!: answered_step split: if_splits fs_answer.splits)
qed


section \<open>Examples\<close>

definition demo_dsh_parse :: "string \<Rightarrow> jval option" where
  "demo_dsh_parse s = (if s = utf8 (json_text demo_list) then Some demo_list else None)"

theorem relay_serves_receiver_witness:
  "\<forall>opts. \<exists>t k p f. executeDshAgentOperation demo_dsh_env demo_agent demo_stat demo_dsh_parse 0 opts (envelope demo_list) = Post_Call (json_text demo_list) t k \<and>
    relay demo_dsh_parse ''w'' ''l'' (postSocket_request (json_text demo_list)) = Relay_Post p f \<and> attr p = attr demo_list"
proof
  fix opts
  from demo_posted [of demo_dsh_parse 0 opts] obtain t k where x:
    "executeDshAgentOperation demo_dsh_env demo_agent demo_stat demo_dsh_parse 0 opts (envelope demo_list) = Post_Call (json_text demo_list) t k" by blast
  have "demo_dsh_parse (utf8 (json_text demo_list)) = Some demo_list" by (simp add: demo_dsh_parse_def)
  from relay_serves_receiver [OF demo_made x demo_dsh_env_facts(2,3) this] x
  show "\<exists>t k p f. executeDshAgentOperation demo_dsh_env demo_agent demo_stat demo_dsh_parse 0 opts (envelope demo_list) = Post_Call (json_text demo_list) t k \<and>
    relay demo_dsh_parse ''w'' ''l'' (postSocket_request (json_text demo_list)) = Relay_Post p f \<and> attr p = attr demo_list" by blast
qed

definition demo_config :: relay_config where
  "demo_config = \<lparr>rc_gid = 9, rc_workspaceId = ''w'', rc_leadSessionId = ''l'', rc_pin = []\<rparr>"

definition demo_folder_info :: socket_stat where
  "demo_folder_info = \<lparr>fs_directory = True, fs_socket = False, fs_symlink = False, fs_uid = 7, fs_gid = 9, fs_mode = 1480, fs_ino = 3\<rparr>"

definition demo_socket_info :: "nat \<Rightarrow> nat \<Rightarrow> socket_stat" where
  "demo_socket_info mode ino =
    \<lparr>fs_directory = False, fs_socket = True, fs_symlink = False, fs_uid = 7, fs_gid = 9, fs_mode = mode, fs_ino = ino\<rparr>"

definition demo_dsh_answers :: "fs_answer list" where
  "demo_dsh_answers = [Info demo_folder_info, Missing, Fs_Done, Info (demo_socket_info 493 77), Fs_Done, Info (demo_socket_info 432 77)]"

definition demo_trace :: fs_trace where
  "demo_trace = fst (fs_answered (relay_listener demo_config 7) demo_dsh_answers)"

lemma demo_started: "fs_answered (relay_listener demo_config 7) demo_dsh_answers = (demo_trace, Started 77)"
proof -
  have v: "validSocketPath DSH_SOCKET" by code_simp
  show ?thesis
    by (simp add: demo_trace_def relay_listener_def startDshUnixRelayListener_def v demo_dsh_answers_def demo_config_def safe_integer_def
      owned_folder_def demo_folder_info_def own_socket_def demo_socket_info_def verify_socket_def)
qed

theorem listener_serves_receiver_witness:
  "\<exists>folder sock. demo_trace ! 0 = (Fs_Stat DSH_SOCKET_FOLDER, Info folder) \<and> demo_trace ! 5 = (Fs_Stat DSH_SOCKET, Info sock) \<and> fs_ino sock = 77"
proof -
  from listener_serves_receiver [OF demo_started] obtain folder first sock where d: "demo_trace =
      [(Fs_Stat DSH_SOCKET_FOLDER, Info folder), (Fs_Stat DSH_SOCKET, Missing), (Fs_Listen DSH_SOCKET, Fs_Done),
       (Fs_Stat DSH_SOCKET, Info first), (Fs_Chmod DSH_SOCKET 432, Fs_Done), (Fs_Stat DSH_SOCKET, Info sock)]" "fs_ino sock = 77" by blast
  show ?thesis unfolding d(1) using d(2) by simp
qed

lemma demo_closed: "\<exists>t. fs_answered (close_listener DSH_SOCKET 77) [Fs_Done, Info (demo_socket_info 432 77), Fs_Done] = (t, Ended) \<and>
    last t = (Fs_Unlink DSH_SOCKET, Fs_Done)"
  by (simp add: close_listener_def remove_own_def demo_socket_info_def)


end
