(* ===== verification/Dsh_Instruction.thy ===== *)
theory Dsh_Instruction
  imports Relay_Properties
begin

text \<open>
  One instruction from the policy through the backend and the grant store to DeepHarness and back: what the parts hand to
  each other fits, so that a granted instruction DeepHarness accepts is accepted for its caller.
\<close>

fun backend_answered :: "backend_run \<Rightarrow> (exn + jval) list \<Rightarrow> (exn + jval) option" where
  "backend_answered (Backend_Done r) as = Some r"
| "backend_answered (Post args k) [] = None"
| "backend_answered (Post args k) (a # as) = backend_answered (k a) as"

lemma post_payload_answered:
  assumes "backend_answered (post_payload p reply k) as = Some (Inr v)"
  shows "\<exists>args a r as'. p = Inr args \<and> as = a # as' \<and> bindR a reply = Inr r \<and> backend_answered (k r) as' = Some (Inr v)"
  using assms by (cases p; cases as) (auto simp: post_payload_def split: sum.splits)

text \<open>The submission ends well only with the acknowledgement the store asks for.\<close>

lemma submitted_ack:
  assumes "backend_answered (submit_instruction digest i s key) as = Some (Inr ack)"
  shows "attr ack ''accepted'' = JBool True"
proof -
  from post_payload_answered [OF assms [unfolded submit_instruction_def team_of_def Let_def]]
  obtain r as' where "backend_answered (post_payload
      (client_sendLeadInstruction (scope_input i [(''requestId'', JStr (promptRequestId digest i key)), (''text'', JStr s)]))
      (instruction_reply (scope_input i [(''requestId'', JStr (promptRequestId digest i key)), (''text'', JStr s)]))
      (\<lambda>ack. Backend_Done (Inr (JObj [(''accepted'', JBool True)])))) as' = Some (Inr ack)" by blast
  from post_payload_answered [OF this] show ?thesis by auto
qed

section \<open>What the parts hand on\<close>

lemma identity_ok_fields: "identity_ok i \<Longrightarrow> DSH_ID (gi_actor i) \<and> DSH_ID (gi_clientId i) \<and> DSH_ID (gi_sessionId i) \<and>
    DSH_ID (gi_workspaceId i) \<and> DSH_ID (gi_leadSessionId i)"
  by (simp add: identity_ok_def identity_texts_def)

lemma identity_fields_value:
  "identity_ok i \<Longrightarrow> identity_fields (identity_value i @ fs) = Inr i"
  by (cases i) (auto simp: identity_fields_def identity_value_def id_field_def field_Cons bindR_def ensure_def dest: identity_ok_fields)

lemma commit_call_request:
  assumes "identity_ok i" "own_actor i" "DSH_ID rv" "instruction_ok s" "GUID key"
  shows "commit_call sha (commit_argument \<lparr>la_identity = i, la_action = ''lead.instruct'', la_revision = rv\<rparr> s key) =
    Inr (i, rv, s, key, commit_request sha i rv s key)"
proof -
  let ?auth = "commit_argument \<lparr>la_identity = i, la_action = ''lead.instruct'', la_revision = rv\<rparr> s key"
  have "backend_authority ?auth = Inr (i, rv)"
    using assms(1-3) identity_fields_value [OF assms(1), unfolded identity_value_def]
    by (simp add: backend_authority_def commit_argument_def auth_value_def identity_fields_value id_field_def
      identity_value_def [of i] field_Cons bindR_def ensure_def)
  moreover have "backend_instruction ?auth = Some (s, key)"
    using assms(4,5) by (simp add: backend_instruction_def instruction_of_def commit_argument_def auth_value_def attr_def identity_value_def field_Cons)
  ultimately show ?thesis by (simp add: commit_call_def)
qed

lemma commit_request_read:
  assumes "identity_ok i" "own_actor i" "DSH_ID rv" "GUID key" "DSH_HASH (sha (utf8 s))"
  shows "read_commit_input (commit_request sha i rv s key) =
    Inr \<lparr>ci_identity = i, ci_revision = rv, ci_idempotencyKey = key, ci_payloadHash = sha (utf8 s)\<rparr>"
  using assms identity_fields_value [OF assms(1), unfolded identity_value_def]
  by (simp add: read_commit_input_def commit_request_def identityOf_def object_fields_def identity_fields_value id_field_def
      hash_field_def identity_value_def [of i] field_Cons bindR_def ensure_def text_of_def)

lemma lookup_value:
  assumes "identity_ok i" "own_actor i" "\<not> st_faulted st" "map_of (gs_grants (st_state st)) (identityKey sha i) = Some g"
    "gr_identity g = i" "gr_revokedAt g = None"
  shows "store_lookup sha st i = Inr (JObj (identity_value i @ [(''actions'', jstrs (gr_actions g)), (''revision'', JStr (gr_revision g))]))"
  using assms identity_fields_value [of i "[]"]
  by (simp add: store_lookup_def lookupCurrentGrant_def identityOf_def object_fields_def current_grant_value_def bindR_def ensure_def)

lemma validated_value:
  assumes "DSH_ID rv" "action \<in> set acts" "set acts \<subseteq> set DSH_ACTIONS"
  shows "validateGrant (JObj (identity_value i @ [(''actions'', jstrs acts), (''revision'', JStr rv)])) i action =
    Some \<lparr>la_identity = i, la_action = action, la_revision = rv\<rparr>"
proof -
  have "known_actions (map JStr acts)" using assms(3) by (auto simp: known_actions_def list_all_iff)
  moreover have "JStr action \<in> set (map JStr acts)" using assms(2) by simp
  ultimately show ?thesis using assms(1)
    by (simp add: validateGrant_def attr_def identity_value_def field_Cons jstrs_def dsh_identifier_def)
qed

section \<open>The whole way\<close>

definition submitted_frame :: "(string \<Rightarrow> string) \<Rightarrow> dsh_identity \<Rightarrow> string \<Rightarrow> string \<Rightarrow> string \<Rightarrow> grant_io \<Rightarrow> commit_frame" where
  "submitted_frame sha i rv s key io = \<lparr>cf_identity = i, cf_key = deliveryKey sha i key, cf_revision = rv,
     cf_delivery = \<lparr>dl_identity = i, dl_payloadHash = sha (utf8 s), dl_grantRevision = rv, dl_accepted = False,
       dl_receiptId = ''receipt_'' @ io_uuid io, dl_createdAt = io_now io, dl_acceptedAt = None\<rparr>\<rparr>"

definition accepted_delivery :: "commit_frame \<Rightarrow> grant_io \<Rightarrow> dsh_delivery" where
  "accepted_delivery fr io = (cf_delivery fr)\<lparr>dl_accepted := True, dl_acceptedAt := Some (io_now io)\<rparr>"

lemma save_kept: "save Kept s st = (st\<lparr>st_state := s, st_file := written s\<rparr>, Inr ())"
  by (simp add: save_def persistFile_def)

lemma commit_begins:
  assumes "read_commit_input request = Inr \<lparr>ci_identity = i, ci_revision = rv, ci_idempotencyKey = key, ci_payloadHash = sha (utf8 s)\<rparr>"
    and "\<not> st_faulted st" "usable_grant st (identityKey sha i) rv" "map_of (gs_deliveries (st_state st)) (deliveryKey sha i key) = None"
    "length (gs_deliveries (st_state st)) < MAX_DELIVERIES" "io_disk io = Kept"
  shows "\<exists>m fs. store_machine_step sha (Called c (Commit_Instruction request) io) (idle_machine st) = (m, fs) \<and>
    Submitted c (submitted_frame sha i rv s key io) \<in> set fs \<and> sm_running m = Some (c, submitted_frame sha i rv s key io) \<and>
    sm_queue m = [] \<and> usable_grant (sm_store m) (identityKey sha i) rv"
  using assms by (auto simp: idle_machine_def run_call_def begin_commit_def Let_def save_kept submitted_frame_def store_delivery_def
      usable_grant_def not_le split: option.splits)

lemma commit_finishes:
  assumes "sm_running m = Some (c, fr)" "sm_queue m = []" "usable_grant (sm_store m) (identityKey sha (cf_identity fr)) (cf_revision fr)"
    and "attr ack ''accepted'' = JBool True" "io_disk io = Kept"
  shows "\<exists>m' fs. store_machine_step sha (Answered (Inr ack) io) m = (m', fs) \<and>
    Replied c (Inr (Receipt (dl_receiptId (cf_delivery fr)) (cf_revision fr) False)) \<in> set fs \<and>
    map_of (gs_deliveries (st_state (sm_store m'))) (cf_key fr) = Some (accepted_delivery fr io)"
  using assms by (auto simp: finish_commit_def Let_def save_kept accepted_delivery_def store_delivery_def update_conv)

lemma sent_instruction:
  assumes "principalOf trusted = Some (gi_actor i, gi_clientId i, gi_sessionId i)" "scopeOf input = Some (gi_workspaceId i, gi_leadSessionId i)"
    and "instruction_of input = Some (s, key)" "validateGrant grant i ''lead.instruct'' = Some auth" "la_identity auth = i"
    and "commit_ack auth ack = Some (receipt, duplicate)"
  shows "answered (sendLeadInstruction trusted input) [Inr grant, Inr ack] =
    ([(Lookup_Grant i, Inr grant), (Commit_Lead auth s key, Inr ack)],
     Some (Inr (JObj [(''workspace_id'', JStr (gi_workspaceId i)), (''lead_session_id'', JStr (gi_leadSessionId i)),
       (''receipt_id'', JStr receipt), (''accepted'', JBool True), (''duplicate'', JBool duplicate)])))"
  using assms by (cases i) (simp add: sendLeadInstruction_def authority_def Let_def ask_provider_def)


section \<open>An example\<close>

definition demo_key :: string where "demo_key = ''01234567-89ab-4cde-8f01-23456789abcd''"

definition demo_dsh_sent :: jval where
  "demo_dsh_sent = JObj [(''workspaceId'', JStr ''w''), (''leadSessionId'', JStr ''l''), (''instruction'', JStr ''go''),
     (''idempotencyKey'', JStr demo_key)]"

definition demo_holder :: grant_store where
  "demo_holder = \<lparr>st_state = \<lparr>gs_grants = [(demo_hash, demo_grant ''lead.instruct'')], gs_deliveries = []\<rparr>, st_file = Absent, st_faulted = False\<rparr>"

definition demo_team_value :: jval where
  "demo_team_value = JObj [(''leadSessionId'', JStr ''l''), (''members'', JArr [JObj [(''id'', JStr ''l''), (''role'', JStr ''lead''),
     (''name'', JStr ''n''), (''phase'', JStr ''active'')]]), (''tasks'', JArr [])]"

definition demo_ack :: jval where
  "demo_ack = JObj [(''accepted'', JBool True), (''requestId'', JStr ''00000000-0000-5000-8000-000000000000'')]"

lemma demo_sent_facts:
  "principalOf demo_trusted = Some (gi_actor demo_dsh, gi_clientId demo_dsh, gi_sessionId demo_dsh)"
  "scopeOf demo_dsh_sent = Some (gi_workspaceId demo_dsh, gi_leadSessionId demo_dsh)"
  "instruction_of demo_dsh_sent = Some (''go'', demo_key)"
  "map_of (gs_grants (st_state demo_holder)) (identityKey (\<lambda>_. demo_hash) demo_dsh) = Some (demo_grant ''lead.instruct'')"
  "map_of (gs_deliveries (st_state demo_holder)) (deliveryKey (\<lambda>_. demo_hash) demo_dsh demo_key) = None"
  "gr_identity (demo_grant ''lead.instruct'') = demo_dsh" "gr_revokedAt (demo_grant ''lead.instruct'') = None"
  "''lead.instruct'' \<in> set (gr_actions (demo_grant ''lead.instruct''))" "grant_ok (demo_grant ''lead.instruct'')"
  "\<not> st_faulted demo_holder" "length (gs_deliveries (st_state demo_holder)) < MAX_DELIVERIES"
  "DSH_ID (''receipt_'' @ io_uuid (demo_io 1 ''u''))"
  by code_simp+

lemma demo_submission:
  "backend_answered (submit_instruction (\<lambda>_. replicate 32 0) demo_dsh ''go'' demo_key) [Inr demo_team_value, Inr demo_ack] =
    Some (Inr (JObj [(''accepted'', JBool True)]))"
  by code_simp


end
