(* ===== verification/Console_Properties.thy ===== *)
theory Console_Properties
  imports Dsh_Console Dsh_Instruction Gateway_Properties OAuth_Properties
begin

text \<open>
  What the console grants: only to a live session of the store, only for the lab, and usable by the bearer of that session.
\<close>

section \<open>Sessions are stored under their own identifier\<close>

definition named_sessions :: "pstate \<Rightarrow> bool" where
  "named_sessions p = (\<forall>k s. map_of (sessions p) k = Some s \<longrightarrow> ss_id s = k)"

lemma revoke_ss_id [simp]: "ss_id (revoke_ss now s) = ss_id s"
  by (simp add: revoke_ss_def)

lemma named_purge: "wf_pstate p \<Longrightarrow> named_sessions p \<Longrightarrow> named_sessions (fst (purge_entries env now p))"
  by (auto simp: named_sessions_def wf_pstate_def lookup_keep split: if_splits option.splits)

lemma named_step:
  assumes "wf_store st" "named_sessions (mem st)" "named_sessions (disk st)"
  shows "named_sessions (mem (store_step w op now st))"
  using assms named_purge [of "mem st" "w_env w" now] named_purge [of "disk st" "w_env w" now]
  by (cases op) (auto simp: op_unfold wf_store_def named_sessions_def split: step_splits)

definition named_store :: "store \<Rightarrow> bool" where
  "named_store st = (wf_store st \<and> named_sessions (mem st) \<and> named_sessions (disk st))"

lemma named_store_step: "named_store st \<Longrightarrow> named_store (store_step w op now st)"
  using named_step [of st w op now] step_disk [of w op now st] wf_step [of st w op now] by (auto simp: named_store_def)

lemma named_store_run: "named_store st \<Longrightarrow> named_store (store_run w ops st)"
proof (induction ops arbitrary: st)
  case Nil
  then show ?case by simp
next
  case (Cons a ops)
  obtain op now where a: "a = (op, now)" by (cases a)
  have "named_store (store_step w op now st)" by (rule named_store_step [OF Cons.prems])
  from Cons.IH [OF this] show ?case by (simp add: a)
qed

lemma listed_session:
  assumes "named_store st" "s \<in> set (listSessions st)"
  shows "getSession (ss_id s) st = Some s"
  using assms by (auto simp: listSessions_def named_store_def wf_store_def wf_pstate_def set_vals_iff named_sessions_def getSession_def)

section \<open>What a form can do\<close>

lemma lab_facts:
  assumes "requireConfiguredLab le env rs g = Inr (w, l)"
  shows "w = LAB_WORKSPACE \<and> l = LAB_LEAD \<and> (\<exists>t device. getTarget LAB_TARGET rs = Inr (Some t) \<and> enabled t \<and>
    effectiveTargetEnabled (tid t) (enabled t) (gw_store g) \<and> deviceId t = Some device \<and> ks_online (agentConnectionStatus device g) \<and>
    (\<exists>pc. validateAgentTargetAgainstPreset le t Deepharness_Semantic_Lab = Inr pc \<and> pc_valid pc))"
proof -
  obtain target where e: "getTarget LAB_TARGET rs = Inr target"
    using assms by (auto simp only: requireConfiguredLab_def Let_def bindR_Inr_iff)
  show ?thesis
  proof (cases target)
    case None
    then show ?thesis using assms e by (simp add: requireConfiguredLab_def Let_def bindR_Inr_iff ensure_Inr_iff)
  next
    case (Some t)
    have c: "w = LAB_WORKSPACE" "l = LAB_LEAD" "enabled t" "effectiveTargetEnabled (tid t) (enabled t) (gw_store g)"
        "coalesce (deviceId t) [] \<noteq> []" "ks_online (agentConnectionStatus (coalesce (deviceId t) []) g)"
        "\<exists>pc. validateAgentTargetAgainstPreset le t Deepharness_Semantic_Lab = Inr pc \<and> pc_valid pc"
      using assms unfolding requireConfiguredLab_def Let_def e Some
      by (simp_all add: bindR_Inr_iff ensure_Inr_iff) (blast | metis)+
    from c(5) obtain device where "deviceId t = Some device" by (cases "deviceId t") (simp_all add: coalesce_def)
    with c e Some show ?thesis by (simp add: coalesce_def)
  qed
qed

lemma subject_facts:
  assumes "selectCurrentDshGrantSubject ss cs sessionId w l operation confirmation now = Inr sb"
  shows "\<exists>s x. s \<in> set ss \<and> sessionId = JStr (ss_id s) \<and> operation_of operation = Some x \<and> confirmation = JStr (confirmation_text x) \<and>
    sb_operation sb = x \<and> sb_actions sb = operation_actions x \<and> DSH_ID (ss_id s) \<and> DSH_ID (ss_client_id s) \<and>
    sb_identity sb = \<lparr>gi_actor = actor_of (ss_client_id s) (ss_id s), gi_clientId = ss_client_id s, gi_sessionId = ss_id s,
      gi_workspaceId = w, gi_leadSessionId = l\<rparr> \<and>
    (x \<noteq> Grant_Revoke \<longrightarrow> \<not> truthy (ss_revoked_at s) \<and> now < ss_refresh_expires_at s \<and> live_client cs (ss_client_id s))"
proof -
  from assms obtain s x where s: "List.find (\<lambda>s. JStr (ss_id s) = sessionId) ss = Some s" and r: "operation_of operation = Some x"
      "confirmation = JStr (confirmation_text x)" "DSH_ID (str_of sessionId)" "DSH_ID (ss_client_id s)"
      "x = Grant_Revoke \<or> \<not> truthy (ss_revoked_at s) \<and> safe_integer (ss_refresh_expires_at s) \<and> now < ss_refresh_expires_at s \<and>
        live_client cs (ss_client_id s)"
      "sb = \<lparr>sb_identity = \<lparr>gi_actor = actor_of (ss_client_id s) (ss_id s), gi_clientId = ss_client_id s, gi_sessionId = ss_id s,
         gi_workspaceId = w, gi_leadSessionId = l\<rparr>, sb_actions = operation_actions x, sb_operation = x\<rparr>"
    unfolding selectCurrentDshGrantSubject_def by (auto simp only: bindR_Inr_iff ensure_Inr_iff split: option.splits)
  from s have "s \<in> set ss" "JStr (ss_id s) = sessionId" by (auto simp: find_Some_iff)
  with r show ?thesis by auto
qed


definition lab_configured :: "(string \<Rightarrow> string \<Rightarrow> bool) \<Rightarrow> registry_state \<Rightarrow> gateway \<Rightarrow> bool" where
  "lab_configured le rs g = (\<exists>t device. getTarget LAB_TARGET rs = Inr (Some t) \<and> enabled t \<and>
    effectiveTargetEnabled (tid t) (enabled t) (gw_store g) \<and> deviceId t = Some device \<and> ks_online (agentConnectionStatus device g) \<and>
    (\<exists>pc. validateAgentTargetAgainstPreset le t Deepharness_Semantic_Lab = Inr pc \<and> pc_valid pc))"

definition lab_identity :: "stored_session \<Rightarrow> dsh_identity" where
  "lab_identity s = \<lparr>gi_actor = actor_of (ss_client_id s) (ss_id s), gi_clientId = ss_client_id s, gi_sessionId = ss_id s,
     gi_workspaceId = LAB_WORKSPACE, gi_leadSessionId = LAB_LEAD\<rparr>"

definition store_call_of :: "grant_operation \<Rightarrow> jval \<Rightarrow> store_call" where
  "store_call_of x v = (if x = Grant_Revoke then Revoke_Grant v else Put_Grant v)"

definition console_form :: "stored_session \<Rightarrow> grant_operation \<Rightarrow> jval" where
  "console_form s x = subject_value \<lparr>sb_identity = lab_identity s, sb_actions = operation_actions x, sb_operation = x\<rparr>"

lemma console_facts:
  assumes "console_call le env rs g body now = Inr (x, c)"
  shows "lab_configured le rs g \<and> (\<exists>s. s \<in> set (listSessions (gw_store g)) \<and> field body ''session_id'' = JStr (ss_id s) \<and>
    operation_of (field body ''operation'') = Some x \<and> field body ''confirmation'' = JStr (confirmation_text x) \<and>
    c = store_call_of x (console_form s x) \<and> DSH_ID (ss_id s) \<and> DSH_ID (ss_client_id s) \<and>
    (x \<noteq> Grant_Revoke \<longrightarrow> \<not> truthy (ss_revoked_at s) \<and> now < ss_refresh_expires_at s \<and>
      live_client (listClients (gw_store g)) (ss_client_id s)))"
proof -
  obtain w l sb where r: "requireConfiguredLab le env rs g = Inr (w, l)"
      "selectCurrentDshGrantSubject (listSessions (gw_store g)) (listClients (gw_store g)) (field body ''session_id'') w l
         (field body ''operation'') (field body ''confirmation'') now = Inr sb"
      "x = sb_operation sb" "c = store_call_of x (subject_value sb)"
    using assms by (auto simp: console_call_def bindR_Inr_iff store_call_of_def)
  have lab: "w = LAB_WORKSPACE" "l = LAB_LEAD" "lab_configured le rs g"
    using lab_facts [OF r(1)] unfolding lab_configured_def by blast+
  from subject_facts [OF r(2)] obtain s where s: "s \<in> set (listSessions (gw_store g))" "field body ''session_id'' = JStr (ss_id s)"
      "operation_of (field body ''operation'') = Some x" "field body ''confirmation'' = JStr (confirmation_text x)"
      "sb_actions sb = operation_actions x" "sb_identity sb = lab_identity s" "DSH_ID (ss_id s)" "DSH_ID (ss_client_id s)"
      "x \<noteq> Grant_Revoke \<longrightarrow> \<not> truthy (ss_revoked_at s) \<and> now < ss_refresh_expires_at s \<and>
         live_client (listClients (gw_store g)) (ss_client_id s)"
    unfolding lab_identity_def r(3) lab(1,2) by blast
  have "sb = \<lparr>sb_identity = lab_identity s, sb_actions = operation_actions x, sb_operation = x\<rparr>"
    using s(5,6) r(3) by (cases sb) simp
  with r(4) have "c = store_call_of x (console_form s x)" by (simp add: console_form_def)
  with s lab(3) show ?thesis by blast
qed


section \<open>What its bearer can do\<close>

lemma identityOf_lab:
  assumes "identityOf (console_form s x) = Inr i"
  shows "i = lab_identity s \<and> identity_ok i \<and> own_actor i"
proof -
  from assms have r: "identity_fields (identity_value (lab_identity s) @
      [(''actions'', jstrs (operation_actions x)), (''operation'', JStr (operation_text x))]) = Inr i" "own_actor i"
    by (auto simp: identityOf_def object_fields_def console_form_def subject_value_def bindR_Inr_iff ensure_Inr_iff)
  from r(1) show ?thesis using r(2)
    by (cases i) (auto simp: identity_fields_def identity_value_def lab_identity_def id_field_def field_Cons bindR_Inr_iff ensure_Inr_iff
        identity_ok_def identity_texts_def)
qed

lemma actions_lab:
  assumes "actions_of (attr (console_form s x) ''actions'') = Inr u"
  shows "u = operation_actions x"
  using assms
  by (cases x) (auto simp: console_form_def subject_value_def attr_def field_Cons identity_value_def actions_of_def jstrs_def
      operation_actions_def bindR_Inr_iff ensure_Inr_iff action_text_def)

lemma operation_actions_known: "set (operation_actions x) \<subseteq> set DSH_ACTIONS"
  by (cases x) (simp_all add: operation_actions_def DSH_ACTIONS_def)

lemma put_settled:
  assumes "run_call sha (Put_Grant (console_form s x)) io st = (st', es, Settled (Inr r))"
  shows "identity_ok (lab_identity s) \<and> own_actor (lab_identity s) \<and> \<not> st_faulted st' \<and>
    map_of (gs_grants (st_state st')) (identityKey sha (lab_identity s)) = Some (new_grant (lab_identity s) (operation_actions x) io)"
proof -
  from assms have nf: "\<not> st_faulted st" and p: "putGrant sha (console_form s x) io st = (st', es, Inr r)"
    by (auto simp: run_call_def split: if_splits prod.splits)
  from p obtain i u where i: "identityOf (console_form s x) = Inr i" and u: "actions_of (attr (console_form s x) ''actions'') = Inr u"
      and sv: "save (io_disk io) (store_grant (identityKey sha i) (new_grant i u io) (st_state st)) st = (st', Inr ())"
    by (auto simp: putGrant_def Let_def bindR_Inr_iff new_grant_def split: sum.splits if_splits prod.splits)
  have st': "st_state st' = store_grant (identityKey sha i) (new_grant i u io) (st_state st)" "\<not> st_faulted st'"
    using save_cases [OF sv] nf by auto
  have "i = lab_identity s" "identity_ok i" "own_actor i" using identityOf_lab [OF i] by blast+
  with actions_lab [OF u] st' show ?thesis by (auto simp: store_grant_def update_conv)
qed

lemma granted_lookup:
  assumes "run_call sha (Put_Grant (console_form s x)) io st = (st', es, Settled (Inr r))"
    and "DSH_ID (io_uuid io)" "action \<in> set (operation_actions x)"
  shows "\<exists>gv. store_lookup sha st' (lab_identity s) = Inr gv \<and>
    validateGrant gv (lab_identity s) action = Some \<lparr>la_identity = lab_identity s, la_action = action, la_revision = io_uuid io\<rparr>"
proof -
  have p: "identity_ok (lab_identity s)" "own_actor (lab_identity s)" "\<not> st_faulted st'"
      "map_of (gs_grants (st_state st')) (identityKey sha (lab_identity s)) = Some (new_grant (lab_identity s) (operation_actions x) io)"
    using put_settled [OF assms(1)] by blast+
  have "action \<in> set (sort (operation_actions x))" "set (sort (operation_actions x)) \<subseteq> set DSH_ACTIONS"
    using assms(3) operation_actions_known [of x] by simp_all
  from validated_value [OF assms(2) this] lookup_value [OF p(1,2,3,4)] show ?thesis
    by (simp add: new_grant_def)
qed

lemma bearer_session:
  assumes "requireBearer e header ms st = (s', Some (actor, cid, sid))"
  shows "sessionIsActive sid cid ms st \<and> actor = actor_of cid sid"
proof -
  from assms obtain payload where p: "claims_ok e payload ms st"
      "cid = str_of (or_default (attr payload ''cid'') (JStr ''unknown''))" "sid = str_of (or_default (attr payload ''sid'') (JStr ''unknown''))"
      "actor = ''oauth:'' @ cid @ '':'' @ take 12 sid"
    by (auto simp: requireBearer_def verifyAccessToken_def Let_def split: option.splits list.splits if_splits)
  from p(1) have t: "text_of (attr payload ''cid'') \<noteq> []" "text_of (attr payload ''sid'') \<noteq> []"
      "sessionIsActive (text_of (attr payload ''sid'')) (text_of (attr payload ''cid'')) ms st"
    by (auto simp: claims_ok_def Let_def)
  have "str_of (or_default (attr payload k) (JStr ''unknown'')) = text_of (attr payload k)" if "text_of (attr payload k) \<noteq> []" for k
    using that by (cases "attr payload k") (simp_all add: text_of_def or_default_def nullish_def)
  with t p show ?thesis by (simp add: actor_of_def)
qed

text \<open>C32: What the console grants, the bearer of that session can use: after the grant store has settled the console's call, a
  request whose access token belongs to the session named in the form is, for the policy, the very identity that was granted,
  and for each action of the granted operation the store's answer to it is an authority for that action.\<close>

theorem console_grant_usable:
  assumes "named_store (gw_store g)" "console_call le env rs g body now = Inr (x, Put_Grant v)"
    and "run_call sha (Put_Grant v) io st = (st', es, Settled (Inr r))" "DSH_ID (io_uuid io)"
    and "requireBearer e header ms (gw_store g) = (s', Some (actor, cid, sid))" "field body ''session_id'' = JStr sid"
    and "action \<in> set (operation_actions x)"
  shows "\<exists>i gv auth. principalOf (caller_value (actor, cid, sid)) = Some (gi_actor i, gi_clientId i, gi_sessionId i) \<and>
    gi_workspaceId i = LAB_WORKSPACE \<and> gi_leadSessionId i = LAB_LEAD \<and> store_lookup sha st' i = Inr gv \<and>
    validateGrant gv i action = Some auth \<and> la_identity auth = i \<and> la_action auth = action"
proof -
  from console_facts [OF assms(2)] assms(6) obtain s where s: "s \<in> set (listSessions (gw_store g))" "sid = ss_id s"
      "Put_Grant v = store_call_of x (console_form s x)" "DSH_ID (ss_id s)" "DSH_ID (ss_client_id s)" by auto
  have v: "v = console_form s x" using s(3) by (simp add: store_call_of_def split: if_splits)
  have b: "sessionIsActive sid cid ms (gw_store g)" "actor = actor_of cid sid"
    using bearer_session [OF assms(5)] by blast+
  have "cid = ss_client_id s"
    using b(1) listed_session [OF assms(1) s(1)] s(2)
    by (simp add: sessionIsActive_def active_in_def getSession_def split: if_splits)
  then have "principalOf (caller_value (actor, cid, sid)) = Some (gi_actor (lab_identity s), gi_clientId (lab_identity s), gi_sessionId (lab_identity s))"
    using s(2,4,5) b(2)
    by (simp add: principalOf_def caller_value_def field_Cons dsh_identifier_def lab_identity_def actor_of_def starts_with_iff)
  moreover obtain gv where "store_lookup sha st' (lab_identity s) = Inr gv"
      "validateGrant gv (lab_identity s) action = Some \<lparr>la_identity = lab_identity s, la_action = action, la_revision = io_uuid io\<rparr>"
    using granted_lookup [OF assms(3) [unfolded v] assms(4,7)] by blast
  ultimately show ?thesis
    by (intro exI [of _ "lab_identity s"] exI [of _ gv]) (simp add: lab_identity_def)
qed

section \<open>A grant\<close>

definition demo_lab_target :: target_config where
  "demo_lab_target = (preset_base LAB_TARGET ''dev_x'' Development)\<lparr>capabilityProfile := Semantic_Operator,
     allowedSemanticCapabilities := [''deepharness.semantic'']\<rparr>"

definition demo_lab_registry :: registry_state where
  "demo_lab_registry = \<lparr>rs_static = No_File, rs_dynamic = No_File, rs_registry = Some [(LAB_TARGET, demo_lab_target)]\<rparr>"

definition demo_console :: gateway where
  "demo_console = (idle_gateway (store_run demo_world [(RegisterClient (demo_client ''ro-c'' 1000), 1000),
       (CreateSession (demo_session ''sess-1'' ''ro-c'' 5000), 5000)] fresh_store))
     \<lparr>gw_socks := [(0, \<lparr>lc_deviceId = ''dev_x'', lc_token = [], lc_connectedAt = 1, lc_lastSeenAt = 1, lc_open = True\<rparr>)],
      gw_live := [(''dev_x'', 0)], gw_next := 1\<rparr>"

definition demo_console_env :: variables where
  "demo_console_env = map_of [(''DSH_SEMANTIC_ENABLED'', ''1''), (''DSH_SEMANTIC_TRANSPORT'', ''agent-mesh-lab''),
     (''DSH_SEMANTIC_AGENT_TARGET_ID'', LAB_TARGET), (''DSH_GRANT_WORKSPACE_ID'', LAB_WORKSPACE), (''DSH_GRANT_LEAD_SESSION_ID'', LAB_LEAD)]"

definition demo_console_form :: "(string \<times> jval) list" where
  "demo_console_form = [(''session_id'', JStr ''sess-1''), (''operation'', JStr ''instruct''),
     (''confirmation'', JStr ''GRANT INSTRUCT TEAM_3'')]"

definition demo_console_session :: stored_session where
  "demo_console_session = demo_session ''sess-1'' ''ro-c'' 5000"

lemma demo_console_call:
  "console_call (\<lambda>a b. True) demo_console_env demo_lab_registry demo_console demo_console_form 6000 =
     Inr (Grant_Instruct, Put_Grant (console_form demo_console_session Grant_Instruct))"
  by code_simp


text \<open>An access token whose signature is the secret itself.\<close>

definition demo_signing :: oauth_env where
  "demo_signing = demo_oauth\<lparr>oe_hmac := (\<lambda>k d. k)\<rparr>"

lemma demo_bearer:
  "requireBearer demo_signing (Some ''Bearer a.b.aw'') 6000 (gw_store demo_console) =
     (fst (requireBearer demo_signing (Some ''Bearer a.b.aw'') 6000 (gw_store demo_console)),
      Some (''oauth:ro-c:sess-1'', ''ro-c'', ''sess-1''))"
proof -
  have "snd (requireBearer demo_signing (Some ''Bearer a.b.aw'') 6000 (gw_store demo_console)) =
      Some (''oauth:ro-c:sess-1'', ''ro-c'', ''sess-1'')" by code_simp
  then show ?thesis by (metis prod.collapse)
qed

definition demo_empty_grants :: grant_store where
  "demo_empty_grants = \<lparr>st_state = \<lparr>gs_grants = [], gs_deliveries = []\<rparr>, st_file = Absent, st_faulted = False\<rparr>"

lemma demo_console_identity:
  "identityOf (console_form demo_console_session Grant_Instruct) = Inr (lab_identity demo_console_session)"
  "actions_of (attr (console_form demo_console_session Grant_Instruct) ''actions'') = Inr (operation_actions Grant_Instruct)"
  by code_simp+

lemma demo_put:
  "\<exists>st' es r. run_call (\<lambda>_. demo_hash) (Put_Grant (console_form demo_console_session Grant_Instruct)) (demo_io 1 ''u'') demo_empty_grants =
     (st', es, Settled (Inr r))"
proof -
  have "io_disk (demo_io 1 ''u'') = Kept" by (simp add: demo_io_def)
  then show ?thesis
    by (simp add: run_call_def putGrant_def demo_console_identity bindR_def demo_empty_grants_def Let_def save_kept MAX_GRANTS_def)
qed

lemma demo_console_named: "named_store (gw_store demo_console)"
proof -
  have "named_sessions (mem fresh_store)" "named_sessions (disk fresh_store)"
    by (simp_all add: named_sessions_def fresh_store_def Store.emptyState_def)
  then have "named_store fresh_store" by (simp add: named_store_def wf_fresh)
  from named_store_run [OF this] show ?thesis by (simp add: demo_console_def idle_gateway_def del: store_run.simps)
qed

theorem console_grant_usable_witness:
  "\<exists>st' es r gv auth. run_call (\<lambda>_. demo_hash) (Put_Grant (console_form demo_console_session Grant_Instruct)) (demo_io 1 ''u'') demo_empty_grants =
     (st', es, Settled (Inr r)) \<and> store_lookup (\<lambda>_. demo_hash) st' (la_identity auth) = Inr gv \<and>
     validateGrant gv (la_identity auth) ''lead.instruct'' = Some auth"
proof -
  obtain st' es r where p: "run_call (\<lambda>_. demo_hash) (Put_Grant (console_form demo_console_session Grant_Instruct)) (demo_io 1 ''u'') demo_empty_grants =
     (st', es, Settled (Inr r))" using demo_put by blast
  have d: "DSH_ID (io_uuid (demo_io 1 ''u''))" by code_simp
  have f: "field demo_console_form ''session_id'' = JStr ''sess-1''" by (simp add: demo_console_form_def field_Cons)
  have a: "''lead.instruct'' \<in> set (operation_actions Grant_Instruct)" by (simp add: operation_actions_def)
  from console_grant_usable [OF demo_console_named demo_console_call p d demo_bearer f a] p show ?thesis by blast
qed

end
