(* ===== verification/Spec2Isabelle.thy ===== *)
theory Spec2Isabelle
  imports Boundary_Properties Device_Properties Store_Properties Baseline Tool_Properties Agent_Properties Gateway_Properties Docker_Properties Payload_Properties OAuth_Properties Openhands_Properties Console_Properties
begin

text \<open>
  \<^bold>\<open>Remote Ops MCP\<close> is a server that lets a language model operate remote hosts within an allowlist that an owner has
  configured. An MCP client logs in by OAuth and calls tools; a tool checks the target's allowlists and reaches the host
  by SSH or through an agent the owner has paired. On the host an unprivileged execution broker, a root broker and a
  Docker proxy each check again what they are asked. A few semantic services (OpenHands, PostgreSQL verifiers, Paperclip,
  DeepHarness) are reached through narrow operations of their own. This library models these parts and proves that
  the checks hold together.

  \<^bold>\<open>Conventions.\<close> A value of TypeScript that no type checks is a \<open>jval\<close> (a number is \<open>NInt i\<close>, or \<open>NOther s\<close> with its
  text when it is no integer; the operations on the latter are parameters). A string is a list of Latin-1 code units. An object
  or a \<open>Map\<close> with keys that vary is an association list in insertion order, a \<open>throw\<close> is \<open>Inl\<close> of an \<open>exn\<close>, a state is a
  record that is returned updated. The clock, random values and identifiers are arguments. What the code asks of the outside
  (a file system, a socket, an HTTP server, a host) is either an argument or a node of an interaction tree: \<open>prog\<close>
  (tools), \<open>proxy_run\<close> (Docker proxy), \<open>policy_run\<close>, \<open>backend_run\<close>, \<open>relay_run\<close>, \<open>listener_run\<close> (DeepHarness), \<open>oh_run\<close> (OpenHands);
  a property of a tree holds for all answers. Concurrent parts (gateway, grant store, broker clients, process sessions) are
  step functions on the events of the runtime, and their properties hold for every sequence of events.

  \<^bold>\<open>Library.\<close> \<open>Prelude\<close>: error results, timestamps with the truthiness of JavaScript, tables, the lemma collections
  (\<open>step_splits\<close>, \<open>op_unfold\<close> and their like). \<open>Js_Text\<close>: strings, dynamic values, JSON text, character-class regular
  expressions. \<open>Posix_Path\<close>, \<open>Base64\<close>: the library functions the sources use, with their laws.

  \<^bold>\<open>Control plane.\<close>
  \<^item> \<open>Errors\<close>, \<open>Quote\<close>, \<open>Paths\<close>, \<open>Redact\<close> (\<^verbatim>\<open>src/lib/errors.ts\<close>, \<^verbatim>\<open>src/lib/quote.ts\<close>, \<^verbatim>\<open>src/security/*.ts\<close>): error codes,
    shell quoting, path checks, redaction. Quoting is the inverse of a POSIX word lexer; a path that passes a check is below an
    allowed root and no secret (locale \<open>path_guard\<close>, interpreted for every check); redacted output shows no sensitive key.
  \<^item> \<open>Target_Config\<close>, \<open>Targets\<close>, \<open>Baseline\<close> (\<^verbatim>\<open>src/config/targets.ts\<close>, \<^verbatim>\<open>src/config/capability-baseline.ts\<close>): the schema of a
    target, the static and the dynamic registry with the upsert that is all or nothing, the presets.
  \<^item> \<open>Approvals\<close>, \<open>Admin_Approvals\<close> (\<^verbatim>\<open>src/config/approval-utils.ts\<close>, \<^verbatim>\<open>target-approvals.ts\<close>, \<^verbatim>\<open>deepharness-read-approval.ts\<close>,
    \<^verbatim>\<open>managed-admin-approvals.ts\<close>): the approvals in two steps; an approval is consumed once, in time, as it was prepared.
  \<^item> \<open>Ticket\<close>, \<open>Admin_Broker\<close> (\<^verbatim>\<open>src/privileged/*.ts\<close>): root tickets, their byte form and signature, the root broker with its
    replay file. \<open>Boundary_Properties\<close>: a ticket is run once, and only what the host itself allows.
  \<^item> \<open>Store\<close>, \<open>Store_Devices\<close>, \<open>Store_Run\<close> (\<^verbatim>\<open>src/state/store.ts\<close>): all operations on clients, codes, sessions, targets, usage,
    pairings and devices; one step per operation, and what stays true along every run with purges and restarts.
    \<open>Store_Properties\<close>, \<open>Device_Properties\<close>: revocation is final, codes and pairings are used once, tables stay well formed.
  \<^item> \<open>OAuth\<close>, \<open>OAuth_Properties\<close> (\<^verbatim>\<open>src/auth/oauth.ts\<close>): registration, authorization, the two grants, access tokens; a code
    needs the owner's password and its client's verifier, and a login that follows the protocol works.
  \<^item> \<open>Limiter\<close>: the sliding-window limiter of \<^verbatim>\<open>src/index.ts\<close> and three routers.
  \<^item> \<open>Gateway\<close>, \<open>Gateway_Properties\<close> (\<^verbatim>\<open>src/agent/gateway.ts\<close>): the sockets of the agents; an operation is settled once, by its
    device, and a revoked device is cut off.

  \<^bold>\<open>Tools.\<close> \<open>Schema\<close>, \<open>Remote\<close>, \<open>Portainer\<close>, \<open>Tools_Base\<close>, \<open>Tools_Host\<close>, \<open>Tools_Docker\<close>, \<open>Tools_Files\<close>, \<open>Tools_Remote\<close>, \<open>Tools\<close>
  (\<^verbatim>\<open>src/tools/index.ts\<close>, \<^verbatim>\<open>src/server/mcp.ts\<close>, \<^verbatim>\<open>src/portainer/client.ts\<close>): input schemas, every handler as a tree of its
  questions, the list of tools, a call with its audit entry and reply. \<open>Tool_Rules\<close> says what may be asked and what the
  target must grant for it, \<open>Tool_Safety\<close> has one lemma per tool, \<open>Tool_Properties\<close> puts them together.

  \<^bold>\<open>The host.\<close>
  \<^item> \<open>Agent_Ops\<close>, \<open>Agent_Exec\<close>, \<open>Agent_Properties\<close> (\<^verbatim>\<open>src/agent/operations.ts\<close>, \<^verbatim>\<open>*-broker-client.ts\<close>, \<^verbatim>\<open>src/transport.ts\<close>): a
    command line as an operation and back, what an agent spawns, the capture of output, the clients of the brokers.
  \<^item> \<open>Exec_Broker\<close>, \<open>Exec_Properties\<close> (\<^verbatim>\<open>src/exec/broker.ts\<close>): the workspace and the child processes; paths are confined and
    paging through an output ends with all of it.
  \<^item> \<open>Docker_Payloads\<close>, \<open>Docker_Proxy\<close>, \<open>Docker_Properties\<close>, \<open>Payload_Properties\<close> (\<^verbatim>\<open>src/docker/*.ts\<close>): what the proxy
    asks of Docker, whatever it is asked; the stream format; the payloads of the semantic operations.
  \<^item> \<open>Openhands\<close>, \<open>Openhands_Properties\<close> (\<^verbatim>\<open>src/agent/openhands.ts\<close>): the only requests the bridge sends, and the only
    shapes of a reply or an error it lets through.

  \<^bold>\<open>DeepHarness\<close> (\<^verbatim>\<open>integrations/deepharness/*.mjs\<close>, \<^verbatim>\<open>src/agent/deepharness*.ts\<close>, \<^verbatim>\<open>src/admin/deepharness-grants.ts\<close>).
  \<open>Grants\<close>: the store of grants and receipts with its file and queue; \<open>Semantic_Policy\<close>: the gate of the tools;
  \<open>Grant_Properties\<close>: an instruction is accepted once over restarts, a revoked grant refuses, a read is released only under an
  unchanged grant. \<open>Dsh_Mesh\<close>, \<open>Dsh_Bridge\<close>, \<open>Dsh_Relay\<close>: the two ends of the agent mesh, the backend, the relay and its
  socket; \<open>Dsh_Properties\<close>, \<open>Relay_Properties\<close>: each end accepts what the other sends and stays in its own workspace.
  \<open>Dsh_Instruction\<close>: the whole way of an instruction. \<open>Dsh_Console\<close>, \<open>Console_Properties\<close>: the page that grants, the tools, and that
  what is granted is usable by the bearer of the session.

  \<^bold>\<open>Interfaces.\<close> \<open>path_guard\<close> and \<open>secret_guard\<close> (a check of a path) are interpreted on the three checks of \<^verbatim>\<open>paths.ts\<close>;
  \<open>one_shot\<close> (a queue whose entries are acted on once) on the three approval queues; \<open>nonce_guard\<close> (a memory of used nonces)
  on the replay file of the root broker; \<open>lasting\<close> (a state of affairs that no operation of the store but a named few ends)
  on revoked sessions, clients and devices, used codes and switched-off targets. Each interpretation is in the theory of the component
  that provides it. A property that spans components is in the last theory of those it joins; this one joins the approvals
  of the control plane with the root broker.

  \<^bold>\<open>Recursion and bounds.\<close> Every recursion is structural or on the length of what is left of a text, so every function is
  total and none needs fuel. A loop that draws random values until one is free takes the list of its draws, as many as the source
  allows; following the pages of an output is \<open>read_all\<close>, whose termination is proved. The limits of the source (bytes, counts, times) are
  definitions with its values.

  \<^bold>\<open>Parameters.\<close> SHA-256, HMAC, Ed25519, the PKCE hash, \<open>JSON.parse\<close>, \<open>new URL\<close>, UTF-8 decoding, \<open>localeCompare\<close>, \<open>realpath\<close> and
  the other calls of the file system, numbers that are no integers, zod's URL and UUID tests, the script that runs in the Paperclip
  container. A property that needs a law of one of them (a signature that verifies, a digest without collisions, JSON read back) has it
  as a hypothesis and a witness that instantiates it.

  \<^bold>\<open>Not modelled.\<close> Prose: messages and hints of errors, summaries of approvals, pages, metadata documents, descriptions of tools.
  Durations in results and audit entries. Pure I/O: start-up of the processes and express wiring (\<^verbatim>\<open>src/index.ts\<close> but for its limiter,
  the pages of \<^verbatim>\<open>src/admin/router.ts\<close>), the connection pool of ssh2 (\<^verbatim>\<open>src/ssh/pool.ts\<close>), the command line of the agent
  (\<^verbatim>\<open>src/agent/cli.ts\<close>), the append of an audit line. The schema of the environment (\<^verbatim>\<open>src/lib/env.ts\<close>), whose values are
  parameters. Of DeepHarness, the adapters that run inside its own host, the review scripts of the deployment, and the composition that
  only passes the modelled parts to each other. Tests, deployment files and documents. Texts outside Latin-1 are not represented.
\<close>

section \<open>From the approval to the host\<close>

text \<open>C1: The two halves of the managed-admin path fit together: a ticket that the control plane issues for an
  approval is run by the root broker of its device when it arrives within its ninety seconds with its nonce
  unused, if the broker holds the public key of the same secret, allows the program and resolves the directory
  below one of its roots. The broker runs the ticket's program there, and remembers the nonce.\<close>

theorem approved_action_runs:
  assumes "consumeManagedAdminApproval ct rs lit cy nonce req now q = (q', Inr r)"
    and "queue_ok am_id q" "loadRegistry rs = Inr rs" "NONCE_RE nonce"
    and "ed25519_correct (cy_sign cy) ed_public ed_verify"
    and "deriveManagedAdminPublicKeyPem (cy_sha256 cy) ed_public (coalesce (ct_secret ct) []) = Inr (publicKeyPem cfg)"
    and "expectedDevice cfg = tk_device_id (cs_ticket r)"
    and "tk_program (cs_ticket r) \<in> set (PROGRAMS cfg)" "HARD_DENY cfg = MANAGED_ADMIN_HARD_DENY"
    and "cwdAllowed cfg realpath (tk_cwd (cs_ticket r)) = Inr cwd"
    and "now - 30000 \<le> n1" "n1 \<le> now + 90000" "map_of (loadReplay n2 nonce_file) (tk_nonce (cs_ticket r)) = None"
    and "prop_of raw ''ticket'' = ticket_value (cs_ticket r)" "prop_of raw ''signature'' = JStr (cs_signature r)"
  shows "\<exists>nonces. handle_request cfg lit ed_verify realpath True n1 n2 (Some raw) nonce_file = (Some nonces, Ran (cs_ticket r) cwd) \<and>
    map_of nonces (tk_nonce (cs_ticket r)) = Some (Some (now + 90000))"
proof -
  let ?t = "cs_ticket r"
  from consumed_facts [OF assms(1-4)] have ok: "ticket_ok ?t" "tk_program ?t \<notin> set MANAGED_ADMIN_HARD_DENY"
      "tk_issued_at ?t = now" "tk_expires_at ?t = now + 90000"
    and sig: "signManagedAdminTicket lit (cy_sha256 cy) (cy_sign cy) ?t (coalesce (ct_secret ct) []) = Inr (cs_signature r)"
    by blast+
  have n: "normalizeManagedAdminTicket lit (prop_of raw ''ticket'') = Inr ?t"
    unfolding assms(14) by (rule normalize_ticket_value [OF ok(1)])
  have v: "verifyManagedAdminTicket lit ed_verify ?t (str_or_empty (prop_of raw ''signature'')) (publicKeyPem cfg)"
    unfolding assms(15) str_or_empty_JStr by (rule signed_verifies [OF assms(5) sig assms(6)])
  have a: "validateLocalAuthority cfg realpath n1 ?t = Inr cwd"
    using assms(7-12) ok by (simp add: validateLocalAuthority_Inr CLOCK_SKEW_MS_def)
  have c: "consumeNonce True n2 (tk_nonce ?t) (tk_expires_at ?t) nonce_file
      = Inr (Some (AList.update (tk_nonce ?t) (Some (now + 90000)) (loadReplay n2 nonce_file)))"
    using assms(13) ok by (simp add: consumeNonce_Inr coalesce_def truthy_def)
  show ?thesis by (simp add: handle_request_def n v a c update_conv)
qed

definition demo_here :: realpath_fn where
  "demo_here p = Some p"

definition demo_host :: broker_cfg where
  "demo_host = demo_broker\<lparr>publicKeyPem :=
     PKCS8_ED25519_PREFIX @ DOMAIN @ utf8 (coalesce (ct_secret demo_control) [])\<rparr>"

lemma demo_issued:
  "\<exists>q' r. consumeManagedAdminApproval demo_control demo_admin_rs demo_lit demo_crypto demo_nonce demo_consume 720000 demo_admin_queue
     = (q', Inr r) \<and> tk_program (cs_ticket r) = ''df'' \<and> tk_cwd (cs_ticket r) = ''/opt/wandora/ops-workspace'' \<and>
     tk_device_id (cs_ticket r) = ''dev_12345678''"
proof -
  let ?p = "prepareManagedAdminAction demo_control demo_admin_rs demo_lit ''2'' demo_admin_request 710000 []"
  have "(case snd ?p of Inl e \<Rightarrow> False | Inr a \<Rightarrow> am_id a = ''adm_2'' \<and> ac_deviceId (am_action a) = ''dev_12345678'' \<and>
      ac_program (am_action a) = ''df'' \<and> ac_cwd (am_action a) = ''/opt/wandora/ops-workspace'')"
    by code_simp
  then obtain a where p: "?p = (demo_admin_queue, Inr a)" and a: "am_id a = ''adm_2''"
      "ac_deviceId (am_action a) = ''dev_12345678''" "ac_program (am_action a) = ''df''"
      "ac_cwd (am_action a) = ''/opt/wandora/ops-workspace''"
    by (auto simp: demo_admin_queue_def prod_eq_iff split: sum.splits)
  obtain q2 r where c: "consumeManagedAdminApproval demo_control demo_admin_rs demo_lit demo_crypto demo_nonce demo_consume
      720000 demo_admin_queue = (q2, Inr r)" using demo_consumed by blast
  from prepared_consumable [OF p queue_ok_Nil demo_admin_facts(1) c demo_admin_facts(3) demo_match(1,2) demo_match(3) [OF a(1)]
      demo_match(4) [OF a(1)] _ demo_match(5) [OF a(2)]] c a show ?thesis by auto
qed

theorem approved_action_runs_witness:
  "\<exists>t nonces raw. handle_request demo_host demo_lit demo_accepts demo_here True 725000 725001 (Some raw) None
     = (Some nonces, Ran t ''/opt/wandora/ops-workspace'') \<and> tk_program t = ''df''"
proof -
  obtain q' r where c: "consumeManagedAdminApproval demo_control demo_admin_rs demo_lit demo_crypto demo_nonce demo_consume 720000
      demo_admin_queue = (q', Inr r)" and r: "tk_program (cs_ticket r) = ''df''"
      "tk_cwd (cs_ticket r) = ''/opt/wandora/ops-workspace''" "tk_device_id (cs_ticket r) = ''dev_12345678''"
    using demo_issued by blast
  let ?raw = "JObj [(''ticket'', ticket_value (cs_ticket r)), (''signature'', JStr (cs_signature r))]"
  have crypto: "cy_sign demo_crypto = demo_sign" "cy_sha256 demo_crypto = (\<lambda>s. s)"
    by (simp_all add: demo_crypto_def demo_sign_def fun_eq_iff)
  have key: "deriveManagedAdminPublicKeyPem (\<lambda>s. s) (\<lambda>k. k) (coalesce (ct_secret demo_control) []) = Inr (publicKeyPem demo_host)"
    by (simp add: deriveManagedAdminPublicKeyPem_def deriveManagedAdminPrivateKey_def seedFromSecret_def ensure_def
        demo_host_def demo_control_def coalesce_def)
  have "strip_slashes ''/opt/wandora/ops-workspace'' = ''/opt/wandora/ops-workspace''" "strip_slashes ''/opt'' = ''/opt''"
    by code_simp+
  then have cwd: "cwdAllowed demo_host demo_here ''/opt/wandora/ops-workspace'' = Inr ''/opt/wandora/ops-workspace''"
    by (simp add: cwdAllowed_def real_dir_def demo_here_def realRoots_def demo_host_def demo_broker_def below_def ensure_def
        starts_with_iff)
  have "expectedDevice demo_host = tk_device_id (cs_ticket r)" "tk_program (cs_ticket r) \<in> set (PROGRAMS demo_host)"
    "HARD_DENY demo_host = MANAGED_ADMIN_HARD_DENY"
    by (simp_all add: r demo_host_def demo_broker_def)
  moreover have "prop_of ?raw ''ticket'' = ticket_value (cs_ticket r)" "prop_of ?raw ''signature'' = JStr (cs_signature r)"
    by (simp_all add: prop_of_def field_def)
  moreover have "map_of (loadReplay 725001 None) (tk_nonce (cs_ticket r)) = None"
    by (simp add: loadReplay_def coalesce_def keep_def)
  ultimately show ?thesis
    using approved_action_runs [OF c demo_admin_facts(2,1,3), where ed_public = "\<lambda>k. k" and ed_verify = demo_accepts
        and cfg = demo_host and ?n1.0 = 725000 and ?n2.0 = 725001 and nonce_file = None and raw = ?raw
        and realpath = demo_here and cwd = "''/opt/wandora/ops-workspace''"]
      crypto key cwd r demo_ed25519 by auto
qed

end
